(* ===== verification/Prelude.thy ===== *)
theory Prelude
  imports Main "HOL-Library.Word" "HOL-Library.Monad_Syntax"
begin

text \<open>
  Shared vocabulary of the development: Go's machine integers as words, a run-time panic as
  \<^term>\<open>None\<close>, the collections of rewrite rules that move unsigned arithmetic from words to
  natural numbers, and the generic facts on lists and maps that several components use.
\<close>

section \<open>Types\<close>

text \<open>Go's sized integers. \<open>int\<close> and \<open>int64\<close> values are \<^typ>\<open>int\<close> where the code only compares
  them, and are converted explicitly where the code converts.\<close>

type_synonym u16 = "16 word"
type_synonym u32 = "32 word"
type_synonym u64 = "64 word"
type_synonym i32 = "32 word"

text \<open>A computation that may panic (here: integer division by zero, index out of range).\<close>

type_synonym 'a panics = "'a option"

section \<open>Collections of facts\<close>

named_theorems u64_nat \<open>unsigned 64-bit arithmetic read as natural numbers, under no-overflow side conditions\<close>
named_theorems const_defs \<open>definitions of the source's named constants\<close>
named_theorems io_simps \<open>evaluation of effectful operations\<close>

section \<open>Words read as natural numbers\<close>

lemma unat_add_u64 [u64_nat]:
  fixes a b :: u64
  shows "unat a + unat b < 18446744073709551616 \<Longrightarrow> unat (a + b) = unat a + unat b"
  by (simp add: unat_word_ariths)

lemma unat_mult_u64 [u64_nat]:
  fixes a b :: u64
  shows "unat a * unat b < 18446744073709551616 \<Longrightarrow> unat (a * b) = unat a * unat b"
  by (simp add: unat_word_ariths)

lemma unat_sub_u64 [u64_nat]:
  fixes a b :: u64
  shows "unat b \<le> unat a \<Longrightarrow> unat (a - b) = unat a - unat b"
  by (simp add: unat_sub word_le_nat_alt)

lemma unat_div_u64 [u64_nat]:
  fixes a b :: u64
  shows "unat (a div b) = unat a div unat b"
  by (simp add: unat_div)

lemma unat_of_int_u64 [u64_nat]:
  "0 \<le> n \<Longrightarrow> n < 18446744073709551616 \<Longrightarrow> unat (word_of_int n :: u64) = nat n"
  by (simp add: unsigned_of_int take_bit_int_eq_self)

lemma unat_max_u64 [u64_nat]:
  fixes a b :: u64
  shows "unat (max a b) = max (unat a) (unat b)"
  by (simp add: max_def word_le_nat_alt)

lemma unat_bound_u64: "unat (a :: u64) < 18446744073709551616"
  using unsigned_less [of a] by simp

text \<open>A signed 64-bit result read back as unsigned is the word itself.\<close>

lemma of_int_sint_u64 [simp]: "word_of_int (sint (w :: u64)) = w"
  by simp

lemma sint_small_u64:
  assumes "unat (w :: u64) < 9223372036854775808"
  shows "sint w = int (unat w)"
proof -
  have "uint w < 9223372036854775808"
    using assms by (simp only: uint_nat)
  then have "signed_take_bit 63 (uint w) = uint w"
    by (intro signed_take_bit_int_eq_self) (simp_all add: order_trans [OF _ uint_ge_0])
  then show ?thesis
    by (simp add: sint_uint)
qed

section \<open>Natural division\<close>

text \<open>Ceiling division, the idiom \<open>(n + d - 1) / d\<close> of the source.\<close>

definition ceil_div :: "nat \<Rightarrow> nat \<Rightarrow> nat" where
  "ceil_div n d = (n + d - 1) div d"

lemma ceil_div_mono: "m \<le> n \<Longrightarrow> ceil_div m d \<le> ceil_div n d"
  by (simp add: ceil_div_def div_le_mono diff_le_mono)

lemma ceil_div_le_iff:
  assumes "0 < d"
  shows "ceil_div n d \<le> q \<longleftrightarrow> n \<le> q * d"
proof -
  have "ceil_div n d \<le> q \<longleftrightarrow> (n + d - 1) div d < Suc q"
    by (auto simp: ceil_div_def)
  also have "\<dots> \<longleftrightarrow> n + d - 1 < Suc q * d"
    using assms by (simp add: div_less_iff_less_mult)
  also have "\<dots> \<longleftrightarrow> n \<le> q * d"
    using assms by auto
  finally show ?thesis .
qed

lemma ceil_div_upper: "0 < d \<Longrightarrow> n \<le> ceil_div n d * d"
  using ceil_div_le_iff [of d n "ceil_div n d"] by simp

lemma ceil_div_lower: "0 < d \<Longrightarrow> ceil_div n d * d \<le> n + d - 1"
  by (simp add: ceil_div_def)

lemma ceil_div_add_mult: "0 < d \<Longrightarrow> ceil_div (n + q * d) d = ceil_div n d + q"
proof -
  assume d: "0 < d"
  then have eq: "n + q * d + d - 1 = (n + d - 1) + q * d"
    by simp
  have "((n + d - 1) + q * d) div d = q + (n + d - 1) div d"
    using d by (intro div_mult_self1) simp
  then show ?thesis
    unfolding ceil_div_def eq by (simp only: add.commute)
qed

lemma div_le_ceil_div: "0 < d \<Longrightarrow> n div d \<le> ceil_div n d"
  by (simp add: ceil_div_def div_le_mono)

lemma ceil_div_le_Suc_div: "0 < d \<Longrightarrow> ceil_div n d \<le> Suc (n div d)"
proof -
  assume d: "0 < d"
  have "n < Suc (n div d) * d"
    using d by (metis div_less_iff_less_mult lessI)
  then show ?thesis
    using ceil_div_le_iff [OF d, of n "Suc (n div d)"] by simp
qed

section \<open>Bounded ranges\<close>

lemma all_from_Suc:
  "(\<forall>j. i \<le> j \<and> j \<le> n \<longrightarrow> P j) \<longleftrightarrow> (i \<le> n \<longrightarrow> P i) \<and> (\<forall>j. Suc i \<le> j \<and> j \<le> (n :: nat) \<longrightarrow> P j)"
  by (auto simp: Suc_le_eq) (metis le_eq_less_or_eq)

text \<open>A step of less than a full turn never comes back to where it started.\<close>

lemma mod_step:
  fixes a j m :: nat
  assumes "a < m" and "0 < j" and "j < m"
  shows "(a + j) mod m \<noteq> a"
proof (cases "a + j < m")
  case False
  then have "(a + j) mod m = a + j - m"
    using assms by (simp add: le_mod_geq)
  then show ?thesis
    using assms False by linarith
qed (use assms in simp)

text \<open>Every other point of the circle is such a step away.\<close>

lemma mod_reach:
  fixes a b m :: nat
  assumes "a < m" and "b < m" and "a \<noteq> b"
  obtains j where "0 < j" and "j < m" and "(a + j) mod m = b"
proof (cases "a < b")
  case True
  with assms show ?thesis
    by (intro that [of "b - a"]) auto
next
  case False
  with assms show ?thesis
    by (intro that [of "b + m - a"]) auto
qed

end
