(* ===== verification/GoStrings.thy ===== *)
theory GoStrings
  imports Prelude
begin

text \<open>
  The functions of Go's packages \<open>strings\<close>, \<open>strconv\<close> and \<open>path/filepath\<close> the code calls, on ASCII
  strings (a \<^typ>\<open>string\<close> is Go's byte string). Multi-byte white space and case folding are out of
  scope: every string the code inspects is the output of a command-line tool or an address.
\<close>

section \<open>Characters\<close>

definition is_digit :: "char \<Rightarrow> bool" where
  "is_digit c = (48 \<le> (of_char c :: nat) \<and> (of_char c :: nat) \<le> 57)"

definition is_space :: "char \<Rightarrow> bool" where
  "is_space c = ((9 \<le> (of_char c :: nat) \<and> (of_char c :: nat) \<le> 13) \<or> (of_char c :: nat) = 32)"

definition lower_char :: "char \<Rightarrow> char" where
  "lower_char c = (if 65 \<le> (of_char c :: nat) \<and> (of_char c :: nat) \<le> 90
     then char_of ((of_char c :: nat) + 32) else c)"

definition upper_char :: "char \<Rightarrow> char" where
  "upper_char c = (if 97 \<le> (of_char c :: nat) \<and> (of_char c :: nat) \<le> 122
     then char_of ((of_char c :: nat) - 32) else c)"

definition to_lower :: "string \<Rightarrow> string" where
  "to_lower = map lower_char"

definition to_upper :: "string \<Rightarrow> string" where
  "to_upper = map upper_char"

definition newline :: char where
  "newline = CHR 0x0A"

section \<open>Searching\<close>

fun has_prefix :: "string \<Rightarrow> string \<Rightarrow> bool" where
  "has_prefix [] s = True"
| "has_prefix (p # ps) [] = False"
| "has_prefix (p # ps) (c # cs) = (p = c \<and> has_prefix ps cs)"

definition has_suffix :: "string \<Rightarrow> string \<Rightarrow> bool" where
  "has_suffix suf s = has_prefix (rev suf) (rev s)"

text \<open>\<open>strings.Contains(s, sub)\<close>, with the arguments swapped so that the needle comes first.\<close>

fun contains :: "string \<Rightarrow> string \<Rightarrow> bool" where
  "contains sub [] = (sub = [])"
| "contains sub (c # cs) = (has_prefix sub (c # cs) \<or> contains sub cs)"

text \<open>\<open>strings.Index\<close> and \<open>strings.LastIndex\<close> of a one-character string; \<open>None\<close> is -1.\<close>

fun index_of :: "char \<Rightarrow> string \<Rightarrow> nat option" where
  "index_of x [] = None"
| "index_of x (c # cs) = (if c = x then Some 0 else map_option Suc (index_of x cs))"

fun last_index_of :: "char \<Rightarrow> string \<Rightarrow> nat option" where
  "last_index_of x [] = None"
| "last_index_of x (c # cs) =
     (case last_index_of x cs of Some i \<Rightarrow> Some (Suc i) | None \<Rightarrow> if c = x then Some 0 else None)"

section \<open>Splitting and trimming\<close>

text \<open>\<open>strings.Split\<close> with a one-character separator: always at least one part.\<close>

fun split_on :: "char \<Rightarrow> string \<Rightarrow> string list" where
  "split_on x [] = [[]]"
| "split_on x (c # cs) =
     (if c = x then [] # split_on x cs
      else (case split_on x cs of [] \<Rightarrow> [[c]] | p # ps \<Rightarrow> (c # p) # ps))"

text \<open>\<open>strings.SplitN(s, x, 2)\<close>: one part without the separator, two at its first occurrence.\<close>

definition split_n2 :: "char \<Rightarrow> string \<Rightarrow> string list" where
  "split_n2 x s =
     (case index_of x s of None \<Rightarrow> [s] | Some i \<Rightarrow> [take i s, drop (Suc i) s])"

text \<open>\<open>strings.FieldsFunc\<close>: the maximal runs of characters that are not separators.\<close>

fun fields_acc :: "(char \<Rightarrow> bool) \<Rightarrow> string \<Rightarrow> string \<Rightarrow> string list" where
  "fields_acc sep acc [] = (if acc = [] then [] else [rev acc])"
| "fields_acc sep acc (c # cs) =
     (if sep c then (if acc = [] then fields_acc sep [] cs else rev acc # fields_acc sep [] cs)
      else fields_acc sep (c # acc) cs)"

definition fields_func :: "(char \<Rightarrow> bool) \<Rightarrow> string \<Rightarrow> string list" where
  "fields_func sep s = fields_acc sep [] s"

definition fields :: "string \<Rightarrow> string list" where
  "fields = fields_func is_space"

definition trim_func :: "(char \<Rightarrow> bool) \<Rightarrow> string \<Rightarrow> string" where
  "trim_func p s = rev (dropWhile p (rev (dropWhile p s)))"

definition trim_space :: "string \<Rightarrow> string" where
  "trim_space = trim_func is_space"

definition trim_cutset :: "string \<Rightarrow> string \<Rightarrow> string" where
  "trim_cutset cs = trim_func (\<lambda>c. c \<in> set cs)"

section \<open>Decimal numbers\<close>

fun itoa_nat :: "nat \<Rightarrow> string" where
  "itoa_nat n = (if n < 10 then [char_of (48 + n)] else itoa_nat (n div 10) @ [char_of (48 + n mod 10)])"

declare itoa_nat.simps [simp del]

definition itoa :: "int \<Rightarrow> string" where
  "itoa i = (if i < 0 then CHR ''-'' # itoa_nat (nat (- i)) else itoa_nat (nat i))"

fun digits_value :: "nat \<Rightarrow> string \<Rightarrow> nat option" where
  "digits_value acc [] = Some acc"
| "digits_value acc (c # cs) =
     (if is_digit c then digits_value (10 * acc + ((of_char c :: nat) - 48)) cs else None)"

text \<open>\<open>strconv.Atoi\<close> and \<open>strconv.ParseInt(s, 10, 64)\<close>: an optional sign, at least one digit, and a
  value in the range of a 64-bit integer; anything else is an error (\<open>None\<close>).\<close>

definition atoi :: "string \<Rightarrow> int option" where
  "atoi s =
     (let (neg, ds) = (case s of [] \<Rightarrow> (False, []) | c # cs \<Rightarrow>
            if c = CHR ''-'' then (True, cs) else if c = CHR ''+'' then (False, cs) else (False, s))
      in if ds = [] then None
         else (case digits_value 0 ds of
             None \<Rightarrow> None
           | Some n \<Rightarrow>
               if neg then (if n \<le> 2 ^ 63 then Some (- int n) else None)
               else (if n < 2 ^ 63 then Some (int n) else None)))"

text \<open>The value \<open>strconv.Atoi\<close> and \<open>ParseInt\<close> return beside their error, for callers that ignore it: the nearest
  64-bit integer if the number is out of range, 0 otherwise.\<close>

definition parse_int_value :: "string \<Rightarrow> int" where
  "parse_int_value s =
     (case atoi s of
        Some n \<Rightarrow> n
      | None \<Rightarrow>
          (let (neg, ds) = (case s of [] \<Rightarrow> (False, []) | c # cs \<Rightarrow>
             if c = CHR ''-'' then (True, cs) else if c = CHR ''+'' then (False, cs) else (False, s))
           in if ds \<noteq> [] \<and> digits_value 0 ds \<noteq> None then (if neg then - (2 ^ 63) else 2 ^ 63 - 1) else 0))"

section \<open>Paths\<close>

text \<open>\<open>filepath.Clean\<close> of an absolute path, on its components: empty and \<open>.\<close> components vanish and
  \<open>..\<close> removes the component before it.\<close>

fun clean_components :: "string list \<Rightarrow> string list \<Rightarrow> string list" where
  "clean_components acc [] = rev acc"
| "clean_components acc (p # ps) =
     (if p = [] \<or> p = ''.'' then clean_components acc ps
      else if p = ''..'' then clean_components (tl acc) ps
      else clean_components (p # acc) ps)"

definition rooted_path :: "string list \<Rightarrow> string" where
  "rooted_path ps = (if ps = [] then ''/'' else concat (map (\<lambda>p. CHR ''/'' # p) ps))"

text \<open>\<open>filepath.Join\<close> of an absolute first element with further elements.\<close>

definition join_abs :: "string list \<Rightarrow> string" where
  "join_abs elems = rooted_path (clean_components [] (concat (map (split_on (CHR ''/'')) elems)))"

text \<open>\<open>filepath.Clean\<close> of any path and \<open>filepath.Join\<close> of any elements: empty elements are ignored, a relative
  path keeps the \<open>..\<close> it cannot resolve, and the empty relative path is \<open>.\<close>.\<close>

fun clean_relative :: "string list \<Rightarrow> string list \<Rightarrow> string list" where
  "clean_relative acc [] = rev acc"
| "clean_relative acc (p # ps) =
     (if p = [] \<or> p = ''.'' then clean_relative acc ps
      else if p = ''..'' \<and> acc \<noteq> [] \<and> hd acc \<noteq> ''..'' then clean_relative (tl acc) ps
      else clean_relative (p # acc) ps)"

fun join_with :: "string \<Rightarrow> string list \<Rightarrow> string" where
  "join_with sep [] = []"
| "join_with sep [p] = p"
| "join_with sep (p # ps) = p @ sep @ join_with sep ps"

definition clean_path :: "string \<Rightarrow> string" where
  "clean_path s =
     (if s \<noteq> [] \<and> hd s = CHR ''/'' then rooted_path (clean_components [] (split_on (CHR ''/'') s))
      else (let ps = clean_relative [] (split_on (CHR ''/'') s) in if ps = [] then ''.'' else join_with ''/'' ps))"

definition join_path :: "string list \<Rightarrow> string" where
  "join_path elems =
     (let es = filter (\<lambda>e. e \<noteq> []) elems in if es = [] then [] else clean_path (join_with ''/'' es))"

text \<open>\<open>filepath.Base\<close>: the last component after dropping trailing slashes.\<close>

definition path_base :: "string \<Rightarrow> string" where
  "path_base s =
     (if s = [] then ''.''
      else let t = rev (dropWhile (\<lambda>c. c = CHR ''/'') (rev s))
           in if t = [] then ''/''
              else rev (takeWhile (\<lambda>c. c \<noteq> CHR ''/'') (rev t)))"

text \<open>\<open>filepath.Dir\<close>: everything up to the last slash, cleaned.\<close>

definition path_dir :: "string \<Rightarrow> string" where
  "path_dir s = clean_path (rev (dropWhile (\<lambda>c. c \<noteq> CHR ''/'') (rev s)))"

section \<open>Facts about searching\<close>

lemma has_prefix_iff: "has_prefix p s \<longleftrightarrow> (\<exists>t. s = p @ t)"
  by (induction p s rule: has_prefix.induct) auto

lemma has_prefix_append [simp]: "has_prefix p (p @ t)"
  by (auto simp: has_prefix_iff)

lemma contains_iff: "contains sub s \<longleftrightarrow> (\<exists>a b. s = a @ sub @ b)"
proof (induction s)
  case Nil
  then show ?case by auto
next
  case (Cons c cs)
  have "(\<exists>a b. c # cs = a @ sub @ b) \<longleftrightarrow>
        (\<exists>b. c # cs = sub @ b) \<or> (\<exists>a b. cs = a @ sub @ b)"
    by (metis Cons_eq_append_conv append_Cons append_Nil)
  then show ?case
    by (simp add: Cons has_prefix_iff)
qed

lemma contains_middle [simp]: "contains sub (a @ sub @ b)"
  by (auto simp: contains_iff)

lemma to_lower_append: "to_lower (a @ b) = to_lower a @ to_lower b"
  by (simp add: to_lower_def)

lemma contains_append_left: "contains sub s \<Longrightarrow> contains sub (t @ s)"
  unfolding contains_iff by (metis append.assoc)

lemma contains_append_right: "contains sub s \<Longrightarrow> contains sub (s @ t)"
  unfolding contains_iff by (metis append.assoc)

lemma index_of_Some: "index_of x s = Some i \<Longrightarrow> i < length s \<and> s ! i = x \<and> x \<notin> set (take i s)"
proof (induction s arbitrary: i)
  case Nil
  then show ?case by simp
next
  case (Cons c cs)
  then show ?case by (cases i) (auto split: if_splits)
qed

lemma index_of_None: "index_of x s = None \<longleftrightarrow> x \<notin> set s"
  by (induction s) auto

lemma last_index_of_None: "last_index_of x s = None \<longleftrightarrow> x \<notin> set s"
  by (induction s) (auto split: option.splits)

lemma last_index_of_Some:
  "last_index_of x s = Some i \<Longrightarrow> i < length s \<and> s ! i = x \<and> x \<notin> set (drop (Suc i) s)"
proof (induction s arbitrary: i)
  case Nil
  then show ?case by simp
next
  case (Cons c cs)
  then show ?case
    by (auto split: option.splits if_splits simp: last_index_of_None)
qed

lemma index_of_append_notin: "x \<notin> set a \<Longrightarrow> index_of x (a @ x # b) = Some (length a)"
  by (induction a) auto

lemma last_index_of_append_notin: "x \<notin> set b \<Longrightarrow> last_index_of x (a @ x # b) = Some (length a)"
  by (induction a) (auto simp: last_index_of_None [THEN iffD2])

section \<open>Facts about splitting\<close>

lemma split_on_nonempty [simp]: "split_on x s \<noteq> []"
  by (induction s) (auto split: list.splits)

lemma split_on_notin: "x \<notin> set s \<Longrightarrow> split_on x s = [s]"
  by (induction s) auto

lemma split_on_append: "x \<notin> set a \<Longrightarrow> split_on x (a @ x # b) = a # split_on x b"
  by (induction a) auto

lemma split_on_parts: "p \<in> set (split_on x s) \<Longrightarrow> x \<notin> set p"
proof (induction s arbitrary: p)
  case Nil
  then show ?case by simp
next
  case (Cons c cs)
  then show ?case
    by (auto split: if_splits list.splits)
qed

lemma length_split_on: "length (split_on x s) = Suc (count_list s x)"
proof (induction s)
  case Nil
  then show ?case by simp
next
  case (Cons c cs)
  then show ?case
    by (auto split: list.splits)
qed

lemma split_on_one: "split_on x s = [a] \<Longrightarrow> s = a"
  by (induction s arbitrary: a) (auto split: if_splits list.splits)

lemma split_on_two: "split_on x s = [a, b] \<Longrightarrow> s = a @ x # b"
proof (induction s arbitrary: a)
  case (Cons c cs)
  then show ?case
    by (auto split: if_splits list.splits dest: split_on_one)
qed simp

lemma split_n2_append: "x \<notin> set a \<Longrightarrow> split_n2 x (a @ x # b) = [a, b]"
  by (simp add: split_n2_def index_of_append_notin)

lemma split_n2_notin: "x \<notin> set s \<Longrightarrow> split_n2 x s = [s]"
  by (simp add: split_n2_def index_of_None [THEN iffD2])

lemma fields_acc_run:
  "\<forall>c \<in> set run. \<not> sep c \<Longrightarrow> fields_acc sep acc (run @ rest) = fields_acc sep (rev run @ acc) rest"
  by (induction run arbitrary: acc) auto

lemma fields_func_run:
  assumes "\<forall>c \<in> set run. \<not> sep c" and "run \<noteq> []"
  shows "fields_func sep run = [run]"
  using fields_acc_run [OF assms(1), of "[]" "[]"] assms(2) by (simp add: fields_func_def)

lemma fields_func_run_sep:
  assumes "\<forall>c \<in> set run. \<not> sep c" and "run \<noteq> []" and "sep x"
  shows "fields_func sep (run @ x # rest) = run # fields_func sep rest"
  using fields_acc_run [OF assms(1), of "[]" "x # rest"] assms(2,3) by (simp add: fields_func_def)

lemma trim_func_id: "s = [] \<or> (\<not> p (hd s) \<and> \<not> p (last s)) \<Longrightarrow> trim_func p s = s"
  by (auto simp: trim_func_def dropWhile_eq_self_iff [THEN iffD2] hd_rev)

lemma trim_func_ends:
  assumes "trim_func p s \<noteq> []"
  shows "\<not> p (hd (trim_func p s)) \<and> \<not> p (last (trim_func p s))"
proof -
  define a where "a = dropWhile p s"
  define b where "b = dropWhile p (rev a)"
  have b: "trim_func p s = rev b"
    by (simp add: trim_func_def a_def b_def)
  with assms have ne: "b \<noteq> []" by simp
  then have "\<not> p (hd b)"
    by (simp add: b_def hd_dropWhile)
  then have last: "\<not> p (last (rev b))"
    using ne by (simp add: last_rev)
  obtain pre where pre: "rev a = pre @ b"
    unfolding b_def by (metis takeWhile_dropWhile_id)
  then have "a = rev b @ rev pre"
    by (metis rev_append rev_rev_ident)
  then have "hd a = hd (rev b)" and "a \<noteq> []"
    using ne by simp_all
  moreover have "\<not> p (hd a)"
    using \<open>a \<noteq> []\<close> by (simp add: a_def hd_dropWhile)
  ultimately show ?thesis
    using last b by simp
qed

section \<open>Facts about numbers\<close>

lemma of_char_digit [simp]: "d < 10 \<Longrightarrow> (of_char (char_of (48 + d) :: char) :: nat) = 48 + d"
  by simp

lemma is_digit_char_of: "d < 10 \<Longrightarrow> is_digit (char_of (48 + d :: nat))"
  by (simp add: is_digit_def)

lemma itoa_nat_nonempty [simp]: "itoa_nat n \<noteq> []"
  by (subst itoa_nat.simps) simp

lemma itoa_nat_digits: "\<forall>c \<in> set (itoa_nat n). is_digit c"
proof (induction n rule: itoa_nat.induct)
  case (1 n)
  show ?case
  proof (cases "n < 10")
    case True
    then show ?thesis by (simp add: itoa_nat.simps [of n] is_digit_char_of)
  next
    case False
    with "1.IH" show ?thesis by (simp add: itoa_nat.simps [of n] is_digit_char_of)
  qed
qed

lemma digits_value_append:
  "digits_value acc (a @ b) =
     (case digits_value acc a of None \<Rightarrow> None | Some v \<Rightarrow> digits_value v b)"
  by (induction a arbitrary: acc) auto

lemma digits_value_itoa_nat: "digits_value 0 (itoa_nat n) = Some n"
proof (induction n rule: itoa_nat.induct)
  case (1 n)
  show ?case
  proof (cases "n < 10")
    case True
    then show ?thesis by (simp add: itoa_nat.simps [of n] is_digit_char_of)
  next
    case False
    with "1.IH" show ?thesis
      by (simp add: itoa_nat.simps [of n] digits_value_append is_digit_char_of)
  qed
qed

lemma itoa_nat_hd_digit: "is_digit (hd (itoa_nat n))"
  using itoa_nat_digits [of n] by (cases "itoa_nat n") auto

lemma atoi_digits:
  assumes "s \<noteq> []" and "is_digit (hd s)"
  shows "atoi s = (case digits_value 0 s of None \<Rightarrow> None
           | Some n \<Rightarrow> if n < 2 ^ 63 then Some (int n) else None)"
proof -
  obtain c cs where s: "s = c # cs" using assms(1) by (cases s) auto
  have "c \<noteq> CHR ''-''" and "c \<noteq> CHR ''+''"
    using assms(2) by (auto simp: s is_digit_def)
  then show ?thesis by (auto simp: atoi_def s Let_def split: option.splits)
qed

lemma atoi_itoa:
  assumes "- (2 ^ 63) \<le> i" and "i < 2 ^ 63"
  shows "atoi (itoa i) = Some i"
proof (cases "i < 0")
  case True
  then show ?thesis
    using assms by (simp add: atoi_def itoa_def digits_value_itoa_nat)
next
  case False
  then show ?thesis
    using assms by (simp add: itoa_def atoi_digits itoa_nat_hd_digit digits_value_itoa_nat)
qed

lemma itoa_chars: "c \<in> set (itoa i) \<Longrightarrow> is_digit c \<or> c = CHR ''-''"
  using itoa_nat_digits by (auto simp: itoa_def split: if_splits)

lemma itoa_nonempty [simp]: "itoa i \<noteq> []"
  by (simp add: itoa_def)

lemma digit_zero_char: "char_of (48 :: nat) = CHR ''0''"
  by code_simp

lemma itoa_nat_hd_nonzero: "0 < n \<Longrightarrow> hd (itoa_nat n) \<noteq> CHR ''0''"
proof (induction n rule: itoa_nat.induct)
  case (1 n)
  show ?case
  proof (cases "n < 10")
    case True
    have "(of_char (char_of (48 + n) :: char) :: nat) \<noteq> of_char (CHR ''0'')"
      using True "1.prems" by simp
    then have "char_of (48 + n) \<noteq> CHR ''0''"
      by metis
    then show ?thesis using True by (simp add: itoa_nat.simps [of n])
  next
    case False
    then show ?thesis
      using "1.IH" by (simp add: itoa_nat.simps [of n])
  qed
qed

lemma itoa_nat_zero: "itoa_nat 0 = ''0''"
  by (simp add: itoa_nat.simps [of 0] digit_zero_char)

end
