(* ===== verification/GoErrors.thy ===== *)
theory GoErrors
  imports GoStrings
begin

text \<open>
  The errors the code creates and inspects, and their texts. An error is a value: an operation that
  returns \<open>(T, error)\<close> in Go returns a \<open>go_error + 'a\<close> here, with \<^term>\<open>Inl\<close> for a non-nil error.
  The two error structs of \<open>pkg/jsonrpc/types.go\<close> are constructors, because the code asserts on
  their dynamic type.
\<close>

text \<open>
  \<^item> \<open>PlainErr\<close>: \<open>fmt.Errorf\<close>, \<open>errors.New\<close>, and the failures of commands and system calls;
  \<^item> \<open>NotExistErr\<close>: a failure for which \<open>os.IsNotExist\<close> answers true;
  \<^item> \<open>WrapErr\<close>: \<open>errors.Wrap\<close> and \<open>errors.Wrapf\<close>;
  \<^item> \<open>ResponseErr\<close>: \<open>*jsonrpc.ResponseError\<close>, code and message;
  \<^item> \<open>ClientErr\<close>: \<open>jsonrpc.JSONClientError\<close>: id, method, the \<open>%+v\<close> rendering of the parameters, and
    the error it carries;
  \<^item> \<open>GoPanic\<close>: not an error but a run-time panic (here: slice bounds and index out of range), which no
    handler of an error sees and which ends the operation;
  \<^item> \<open>GoExit\<close>: \<open>logrus.Fatalf\<close>, which ends the process without running deferred functions.
\<close>

datatype go_error =
    PlainErr string
  | NotExistErr string
  | WrapErr string go_error
  | ResponseErr int string
  | ClientErr u32 string string go_error
  | GoPanic string
  | GoExit string

text \<open>The method \<open>Error()\<close>.\<close>

fun error_text :: "go_error \<Rightarrow> string" where
  "error_text (PlainErr m) = m"
| "error_text (NotExistErr m) = m"
| "error_text (WrapErr m e) = m @ '': '' @ error_text e"
| "error_text (ResponseErr code msg) =
     ''{\"code\": '' @ itoa code @ '',\"message\": \"'' @ msg @ ''\"}''"
| "error_text (ClientErr i meth ps e) =
     ''error sending message, id '' @ itoa (uint i) @ '', method '' @ meth @ '', params '' @ ps
       @ '': '' @ error_text e"
| "error_text (GoPanic m) = m"
| "error_text (GoExit m) = m"

fun is_panic :: "go_error \<Rightarrow> bool" where
  "is_panic (GoPanic m) = True"
| "is_panic (GoExit m) = True"
| "is_panic _ = False"

text \<open>\<open>os.IsNotExist\<close> looks at the error itself and not at what it wraps.\<close>

fun is_not_exist :: "go_error \<Rightarrow> bool" where
  "is_not_exist (NotExistErr m) = True"
| "is_not_exist _ = False"

text \<open>The texts \<open>pkg/types/types.go\<close> searches errors for.\<close>

definition ErrorMessageCannotFindValidNvmeDevice :: string where
  "ErrorMessageCannotFindValidNvmeDevice = ''cannot find a valid NVMe device''"

definition ErrorMessageDeviceOrResourceBusy :: string where
  "ErrorMessageDeviceOrResourceBusy = ''device or resource busy''"

definition ErrorMessageNoSuchFileOrDirectory :: string where
  "ErrorMessageNoSuchFileOrDirectory = ''no such file or directory''"

definition ErrorIsDeviceOrResourceBusy :: "go_error \<Rightarrow> bool" where
  "ErrorIsDeviceOrResourceBusy err =
     contains ErrorMessageDeviceOrResourceBusy (to_lower (error_text err))"

definition ErrorIsValidNvmeDeviceNotFound :: "go_error \<Rightarrow> bool" where
  "ErrorIsValidNvmeDeviceNotFound err =
     contains ErrorMessageCannotFindValidNvmeDevice (error_text err)"

text \<open>Wrapping keeps the text of the wrapped error, so a text search still finds it.\<close>

lemma contains_wrapped [simp]: "contains s (error_text e) \<Longrightarrow> contains s (error_text (WrapErr m e))"
  unfolding error_text.simps by (intro contains_append_left)

lemma ErrorIsDeviceOrResourceBusy_wrap:
  "ErrorIsDeviceOrResourceBusy e \<Longrightarrow> ErrorIsDeviceOrResourceBusy (WrapErr m e)"
  unfolding ErrorIsDeviceOrResourceBusy_def error_text.simps to_lower_append
  by (intro contains_append_left)

lemma ErrorIsValidNvmeDeviceNotFound_wrap:
  "ErrorIsValidNvmeDeviceNotFound e \<Longrightarrow> ErrorIsValidNvmeDeviceNotFound (WrapErr m e)"
  unfolding ErrorIsValidNvmeDeviceNotFound_def error_text.simps
  by (intro contains_append_left)

end
