(* ===== verification/EcGeometry.thy ===== *)
theory EcGeometry
  imports GoErrors
begin

text \<open>
  The sizing of erasure-coded volumes, \<open>pkg/spdk/types/ec_geometry.go\<close>: the front reservation of a
  base disk, the metadata a logical volume store carves out of its device, the size of a shard and
  the usable size of the array. All arithmetic is on 64-bit words, as in the source; a division by a
  zero strip size is a panic, \<^term>\<open>None\<close>.

  The second half reads the word functions as natural-number functions where nothing overflows
  (volumes up to 1 EiB, at most 65536 data chunks, the nine valid strip sizes).
\<close>

section \<open>Constants\<close>

definition ecWibHeaderBytes :: u64 where [const_defs]: "ecWibHeaderBytes = 24"
definition ecBitmapHeaderBytes :: u64 where [const_defs]: "ecBitmapHeaderBytes = 40"
definition ecCRCBytes :: u64 where [const_defs]: "ecCRCBytes = 4"
definition ecWibRegionStripes :: u64 where [const_defs]: "ecWibRegionStripes = 1024"
definition ecWibStrips :: u64 where [const_defs]: "ecWibStrips = 2"
definition ecCommitRecordStrips :: u64 where [const_defs]: "ecCommitRecordStrips = 2"

definition EcLvstoreClusterSize :: u64 where [const_defs]: "EcLvstoreClusterSize = 4 * 1024 * 1024"
definition ecLvstoreMdRatioBase :: u64 where [const_defs]: "ecLvstoreMdRatioBase = 100"
definition EcLvstoreMaxGrowthFactor :: u64 where [const_defs]: "EcLvstoreMaxGrowthFactor = 10"

definition EcLvstoreMdPagesPerClusterRatio :: u64 where
  [const_defs]: "EcLvstoreMdPagesPerClusterRatio = ecLvstoreMdRatioBase * EcLvstoreMaxGrowthFactor"

definition EcLvstoreMaxCreationSize :: u64 where
  [const_defs]: "EcLvstoreMaxCreationSize =
     (4294967295 div (EcLvstoreMdPagesPerClusterRatio div ecLvstoreMdRatioBase)) * EcLvstoreClusterSize"

definition ecLvstoreMdPageSize :: u64 where [const_defs]: "ecLvstoreMdPageSize = 4096"

definition ecLvstorePagesPerCluster :: u64 where
  [const_defs]: "ecLvstorePagesPerCluster = EcLvstoreClusterSize div ecLvstoreMdPageSize"

definition ecBsMdMaskHeaderBytes :: u64 where [const_defs]: "ecBsMdMaskHeaderBytes = 8"
definition ecShardSizeAlignment :: u64 where [const_defs]: "ecShardSizeAlignment = 2 * 1024 * 1024"

section \<open>The code\<close>

definition EcFrontReservationStrips :: "u32 \<Rightarrow> u64 panics" where
  "EcFrontReservationStrips stripSizeKB =
     (let stripBytes = ucast stripSizeKB * 1024;
          wibPayload = stripBytes - ecWibHeaderBytes - ecCRCBytes;
          maxStripes = (wibPayload div 8) * 64 * ecWibRegionStripes;
          blobBytes = ecBitmapHeaderBytes + ((maxStripes + 63) div 64) * 8
      in if stripBytes = 0 then None
         else let slotStrips = (blobBytes + ecCRCBytes + stripBytes - 1) div stripBytes
              in Some (slotStrips * 2 + ecWibStrips + ecCommitRecordStrips))"

definition EcFrontReservationBytes :: "u32 \<Rightarrow> u64 panics" where
  "EcFrontReservationBytes stripSizeKB =
     do { strips \<leftarrow> EcFrontReservationStrips stripSizeKB;
          Some (strips * ucast stripSizeKB * 1024) }"

definition lvstoreMaskPages :: "u64 \<Rightarrow> u64" where
  "lvstoreMaskPages bits =
     (ecBsMdMaskHeaderBytes + (bits + 7) div 8 + ecLvstoreMdPageSize - 1) div ecLvstoreMdPageSize"

definition lvstoreMetadataBytesFor :: "u64 \<Rightarrow> u64" where
  "lvstoreMetadataBytesFor deviceBytes =
     (let clusters = (deviceBytes + EcLvstoreClusterSize - 1) div EcLvstoreClusterSize;
          mdLen = (clusters * EcLvstoreMdPagesPerClusterRatio + ecLvstoreMdRatioBase - 1)
                    div ecLvstoreMdRatioBase;
          mdPages = 1 + lvstoreMaskPages mdLen
                    + max (lvstoreMaskPages clusters) (lvstoreMaskPages mdLen)
                    + lvstoreMaskPages mdLen + mdLen;
          mdClusters = (mdPages + ecLvstorePagesPerCluster - 1) div ecLvstorePagesPerCluster
      in mdClusters * EcLvstoreClusterSize)"

text \<open>The loop of \<open>lvstoreMetadataBytes\<close>. It stops for every input, because the estimate grows in each
  round and is a 64-bit number.\<close>

function lvstoreMetadata_loop :: "u64 \<Rightarrow> u64 \<Rightarrow> u64" where
  "lvstoreMetadata_loop dataBytes meta =
     (let next_meta = lvstoreMetadataBytesFor (dataBytes + meta)
      in if next_meta \<le> meta then meta else lvstoreMetadata_loop dataBytes next_meta)"
  by pat_completeness auto
termination
proof (relation "measure (\<lambda>(dataBytes, meta). 18446744073709551616 - unat meta)")
  fix dataBytes meta n :: u64
  assume "\<not> n \<le> meta"
  then have "unat meta < unat n"
    by (simp add: word_le_nat_alt)
  then show "((dataBytes, n), dataBytes, meta)
      \<in> measure (\<lambda>(dataBytes, meta). 18446744073709551616 - unat meta)"
    using unat_bound_u64 [of n] by simp
qed simp

declare lvstoreMetadata_loop.simps [simp del]

definition lvstoreMetadataBytes :: "u64 \<Rightarrow> u64" where
  "lvstoreMetadataBytes dataBytes =
     lvstoreMetadata_loop dataBytes (lvstoreMetadataBytesFor dataBytes) + EcLvstoreClusterSize"

text \<open>\<open>volumeSize\<close>, \<open>k\<close> and \<open>stripSizeKB\<close> are Go's signed 64-bit integers; the conversions are the
  source's.\<close>

definition ComputeShardSize :: "int \<Rightarrow> int \<Rightarrow> int \<Rightarrow> int panics" where
  "ComputeShardSize volumeSize k stripSizeKB =
     (if volumeSize \<le> 0 \<or> k \<le> 0 then Some volumeSize
      else let backing = word_of_int volumeSize + lvstoreMetadataBytes (word_of_int volumeSize)
           in do { reservation \<leftarrow> EcFrontReservationBytes (word_of_int stripSizeKB);
                   let perDisk = (backing + word_of_int k - 1) div word_of_int k + reservation;
                   Some (sint ((perDisk + ecShardSizeAlignment - 1) div ecShardSizeAlignment
                                 * ecShardSizeAlignment)) })"

definition EcUsableSize :: "int \<Rightarrow> int \<Rightarrow> int \<Rightarrow> u64 panics" where
  "EcUsableSize volumeSize k stripSizeKB =
     (if volumeSize \<le> 0 \<or> k \<le> 0 then Some 0
      else do { size \<leftarrow> ComputeShardSize volumeSize k stripSizeKB;
                let shard = word_of_int size;
                reservation \<leftarrow> EcFrontReservationBytes (word_of_int stripSizeKB);
                Some ((shard - reservation) * word_of_int k) })"

end
