(* ===== verification/EcSizing.thy ===== *)
theory EcSizing
  imports EcGeometry
begin

text \<open>
  The sizing functions of \<open>EcGeometry\<close> on natural numbers, the refinement of the word functions to
  them where nothing overflows, and the arithmetic facts the sizing properties rest on. The bounds:
  volumes up to 1 EiB (\<open>2 ^ 60\<close> bytes), at most 65536 data chunks, a valid strip size.
\<close>

section \<open>Reference functions on natural numbers\<close>

abbreviation cluster_bytes :: nat where "cluster_bytes \<equiv> 4194304"
abbreviation align_bytes :: nat where "align_bytes \<equiv> 2097152"

definition mask_pages :: "nat \<Rightarrow> nat" where
  "mask_pages bits = ceil_div (8 + ceil_div bits 8) 4096"

text \<open>The metadata pages of a store of \<open>c\<close> clusters at ten pages per cluster: super block, three masks
  (the cluster mask is sized like the page mask) and the pages themselves.\<close>

definition md_pages :: "nat \<Rightarrow> nat" where
  "md_pages c = 1 + 3 * mask_pages (10 * c) + 10 * c"

definition md_clusters :: "nat \<Rightarrow> nat" where
  "md_clusters c = ceil_div (md_pages c) 1024"

definition metadata_for :: "nat \<Rightarrow> nat" where
  "metadata_for d = md_clusters (ceil_div d cluster_bytes) * cluster_bytes"

lemma mask_pages_mono: "a \<le> b \<Longrightarrow> mask_pages a \<le> mask_pages b"
  by (simp add: mask_pages_def ceil_div_mono)

lemma md_pages_mono: "a \<le> b \<Longrightarrow> md_pages a \<le> md_pages b"
  using mask_pages_mono [of "10 * a" "10 * b"] by (simp add: md_pages_def)

lemma md_clusters_mono: "a \<le> b \<Longrightarrow> md_clusters a \<le> md_clusters b"
  by (simp add: md_clusters_def ceil_div_mono md_pages_mono)

lemma metadata_for_mono: "a \<le> b \<Longrightarrow> metadata_for a \<le> metadata_for b"
  by (simp add: metadata_for_def md_clusters_mono ceil_div_mono)

lemma mask_pages_upper: "mask_pages b \<le> b div 32768 + 2"
  unfolding mask_pages_def ceil_div_def by arith

lemma mask_pages_step: "mask_pages (10 * Suc c) \<le> mask_pages (10 * c) + 1"
  unfolding mask_pages_def ceil_div_def by (rule ord_le_eq_trans [of _ "((8 + (10 * c + 8 - 1) div 8 + 4096 - 1) + 4096) div 4096"]) (auto intro!: div_le_mono)

lemma md_clusters_upper: "md_clusters c \<le> c div 64 + 2"
proof -
  have "md_pages c \<le> 11 * c + 16"
    using mask_pages_upper [of "10 * c"] unfolding md_pages_def by linarith
  then have "md_clusters c \<le> ceil_div (11 * c + 16) 1024"
    by (simp add: md_clusters_def ceil_div_mono)
  also have "\<dots> \<le> c div 64 + 2"
    unfolding ceil_div_def by linarith
  finally show ?thesis .
qed

text \<open>One more cluster costs at most one more cluster of metadata, so a larger device never leaves
  less room for data.\<close>

lemma md_clusters_step: "md_clusters (Suc c) \<le> Suc (md_clusters c)"
proof -
  have "md_pages (Suc c) \<le> md_pages c + 1024"
    using mask_pages_step [of c] by (simp add: md_pages_def)
  then have "md_clusters (Suc c) \<le> ceil_div (md_pages c + 1 * 1024) 1024"
    unfolding md_clusters_def by (intro ceil_div_mono) simp
  also have "\<dots> = Suc (md_clusters c)"
    unfolding md_clusters_def by (subst ceil_div_add_mult) simp_all
  finally show ?thesis .
qed

lemma data_clusters_mono: "a \<le> b \<Longrightarrow> a - md_clusters a \<le> b - md_clusters b"
proof (induction b)
  case 0
  then show ?case by simp
next
  case (Suc b)
  then show ?case
    using md_clusters_step [of b] by (cases "a = Suc b") (auto simp: le_Suc_eq)
qed

section \<open>The word functions compute the reference functions\<close>

lemma unat_lvstoreMaskPages [u64_nat]:
  assumes "unat bits < 1152921504606846976"
  shows "unat (lvstoreMaskPages bits) = mask_pages (unat bits)"
proof -
  have "unat ((bits + 7) div 8) = ceil_div (unat bits) 8"
    using assms by (simp add: u64_nat ceil_div_def)
  moreover have "ceil_div (unat bits) 8 < 1152921504606846976"
    using assms unfolding ceil_div_def by linarith
  ultimately show ?thesis
    by (simp add: lvstoreMaskPages_def const_defs u64_nat mask_pages_def ceil_div_def)
qed

lemma unat_lvstoreMetadataBytesFor [u64_nat]:
  assumes "unat d \<le> 4611686018427387904"
  shows "unat (lvstoreMetadataBytesFor d) = metadata_for (unat d)"
proof -
  define c where "c = (d + EcLvstoreClusterSize - 1) div EcLvstoreClusterSize"
  have c: "unat c = ceil_div (unat d) cluster_bytes"
    using assms by (simp add: c_def const_defs u64_nat ceil_div_def)
  have c_small: "unat c < 2199023255552"
    using assms unfolding c ceil_div_def by linarith
  define l where "l = (c * EcLvstoreMdPagesPerClusterRatio + ecLvstoreMdRatioBase - 1) div ecLvstoreMdRatioBase"
  have l: "unat l = 10 * unat c"
    using c_small by (simp add: l_def const_defs u64_nat)
  have masks: "unat (lvstoreMaskPages c) \<le> unat (lvstoreMaskPages l)"
    using c_small l by (simp add: u64_nat mask_pages_mono)
  have mask_l: "unat (lvstoreMaskPages l) = mask_pages (10 * unat c)"
    using c_small l by (simp add: u64_nat)
  have mask_small: "mask_pages (10 * unat c) < 1073741824"
    using mask_pages_upper [of "10 * unat c"] c_small by linarith
  have max_l: "unat (max (lvstoreMaskPages c) (lvstoreMaskPages l)) = mask_pages (10 * unat c)"
    by (metis masks mask_l max_absorb2 unat_max_u64)
  define p where "p = 1 + lvstoreMaskPages l + max (lvstoreMaskPages c) (lvstoreMaskPages l)
          + lvstoreMaskPages l + l"
  have p: "unat p = md_pages (unat c)"
    unfolding p_def
    using c_small mask_small
    by (simp add: u64_nat l mask_l max_l md_pages_def del: unat_max_u64)
  have p_small: "md_pages (unat c) < 35184372088832"
    using mask_small c_small by (simp add: md_pages_def)
  have m: "unat ((p + ecLvstorePagesPerCluster - 1) div ecLvstorePagesPerCluster) = md_clusters (unat c)"
    using p_small by (simp add: u64_nat const_defs p md_clusters_def ceil_div_def)
  moreover have "md_clusters (unat c) < 68719476736"
    using md_clusters_upper [of "unat c"] c_small by linarith
  moreover have "unat EcLvstoreClusterSize = cluster_bytes"
    by (simp add: const_defs)
  ultimately show ?thesis
    unfolding lvstoreMetadataBytesFor_def Let_def c_def [symmetric] l_def [symmetric]
      p_def [symmetric]
    by (simp add: unat_mult_u64 metadata_for_def c)
qed

section \<open>The metadata fixed point\<close>

text \<open>When the loop stops, its result covers the metadata of the data together with itself.\<close>

lemma lvstoreMetadata_loop_closed:
  "lvstoreMetadataBytesFor (d + lvstoreMetadata_loop d m) \<le> lvstoreMetadata_loop d m"
proof (induction d m rule: lvstoreMetadata_loop.induct)
  case (1 d m)
  then show ?case
    by (subst (1 2) lvstoreMetadata_loop.simps) (simp add: Let_def)
qed

text \<open>It never passes a budget that already covers itself, so it is the least such budget.\<close>

lemma lvstoreMetadata_loop_least:
  assumes "unat d + budget \<le> 4611686018427387904"
    and "metadata_for (unat d + budget) \<le> budget" and "unat m \<le> budget"
  shows "unat (lvstoreMetadata_loop d m) \<le> budget"
  using assms
proof (induction d m rule: lvstoreMetadata_loop.induct)
  case (1 d m)
  have "unat (d + m) = unat d + unat m"
    using "1.prems" by (simp add: u64_nat)
  then have "unat (lvstoreMetadataBytesFor (d + m)) = metadata_for (unat d + unat m)"
    using "1.prems" by (simp add: u64_nat)
  also have "\<dots> \<le> budget"
    using metadata_for_mono [of "unat d + unat m" "unat d + budget"] "1.prems" by linarith
  finally show ?case
    using "1.IH" "1.prems" by (subst lvstoreMetadata_loop.simps) (simp add: Let_def)
qed

text \<open>The budget for \<open>v\<close> bytes of data, without the spare cluster.\<close>

definition md_budget :: "nat \<Rightarrow> nat" where
  "md_budget v = unat (lvstoreMetadata_loop (of_nat v) (lvstoreMetadataBytesFor (of_nat v)))"

lemma unat_of_nat_u64 [u64_nat]: "v < 18446744073709551616 \<Longrightarrow> unat (of_nat v :: u64) = v"
  by (simp add: unsigned_of_nat take_bit_nat_eq_self)

lemma md_budget_least:
  assumes "v + budget \<le> 4611686018427387904" and "metadata_for (v + budget) \<le> budget"
  shows "md_budget v \<le> budget"
proof -
  have v: "unat (of_nat v :: u64) = v"
    using assms(1) by (simp add: u64_nat)
  have "metadata_for v \<le> budget"
    using metadata_for_mono [of v "v + budget"] assms(2) by linarith
  then show ?thesis
    unfolding md_budget_def using assms v
    by (intro lvstoreMetadata_loop_least) (simp_all add: u64_nat)
qed

lemma md_budget_upper:
  assumes "v \<le> 1152921504606846976"
  shows "md_budget v \<le> v div 32 + 20971520"
proof -
  define n where "n = ceil_div v cluster_bytes"
  define q where "q = n div 32 + 4"
  have n_le: "n * cluster_bytes \<le> v + 4194303"
    using ceil_div_lower [of cluster_bytes v] by (simp add: n_def)
  have a_le: "n div 32 * 32 \<le> n" and v_lt: "v < v div 32 * 32 + 32"
    by simp_all
  have q: "q * cluster_bytes \<le> v div 32 + 20971520"
    using n_le a_le v_lt unfolding q_def by (simp add: algebra_simps)
  have md_q: "md_clusters (n + q) \<le> q"
    using md_clusters_upper [of "n + q"] unfolding q_def by arith
  have "metadata_for (v + q * cluster_bytes)
      = md_clusters (n + q) * cluster_bytes"
    by (simp add: metadata_for_def ceil_div_add_mult n_def)
  also have "\<dots> \<le> q * cluster_bytes"
    using md_q by (intro mult_right_mono) simp_all
  finally have "md_budget v \<le> q * cluster_bytes"
    using assms q by (intro md_budget_least) auto
  with q show ?thesis by linarith
qed

lemma md_budget_closed:
  assumes "v \<le> 1152921504606846976"
  shows "metadata_for (v + md_budget v) \<le> md_budget v"
proof -
  let ?l = "lvstoreMetadata_loop (of_nat v) (lvstoreMetadataBytesFor (of_nat v))"
  have sum: "unat (of_nat v + ?l) = v + md_budget v"
    using assms md_budget_upper [OF assms] by (simp add: u64_nat md_budget_def)
  have "unat (lvstoreMetadataBytesFor (of_nat v + ?l)) \<le> md_budget v"
    using lvstoreMetadata_loop_closed [of "of_nat v" "lvstoreMetadataBytesFor (of_nat v)"]
    by (simp add: word_le_nat_alt md_budget_def)
  then show ?thesis
    using sum assms md_budget_upper [OF assms] by (simp add: unat_lvstoreMetadataBytesFor)
qed

lemma md_budget_mono:
  assumes "v \<le> w" and "w \<le> 1152921504606846976"
  shows "md_budget v \<le> md_budget w"
proof (rule md_budget_least)
  show "v + md_budget w \<le> 4611686018427387904"
    using assms md_budget_upper [OF assms(2)] by linarith
  show "metadata_for (v + md_budget w) \<le> md_budget w"
    using metadata_for_mono [of "v + md_budget w" "w + md_budget w"] assms(1)
      md_budget_closed [OF assms(2)] by linarith
qed

lemma unat_lvstoreMetadataBytes [u64_nat]:
  assumes "unat d \<le> 1152921504606846976"
  shows "unat (lvstoreMetadataBytes d) = md_budget (unat d) + cluster_bytes"
proof -
  have "unat (lvstoreMetadata_loop d (lvstoreMetadataBytesFor d)) = md_budget (unat d)"
    by (simp add: md_budget_def)
  then show ?thesis
    unfolding lvstoreMetadataBytes_def using md_budget_upper [OF assms] assms
    by (simp add: u64_nat const_defs)
qed

end
