(* ===== verification/EcShard.thy ===== *)
theory EcShard
  imports EcSizing
begin

text \<open>
  The size of a shard and what it guarantees. A shard is sized from the volume, its metadata budget
  and the front reservation; the properties replay what SPDK does with the result (the array
  geometry, then the store's metadata carve, as \<open>pkg/spdk/types/ec_geometry_test.go\<close> does) and show
  that the volume always fits.
\<close>

section \<open>The front reservation\<close>

definition valid_strips :: "int list" where
  "valid_strips = [4, 8, 16, 32, 64, 128, 256, 512, 1024]"

definition front_strips :: "int \<Rightarrow> nat" where
  "front_strips s = (if s = 4 then 2038 else if s = 8 then 2046 else if s = 16 then 2050 else 2052)"

definition front_bytes :: "int \<Rightarrow> nat" where
  "front_bytes s = front_strips s * nat s * 1024"

lemma EcFrontReservationStrips_valid:
  "List.member valid_strips s \<Longrightarrow>
     EcFrontReservationStrips (word_of_int s) = Some (of_nat (front_strips s))"
  by (auto simp: valid_strips_def front_strips_def EcFrontReservationStrips_def const_defs Let_def)

lemma EcFrontReservationBytes_valid:
  "List.member valid_strips s \<Longrightarrow>
     EcFrontReservationBytes (word_of_int s) = Some (of_nat (front_bytes s))"
  by (auto simp: valid_strips_def EcFrontReservationBytes_def EcFrontReservationStrips_valid
      front_strips_def front_bytes_def)

lemma front_bytes_bound: "List.member valid_strips s \<Longrightarrow> front_bytes s \<le> 2151677952"
  by (auto simp: valid_strips_def front_strips_def front_bytes_def)

lemma strip_divides:
  assumes "List.member valid_strips s"
  shows "nat s * 1024 dvd align_bytes" and "nat s * 1024 dvd front_bytes s"
  using assms by (auto simp: valid_strips_def front_bytes_def mult.assoc)

section \<open>The shard size on natural numbers\<close>

definition backing :: "nat \<Rightarrow> nat" where
  "backing v = v + md_budget v + cluster_bytes"

definition shard_bytes :: "nat \<Rightarrow> nat \<Rightarrow> nat \<Rightarrow> nat" where
  "shard_bytes v k r = ceil_div (ceil_div (backing v) k + r) align_bytes * align_bytes"

definition usable_bytes :: "nat \<Rightarrow> nat \<Rightarrow> nat \<Rightarrow> nat" where
  "usable_bytes v k r = (shard_bytes v k r - r) * k"

text \<open>The sizes the refinement covers.\<close>

definition sizable :: "int \<Rightarrow> int \<Rightarrow> int \<Rightarrow> bool" where
  "sizable volumeSize k stripSizeKB \<longleftrightarrow>
     0 < volumeSize \<and> volumeSize \<le> 1152921504606846976 \<and> 0 < k \<and> k \<le> 65536
     \<and> List.member valid_strips stripSizeKB"

lemma backing_upper: "v \<le> 1152921504606846976 \<Longrightarrow> backing v \<le> v + v div 32 + 25165824"
  using md_budget_upper [of v] by (simp add: backing_def)

lemma backing_mono: "v \<le> w \<Longrightarrow> w \<le> 1152921504606846976 \<Longrightarrow> backing v \<le> backing w"
  using md_budget_mono [of v w] by (simp add: backing_def)

lemma ceil_div_le_self: "0 < k \<Longrightarrow> 0 < n \<Longrightarrow> ceil_div n k \<le> n"
  by (simp add: ceil_div_le_iff)

lemma shard_bytes_lower: "ceil_div (backing v) k + r \<le> shard_bytes v k r"
  unfolding shard_bytes_def by (rule ceil_div_upper) simp

lemma shard_bytes_upper: "shard_bytes v k r \<le> ceil_div (backing v) k + r + 2097151"
  using ceil_div_lower [of align_bytes "ceil_div (backing v) k + r"]
  by (simp add: shard_bytes_def)

lemma usable_bytes_lower:
  assumes "0 < k" shows "backing v \<le> usable_bytes v k r"
proof -
  have "backing v \<le> ceil_div (backing v) k * k"
    by (rule ceil_div_upper [OF assms])
  also have "\<dots> \<le> usable_bytes v k r"
    unfolding usable_bytes_def using shard_bytes_lower [of v k r] by (intro mult_right_mono) auto
  finally show ?thesis .
qed

lemma usable_bytes_upper:
  assumes "0 < k" shows "usable_bytes v k r \<le> backing v + 2097152 * k"
proof -
  have "usable_bytes v k r \<le> (ceil_div (backing v) k + 2097151) * k"
    unfolding usable_bytes_def using shard_bytes_upper [of v k r] by (intro mult_right_mono) auto
  also have "\<dots> \<le> backing v + 2097152 * k"
    using ceil_div_lower [OF assms, of "backing v"] by (simp add: algebra_simps)
  finally show ?thesis .
qed

lemma usable_bytes_mono:
  assumes "v \<le> w" and "w \<le> 1152921504606846976"
  shows "usable_bytes v k r \<le> usable_bytes w k r"
proof -
  have "shard_bytes v k r \<le> shard_bytes w k r"
    unfolding shard_bytes_def using backing_mono [OF assms]
    by (intro mult_right_mono ceil_div_mono add_right_mono) simp_all
  then show ?thesis
    unfolding usable_bytes_def by (intro mult_right_mono diff_le_mono) simp_all
qed

section \<open>The word functions compute them\<close>

lemma ComputeShardSize_nat:
  assumes "sizable V k s"
  shows "ComputeShardSize V k s = Some (int (shard_bytes (nat V) (nat k) (front_bytes s)))"
proof -
  note bounds = assms [unfolded sizable_def]
  let ?r = "of_nat (front_bytes s) :: u64"
  define B where "B = (word_of_int V + lvstoreMetadataBytes (word_of_int V) :: u64)"
  have v: "unat (word_of_int V :: u64) = nat V" and k: "unat (word_of_int k :: u64) = nat k"
    using bounds by (simp_all add: u64_nat)
  have V_small: "nat V \<le> 1152921504606846976" and K: "1 \<le> nat k" "nat k \<le> 65536"
    using bounds by linarith+
  have B_small: "backing (nat V) < 2305843009213693952"
    using backing_upper [OF V_small] V_small by linarith
  have "unat (lvstoreMetadataBytes (word_of_int V)) = md_budget (nat V) + cluster_bytes"
    using V_small by (subst unat_lvstoreMetadataBytes) (simp_all only: v)
  then have B: "unat B = backing (nat V)"
    unfolding B_def using B_small by (subst unat_add_u64) (simp_all add: v backing_def)
  have r: "unat ?r = front_bytes s" and r_small: "front_bytes s \<le> 2151677952"
    using front_bytes_bound [of s] bounds by (simp_all add: u64_nat)
  define per where "per = (B + word_of_int k - 1) div word_of_int k + ?r"
  have div_small: "ceil_div (backing (nat V)) (nat k) \<le> backing (nat V)"
    using bounds by (intro ceil_div_le_self) (auto simp: backing_def)
  have "unat ((B + word_of_int k - 1) div word_of_int k) = ceil_div (backing (nat V)) (nat k)"
    using K B_small by (simp add: u64_nat k B ceil_div_def)
  then have per: "unat per = ceil_div (backing (nat V)) (nat k) + front_bytes s"
    using div_small B_small r_small by (simp add: per_def u64_nat r)
  define sh where "sh = (per + ecShardSizeAlignment - 1) div ecShardSizeAlignment * ecShardSizeAlignment"
  have sh_small: "shard_bytes (nat V) (nat k) (front_bytes s) < 4611686018427387904"
    using shard_bytes_upper [of "nat V" "nat k" "front_bytes s"] div_small B_small r_small by linarith
  have "unat ((per + ecShardSizeAlignment - 1) div ecShardSizeAlignment) = ceil_div (unat per) align_bytes"
    using per div_small B_small r_small by (simp add: u64_nat const_defs ceil_div_def)
  then have sh: "unat sh = shard_bytes (nat V) (nat k) (front_bytes s)"
    unfolding sh_def using sh_small per
    by (subst unat_mult_u64) (simp_all add: const_defs shard_bytes_def)
  have "sint sh = int (shard_bytes (nat V) (nat k) (front_bytes s))"
    using sh sh_small by (simp add: sint_small_u64)
  then show ?thesis
    using bounds
    by (simp add: ComputeShardSize_def Let_def EcFrontReservationBytes_valid
        B_def [symmetric] per_def [symmetric] sh_def [symmetric])
qed

lemma EcUsableSize_nat:
  assumes "sizable V k s"
  shows "EcUsableSize V k s = Some (of_nat (usable_bytes (nat V) (nat k) (front_bytes s)))"
    and "usable_bytes (nat V) (nat k) (front_bytes s) < 4611686018427387904"
proof -
  note bounds = assms [unfolded sizable_def]
  have V_small: "nat V \<le> 1152921504606846976" and K: "1 \<le> nat k" "nat k \<le> 65536"
    using bounds by linarith+
  show small: "usable_bytes (nat V) (nat k) (front_bytes s) < 4611686018427387904"
    using usable_bytes_upper [of "nat k" "nat V" "front_bytes s"] backing_upper [OF V_small] V_small K
    by linarith
  have "front_bytes s \<le> shard_bytes (nat V) (nat k) (front_bytes s)"
    using shard_bytes_lower [of "nat V" "nat k" "front_bytes s"] by linarith
  then have "(word_of_int (int (shard_bytes (nat V) (nat k) (front_bytes s))) - of_nat (front_bytes s) :: u64)
      = of_nat (shard_bytes (nat V) (nat k) (front_bytes s) - front_bytes s)"
    by (simp add: of_nat_diff)
  moreover have "(word_of_int k :: u64) = of_nat (nat k)"
    using bounds by simp
  ultimately show "EcUsableSize V k s = Some (of_nat (usable_bytes (nat V) (nat k) (front_bytes s)))"
    using bounds
    by (simp add: EcUsableSize_def ComputeShardSize_nat [OF assms] EcFrontReservationBytes_valid
        usable_bytes_def)
qed

section \<open>What SPDK does with a shard\<close>

text \<open>The replay of \<open>TestComputeShardSizeBacksSpec\<close>: the array's usable bytes are whole strips, the
  metadata page count rounds down, and what is left of the clusters is for data.\<close>

definition spdk_mask_pages :: "nat \<Rightarrow> nat" where
  "spdk_mask_pages bits = (8 + (bits + 7) div 8 + 4096 - 1) div 4096"

definition spdk_ec_usable :: "nat \<Rightarrow> nat \<Rightarrow> nat \<Rightarrow> nat \<Rightarrow> nat" where
  "spdk_ec_usable shard k stripBytes reservedStrips =
     (shard div stripBytes - reservedStrips) * k * stripBytes"

definition spdk_data_clusters :: "nat \<Rightarrow> nat" where
  "spdk_data_clusters ecUsable =
     (let clusters = ecUsable div cluster_bytes;
          mdLen = clusters * 1000 div 100;
          mdPages = 1 + spdk_mask_pages mdLen
                    + max (spdk_mask_pages clusters) (spdk_mask_pages mdLen)
                    + spdk_mask_pages mdLen + mdLen;
          mdClusters = (mdPages + 1024 - 1) div 1024
      in clusters - mdClusters)"

lemma spdk_mask_pages_eq: "spdk_mask_pages b = mask_pages b"
  by (simp add: spdk_mask_pages_def mask_pages_def ceil_div_def)

lemma spdk_data_clusters_eq:
  "spdk_data_clusters u = u div cluster_bytes - md_clusters (u div cluster_bytes)"
proof -
  have "mask_pages (u div cluster_bytes) \<le> mask_pages (10 * (u div cluster_bytes))"
    by (intro mask_pages_mono) simp
  moreover have "u div cluster_bytes * 1000 div 100 = 10 * (u div cluster_bytes)"
    by simp
  ultimately show ?thesis
    unfolding spdk_data_clusters_def Let_def spdk_mask_pages_eq
    by (simp add: md_clusters_def md_pages_def ceil_div_def max_absorb2 algebra_simps)
qed

lemma usable_whole_strips:
  assumes "List.member valid_strips s"
  shows "spdk_ec_usable (shard_bytes v k (front_bytes s)) k (nat s * 1024) (front_strips s)
         = usable_bytes v k (front_bytes s)"
proof -
  let ?b = "nat s * 1024" and ?n = "shard_bytes v k (front_bytes s)"
  have pos: "0 < ?b"
    using assms by (auto simp: valid_strips_def)
  have "?b dvd ?n"
    using strip_divides(1) [OF assms] by (simp add: shard_bytes_def)
  then obtain q where q: "?n = q * ?b"
    by (metis dvdE mult.commute)
  have "front_bytes s = front_strips s * ?b"
    by (simp add: front_bytes_def)
  then have "?n - front_bytes s = (q - front_strips s) * ?b"
    using q by (simp add: diff_mult_distrib)
  moreover have "?n div ?b = q"
    using pos q by simp
  ultimately show ?thesis
    by (simp add: spdk_ec_usable_def usable_bytes_def mult_ac)
qed

text \<open>A device that holds the data, a closed metadata budget and one spare cluster has room for the
  data's clusters.\<close>

lemma data_fits:
  assumes "v \<le> 1152921504606846976" and "backing v \<le> u"
  shows "ceil_div v cluster_bytes \<le> u div cluster_bytes - md_clusters (u div cluster_bytes)"
proof -
  define c where "c = ceil_div (v + md_budget v) cluster_bytes"
  have "Suc ((v + md_budget v) div cluster_bytes) \<le> u div cluster_bytes"
    using div_le_mono [OF assms(2), of cluster_bytes] by (simp add: backing_def)
  then have c_le: "c \<le> u div cluster_bytes"
    using ceil_div_le_Suc_div [of cluster_bytes "v + md_budget v"] by (simp add: c_def)
  have "md_clusters c * cluster_bytes \<le> md_budget v"
    using md_budget_closed [OF assms(1)] by (simp add: metadata_for_def c_def)
  moreover have "v + md_budget v \<le> c * cluster_bytes"
    unfolding c_def by (rule ceil_div_upper) simp
  ultimately have "v \<le> (c - md_clusters c) * cluster_bytes"
    by (simp add: diff_mult_distrib)
  then have "ceil_div v cluster_bytes \<le> c - md_clusters c"
    by (simp add: ceil_div_le_iff)
  also have "\<dots> \<le> u div cluster_bytes - md_clusters (u div cluster_bytes)"
    by (rule data_clusters_mono [OF c_le])
  finally show ?thesis .
qed

section \<open>Properties\<close>

text \<open>
  Property C2. The shard size backs the volume: for every volume up to 1 EiB, every valid strip size
  and up to 65536 data chunks, \<open>ComputeShardSize\<close> returns a size (it does not panic), and after SPDK
  has cut the front reservation and the store's metadata out of the array there are still at least
  as many data clusters as the volume needs.
\<close>

theorem shard_backs_volume:
  assumes "sizable V k s"
  shows "(case ComputeShardSize V k s of
            None \<Rightarrow> False
          | Some shard \<Rightarrow> 0 < shard \<and> ceil_div (nat V) cluster_bytes
              \<le> spdk_data_clusters (spdk_ec_usable (nat shard) (nat k) (nat s * 1024) (front_strips s)))"
proof -
  note bounds = assms [unfolded sizable_def]
  let ?n = "shard_bytes (nat V) (nat k) (front_bytes s)"
  have V_small: "nat V \<le> 1152921504606846976" and K: "0 < nat k"
    using bounds by linarith+
  have u: "spdk_ec_usable ?n (nat k) (nat s * 1024) (front_strips s)
      = usable_bytes (nat V) (nat k) (front_bytes s)"
    using bounds by (intro usable_whole_strips) simp
  have "0 < ?n"
    using usable_bytes_lower [OF K, of "nat V" "front_bytes s"]
    by (cases "?n = 0") (auto simp: usable_bytes_def backing_def)
  then show ?thesis
    using data_fits [OF V_small usable_bytes_lower [OF K]]
    by (simp add: ComputeShardSize_nat [OF assms] u spdk_data_clusters_eq)
qed

theorem shard_backs_volume_witness:
  "sizable 35433480192 1 64 \<and>
   (case ComputeShardSize 35433480192 1 64 of
      None \<Rightarrow> False
    | Some shard \<Rightarrow> 0 < shard \<and> ceil_div (nat 35433480192) cluster_bytes
        \<le> spdk_data_clusters (spdk_ec_usable (nat shard) (nat 1) (nat 64 * 1024) (front_strips 64)))"
proof -
  have "sizable 35433480192 1 64"
    by (simp add: sizable_def valid_strips_def)
  then show ?thesis
    using shard_backs_volume by blast
qed

text \<open>
  Property C22. \<open>EcUsableSize\<close> is exact, as its comment claims: it equals the capacity SPDK's geometry
  gives the array built from shards of size \<open>ComputeShardSize\<close> (whole strips, nothing truncated), and
  it covers the volume.
\<close>

theorem usable_size_exact:
  assumes "sizable V k s"
  shows "map_option unat (EcUsableSize V k s)
         = map_option (\<lambda>shard. spdk_ec_usable (nat shard) (nat k) (nat s * 1024) (front_strips s))
             (ComputeShardSize V k s)
       \<and> (\<exists>u. EcUsableSize V k s = Some u \<and> nat V \<le> unat u)"
proof -
  note bounds = assms [unfolded sizable_def]
  have V_small: "nat V \<le> 1152921504606846976" and K: "0 < nat k"
    using bounds by linarith+
  have u: "spdk_ec_usable (shard_bytes (nat V) (nat k) (front_bytes s)) (nat k) (nat s * 1024)
      (front_strips s) = usable_bytes (nat V) (nat k) (front_bytes s)"
    using bounds by (intro usable_whole_strips) simp
  have "nat V \<le> usable_bytes (nat V) (nat k) (front_bytes s)"
    using usable_bytes_lower [OF K, of "nat V" "front_bytes s"] by (simp add: backing_def)
  moreover have "unat (of_nat (usable_bytes (nat V) (nat k) (front_bytes s)) :: u64)
      = usable_bytes (nat V) (nat k) (front_bytes s)"
    using EcUsableSize_nat(2) [OF assms] by (intro unat_of_nat_u64) linarith
  ultimately show ?thesis
    by (simp add: EcUsableSize_nat(1) [OF assms] ComputeShardSize_nat [OF assms] u)
qed

theorem usable_size_exact_witness:
  "map_option unat (EcUsableSize 1073741824 4 4)
     = map_option (\<lambda>shard. spdk_ec_usable (nat shard) 4 4096 (front_strips 4))
         (ComputeShardSize 1073741824 4 4)
   \<and> (\<exists>u. EcUsableSize 1073741824 4 4 = Some u \<and> 1073741824 \<le> unat u)"
proof -
  have "sizable 1073741824 4 4"
    by (simp add: sizable_def valid_strips_def)
  from usable_size_exact [OF this] show ?thesis
    by simp
qed

text \<open>
  The front reservation at the nine valid strip sizes is the table the repository's test
  pins (2052 strips, less for the three smallest sizes), in strips and in bytes, and the only strip
  size for which the computation panics is zero.
\<close>

theorem front_reservation_table:
  "map (\<lambda>s. EcFrontReservationStrips (word_of_int s)) valid_strips
     = map Some [2038, 2046, 2050, 2052, 2052, 2052, 2052, 2052, 2052]
   \<and> map (\<lambda>s. EcFrontReservationBytes (word_of_int s)) valid_strips
     = map Some [8347648, 16760832, 33587200, 67239936, 134479872, 268959744, 537919488, 1075838976,
                 2151677952]
   \<and> (\<forall>s. EcFrontReservationStrips s = None \<longleftrightarrow> s = 0)"
proof -
  have "(ucast s * 1024 :: u64) = 0 \<longleftrightarrow> s = 0" for s :: u32
  proof
    assume zero: "(ucast s * 1024 :: u64) = 0"
    have "unat s < 4294967296"
      using unsigned_less [of s] by simp
    then have "unat (ucast s * 1024 :: u64) = unat s * 1024"
      by (subst unat_mult_u64) (simp_all add: unsigned_ucast_eq take_bit_nat_eq_self)
    with zero show "s = 0"
      by (simp add: unat_eq_zero)
  qed simp
  then show ?thesis
    by (simp add: valid_strips_def EcFrontReservationBytes_def EcFrontReservationStrips_def
        const_defs Let_def)
qed

text \<open>
  Property C35. The metadata estimate is the least one that pays for itself: the loop's result is a
  budget \<open>b\<close> such that a store of the data plus \<open>b\<close> carves out at most \<open>b\<close>, no smaller budget has
  that property, and the function returns that budget plus one spare cluster.
\<close>

theorem metadata_estimate_least:
  assumes "unat d \<le> 1152921504606846976"
  shows "\<exists>b. unat (lvstoreMetadataBytes d) = b + unat EcLvstoreClusterSize
     \<and> metadata_for (unat d + b) \<le> b
     \<and> (\<forall>c < b. c < metadata_for (unat d + c))"
proof (intro exI conjI allI impI)
  show "unat (lvstoreMetadataBytes d) = md_budget (unat d) + unat EcLvstoreClusterSize"
    using assms by (simp add: unat_lvstoreMetadataBytes const_defs)
  show "metadata_for (unat d + md_budget (unat d)) \<le> md_budget (unat d)"
    by (rule md_budget_closed [OF assms])
  fix c
  assume c: "c < md_budget (unat d)"
  have "\<not> metadata_for (unat d + c) \<le> c"
    using md_budget_least [of "unat d" c] c md_budget_upper [OF assms] assms by linarith
  then show "c < metadata_for (unat d + c)"
    by simp
qed

theorem metadata_estimate_least_witness:
  "\<exists>b. unat (lvstoreMetadataBytes 35433480192) = b + unat EcLvstoreClusterSize
     \<and> metadata_for (unat (35433480192 :: u64) + b) \<le> b
     \<and> (\<forall>c < b. c < metadata_for (unat (35433480192 :: u64) + c))"
  by (rule metadata_estimate_least) simp

text \<open>The values the repository's tests pin.\<close>

lemma golden_metadata: "lvstoreMetadataBytes 35433480192 = 356515840"
  by (simp add: lvstoreMetadataBytes_def lvstoreMetadata_loop.simps lvstoreMetadataBytesFor_def
      lvstoreMaskPages_def const_defs Let_def)

lemma golden_shard: "ComputeShardSize 35433480192 1 64 = Some 35926310912"
  by (simp add: ComputeShardSize_def golden_metadata EcFrontReservationBytes_def
      EcFrontReservationStrips_def const_defs Let_def)

lemma golden_usable: "EcUsableSize 35433480192 1 64 = Some 35791831040"
  by (simp add: EcUsableSize_def golden_shard EcFrontReservationBytes_def
      EcFrontReservationStrips_def const_defs Let_def)

end
