(* ===== verification/EcCreation.thy ===== *)
theory EcCreation
  imports EcShard
begin

text \<open>
  Admission of erasure-coded volumes, the rest of \<open>pkg/spdk/types/ec_geometry.go\<close>: the binary search
  for the largest creatable volume and the check against it. The search is stated once, over any
  threshold test, as the interface \<open>threshold\<close>; the capacity test of the source is its
  interpretation.
\<close>

section \<open>The code\<close>

text \<open>The closure \<open>fits\<close> of \<open>MaxECVolumeSizeForCreation\<close>; a panic inside it is \<^term>\<open>None\<close>.\<close>

definition ec_fits :: "int \<Rightarrow> int \<Rightarrow> int \<Rightarrow> bool panics" where
  "ec_fits k stripSizeKB volumeSize =
     do { u \<leftarrow> EcUsableSize volumeSize k stripSizeKB;
          let maxClusters = EcLvstoreMaxCreationSize div EcLvstoreClusterSize;
          Some (u div EcLvstoreClusterSize \<le> maxClusters) }"

text \<open>The loop: \<open>lo < hi\<close>, \<open>mid = lo + (hi - lo + 1) / 2\<close>. The bounds stay inside 64 bits, so the
  arithmetic is on integers.\<close>

function max_fit :: "(int \<Rightarrow> bool panics) \<Rightarrow> int \<Rightarrow> int \<Rightarrow> int panics" where
  "max_fit fits lo hi =
     (if lo < hi then
        let mid = lo + (hi - lo + 1) div 2
        in (case fits mid of
              None \<Rightarrow> None
            | Some ok \<Rightarrow> if ok then max_fit fits mid hi else max_fit fits lo (mid - 1))
      else Some lo)"
  by pat_completeness auto
termination
  by (relation "measure (\<lambda>(fits, lo, hi). nat (hi - lo))") auto

declare max_fit.simps [simp del]

definition MaxECVolumeSizeForCreation :: "int \<Rightarrow> int \<Rightarrow> int panics" where
  "MaxECVolumeSizeForCreation k stripSizeKB =
     max_fit (ec_fits k stripSizeKB) 1 (sint EcLvstoreMaxCreationSize)"

text \<open>The result is a nil error (\<^term>\<open>Inr ()\<close>) or the refusal.\<close>

definition ValidateECCreationSize :: "int \<Rightarrow> int \<Rightarrow> int \<Rightarrow> (go_error + unit) panics" where
  "ValidateECCreationSize volumeSize k stripSizeKB =
     do { u \<leftarrow> EcUsableSize volumeSize k stripSizeKB;
          let maxClusters = EcLvstoreMaxCreationSize div EcLvstoreClusterSize;
          if u div EcLvstoreClusterSize > maxClusters
          then do { m \<leftarrow> MaxECVolumeSizeForCreation k stripSizeKB;
                    Some (Inl (PlainErr (''volume size '' @ itoa volumeSize
                      @ '' exceeds the maximum creatable EC volume size '' @ itoa m
                      @ '' for k='' @ itoa k @ '' stripSizeKB='' @ itoa stripSizeKB))) }
          else Some (Inr ()) }"

section \<open>Searching a threshold\<close>

text \<open>The interface of the search: a test that answers everywhere on the range and, once it fails,
  keeps failing.\<close>

locale threshold =
  fixes test :: "int \<Rightarrow> bool panics" and first last :: int
  assumes answers: "first \<le> x \<Longrightarrow> x \<le> last \<Longrightarrow> test x \<noteq> None"
    and antitone: "first \<le> x \<Longrightarrow> x \<le> y \<Longrightarrow> y \<le> last \<Longrightarrow> test y = Some True \<Longrightarrow> test x = Some True"
begin

lemma fails_above:
  assumes "first \<le> x" and "x \<le> y" and "y \<le> last" and "test x = Some False"
  shows "test y = Some False"
proof -
  obtain b where "test y = Some b"
    using answers [of y] assms by fastforce
  then show ?thesis
    using antitone [OF assms(1-3)] assms(4) by (cases b) auto
qed

text \<open>What the search from \<open>lo\<close> to \<open>hi\<close> finds: the largest value that passes, or \<open>lo\<close> itself when nothing above it
  passes.\<close>

abbreviation found :: "int \<Rightarrow> int \<Rightarrow> int \<Rightarrow> bool" where
  "found lo hi m \<equiv> max_fit test lo hi = Some m \<and> lo \<le> m \<and> m \<le> hi \<and> (m = lo \<or> test m = Some True) \<and>
    (\<forall>x. m < x \<and> x \<le> hi \<longrightarrow> test x = Some False)"

lemma upper_half:
  assumes "lo < hi" and "mid = lo + (hi - lo + 1) div 2" and "test mid = Some True" and "found mid hi m"
  shows "found lo hi m"
proof -
  have "lo < mid" using assms(1,2) by auto
  moreover have "max_fit test lo hi = max_fit test mid hi"
    using assms(1,3) by (simp add: max_fit.simps [of test lo hi] Let_def assms(2) [symmetric])
  ultimately show ?thesis using assms(3,4) by auto
qed

lemma lower_half:
  assumes "lo < hi" and "mid = lo + (hi - lo + 1) div 2" and "test mid = Some False" and "found lo (mid - 1) m"
    and above: "\<And>x. mid \<le> x \<Longrightarrow> x \<le> hi \<Longrightarrow> test x = Some False"
  shows "found lo hi m"
proof -
  have "mid \<le> hi" using assms(1,2) by auto
  moreover have "max_fit test lo hi = max_fit test lo (mid - 1)"
    using assms(1,3) by (simp add: max_fit.simps [of test lo hi] Let_def assms(2) [symmetric])
  moreover have "test x = Some False" if "m < x" "x \<le> hi" for x
    using assms(4) above [of x] that by (cases "x \<le> mid - 1") auto
  ultimately show ?thesis using assms(4) by auto
qed

lemma search_correct: "first \<le> lo \<Longrightarrow> lo \<le> hi \<Longrightarrow> hi \<le> last \<Longrightarrow> \<exists>m. found lo hi m"
proof (induction "nat (hi - lo)" arbitrary: lo hi rule: less_induct)
  case less
  show ?case
  proof (cases "lo < hi")
    case False
    with less.prems show ?thesis
      by (auto simp: max_fit.simps [of "test" lo hi] max_fit.simps [of "test" hi hi])
  next
    case True
    define mid where "mid = lo + (hi - lo + 1) div 2"
    have mid: "lo < mid" "mid \<le> hi"
      using True by (auto simp: mid_def)
    obtain b where b: "test mid = Some b"
      using answers [of mid] mid less.prems by fastforce
    show ?thesis
    proof (cases b)
      case True
      have "\<exists>m. found mid hi m" using mid less.prems by (intro less.hyps) auto
      then obtain m where "found mid hi m" ..
      moreover have "test mid = Some True" using b True by simp
      ultimately show ?thesis using upper_half [OF \<open>lo < hi\<close> mid_def] by blast
    next
      case False
      have "\<exists>m. found lo (mid - 1) m" using mid less.prems by (intro less.hyps) auto
      then obtain m where "found lo (mid - 1) m" ..
      moreover have "test mid = Some False" using b False by simp
      moreover have "test x = Some False" if "mid \<le> x" "x \<le> hi" for x
        using fails_above [of mid x] that mid less.prems b False by auto
      ultimately show ?thesis using lower_half [OF \<open>lo < hi\<close> mid_def] b False by blast
    qed
  qed
qed

text \<open>With a first value that passes and an upper bound that fails, the result is the boundary of the
  whole range.\<close>

lemma search_boundary:
  assumes "test first = Some True" and "first \<le> hi" and "hi \<le> last" and "test hi = Some False"
  shows "\<exists>m. max_fit test first hi = Some m \<and> first \<le> m \<and> m < hi
    \<and> (\<forall>x. first \<le> x \<and> x \<le> last \<longrightarrow> (test x = Some True \<longleftrightarrow> x \<le> m))"
proof -
  obtain m where m: "max_fit test first hi = Some m" "first \<le> m" "m \<le> hi"
      "m = first \<or> test m = Some True" "\<And>x. m < x \<Longrightarrow> x \<le> hi \<Longrightarrow> test x = Some False"
    using search_correct [of first hi] assms by auto
  have pass: "test m = Some True"
    using m(4) assms(1) by auto
  then have "m < hi"
    using m(3) assms(4) by (cases "m = hi") auto
  then have next_fails: "test (m + 1) = Some False"
    using m(5) [of "m + 1"] by simp
  have "test x = Some True \<longleftrightarrow> x \<le> m" if "first \<le> x" "x \<le> last" for x
  proof
    assume "test x = Some True"
    then show "x \<le> m"
      using fails_above [of "m + 1" x] next_fails that m(2) by (cases "x \<le> m") auto
  next
    assume "x \<le> m"
    then show "test x = Some True"
      using antitone [of x m] that pass m(3) assms(3) by auto
  qed
  with m \<open>m < hi\<close> show ?thesis by auto
qed

end

section \<open>The capacity test is a threshold\<close>

text \<open>The geometries the sizing formula is for: at least one data chunk and a valid strip size.\<close>

typedef ec_geometry = "{(k :: int, s :: int). 0 < k \<and> k \<le> 65536 \<and> List.member valid_strips s}"
  by (rule exI [of _ "(1, 4)"]) (simp add: valid_strips_def)

definition data_chunks :: "ec_geometry \<Rightarrow> int" where
  "data_chunks g = fst (Rep_ec_geometry g)"

definition strip_kb :: "ec_geometry \<Rightarrow> int" where
  "strip_kb g = snd (Rep_ec_geometry g)"

definition exbibyte :: int where
  "exbibyte = 1152921504606846976"

lemma sizable_geometry:
  "0 < V \<Longrightarrow> V \<le> exbibyte \<Longrightarrow> sizable V (data_chunks g) (strip_kb g)"
  using Rep_ec_geometry [of g]
  by (auto simp: sizable_def data_chunks_def strip_kb_def exbibyte_def split: prod.splits)

lemma geometry_of_sizable:
  assumes "sizable V k s"
  obtains g where "k = data_chunks g" and "s = strip_kb g"
  using assms Abs_ec_geometry_inverse [of "(k, s)"]
  by (auto simp: sizable_def data_chunks_def strip_kb_def intro: that [of "Abs_ec_geometry (k, s)"])

lemma max_creation_size: "sint EcLvstoreMaxCreationSize = 1801439848431616"
  by (simp add: const_defs sint_small_u64)

lemma ec_fits_nat:
  assumes "sizable V k s"
  shows "ec_fits k s V
    = Some (usable_bytes (nat V) (nat k) (front_bytes s) div cluster_bytes \<le> 429496729)"
proof -
  have "unat (of_nat (usable_bytes (nat V) (nat k) (front_bytes s)) :: u64)
      = usable_bytes (nat V) (nat k) (front_bytes s)"
    using EcUsableSize_nat(2) [OF assms] by (intro unat_of_nat_u64) linarith
  then show ?thesis
    by (simp add: ec_fits_def EcUsableSize_nat(1) [OF assms] word_le_nat_alt unat_div_u64 const_defs)
qed

interpretation capacity: threshold "ec_fits (data_chunks g) (strip_kb g)" 1 exbibyte for g
proof unfold_locales
  fix x :: int
  assume "1 \<le> x" "x \<le> exbibyte"
  then show "ec_fits (data_chunks g) (strip_kb g) x \<noteq> None"
    by (simp add: ec_fits_nat sizable_geometry)
next
  fix x y :: int
  assume xy: "1 \<le> x" "x \<le> y" "y \<le> exbibyte"
    and "ec_fits (data_chunks g) (strip_kb g) y = Some True"
  then have "usable_bytes (nat y) (nat (data_chunks g)) (front_bytes (strip_kb g)) div cluster_bytes
      \<le> 429496729"
    by (simp add: ec_fits_nat sizable_geometry)
  moreover have "usable_bytes (nat x) (nat (data_chunks g)) (front_bytes (strip_kb g))
      \<le> usable_bytes (nat y) (nat (data_chunks g)) (front_bytes (strip_kb g))"
    using xy by (intro usable_bytes_mono) (auto simp: exbibyte_def)
  ultimately show "ec_fits (data_chunks g) (strip_kb g) x = Some True"
    using xy by (simp add: ec_fits_nat sizable_geometry)
      (meson div_le_mono le_trans)
qed

lemma smallest_volume_fits: "ec_fits (data_chunks g) (strip_kb g) 1 = Some True"
proof -
  have g: "sizable 1 (data_chunks g) (strip_kb g)"
    by (simp add: sizable_geometry exbibyte_def)
  then have k: "0 < nat (data_chunks g)" "nat (data_chunks g) \<le> 65536"
    by (auto simp: sizable_def)
  have "usable_bytes 1 (nat (data_chunks g)) (front_bytes (strip_kb g)) \<le> 1801439848431616"
    using usable_bytes_upper [OF k(1), of 1 "front_bytes (strip_kb g)"] backing_upper [of 1] k(2)
    by simp
  then have "usable_bytes 1 (nat (data_chunks g)) (front_bytes (strip_kb g)) div cluster_bytes
      \<le> 1801439848431616 div cluster_bytes"
    by (rule div_le_mono)
  then show ?thesis
    by (simp add: ec_fits_nat [OF g])
qed

lemma raw_cap_does_not_fit:
  "ec_fits (data_chunks g) (strip_kb g) (sint EcLvstoreMaxCreationSize) = Some False"
proof -
  have g: "sizable 1801439848431616 (data_chunks g) (strip_kb g)"
    by (simp add: sizable_geometry exbibyte_def)
  then have k: "0 < nat (data_chunks g)"
    by (simp add: sizable_def)
  have "1801439852625920 \<le> usable_bytes 1801439848431616 (nat (data_chunks g)) (front_bytes (strip_kb g))"
    using usable_bytes_lower [OF k, of 1801439848431616 "front_bytes (strip_kb g)"]
    by (simp add: backing_def)
  then have "1801439852625920 div cluster_bytes
      \<le> usable_bytes 1801439848431616 (nat (data_chunks g)) (front_bytes (strip_kb g)) div cluster_bytes"
    by (rule div_le_mono)
  then show ?thesis
    by (simp add: max_creation_size ec_fits_nat [OF g])
qed

lemma max_volume_boundary:
  "\<exists>m. MaxECVolumeSizeForCreation (data_chunks g) (strip_kb g) = Some m
     \<and> 1 \<le> m \<and> m < sint EcLvstoreMaxCreationSize
     \<and> (\<forall>x. 1 \<le> x \<and> x \<le> exbibyte \<longrightarrow>
            (ec_fits (data_chunks g) (strip_kb g) x = Some True \<longleftrightarrow> x \<le> m))"
  unfolding MaxECVolumeSizeForCreation_def
  by (intro capacity.search_boundary smallest_volume_fits raw_cap_does_not_fit)
    (simp_all add: max_creation_size exbibyte_def)

section \<open>Properties\<close>

text \<open>
  Property C8. Admission is exact at the boundary: for every valid geometry the search returns a
  maximum that is positive and below the raw limit \<open>EcLvstoreMaxCreationSize\<close>, and a volume of up to
  1 EiB is admitted if and only if it is not larger than that maximum.
\<close>

theorem admission_boundary:
  assumes "sizable V k s"
  shows "(case MaxECVolumeSizeForCreation k s of
            None \<Rightarrow> False
          | Some m \<Rightarrow> 0 < m \<and> m < sint EcLvstoreMaxCreationSize
              \<and> (ValidateECCreationSize V k s = Some (Inr ()) \<longleftrightarrow> V \<le> m))"
proof -
  obtain g where g: "k = data_chunks g" "s = strip_kb g"
    using geometry_of_sizable [OF assms] by blast
  obtain m where m: "MaxECVolumeSizeForCreation k s = Some m" "1 \<le> m"
      "m < sint EcLvstoreMaxCreationSize"
      "\<And>x. 1 \<le> x \<Longrightarrow> x \<le> exbibyte \<Longrightarrow> (ec_fits k s x = Some True \<longleftrightarrow> x \<le> m)"
    using max_volume_boundary [of g] g by auto
  have "ValidateECCreationSize V k s = Some (Inr ()) \<longleftrightarrow> ec_fits k s V = Some True"
    by (simp add: ValidateECCreationSize_def ec_fits_def EcUsableSize_nat(1) [OF assms] m(1)
        linorder_not_le [symmetric])
  also have "\<dots> \<longleftrightarrow> V \<le> m"
    using m(4) [of V] assms by (simp add: sizable_def exbibyte_def)
  finally show ?thesis
    using m by simp
qed

theorem admission_boundary_witness:
  "case MaxECVolumeSizeForCreation 4 64 of
     None \<Rightarrow> False
   | Some m \<Rightarrow> 0 < m \<and> m < sint EcLvstoreMaxCreationSize
       \<and> (ValidateECCreationSize 1073741824 4 64 = Some (Inr ()) \<longleftrightarrow> 1073741824 \<le> m)"
proof -
  have "sizable 1073741824 4 64"
    by (simp add: sizable_def valid_strips_def)
  from admission_boundary [OF this] show ?thesis .
qed

text \<open>
  Property C36. The raw limit is the point where SPDK starts to refuse a store: at
  \<open>EcLvstoreMaxCreationSize\<close> the metadata page count fits 32 bits, one cluster more and it does not;
  and an admitted volume's usable size stays within that limit.
\<close>

theorem creation_limit_is_md_pages_boundary:
  assumes "sizable V k s" and "ValidateECCreationSize V k s = Some (Inr ())"
  shows "(case EcUsableSize V k s of
            None \<Rightarrow> False
          | Some u \<Rightarrow> unat u div cluster_bytes * 1000 div 100 \<le> 4294967295)
       \<and> unat (EcLvstoreMaxCreationSize div EcLvstoreClusterSize) * 1000 div 100 \<le> 4294967295
       \<and> 4294967295 < (unat (EcLvstoreMaxCreationSize div EcLvstoreClusterSize) + 1) * 1000 div 100"
proof -
  have cap: "unat (EcLvstoreMaxCreationSize div EcLvstoreClusterSize) = 429496729"
    by (simp add: const_defs)
  obtain u where u: "EcUsableSize V k s = Some u"
    using EcUsableSize_nat(1) [OF assms(1)] by blast
  then have "\<not> EcLvstoreMaxCreationSize div EcLvstoreClusterSize < u div EcLvstoreClusterSize"
    using assms(2) by (auto simp: ValidateECCreationSize_def split: if_splits bind_splits)
  then have "unat (u div EcLvstoreClusterSize) \<le> 429496729"
    using cap by (simp add: not_less word_le_nat_alt)
  then have "unat u div cluster_bytes \<le> 429496729"
    by (simp add: unat_div_u64 EcLvstoreClusterSize_def)
  then have "unat u div cluster_bytes * 1000 div 100 \<le> 4294967295"
    by simp
  then show ?thesis
    by (simp add: u cap)
qed

theorem creation_limit_is_md_pages_boundary_witness:
  "(case EcUsableSize 35433480192 1 64 of
      None \<Rightarrow> False
    | Some u \<Rightarrow> unat u div cluster_bytes * 1000 div 100 \<le> 4294967295)
   \<and> unat (EcLvstoreMaxCreationSize div EcLvstoreClusterSize) * 1000 div 100 \<le> 4294967295
   \<and> 4294967295 < (unat (EcLvstoreMaxCreationSize div EcLvstoreClusterSize) + 1) * 1000 div 100"
proof -
  have size: "sizable 35433480192 1 64"
    by (simp add: sizable_def valid_strips_def)
  have accepted: "ValidateECCreationSize 35433480192 1 64 = Some (Inr ())"
    by (simp add: ValidateECCreationSize_def golden_usable const_defs)
  show ?thesis
    by (rule creation_limit_is_md_pages_boundary [OF size accepted])
qed

end
