(* ===== verification/UblkIds.thy ===== *)
theory UblkIds
  imports GoErrors
begin

text \<open>
  The allocation of ublk device ids, \<open>pkg/initiator/ublk_id_generator.go\<close>: a cursor that moves round
  the 16-bit id space and skips zero and the ids in use. The mutex makes each call atomic, so the
  model is a function on the generator's state. The interface \<open>id_source\<close> says what a caller that
  starts many devices needs of an allocator; the generator is its interpretation.
\<close>

section \<open>The code\<close>

definition MaxUblkId :: i32 where [const_defs]: "MaxUblkId = 65535"

record IDGenerator =
  lastCandidate :: i32

text \<open>The fields of \<open>spdktypes.UblkDevice\<close> (\<open>pkg/spdk/types/ublk.go\<close>).\<close>

record UblkDevice =
  ublk_bdev_name :: string
  ublk_id :: i32
  ublk_num_queues :: i32
  ublk_queue_depth :: i32
  ublk_device :: string

text \<open>The loop over \<open>i = 1 .. MaxUblkId\<close>; the candidate is \<open>(lastCandidate + i) & 0xFFFF\<close>.\<close>

definition candidate :: "i32 \<Rightarrow> nat \<Rightarrow> i32" where
  "candidate from i = and (from + of_nat i) 0xFFFF"

function try_ids :: "i32 \<Rightarrow> i32 set \<Rightarrow> nat \<Rightarrow> i32 option" where
  "try_ids from inUsed i =
     (if i \<le> unat MaxUblkId then
        let c = candidate from i
        in if c = 0 then try_ids from inUsed (Suc i)
           else if c \<notin> inUsed then Some c
           else try_ids from inUsed (Suc i)
      else None)"
  by pat_completeness auto
termination
  by (relation "measure (\<lambda>(from, inUsed, i). Suc (unat MaxUblkId) - i)") auto

declare try_ids.simps [simp del]

definition no_available_id :: go_error where
  "no_available_id = PlainErr (''no available ID (1..'' @ itoa (sint MaxUblkId) @ '' are all in use)'')"

definition GetAvailableID :: "IDGenerator \<Rightarrow> UblkDevice list \<Rightarrow> (go_error + i32) \<times> IDGenerator" where
  "GetAvailableID gen inUseUblkDeviceList =
     (let inUsedMap = set (map ublk_id inUseUblkDeviceList)
      in case try_ids (lastCandidate gen) inUsedMap 1 of
           Some c \<Rightarrow> (Inr c, gen\<lparr>lastCandidate := c\<rparr>)
         | None \<Rightarrow> (Inl no_available_id, gen))"

section \<open>The candidates\<close>

text \<open>The cursor stays a 16-bit number, so the sum does not overflow and the mask is a remainder.\<close>

definition cursor_ok :: "IDGenerator \<Rightarrow> bool" where
  "cursor_ok gen \<longleftrightarrow> unat (lastCandidate gen) < 65536"

lemma unat_candidate: "unat (candidate from i) = (unat from + i) mod 65536"
proof -
  have "candidate from i = take_bit 16 (from + of_nat i)"
    by (simp add: candidate_def take_bit_eq_mask mask_eq_exp_minus_1)
  then have "unat (candidate from i) = take_bit 16 (unat (from + of_nat i))"
    by (simp add: unsigned_take_bit_eq)
  also have "\<dots> = (unat from + i) mod 4294967296 mod 65536"
    by (simp add: unat_word_ariths unsigned_of_nat take_bit_eq_mod mod_simps)
  also have "\<dots> = (unat from + i) mod 65536"
    by (simp add: mod_mod_cancel)
  finally show ?thesis .
qed

lemma candidate_eq_iff: "candidate from i = x \<longleftrightarrow> (unat from + i) mod 65536 = unat x"
  by (metis unat_candidate word_unat_eq_iff)

lemma try_ids_Some:
  "try_ids from used i = Some c \<Longrightarrow>
     \<exists>j. i \<le> j \<and> j \<le> 65535 \<and> c = candidate from j \<and> c \<noteq> 0 \<and> c \<notin> used
       \<and> (\<forall>m. i \<le> m \<and> m < j \<longrightarrow> candidate from m = 0 \<or> candidate from m \<in> used)"
proof (induction "from" used i rule: try_ids.induct)
  case (1 "from" used i)
  have bound: "i \<le> 65535"
    using "1.prems" by (auto simp: try_ids.simps [of "from" used i] const_defs split: if_splits)
  show ?case
  proof (cases "candidate from i = 0 \<or> candidate from i \<in> used")
    case False
    then have "c = candidate from i"
      using "1.prems" bound by (simp add: try_ids.simps [of "from" used i] Let_def const_defs)
    with False bound show ?thesis
      by (intro exI [of _ i]) auto
  next
    case True
    then have rest: "try_ids from used (Suc i) = Some c"
      using "1.prems" bound
      by (auto simp: try_ids.simps [of "from" used i] Let_def const_defs split: if_splits)
    obtain j where j: "Suc i \<le> j" "j \<le> 65535" "c = candidate from j" "c \<noteq> 0" "c \<notin> used"
        "\<forall>m. Suc i \<le> m \<and> m < j \<longrightarrow> candidate from m = 0 \<or> candidate from m \<in> used"
      using "1.IH" True rest bound by (auto simp: const_defs)
    have "candidate from m = 0 \<or> candidate from m \<in> used" if "i \<le> m" "m < j" for m
      using j(6) True that by (cases "m = i") auto
    with j show ?thesis
      by (intro exI [of _ j]) auto
  qed
qed

lemma try_ids_None:
  "try_ids from used i = None \<longleftrightarrow>
     (\<forall>j. i \<le> j \<and> j \<le> 65535 \<longrightarrow> candidate from j = 0 \<or> candidate from j \<in> used)"
proof (induction "from" used i rule: try_ids.induct)
  case (1 "from" used i)
  show ?case
  proof (cases "i \<le> 65535 \<and> (candidate from i = 0 \<or> candidate from i \<in> used)")
    case False
    then show ?thesis
      by (auto simp: try_ids.simps [of "from" used i] Let_def const_defs)
  next
    case True
    then have "try_ids from used i = try_ids from used (Suc i)"
      by (auto simp: try_ids.simps [of "from" used i] Let_def const_defs)
    moreover have "(try_ids from used (Suc i) = None) = (\<forall>j. Suc i \<le> j \<and> j \<le> 65535
        \<longrightarrow> candidate from j = 0 \<or> candidate from j \<in> used)"
      using "1.IH" True by (auto simp: const_defs)
    ultimately show ?thesis
      using True by (simp only: all_from_Suc [of i]) simp
  qed
qed

text \<open>Sixteen-bit numbers other than the cursor are exactly the candidates.\<close>

lemma candidate_covers:
  assumes "unat from < 65536" and "unat x < 65536" and "x \<noteq> from"
  shows "\<exists>j. 1 \<le> j \<and> j \<le> 65535 \<and> candidate from j = x"
proof -
  have "unat from \<noteq> unat x"
    using assms(3) by (simp add: word_unat_eq_iff)
  then obtain j where "0 < j" "j < 65536" "(unat from + j) mod 65536 = unat x"
    using mod_reach [OF assms(1,2)] by blast
  then show ?thesis
    by (intro exI [of _ j]) (simp add: candidate_eq_iff)
qed

lemma candidate_misses_cursor:
  assumes "unat from < 65536" and "1 \<le> j" and "j \<le> 65535"
  shows "candidate from j \<noteq> from" and "unat (candidate from j) < 65536"
proof -
  have "(unat from + j) mod 65536 \<noteq> unat from"
    using assms by (intro mod_step) simp_all
  then show "candidate from j \<noteq> from"
    by (simp add: candidate_eq_iff)
  show "unat (candidate from j) < 65536"
    by (simp add: unat_candidate)
qed

section \<open>What a caller needs of an allocator\<close>

text \<open>An allocator keeps its own invariant and hands out non-zero ids that are not in use. The lemma
  is about a caller that starts one disk after the other, each time with the current device list,
  as \<open>StartUblkInitiator\<close> does.\<close>

fun start_disks ::
  "('g \<Rightarrow> UblkDevice list \<Rightarrow> (go_error + i32) \<times> 'g) \<Rightarrow> 'g \<Rightarrow> UblkDevice list \<Rightarrow> string list
   \<Rightarrow> (go_error + UblkDevice list) \<times> 'g" where
  "start_disks draw g devs [] = (Inr devs, g)"
| "start_disks draw g devs (b # bs) =
     (case draw g devs of
        (Inl e, g') \<Rightarrow> (Inl e, g')
      | (Inr i, g') \<Rightarrow>
          start_disks draw g'
            (devs @ [\<lparr>ublk_bdev_name = b, ublk_id = i, ublk_num_queues = 1, ublk_queue_depth = 128,
                      ublk_device = ''/dev/ublkb'' @ itoa (sint i)\<rparr>]) bs)"

locale id_source =
  fixes draw :: "'g \<Rightarrow> UblkDevice list \<Rightarrow> (go_error + i32) \<times> 'g" and good :: "'g \<Rightarrow> bool"
  assumes draw_good: "good g \<Longrightarrow> draw g devs = (r, g') \<Longrightarrow> good g'"
    and draw_unused: "good g \<Longrightarrow> draw g devs = (Inr i, g') \<Longrightarrow> i \<notin> ublk_id ` set devs"
    and draw_nonzero: "good g \<Longrightarrow> draw g devs = (Inr i, g') \<Longrightarrow> i \<noteq> 0"
begin

lemma start_disks_distinct:
  assumes "good g" and "distinct (map ublk_id devs)" and "0 \<notin> ublk_id ` set devs"
    and "start_disks draw g devs bs = (Inr devs', g')"
  shows "good g' \<and> distinct (map ublk_id devs') \<and> 0 \<notin> ublk_id ` set devs'
    \<and> length devs' = length devs + length bs"
  using assms
proof (induction bs arbitrary: g devs)
  case Nil
  then show ?case by simp
next
  case (Cons b bs)
  obtain r g1 where d: "draw g devs = (r, g1)"
    by (cases "draw g devs")
  with Cons.prems(4) obtain i where r: "r = Inr i"
    by (cases r) auto
  let ?dev = "\<lparr>ublk_bdev_name = b, ublk_id = i, ublk_num_queues = 1, ublk_queue_depth = 128,
      ublk_device = ''/dev/ublkb'' @ itoa (sint i)\<rparr>"
  have i: "i \<notin> ublk_id ` set devs" "i \<noteq> 0"
    using draw_unused draw_nonzero Cons.prems(1) d r by blast+
  have "good g' \<and> distinct (map ublk_id devs') \<and> 0 \<notin> ublk_id ` set devs'
      \<and> length devs' = length (devs @ [?dev]) + length bs"
    using Cons.prems d r i draw_good [OF Cons.prems(1) d]
    by (intro Cons.IH [of g1 "devs @ [?dev]"]) auto
  then show ?case by simp
qed

end

lemma GetAvailableID_Inr:
  assumes "cursor_ok gen" and "GetAvailableID gen devs = (Inr i, gen')"
  shows "0 < unat i \<and> unat i \<le> 65535 \<and> i \<notin> ublk_id ` set devs \<and> i \<noteq> lastCandidate gen
    \<and> lastCandidate gen' = i
    \<and> (\<exists>j. 1 \<le> j \<and> j \<le> 65535 \<and> i = candidate (lastCandidate gen) j
        \<and> (\<forall>m. 1 \<le> m \<and> m < j \<longrightarrow> candidate (lastCandidate gen) m = 0
             \<or> candidate (lastCandidate gen) m \<in> ublk_id ` set devs))"
proof -
  have t: "try_ids (lastCandidate gen) (ublk_id ` set devs) 1 = Some i" and "lastCandidate gen' = i"
    using assms(2) by (auto simp: GetAvailableID_def Let_def split: option.splits)
  from try_ids_Some [OF t] obtain j where j: "1 \<le> j" "j \<le> 65535"
      "i = candidate (lastCandidate gen) j" "i \<noteq> 0" "i \<notin> ublk_id ` set devs"
      "\<forall>m. 1 \<le> m \<and> m < j \<longrightarrow> candidate (lastCandidate gen) m = 0
             \<or> candidate (lastCandidate gen) m \<in> ublk_id ` set devs"
    by auto
  have "i \<noteq> lastCandidate gen" and "unat i < 65536"
    using candidate_misses_cursor [of "lastCandidate gen" j] j assms(1) by (auto simp: cursor_ok_def)
  moreover have "0 < unat i"
    using j(4) by (simp add: unat_gt_0)
  ultimately show ?thesis
    using j \<open>lastCandidate gen' = i\<close> by auto
qed

lemma GetAvailableID_cursor:
  assumes "cursor_ok gen" and "GetAvailableID gen devs = (r, gen')"
  shows "cursor_ok gen'"
proof (cases r)
  case (Inl e)
  then show ?thesis
    using assms by (auto simp: GetAvailableID_def Let_def split: option.splits)
next
  case (Inr i)
  then show ?thesis
    using GetAvailableID_Inr assms by (fastforce simp: cursor_ok_def)
qed

interpretation ublk: id_source GetAvailableID cursor_ok
  by unfold_locales (auto dest: GetAvailableID_Inr GetAvailableID_cursor)

section \<open>Properties\<close>

text \<open>
  The generator refuses exactly when every id in 1..65535 other than the one it handed
  out last is in use: the search never returns to the cursor itself. (The comment in the source
  counts \<open>MaxUblkId\<close> tries \<open>because 0 is excluded\<close>; once the cursor is not zero, those tries cover
  zero and miss the cursor.)
\<close>

theorem GetAvailableID_refuses_iff:
  assumes "cursor_ok gen"
  shows "GetAvailableID gen devs = (Inl no_available_id, gen) \<longleftrightarrow>
     (\<forall>x. 0 < unat x \<and> unat x \<le> 65535 \<and> x \<noteq> lastCandidate gen \<longrightarrow> x \<in> ublk_id ` set devs)"
proof -
  have cur: "unat (lastCandidate gen) < 65536"
    using assms by (simp add: cursor_ok_def)
  have "GetAvailableID gen devs = (Inl no_available_id, gen) \<longleftrightarrow>
      try_ids (lastCandidate gen) (ublk_id ` set devs) 1 = None"
    by (auto simp: GetAvailableID_def Let_def split: option.splits)
  also have "\<dots> \<longleftrightarrow> (\<forall>j. 1 \<le> j \<and> j \<le> 65535 \<longrightarrow> candidate (lastCandidate gen) j = 0
      \<or> candidate (lastCandidate gen) j \<in> ublk_id ` set devs)"
    by (rule try_ids_None)
  also have "\<dots> \<longleftrightarrow> (\<forall>x. 0 < unat x \<and> unat x \<le> 65535 \<and> x \<noteq> lastCandidate gen
      \<longrightarrow> x \<in> ublk_id ` set devs)"
  proof (intro iffI allI impI)
    fix x
    assume all: "\<forall>j. 1 \<le> j \<and> j \<le> 65535 \<longrightarrow> candidate (lastCandidate gen) j = 0
        \<or> candidate (lastCandidate gen) j \<in> ublk_id ` set devs"
      and x: "0 < unat x \<and> unat x \<le> 65535 \<and> x \<noteq> lastCandidate gen"
    then obtain j where "1 \<le> j" "j \<le> 65535" "candidate (lastCandidate gen) j = x"
      using candidate_covers [OF cur, of x] by auto
    with all x show "x \<in> ublk_id ` set devs"
      by fastforce
  next
    fix j :: nat
    assume "\<forall>x. 0 < unat x \<and> unat x \<le> 65535 \<and> x \<noteq> lastCandidate gen \<longrightarrow> x \<in> ublk_id ` set devs"
      and "1 \<le> j \<and> j \<le> 65535"
    then show "candidate (lastCandidate gen) j = 0
        \<or> candidate (lastCandidate gen) j \<in> ublk_id ` set devs"
      using candidate_misses_cursor [OF cur, of j] by (auto simp: unat_gt_0)
  qed
  finally show ?thesis .
qed

theorem GetAvailableID_refuses_iff_witness:
  "cursor_ok \<lparr>lastCandidate = 1\<rparr> \<and>
   (GetAvailableID \<lparr>lastCandidate = 1\<rparr> [] = (Inl no_available_id, \<lparr>lastCandidate = 1\<rparr>) \<longleftrightarrow>
     (\<forall>x. 0 < unat x \<and> unat x \<le> 65535 \<and> x \<noteq> 1
        \<longrightarrow> x \<in> ublk_id ` set ([] :: UblkDevice list)))"
proof -
  have ok: "cursor_ok \<lparr>lastCandidate = 1\<rparr>"
    by (simp add: cursor_ok_def)
  from GetAvailableID_refuses_iff [OF ok, of "[]"] ok show ?thesis
    by simp
qed

text \<open>
  Property C25. An id the generator hands out is in 1..65535, is not in the given device list, differs
  from the id handed out before it (so two callers with the same, stale list still get different
  ids), is remembered as the new cursor, and is the first free id after the cursor in cyclic order. It fails only
  when every other id than the one handed out last is in use, and then keeps its cursor.
\<close>

theorem GetAvailableID_sound:
  assumes "cursor_ok gen" and "GetAvailableID gen devs = (r, gen')"
  shows "cursor_ok gen' \<and> (case r of
      Inr i \<Rightarrow>
        0 < unat i \<and> unat i \<le> 65535 \<and> i \<notin> ublk_id ` set devs \<and> i \<noteq> lastCandidate gen \<and> lastCandidate gen' = i \<and>
        (\<exists>j. 1 \<le> j \<and> j \<le> 65535 \<and> i = candidate (lastCandidate gen) j \<and>
           (\<forall>m. 1 \<le> m \<and> m < j \<longrightarrow> candidate (lastCandidate gen) m = 0 \<or>
              candidate (lastCandidate gen) m \<in> ublk_id ` set devs))
    | Inl e \<Rightarrow>
        e = no_available_id \<and> gen' = gen \<and>
        (\<forall>x. 0 < unat x \<and> unat x \<le> 65535 \<and> x \<noteq> lastCandidate gen \<longrightarrow> x \<in> ublk_id ` set devs))"
proof (cases r)
  case (Inl e)
  then have "GetAvailableID gen devs = (Inl no_available_id, gen)" "e = no_available_id" "gen' = gen"
    using assms(2) by (auto simp: GetAvailableID_def Let_def split: option.splits)
  with Inl GetAvailableID_refuses_iff [OF assms(1), of devs] show ?thesis
    using assms(1) by auto
next
  case (Inr i)
  with GetAvailableID_Inr [OF assms(1), of devs i gen'] GetAvailableID_cursor [OF assms] assms(2) show ?thesis
    by simp
qed

theorem GetAvailableID_sound_witness:
  "let gen = \<lparr>lastCandidate = 65535\<rparr>; i = 2
   in GetAvailableID gen [\<lparr>ublk_bdev_name = ''b'', ublk_id = 1, ublk_num_queues = 1,
          ublk_queue_depth = 128, ublk_device = ''/dev/ublkb1''\<rparr>] = (Inr i, \<lparr>lastCandidate = 2\<rparr>)
      \<and> i \<noteq> lastCandidate gen"
proof -
  let ?gen = "\<lparr>lastCandidate = 65535\<rparr>"
  let ?devs = "[\<lparr>ublk_bdev_name = ''b'', ublk_id = 1, ublk_num_queues = 1, ublk_queue_depth = 128,
      ublk_device = ''/dev/ublkb1''\<rparr>]"
  have ok: "cursor_ok ?gen"
    by (simp add: cursor_ok_def)
  have run: "GetAvailableID ?gen ?devs = (Inr 2, \<lparr>lastCandidate = 2\<rparr>)"
    by (simp add: GetAvailableID_def try_ids.simps candidate_def const_defs Let_def)
  from GetAvailableID_sound [OF ok run] run show ?thesis
    by (simp add: Let_def cursor_ok_def)
qed

definition device_with_id :: "i32 \<Rightarrow> UblkDevice" where
  "device_with_id i = \<lparr>ublk_bdev_name = ''bdev'', ublk_id = i, ublk_num_queues = 1,
     ublk_queue_depth = 128, ublk_device = ''/dev/ublkb'' @ itoa (sint i)\<rparr>"

definition devices_from_two :: "nat \<Rightarrow> UblkDevice list" where
  "devices_from_two n = map (\<lambda>i. device_with_id (of_nat i)) [2..<n]"

lemma devices_from_two_ids:
  assumes "n \<le> 65536"
  shows "x \<in> ublk_id ` set (devices_from_two n) \<longleftrightarrow> 2 \<le> unat x \<and> unat x < n"
proof -
  have small: "unat (of_nat i :: i32) = i" if "i < n" for i
    using that assms by (simp add: unsigned_of_nat take_bit_nat_eq_self)
  have "ublk_id ` set (devices_from_two n) = of_nat ` {2..<n}"
    by (force simp: devices_from_two_def device_with_id_def image_image)
  then show ?thesis
    using small by (auto intro!: image_eqI [of _ _ "unat x"])
qed

text \<open>
  A free id can be refused: the first call on a fresh generator hands out id 1; if that
  disk is stopped later and all other ids are then in use, the next call reports that all ids are
  in use although 1 is free.
\<close>

theorem free_id_refused:
  "\<exists>gen devs. GetAvailableID \<lparr>lastCandidate = 0\<rparr> [] = (Inr 1, gen)
     \<and> 1 \<notin> ublk_id ` set devs
     \<and> GetAvailableID gen devs = (Inl no_available_id, gen)"
proof (intro exI conjI)
  let ?gen = "\<lparr>lastCandidate = 1\<rparr> :: IDGenerator"
  let ?devs = "devices_from_two 65536"
  show "GetAvailableID \<lparr>lastCandidate = 0\<rparr> [] = (Inr 1, ?gen)"
    by (simp add: GetAvailableID_def try_ids.simps candidate_def const_defs Let_def)
  show "1 \<notin> ublk_id ` set ?devs"
    by (simp add: devices_from_two_ids)
  have "x \<in> ublk_id ` set ?devs" if "0 < unat x" "unat x \<le> 65535" "x \<noteq> 1" for x
  proof -
    have "unat x \<noteq> 1"
      using that(3) by (simp add: word_unat_eq_iff)
    then show ?thesis
      using that by (simp add: devices_from_two_ids)
  qed
  then show "GetAvailableID ?gen ?devs = (Inl no_available_id, ?gen)"
    by (subst GetAvailableID_refuses_iff) (auto simp: cursor_ok_def)
qed

text \<open>
  Disks started one after the other, each with the id the generator gives for the list of
  disks so far, all have different non-zero ids, whatever ids were in use before.
\<close>

theorem started_disks_distinct_ids:
  assumes "cursor_ok gen" and "distinct (map ublk_id devs)" and "0 \<notin> ublk_id ` set devs"
    and "start_disks GetAvailableID gen devs names = (Inr devs', gen')"
  shows "distinct (map ublk_id devs') \<and> 0 \<notin> ublk_id ` set devs'
    \<and> length devs' = length devs + length names"
  using ublk.start_disks_distinct [OF assms] by simp

theorem started_disks_distinct_ids_witness:
  "\<exists>devs' gen'. start_disks GetAvailableID \<lparr>lastCandidate = 0\<rparr> [] [''a'', ''b''] = (Inr devs', gen')
     \<and> distinct (map ublk_id devs') \<and> 0 \<notin> ublk_id ` set devs' \<and> length devs' = 2"
proof -
  obtain devs' gen' where run:
      "start_disks GetAvailableID \<lparr>lastCandidate = 0\<rparr> [] [''a'', ''b''] = (Inr devs', gen')"
    by (simp add: GetAvailableID_def try_ids.simps candidate_def const_defs Let_def)
  have "distinct (map ublk_id devs') \<and> 0 \<notin> ublk_id ` set devs'
      \<and> length devs' = length ([] :: UblkDevice list) + length [''a'', ''b'']"
    by (rule started_disks_distinct_ids [OF _ _ _ run]) (simp_all add: cursor_ok_def)
  with run show ?thesis
    by auto
qed

end
