(* ===== verification/Effects.thy ===== *)
theory Effects
  imports GoErrors
begin

text \<open>
  Operations with effects and error returns. A Go function that talks to its environment and returns
  \<open>(T, error)\<close> is a function of the state that returns the result and the new state. \<open>io_bind m f\<close> is
  the idiom \<open>x, err := m(); if err != nil { return err }; f(x)\<close>. A loop over a list that returns at
  the first error is \<open>io_foreach\<close>.
\<close>

type_synonym ('s, 'a) io = "'s \<Rightarrow> (go_error + 'a) \<times> 's"

definition io_return :: "'a \<Rightarrow> ('s, 'a) io" where
  "io_return x = (\<lambda>s. (Inr x, s))"

definition io_fail :: "go_error \<Rightarrow> ('s, 'a) io" where
  "io_fail e = (\<lambda>s. (Inl e, s))"

definition io_bind :: "('s, 'a) io \<Rightarrow> ('a \<Rightarrow> ('s, 'b) io) \<Rightarrow> ('s, 'b) io" where
  "io_bind m f = (\<lambda>s. case m s of (Inl e, s') \<Rightarrow> (Inl e, s') | (Inr x, s') \<Rightarrow> f x s')"

text \<open>Both branches of \<open>if err != nil\<close>: a handler for the error, a continuation for the value. A panic is not
  handled.\<close>

definition io_case :: "('s, 'a) io \<Rightarrow> (go_error \<Rightarrow> ('s, 'b) io) \<Rightarrow> ('a \<Rightarrow> ('s, 'b) io) \<Rightarrow> ('s, 'b) io" where
  "io_case m h f = (\<lambda>s. case m s of (Inl e, s') \<Rightarrow> if is_panic e then (Inl e, s') else h e s' | (Inr x, s') \<Rightarrow> f x s')"

definition io_lift :: "go_error + 'a \<Rightarrow> ('s, 'a) io" where
  "io_lift r = (\<lambda>s. (r, s))"

fun io_foreach :: "('a \<Rightarrow> ('s, unit) io) \<Rightarrow> 'a list \<Rightarrow> ('s, unit) io" where
  "io_foreach f [] = io_return ()"
| "io_foreach f (x # xs) = io_bind (f x) (\<lambda>_. io_foreach f xs)"

text \<open>A loop that builds a list: each element contributes some elements or ends the loop with an
  error.\<close>

fun io_collect :: "('a \<Rightarrow> ('s, 'b list) io) \<Rightarrow> 'a list \<Rightarrow> ('s, 'b list) io" where
  "io_collect f [] = io_return []"
| "io_collect f (x # xs) =
     io_bind (f x) (\<lambda>ys. io_bind (io_collect f xs) (\<lambda>zs. io_return (ys @ zs)))"

section \<open>Laws\<close>

lemma io_return_apply [io_simps]: "io_return x s = (Inr x, s)"
  by (simp add: io_return_def)

lemma io_fail_apply [io_simps]: "io_fail e s = (Inl e, s)"
  by (simp add: io_fail_def)

lemma io_lift_apply [io_simps]: "io_lift r s = (r, s)"
  by (simp add: io_lift_def)

lemma io_bind_Inr [io_simps]: "m s = (Inr x, s') \<Longrightarrow> io_bind m f s = f x s'"
  by (simp add: io_bind_def)

lemma io_bind_Inl [io_simps]: "m s = (Inl e, s') \<Longrightarrow> io_bind m f s = (Inl e, s')"
  by (simp add: io_bind_def)

lemma io_case_Inr [io_simps]: "m s = (Inr x, s') \<Longrightarrow> io_case m h f s = f x s'"
  by (simp add: io_case_def)

lemma io_case_Inl [io_simps]: "m s = (Inl e, s') \<Longrightarrow> \<not> is_panic e \<Longrightarrow> io_case m h f s = h e s'"
  by (simp add: io_case_def)

lemma io_bind_eq_Inr:
  "io_bind m f s = (Inr y, s'') \<longleftrightarrow> (\<exists>x s'. m s = (Inr x, s') \<and> f x s' = (Inr y, s''))"
  by (auto simp: io_bind_def split: prod.splits sum.splits)

lemma io_bind_eq_Inl:
  "io_bind m f s = (Inl e, s'') \<longleftrightarrow>
     m s = (Inl e, s'') \<or> (\<exists>x s'. m s = (Inr x, s') \<and> f x s' = (Inl e, s''))"
  by (auto simp: io_bind_def split: prod.splits sum.splits)

lemma io_bind_assoc: "io_bind (io_bind m f) g = io_bind m (\<lambda>x. io_bind (f x) g)"
  by (auto simp: io_bind_def fun_eq_iff split: prod.splits sum.splits)

lemma io_bind_return_left [simp]: "io_bind (io_return x) f = f x"
  by (simp add: io_bind_def io_return_def)

lemma io_bind_return_right [simp]: "io_bind m io_return = m"
  by (auto simp: io_bind_def io_return_def fun_eq_iff split: prod.splits sum.splits)

lemma io_foreach_append: "io_foreach f (xs @ ys) = io_bind (io_foreach f xs) (\<lambda>_. io_foreach f ys)"
  by (induction xs) (simp_all add: io_bind_assoc)

section \<open>What an operation adds to a trace\<close>

text \<open>\<open>traces tr m P\<close>: whatever the environment does, \<open>m\<close> appends some events to the trace \<open>tr\<close> of the
  state, and \<open>P\<close> holds of the result and of those events.\<close>

definition traces :: "('s \<Rightarrow> 'c list) \<Rightarrow> ('s, 'a) io \<Rightarrow> (go_error + 'a \<Rightarrow> 'c list \<Rightarrow> bool) \<Rightarrow> bool" where
  "traces tr m P = (\<forall>s. \<exists>cs. tr (snd (m s)) = tr s @ cs \<and> P (fst (m s)) cs)"

lemma tracesI: "(\<And>s. \<exists>cs. tr (snd (m s)) = tr s @ cs \<and> P (fst (m s)) cs) \<Longrightarrow> traces tr m P"
  by (simp add: traces_def)

lemma tracesD:
  assumes "traces tr m P" and "m s = (r, s')"
  obtains cs where "tr s' = tr s @ cs" and "P r cs"
  using assms unfolding traces_def by (metis fst_conv snd_conv)

lemma traces_mono: "traces tr m P \<Longrightarrow> (\<And>r cs. P r cs \<Longrightarrow> Q r cs) \<Longrightarrow> traces tr m Q"
  unfolding traces_def by blast

lemma traces_return: "P (Inr x) [] \<Longrightarrow> traces tr (io_return x) P"
  by (simp add: traces_def io_return_def)

lemma traces_fail: "P (Inl e) [] \<Longrightarrow> traces tr (io_fail e) P"
  by (simp add: traces_def io_fail_def)

lemma traces_lift: "P r [] \<Longrightarrow> traces tr (io_lift r) P"
  by (simp add: traces_def io_lift_def)

lemma traces_case:
  assumes m: "traces tr m Q"
    and err: "\<And>e cs. Q (Inl e) cs \<Longrightarrow> traces tr (h e) (\<lambda>r cs'. P r (cs @ cs'))"
    and ok: "\<And>x cs. Q (Inr x) cs \<Longrightarrow> traces tr (f x) (\<lambda>r cs'. P r (cs @ cs'))"
    and panic: "\<And>e cs. Q (Inl e) cs \<Longrightarrow> is_panic e \<Longrightarrow> P (Inl e) cs"
  shows "traces tr (io_case m h f) P"
proof (rule tracesI)
  fix s
  obtain r s' where ms: "m s = (r, s')" by (cases "m s")
  with m obtain cs where cs: "tr s' = tr s @ cs" "Q r cs"
    by (rule tracesD)
  show "\<exists>cs. tr (snd (io_case m h f s)) = tr s @ cs \<and> P (fst (io_case m h f s)) cs"
  proof (cases r)
    case (Inl e)
    with err cs(2) have "traces tr (h e) (\<lambda>r cs'. P r (cs @ cs'))" by simp
    then show ?thesis
      unfolding io_case_def ms Inl using cs panic Inl by (auto simp: traces_def dest: spec [of _ s'])
  next
    case (Inr x)
    with ok cs(2) have "traces tr (f x) (\<lambda>r cs'. P r (cs @ cs'))" by simp
    then show ?thesis
      unfolding io_case_def ms Inr using cs(1) by (auto simp: traces_def dest: spec [of _ s'])
  qed
qed

lemma io_bind_as_case: "io_bind m f = io_case m io_fail f"
  by (auto simp: io_bind_def io_case_def io_fail_def fun_eq_iff split: prod.splits sum.splits)

lemma traces_bind:
  assumes "traces tr m Q" and "\<And>e cs. Q (Inl e) cs \<Longrightarrow> P (Inl e) cs"
    and "\<And>x cs. Q (Inr x) cs \<Longrightarrow> traces tr (f x) (\<lambda>r cs'. P r (cs @ cs'))"
  shows "traces tr (io_bind m f) P"
  unfolding io_bind_as_case by (rule traces_case [OF assms(1)]) (auto intro!: traces_fail assms(2,3))

end
