(* ===== verification/Json.thy ===== *)
theory Json
  imports Effects "HOL-Library.Char_ord" "HOL-Library.List_Lexorder"
begin

text \<open>
  JSON values, the way the code uses \<open>encoding/json\<close>: requests are built from structs whose tags may
  say \<open>omitempty\<close>, replies are decoded into structs, and a reply's \<open>result\<close> passes through an
  \<open>interface{}\<close>, where every number becomes a float64, before it is encoded again and decoded into
  its struct. A byte slice that holds JSON is modelled by the value it denotes; numbers are
  integers, the only ones the SPDK methods used here send.
\<close>

datatype json =
    JNull
  | JBool bool
  | JNum int
  | JStr string
  | JArr "json list"
  | JObj "(string \<times> json) list"

section \<open>Encoding a struct\<close>

text \<open>One field of a request; with \<open>omitempty\<close> the zero value of its type is left out.\<close>

definition field :: "string \<Rightarrow> json \<Rightarrow> (string \<times> json) list" where
  "field k v = [(k, v)]"

fun is_zero_value :: "json \<Rightarrow> bool" where
  "is_zero_value JNull = True"
| "is_zero_value (JBool b) = (\<not> b)"
| "is_zero_value (JNum n) = (n = 0)"
| "is_zero_value (JStr s) = (s = [])"
| "is_zero_value (JArr xs) = (xs = [])"
| "is_zero_value (JObj kvs) = (kvs = [])"

definition omitempty :: "string \<Rightarrow> json \<Rightarrow> (string \<times> json) list" where
  "omitempty k v = (if is_zero_value v then [] else [(k, v)])"

definition jword :: "'a::len word \<Rightarrow> json" where
  "jword w = JNum (uint w)"

definition jsigned :: "'a::len word \<Rightarrow> json" where
  "jsigned w = JNum (sint w)"

text \<open>A slice; the nil slice is \<open>null\<close>.\<close>

definition jslice :: "('a \<Rightarrow> json) \<Rightarrow> 'a list option \<Rightarrow> json" where
  "jslice f xs = (case xs of None \<Rightarrow> JNull | Some ys \<Rightarrow> JArr (map f ys))"

text \<open>A map with string keys is encoded in the order of its keys, each key once.\<close>

fun last_wins :: "(string \<times> 'v) list \<Rightarrow> (string \<times> 'v) list" where
  "last_wins [] = []"
| "last_wins ((k, v) # kvs) = (if k \<in> fst ` set kvs then last_wins kvs else (k, v) # last_wins kvs)"

definition jmap :: "(string \<times> json) list \<Rightarrow> json" where
  "jmap kvs = JObj (sort_key fst (last_wins kvs))"

section \<open>Decoding into a struct\<close>

text \<open>A decoder returns the value or an error; \<open>null\<close> leaves the zero value in place.\<close>

type_synonym 'a decoder = "json \<Rightarrow> go_error + 'a"

definition type_error :: go_error where
  "type_error = PlainErr ''json: cannot unmarshal value into Go value''"

text \<open>The value of a struct field: the last key that equals its name up to case.\<close>

fun last_match :: "(string \<Rightarrow> bool) \<Rightarrow> (string \<times> json) list \<Rightarrow> json" where
  "last_match p [] = JNull"
| "last_match p ((k, v) # kvs) =
     (if p k \<and> (\<forall>k' \<in> set (map fst kvs). \<not> p k') then v else last_match p kvs)"

definition lookup_field :: "string \<Rightarrow> (string \<times> json) list \<Rightarrow> json" where
  "lookup_field k kvs = last_match (\<lambda>k'. to_lower k' = to_lower k) kvs"

definition dec_string :: "string decoder" where
  "dec_string j = (case j of JStr s \<Rightarrow> Inr s | JNull \<Rightarrow> Inr [] | _ \<Rightarrow> Inl type_error)"

definition dec_bool :: "bool decoder" where
  "dec_bool j = (case j of JBool b \<Rightarrow> Inr b | JNull \<Rightarrow> Inr False | _ \<Rightarrow> Inl type_error)"

definition dec_word :: "'a::len word decoder" where
  "dec_word j =
     (case j of
        JNum n \<Rightarrow> if 0 \<le> n \<and> n < 2 ^ LENGTH('a) then Inr (word_of_int n) else Inl type_error
      | JNull \<Rightarrow> Inr 0
      | _ \<Rightarrow> Inl type_error)"

definition dec_signed :: "'a::len word decoder" where
  "dec_signed j =
     (case j of
        JNum n \<Rightarrow> if - (2 ^ (LENGTH('a) - 1)) \<le> n \<and> n < 2 ^ (LENGTH('a) - 1)
                   then Inr (word_of_int n) else Inl type_error
      | JNull \<Rightarrow> Inr 0
      | _ \<Rightarrow> Inl type_error)"

definition dec_number :: "int decoder" where
  "dec_number j = (case j of JNum n \<Rightarrow> Inr n | JNull \<Rightarrow> Inr 0 | _ \<Rightarrow> Inl type_error)"

fun dec_all :: "'a decoder \<Rightarrow> json list \<Rightarrow> go_error + 'a list" where
  "dec_all d [] = Inr []"
| "dec_all d (j # js) =
     (case d j of Inl e \<Rightarrow> Inl e
      | Inr x \<Rightarrow> (case dec_all d js of Inl e \<Rightarrow> Inl e | Inr xs \<Rightarrow> Inr (x # xs)))"

text \<open>A slice: \<open>None\<close> is the nil slice that \<open>null\<close> (or an absent field) leaves.\<close>

definition dec_slice :: "'a decoder \<Rightarrow> 'a list option decoder" where
  "dec_slice d j =
     (case j of
        JArr js \<Rightarrow> map_sum id Some (dec_all d js)
      | JNull \<Rightarrow> Inr None
      | _ \<Rightarrow> Inl type_error)"

definition dec_list :: "'a decoder \<Rightarrow> 'a list decoder" where
  "dec_list d j = map_sum id (\<lambda>xs. case xs of None \<Rightarrow> [] | Some ys \<Rightarrow> ys) (dec_slice d j)"

text \<open>A pointer field: absent or \<open>null\<close> is nil.\<close>

definition dec_ptr :: "'a decoder \<Rightarrow> 'a option decoder" where
  "dec_ptr d j = (case j of JNull \<Rightarrow> Inr None | _ \<Rightarrow> map_sum id Some (d j))"

text \<open>A map of strings; the last of two equal keys wins. The nil map reads like the empty one.\<close>

fun dec_pairs :: "'a decoder \<Rightarrow> (string \<times> json) list \<Rightarrow> go_error + (string \<times> 'a) list" where
  "dec_pairs d [] = Inr []"
| "dec_pairs d ((k, j) # kvs) =
     (case d j of Inl e \<Rightarrow> Inl e
      | Inr x \<Rightarrow> (case dec_pairs d kvs of Inl e \<Rightarrow> Inl e | Inr xs \<Rightarrow> Inr ((k, x) # xs)))"

definition dec_map :: "'a decoder \<Rightarrow> (string \<rightharpoonup> 'a) decoder" where
  "dec_map d j =
     (case j of
        JObj kvs \<Rightarrow> map_sum id (\<lambda>xs. map_of (rev xs)) (dec_pairs d kvs)
      | JNull \<Rightarrow> Inr Map.empty
      | _ \<Rightarrow> Inl type_error)"

text \<open>The fields of an object; \<open>null\<close> leaves every field at its zero value.\<close>

definition dec_fields :: "((string \<times> json) list \<Rightarrow> go_error + 'a) \<Rightarrow> 'a decoder" where
  "dec_fields f j = (case j of JObj kvs \<Rightarrow> f kvs | JNull \<Rightarrow> f [] | _ \<Rightarrow> Inl type_error)"

text \<open>Decoding one field and going on: the first error wins.\<close>

definition get_field :: "string \<Rightarrow> 'a decoder \<Rightarrow> (string \<times> json) list \<Rightarrow> ('a \<Rightarrow> go_error + 'b) \<Rightarrow> go_error + 'b" where
  "get_field k d kvs f = (case d (lookup_field k kvs) of Inl e \<Rightarrow> Inl e | Inr x \<Rightarrow> f x)"

section \<open>Numbers through an interface\<close>

text \<open>The float64 nearest to an integer, ties to even: exact below \<open>2 ^ 53\<close>, above that the integer is
  rounded to 53 significant bits.\<close>

fun bit_count :: "nat \<Rightarrow> nat" where
  "bit_count n = (if n = 0 then 0 else Suc (bit_count (n div 2)))"

declare bit_count.simps [simp del]

definition f64_nat :: "nat \<Rightarrow> nat" where
  "f64_nat n =
     (if n < 2 ^ 53 then n
      else let e = bit_count n - 53; q = n div 2 ^ e; r = n mod 2 ^ e; half = 2 ^ (e - 1)
           in (if r > half \<or> (r = half \<and> odd q) then q + 1 else q) * 2 ^ e)"

text \<open>The shortest decimal that reads back as the float \<open>x\<close>: the multiple of the largest power of ten
  that rounds to \<open>x\<close>, the nearer one when two do. This is what \<open>strconv\<close> prints with precision -1
  and what the encoder writes for a float below \<open>10 ^ 21\<close>.\<close>

fun shortest_from :: "nat \<Rightarrow> nat \<Rightarrow> nat" where
  "shortest_from j x =
     (let p = 10 ^ j; lo = x div p * p; hi = lo + p;
          lo_ok = (f64_nat lo = x); hi_ok = (f64_nat hi = x)
      in if lo_ok \<and> (\<not> hi_ok \<or> x - lo \<le> hi - x) then lo
         else if hi_ok then hi
         else if j = 0 then x else shortest_from (j - 1) x)"

declare shortest_from.simps [simp del]

definition shortest_decimal :: "nat \<Rightarrow> nat" where
  "shortest_decimal x = shortest_from (length (itoa_nat x)) x"

definition number_through_interface :: "int \<Rightarrow> int" where
  "number_through_interface n =
     (if n < 0 then - int (shortest_decimal (f64_nat (nat (- n))))
      else int (shortest_decimal (f64_nat (nat n))))"

text \<open>Decoding into an \<open>interface{}\<close> and encoding again: objects become maps.\<close>

fun through_interface :: "json \<Rightarrow> json" where
  "through_interface (JNum n) = JNum (number_through_interface n)"
| "through_interface (JArr xs) = JArr (map through_interface xs)"
| "through_interface (JObj kvs) = jmap (map (\<lambda>(k, v). (k, through_interface v)) kvs)"
| "through_interface j = j"

section \<open>The text of a value\<close>

text \<open>
  What the encoder writes for a value, for the places that use the bytes themselves. Characters below
  32, the quote, the backslash and \<open><\<close>, \<open>>\<close>, \<open>&\<close> are escaped; bytes above 127 are left as they are.
\<close>

definition hex_digit :: "nat \<Rightarrow> char" where
  "hex_digit n = (if n < 10 then char_of (48 + n) else char_of (87 + n))"

definition escape_char :: "char \<Rightarrow> string" where
  "escape_char c =
     (let n = (of_char c :: nat) in
      if n = 34 then [CHR 0x5C, CHR 0x22]
      else if n = 92 then [CHR 0x5C, CHR 0x5C]
      else if n = 8 then [CHR 0x5C, CHR ''b'']
      else if n = 9 then [CHR 0x5C, CHR ''t'']
      else if n = 10 then [CHR 0x5C, CHR ''n'']
      else if n = 12 then [CHR 0x5C, CHR ''f'']
      else if n = 13 then [CHR 0x5C, CHR ''r'']
      else if n < 32 \<or> n = 60 \<or> n = 62 \<or> n = 38
        then CHR 0x5C # ''u00'' @ [hex_digit (n div 16), hex_digit (n mod 16)]
      else [c])"

definition quoted :: "string \<Rightarrow> string" where
  "quoted s = [CHR 0x22] @ concat (map escape_char s) @ [CHR 0x22]"

fun join_with :: "string \<Rightarrow> string list \<Rightarrow> string" where
  "join_with sep [] = []"
| "join_with sep [s] = s"
| "join_with sep (s # t # ts) = s @ sep @ join_with sep (t # ts)"

fun json_text :: "json \<Rightarrow> string" where
  "json_text JNull = ''null''"
| "json_text (JBool b) = (if b then ''true'' else ''false'')"
| "json_text (JNum n) = itoa n"
| "json_text (JStr s) = quoted s"
| "json_text (JArr js) = ''['' @ join_with '','' (map json_text js) @ '']''"
| "json_text (JObj kvs) = ''{'' @ join_with '','' (map (\<lambda>(k, j). quoted k @ '':'' @ json_text j) kvs) @ ''}''"

text \<open>\<open>Encoder.Encode\<close> ends the text with a newline.\<close>

definition encoder_text :: "json \<Rightarrow> string" where
  "encoder_text j = json_text j @ [newline]"

section \<open>Facts\<close>

lemma dec_word_jword [simp]: "dec_word (jword w) = Inr w"
proof -
  have "0 \<le> uint w" and "uint w < 2 ^ LENGTH('a)"
    by (simp_all add: uint_bounded)
  then show ?thesis
    by (simp add: dec_word_def jword_def)
qed

lemma f64_nat_small: "n < 9007199254740992 \<Longrightarrow> f64_nat n = n"
  by (simp add: f64_nat_def)

lemma bit_count_lower: "n \<noteq> 0 \<Longrightarrow> 2 ^ (bit_count n - 1) \<le> n"
proof (induction n rule: bit_count.induct)
  case (1 n)
  show ?case
  proof (cases "n div 2 = 0")
    case True
    then have "bit_count n = 1"
      using "1.prems" by (simp add: bit_count.simps [of n] bit_count.simps [of 0])
    then show ?thesis using "1.prems" by simp
  next
    case False
    then have IH: "2 ^ (bit_count (n div 2) - 1) \<le> n div 2"
      using "1.IH" "1.prems" by simp
    have pos: "bit_count (n div 2) \<noteq> 0"
      using False by (simp add: bit_count.simps [of "n div 2"])
    then have "(2 :: nat) ^ bit_count (n div 2) = 2 * 2 ^ (bit_count (n div 2) - 1)"
      by (metis power_eq_if)
    then show ?thesis
      using IH "1.prems" by (simp add: bit_count.simps [of n])
  qed
qed

lemma f64_nat_large:
  assumes "9007199254740992 \<le> n" shows "9007199254740992 \<le> f64_nat n"
proof -
  define e where "e = bit_count n - 53"
  have n: "2 ^ (bit_count n - 1) \<le> n"
    using assms by (intro bit_count_lower) simp
  show ?thesis
  proof (cases "54 \<le> bit_count n")
    case True
    then have "52 + e = bit_count n - 1"
      by (simp add: e_def)
    then have "(2 :: nat) ^ 52 * 2 ^ e = 2 ^ (bit_count n - 1)"
      by (simp only: power_add [symmetric])
    with n have "(2 :: nat) ^ 52 * 2 ^ e \<le> n"
      by simp
    then have "2 ^ 52 \<le> n div 2 ^ e"
      by (subst less_eq_div_iff_mult_less_eq) simp_all
    moreover have "1 \<le> e"
      using True by (simp add: e_def)
    then have "(2 :: nat) \<le> 2 ^ e"
      by (metis power_increasing power_one_right one_le_numeral)
    ultimately have "(2 :: nat) ^ 52 * 2 \<le> n div 2 ^ e * 2 ^ e"
      by (intro mult_le_mono)
    then show ?thesis
      using assms unfolding f64_nat_def Let_def e_def [symmetric] by (auto simp: algebra_simps)
  next
    case False
    then have "e = 0" by (simp add: e_def)
    then show ?thesis
      using assms unfolding f64_nat_def Let_def e_def [symmetric] by simp
  qed
qed

text \<open>Below \<open>2 ^ 53\<close> a number is its own shortest decimal.\<close>

lemma shortest_from_small: "x < 9007199254740992 \<Longrightarrow> shortest_from j x = x"
proof (induction j arbitrary: x)
  case 0
  then show ?case
    by (simp add: shortest_from.simps [of 0] f64_nat_small Let_def)
next
  case (Suc j)
  have eq: "f64_nat m = x \<Longrightarrow> m = x" for m
    using f64_nat_small [of m] f64_nat_large [of m] Suc.prems by (cases "m < 9007199254740992") auto
  show ?case
    using Suc by (auto simp: shortest_from.simps [of "Suc j"] Let_def dest: eq)
qed

lemma number_through_interface_exact:
  "\<bar>n\<bar> < 9007199254740992 \<Longrightarrow> number_through_interface n = n"
  by (auto simp: number_through_interface_def shortest_decimal_def f64_nat_small shortest_from_small)

text \<open>A string without characters that need escaping is written between quotes as it is.\<close>

definition plain_char :: "char \<Rightarrow> bool" where
  "plain_char c = (escape_char c = [c])"

lemma quoted_plain: "\<forall>c \<in> set s. plain_char c \<Longrightarrow> quoted s = [CHR 0x22] @ s @ [CHR 0x22]"
  unfolding quoted_def by (induction s) (simp_all add: plain_char_def)

text \<open>The number of bits, from the powers of two around a number.\<close>

lemma bit_count_eq: "2 ^ k \<le> n \<Longrightarrow> n < 2 ^ Suc k \<Longrightarrow> bit_count n = Suc k"
proof (induction k arbitrary: n)
  case 0
  then show ?case by (simp add: bit_count.simps [of n] bit_count.simps [of 0])
next
  case (Suc k)
  then have "bit_count (n div 2) = Suc k"
    by (intro Suc.IH) simp_all
  moreover have "n \<noteq> 0" using Suc.prems(1) by (metis not_numeral_le_zero power_not_zero le_zero_eq zero_neq_numeral)
  ultimately show ?case by (simp add: bit_count.simps [of n])
qed

text \<open>Between \<open>2 ^ 53\<close> and \<open>2 ^ 54\<close> a float64 is even: odd integers go to the neighbour whose half is
  even.\<close>

lemma f64_nat_53:
  assumes "9007199254740992 \<le> n" and "n < 18014398509481984"
  shows "f64_nat n = (if even n then n else if n mod 4 = 1 then n - 1 else n + 1)"
proof -
  have "bit_count n = 54"
    using assms bit_count_eq [of 53 n] by simp
  moreover have "odd n \<Longrightarrow> odd (n div 2) \<longleftrightarrow> n mod 4 \<noteq> 1"
    by presburger
  moreover have "even n \<Longrightarrow> n div 2 * 2 = n" "odd n \<Longrightarrow> n div 2 * 2 = n - 1"
    by presburger+
  moreover have "odd n \<Longrightarrow> 1 \<le> n" by presburger
  ultimately show ?thesis
    using assms by (auto simp: f64_nat_def Let_def mod_2_eq_odd)
qed

lemmas decoder_defs =
  dec_fields_def get_field_def lookup_field_def to_lower_def lower_char_def dec_word_def dec_signed_def
  dec_string_def dec_bool_def dec_list_def dec_slice_def dec_ptr_def dec_number_def

end
