(* ===== verification/JsonRpcTypes.thy ===== *)
theory JsonRpcTypes
  imports Json
begin

text \<open>
  The messages of \<open>pkg/jsonrpc/types.go\<close> and the functions that classify the errors of a call. Every
  classifier asserts on the dynamic type of the error itself: it recognises a
  \<^term>\<open>ClientErr\<close> and looks at the error that one carries, and never looks through a wrapped error.
\<close>

section \<open>Messages\<close>

record Message =
  ID :: u32
  Version :: string
  Method :: string
  Params :: json

definition NewMessage :: "u32 \<Rightarrow> string \<Rightarrow> json \<Rightarrow> Message" where
  "NewMessage i meth ps = \<lparr> ID = i, Version = ''2.0'', Method = meth, Params = ps \<rparr>"

definition enc_Message :: "Message \<Rightarrow> json" where
  "enc_Message msg = JObj
     (field ''id'' (jword (ID msg)) @ field ''jsonrpc'' (JStr (Version msg)) @
      field ''method'' (JStr (Method msg)) @ field ''params'' (Params msg))"

definition RespErrorCodeInternalError :: int where [const_defs]: "RespErrorCodeInternalError = -32603"
definition RespErrorCodeNoEntry :: int where [const_defs]: "RespErrorCodeNoEntry = -2"
definition RespErrorCodeNoSuchProcess :: int where [const_defs]: "RespErrorCodeNoSuchProcess = -3"
definition RespErrorCodeDeviceOrResourceBusy :: int where [const_defs]: "RespErrorCodeDeviceOrResourceBusy = -16"
definition RespErrorCodeNoFileExists :: int where [const_defs]: "RespErrorCodeNoFileExists = -17"
definition RespErrorCodeNoSuchDevice :: int where [const_defs]: "RespErrorCodeNoSuchDevice = -19"

definition RespErrorMsgNoSuchFileOrDirectory :: string where [const_defs]:
  "RespErrorMsgNoSuchFileOrDirectory = ''No such file or directory''"

text \<open>The code of an error is an \<open>int32\<close>; its value is kept as an integer.\<close>

record ResponseError =
  Code :: int
  ErrMessage :: string

record Response =
  RespID :: u32
  RespVersion :: string
  Result :: json
  ErrorInfo :: "ResponseError option"

definition response_error :: "ResponseError \<Rightarrow> go_error" where
  "response_error re = ResponseErr (Code re) (ErrMessage re)"

definition dec_int32 :: "int decoder" where
  "dec_int32 j = map_sum id (\<lambda>w. sint (w :: i32)) (dec_signed j)"

definition dec_ResponseError :: "ResponseError decoder" where
  "dec_ResponseError = dec_fields (\<lambda>kvs.
     get_field ''code'' dec_int32 kvs (\<lambda>code.
     get_field ''message'' dec_string kvs (\<lambda>msg.
     Inr \<lparr> Code = code, ErrMessage = msg \<rparr>)))"

definition dec_interface :: "json decoder" where
  "dec_interface j = Inr (through_interface j)"

definition dec_Response :: "Response decoder" where
  "dec_Response = dec_fields (\<lambda>kvs.
     get_field ''id'' dec_word kvs (\<lambda>i.
     get_field ''jsonrpc'' dec_string kvs (\<lambda>ver.
     get_field ''result'' dec_interface kvs (\<lambda>res.
     get_field ''error'' (dec_ptr dec_ResponseError) kvs (\<lambda>err.
     Inr \<lparr> RespID = i, RespVersion = ver, Result = res, ErrorInfo = err \<rparr>)))))"

section \<open>Classifying errors\<close>

text \<open>The two type assertions every classifier starts with.\<close>

fun client_detail :: "go_error \<Rightarrow> go_error option" where
  "client_detail (ClientErr i meth ps detail) = Some detail"
| "client_detail _ = None"

fun response_detail :: "go_error \<Rightarrow> ResponseError option" where
  "response_detail (ClientErr i meth ps (ResponseErr code msg)) = Some \<lparr> Code = code, ErrMessage = msg \<rparr>"
| "response_detail _ = None"

definition IsJSONRPCRespErrorNoEntry :: "go_error \<Rightarrow> bool" where
  "IsJSONRPCRespErrorNoEntry err =
     (case response_detail err of None \<Rightarrow> False | Some re \<Rightarrow> Code re = RespErrorCodeNoEntry)"

definition IsJSONRPCRespErrorNoSuchFileOrDirectory :: "go_error \<Rightarrow> bool" where
  "IsJSONRPCRespErrorNoSuchFileOrDirectory err =
     (case response_detail err of None \<Rightarrow> False
      | Some re \<Rightarrow> Code re = RespErrorCodeInternalError \<and>
                   ErrMessage re = RespErrorMsgNoSuchFileOrDirectory)"

definition IsJSONRPCRespErrorNoSuchProcess :: "go_error \<Rightarrow> bool" where
  "IsJSONRPCRespErrorNoSuchProcess err =
     (case response_detail err of None \<Rightarrow> False | Some re \<Rightarrow> Code re = RespErrorCodeNoSuchProcess)"

definition IsJSONRPCRespErrorNoSuchDevice :: "go_error \<Rightarrow> bool" where
  "IsJSONRPCRespErrorNoSuchDevice err =
     (case response_detail err of None \<Rightarrow> False | Some re \<Rightarrow> Code re = RespErrorCodeNoSuchDevice)"

definition IsJSONRPCRespErrorDeviceOrResourceBusy :: "go_error \<Rightarrow> bool" where
  "IsJSONRPCRespErrorDeviceOrResourceBusy err =
     (case response_detail err of None \<Rightarrow> False
      | Some re \<Rightarrow> if Code re = RespErrorCodeDeviceOrResourceBusy then True
                   else contains ''device or resource busy'' (to_lower (ErrMessage re)))"

definition IsJSONRPCRespErrorFileExists :: "go_error \<Rightarrow> bool" where
  "IsJSONRPCRespErrorFileExists err =
     (case response_detail err of None \<Rightarrow> False | Some re \<Rightarrow> Code re = RespErrorCodeNoFileExists)"

definition IsJSONRPCRespErrorBrokenPipe :: "go_error \<Rightarrow> bool" where
  "IsJSONRPCRespErrorBrokenPipe err =
     (case client_detail err of None \<Rightarrow> False
      | Some detail \<Rightarrow> response_detail err = None \<and> contains ''broken pipe'' (error_text detail))"

definition IsJSONRPCRespErrorInvalidCharacter :: "go_error \<Rightarrow> bool" where
  "IsJSONRPCRespErrorInvalidCharacter err =
     (case client_detail err of None \<Rightarrow> False
      | Some detail \<Rightarrow> response_detail err = None \<and> contains ''invalid character'' (error_text detail))"

text \<open>The regular expression \<open>Transport type .* already exists\<close>, unanchored; the dot does not match a
  newline.\<close>

fun matches_transport_exists :: "string \<Rightarrow> bool" where
  "matches_transport_exists [] = False"
| "matches_transport_exists (c # cs) =
     ((has_prefix ''Transport type '' (c # cs) \<and>
       contains '' already exists'' (takeWhile (\<lambda>x. x \<noteq> newline) (drop 15 (c # cs)))) \<or>
      matches_transport_exists cs)"

definition IsJSONRPCRespErrorTransportTypeAlreadyExists :: "go_error \<Rightarrow> bool" where
  "IsJSONRPCRespErrorTransportTypeAlreadyExists err =
     (case response_detail err of None \<Rightarrow> False
      | Some re \<Rightarrow> matches_transport_exists (error_text (response_error re)))"

section \<open>Facts\<close>

lemma response_detail_cases:
  "response_detail err = Some re \<longleftrightarrow>
     (\<exists>i meth ps. err = ClientErr i meth ps (response_error re))"
  by (cases err rule: response_detail.cases) (auto simp: response_error_def)

lemma response_detail_client:
  "response_detail (ClientErr i meth ps (response_error re)) = Some re"
  by (simp add: response_error_def)

lemmas classifier_defs =
  IsJSONRPCRespErrorNoEntry_def IsJSONRPCRespErrorNoSuchFileOrDirectory_def
  IsJSONRPCRespErrorNoSuchProcess_def IsJSONRPCRespErrorNoSuchDevice_def
  IsJSONRPCRespErrorDeviceOrResourceBusy_def IsJSONRPCRespErrorFileExists_def
  IsJSONRPCRespErrorBrokenPipe_def IsJSONRPCRespErrorInvalidCharacter_def
  IsJSONRPCRespErrorTransportTypeAlreadyExists_def

text \<open>An error that is not a client error is never classified.\<close>

lemma classifiers_need_client_error:
  assumes "client_detail err = None"
  shows "\<not> IsJSONRPCRespErrorNoEntry err" and "\<not> IsJSONRPCRespErrorNoSuchFileOrDirectory err"
    and "\<not> IsJSONRPCRespErrorNoSuchProcess err" and "\<not> IsJSONRPCRespErrorNoSuchDevice err"
    and "\<not> IsJSONRPCRespErrorDeviceOrResourceBusy err" and "\<not> IsJSONRPCRespErrorFileExists err"
    and "\<not> IsJSONRPCRespErrorBrokenPipe err" and "\<not> IsJSONRPCRespErrorInvalidCharacter err"
    and "\<not> IsJSONRPCRespErrorTransportTypeAlreadyExists err"
  using assms by (cases err; simp add: classifier_defs)+

lemma matches_transport_existsI:
  assumes "s = a @ ''Transport type '' @ t @ '' already exists'' @ b" and "newline \<notin> set t"
  shows "matches_transport_exists s"
  using assms(1)
proof (induction a arbitrary: s)
  case Nil
  have n: "newline \<notin> set '' already exists''"
    by (simp add: newline_def)
  have "takeWhile (\<lambda>x. x \<noteq> newline) (t @ '' already exists'' @ b) =
      t @ '' already exists'' @ takeWhile (\<lambda>x. x \<noteq> newline) b"
    using assms(2) n by (subst takeWhile_append2, fastforce, subst takeWhile_append2) auto
  then have "contains '' already exists'' (takeWhile (\<lambda>x. x \<noteq> newline) (t @ '' already exists'' @ b))"
    by (auto simp: contains_iff)
  with Nil show ?case by simp
next
  case (Cons c a)
  then show ?case by simp
qed

text \<open>The transport classifier sees SPDK's message whatever transport it names.\<close>

lemma transport_exists_recognised:
  assumes "newline \<notin> set t"
  shows "IsJSONRPCRespErrorTransportTypeAlreadyExists
           (ClientErr i meth ps (ResponseErr code (''Transport type '' @ t @ '' already exists'' @ rest)))"
  unfolding IsJSONRPCRespErrorTransportTypeAlreadyExists_def response_detail.simps option.case response_error_def
    ResponseError.simps error_text.simps
  by (rule matches_transport_existsI
      [where a = "''{\"code\": '' @ itoa code @ '',\"message\": \"''" and b = "rest @ ''\"}''"])
    (use assms in simp_all)

end
