(* ===== verification/JsonRpcDispatcher.thy ===== *)
theory JsonRpcDispatcher
  imports JsonRpcTypes "HOL-Library.AList"
begin

text \<open>
  The goroutines of the JSON-RPC client (\<open>pkg/jsonrpc/client.go\<close>): the dispatcher, which alone touches the
  id counter and the two maps, the reader, and the callers of \<open>SendMsgAsyncWithTimeout\<close>. A step of the
  relation is one channel operation of one goroutine; \<open>handleSend\<close>, \<open>handleRecv\<close> and \<open>handleShutdown\<close> are
  functions of the state. Sending on a closed channel and closing one twice are panics (\<^term>\<open>None\<close>).

  A call makes its own response channel, so a call is named by that channel, a number.
\<close>

section \<open>State\<close>

definition DefaultConcurrentLimit :: nat where [const_defs]: "DefaultConcurrentLimit = 1024"

record messageWrapper =
  wrapMethod :: string
  wrapParams :: json
  responseChan :: nat

text \<open>Where a call is: in the \<open>select\<close> on the message queue, past it but not yet in the last \<open>select\<close>, in
  the last \<open>select\<close>, or done, with a response, with \<open>nil\<close> from a closed channel, or with a timeout or a
  done context.\<close>

datatype phase = Queueing | Enqueued | Receiving | Answered Response | SawClosed | GaveUp

definition active :: "phase option \<Rightarrow> bool" where
  "active p = (p = Some Queueing \<or> p = Some Enqueued \<or> p = Some Receiving)"

text \<open>\<open>sent_as\<close> is not part of the program: it remembers under which id the request of a call was
  written.\<close>

record client =
  running :: bool
  idCounter :: u32
  sem :: nat
  msgWrapperQueue :: "messageWrapper list"
  respReceiverQueue :: "Response list"
  responseChans :: "(u32 \<times> nat) list"
  responseChanInfoMap :: "(u32 \<times> string) list"
  closed :: "nat set"
  calls :: "nat \<rightharpoonup> phase"
  sent_as :: "nat \<rightharpoonup> u32"

definition NewClient :: "u32 \<Rightarrow> client" where
  "NewClient random = \<lparr> running = True, idCounter = random mod 10000, sem = 0,
     msgWrapperQueue = [], respReceiverQueue = [], responseChans = [], responseChanInfoMap = [],
     closed = {}, calls = Map.empty, sent_as = Map.empty \<rparr>"

section \<open>The dispatcher\<close>

text \<open>\<open>encoded\<close>: the outcome of the encoder; a request that fails to encode is dropped, and its caller
  learns nothing. \<open>info\<close>: the text kept for the log.\<close>

definition handleSend :: "bool \<Rightarrow> string \<Rightarrow> messageWrapper \<Rightarrow> client \<Rightarrow> client" where
  "handleSend encoded info msg c =
     (if \<not> encoded then c
      else let i = idCounter c in
        c\<lparr> idCounter := i + 1,
           responseChans := AList.update i (responseChan msg) (responseChans c),
           responseChanInfoMap := AList.update i info (responseChanInfoMap c),
           sent_as := (sent_as c)(responseChan msg \<mapsto> i) \<rparr>)"

text \<open>A call ends: the deferred release of the semaphore runs.\<close>

definition finish :: "nat \<Rightarrow> phase \<Rightarrow> client \<Rightarrow> client" where
  "finish ch p c = c\<lparr> calls := (calls c)(ch \<mapsto> p), sem := sem c - 1 \<rparr>"

text \<open>The send on the unbuffered channel succeeds exactly if the caller is in its last \<open>select\<close>; with the
  \<open>default\<close> branch the response is dropped otherwise. The channel is closed either way.\<close>

definition handleRecv :: "Response \<Rightarrow> client \<Rightarrow> client panics" where
  "handleRecv resp c =
     (case map_of (responseChans c) (RespID resp) of
        None \<Rightarrow> Some c
      | Some ch \<Rightarrow>
          (let c1 = c\<lparr> responseChans := AList.delete (RespID resp) (responseChans c),
                       responseChanInfoMap := AList.delete (RespID resp) (responseChanInfoMap c) \<rparr>
           in if ch \<in> closed c1 then None
              else let c2 = (if calls c1 ch = Some Receiving then finish ch (Answered resp) c1 else c1)
                   in Some (c2\<lparr> closed := insert ch (closed c2) \<rparr>)))"

fun close_all :: "nat list \<Rightarrow> nat set \<Rightarrow> nat set panics" where
  "close_all [] cl = Some cl"
| "close_all (ch # chs) cl = (if ch \<in> cl then None else close_all chs (insert ch cl))"

definition handleShutdown :: "client \<Rightarrow> client panics" where
  "handleShutdown c =
     map_option (\<lambda>cl. c\<lparr> closed := cl, running := False \<rparr>) (close_all (map snd (responseChans c)) (closed c))"

section \<open>Steps\<close>

text \<open>
  The first group of rules is the caller, the second the reader, the third the dispatcher. A timeout and
  a done context end a call the same way.
\<close>

inductive step :: "client \<Rightarrow> client \<Rightarrow> bool" where
  begin_call: "calls c ch = None \<Longrightarrow> sem c < DefaultConcurrentLimit \<Longrightarrow>
     step c (c\<lparr> calls := (calls c)(ch \<mapsto> Queueing), sem := sem c + 1 \<rparr>)"
| enqueue: "calls c ch = Some Queueing \<Longrightarrow> length (msgWrapperQueue c) < DefaultConcurrentLimit \<Longrightarrow>
     responseChan msg = ch \<Longrightarrow>
     step c (c\<lparr> msgWrapperQueue := msgWrapperQueue c @ [msg], calls := (calls c)(ch \<mapsto> Enqueued) \<rparr>)"
| give_up_queueing: "calls c ch = Some Queueing \<Longrightarrow> step c (finish ch GaveUp c)"
| block_on_response: "calls c ch = Some Enqueued \<Longrightarrow>
     step c (c\<lparr> calls := (calls c)(ch \<mapsto> Receiving) \<rparr>)"
| see_closed: "calls c ch = Some Receiving \<Longrightarrow> ch \<in> closed c \<Longrightarrow> step c (finish ch SawClosed c)"
| give_up_waiting: "calls c ch = Some Receiving \<Longrightarrow> step c (finish ch GaveUp c)"
| read_queue: "length (respReceiverQueue c) < DefaultConcurrentLimit \<Longrightarrow>
     step c (c\<lparr> respReceiverQueue := respReceiverQueue c @ [resp] \<rparr>)"
| dispatch_send: "running c \<Longrightarrow> msgWrapperQueue c = msg # msgs \<Longrightarrow>
     step c (handleSend encoded info msg (c\<lparr> msgWrapperQueue := msgs \<rparr>))"
| dispatch_recv: "running c \<Longrightarrow> respReceiverQueue c = resp # resps \<Longrightarrow>
     handleRecv resp (c\<lparr> respReceiverQueue := resps \<rparr>) = Some c' \<Longrightarrow> step c c'"
| dispatch_shutdown: "running c \<Longrightarrow> handleShutdown c = Some c' \<Longrightarrow> step c c'"

inductive reachable :: "client \<Rightarrow> bool" where
  start: "reachable (NewClient random)"
| more: "reachable c \<Longrightarrow> step c c' \<Longrightarrow> reachable c'"

section \<open>Association lists\<close>

lemma snd_update_subset: "snd ` set (AList.update k v al) \<subseteq> insert v (snd ` set al)"
  by (induction al) auto

lemma distinct_snd_update:
  "distinct (map snd al) \<Longrightarrow> v \<notin> snd ` set al \<Longrightarrow> distinct (map snd (AList.update k v al))"
proof (induction al)
  case (Cons p al)
  then show ?case
    using snd_update_subset [of k v al] by (cases p) auto
qed simp

lemma set_delete: "set (AList.delete k al) = {p \<in> set al. fst p \<noteq> k}"
  by (auto simp: AList.delete_eq)

lemma fst_delete: "fst ` set (AList.delete k al) = fst ` set al - {k}"
  by (auto simp: set_delete)

lemma distinct_snd_delete: "distinct (map snd al) \<Longrightarrow> distinct (map snd (AList.delete k al))"
  by (simp add: AList.delete_eq distinct_map_filter)

lemma mem_update_cases:
  "distinct (map fst al) \<Longrightarrow> (i, ch) \<in> set (AList.update k v al) \<Longrightarrow>
     i = k \<and> ch = v \<or> i \<noteq> k \<and> (i, ch) \<in> set al"
  by (induction al) (auto split: if_splits simp: image_iff)

lemma close_all_distinct:
  "distinct chs \<Longrightarrow> set chs \<inter> cl = {} \<Longrightarrow> close_all chs cl = Some (set chs \<union> cl)"
  by (induction chs arbitrary: cl) auto

section \<open>Invariant\<close>

text \<open>
  \<^item> the two maps have the same keys, each once;
  \<^item> no channel is registered twice, none waits in the queue twice, and none is in both;
  \<^item> a channel in the queue is open; a registered channel is open while the dispatcher runs;
  \<^item> a registered channel is registered under the id its request was sent with;
  \<^item> a channel in the queue belongs to a call that has enqueued, and has not been sent;
  \<^item> an answered call has the response to its own request, and its channel is closed.
\<close>

definition registered :: "client \<Rightarrow> nat set" where
  "registered c = snd ` set (responseChans c)"

definition queued :: "client \<Rightarrow> nat set" where
  "queued c = responseChan ` set (msgWrapperQueue c)"

definition tables_ok :: "client \<Rightarrow> bool" where
  "tables_ok c \<longleftrightarrow> fst ` set (responseChans c) = fst ` set (responseChanInfoMap c) \<and>
     distinct (map fst (responseChans c)) \<and> distinct (map snd (responseChans c))"

definition channels_ok :: "client \<Rightarrow> bool" where
  "channels_ok c \<longleftrightarrow> distinct (map responseChan (msgWrapperQueue c)) \<and> registered c \<inter> queued c = {} \<and>
     closed c \<inter> queued c = {} \<and> (running c \<longrightarrow> closed c \<inter> registered c = {})"

definition ids_ok :: "client \<Rightarrow> bool" where
  "ids_ok c \<longleftrightarrow> (\<forall>i ch. (i, ch) \<in> set (responseChans c) \<longrightarrow> sent_as c ch = Some i) \<and> (\<forall>ch \<in> queued c. sent_as c ch = None)"

definition phases_ok :: "client \<Rightarrow> bool" where
  "phases_ok c \<longleftrightarrow>
     (\<forall>ch. ch \<in> closed c \<union> registered c \<union> queued c \<union> dom (sent_as c) \<longrightarrow> calls c ch \<noteq> None \<and> calls c ch \<noteq> Some Queueing) \<and>
     (\<forall>ch resp. calls c ch = Some (Answered resp) \<longrightarrow> sent_as c ch = Some (RespID resp) \<and> ch \<in> closed c) \<and>
     (\<forall>ch. calls c ch = Some SawClosed \<longrightarrow> ch \<in> closed c)"

definition dispatcher_inv :: "client \<Rightarrow> bool" where
  "dispatcher_inv c \<longleftrightarrow> tables_ok c \<and> channels_ok c \<and> ids_ok c \<and> phases_ok c"

lemmas parts_defs = tables_ok_def channels_ok_def ids_ok_def phases_ok_def
lemmas inv_defs = dispatcher_inv_def parts_defs registered_def queued_def

lemma inv_NewClient: "dispatcher_inv (NewClient random)"
  by (simp add: inv_defs NewClient_def)

subsection \<open>Callers\<close>

lemma inv_begin_call:
  assumes "dispatcher_inv c" and "calls c ch = None"
  shows "dispatcher_inv (c\<lparr> calls := (calls c)(ch \<mapsto> Queueing), sem := n \<rparr>)"
  using assms unfolding inv_defs by auto

lemma inv_enqueue:
  assumes "dispatcher_inv c" and "calls c (responseChan msg) = Some Queueing"
  shows "dispatcher_inv (c\<lparr> msgWrapperQueue := msgWrapperQueue c @ [msg],
    calls := (calls c)(responseChan msg \<mapsto> Enqueued) \<rparr>)"
  using assms unfolding inv_defs by auto

text \<open>A call may change its phase once it is past the queue, or give up in front of it.\<close>

lemma inv_phase:
  assumes "dispatcher_inv c" and "calls c ch = Some p"
    and "q \<noteq> Queueing" and "q = SawClosed \<Longrightarrow> ch \<in> closed c"
    and "\<And>resp. q = Answered resp \<Longrightarrow> sent_as c ch = Some (RespID resp) \<and> ch \<in> closed c"
  shows "dispatcher_inv (c\<lparr> calls := (calls c)(ch \<mapsto> q), sem := n \<rparr>)"
  using assms unfolding inv_defs by auto

lemma inv_finish:
  assumes "dispatcher_inv c" and "calls c ch = Some p"
    and "q \<noteq> Queueing" and "q = SawClosed \<Longrightarrow> ch \<in> closed c"
    and "\<And>resp. q = Answered resp \<Longrightarrow> sent_as c ch = Some (RespID resp) \<and> ch \<in> closed c"
  shows "dispatcher_inv (finish ch q c)"
  unfolding finish_def by (rule inv_phase [OF assms])

subsection \<open>Sending\<close>

text \<open>Registering a message that has left the queue.\<close>

definition register :: "string \<Rightarrow> messageWrapper \<Rightarrow> client \<Rightarrow> client" where
  "register info msg c = c\<lparr> idCounter := idCounter c + 1,
     responseChans := AList.update (idCounter c) (responseChan msg) (responseChans c),
     responseChanInfoMap := AList.update (idCounter c) info (responseChanInfoMap c),
     sent_as := (sent_as c)(responseChan msg \<mapsto> idCounter c) \<rparr>"

lemma handleSend_register: "handleSend encoded info msg c = (if encoded then register info msg c else c)"
  by (simp add: handleSend_def register_def Let_def)

lemma register_simps [simp]:
  "queued (register info msg c) = queued c" "closed (register info msg c) = closed c"
  "running (register info msg c) = running c" "calls (register info msg c) = calls c"
  "msgWrapperQueue (register info msg c) = msgWrapperQueue c"
  "sent_as (register info msg c) = (sent_as c)(responseChan msg \<mapsto> idCounter c)"
  by (simp_all add: register_def queued_def)

lemma registered_register: "registered (register info msg c) \<subseteq> insert (responseChan msg) (registered c)"
  using snd_update_subset by (simp add: registered_def register_def)

lemma tables_register:
  assumes "tables_ok c" and "responseChan msg \<notin> registered c" shows "tables_ok (register info msg c)"
  using assms by (auto simp: tables_ok_def register_def registered_def dom_update intro: distinct_update distinct_snd_update)

lemma channels_register:
  assumes "channels_ok c" and "responseChan msg \<notin> queued c \<union> closed c" shows "channels_ok (register info msg c)"
  using assms registered_register [of info msg c] by (auto simp: channels_ok_def)

lemma ids_register:
  assumes "ids_ok c" and "tables_ok c" and "responseChan msg \<notin> registered c \<union> queued c"
  shows "ids_ok (register info msg c)"
proof -
  have "sent_as (register info msg c) ch = Some i" if "(i, ch) \<in> set (responseChans (register info msg c))" for i ch
  proof -
    have "i = idCounter c \<and> ch = responseChan msg \<or> (i, ch) \<in> set (responseChans c)"
      using that mem_update_cases assms(2) by (fastforce simp: register_def tables_ok_def)
    moreover have "ch \<noteq> responseChan msg" if "(i, ch) \<in> set (responseChans c)"
      using that assms(3) by (force simp: registered_def)
    ultimately show ?thesis using assms(1) by (auto simp: ids_ok_def)
  qed
  then show ?thesis using assms(1,3) by (auto simp: ids_ok_def)
qed

lemma phases_register:
  assumes "phases_ok c" and "responseChan msg \<notin> closed c"
    and "calls c (responseChan msg) \<noteq> None" "calls c (responseChan msg) \<noteq> Some Queueing"
  shows "phases_ok (register info msg c)"
  using assms registered_register [of info msg c] unfolding phases_ok_def by (auto simp: subset_iff)

lemma inv_handleSend:
  assumes inv: "dispatcher_inv c" and q: "msgWrapperQueue c = msg # msgs"
  shows "dispatcher_inv (handleSend encoded info msg (c\<lparr> msgWrapperQueue := msgs \<rparr>))"
proof -
  let ?c = "c\<lparr> msgWrapperQueue := msgs \<rparr>"
  have "dispatcher_inv ?c" using assms unfolding inv_defs by auto
  moreover have "responseChan msg \<notin> registered ?c \<union> queued ?c \<union> closed ?c"
    "calls c (responseChan msg) \<noteq> None" "calls c (responseChan msg) \<noteq> Some Queueing"
    using assms unfolding inv_defs by auto
  ultimately show ?thesis
    by (simp add: handleSend_register dispatcher_inv_def tables_register channels_register ids_register phases_register)
qed

subsection \<open>Receiving\<close>

text \<open>A response takes its channel out of the maps and closes it.\<close>

definition settle :: "u32 \<Rightarrow> nat \<Rightarrow> client \<Rightarrow> client" where
  "settle i ch c = c\<lparr> responseChans := AList.delete i (responseChans c),
     responseChanInfoMap := AList.delete i (responseChanInfoMap c), closed := insert ch (closed c) \<rparr>"

lemma settle_simps [simp]:
  "queued (settle i ch c) = queued c" "closed (settle i ch c) = insert ch (closed c)"
  "running (settle i ch c) = running c" "calls (settle i ch c) = calls c" "sem (settle i ch c) = sem c"
  "msgWrapperQueue (settle i ch c) = msgWrapperQueue c" "sent_as (settle i ch c) = sent_as c"
  by (simp_all add: settle_def queued_def)

lemma handleRecv_cases:
  assumes "handleRecv resp c = Some c'"
  obtains (unknown) "map_of (responseChans c) (RespID resp) = None" and "c' = c"
  | (known) ch where "map_of (responseChans c) (RespID resp) = Some ch" and "ch \<notin> closed c"
      and "c' = (if calls c ch = Some Receiving then finish ch (Answered resp) (settle (RespID resp) ch c)
                 else settle (RespID resp) ch c)"
  using assms by (auto simp: handleRecv_def finish_def settle_def Let_def split: option.splits if_splits)

lemma registered_settle:
  assumes "tables_ok c" and "(i, ch) \<in> set (responseChans c)"
  shows "registered (settle i ch c) = registered c - {ch}"
proof -
  have "inj_on snd (set (responseChans c))" "inj_on fst (set (responseChans c))"
    using assms(1) by (simp_all add: tables_ok_def distinct_map)
  then have one: "p = (i, ch)" if "p \<in> set (responseChans c)" "snd p = ch \<or> fst p = i" for p
    using that assms(2) by (metis inj_onD fst_conv snd_conv)
  have "p \<in> set (AList.delete i (responseChans c)) \<longleftrightarrow> p \<in> set (responseChans c) \<and> snd p \<noteq> ch" for p
    using one [of p] by (cases p) (auto simp: set_delete)
  then show ?thesis by (auto simp: registered_def settle_def)
qed

lemma inv_settle:
  assumes inv: "dispatcher_inv c" and mem: "(i, ch) \<in> set (responseChans c)"
  shows "dispatcher_inv (settle i ch c)"
proof -
  have t: "tables_ok c" using inv by (simp add: dispatcher_inv_def)
  note reg = registered_settle [OF t mem]
  have ch: "ch \<in> registered c" using mem by (force simp: registered_def)
  have "tables_ok (settle i ch c)"
    using t by (auto simp: tables_ok_def settle_def fst_delete intro: distinct_delete distinct_snd_delete)
  moreover have "channels_ok (settle i ch c)"
    using inv ch by (auto simp: dispatcher_inv_def channels_ok_def reg)
  moreover have "ids_ok (settle i ch c)"
    using inv by (auto simp: dispatcher_inv_def ids_ok_def settle_def set_delete queued_def)
  moreover have "phases_ok (settle i ch c)"
    using inv ch by (auto simp: dispatcher_inv_def phases_ok_def reg)
  ultimately show ?thesis by (simp add: dispatcher_inv_def)
qed

lemma inv_handleRecv:
  assumes inv: "dispatcher_inv c" and h: "handleRecv resp c = Some c'"
  shows "dispatcher_inv c'"
  using h
proof (cases rule: handleRecv_cases)
  case (known ch)
  have mem: "(RespID resp, ch) \<in> set (responseChans c)" using known(1) by (rule map_of_SomeD)
  then have "sent_as c ch = Some (RespID resp)" using inv by (simp add: dispatcher_inv_def ids_ok_def)
  then show ?thesis
    using inv_settle [OF inv mem] unfolding known(3) by (auto intro!: inv_finish [where p = Receiving])
qed (use inv in simp)

subsection \<open>Every reachable state\<close>

lemma inv_handleShutdown:
  assumes "dispatcher_inv c" and "running c" and "handleShutdown c = Some c'"
  shows "dispatcher_inv c'"
proof -
  have "close_all (map snd (responseChans c)) (closed c) = Some (snd ` set (responseChans c) \<union> closed c)"
    using assms(1,2) unfolding inv_defs by (subst close_all_distinct) auto
  with assms(3) have "c' = c\<lparr> closed := snd ` set (responseChans c) \<union> closed c, running := False \<rparr>"
    by (simp add: handleShutdown_def)
  then show ?thesis
    using assms(1) unfolding inv_defs by auto
qed

lemma inv_step:
  assumes "step c c'" and "dispatcher_inv c" shows "dispatcher_inv c'"
  using assms
proof (induction rule: step.induct)
  case (enqueue c ch msg)
  then show ?case using inv_enqueue [of c msg] by simp
next
  case (block_on_response c ch)
  then show ?case using inv_phase [of c ch Enqueued Receiving "sem c"] by simp
next
  case (read_queue c resp)
  then show ?case by (simp add: inv_defs)
next
  case (dispatch_recv c resp resps c')
  then have "dispatcher_inv (c\<lparr> respReceiverQueue := resps \<rparr>)"
    by (simp add: inv_defs)
  then show ?case
    using dispatch_recv.hyps(3) by (rule inv_handleRecv)
qed (auto intro: inv_begin_call inv_finish inv_handleSend inv_handleShutdown)

text \<open>The interface of an invariant of the client: it holds of a new client and every step of a goroutine keeps it.\<close>

locale client_invariant =
  fixes I :: "client \<Rightarrow> bool"
  assumes initially: "I (NewClient random)" and stepwise: "step c c' \<Longrightarrow> I c \<Longrightarrow> I c'"
begin

lemma always: "reachable c \<Longrightarrow> I c"
  by (induction rule: reachable.induct) (auto intro: initially stepwise)

end

interpretation dispatch: client_invariant dispatcher_inv
  by unfold_locales (auto intro: inv_NewClient inv_step)

section \<open>The semaphore\<close>

definition in_flight :: "client \<Rightarrow> nat set" where
  "in_flight c = {ch. active (calls c ch)}"

definition sem_inv :: "client \<Rightarrow> bool" where
  "sem_inv c \<longleftrightarrow> finite (in_flight c) \<and> sem c = card (in_flight c) \<and>
     sem c \<le> DefaultConcurrentLimit \<and> length (msgWrapperQueue c) \<le> DefaultConcurrentLimit"

lemma sem_inv_finish:
  assumes "sem_inv c" and "active (calls c ch)" and "\<not> active (Some p)"
  shows "sem_inv (finish ch p c)"
proof -
  have eq: "in_flight (finish ch p c) = in_flight c - {ch}"
    using assms(3) by (auto simp: in_flight_def finish_def)
  have mem: "ch \<in> in_flight c" using assms(2) by (simp add: in_flight_def)
  have fields: "sem (finish ch p c) = sem c - 1" "msgWrapperQueue (finish ch p c) = msgWrapperQueue c"
    by (simp_all add: finish_def)
  show ?thesis
    using assms(1) mem unfolding sem_inv_def eq fields by (elim conjE) (simp add: card_Diff_singleton)
qed

lemma in_flight_phase:
  assumes "active (Some p) = active (calls c ch)" and "calls c' = (calls c)(ch \<mapsto> p)"
  shows "in_flight c' = in_flight c"
  unfolding in_flight_def assms(2) using assms(1) by (intro Collect_cong) (simp add: active_def)

lemma sem_inv_begin:
  assumes "sem_inv c" and "calls c ch = None" and "sem c < DefaultConcurrentLimit"
  shows "sem_inv (c\<lparr> calls := (calls c)(ch \<mapsto> Queueing), sem := sem c + 1 \<rparr>)"
proof -
  have "in_flight (c\<lparr> calls := (calls c)(ch \<mapsto> Queueing), sem := sem c + 1 \<rparr>) = insert ch (in_flight c)"
    by (auto simp: in_flight_def active_def)
  moreover have "ch \<notin> in_flight c" using assms(2) by (simp add: in_flight_def active_def)
  ultimately show ?thesis using assms by (auto simp: sem_inv_def)
qed

lemma sem_inv_same:
  assumes "sem_inv c" and "in_flight c' = in_flight c" and "sem c' = sem c"
    and "length (msgWrapperQueue c') \<le> DefaultConcurrentLimit"
  shows "sem_inv c'"
  using assms by (simp add: sem_inv_def)

lemma sem_inv_handleRecv:
  assumes "sem_inv c" and "handleRecv resp c = Some c'" shows "sem_inv c'"
  using assms(2)
proof (cases rule: handleRecv_cases)
  case (known ch)
  have "sem_inv (settle (RespID resp) ch c)" using assms(1) by (simp add: sem_inv_def in_flight_def)
  then show ?thesis by (auto simp: known(3) active_def intro: sem_inv_finish)
qed (use assms in simp)

lemma sem_inv_step: "step c c' \<Longrightarrow> sem_inv c \<Longrightarrow> sem_inv c'"
proof (induction rule: step.induct)
  case (enqueue c ch msg)
  then show ?case
    by (rule_tac sem_inv_same [of c]) (simp_all add: active_def in_flight_phase [of Enqueued c ch])
next
  case (block_on_response c ch)
  then show ?case
    by (rule_tac sem_inv_same [of c]) (simp_all add: active_def in_flight_phase [of Receiving c ch] sem_inv_def)
next
  case (dispatch_send c msg msgs encoded info)
  then show ?case
    by (rule_tac sem_inv_same [of c]) (auto simp: in_flight_def handleSend_def Let_def sem_inv_def)
next
  case (dispatch_recv c resp resps c')
  then have "sem_inv (c\<lparr> respReceiverQueue := resps \<rparr>)" by (simp add: sem_inv_def in_flight_def)
  then show ?case using dispatch_recv.hyps(3) by (rule sem_inv_handleRecv)
next
  case (dispatch_shutdown c c')
  then show ?case by (auto simp: handleShutdown_def sem_inv_def in_flight_def)
next
  case (read_queue c resp)
  then show ?case by (simp add: sem_inv_def in_flight_def)
next
  case (begin_call c ch)
  then show ?case by (intro sem_inv_begin)
qed (auto intro!: sem_inv_finish simp: active_def)

lemma sem_inv_NewClient: "sem_inv (NewClient random)"
  by (simp add: sem_inv_def in_flight_def active_def NewClient_def)

interpretation semaphore: client_invariant sem_inv
  by unfold_locales (auto intro: sem_inv_NewClient sem_inv_step)

section \<open>Outcomes\<close>

text \<open>A call that has ended keeps its outcome.\<close>

lemma outcome_handleRecv:
  assumes "handleRecv resp c = Some c'" and "calls c ch = Some p" and "\<not> active (Some p)"
  shows "calls c' ch = Some p"
  using assms(1)
proof (cases rule: handleRecv_cases)
  case (known ch')
  then show ?thesis using assms(2,3) by (auto simp: finish_def active_def)
qed (use assms(2) in simp)

lemma outcome_step:
  "step c c' \<Longrightarrow> calls c ch = Some p \<Longrightarrow> \<not> active (Some p) \<Longrightarrow> calls c' ch = Some p"
proof (induction rule: step.induct)
  case (dispatch_recv c resp resps c')
  then show ?case using outcome_handleRecv [of resp "c\<lparr> respReceiverQueue := resps \<rparr>"] by simp
qed (auto simp: finish_def active_def handleSend_def handleShutdown_def Let_def)

lemma outcome_final: "step\<^sup>*\<^sup>* c c' \<Longrightarrow> calls c ch = Some p \<Longrightarrow> \<not> active (Some p) \<Longrightarrow> calls c' ch = Some p"
  by (induction rule: rtranclp_induct) (auto intro: outcome_step)

section \<open>A run\<close>

text \<open>Call 0 sends its request, and the reply reaches the dispatcher.\<close>

definition ping :: messageWrapper where
  "ping = \<lparr> wrapMethod = ''log_get_level'', wrapParams = JNull, responseChan = 0 \<rparr>"

definition pong :: Response where
  "pong = \<lparr> RespID = 0, RespVersion = ''2.0'', Result = JStr ''NOTICE'', ErrorInfo = None \<rparr>"

definition after_reply :: client where
  "after_reply = \<lparr> running = True, idCounter = 1, sem = 1,
     msgWrapperQueue = [], respReceiverQueue = [pong], responseChans = [(0, 0)],
     responseChanInfoMap = [(0, ''ping'')], closed = {}, calls = [0 \<mapsto> Enqueued], sent_as = [0 \<mapsto> 0] \<rparr>"

lemmas run_defs = NewClient_def handleSend_def ping_def after_reply_def DefaultConcurrentLimit_def

lemma after_reply_reachable: "reachable after_reply"
proof -
  let ?c0 = "NewClient 0"
  let ?c1 = "?c0\<lparr> calls := [0 \<mapsto> Queueing], sem := 1 \<rparr>"
  let ?c2 = "?c1\<lparr> msgWrapperQueue := [ping], calls := [0 \<mapsto> Enqueued] \<rparr>"
  let ?c3 = "handleSend True ''ping'' ping (?c2\<lparr> msgWrapperQueue := [] \<rparr>)"
  have r1: "reachable ?c1"
    using step.begin_call [of ?c0 0] by (intro reachable.more [OF reachable.start [of 0]]) (simp add: run_defs)
  have r2: "reachable ?c2"
    using step.enqueue [of ?c1 0 ping] by (intro reachable.more [OF r1]) (simp add: run_defs)
  have r3: "reachable ?c3"
    using step.dispatch_send [of ?c2 ping "[]" True "''ping''"] by (intro reachable.more [OF r2]) (simp add: run_defs)
  have "step ?c3 after_reply"
    using step.read_queue [of ?c3 pong] by (simp add: run_defs)
  then show ?thesis by (rule reachable.more [OF r3])
qed

definition waiting :: client where
  "waiting = after_reply\<lparr> calls := [0 \<mapsto> Receiving] \<rparr>"

definition answered :: client where
  "answered = \<lparr> running = True, idCounter = 1, sem = 0,
     msgWrapperQueue = [], respReceiverQueue = [], responseChans = [],
     responseChanInfoMap = [], closed = {0}, calls = [0 \<mapsto> Answered pong], sent_as = [0 \<mapsto> 0] \<rparr>"

lemma answered_reachable: "reachable answered"
proof -
  have "step after_reply waiting"
    using step.block_on_response [of after_reply 0] by (simp add: waiting_def after_reply_def)
  then have r: "reachable waiting" by (rule reachable.more [OF after_reply_reachable])
  have "handleRecv pong (waiting\<lparr> respReceiverQueue := [] \<rparr>) = Some answered"
    by (simp add: waiting_def after_reply_def answered_def handleRecv_def pong_def finish_def Let_def)
  then have "step waiting answered"
    by (intro step.dispatch_recv) (simp_all add: waiting_def after_reply_def)
  then show ?thesis by (rule reachable.more [OF r])
qed

section \<open>Properties\<close>

text \<open>
  Property C3. The dispatcher never panics: whatever the interleaving of callers, reader and dispatcher
  was, handling any response (duplicate, late or unknown ids included) never sends on or closes a closed
  channel, and shutting down closes every registered channel exactly once.
\<close>

theorem dispatcher_never_panics:
  assumes "reachable c" and "running c"
  shows "handleRecv resp (c\<lparr> respReceiverQueue := resps \<rparr>) \<noteq> None \<and> handleShutdown c \<noteq> None"
proof
  note inv = dispatch.always [OF assms(1)]
  have opened: "closed c \<inter> registered c = {}" and d: "distinct (map snd (responseChans c))"
    using inv assms(2) by (simp_all add: dispatcher_inv_def parts_defs)
  have "ch \<notin> closed c" if "map_of (responseChans c) i = Some ch" for i ch
    using opened map_of_SomeD [OF that] by (force simp: registered_def)
  then show "handleRecv resp (c\<lparr> respReceiverQueue := resps \<rparr>) \<noteq> None"
    by (auto simp: handleRecv_def Let_def split: option.splits)
  have "close_all (map snd (responseChans c)) (closed c) = Some (set (map snd (responseChans c)) \<union> closed c)"
    using opened d by (intro close_all_distinct) (auto simp: registered_def)
  then show "handleShutdown c \<noteq> None"
    by (simp add: handleShutdown_def)
qed

theorem dispatcher_never_panics_witness:
  "handleRecv pong (answered\<lparr> respReceiverQueue := [] \<rparr>) \<noteq> None \<and> handleShutdown answered \<noteq> None"
  by (rule dispatcher_never_panics [OF answered_reachable]) (simp add: answered_def)

text \<open>
  Property C9. A call gets the response to its own request and no other, and it gets it once: if a call is
  answered, the response carries the id the dispatcher wrote that call's request with, the call's channel has
  been closed, and whatever the goroutines do from then on, the call keeps this answer.
\<close>

theorem answer_belongs_to_request:
  assumes "reachable c" and "calls c ch = Some (Answered resp)" and "step\<^sup>*\<^sup>* c c'"
  shows "sent_as c ch = Some (RespID resp) \<and> ch \<in> closed c \<and> calls c' ch = Some (Answered resp)"
  using dispatch.always [OF assms(1)] assms(2) outcome_final [OF assms(3,2)]
  by (simp add: dispatcher_inv_def phases_ok_def active_def)

theorem answer_belongs_to_request_witness:
  "sent_as answered 0 = Some (RespID pong) \<and> 0 \<in> closed answered \<and>
     calls (answered\<lparr> respReceiverQueue := [pong] \<rparr>) 0 = Some (Answered pong)"
proof (rule answer_belongs_to_request [OF answered_reachable])
  have "step answered (answered\<lparr> respReceiverQueue := [pong] \<rparr>)"
    using step.read_queue [of answered pong] by (simp add: answered_def DefaultConcurrentLimit_def)
  then show "step\<^sup>*\<^sup>* answered (answered\<lparr> respReceiverQueue := [pong] \<rparr>)" by (rule r_into_rtranclp)
qed (simp add: answered_def)

text \<open>
  Property C37. The semaphore counts the calls in flight: at most \<open>DefaultConcurrentLimit\<close> calls are
  between acquiring their slot and returning, however calls end, and the message queue stays within its
  capacity.
\<close>

theorem calls_in_flight_bounded:
  assumes "reachable c"
  shows "finite (in_flight c) \<and> card (in_flight c) = sem c \<and> sem c \<le> 1024 \<and> length (msgWrapperQueue c) \<le> 1024"
  using semaphore.always [OF assms] by (simp add: sem_inv_def DefaultConcurrentLimit_def)

theorem calls_in_flight_bounded_witness:
  "card (in_flight after_reply) = 1"
  using calls_in_flight_bounded [OF after_reply_reachable] by (simp add: after_reply_def)

text \<open>
  Property C32. A reply can be lost although its caller has not timed out: between handing its message to
  the dispatcher and blocking on its unbuffered channel, a caller is not a receiver, so \<open>handleRecv\<close> takes
  the default branch, drops the error-free reply with the right id and closes the channel; the caller then
  reads \<open>nil\<close>, which it reports as an error.
\<close>

theorem reply_lost_before_caller_waits:
  "\<exists>c c1 c2 c3. reachable c \<and> calls c 0 = Some Enqueued \<and> sent_as c 0 = Some (RespID pong) \<and>
     ErrorInfo pong = None \<and> respReceiverQueue c = [pong] \<and>
     handleRecv pong (c\<lparr> respReceiverQueue := [] \<rparr>) = Some c1 \<and>
     step c c1 \<and> step c1 c2 \<and> step c2 c3 \<and> calls c3 0 = Some SawClosed"
proof -
  let ?c1 = "after_reply\<lparr> respReceiverQueue := [], responseChans := [], responseChanInfoMap := [], closed := {0} \<rparr>"
  let ?c2 = "?c1\<lparr> calls := [0 \<mapsto> Receiving] \<rparr>"
  have h: "handleRecv pong (after_reply\<lparr> respReceiverQueue := [] \<rparr>) = Some ?c1"
    by (simp add: handleRecv_def after_reply_def pong_def Let_def)
  have s1: "step after_reply ?c1"
    by (rule step.dispatch_recv [OF _ _ h]) (simp_all add: after_reply_def)
  have s2: "step ?c1 ?c2"
    using step.block_on_response [of ?c1 0] by (simp add: after_reply_def)
  have s3: "step ?c2 (finish 0 SawClosed ?c2)"
    by (rule step.see_closed) simp_all
  have facts: "calls after_reply 0 = Some Enqueued" "sent_as after_reply 0 = Some (RespID pong)"
    "ErrorInfo pong = None" "respReceiverQueue after_reply = [pong]"
    "calls (finish 0 SawClosed ?c2) 0 = Some SawClosed"
    by (simp_all add: after_reply_def pong_def finish_def)
  show ?thesis
    using after_reply_reachable h s1 s2 s3 facts by blast
qed

end
