(* ===== verification/JsonRpcClient.thy ===== *)
theory JsonRpcClient
  imports JsonRpcTypes
begin

text \<open>
  One call of the JSON-RPC client (\<open>pkg/jsonrpc/client.go\<close>): \<open>SendMsgAsyncWithTimeout\<close> with its two
  deadlines, and the synchronous \<open>SendMsgWithTimeout\<close>. The channels a call waits on are shared with the
  dispatcher and with other callers, so what a \<open>select\<close> yields is given by the environment: the context
  is done, the timer fires, or the channel operation succeeds. The session records the calls handed to
  the dispatcher and the semaphore slots this caller holds.
\<close>

section \<open>Environment and session\<close>

datatype 'a wait = CtxDone | TimedOut | Got 'a

record rpc_call =
  rc_method :: string
  rc_params :: json
  rc_timeout :: int

record 'w session =
  issued :: "rpc_call list"
  slots :: nat
  peer :: 'w

text \<open>
  \<^item> \<open>on_sem\<close>: the \<open>select\<close> on \<open>c.sem <- nil\<close>;
  \<^item> \<open>on_queue\<close>: the \<open>select\<close> on \<open>c.msgWrapperQueue <- msgWrapper\<close>;
  \<^item> \<open>on_response\<close>: the \<open>select\<close> on \<open><-responseChan\<close>; \<open>Got None\<close> is a closed channel;
  \<^item> \<open>fmt_params\<close>: the \<open>%+v\<close> rendering of the parameters in an error text.
\<close>

record 'w rpc_env =
  on_sem :: "'w \<Rightarrow> unit wait \<times> 'w"
  on_queue :: "string \<Rightarrow> json \<Rightarrow> 'w \<Rightarrow> unit wait \<times> 'w"
  on_response :: "'w \<Rightarrow> Response option wait \<times> 'w"
  fmt_params :: "json \<Rightarrow> string"

text \<open>Durations in seconds and the text \<open>time.Duration\<close> prints for whole hours, minutes and seconds.\<close>

definition DefaultShortTimeout :: int where "DefaultShortTimeout = 60"
definition DefaultLongTimeout :: int where "DefaultLongTimeout = 24 * 3600"

definition fmt_duration :: "int \<Rightarrow> string" where
  "fmt_duration t =
     (if t \<ge> 3600 then itoa (t div 3600) @ ''h'' @ itoa (t mod 3600 div 60) @ ''m'' @ itoa (t mod 60) @ ''s''
      else if t \<ge> 60 then itoa (t div 60) @ ''m'' @ itoa (t mod 60) @ ''s''
      else itoa t @ ''s'')"

section \<open>A call\<close>

text \<open>\<open>string(marshaledParams) == "{}"\<close>: an empty struct or map is sent as \<open>null\<close>.\<close>

definition drop_empty_params :: "json \<Rightarrow> json" where
  "drop_empty_params ps = (if ps = JObj [] then JNull else ps)"

definition call_text :: "'w rpc_env \<Rightarrow> string \<Rightarrow> json \<Rightarrow> string" where
  "call_text c meth ps = '', method '' @ meth @ '', params '' @ fmt_params c ps"

definition context_done :: "'w rpc_env \<Rightarrow> string \<Rightarrow> json \<Rightarrow> go_error" where
  "context_done c meth ps = PlainErr (''context done during async message send'' @ call_text c meth ps)"

definition timed_out :: "'w rpc_env \<Rightarrow> int \<Rightarrow> string \<Rightarrow> string \<Rightarrow> json \<Rightarrow> go_error" where
  "timed_out c t what meth ps =
     PlainErr (''timeout '' @ fmt_duration t @ CHR '' '' # what @ '' during async message send'' @ call_text c meth ps)"

definition nil_response :: "'w rpc_env \<Rightarrow> string \<Rightarrow> json \<Rightarrow> go_error" where
  "nil_response c meth ps =
     PlainErr (''received nil response during async message send, maybe the response channel somehow is closed''
       @ call_text c meth ps)"

text \<open>The outermost deferred function: any error becomes a client error, with the id of the response
  when one was received and 0 otherwise, and with the parameters as they are at that point.\<close>

definition client_error :: "'w rpc_env \<Rightarrow> Response option \<Rightarrow> string \<Rightarrow> json \<Rightarrow> go_error \<Rightarrow> go_error" where
  "client_error c resp meth ps e =
     ClientErr (case resp of None \<Rightarrow> 0 | Some r \<Rightarrow> RespID r) meth (fmt_params c ps) e"

text \<open>The deferred \<open><-c.sem\<close>: it takes one token out of the channel, whoever put it there.\<close>

definition release_slot :: "'w session \<Rightarrow> 'w session" where
  "release_slot s = s\<lparr> slots := slots s - 1 \<rparr>"

text \<open>The last \<open>select\<close> and what follows it.\<close>

definition receive_response ::
  "'w rpc_env \<Rightarrow> string \<Rightarrow> json \<Rightarrow> int \<Rightarrow> 'w session \<Rightarrow> (go_error + json) \<times> 'w session" where
  "receive_response c meth ps t s =
     (let (r, w) = on_response c (peer s); s' = s\<lparr> peer := w \<rparr> in
      case r of
        CtxDone \<Rightarrow> (Inl (client_error c None meth ps (context_done c meth ps)), s')
      | TimedOut \<Rightarrow> (Inl (client_error c None meth ps (timed_out c t ''waiting for response'' meth ps)), s')
      | Got None \<Rightarrow> (Inl (client_error c None meth ps (nil_response c meth ps)), s')
      | Got (Some resp) \<Rightarrow>
          (case ErrorInfo resp of
             Some re \<Rightarrow> (Inl (client_error c (Some resp) meth ps (response_error re)), s')
           | None \<Rightarrow> (Inr (Result resp), s')))"

text \<open>The second \<open>select\<close>: the message is handed to the dispatcher.\<close>

definition enqueue_message ::
  "'w rpc_env \<Rightarrow> string \<Rightarrow> json \<Rightarrow> int \<Rightarrow> 'w session \<Rightarrow> (go_error + json) \<times> 'w session" where
  "enqueue_message c meth ps t s =
     (let (r, w) = on_queue c meth ps (peer s); s' = s\<lparr> peer := w \<rparr> in
      case r of
        CtxDone \<Rightarrow> (Inl (client_error c None meth ps (context_done c meth ps)), s')
      | TimedOut \<Rightarrow> (Inl (client_error c None meth ps (timed_out c t ''queueing message'' meth ps)), s')
      | Got _ \<Rightarrow>
          receive_response c meth ps t
            (s'\<lparr> issued := issued s' @ [\<lparr> rc_method = meth, rc_params = ps, rc_timeout = t \<rparr>] \<rparr>))"

definition SendMsgAsyncWithTimeout :: "'w rpc_env \<Rightarrow> string \<Rightarrow> json \<Rightarrow> int \<Rightarrow> ('w session, json) io" where
  "SendMsgAsyncWithTimeout c meth ps t s =
     (let (r, w) = on_sem c (peer s); s' = s\<lparr> peer := w \<rparr> in
      case r of
        CtxDone \<Rightarrow> (Inl (client_error c None meth ps (context_done c meth ps)), s')
      | TimedOut \<Rightarrow> (Inl (client_error c None meth ps (timed_out c t ''getting semaphores'' meth ps)), s')
      | Got _ \<Rightarrow>
          (let (res, s'') = enqueue_message c meth (drop_empty_params ps) t (s'\<lparr> slots := slots s' + 1 \<rparr>)
           in (res, release_slot s'')))"

definition SendCommand :: "'w rpc_env \<Rightarrow> string \<Rightarrow> json \<Rightarrow> ('w session, json) io" where
  "SendCommand c meth ps = SendMsgAsyncWithTimeout c meth ps DefaultShortTimeout"

definition SendCommandWithLongTimeout :: "'w rpc_env \<Rightarrow> string \<Rightarrow> json \<Rightarrow> ('w session, json) io" where
  "SendCommandWithLongTimeout c meth ps = SendMsgAsyncWithTimeout c meth ps DefaultLongTimeout"

section \<open>The synchronous call\<close>

text \<open>
  \<open>SendMsgWithTimeout\<close> owns the connection: \<open>send_wire\<close> is the encoder on it, \<open>has_more\<close> the method \<open>More\<close>
  of the decoder (which waits for input as the connection does), \<open>read_reply\<close> its \<open>Decode\<close>. The id
  counter is part of the state: \<open>atomic.AddUint32\<close> returns the incremented value.
\<close>

record 'w wire =
  send_wire :: "Message \<Rightarrow> 'w \<Rightarrow> go_error option \<times> 'w"
  has_more :: "'w \<Rightarrow> bool \<times> 'w"
  read_reply :: "'w \<Rightarrow> (go_error + json) \<times> 'w"
  fmt_sync_params :: "json \<Rightarrow> string"

text \<open>The polling loop runs for \<open>count = 0 .. timeout\<close> and stops at the first \<open>More()\<close> that is true.\<close>

fun poll_more :: "('w \<Rightarrow> bool \<times> 'w) \<Rightarrow> nat \<Rightarrow> 'w \<Rightarrow> 'w" where
  "poll_more f 0 w = w"
| "poll_more f (Suc n) w = (let (b, w') = f w in if b then w' else poll_more f n w')"

definition id_mismatch :: "u32 \<Rightarrow> u32 \<Rightarrow> go_error" where
  "id_mismatch i r = PlainErr (''received response but the id mismatching, message id '' @ itoa (uint i)
     @ '', response id '' @ itoa (uint r))"

definition SendMsgWithTimeout ::
  "'w wire \<Rightarrow> string \<Rightarrow> json \<Rightarrow> int \<Rightarrow> u32 \<times> 'w \<Rightarrow> (go_error + json) \<times> (u32 \<times> 'w)" where
  "SendMsgWithTimeout c meth ps t st =
     (let (counter, w) = st; i = counter + 1;
          fail = (\<lambda>e w'. (Inl (ClientErr i meth (fmt_sync_params c ps) e), (i, w'))) in
      case send_wire c (NewMessage i meth (drop_empty_params ps)) w of
        (Some e, w1) \<Rightarrow> fail e w1
      | (None, w1) \<Rightarrow>
          (let (ok, w2) = has_more c (poll_more (has_more c) (nat (t + 1)) w1) in
           if \<not> ok
           then fail (PlainErr (''timeout '' @ itoa t @ '' second waiting for the response from the SPDK JSON RPC server'')) w2
           else (case read_reply c w2 of
              (Inl e, w3) \<Rightarrow> fail e w3
            | (Inr j, w3) \<Rightarrow>
                (case dec_Response j of
                   Inl e \<Rightarrow> fail e w3
                 | Inr resp \<Rightarrow>
                     if RespID resp \<noteq> i then fail (id_mismatch i (RespID resp)) w3
                     else (case ErrorInfo resp of
                         Some re \<Rightarrow> fail (response_error re) w3
                       | None \<Rightarrow> (Inr (Result resp), (i, w3)))))))"

section \<open>What a call issues\<close>

text \<open>What a client operation does to the trace of calls.\<close>

abbreviation runs :: "('w session, 'a) io \<Rightarrow> (go_error + 'a \<Rightarrow> rpc_call list \<Rightarrow> bool) \<Rightarrow> bool" where
  "runs \<equiv> traces issued"

lemmas runsI = tracesI [where tr = issued]
lemmas runsD = tracesD [where tr = issued]
lemmas runs_mono = traces_mono [where tr = issued]
lemmas runs_return = traces_return [where tr = issued]
lemmas runs_fail = traces_fail [where tr = issued]
lemmas runs_lift = traces_lift [where tr = issued]
lemmas runs_case = traces_case [where tr = issued]
lemmas runs_bind = traces_bind [where tr = issued]

text \<open>A call issues its message once, or fails before it gets to that; then the error does not carry a
  response.\<close>

definition one_call :: "string \<Rightarrow> json \<Rightarrow> int \<Rightarrow> go_error + 'a \<Rightarrow> rpc_call list \<Rightarrow> bool" where
  "one_call meth ps t r cs =
     (cs = [\<lparr> rc_method = meth, rc_params = drop_empty_params ps, rc_timeout = t \<rparr>] \<or> cs = [] \<and> (\<exists>e. r = Inl e \<and> response_detail e = None))"

lemma early_errors [simp]:
  "response_detail (client_error c None meth ps (context_done c' meth' ps')) = None"
  "response_detail (client_error c None meth ps (timed_out c' t what meth' ps')) = None"
  by (simp_all add: client_error_def context_done_def timed_out_def)

text \<open>The outcomes of a call, one rule per path through the two nested selects.\<close>

lemma receive_response_outcome:
  obtains (err) resp d w where "receive_response c meth ps t s = (Inl (client_error c resp meth ps d), s\<lparr> peer := w \<rparr>)"
    | (ok) resp w where "on_response c (peer s) = (Got (Some resp), w)" and "ErrorInfo resp = None"
        and "receive_response c meth ps t s = (Inr (Result resp), s\<lparr> peer := w \<rparr>)"
proof -
  obtain r w where on: "on_response c (peer s) = (r, w)" by fastforce
  note eq = receive_response_def on Let_def prod.case
  show ?thesis
  proof (cases r)
    case (Got x)
    show ?thesis
    proof (cases x)
      case (Some resp)
      with Got on show ?thesis
        by (cases "ErrorInfo resp") (auto simp: eq intro: err ok)
    qed (rule err, simp add: eq Got)
  qed (rule err, simp add: eq)+
qed

lemma send_outcome_cases:
  "(\<exists>d ps' s'. SendMsgAsyncWithTimeout c meth ps t s = (Inl (client_error c None meth ps' d), s') \<and>
      response_detail (client_error c None meth ps' d) = None \<and> issued s' = issued s \<and> slots s' = slots s) \<or>
   (\<exists>w. SendMsgAsyncWithTimeout c meth ps t s =
      (let (res, s'') = receive_response c meth (drop_empty_params ps) t
          (s\<lparr> slots := Suc (slots s), peer := w,
             issued := issued s @ [\<lparr> rc_method = meth, rc_params = drop_empty_params ps, rc_timeout = t \<rparr>] \<rparr>)
       in (res, release_slot s'')))"
  (is "?early \<or> ?queued")
proof -
  obtain r w where sem: "on_sem c (peer s) = (r, w)" by fastforce
  note eq1 = SendMsgAsyncWithTimeout_def sem Let_def prod.case
  show ?thesis
  proof (cases r)
    case (Got x)
    obtain r' w' where q: "on_queue c meth (drop_empty_params ps) w = (r', w')" by fastforce
    note eq2 = eq1 Got enqueue_message_def q release_slot_def
    show ?thesis
    proof (cases r')
      case (Got y)
      then have ?queued by (intro exI [of _ w']) (simp add: eq2)
      then show ?thesis ..
    next
      case CtxDone
      then have ?early by (simp add: eq2) (intro exI conjI, rule refl, rule early_errors)
      then show ?thesis ..
    next
      case TimedOut
      then have ?early by (simp add: eq2) (intro exI conjI, rule refl, rule early_errors)
      then show ?thesis ..
    qed
  next
    case CtxDone
    then have ?early by (simp add: eq1) (intro exI conjI, rule refl, rule early_errors)
    then show ?thesis ..
  next
    case TimedOut
    then have ?early by (simp add: eq1) (intro exI conjI, rule refl, rule early_errors)
    then show ?thesis ..
  qed
qed

lemma send_outcome:
  obtains (early) d ps' s' where "SendMsgAsyncWithTimeout c meth ps t s =
      (Inl (client_error c None meth ps' d), s')" and "response_detail (client_error c None meth ps' d) = None"
      and "issued s' = issued s" and "slots s' = slots s"
  | (queued) w where "SendMsgAsyncWithTimeout c meth ps t s =
      (let (res, s'') = receive_response c meth (drop_empty_params ps) t
          (s\<lparr> slots := Suc (slots s), peer := w,
             issued := issued s @ [\<lparr> rc_method = meth, rc_params = drop_empty_params ps, rc_timeout = t \<rparr>] \<rparr>)
       in (res, release_slot s''))"
  using send_outcome_cases [of c meth ps t s] by blast

lemma runs_send: "runs (SendMsgAsyncWithTimeout c meth ps t) (one_call meth ps t)"
proof (rule runsI)
  fix s
  show "\<exists>cs. issued (snd (SendMsgAsyncWithTimeout c meth ps t s)) = issued s @ cs \<and>
      one_call meth ps t (fst (SendMsgAsyncWithTimeout c meth ps t s)) cs"
  proof (cases rule: send_outcome [of c meth ps t s])
    case (queued w)
    show ?thesis
      unfolding queued
      by (rule receive_response_outcome [of c meth "drop_empty_params ps" t "s\<lparr> slots := Suc (slots s), peer := w,
             issued := issued s @ [\<lparr> rc_method = meth, rc_params = drop_empty_params ps, rc_timeout = t \<rparr>] \<rparr>"])
        (simp_all add: one_call_def release_slot_def)
  qed (simp add: one_call_def)
qed

text \<open>
  The interface the methods of the SPDK client use: a way of sending requests that issues its request once, with its
  timeout, or fails before that without a response. Decoding the output issues nothing, so a method that sends one
  request and decodes the output keeps the law; and an error that carries a response means that the request was sent.
\<close>

locale channel =
  fixes send :: "string \<Rightarrow> json \<Rightarrow> ('w session, json) io" and timeout :: int
  assumes hands_over: "runs (send meth ps) (one_call meth ps timeout)"
begin

lemma decoded: "runs (io_bind (send meth ps) (\<lambda>x. io_lift (f x))) (one_call meth ps timeout)"
  by (rule runs_bind [OF hands_over]) (auto intro!: runs_lift simp: one_call_def)

lemma answered_was_sent:
  assumes "send meth ps s = (Inl e, s')" and "response_detail e \<noteq> None"
  shows "issued s' = issued s @ [\<lparr> rc_method = meth, rc_params = drop_empty_params ps, rc_timeout = timeout \<rparr>]"
  using runsD [OF hands_over assms(1)] assms(2) by (auto simp: one_call_def)

end

interpretation short: channel "SendCommand c" DefaultShortTimeout for c
  by unfold_locales (simp add: SendCommand_def runs_send)

interpretation long: channel "SendCommandWithLongTimeout c" DefaultLongTimeout for c
  by unfold_locales (simp add: SendCommandWithLongTimeout_def runs_send)

section \<open>Contract of a call\<close>

text \<open>
  Property C17. A call of \<open>SendMsgAsyncWithTimeout\<close> holds a semaphore slot only while it runs: on every
  path (context done, any of the three timeouts, closed channel, error response, result) the slots held
  afterwards are those held before. Its error is always a client error that names the method, so the
  classifiers of \<open>types.go\<close> can look at it. A result means that exactly this request was handed to the
  dispatcher, once, with empty parameters dropped.
\<close>

theorem SendMsgAsync_contract:
  assumes "SendMsgAsyncWithTimeout c meth ps t s = (r, s')"
  shows "slots s' = slots s \<and>
    (case r of
       Inl e \<Rightarrow> \<exists>i shown d. e = ClientErr i meth shown d
     | Inr j \<Rightarrow> issued s' = issued s @
         [\<lparr> rc_method = meth, rc_params = drop_empty_params ps, rc_timeout = t \<rparr>])"
proof (cases rule: send_outcome [of c meth ps t s])
  case (queued w)
  show ?thesis
    using assms unfolding queued
    by (rule_tac receive_response_outcome [of c meth "drop_empty_params ps" t "s\<lparr> slots := Suc (slots s), peer := w,
             issued := issued s @ [\<lparr> rc_method = meth, rc_params = drop_empty_params ps, rc_timeout = t \<rparr>] \<rparr>"])
      (auto simp: release_slot_def client_error_def)
qed (use assms in \<open>auto simp: client_error_def\<close>)

text \<open>A peer for examples: every wait succeeds at once and the responses come from a list.\<close>

definition scripted :: "Response list rpc_env" where
  "scripted = \<lparr>
     on_sem = (\<lambda>w. (Got (), w)),
     on_queue = (\<lambda>meth ps w. (Got (), w)),
     on_response = (\<lambda>w. case w of [] \<Rightarrow> (Got None, []) | r # rs \<Rightarrow> (Got (Some r), rs)),
     fmt_params = (\<lambda>ps. ''{}'') \<rparr>"

definition answer :: "json \<Rightarrow> Response" where
  "answer j = \<lparr> RespID = 7, RespVersion = ''2.0'', Result = j, ErrorInfo = None \<rparr>"

definition refusal :: "int \<Rightarrow> string \<Rightarrow> Response" where
  "refusal code msg = \<lparr> RespID = 7, RespVersion = ''2.0'', Result = JNull,
     ErrorInfo = Some \<lparr> Code = code, ErrMessage = msg \<rparr> \<rparr>"

definition new_session :: "'w \<Rightarrow> 'w session" where
  "new_session w = \<lparr> issued = [], slots = 0, peer = w \<rparr>"

lemma scripted_send_answer [simp]:
  "SendMsgAsyncWithTimeout scripted meth ps t \<lparr> issued = cs, slots = n, peer = answer j # rs \<rparr> =
     (Inr j, \<lparr> issued = cs @ [\<lparr> rc_method = meth, rc_params = drop_empty_params ps, rc_timeout = t \<rparr>],
        slots = n, peer = rs \<rparr>)"
  by (simp add: SendMsgAsyncWithTimeout_def scripted_def enqueue_message_def receive_response_def
      release_slot_def answer_def)

lemma scripted_send_refusal [simp]:
  "SendMsgAsyncWithTimeout scripted meth ps t \<lparr> issued = cs, slots = n, peer = refusal code msg # rs \<rparr> =
     (Inl (ClientErr 7 meth ''{}'' (ResponseErr code msg)),
      \<lparr> issued = cs @ [\<lparr> rc_method = meth, rc_params = drop_empty_params ps, rc_timeout = t \<rparr>],
        slots = n, peer = rs \<rparr>)"
  by (simp add: SendMsgAsyncWithTimeout_def scripted_def enqueue_message_def receive_response_def
      release_slot_def refusal_def client_error_def response_error_def)

theorem SendMsgAsync_contract_witness:
  "slots (snd (SendMsgAsyncWithTimeout scripted ''log_get_flags'' (JObj []) 60 (new_session [answer JNull]))) = 0 \<and>
   issued (snd (SendMsgAsyncWithTimeout scripted ''log_get_flags'' (JObj []) 60 (new_session [answer JNull]))) =
     [\<lparr> rc_method = ''log_get_flags'', rc_params = JNull, rc_timeout = 60 \<rparr>]"
  using SendMsgAsync_contract
    [of scripted "''log_get_flags''" "JObj []" 60 "new_session [answer JNull]" "Inr JNull"
      "snd (SendMsgAsyncWithTimeout scripted ''log_get_flags'' (JObj []) 60 (new_session [answer JNull]))"]
  by (simp add: new_session_def drop_empty_params_def)

section \<open>Contract of the synchronous call\<close>

text \<open>
  Property C33. The synchronous \<open>SendMsgWithTimeout\<close> uses the incremented counter as its id and leaves the
  counter there, on every path. A result comes from a reply that was decoded, carries exactly that id and
  no error; a reply with another id, an error reply, a failed write, an undecodable reply and a peer
  that never has data are all reported as a client error with that id and method.
\<close>

theorem SendMsg_sync_contract:
  assumes "SendMsgWithTimeout c meth ps t (k, w) = (r, (k', w'))"
  shows "k' = k + 1 \<and>
    (case r of
       Inl e \<Rightarrow> \<exists>shown d. e = ClientErr (k + 1) meth shown d
     | Inr j \<Rightarrow> \<exists>w2 reply resp. read_reply c w2 = (Inr reply, w') \<and> dec_Response reply = Inr resp \<and>
         RespID resp = k + 1 \<and> ErrorInfo resp = None \<and> j = Result resp)"
proof -
  obtain werr w1 where wr: "send_wire c (NewMessage (k + 1) meth (drop_empty_params ps)) w = (werr, w1)"
    by fastforce
  note eq = SendMsgWithTimeout_def wr Let_def prod.case
  show ?thesis
  proof (cases werr)
    case None
    obtain ok w2 where m: "has_more c (poll_more (has_more c) (nat (t + 1)) w1) = (ok, w2)"
      by fastforce
    obtain rr w3 where rd: "read_reply c w2 = (rr, w3)"
      by fastforce
    note eq = eq None m rd
    show ?thesis
    proof (cases ok)
      case True
      then show ?thesis
        using assms rd
        by (auto 0 4 simp: eq intro: exI [of _ w2] split: sum.splits if_splits option.splits)
    qed (use assms in \<open>auto simp: eq\<close>)
  qed (use assms in \<open>auto simp: eq\<close>)
qed

definition example_wire :: "json list wire" where
  "example_wire = \<lparr>
     send_wire = (\<lambda>msg w. (None, w)),
     has_more = (\<lambda>w. (w \<noteq> [], w)),
     read_reply = (\<lambda>w. case w of [] \<Rightarrow> (Inl (PlainErr ''EOF''), []) | j # js \<Rightarrow> (Inr j, js)),
     fmt_sync_params = (\<lambda>ps. ''{}'') \<rparr>"

theorem SendMsg_sync_contract_witness:
  "(case fst (SendMsgWithTimeout example_wire ''log_get_level'' JNull 60 (6, [JObj [(''id'', JNum 9)]])) of
      Inl e \<Rightarrow> \<exists>shown d. e = ClientErr 7 ''log_get_level'' shown d
    | Inr j \<Rightarrow> False)"
proof -
  have run: "SendMsgWithTimeout example_wire ''log_get_level'' JNull 60 (6, [JObj [(''id'', JNum 9)]]) =
      (Inl (ClientErr 7 ''log_get_level'' ''{}'' (id_mismatch 7 9)), (7, []))"
    by (simp add: SendMsgWithTimeout_def example_wire_def dec_Response_def dec_fields_def get_field_def
        lookup_field_def to_lower_def lower_char_def dec_word_def dec_string_def dec_interface_def dec_ptr_def
        eval_nat_numeral)
  show ?thesis
    using SendMsg_sync_contract [OF run] by (simp add: run)
qed

end
