(* ===== verification/SpdkNvmeTypes.thy ===== *)
theory SpdkNvmeTypes
  imports JsonRpcTypes
begin

text \<open>
  The structs of \<open>pkg/spdk/types/nvme.go\<close> and \<open>nvmf.go\<close> that replies are decoded into, field by field,
  with their decoders. Three of them also occur in requests and have an encoder.
\<close>

section \<open>nvme.go\<close>

record NvmeOacs =
  Firmware :: u32
  Format :: u32
  NsManage :: u32
  Security :: u32

definition dec_NvmeOacs :: "NvmeOacs decoder" where
  "dec_NvmeOacs = dec_fields (\<lambda>kvs.
     get_field ''firmware'' dec_word kvs (\<lambda>x1.
     get_field ''format'' dec_word kvs (\<lambda>x2.
     get_field ''ns_manage'' dec_word kvs (\<lambda>x3.
     get_field ''security'' dec_word kvs (\<lambda>x4.
     Inr \<lparr>
       NvmeOacs.Firmware = x1, NvmeOacs.Format = x2, NvmeOacs.NsManage = x3, NvmeOacs.Security = x4 \<rparr>)))))"

record NvmeCtrlrData =
  AnaReporting :: bool
  Cntlid :: u16
  FirmwareRevision :: string
  ModelNumber :: string
  MultiCtrlr :: bool
  Oacs :: NvmeOacs
  SerialNumber :: string
  Subnqn :: string
  VendorID :: string

definition dec_NvmeCtrlrData :: "NvmeCtrlrData decoder" where
  "dec_NvmeCtrlrData = dec_fields (\<lambda>kvs.
     get_field ''ana_reporting'' dec_bool kvs (\<lambda>x1.
     get_field ''cntlid'' dec_word kvs (\<lambda>x2.
     get_field ''firmware_revision'' dec_string kvs (\<lambda>x3.
     get_field ''model_number'' dec_string kvs (\<lambda>x4.
     get_field ''multi_ctrlr'' dec_bool kvs (\<lambda>x5.
     get_field ''oacs'' dec_NvmeOacs kvs (\<lambda>x6.
     get_field ''serial_number'' dec_string kvs (\<lambda>x7.
     get_field ''subnqn'' dec_string kvs (\<lambda>x8.
     get_field ''vendor_id'' dec_string kvs (\<lambda>x9.
     Inr \<lparr>
       NvmeCtrlrData.AnaReporting = x1, NvmeCtrlrData.Cntlid = x2, NvmeCtrlrData.FirmwareRevision = x3,
       NvmeCtrlrData.ModelNumber = x4, NvmeCtrlrData.MultiCtrlr = x5, NvmeCtrlrData.Oacs = x6,
       NvmeCtrlrData.SerialNumber = x7, NvmeCtrlrData.Subnqn = x8, NvmeCtrlrData.VendorID = x9 \<rparr>))))))))))"

record NvmeNsData =
  ID :: u32
  CanShare :: bool
  AnaState :: string

definition dec_NvmeNsData :: "NvmeNsData decoder" where
  "dec_NvmeNsData = dec_fields (\<lambda>kvs.
     get_field ''id'' dec_word kvs (\<lambda>x1.
     get_field ''can_share'' dec_bool kvs (\<lambda>x2.
     get_field ''ana_state'' dec_string kvs (\<lambda>x3.
     Inr \<lparr>
       NvmeNsData.ID = x1, NvmeNsData.CanShare = x2, NvmeNsData.AnaState = x3 \<rparr>))))"

record NvmeTransportID =
  Trtype :: string
  Adrfam :: string
  Traddr :: string
  Trsvcid :: string
  Subnqn :: string

definition dec_NvmeTransportID :: "NvmeTransportID decoder" where
  "dec_NvmeTransportID = dec_fields (\<lambda>kvs.
     get_field ''trtype'' dec_string kvs (\<lambda>x1.
     get_field ''adrfam'' dec_string kvs (\<lambda>x2.
     get_field ''traddr'' dec_string kvs (\<lambda>x3.
     get_field ''trsvcid'' dec_string kvs (\<lambda>x4.
     get_field ''subnqn'' dec_string kvs (\<lambda>x5.
     Inr \<lparr>
       NvmeTransportID.Trtype = x1, NvmeTransportID.Adrfam = x2, NvmeTransportID.Traddr = x3,
       NvmeTransportID.Trsvcid = x4, NvmeTransportID.Subnqn = x5 \<rparr>))))))"

definition fields_NvmeTransportID :: "NvmeTransportID \<Rightarrow> (string \<times> json) list" where
  "fields_NvmeTransportID trid =
     omitempty ''trtype'' (JStr (NvmeTransportID.Trtype trid)) @
     omitempty ''adrfam'' (JStr (NvmeTransportID.Adrfam trid)) @
     omitempty ''traddr'' (JStr (NvmeTransportID.Traddr trid)) @
     omitempty ''trsvcid'' (JStr (NvmeTransportID.Trsvcid trid)) @
     omitempty ''subnqn'' (JStr (NvmeTransportID.Subnqn trid))"

record NvmeVendorSpecific =
  NvmeVersion :: string

definition dec_NvmeVendorSpecific :: "NvmeVendorSpecific decoder" where
  "dec_NvmeVendorSpecific = dec_fields (\<lambda>kvs.
     get_field ''nvme_version'' dec_string kvs (\<lambda>x1.
     Inr \<lparr>
       NvmeVendorSpecific.NvmeVersion = x1 \<rparr>))"

record NvmeNamespaceInfo =
  PciAddress :: string
  CtrlrData :: NvmeCtrlrData
  NsData :: NvmeNsData
  Trid :: NvmeTransportID
  VS :: NvmeVendorSpecific

definition dec_NvmeNamespaceInfo :: "NvmeNamespaceInfo decoder" where
  "dec_NvmeNamespaceInfo = dec_fields (\<lambda>kvs.
     get_field ''pci_address'' dec_string kvs (\<lambda>x1.
     get_field ''ctrlr_data'' dec_NvmeCtrlrData kvs (\<lambda>x2.
     get_field ''ns_data'' dec_NvmeNsData kvs (\<lambda>x3.
     get_field ''trid'' dec_NvmeTransportID kvs (\<lambda>x4.
     get_field ''vs'' dec_NvmeVendorSpecific kvs (\<lambda>x5.
     Inr \<lparr>
       NvmeNamespaceInfo.PciAddress = x1, NvmeNamespaceInfo.CtrlrData = x2,
       NvmeNamespaceInfo.NsData = x3, NvmeNamespaceInfo.Trid = x4, NvmeNamespaceInfo.VS = x5 \<rparr>))))))"

record NvmeControllerHost =
  Nqn :: string
  Addr :: string
  Svcid :: string

definition dec_NvmeControllerHost :: "NvmeControllerHost decoder" where
  "dec_NvmeControllerHost = dec_fields (\<lambda>kvs.
     get_field ''nqn'' dec_string kvs (\<lambda>x1.
     get_field ''addr'' dec_string kvs (\<lambda>x2.
     get_field ''svcid'' dec_string kvs (\<lambda>x3.
     Inr \<lparr>
       NvmeControllerHost.Nqn = x1, NvmeControllerHost.Addr = x2, NvmeControllerHost.Svcid = x3 \<rparr>))))"

record NvmeControllerInfo =
  State :: string
  Cntlid :: u16
  Trid :: NvmeTransportID
  Host :: NvmeControllerHost

definition dec_NvmeControllerInfo :: "NvmeControllerInfo decoder" where
  "dec_NvmeControllerInfo = dec_fields (\<lambda>kvs.
     get_field ''state'' dec_string kvs (\<lambda>x1.
     get_field ''cntlid'' dec_word kvs (\<lambda>x2.
     get_field ''trid'' dec_NvmeTransportID kvs (\<lambda>x3.
     get_field ''host'' dec_NvmeControllerHost kvs (\<lambda>x4.
     Inr \<lparr>
       NvmeControllerInfo.State = x1, NvmeControllerInfo.Cntlid = x2, NvmeControllerInfo.Trid = x3,
       NvmeControllerInfo.Host = x4 \<rparr>)))))"

record BdevNvmeControllerInfo =
  Name :: string
  Ctrlrs :: "NvmeControllerInfo list"

definition dec_BdevNvmeControllerInfo :: "BdevNvmeControllerInfo decoder" where
  "dec_BdevNvmeControllerInfo = dec_fields (\<lambda>kvs.
     get_field ''name'' dec_string kvs (\<lambda>x1.
     get_field ''ctrlrs'' (dec_list dec_NvmeControllerInfo) kvs (\<lambda>x2.
     Inr \<lparr>
       BdevNvmeControllerInfo.Name = x1, BdevNvmeControllerInfo.Ctrlrs = x2 \<rparr>)))"

record BdevNvmeControllerHealthInfo =
  ModelNumber :: string
  SerialNumber :: string
  FirmwareRevision :: string
  Traddr :: string
  CriticalWarning :: u32
  TemperatureCelsius :: int
  AvailableSparePercentage :: u32
  AvailableSpareThresholdPercentage :: u32
  PercentageUsed :: u32
  DataUnitsRead :: u64
  DataUnitsWritten :: u64
  HostReadCommands :: u64
  HostWriteCommands :: u64
  ControllerBusyTime :: u64
  PowerCycles :: u64
  PowerOnHours :: u64
  UnsafeShutdowns :: u64
  MediaErrors :: u64
  NumErrLogEntries :: u64
  WarningTemperatureTimeMinutes :: u64
  CriticalCompositeTemperatureTimeMinutes :: u64

definition dec_BdevNvmeControllerHealthInfo :: "BdevNvmeControllerHealthInfo decoder" where
  "dec_BdevNvmeControllerHealthInfo = dec_fields (\<lambda>kvs.
     get_field ''model_number'' dec_string kvs (\<lambda>x1.
     get_field ''serial_number'' dec_string kvs (\<lambda>x2.
     get_field ''firmware_revision'' dec_string kvs (\<lambda>x3.
     get_field ''traddr'' dec_string kvs (\<lambda>x4.
     get_field ''critical_warning'' dec_word kvs (\<lambda>x5.
     get_field ''temperature_celsius'' dec_number kvs (\<lambda>x6.
     get_field ''available_spare_percentage'' dec_word kvs (\<lambda>x7.
     get_field ''available_spare_threshold_percentage'' dec_word kvs (\<lambda>x8.
     get_field ''percentage_used'' dec_word kvs (\<lambda>x9.
     get_field ''data_units_read'' dec_word kvs (\<lambda>x10.
     get_field ''data_units_written'' dec_word kvs (\<lambda>x11.
     get_field ''host_read_commands'' dec_word kvs (\<lambda>x12.
     get_field ''host_write_commands'' dec_word kvs (\<lambda>x13.
     get_field ''controller_busy_time'' dec_word kvs (\<lambda>x14.
     get_field ''power_cycles'' dec_word kvs (\<lambda>x15.
     get_field ''power_on_hours'' dec_word kvs (\<lambda>x16.
     get_field ''unsafe_shutdowns'' dec_word kvs (\<lambda>x17.
     get_field ''media_errors'' dec_word kvs (\<lambda>x18.
     get_field ''num_err_log_entries'' dec_word kvs (\<lambda>x19.
     get_field ''warning_temperature_time_minutes'' dec_word kvs (\<lambda>x20.
     get_field ''critical_composite_temperature_time_minutes'' dec_word kvs (\<lambda>x21.
     Inr \<lparr>
       BdevNvmeControllerHealthInfo.ModelNumber = x1, BdevNvmeControllerHealthInfo.SerialNumber = x2,
       BdevNvmeControllerHealthInfo.FirmwareRevision = x3, BdevNvmeControllerHealthInfo.Traddr = x4,
       BdevNvmeControllerHealthInfo.CriticalWarning = x5,
       BdevNvmeControllerHealthInfo.TemperatureCelsius = x6,
       BdevNvmeControllerHealthInfo.AvailableSparePercentage = x7,
       BdevNvmeControllerHealthInfo.AvailableSpareThresholdPercentage = x8,
       BdevNvmeControllerHealthInfo.PercentageUsed = x9,
       BdevNvmeControllerHealthInfo.DataUnitsRead = x10,
       BdevNvmeControllerHealthInfo.DataUnitsWritten = x11,
       BdevNvmeControllerHealthInfo.HostReadCommands = x12,
       BdevNvmeControllerHealthInfo.HostWriteCommands = x13,
       BdevNvmeControllerHealthInfo.ControllerBusyTime = x14,
       BdevNvmeControllerHealthInfo.PowerCycles = x15, BdevNvmeControllerHealthInfo.PowerOnHours = x16,
       BdevNvmeControllerHealthInfo.UnsafeShutdowns = x17,
       BdevNvmeControllerHealthInfo.MediaErrors = x18,
       BdevNvmeControllerHealthInfo.NumErrLogEntries = x19,
       BdevNvmeControllerHealthInfo.WarningTemperatureTimeMinutes = x20,
       BdevNvmeControllerHealthInfo.CriticalCompositeTemperatureTimeMinutes = x21 \<rparr>))))))))))))))))))))))"

section \<open>nvmf.go\<close>

text \<open>Both \<open>UnmarshalJSON\<close> methods read an ANA group id that SPDK sends as a string or as a number.\<close>

definition dec_group_id :: "string \<Rightarrow> string decoder" where
  "dec_group_id failure j =
     (case dec_string j of
        Inr s \<Rightarrow> Inr s
      | Inl _ \<Rightarrow>
          (case dec_word j of
             Inr w \<Rightarrow> Inr (itoa (uint (w :: u32)))
           | Inl _ \<Rightarrow> Inl (PlainErr (failure @ json_text j))))"

definition dec_NvmfANAGroupID :: "string decoder" where
  "dec_NvmfANAGroupID = dec_group_id ''failed to unmarshal ANA group ID ''"

definition dec_anagrpid :: "string decoder" where
  "dec_anagrpid = dec_group_id ''failed to unmarshal anagrpid: ''"

record NvmfTransport =
  Trtype :: string
  MaxQueueDepth :: u32
  MaxIoQpairsPerCtrlr :: u32
  InCapsuleDataSize :: u32
  MaxIoSize :: u32
  IoUnitSize :: u32
  MaxAqDepth :: u32
  NumSharedBuffers :: u32
  BufCacheSize :: u32
  SockPriority :: u32
  AbortTimeoutSec :: u32
  DifInsertOrStrip :: bool
  Zcopy :: bool
  C2HSuccess :: bool

definition dec_NvmfTransport :: "NvmfTransport decoder" where
  "dec_NvmfTransport = dec_fields (\<lambda>kvs.
     get_field ''trtype'' dec_string kvs (\<lambda>x1.
     get_field ''max_queue_depth'' dec_word kvs (\<lambda>x2.
     get_field ''max_io_qpairs_per_ctrlr'' dec_word kvs (\<lambda>x3.
     get_field ''in_capsule_data_size'' dec_word kvs (\<lambda>x4.
     get_field ''max_io_size'' dec_word kvs (\<lambda>x5.
     get_field ''io_unit_size'' dec_word kvs (\<lambda>x6.
     get_field ''max_aq_depth'' dec_word kvs (\<lambda>x7.
     get_field ''num_shared_buffers'' dec_word kvs (\<lambda>x8.
     get_field ''buf_cache_size'' dec_word kvs (\<lambda>x9.
     get_field ''sock_priority'' dec_word kvs (\<lambda>x10.
     get_field ''abort_timeout_sec'' dec_word kvs (\<lambda>x11.
     get_field ''dif_insert_or_strip'' dec_bool kvs (\<lambda>x12.
     get_field ''zcopy'' dec_bool kvs (\<lambda>x13.
     get_field ''c2h_success'' dec_bool kvs (\<lambda>x14.
     Inr \<lparr>
       NvmfTransport.Trtype = x1, NvmfTransport.MaxQueueDepth = x2,
       NvmfTransport.MaxIoQpairsPerCtrlr = x3, NvmfTransport.InCapsuleDataSize = x4,
       NvmfTransport.MaxIoSize = x5, NvmfTransport.IoUnitSize = x6, NvmfTransport.MaxAqDepth = x7,
       NvmfTransport.NumSharedBuffers = x8, NvmfTransport.BufCacheSize = x9,
       NvmfTransport.SockPriority = x10, NvmfTransport.AbortTimeoutSec = x11,
       NvmfTransport.DifInsertOrStrip = x12, NvmfTransport.Zcopy = x13, NvmfTransport.C2HSuccess = x14 \<rparr>)))))))))))))))"

record NvmfSubsystemListenAddress =
  Trtype :: string
  Adrfam :: string
  Traddr :: string
  Trsvcid :: string

definition dec_NvmfSubsystemListenAddress :: "NvmfSubsystemListenAddress decoder" where
  "dec_NvmfSubsystemListenAddress = dec_fields (\<lambda>kvs.
     get_field ''trtype'' dec_string kvs (\<lambda>x1.
     get_field ''adrfam'' dec_string kvs (\<lambda>x2.
     get_field ''traddr'' dec_string kvs (\<lambda>x3.
     get_field ''trsvcid'' dec_string kvs (\<lambda>x4.
     Inr \<lparr>
       NvmfSubsystemListenAddress.Trtype = x1, NvmfSubsystemListenAddress.Adrfam = x2,
       NvmfSubsystemListenAddress.Traddr = x3, NvmfSubsystemListenAddress.Trsvcid = x4 \<rparr>)))))"

definition enc_NvmfSubsystemListenAddress :: "NvmfSubsystemListenAddress \<Rightarrow> json" where
  "enc_NvmfSubsystemListenAddress a = JObj
     (field ''trtype'' (JStr (NvmfSubsystemListenAddress.Trtype a)) @
      field ''adrfam'' (JStr (NvmfSubsystemListenAddress.Adrfam a)) @
      field ''traddr'' (JStr (NvmfSubsystemListenAddress.Traddr a)) @
      field ''trsvcid'' (JStr (NvmfSubsystemListenAddress.Trsvcid a)))"

text \<open>\<open>UnmarshalJSON\<close> of a namespace decodes every other field as usual and \<open>anagrpid\<close> by itself.\<close>

record NvmfSubsystemNamespace =
  Nsid :: u32
  BdevName :: string
  Nguid :: string
  Eui64 :: string
  UUID :: string
  Anagrpid :: string
  PtplFile :: string

definition dec_NvmfSubsystemNamespace :: "NvmfSubsystemNamespace decoder" where
  "dec_NvmfSubsystemNamespace = dec_fields (\<lambda>kvs.
     get_field ''nsid'' dec_word kvs (\<lambda>x1.
     get_field ''bdev_name'' dec_string kvs (\<lambda>x2.
     get_field ''nguid'' dec_string kvs (\<lambda>x3.
     get_field ''eui64'' dec_string kvs (\<lambda>x4.
     get_field ''uuid'' dec_string kvs (\<lambda>x5.
     get_field ''anagrpid'' dec_anagrpid kvs (\<lambda>x6.
     get_field ''ptpl_file'' dec_string kvs (\<lambda>x7.
     Inr \<lparr>
       NvmfSubsystemNamespace.Nsid = x1, NvmfSubsystemNamespace.BdevName = x2,
       NvmfSubsystemNamespace.Nguid = x3, NvmfSubsystemNamespace.Eui64 = x4,
       NvmfSubsystemNamespace.UUID = x5, NvmfSubsystemNamespace.Anagrpid = x6,
       NvmfSubsystemNamespace.PtplFile = x7 \<rparr>))))))))"

definition enc_NvmfSubsystemNamespace :: "NvmfSubsystemNamespace \<Rightarrow> json" where
  "enc_NvmfSubsystemNamespace ns = JObj
     (omitempty ''nsid'' (jword (NvmfSubsystemNamespace.Nsid ns)) @
      field ''bdev_name'' (JStr (NvmfSubsystemNamespace.BdevName ns)) @
      omitempty ''nguid'' (JStr (NvmfSubsystemNamespace.Nguid ns)) @
      omitempty ''eui64'' (JStr (NvmfSubsystemNamespace.Eui64 ns)) @
      omitempty ''uuid'' (JStr (NvmfSubsystemNamespace.UUID ns)) @
      omitempty ''anagrpid'' (JStr (NvmfSubsystemNamespace.Anagrpid ns)) @
      omitempty ''ptpl_file'' (JStr (NvmfSubsystemNamespace.PtplFile ns)))"

record NvmfSubsystemHost =
  Nqn :: string

definition dec_NvmfSubsystemHost :: "NvmfSubsystemHost decoder" where
  "dec_NvmfSubsystemHost = dec_fields (\<lambda>kvs.
     get_field ''nqn'' dec_string kvs (\<lambda>x1.
     Inr \<lparr>
       NvmfSubsystemHost.Nqn = x1 \<rparr>))"

record NvmfSubsystem =
  Nqn :: string
  Subtype :: string
  ListenAddresses :: "NvmfSubsystemListenAddress list"
  AllowAnyHost :: bool
  Hosts :: "NvmfSubsystemHost list"
  SerialNumber :: string
  ModelNumber :: string
  MaxNamespaces :: u32
  MinCntlid :: u16
  MaxCntlid :: u16
  Namespaces :: "NvmfSubsystemNamespace list"

definition dec_NvmfSubsystem :: "NvmfSubsystem decoder" where
  "dec_NvmfSubsystem = dec_fields (\<lambda>kvs.
     get_field ''nqn'' dec_string kvs (\<lambda>x1.
     get_field ''subtype'' dec_string kvs (\<lambda>x2.
     get_field ''listen_addresses'' (dec_list dec_NvmfSubsystemListenAddress) kvs (\<lambda>x3.
     get_field ''allow_any_host'' dec_bool kvs (\<lambda>x4.
     get_field ''hosts'' (dec_list dec_NvmfSubsystemHost) kvs (\<lambda>x5.
     get_field ''serial_number'' dec_string kvs (\<lambda>x6.
     get_field ''model_number'' dec_string kvs (\<lambda>x7.
     get_field ''max_namespaces'' dec_word kvs (\<lambda>x8.
     get_field ''min_cntlid'' dec_word kvs (\<lambda>x9.
     get_field ''max_cntlid'' dec_word kvs (\<lambda>x10.
     get_field ''namespaces'' (dec_list dec_NvmfSubsystemNamespace) kvs (\<lambda>x11.
     Inr \<lparr>
       NvmfSubsystem.Nqn = x1, NvmfSubsystem.Subtype = x2, NvmfSubsystem.ListenAddresses = x3,
       NvmfSubsystem.AllowAnyHost = x4, NvmfSubsystem.Hosts = x5, NvmfSubsystem.SerialNumber = x6,
       NvmfSubsystem.ModelNumber = x7, NvmfSubsystem.MaxNamespaces = x8, NvmfSubsystem.MinCntlid = x9,
       NvmfSubsystem.MaxCntlid = x10, NvmfSubsystem.Namespaces = x11 \<rparr>))))))))))))"

record NvmfSubsystemListener =
  Address :: NvmfSubsystemListenAddress
  AnaState :: string

definition dec_NvmfSubsystemListener :: "NvmfSubsystemListener decoder" where
  "dec_NvmfSubsystemListener = dec_fields (\<lambda>kvs.
     get_field ''address'' dec_NvmfSubsystemListenAddress kvs (\<lambda>x1.
     get_field ''ana_state'' dec_string kvs (\<lambda>x2.
     Inr \<lparr>
       NvmfSubsystemListener.Address = x1, NvmfSubsystemListener.AnaState = x2 \<rparr>)))"

end
