(* ===== verification/SpdkRequests.thy ===== *)
theory SpdkRequests
  imports SpdkNvmeTypes
begin

text \<open>
  The request structs of \<open>pkg/spdk/types\<close>: each is only ever built and encoded, so it is the function from
  its fields, in the order of the struct, to the JSON object the encoder writes.
\<close>

section \<open>bdev.go\<close>

definition BdevGetBdevsRequest :: "string \<Rightarrow> u64 \<Rightarrow> json" where
  "BdevGetBdevsRequest name timeout = JObj
     (omitempty ''name'' (JStr name) @
      omitempty ''timeout'' (jword timeout))"

definition BdevIostatRequest :: "string \<Rightarrow> bool \<Rightarrow> json" where
  "BdevIostatRequest name perChannel = JObj
     (omitempty ''name'' (JStr name) @
      omitempty ''per_channel'' (JBool perChannel))"

definition SpdkKillInstanceRequest :: "string \<Rightarrow> json" where
  "SpdkKillInstanceRequest sigName = JObj
     (field ''sig_name'' (JStr sigName))"

section \<open>aio.go\<close>

definition BdevAioCreateRequest :: "string \<Rightarrow> string \<Rightarrow> u64 \<Rightarrow> json" where
  "BdevAioCreateRequest name filename blockSize = JObj
     (field ''name'' (JStr name) @
      field ''filename'' (JStr filename) @
      omitempty ''block_size'' (jword blockSize))"

definition BdevAioDeleteRequest :: "string \<Rightarrow> json" where
  "BdevAioDeleteRequest name = JObj
     (field ''name'' (JStr name))"

section \<open>lvol.go\<close>

definition BdevLvolCreateLvstoreRequest :: "string \<Rightarrow> string \<Rightarrow> u32 \<Rightarrow> u32 \<Rightarrow> json" where
  "BdevLvolCreateLvstoreRequest bdevName lvsName clusterSz numMdPagesPerClusterRatio = JObj
     (field ''bdev_name'' (JStr bdevName) @
      field ''lvs_name'' (JStr lvsName) @
      omitempty ''cluster_sz'' (jword clusterSz) @
      omitempty ''num_md_pages_per_cluster_ratio'' (jword numMdPagesPerClusterRatio))"

definition BdevLvolDeleteLvstoreRequest :: "string \<Rightarrow> string \<Rightarrow> json" where
  "BdevLvolDeleteLvstoreRequest uuid lvsName = JObj
     (omitempty ''uuid'' (JStr uuid) @
      omitempty ''lvs_name'' (JStr lvsName))"

definition BdevLvolRenameLvstoreRequest :: "string \<Rightarrow> string \<Rightarrow> json" where
  "BdevLvolRenameLvstoreRequest oldName newName = JObj
     (field ''old_name'' (JStr oldName) @
      field ''new_name'' (JStr newName))"

definition BdevLvolGrowLvstoreRequest :: "string \<Rightarrow> string \<Rightarrow> json" where
  "BdevLvolGrowLvstoreRequest uuid lvsName = JObj
     (omitempty ''uuid'' (JStr uuid) @
      omitempty ''lvs_name'' (JStr lvsName))"

definition BdevLvolSetXattrRequest :: "string \<Rightarrow> string \<Rightarrow> string \<Rightarrow> json" where
  "BdevLvolSetXattrRequest name xattrName xattrValue = JObj
     (field ''name'' (JStr name) @
      field ''xattr_name'' (JStr xattrName) @
      field ''xattr_value'' (JStr xattrValue))"

definition BdevLvolGetXattrRequest :: "string \<Rightarrow> string \<Rightarrow> json" where
  "BdevLvolGetXattrRequest name xattrName = JObj
     (field ''name'' (JStr name) @
      field ''xattr_name'' (JStr xattrName))"

definition BdevLvolGetLvstoreRequest :: "string \<Rightarrow> string \<Rightarrow> json" where
  "BdevLvolGetLvstoreRequest uuid lvsName = JObj
     (omitempty ''uuid'' (JStr uuid) @
      omitempty ''lvs_name'' (JStr lvsName))"

definition BdevLvolCreateRequest :: "string \<Rightarrow> string \<Rightarrow> string \<Rightarrow> u64 \<Rightarrow> string \<Rightarrow> bool \<Rightarrow> json" where
  "BdevLvolCreateRequest lvsName uuid lvolName sizeInMib clearMethod thinProvision = JObj
     (omitempty ''lvs_name'' (JStr lvsName) @
      omitempty ''uuid'' (JStr uuid) @
      field ''lvol_name'' (JStr lvolName) @
      field ''size_in_mib'' (jword sizeInMib) @
      omitempty ''clear_method'' (JStr clearMethod) @
      omitempty ''thin_provision'' (JBool thinProvision))"

definition BdevLvolDeleteRequest :: "string \<Rightarrow> json" where
  "BdevLvolDeleteRequest name = JObj
     (field ''name'' (JStr name))"

definition BdevLvolSnapshotRequest :: "string \<Rightarrow> string \<Rightarrow> (string \<times> string) list \<Rightarrow> json" where
  "BdevLvolSnapshotRequest lvolName snapshotName xattrs = JObj
     (field ''lvol_name'' (JStr lvolName) @
      field ''snapshot_name'' (JStr snapshotName) @
      omitempty ''xattrs'' (jmap (map (\<lambda>(k, v). (k, JStr v)) xattrs)))"

definition BdevLvolCloneRequest :: "string \<Rightarrow> string \<Rightarrow> json" where
  "BdevLvolCloneRequest snapshotName cloneName = JObj
     (field ''snapshot_name'' (JStr snapshotName) @
      field ''clone_name'' (JStr cloneName))"

definition BdevLvolCloneBdevRequest :: "string \<Rightarrow> string \<Rightarrow> string \<Rightarrow> json" where
  "BdevLvolCloneBdevRequest bdev lvsName cloneName = JObj
     (field ''bdev'' (JStr bdev) @
      field ''lvs_name'' (JStr lvsName) @
      field ''clone_name'' (JStr cloneName))"

definition BdevLvolDecoupleParentRequest :: "string \<Rightarrow> json" where
  "BdevLvolDecoupleParentRequest name = JObj
     (field ''name'' (JStr name))"

definition BdevLvolDetachParentRequest :: "string \<Rightarrow> json" where
  "BdevLvolDetachParentRequest name = JObj
     (field ''name'' (JStr name))"

definition BdevLvolSetParentRequest :: "string \<Rightarrow> string \<Rightarrow> json" where
  "BdevLvolSetParentRequest lvolName parentName = JObj
     (field ''lvol_name'' (JStr lvolName) @
      field ''parent_name'' (JStr parentName))"

definition BdevLvolResizeRequest :: "string \<Rightarrow> u64 \<Rightarrow> json" where
  "BdevLvolResizeRequest name sizeInMib = JObj
     (field ''name'' (JStr name) @
      field ''size_in_mib'' (jword sizeInMib))"

definition BdevLvolShallowCopyRequest :: "string \<Rightarrow> string \<Rightarrow> json" where
  "BdevLvolShallowCopyRequest srcLvolName dstBdevName = JObj
     (field ''src_lvol_name'' (JStr srcLvolName) @
      field ''dst_bdev_name'' (JStr dstBdevName))"

definition BdevLvolRangeShallowCopyRequest :: "string \<Rightarrow> string \<Rightarrow> u64 list option \<Rightarrow> json" where
  "BdevLvolRangeShallowCopyRequest srcLvolName dstBdevName clusters = JObj
     (field ''src_lvol_name'' (JStr srcLvolName) @
      field ''dst_bdev_name'' (JStr dstBdevName) @
      field ''clusters'' (jslice jword clusters))"

definition BdevLvolDeepCopyRequest :: "string \<Rightarrow> string \<Rightarrow> json" where
  "BdevLvolDeepCopyRequest srcLvolName dstBdevName = JObj
     (field ''src_lvol_name'' (JStr srcLvolName) @
      field ''dst_bdev_name'' (JStr dstBdevName))"

definition BdevLvolGetFragmapRequest :: "string \<Rightarrow> u64 \<Rightarrow> u64 \<Rightarrow> json" where
  "BdevLvolGetFragmapRequest name offset sz = JObj
     (field ''name'' (JStr name) @
      field ''offset'' (jword offset) @
      field ''size'' (jword sz))"

definition BdevLvolRenameRequest :: "string \<Rightarrow> string \<Rightarrow> json" where
  "BdevLvolRenameRequest oldName newName = JObj
     (field ''old_name'' (JStr oldName) @
      field ''new_name'' (JStr newName))"

definition BdevLvolRegisterSnapshotChecksumRequest :: "string \<Rightarrow> json" where
  "BdevLvolRegisterSnapshotChecksumRequest name = JObj
     (field ''name'' (JStr name))"

definition BdevLvolRegisterRangeChecksumsRequest :: "string \<Rightarrow> json" where
  "BdevLvolRegisterRangeChecksumsRequest name = JObj
     (field ''name'' (JStr name))"

definition BdevLvolGetSnapshotChecksumRequest :: "string \<Rightarrow> json" where
  "BdevLvolGetSnapshotChecksumRequest name = JObj
     (field ''name'' (JStr name))"

definition BdevLvolGetRangeChecksumsRequest :: "string \<Rightarrow> u64 \<Rightarrow> u64 \<Rightarrow> json" where
  "BdevLvolGetRangeChecksumsRequest name clusterStartIndex clusterCount = JObj
     (field ''name'' (JStr name) @
      field ''cluster_start_index'' (jword clusterStartIndex) @
      field ''cluster_count'' (jword clusterCount))"

definition BdevLvolStopSnapshotChecksumRequest :: "string \<Rightarrow> json" where
  "BdevLvolStopSnapshotChecksumRequest name = JObj
     (field ''name'' (JStr name))"

section \<open>raid.go\<close>

definition BdevRaidCreateRequest :: "string \<Rightarrow> string \<Rightarrow> u32 \<Rightarrow> string list option \<Rightarrow> string \<Rightarrow> json" where
  "BdevRaidCreateRequest name raidLevel stripSizeKb baseBdevs uuid = JObj
     (field ''name'' (JStr name) @
      field ''raid_level'' (JStr raidLevel) @
      field ''strip_size_kb'' (jword stripSizeKb) @
      field ''base_bdevs'' (jslice JStr baseBdevs) @
      omitempty ''uuid'' (JStr uuid))"

definition BdevRaidDeleteRequest :: "string \<Rightarrow> json" where
  "BdevRaidDeleteRequest name = JObj
     (field ''name'' (JStr name))"

definition BdevRaidGetBdevsRequest :: "string \<Rightarrow> json" where
  "BdevRaidGetBdevsRequest category = JObj
     (field ''category'' (JStr category))"

definition BdevRaidRemoveBaseBdevRequest :: "string \<Rightarrow> json" where
  "BdevRaidRemoveBaseBdevRequest name = JObj
     (field ''name'' (JStr name))"

definition BdevRaidGrowBaseBdevRequest :: "string \<Rightarrow> string \<Rightarrow> json" where
  "BdevRaidGrowBaseBdevRequest raidName baseName = JObj
     (field ''raid_name'' (JStr raidName) @
      field ''base_name'' (JStr baseName))"

section \<open>nvme.go\<close>

definition BdevNvmeAttachControllerRequest :: "string \<Rightarrow> NvmeTransportID \<Rightarrow> string \<Rightarrow> string \<Rightarrow> string \<Rightarrow> i32 \<Rightarrow> i32 \<Rightarrow> i32 \<Rightarrow> string \<Rightarrow> json" where
  "BdevNvmeAttachControllerRequest name trid hostnqn hostaddr hostsvcid ctrlrLossTimeoutSec reconnectDelaySec fastIOFailTimeoutSec multipath = JObj
     (field ''name'' (JStr name) @
      fields_NvmeTransportID trid @
      omitempty ''hostnqn'' (JStr hostnqn) @
      omitempty ''hostaddr'' (JStr hostaddr) @
      omitempty ''hostsvcid'' (JStr hostsvcid) @
      field ''ctrlr_loss_timeout_sec'' (jsigned ctrlrLossTimeoutSec) @
      field ''reconnect_delay_sec'' (jsigned reconnectDelaySec) @
      field ''fast_io_fail_timeout_sec'' (jsigned fastIOFailTimeoutSec) @
      omitempty ''multipath'' (JStr multipath))"

definition BdevNvmeDetachControllerRequest :: "string \<Rightarrow> NvmeTransportID \<Rightarrow> string \<Rightarrow> string \<Rightarrow> json" where
  "BdevNvmeDetachControllerRequest name trid hostaddr hostsvcid = JObj
     (field ''name'' (JStr name) @
      fields_NvmeTransportID trid @
      omitempty ''hostaddr'' (JStr hostaddr) @
      omitempty ''hostsvcid'' (JStr hostsvcid))"

definition BdevNvmeResetControllerRequest :: "string \<Rightarrow> json" where
  "BdevNvmeResetControllerRequest name = JObj
     (field ''name'' (JStr name))"

definition BdevNvmeSetOptionsRequest :: "i32 \<Rightarrow> i32 \<Rightarrow> i32 \<Rightarrow> i32 \<Rightarrow> i32 \<Rightarrow> json" where
  "BdevNvmeSetOptionsRequest ctrlrLossTimeoutSec reconnectDelaySec fastIOFailTimeoutSec transportAckTimeout keepAliveTimeoutMs = JObj
     (field ''ctrlr_loss_timeout_sec'' (jsigned ctrlrLossTimeoutSec) @
      field ''reconnect_delay_sec'' (jsigned reconnectDelaySec) @
      field ''fast_io_fail_timeout_sec'' (jsigned fastIOFailTimeoutSec) @
      field ''transport_ack_timeout'' (jsigned transportAckTimeout) @
      field ''keep_alive_timeout_ms'' (jsigned keepAliveTimeoutMs))"

definition BdevNvmeGetControllersRequest :: "string \<Rightarrow> json" where
  "BdevNvmeGetControllersRequest name = JObj
     (omitempty ''name'' (JStr name))"

definition BdevNvmeGetControllerHealthInfoRequest :: "string \<Rightarrow> json" where
  "BdevNvmeGetControllerHealthInfoRequest name = JObj
     (field ''name'' (JStr name))"

section \<open>nvmf.go\<close>

definition NvmfCreateTransportRequest :: "string \<Rightarrow> json" where
  "NvmfCreateTransportRequest trtype = JObj
     (field ''trtype'' (JStr trtype))"

definition NvmfGetTransportRequest :: "string \<Rightarrow> string \<Rightarrow> json" where
  "NvmfGetTransportRequest tgtName trtype = JObj
     (omitempty ''tgt_name'' (JStr tgtName) @
      omitempty ''trtype'' (JStr trtype))"

definition NvmfCreateSubsystemRequest :: "string \<Rightarrow> string \<Rightarrow> string \<Rightarrow> string \<Rightarrow> bool \<Rightarrow> bool \<Rightarrow> u32 \<Rightarrow> u16 \<Rightarrow> u16 \<Rightarrow> json" where
  "NvmfCreateSubsystemRequest nqn tgtName serialNumber modelNumber allowAnyHost anaReporting maxNamespaces minCntlid maxCntlid = JObj
     (field ''nqn'' (JStr nqn) @
      omitempty ''tgt_name'' (JStr tgtName) @
      omitempty ''serial_number'' (JStr serialNumber) @
      omitempty ''model_number'' (JStr modelNumber) @
      field ''allow_any_host'' (JBool allowAnyHost) @
      omitempty ''ana_reporting'' (JBool anaReporting) @
      omitempty ''max_namespaces'' (jword maxNamespaces) @
      omitempty ''min_cntlid'' (jword minCntlid) @
      omitempty ''max_cntlid'' (jword maxCntlid))"

definition NvmfDeleteSubsystemRequest :: "string \<Rightarrow> string \<Rightarrow> json" where
  "NvmfDeleteSubsystemRequest nqn tgtName = JObj
     (field ''nqn'' (JStr nqn) @
      omitempty ''tgt_name'' (JStr tgtName))"

definition NvmfGetSubsystemsRequest :: "string \<Rightarrow> string \<Rightarrow> json" where
  "NvmfGetSubsystemsRequest nqn tgtName = JObj
     (omitempty ''nqn'' (JStr nqn) @
      omitempty ''tgt_name'' (JStr tgtName))"

definition NvmfSubsystemAddHostRequest :: "string \<Rightarrow> string \<Rightarrow> string \<Rightarrow> json" where
  "NvmfSubsystemAddHostRequest nqn host tgtName = JObj
     (field ''nqn'' (JStr nqn) @
      field ''host'' (JStr host) @
      omitempty ''tgt_name'' (JStr tgtName))"

definition NvmfSubsystemAddNsRequest :: "string \<Rightarrow> NvmfSubsystemNamespace \<Rightarrow> string \<Rightarrow> json" where
  "NvmfSubsystemAddNsRequest nqn namespace tgtName = JObj
     (field ''nqn'' (JStr nqn) @
      field ''namespace'' (enc_NvmfSubsystemNamespace namespace) @
      omitempty ''tgt_name'' (JStr tgtName))"

definition NvmfSubsystemRemoveNsRequest :: "string \<Rightarrow> u32 \<Rightarrow> string \<Rightarrow> json" where
  "NvmfSubsystemRemoveNsRequest nqn nsid tgtName = JObj
     (field ''nqn'' (JStr nqn) @
      field ''nsid'' (jword nsid) @
      omitempty ''tgt_name'' (JStr tgtName))"

definition NvmfSubsystemAddListenerRequest :: "string \<Rightarrow> NvmfSubsystemListenAddress \<Rightarrow> string \<Rightarrow> json" where
  "NvmfSubsystemAddListenerRequest nqn listenAddress tgtName = JObj
     (field ''nqn'' (JStr nqn) @
      field ''listen_address'' (enc_NvmfSubsystemListenAddress listenAddress) @
      omitempty ''tgt_name'' (JStr tgtName))"

definition NvmfSubsystemRemoveListenerRequest :: "string \<Rightarrow> NvmfSubsystemListenAddress \<Rightarrow> string \<Rightarrow> json" where
  "NvmfSubsystemRemoveListenerRequest nqn listenAddress tgtName = JObj
     (field ''nqn'' (JStr nqn) @
      field ''listen_address'' (enc_NvmfSubsystemListenAddress listenAddress) @
      omitempty ''tgt_name'' (JStr tgtName))"

definition NvmfSubsystemListenerSetANAStateRequest :: "string \<Rightarrow> NvmfSubsystemListenAddress \<Rightarrow> string \<Rightarrow> u32 \<Rightarrow> string \<Rightarrow> json" where
  "NvmfSubsystemListenerSetANAStateRequest nqn listenAddress anaState anaGrpid tgtName = JObj
     (field ''nqn'' (JStr nqn) @
      field ''listen_address'' (enc_NvmfSubsystemListenAddress listenAddress) @
      field ''ana_state'' (JStr anaState) @
      omitempty ''anagrpid'' (jword anaGrpid) @
      omitempty ''tgt_name'' (JStr tgtName))"

definition NvmfSubsystemGetListenersRequest :: "string \<Rightarrow> string \<Rightarrow> json" where
  "NvmfSubsystemGetListenersRequest nqn tgtName = JObj
     (field ''nqn'' (JStr nqn) @
      omitempty ''tgt_name'' (JStr tgtName))"

section \<open>log.go\<close>

definition LogSetFlagRequest :: "string \<Rightarrow> json" where
  "LogSetFlagRequest flag = JObj
     (field ''flag'' (JStr flag))"

definition LogClearFlagRequest :: "string \<Rightarrow> json" where
  "LogClearFlagRequest flag = JObj
     (field ''flag'' (JStr flag))"

definition LogGetFlagsRequest :: "json" where
  "LogGetFlagsRequest = JObj
     ([])"

definition LogSetLevelRequest :: "string \<Rightarrow> json" where
  "LogSetLevelRequest level = JObj
     (field ''level'' (JStr level))"

definition LogGetLevelRequest :: "json" where
  "LogGetLevelRequest = JObj
     ([])"

definition LogSetPrintLevelRequest :: "string \<Rightarrow> json" where
  "LogSetPrintLevelRequest level = JObj
     (field ''level'' (JStr level))"

definition LogGetPrintLevelRequest :: "json" where
  "LogGetPrintLevelRequest = JObj
     ([])"

section \<open>virtio.go\<close>

definition BdevVirtioAttachControllerRequest :: "string \<Rightarrow> string \<Rightarrow> string \<Rightarrow> string \<Rightarrow> json" where
  "BdevVirtioAttachControllerRequest name trtype traddr devType = JObj
     (field ''name'' (JStr name) @
      field ''trtype'' (JStr trtype) @
      field ''traddr'' (JStr traddr) @
      field ''dev_type'' (JStr devType))"

definition BdevVirtioDetachControllerRequest :: "string \<Rightarrow> json" where
  "BdevVirtioDetachControllerRequest name = JObj
     (field ''name'' (JStr name))"

section \<open>ublk.go\<close>

definition UblkCreateTargetRequest :: "string \<Rightarrow> bool \<Rightarrow> json" where
  "UblkCreateTargetRequest cpumask disableUserCopy = JObj
     (omitempty ''cpumask'' (JStr cpumask) @
      field ''disable_user_copy'' (JBool disableUserCopy))"

definition UblkGetDisksRequest :: "i32 \<Rightarrow> json" where
  "UblkGetDisksRequest ublkId = JObj
     (field ''ublk_id'' (jsigned ublkId))"

definition UblkStartDiskRequest :: "string \<Rightarrow> i32 \<Rightarrow> i32 \<Rightarrow> i32 \<Rightarrow> json" where
  "UblkStartDiskRequest bdevName ublkId queueDepth numQueues = JObj
     (field ''bdev_name'' (JStr bdevName) @
      field ''ublk_id'' (jsigned ublkId) @
      field ''queue_depth'' (jsigned queueDepth) @
      field ''num_queues'' (jsigned numQueues))"

definition UblkRecoverDiskRequest :: "string \<Rightarrow> i32 \<Rightarrow> json" where
  "UblkRecoverDiskRequest bdevName ublkId = JObj
     (field ''bdev_name'' (JStr bdevName) @
      field ''ublk_id'' (jsigned ublkId))"

definition UblkStopDiskRequest :: "i32 \<Rightarrow> json" where
  "UblkStopDiskRequest ublkId = JObj
     (field ''ublk_id'' (jsigned ublkId))"

section \<open>ec.go\<close>

definition BdevEcCreateRequest :: "string \<Rightarrow> u32 \<Rightarrow> u32 \<Rightarrow> u32 \<Rightarrow> string list option \<Rightarrow> bool \<Rightarrow> json" where
  "BdevEcCreateRequest name dataChunks parityChunks stripSizeKB baseBdevs salvageRequested = JObj
     (field ''name'' (JStr name) @
      field ''data_chunk_count'' (jword dataChunks) @
      field ''parity_chunk_count'' (jword parityChunks) @
      field ''strip_size_kb'' (jword stripSizeKB) @
      field ''base_bdevs'' (jslice JStr baseBdevs) @
      omitempty ''salvage_requested'' (JBool salvageRequested))"

definition BdevEcDeleteRequest :: "string \<Rightarrow> json" where
  "BdevEcDeleteRequest name = JObj
     (field ''name'' (JStr name))"

definition BdevEcGetBdevsRequest :: "string \<Rightarrow> json" where
  "BdevEcGetBdevsRequest name = JObj
     (omitempty ''name'' (JStr name))"

definition BdevEcReplaceBaseBdevRequest :: "string \<Rightarrow> u32 \<Rightarrow> string \<Rightarrow> json" where
  "BdevEcReplaceBaseBdevRequest name slot newBdevName = JObj
     (field ''ec_name'' (JStr name) @
      field ''slot'' (jword slot) @
      field ''new_bdev_name'' (JStr newBdevName))"

definition BdevEcStartRebuildRequest :: "string \<Rightarrow> json" where
  "BdevEcStartRebuildRequest name = JObj
     (field ''ec_name'' (JStr name))"

definition BdevEcGetRebuildProgressRequest :: "string \<Rightarrow> json" where
  "BdevEcGetRebuildProgressRequest name = JObj
     (field ''ec_name'' (JStr name))"

definition BdevEcStopRebuildRequest :: "string \<Rightarrow> json" where
  "BdevEcStopRebuildRequest name = JObj
     (field ''ec_name'' (JStr name))"

definition BdevEcSetRebuildQosRequest :: "string \<Rightarrow> u32 \<Rightarrow> bool \<Rightarrow> json" where
  "BdevEcSetRebuildQosRequest name maxStripesPerSec paused = JObj
     (field ''ec_name'' (JStr name) @
      field ''max_stripes_per_sec'' (jword maxStripesPerSec) @
      field ''paused'' (JBool paused))"

definition BdevEcResizeRequest :: "string \<Rightarrow> json" where
  "BdevEcResizeRequest name = JObj
     (field ''ec_name'' (JStr name))"

definition BdevEcGetWibStatusRequest :: "string \<Rightarrow> json" where
  "BdevEcGetWibStatusRequest name = JObj
     (field ''ec_name'' (JStr name))"

definition BdevEcGetUnmapStatusRequest :: "string \<Rightarrow> json" where
  "BdevEcGetUnmapStatusRequest name = JObj
     (field ''ec_name'' (JStr name))"

definition BdevEcGetScrubProgressRequest :: "string \<Rightarrow> json" where
  "BdevEcGetScrubProgressRequest name = JObj
     (field ''ec_name'' (JStr name))"

end
