(* ===== verification/SpdkEcTypes.thy ===== *)
theory SpdkEcTypes
  imports JsonRpcTypes
begin

text \<open>
  The structs of \<open>pkg/spdk/types/ec.go\<close> that replies are decoded into. The fields \<open>State\<close> and
  \<open>RebuildState\<close> have no JSON key: they are empty after decoding and filled in by the client.
\<close>

record EcBaseBdev =
  Name :: string
  Slot :: u32
  Role :: string
  State :: string
  NeedsRebuild :: bool

definition dec_EcBaseBdev :: "EcBaseBdev decoder" where
  "dec_EcBaseBdev = dec_fields (\<lambda>kvs.
     get_field ''name'' dec_string kvs (\<lambda>x1.
     get_field ''slot'' dec_word kvs (\<lambda>x2.
     get_field ''role'' dec_string kvs (\<lambda>x3.
     get_field ''state'' dec_string kvs (\<lambda>x4.
     get_field ''needs_rebuild'' dec_bool kvs (\<lambda>x5.
     Inr \<lparr>
       EcBaseBdev.Name = x1, EcBaseBdev.Slot = x2, EcBaseBdev.Role = x3, EcBaseBdev.State = x4,
       EcBaseBdev.NeedsRebuild = x5 \<rparr>))))))"

record BdevEcRebuildProgress =
  EcName :: string
  CurrentSlot :: u32
  CurrentStripe :: u64
  NumStripes :: u64
  StripesRebuilt :: u64
  SlotsToRebuild :: u32
  PercentComplete :: u32
  RebuildState :: string

definition dec_BdevEcRebuildProgress :: "BdevEcRebuildProgress decoder" where
  "dec_BdevEcRebuildProgress = dec_fields (\<lambda>kvs.
     get_field ''ec_name'' dec_string kvs (\<lambda>x1.
     get_field ''current_slot'' dec_word kvs (\<lambda>x2.
     get_field ''current_stripe'' dec_word kvs (\<lambda>x3.
     get_field ''num_stripes'' dec_word kvs (\<lambda>x4.
     get_field ''stripes_rebuilt'' dec_word kvs (\<lambda>x5.
     get_field ''slots_to_rebuild'' dec_word kvs (\<lambda>x6.
     get_field ''percent_complete'' dec_word kvs (\<lambda>x7.
     Inr \<lparr>
       BdevEcRebuildProgress.EcName = x1, BdevEcRebuildProgress.CurrentSlot = x2,
       BdevEcRebuildProgress.CurrentStripe = x3, BdevEcRebuildProgress.NumStripes = x4,
       BdevEcRebuildProgress.StripesRebuilt = x5, BdevEcRebuildProgress.SlotsToRebuild = x6,
       BdevEcRebuildProgress.PercentComplete = x7, BdevEcRebuildProgress.RebuildState = [] \<rparr>))))))))"

record BdevEcInfo =
  Name :: string
  DataChunks :: u32
  ParityChunks :: u32
  TotalChunks :: u32
  StripSizeKB :: u32
  FailedCount :: u32
  Offline :: bool
  ReplaceInProgress :: bool
  RebuildInProgress :: bool
  DirtyStripes :: u64
  RmwInFlight :: u32
  RmwTotal :: u64
  RmwDeferredScrub :: u64
  RmwDeferredDirty :: u64
  RmwDeferredInflight :: u64
  FullStripeWrites :: u64
  FullStripeWritesDeferred :: u64
  UnmapsSubmitted :: u64
  UnmapsCompleted :: u64
  UnmapsDeferredBusy :: u64
  UnmapsViaWriteZeros :: u64
  UnmapsFailed :: u64
  UnmapFanoutMisses :: u64
  UnmappedReadsSynthesized :: u64
  WritesIntoUnmapped :: u64
  WritesIntoUnmappedFailed :: u64
  UnmappedStripes :: u64
  DegradedReadsReconstructed :: u64
  DegradedReadEioDirty :: u64
  RebuildProgress :: "BdevEcRebuildProgress option"
  BaseBdevs :: "EcBaseBdev list"
  State :: string

definition dec_BdevEcInfo :: "BdevEcInfo decoder" where
  "dec_BdevEcInfo = dec_fields (\<lambda>kvs.
     get_field ''name'' dec_string kvs (\<lambda>x1.
     get_field ''k'' dec_word kvs (\<lambda>x2.
     get_field ''m'' dec_word kvs (\<lambda>x3.
     get_field ''n'' dec_word kvs (\<lambda>x4.
     get_field ''strip_size_kb'' dec_word kvs (\<lambda>x5.
     get_field ''failed_count'' dec_word kvs (\<lambda>x6.
     get_field ''offline'' dec_bool kvs (\<lambda>x7.
     get_field ''replace_in_progress'' dec_bool kvs (\<lambda>x8.
     get_field ''rebuild_in_progress'' dec_bool kvs (\<lambda>x9.
     get_field ''dirty_stripes'' dec_word kvs (\<lambda>x10.
     get_field ''rmw_in_flight'' dec_word kvs (\<lambda>x11.
     get_field ''rmw_total'' dec_word kvs (\<lambda>x12.
     get_field ''rmw_deferred_scrub'' dec_word kvs (\<lambda>x13.
     get_field ''rmw_deferred_dirty'' dec_word kvs (\<lambda>x14.
     get_field ''rmw_deferred_inflight'' dec_word kvs (\<lambda>x15.
     get_field ''full_stripe_writes'' dec_word kvs (\<lambda>x16.
     get_field ''full_stripe_writes_deferred'' dec_word kvs (\<lambda>x17.
     get_field ''unmaps_submitted'' dec_word kvs (\<lambda>x18.
     get_field ''unmaps_completed'' dec_word kvs (\<lambda>x19.
     get_field ''unmaps_deferred_busy'' dec_word kvs (\<lambda>x20.
     get_field ''unmaps_via_write_zeros'' dec_word kvs (\<lambda>x21.
     get_field ''unmaps_failed'' dec_word kvs (\<lambda>x22.
     get_field ''unmap_fanout_misses'' dec_word kvs (\<lambda>x23.
     get_field ''unmapped_reads_synthesized'' dec_word kvs (\<lambda>x24.
     get_field ''writes_into_unmapped'' dec_word kvs (\<lambda>x25.
     get_field ''writes_into_unmapped_failed'' dec_word kvs (\<lambda>x26.
     get_field ''unmapped_stripes'' dec_word kvs (\<lambda>x27.
     get_field ''degraded_reads_reconstructed'' dec_word kvs (\<lambda>x28.
     get_field ''degraded_read_eio_dirty'' dec_word kvs (\<lambda>x29.
     get_field ''rebuild_progress'' (dec_ptr dec_BdevEcRebuildProgress) kvs (\<lambda>x30.
     get_field ''base_bdevs'' (dec_list dec_EcBaseBdev) kvs (\<lambda>x31.
     Inr \<lparr>
       BdevEcInfo.Name = x1, BdevEcInfo.DataChunks = x2, BdevEcInfo.ParityChunks = x3,
       BdevEcInfo.TotalChunks = x4, BdevEcInfo.StripSizeKB = x5, BdevEcInfo.FailedCount = x6,
       BdevEcInfo.Offline = x7, BdevEcInfo.ReplaceInProgress = x8, BdevEcInfo.RebuildInProgress = x9,
       BdevEcInfo.DirtyStripes = x10, BdevEcInfo.RmwInFlight = x11, BdevEcInfo.RmwTotal = x12,
       BdevEcInfo.RmwDeferredScrub = x13, BdevEcInfo.RmwDeferredDirty = x14,
       BdevEcInfo.RmwDeferredInflight = x15, BdevEcInfo.FullStripeWrites = x16,
       BdevEcInfo.FullStripeWritesDeferred = x17, BdevEcInfo.UnmapsSubmitted = x18,
       BdevEcInfo.UnmapsCompleted = x19, BdevEcInfo.UnmapsDeferredBusy = x20,
       BdevEcInfo.UnmapsViaWriteZeros = x21, BdevEcInfo.UnmapsFailed = x22,
       BdevEcInfo.UnmapFanoutMisses = x23, BdevEcInfo.UnmappedReadsSynthesized = x24,
       BdevEcInfo.WritesIntoUnmapped = x25, BdevEcInfo.WritesIntoUnmappedFailed = x26,
       BdevEcInfo.UnmappedStripes = x27, BdevEcInfo.DegradedReadsReconstructed = x28,
       BdevEcInfo.DegradedReadEioDirty = x29, BdevEcInfo.RebuildProgress = x30,
       BdevEcInfo.BaseBdevs = x31, BdevEcInfo.State = [] \<rparr>))))))))))))))))))))))))))))))))"

record BdevEcReplaceBaseBdevResponse =
  EcName :: string
  Slot :: u32
  NewBdevName :: string
  State :: string
  NeedsRebuild :: bool

definition dec_BdevEcReplaceBaseBdevResponse :: "BdevEcReplaceBaseBdevResponse decoder" where
  "dec_BdevEcReplaceBaseBdevResponse = dec_fields (\<lambda>kvs.
     get_field ''ec_name'' dec_string kvs (\<lambda>x1.
     get_field ''slot'' dec_word kvs (\<lambda>x2.
     get_field ''new_bdev_name'' dec_string kvs (\<lambda>x3.
     get_field ''state'' dec_string kvs (\<lambda>x4.
     get_field ''needs_rebuild'' dec_bool kvs (\<lambda>x5.
     Inr \<lparr>
       BdevEcReplaceBaseBdevResponse.EcName = x1, BdevEcReplaceBaseBdevResponse.Slot = x2,
       BdevEcReplaceBaseBdevResponse.NewBdevName = x3, BdevEcReplaceBaseBdevResponse.State = x4,
       BdevEcReplaceBaseBdevResponse.NeedsRebuild = x5 \<rparr>))))))"

record BdevEcStartRebuildResponse =
  EcName :: string
  NumStripes :: u64
  FirstSlot :: u32

definition dec_BdevEcStartRebuildResponse :: "BdevEcStartRebuildResponse decoder" where
  "dec_BdevEcStartRebuildResponse = dec_fields (\<lambda>kvs.
     get_field ''ec_name'' dec_string kvs (\<lambda>x1.
     get_field ''num_stripes'' dec_word kvs (\<lambda>x2.
     get_field ''first_slot'' dec_word kvs (\<lambda>x3.
     Inr \<lparr>
       BdevEcStartRebuildResponse.EcName = x1, BdevEcStartRebuildResponse.NumStripes = x2,
       BdevEcStartRebuildResponse.FirstSlot = x3 \<rparr>))))"

record BdevEcResizeResponse =
  EcName :: string
  OldBlockcnt :: u64
  NewBlockcnt :: u64
  Resized :: bool

definition dec_BdevEcResizeResponse :: "BdevEcResizeResponse decoder" where
  "dec_BdevEcResizeResponse = dec_fields (\<lambda>kvs.
     get_field ''ec_name'' dec_string kvs (\<lambda>x1.
     get_field ''old_blockcnt'' dec_word kvs (\<lambda>x2.
     get_field ''new_blockcnt'' dec_word kvs (\<lambda>x3.
     get_field ''resized'' dec_bool kvs (\<lambda>x4.
     Inr \<lparr>
       BdevEcResizeResponse.EcName = x1, BdevEcResizeResponse.OldBlockcnt = x2,
       BdevEcResizeResponse.NewBlockcnt = x3, BdevEcResizeResponse.Resized = x4 \<rparr>)))))"

record BdevEcWibStatus =
  EcName :: string
  NumRegions :: u32
  DirtyRegions :: u32
  Generation :: u64
  PersistPending :: bool

definition dec_BdevEcWibStatus :: "BdevEcWibStatus decoder" where
  "dec_BdevEcWibStatus = dec_fields (\<lambda>kvs.
     get_field ''ec_name'' dec_string kvs (\<lambda>x1.
     get_field ''num_regions'' dec_word kvs (\<lambda>x2.
     get_field ''dirty_regions'' dec_word kvs (\<lambda>x3.
     get_field ''generation'' dec_word kvs (\<lambda>x4.
     get_field ''persist_pending'' dec_bool kvs (\<lambda>x5.
     Inr \<lparr>
       BdevEcWibStatus.EcName = x1, BdevEcWibStatus.NumRegions = x2, BdevEcWibStatus.DirtyRegions = x3,
       BdevEcWibStatus.Generation = x4, BdevEcWibStatus.PersistPending = x5 \<rparr>))))))"

record BdevEcUnmapStatus =
  EcName :: string
  NumStripes :: u64
  UnmappedStripes :: u64
  BlobBytes :: u64
  Generation :: u64
  ActiveCopy :: u32
  PersistPending :: bool

definition dec_BdevEcUnmapStatus :: "BdevEcUnmapStatus decoder" where
  "dec_BdevEcUnmapStatus = dec_fields (\<lambda>kvs.
     get_field ''ec_name'' dec_string kvs (\<lambda>x1.
     get_field ''num_stripes'' dec_word kvs (\<lambda>x2.
     get_field ''unmapped_stripes'' dec_word kvs (\<lambda>x3.
     get_field ''blob_bytes'' dec_word kvs (\<lambda>x4.
     get_field ''generation'' dec_word kvs (\<lambda>x5.
     get_field ''active_copy'' dec_word kvs (\<lambda>x6.
     get_field ''persist_pending'' dec_bool kvs (\<lambda>x7.
     Inr \<lparr>
       BdevEcUnmapStatus.EcName = x1, BdevEcUnmapStatus.NumStripes = x2,
       BdevEcUnmapStatus.UnmappedStripes = x3, BdevEcUnmapStatus.BlobBytes = x4,
       BdevEcUnmapStatus.Generation = x5, BdevEcUnmapStatus.ActiveCopy = x6,
       BdevEcUnmapStatus.PersistPending = x7 \<rparr>))))))))"

record BdevEcScrubProgress =
  EcName :: string
  CurrentRegion :: u32
  NumRegions :: u32
  TotalDirtyRegions :: u32
  CurrentStripe :: u64
  StripesScrubbed :: u64
  RegionsScrubbed :: u64
  PercentComplete :: u32

definition dec_BdevEcScrubProgress :: "BdevEcScrubProgress decoder" where
  "dec_BdevEcScrubProgress = dec_fields (\<lambda>kvs.
     get_field ''ec_name'' dec_string kvs (\<lambda>x1.
     get_field ''current_region'' dec_word kvs (\<lambda>x2.
     get_field ''num_regions'' dec_word kvs (\<lambda>x3.
     get_field ''total_dirty_regions'' dec_word kvs (\<lambda>x4.
     get_field ''current_stripe'' dec_word kvs (\<lambda>x5.
     get_field ''stripes_scrubbed'' dec_word kvs (\<lambda>x6.
     get_field ''regions_scrubbed'' dec_word kvs (\<lambda>x7.
     get_field ''percent_complete'' dec_word kvs (\<lambda>x8.
     Inr \<lparr>
       BdevEcScrubProgress.EcName = x1, BdevEcScrubProgress.CurrentRegion = x2,
       BdevEcScrubProgress.NumRegions = x3, BdevEcScrubProgress.TotalDirtyRegions = x4,
       BdevEcScrubProgress.CurrentStripe = x5, BdevEcScrubProgress.StripesScrubbed = x6,
       BdevEcScrubProgress.RegionsScrubbed = x7, BdevEcScrubProgress.PercentComplete = x8 \<rparr>)))))))))"

end
