(* ===== verification/SpdkBdevTypes.thy ===== *)
theory SpdkBdevTypes
  imports SpdkNvmeTypes SpdkEcTypes
begin

text \<open>
  The structs of \<open>pkg/spdk/types/aio.go\<close>, \<open>lvol.go\<close>, \<open>raid.go\<close> and \<open>bdev.go\<close> that replies are decoded
  into. \<open>BdevInfo\<close> embeds \<open>BdevInfoBasic\<close>: it extends that record.
\<close>

record BdevDriverSpecificAio =
  FileName :: string
  ReadOnly :: bool
  BlockSizeOverride :: bool

definition dec_BdevDriverSpecificAio :: "BdevDriverSpecificAio decoder" where
  "dec_BdevDriverSpecificAio = dec_fields (\<lambda>kvs.
     get_field ''filename'' dec_string kvs (\<lambda>x1.
     get_field ''readonly'' dec_bool kvs (\<lambda>x2.
     get_field ''block_size_override'' dec_bool kvs (\<lambda>x3.
     Inr \<lparr>
       BdevDriverSpecificAio.FileName = x1, BdevDriverSpecificAio.ReadOnly = x2,
       BdevDriverSpecificAio.BlockSizeOverride = x3 \<rparr>))))"

record BdevDriverSpecificLvol =
  LvolStoreUUID :: string
  BaseBdev :: string
  BaseSnapshot :: string
  ThinProvision :: bool
  NumAllocatedClusters :: u64
  Snapshot :: bool
  Clone :: bool
  Clones :: "string list"
  Xattrs :: "(string \<rightharpoonup> string)"

definition dec_BdevDriverSpecificLvol :: "BdevDriverSpecificLvol decoder" where
  "dec_BdevDriverSpecificLvol = dec_fields (\<lambda>kvs.
     get_field ''lvol_store_uuid'' dec_string kvs (\<lambda>x1.
     get_field ''base_bdev'' dec_string kvs (\<lambda>x2.
     get_field ''base_snapshot'' dec_string kvs (\<lambda>x3.
     get_field ''thin_provision'' dec_bool kvs (\<lambda>x4.
     get_field ''num_allocated_clusters'' dec_word kvs (\<lambda>x5.
     get_field ''snapshot'' dec_bool kvs (\<lambda>x6.
     get_field ''clone'' dec_bool kvs (\<lambda>x7.
     get_field ''clones'' (dec_list dec_string) kvs (\<lambda>x8.
     get_field ''xattrs'' (dec_map dec_string) kvs (\<lambda>x9.
     Inr \<lparr>
       BdevDriverSpecificLvol.LvolStoreUUID = x1, BdevDriverSpecificLvol.BaseBdev = x2,
       BdevDriverSpecificLvol.BaseSnapshot = x3, BdevDriverSpecificLvol.ThinProvision = x4,
       BdevDriverSpecificLvol.NumAllocatedClusters = x5, BdevDriverSpecificLvol.Snapshot = x6,
       BdevDriverSpecificLvol.Clone = x7, BdevDriverSpecificLvol.Clones = x8,
       BdevDriverSpecificLvol.Xattrs = x9 \<rparr>))))))))))"

record BaseBdev =
  Name :: string
  UUID :: string
  IsConfigured :: bool
  DataOffset :: u64
  DataSize :: u64

definition dec_BaseBdev :: "BaseBdev decoder" where
  "dec_BaseBdev = dec_fields (\<lambda>kvs.
     get_field ''name'' dec_string kvs (\<lambda>x1.
     get_field ''uuid'' dec_string kvs (\<lambda>x2.
     get_field ''is_configured'' dec_bool kvs (\<lambda>x3.
     get_field ''data_offset'' dec_word kvs (\<lambda>x4.
     get_field ''data_size'' dec_word kvs (\<lambda>x5.
     Inr \<lparr>
       BaseBdev.Name = x1, BaseBdev.UUID = x2, BaseBdev.IsConfigured = x3, BaseBdev.DataOffset = x4,
       BaseBdev.DataSize = x5 \<rparr>))))))"

record BdevRaidInfo =
  Name :: string
  StripSizeKb :: u32
  State :: string
  RaidLevel :: string
  NumBaseBdevs :: "8 word"
  NumBaseBdevsDiscovered :: "8 word"
  NumBaseBdevsOperational :: "8 word"
  BaseBdevsList :: "BaseBdev list"
  Superblock :: bool

definition dec_BdevRaidInfo :: "BdevRaidInfo decoder" where
  "dec_BdevRaidInfo = dec_fields (\<lambda>kvs.
     get_field ''name'' dec_string kvs (\<lambda>x1.
     get_field ''strip_size_kb'' dec_word kvs (\<lambda>x2.
     get_field ''state'' dec_string kvs (\<lambda>x3.
     get_field ''raid_level'' dec_string kvs (\<lambda>x4.
     get_field ''num_base_bdevs'' dec_word kvs (\<lambda>x5.
     get_field ''num_base_bdevs_discovered'' dec_word kvs (\<lambda>x6.
     get_field ''num_base_bdevs_operational'' dec_word kvs (\<lambda>x7.
     get_field ''base_bdevs_list'' (dec_list dec_BaseBdev) kvs (\<lambda>x8.
     get_field ''superblock'' dec_bool kvs (\<lambda>x9.
     Inr \<lparr>
       BdevRaidInfo.Name = x1, BdevRaidInfo.StripSizeKb = x2, BdevRaidInfo.State = x3,
       BdevRaidInfo.RaidLevel = x4, BdevRaidInfo.NumBaseBdevs = x5,
       BdevRaidInfo.NumBaseBdevsDiscovered = x6, BdevRaidInfo.NumBaseBdevsOperational = x7,
       BdevRaidInfo.BaseBdevsList = x8, BdevRaidInfo.Superblock = x9 \<rparr>))))))))))"

record AssignedRateLimits =
  RwIosPerSec :: u64
  RwMbytesPerSec :: u64
  RMbytesPerSec :: u64
  WMbytesPerSec :: u64

definition dec_AssignedRateLimits :: "AssignedRateLimits decoder" where
  "dec_AssignedRateLimits = dec_fields (\<lambda>kvs.
     get_field ''rw_ios_per_sec'' dec_word kvs (\<lambda>x1.
     get_field ''rw_mbytes_per_sec'' dec_word kvs (\<lambda>x2.
     get_field ''r_mbytes_per_sec'' dec_word kvs (\<lambda>x3.
     get_field ''w_mbytes_per_sec'' dec_word kvs (\<lambda>x4.
     Inr \<lparr>
       AssignedRateLimits.RwIosPerSec = x1, AssignedRateLimits.RwMbytesPerSec = x2,
       AssignedRateLimits.RMbytesPerSec = x3, AssignedRateLimits.WMbytesPerSec = x4 \<rparr>)))))"

record SupportedIoTypes =
  Read :: bool
  Write :: bool
  Unmap :: bool
  WriteZeroes :: bool
  Flush :: bool
  Reset :: bool
  Compare :: bool
  CompareAndWrite :: bool
  Abort :: bool
  NvmeAdmin :: bool
  NvmeIo :: bool

definition dec_SupportedIoTypes :: "SupportedIoTypes decoder" where
  "dec_SupportedIoTypes = dec_fields (\<lambda>kvs.
     get_field ''read'' dec_bool kvs (\<lambda>x1.
     get_field ''write'' dec_bool kvs (\<lambda>x2.
     get_field ''unmap'' dec_bool kvs (\<lambda>x3.
     get_field ''write_zeroes'' dec_bool kvs (\<lambda>x4.
     get_field ''flush'' dec_bool kvs (\<lambda>x5.
     get_field ''reset'' dec_bool kvs (\<lambda>x6.
     get_field ''compare'' dec_bool kvs (\<lambda>x7.
     get_field ''compare_and_write'' dec_bool kvs (\<lambda>x8.
     get_field ''abort'' dec_bool kvs (\<lambda>x9.
     get_field ''nvme_admin'' dec_bool kvs (\<lambda>x10.
     get_field ''nvme_io'' dec_bool kvs (\<lambda>x11.
     Inr \<lparr>
       SupportedIoTypes.Read = x1, SupportedIoTypes.Write = x2, SupportedIoTypes.Unmap = x3,
       SupportedIoTypes.WriteZeroes = x4, SupportedIoTypes.Flush = x5, SupportedIoTypes.Reset = x6,
       SupportedIoTypes.Compare = x7, SupportedIoTypes.CompareAndWrite = x8, SupportedIoTypes.Abort = x9,
       SupportedIoTypes.NvmeAdmin = x10, SupportedIoTypes.NvmeIo = x11 \<rparr>))))))))))))"

record BdevDriverSpecific =
  Aio :: "BdevDriverSpecificAio option"
  Lvol :: "BdevDriverSpecificLvol option"
  Raid :: "BdevRaidInfo option"
  Nvme :: "NvmeNamespaceInfo list option"
  MpPolicy :: string
  Ec :: "BdevEcInfo option"

definition dec_BdevDriverSpecific :: "BdevDriverSpecific decoder" where
  "dec_BdevDriverSpecific = dec_fields (\<lambda>kvs.
     get_field ''aio'' (dec_ptr dec_BdevDriverSpecificAio) kvs (\<lambda>x1.
     get_field ''lvol'' (dec_ptr dec_BdevDriverSpecificLvol) kvs (\<lambda>x2.
     get_field ''raid'' (dec_ptr dec_BdevRaidInfo) kvs (\<lambda>x3.
     get_field ''nvme'' (dec_ptr (dec_list dec_NvmeNamespaceInfo)) kvs (\<lambda>x4.
     get_field ''mp_policy'' dec_string kvs (\<lambda>x5.
     get_field ''ec'' (dec_ptr dec_BdevEcInfo) kvs (\<lambda>x6.
     Inr \<lparr>
       BdevDriverSpecific.Aio = x1, BdevDriverSpecific.Lvol = x2, BdevDriverSpecific.Raid = x3,
       BdevDriverSpecific.Nvme = x4, BdevDriverSpecific.MpPolicy = x5, BdevDriverSpecific.Ec = x6 \<rparr>)))))))"

record DifCheckTypes =
  Reftag :: bool
  Apptag :: bool
  Guard :: bool

definition dec_DifCheckTypes :: "DifCheckTypes decoder" where
  "dec_DifCheckTypes = dec_fields (\<lambda>kvs.
     get_field ''reftag'' dec_bool kvs (\<lambda>x1.
     get_field ''apptag'' dec_bool kvs (\<lambda>x2.
     get_field ''guard'' dec_bool kvs (\<lambda>x3.
     Inr \<lparr>
       DifCheckTypes.Reftag = x1, DifCheckTypes.Apptag = x2, DifCheckTypes.Guard = x3 \<rparr>))))"

record MemoryDomain =
  DmaDeviceID :: string
  DmaDeviceType :: i32

definition dec_MemoryDomain :: "MemoryDomain decoder" where
  "dec_MemoryDomain = dec_fields (\<lambda>kvs.
     get_field ''dma_device_id'' dec_string kvs (\<lambda>x1.
     get_field ''dma_device_type'' dec_signed kvs (\<lambda>x2.
     Inr \<lparr>
       MemoryDomain.DmaDeviceID = x1, MemoryDomain.DmaDeviceType = x2 \<rparr>)))"

record BdevInfoBasic =
  Name :: string
  Aliases :: "string list"
  ProductName :: string
  BlockSize :: u32
  NumBlocks :: u64
  UUID :: string
  CreationTime :: string
  MdSize :: u32
  MdInterleave :: bool
  DifType :: u32
  DifIsHeadOfMd :: bool
  EnabledDifCheckTypes :: "DifCheckTypes option"
  AssignedRateLimits :: AssignedRateLimits
  Claimed :: bool
  ClaimType :: string
  Zoned :: bool
  ZoneSize :: u64
  MaxOpenZones :: u64
  OptimalOpenZones :: u64
  SupportedIoTypes :: SupportedIoTypes
  MemoryDomains :: "MemoryDomain list"

definition dec_BdevInfoBasic :: "BdevInfoBasic decoder" where
  "dec_BdevInfoBasic = dec_fields (\<lambda>kvs.
     get_field ''name'' dec_string kvs (\<lambda>x1.
     get_field ''aliases'' (dec_list dec_string) kvs (\<lambda>x2.
     get_field ''product_name'' dec_string kvs (\<lambda>x3.
     get_field ''block_size'' dec_word kvs (\<lambda>x4.
     get_field ''num_blocks'' dec_word kvs (\<lambda>x5.
     get_field ''uuid'' dec_string kvs (\<lambda>x6.
     get_field ''creation_time'' dec_string kvs (\<lambda>x7.
     get_field ''md_size'' dec_word kvs (\<lambda>x8.
     get_field ''md_interleave'' dec_bool kvs (\<lambda>x9.
     get_field ''dif_type'' dec_word kvs (\<lambda>x10.
     get_field ''dif_is_head_of_md'' dec_bool kvs (\<lambda>x11.
     get_field ''enabled_dif_check_types'' (dec_ptr dec_DifCheckTypes) kvs (\<lambda>x12.
     get_field ''assigned_rate_limits'' dec_AssignedRateLimits kvs (\<lambda>x13.
     get_field ''claimed'' dec_bool kvs (\<lambda>x14.
     get_field ''claim_type'' dec_string kvs (\<lambda>x15.
     get_field ''zoned'' dec_bool kvs (\<lambda>x16.
     get_field ''zone_size'' dec_word kvs (\<lambda>x17.
     get_field ''max_open_zones'' dec_word kvs (\<lambda>x18.
     get_field ''optimal_open_zones'' dec_word kvs (\<lambda>x19.
     get_field ''supported_io_types'' dec_SupportedIoTypes kvs (\<lambda>x20.
     get_field ''memory_domains'' (dec_list dec_MemoryDomain) kvs (\<lambda>x21.
     Inr \<lparr>
       BdevInfoBasic.Name = x1, BdevInfoBasic.Aliases = x2, BdevInfoBasic.ProductName = x3,
       BdevInfoBasic.BlockSize = x4, BdevInfoBasic.NumBlocks = x5, BdevInfoBasic.UUID = x6,
       BdevInfoBasic.CreationTime = x7, BdevInfoBasic.MdSize = x8, BdevInfoBasic.MdInterleave = x9,
       BdevInfoBasic.DifType = x10, BdevInfoBasic.DifIsHeadOfMd = x11,
       BdevInfoBasic.EnabledDifCheckTypes = x12, BdevInfoBasic.AssignedRateLimits = x13,
       BdevInfoBasic.Claimed = x14, BdevInfoBasic.ClaimType = x15, BdevInfoBasic.Zoned = x16,
       BdevInfoBasic.ZoneSize = x17, BdevInfoBasic.MaxOpenZones = x18,
       BdevInfoBasic.OptimalOpenZones = x19, BdevInfoBasic.SupportedIoTypes = x20,
       BdevInfoBasic.MemoryDomains = x21 \<rparr>))))))))))))))))))))))"

record BdevInfo = BdevInfoBasic +
  DriverSpecific :: "BdevDriverSpecific option"

definition dec_BdevInfo :: "BdevInfo decoder" where
  "dec_BdevInfo = dec_fields (\<lambda>kvs.
     get_field ''name'' dec_string kvs (\<lambda>x1.
     get_field ''aliases'' (dec_list dec_string) kvs (\<lambda>x2.
     get_field ''product_name'' dec_string kvs (\<lambda>x3.
     get_field ''block_size'' dec_word kvs (\<lambda>x4.
     get_field ''num_blocks'' dec_word kvs (\<lambda>x5.
     get_field ''uuid'' dec_string kvs (\<lambda>x6.
     get_field ''creation_time'' dec_string kvs (\<lambda>x7.
     get_field ''md_size'' dec_word kvs (\<lambda>x8.
     get_field ''md_interleave'' dec_bool kvs (\<lambda>x9.
     get_field ''dif_type'' dec_word kvs (\<lambda>x10.
     get_field ''dif_is_head_of_md'' dec_bool kvs (\<lambda>x11.
     get_field ''enabled_dif_check_types'' (dec_ptr dec_DifCheckTypes) kvs (\<lambda>x12.
     get_field ''assigned_rate_limits'' dec_AssignedRateLimits kvs (\<lambda>x13.
     get_field ''claimed'' dec_bool kvs (\<lambda>x14.
     get_field ''claim_type'' dec_string kvs (\<lambda>x15.
     get_field ''zoned'' dec_bool kvs (\<lambda>x16.
     get_field ''zone_size'' dec_word kvs (\<lambda>x17.
     get_field ''max_open_zones'' dec_word kvs (\<lambda>x18.
     get_field ''optimal_open_zones'' dec_word kvs (\<lambda>x19.
     get_field ''supported_io_types'' dec_SupportedIoTypes kvs (\<lambda>x20.
     get_field ''memory_domains'' (dec_list dec_MemoryDomain) kvs (\<lambda>x21.
     get_field ''driver_specific'' (dec_ptr dec_BdevDriverSpecific) kvs (\<lambda>x22.
     Inr \<lparr>
       BdevInfoBasic.Name = x1, BdevInfoBasic.Aliases = x2, BdevInfoBasic.ProductName = x3,
       BdevInfoBasic.BlockSize = x4, BdevInfoBasic.NumBlocks = x5, BdevInfoBasic.UUID = x6,
       BdevInfoBasic.CreationTime = x7, BdevInfoBasic.MdSize = x8, BdevInfoBasic.MdInterleave = x9,
       BdevInfoBasic.DifType = x10, BdevInfoBasic.DifIsHeadOfMd = x11,
       BdevInfoBasic.EnabledDifCheckTypes = x12, BdevInfoBasic.AssignedRateLimits = x13,
       BdevInfoBasic.Claimed = x14, BdevInfoBasic.ClaimType = x15, BdevInfoBasic.Zoned = x16,
       BdevInfoBasic.ZoneSize = x17, BdevInfoBasic.MaxOpenZones = x18,
       BdevInfoBasic.OptimalOpenZones = x19, BdevInfoBasic.SupportedIoTypes = x20,
       BdevInfoBasic.MemoryDomains = x21, BdevInfo.DriverSpecific = x22 \<rparr>)))))))))))))))))))))))"

record BdevStats =
  Name :: string
  BytesRead :: u64
  NumReadOps :: u64
  BytesWritten :: u64
  NumWriteOps :: u64
  BytesUnmapped :: u64
  NumUnmapOps :: u64
  ReadLatencyTicks :: u64
  WriteLatencyTicks :: u64
  UnmapLatencyTicks :: u64
  QueueDepth :: u64
  IoTime :: u64
  WeightedIoTime :: u64

definition dec_BdevStats :: "BdevStats decoder" where
  "dec_BdevStats = dec_fields (\<lambda>kvs.
     get_field ''name'' dec_string kvs (\<lambda>x1.
     get_field ''bytes_read'' dec_word kvs (\<lambda>x2.
     get_field ''num_read_ops'' dec_word kvs (\<lambda>x3.
     get_field ''bytes_written'' dec_word kvs (\<lambda>x4.
     get_field ''num_write_ops'' dec_word kvs (\<lambda>x5.
     get_field ''bytes_unmapped'' dec_word kvs (\<lambda>x6.
     get_field ''num_unmap_ops'' dec_word kvs (\<lambda>x7.
     get_field ''read_latency_ticks'' dec_word kvs (\<lambda>x8.
     get_field ''write_latency_ticks'' dec_word kvs (\<lambda>x9.
     get_field ''unmap_latency_ticks'' dec_word kvs (\<lambda>x10.
     get_field ''queue_depth'' dec_word kvs (\<lambda>x11.
     get_field ''io_time'' dec_word kvs (\<lambda>x12.
     get_field ''weighted_io_time'' dec_word kvs (\<lambda>x13.
     Inr \<lparr>
       BdevStats.Name = x1, BdevStats.BytesRead = x2, BdevStats.NumReadOps = x3,
       BdevStats.BytesWritten = x4, BdevStats.NumWriteOps = x5, BdevStats.BytesUnmapped = x6,
       BdevStats.NumUnmapOps = x7, BdevStats.ReadLatencyTicks = x8, BdevStats.WriteLatencyTicks = x9,
       BdevStats.UnmapLatencyTicks = x10, BdevStats.QueueDepth = x11, BdevStats.IoTime = x12,
       BdevStats.WeightedIoTime = x13 \<rparr>))))))))))))))"

record BdevIostatResponse =
  TickRate :: u64
  Ticks :: u64
  Bdevs :: "BdevStats list"

definition dec_BdevIostatResponse :: "BdevIostatResponse decoder" where
  "dec_BdevIostatResponse = dec_fields (\<lambda>kvs.
     get_field ''tick_rate'' dec_word kvs (\<lambda>x1.
     get_field ''ticks'' dec_word kvs (\<lambda>x2.
     get_field ''bdevs'' (dec_list dec_BdevStats) kvs (\<lambda>x3.
     Inr \<lparr>
       BdevIostatResponse.TickRate = x1, BdevIostatResponse.Ticks = x2, BdevIostatResponse.Bdevs = x3 \<rparr>))))"

record BdevLvolFragmap =
  ClusterSize :: u64
  NumClusters :: u64
  NumAllocatedClusters :: u64
  Fragmap :: string

definition dec_BdevLvolFragmap :: "BdevLvolFragmap decoder" where
  "dec_BdevLvolFragmap = dec_fields (\<lambda>kvs.
     get_field ''cluster_size'' dec_word kvs (\<lambda>x1.
     get_field ''num_clusters'' dec_word kvs (\<lambda>x2.
     get_field ''num_allocated_clusters'' dec_word kvs (\<lambda>x3.
     get_field ''fragmap'' dec_string kvs (\<lambda>x4.
     Inr \<lparr>
       BdevLvolFragmap.ClusterSize = x1, BdevLvolFragmap.NumClusters = x2,
       BdevLvolFragmap.NumAllocatedClusters = x3, BdevLvolFragmap.Fragmap = x4 \<rparr>)))))"

record LvstoreInfo =
  UUID :: string
  Name :: string
  BaseBdev :: string
  TotalDataClusters :: u64
  FreeClusters :: u64
  BlockSize :: u64
  ClusterSize :: u64

definition dec_LvstoreInfo :: "LvstoreInfo decoder" where
  "dec_LvstoreInfo = dec_fields (\<lambda>kvs.
     get_field ''uuid'' dec_string kvs (\<lambda>x1.
     get_field ''name'' dec_string kvs (\<lambda>x2.
     get_field ''base_bdev'' dec_string kvs (\<lambda>x3.
     get_field ''total_data_clusters'' dec_word kvs (\<lambda>x4.
     get_field ''free_clusters'' dec_word kvs (\<lambda>x5.
     get_field ''block_size'' dec_word kvs (\<lambda>x6.
     get_field ''cluster_size'' dec_word kvs (\<lambda>x7.
     Inr \<lparr>
       LvstoreInfo.UUID = x1, LvstoreInfo.Name = x2, LvstoreInfo.BaseBdev = x3,
       LvstoreInfo.TotalDataClusters = x4, LvstoreInfo.FreeClusters = x5, LvstoreInfo.BlockSize = x6,
       LvstoreInfo.ClusterSize = x7 \<rparr>))))))))"

record LvolInfoLvs =
  Name :: string
  UUID :: string

definition dec_LvolInfoLvs :: "LvolInfoLvs decoder" where
  "dec_LvolInfoLvs = dec_fields (\<lambda>kvs.
     get_field ''name'' dec_string kvs (\<lambda>x1.
     get_field ''uuid'' dec_string kvs (\<lambda>x2.
     Inr \<lparr>
       LvolInfoLvs.Name = x1, LvolInfoLvs.UUID = x2 \<rparr>)))"

record LvolInfo =
  Alias :: string
  UUID :: string
  Name :: string
  IsThinProvisioned :: bool
  IsSnapshot :: bool
  IsClone :: bool
  IsEsnapClone :: bool
  IsDegraded :: bool
  Lvs :: LvolInfoLvs

definition dec_LvolInfo :: "LvolInfo decoder" where
  "dec_LvolInfo = dec_fields (\<lambda>kvs.
     get_field ''alias'' dec_string kvs (\<lambda>x1.
     get_field ''uuid'' dec_string kvs (\<lambda>x2.
     get_field ''name'' dec_string kvs (\<lambda>x3.
     get_field ''is_thin_provisioned'' dec_bool kvs (\<lambda>x4.
     get_field ''is_snapshot'' dec_bool kvs (\<lambda>x5.
     get_field ''is_clone'' dec_bool kvs (\<lambda>x6.
     get_field ''is_esnap_clone'' dec_bool kvs (\<lambda>x7.
     get_field ''is_degraded'' dec_bool kvs (\<lambda>x8.
     get_field ''lvs'' dec_LvolInfoLvs kvs (\<lambda>x9.
     Inr \<lparr>
       LvolInfo.Alias = x1, LvolInfo.UUID = x2, LvolInfo.Name = x3, LvolInfo.IsThinProvisioned = x4,
       LvolInfo.IsSnapshot = x5, LvolInfo.IsClone = x6, LvolInfo.IsEsnapClone = x7,
       LvolInfo.IsDegraded = x8, LvolInfo.Lvs = x9 \<rparr>))))))))))"

record ShallowCopy =
  OperationId :: u32

definition dec_ShallowCopy :: "ShallowCopy decoder" where
  "dec_ShallowCopy = dec_fields (\<lambda>kvs.
     get_field ''operation_id'' dec_word kvs (\<lambda>x1.
     Inr \<lparr>
       ShallowCopy.OperationId = x1 \<rparr>))"

record ShallowCopyStatus =
  State :: string
  CopiedClusters :: u64
  UnmappedClusters :: u64
  TotalClusters :: u64
  Error :: string

definition dec_ShallowCopyStatus :: "ShallowCopyStatus decoder" where
  "dec_ShallowCopyStatus = dec_fields (\<lambda>kvs.
     get_field ''state'' dec_string kvs (\<lambda>x1.
     get_field ''copied_clusters'' dec_word kvs (\<lambda>x2.
     get_field ''unmapped_clusters'' dec_word kvs (\<lambda>x3.
     get_field ''total_clusters'' dec_word kvs (\<lambda>x4.
     get_field ''error'' dec_string kvs (\<lambda>x5.
     Inr \<lparr>
       ShallowCopyStatus.State = x1, ShallowCopyStatus.CopiedClusters = x2,
       ShallowCopyStatus.UnmappedClusters = x3, ShallowCopyStatus.TotalClusters = x4,
       ShallowCopyStatus.Error = x5 \<rparr>))))))"

record DeepCopy =
  OperationId :: u32

definition dec_DeepCopy :: "DeepCopy decoder" where
  "dec_DeepCopy = dec_fields (\<lambda>kvs.
     get_field ''operation_id'' dec_word kvs (\<lambda>x1.
     Inr \<lparr>
       DeepCopy.OperationId = x1 \<rparr>))"

record DeepCopyStatus =
  State :: string
  ProcessedClusters :: u64
  TotalClusters :: u64
  Error :: string

definition dec_DeepCopyStatus :: "DeepCopyStatus decoder" where
  "dec_DeepCopyStatus = dec_fields (\<lambda>kvs.
     get_field ''state'' dec_string kvs (\<lambda>x1.
     get_field ''processed_clusters'' dec_word kvs (\<lambda>x2.
     get_field ''total_clusters'' dec_word kvs (\<lambda>x3.
     get_field ''error'' dec_string kvs (\<lambda>x4.
     Inr \<lparr>
       DeepCopyStatus.State = x1, DeepCopyStatus.ProcessedClusters = x2,
       DeepCopyStatus.TotalClusters = x3, DeepCopyStatus.Error = x4 \<rparr>)))))"

record BdevLvolSnapshotChecksum =
  Checksum :: u64

definition dec_BdevLvolSnapshotChecksum :: "BdevLvolSnapshotChecksum decoder" where
  "dec_BdevLvolSnapshotChecksum = dec_fields (\<lambda>kvs.
     get_field ''checksum'' dec_word kvs (\<lambda>x1.
     Inr \<lparr>
       BdevLvolSnapshotChecksum.Checksum = x1 \<rparr>))"

record BdevLvolRangeChecksum =
  ClusterIndex :: u64
  Checksum :: u64

definition dec_BdevLvolRangeChecksum :: "BdevLvolRangeChecksum decoder" where
  "dec_BdevLvolRangeChecksum = dec_fields (\<lambda>kvs.
     get_field ''cluster_index'' dec_word kvs (\<lambda>x1.
     get_field ''checksum'' dec_word kvs (\<lambda>x2.
     Inr \<lparr>
       BdevLvolRangeChecksum.ClusterIndex = x1, BdevLvolRangeChecksum.Checksum = x2 \<rparr>)))"

end
