(* ===== verification/SpdkClient.thy ===== *)
theory SpdkClient
  imports JsonRpcClient SpdkRequests SpdkBdevTypes
begin

text \<open>
  What the methods of the SPDK client (\<open>pkg/spdk/client\<close>) have in common: build a request, send it with
  the short or the long timeout, return the error, or decode the output into the result. The client's
  only state is the JSON-RPC client, here the environment \<open>c\<close> and the session.

  The methods return \<open>x, json.Unmarshal(out, &x)\<close>; the decoded value is read after the call, as the
  compiler orders it. A result slice is the empty list when it is nil, except where a caller tells the two
  apart.
\<close>

definition rpc :: "'w rpc_env \<Rightarrow> string \<Rightarrow> json \<Rightarrow> 'a decoder \<Rightarrow> ('w session, 'a) io" where
  "rpc c meth req d = io_bind (SendCommand c meth req) (\<lambda>cmdOutput. io_lift (d cmdOutput))"

definition rpc_long :: "'w rpc_env \<Rightarrow> string \<Rightarrow> json \<Rightarrow> 'a decoder \<Rightarrow> ('w session, 'a) io" where
  "rpc_long c meth req d =
     io_bind (SendCommandWithLongTimeout c meth req) (\<lambda>cmdOutput. io_lift (d cmdOutput))"

definition dec_any :: "unit decoder" where
  "dec_any j = Inr ()"

section \<open>What a method issues\<close>

lemma one_call_Inl_cases:
  "one_call meth ps t (Inl e) cs \<Longrightarrow> one_call meth ps t r cs \<or> cs = []"
  by (auto simp: one_call_def)

lemma runs_then_pure:
  assumes "runs m (one_call meth ps t)"
  shows "runs (io_bind m (\<lambda>x. io_lift (f x))) (one_call meth ps t)"
  by (rule runs_bind [OF assms]) (auto intro!: runs_lift simp: one_call_def)

lemma runs_rpc: "runs (rpc c meth req d) (one_call meth req DefaultShortTimeout)"
  unfolding rpc_def by (rule short.decoded)

lemma runs_rpc_long: "runs (rpc_long c meth req d) (one_call meth req DefaultLongTimeout)"
  unfolding rpc_long_def by (rule long.decoded)

text \<open>A pure step after a method changes nothing of what it issues.\<close>

lemma runs_method_then:
  assumes "runs m (one_call meth ps t)" and "\<And>x. runs (f x) (\<lambda>r cs. cs = [])"
  shows "runs (io_bind m f) (one_call meth ps t)"
proof (rule runs_bind [OF assms(1)])
  show "one_call meth ps t (Inl e) cs \<Longrightarrow> one_call meth ps t (Inl e) cs" for e :: go_error and cs
    by (auto simp: one_call_def)
  show "runs (f x) (\<lambda>r cs'. one_call meth ps t r (cs @ cs'))" if "one_call meth ps t (Inr x) cs" for x cs
    using assms(2) [of x] that by (rule_tac runs_mono) (auto simp: one_call_def)
qed

section \<open>Evaluation against a scripted peer\<close>

lemma scripted_rpc [simp]:
  "rpc scripted meth req d \<lparr> issued = cs, slots = n, peer = answer j # rs \<rparr> =
     (d j, \<lparr> issued = cs @ [\<lparr> rc_method = meth, rc_params = drop_empty_params req,
        rc_timeout = DefaultShortTimeout \<rparr>], slots = n, peer = rs \<rparr>)"
  by (simp add: rpc_def io_bind_def SendCommand_def io_lift_def)

lemma scripted_rpc_refusal [simp]:
  "rpc scripted meth req d \<lparr> issued = cs, slots = n, peer = refusal code msg # rs \<rparr> =
     (Inl (ClientErr 7 meth ''{}'' (ResponseErr code msg)),
      \<lparr> issued = cs @ [\<lparr> rc_method = meth, rc_params = drop_empty_params req,
        rc_timeout = DefaultShortTimeout \<rparr>], slots = n, peer = rs \<rparr>)"
  by (simp add: rpc_def io_bind_def SendCommand_def io_lift_def)

lemma scripted_rpc_long [simp]:
  "rpc_long scripted meth req d \<lparr> issued = cs, slots = n, peer = answer j # rs \<rparr> =
     (d j, \<lparr> issued = cs @ [\<lparr> rc_method = meth, rc_params = drop_empty_params req,
        rc_timeout = DefaultLongTimeout \<rparr>], slots = n, peer = rs \<rparr>)"
  by (simp add: rpc_long_def io_bind_def SendCommandWithLongTimeout_def io_lift_def)

lemma scripted_rpc_long_refusal [simp]:
  "rpc_long scripted meth req d \<lparr> issued = cs, slots = n, peer = refusal code msg # rs \<rparr> =
     (Inl (ClientErr 7 meth ''{}'' (ResponseErr code msg)),
      \<lparr> issued = cs @ [\<lparr> rc_method = meth, rc_params = drop_empty_params req,
        rc_timeout = DefaultLongTimeout \<rparr>], slots = n, peer = rs \<rparr>)"
  by (simp add: rpc_long_def io_bind_def SendCommandWithLongTimeout_def io_lift_def)

end
