(* ===== verification/SpdkBdev.thy ===== *)
theory SpdkBdev
  imports SpdkClient
begin

text \<open>
  The bdev methods of \<open>pkg/spdk/client/basic.go\<close>: AIO, logical volumes and stores, RAID. The helpers of
  \<open>pkg/spdk/types/bdev.go\<close> and \<open>lvol.go\<close> they use come first.
\<close>

section \<open>The kind of a bdev\<close>

definition BdevProductNameAio :: string where [const_defs]: "BdevProductNameAio = ''AIO disk''"
definition BdevProductNameLvol :: string where [const_defs]: "BdevProductNameLvol = ''Logical Volume''"
definition BdevProductNameRaid :: string where [const_defs]: "BdevProductNameRaid = ''Raid Volume''"
definition BdevProductNameNvme :: string where [const_defs]: "BdevProductNameNvme = ''NVMe disk''"
definition BdevProductNameEc :: string where [const_defs]: "BdevProductNameEc = ''ErasureCode Volume''"

definition BdevTypeAio :: string where [const_defs]: "BdevTypeAio = ''aio''"
definition BdevTypeLvol :: string where [const_defs]: "BdevTypeLvol = ''lvol''"
definition BdevTypeRaid :: string where [const_defs]: "BdevTypeRaid = ''raid''"
definition BdevTypeNvme :: string where [const_defs]: "BdevTypeNvme = ''nvme''"
definition BdevTypeEc :: string where [const_defs]: "BdevTypeEc = ''ec''"

definition GetBdevType :: "BdevInfo option \<Rightarrow> string" where
  "GetBdevType bdev =
     (case bdev of
        None \<Rightarrow> []
      | Some b \<Rightarrow>
          (case DriverSpecific b of
             None \<Rightarrow> []
           | Some d \<Rightarrow>
               if ProductName b = BdevProductNameAio \<and> Aio d \<noteq> None then BdevTypeAio
               else if ProductName b = BdevProductNameLvol \<and> Lvol d \<noteq> None then BdevTypeLvol
               else if ProductName b = BdevProductNameRaid \<and> Raid d \<noteq> None then BdevTypeRaid
               else if ProductName b = BdevProductNameNvme \<and> Nvme d \<noteq> None then BdevTypeNvme
               else if ProductName b = BdevProductNameEc \<and> Ec d \<noteq> None then BdevTypeEc
               else []))"

text \<open>The loop \<open>for _, b := range list \<dots> append\<close> over the bdevs of one kind.\<close>

definition of_type :: "string \<Rightarrow> BdevInfo list \<Rightarrow> BdevInfo list" where
  "of_type kind bs = filter (\<lambda>b. GetBdevType (Some b) = kind) bs"

section \<open>Aliases\<close>

definition GetLvolAlias :: "string \<Rightarrow> string \<Rightarrow> string" where
  "GetLvolAlias lvsName lvolName = lvsName @ ''/'' @ lvolName"

definition GetLvsNameFromAlias :: "string \<Rightarrow> string" where
  "GetLvsNameFromAlias alias =
     (let splitRes = split_on (CHR ''/'') alias in if length splitRes \<noteq> 2 then [] else splitRes ! 0)"

definition GetLvolNameFromAlias :: "string \<Rightarrow> string" where
  "GetLvolNameFromAlias alias =
     (let splitRes = split_on (CHR ''/'') alias in if length splitRes \<noteq> 2 then [] else splitRes ! 1)"

section \<open>Bdevs and AIO\<close>

definition BdevGetBdevs :: "'w rpc_env \<Rightarrow> string \<Rightarrow> u64 \<Rightarrow> ('w session, BdevInfo list) io" where
  "BdevGetBdevs c name timeout =
     rpc c ''bdev_get_bdevs'' (BdevGetBdevsRequest name timeout) (dec_list dec_BdevInfo)"

definition BdevAioCreate :: "'w rpc_env \<Rightarrow> string \<Rightarrow> string \<Rightarrow> u64 \<Rightarrow> ('w session, string) io" where
  "BdevAioCreate c filePath name blockSize =
     rpc_long c ''bdev_aio_create'' (BdevAioCreateRequest name filePath blockSize) dec_string"

definition BdevAioDelete :: "'w rpc_env \<Rightarrow> string \<Rightarrow> ('w session, bool) io" where
  "BdevAioDelete c name =
     rpc c ''bdev_aio_delete'' (BdevAioDeleteRequest name) dec_bool"

definition BdevAioGet :: "'w rpc_env \<Rightarrow> string \<Rightarrow> u64 \<Rightarrow> ('w session, BdevInfo list) io" where
  "BdevAioGet c name timeout =
     io_bind (rpc c ''bdev_get_bdevs'' (BdevGetBdevsRequest name timeout) (dec_list dec_BdevInfo))
       (\<lambda>bdevInfoList. io_return (of_type BdevTypeAio bdevInfoList))"

section \<open>Logical volume stores\<close>

definition BdevLvolCreateLvstoreWithMdRatio :: "'w rpc_env \<Rightarrow> string \<Rightarrow> string \<Rightarrow> u32 \<Rightarrow> u32 \<Rightarrow> ('w session, string) io" where
  "BdevLvolCreateLvstoreWithMdRatio c bdevName lvsName clusterSize mdPagesPerClusterRatio =
     rpc_long c ''bdev_lvol_create_lvstore'' (BdevLvolCreateLvstoreRequest bdevName lvsName clusterSize mdPagesPerClusterRatio) dec_string"

definition BdevLvolCreateLvstore :: "'w rpc_env \<Rightarrow> string \<Rightarrow> string \<Rightarrow> u32 \<Rightarrow> ('w session, string) io" where
  "BdevLvolCreateLvstore c bdevName lvsName clusterSize =
     BdevLvolCreateLvstoreWithMdRatio c bdevName lvsName clusterSize 0"

definition BdevLvolDeleteLvstore :: "'w rpc_env \<Rightarrow> string \<Rightarrow> string \<Rightarrow> ('w session, bool) io" where
  "BdevLvolDeleteLvstore c lvsName uuid =
     rpc c ''bdev_lvol_delete_lvstore'' (BdevLvolDeleteLvstoreRequest uuid lvsName) dec_bool"

definition BdevLvolGetLvstore :: "'w rpc_env \<Rightarrow> string \<Rightarrow> string \<Rightarrow> ('w session, LvstoreInfo list) io" where
  "BdevLvolGetLvstore c lvsName uuid =
     rpc c ''bdev_lvol_get_lvstores'' (BdevLvolGetLvstoreRequest uuid lvsName) (dec_list dec_LvstoreInfo)"

definition BdevLvolGetLvols :: "'w rpc_env \<Rightarrow> string \<Rightarrow> string \<Rightarrow> ('w session, LvolInfo list) io" where
  "BdevLvolGetLvols c lvsName uuid =
     rpc c ''bdev_lvol_get_lvols'' (BdevLvolGetLvstoreRequest uuid lvsName) (dec_list dec_LvolInfo)"

definition BdevLvolRenameLvstore :: "'w rpc_env \<Rightarrow> string \<Rightarrow> string \<Rightarrow> ('w session, bool) io" where
  "BdevLvolRenameLvstore c oldName newName =
     rpc c ''bdev_lvol_rename_lvstore'' (BdevLvolRenameLvstoreRequest oldName newName) dec_bool"

definition BdevLvolGrowLvstore :: "'w rpc_env \<Rightarrow> string \<Rightarrow> string \<Rightarrow> ('w session, bool) io" where
  "BdevLvolGrowLvstore c lvsName uuid =
     rpc c ''bdev_lvol_grow_lvstore'' (BdevLvolGrowLvstoreRequest uuid lvsName) dec_bool"

section \<open>Logical volumes\<close>

definition BdevLvolClearMethodUnmap :: string where
  "BdevLvolClearMethodUnmap = ''unmap''"

definition BdevLvolCreate ::
  "'w rpc_env \<Rightarrow> string \<Rightarrow> string \<Rightarrow> string \<Rightarrow> u64 \<Rightarrow> string \<Rightarrow> bool \<Rightarrow> ('w session, string) io" where
  "BdevLvolCreate c lvstoreName lvstoreUUID lvolName sizeInMib clearMethod thinProvision =
     (let clear = (if clearMethod = [] then BdevLvolClearMethodUnmap else clearMethod) in
      rpc c ''bdev_lvol_create''
        (BdevLvolCreateRequest lvstoreName lvstoreUUID lvolName sizeInMib clear thinProvision) dec_string)"

definition BdevLvolSetXattr :: "'w rpc_env \<Rightarrow> string \<Rightarrow> string \<Rightarrow> string \<Rightarrow> ('w session, bool) io" where
  "BdevLvolSetXattr c name xattrName xattrValue =
     rpc c ''bdev_lvol_set_xattr'' (BdevLvolSetXattrRequest name xattrName xattrValue) dec_bool"

definition BdevLvolGetXattr :: "'w rpc_env \<Rightarrow> string \<Rightarrow> string \<Rightarrow> ('w session, string) io" where
  "BdevLvolGetXattr c name xattrName =
     rpc c ''bdev_lvol_get_xattr'' (BdevLvolGetXattrRequest name xattrName) dec_string"

definition BdevLvolDelete :: "'w rpc_env \<Rightarrow> string \<Rightarrow> ('w session, bool) io" where
  "BdevLvolDelete c name =
     rpc c ''bdev_lvol_delete'' (BdevLvolDeleteRequest name) dec_bool"

definition BdevLvolGetSnapshotChecksum :: "'w rpc_env \<Rightarrow> string \<Rightarrow> ('w session, string) io" where
  "BdevLvolGetSnapshotChecksum c name =
     io_bind (rpc_long c ''bdev_lvol_get_snapshot_checksum'' (BdevLvolGetSnapshotChecksumRequest name)
         dec_BdevLvolSnapshotChecksum)
       (\<lambda>snapshotChecksum. io_return (itoa (uint (BdevLvolSnapshotChecksum.Checksum snapshotChecksum))))"

definition UserCreated :: string where [const_defs]: "UserCreated = ''user_created''"
definition SnapshotTimestamp :: string where [const_defs]: "SnapshotTimestamp = ''snapshot_timestamp''"
definition SnapshotChecksum :: string where [const_defs]: "SnapshotChecksum = ''snapshot_checksum''"

text \<open>The assignment \<open>b.DriverSpecific.Lvol.Xattrs = \<dots>\<close>; the pointers of an element lead to structs that
  no other element shares.\<close>

definition set_xattrs :: "(string \<rightharpoonup> string) \<Rightarrow> BdevInfo \<Rightarrow> BdevInfo" where
  "set_xattrs m b = b\<lparr> DriverSpecific :=
     map_option (\<lambda>d. d\<lparr> Lvol := map_option (\<lambda>l. l\<lparr> Xattrs := m \<rparr>) (Lvol d) \<rparr>) (DriverSpecific b) \<rparr>"

definition is_snapshot_lvol :: "BdevInfo \<Rightarrow> bool" where
  "is_snapshot_lvol b =
     (case DriverSpecific b of None \<Rightarrow> False
      | Some d \<Rightarrow> (case Lvol d of None \<Rightarrow> False | Some l \<Rightarrow> Snapshot l))"

text \<open>The three lookups of one lvol: a missing \<open>user_created\<close> means true, a missing timestamp is empty, and
  a snapshot without a registered checksum has no checksum attribute.\<close>

definition user_created_xattr :: "'w rpc_env \<Rightarrow> string \<Rightarrow> ('w session, string) io" where
  "user_created_xattr c name =
     io_case (BdevLvolGetXattr c name UserCreated)
       (\<lambda>err. if \<not> IsJSONRPCRespErrorNoSuchFileOrDirectory err then io_fail err else io_return ''true'')
       io_return"

definition timestamp_xattr :: "'w rpc_env \<Rightarrow> string \<Rightarrow> ('w session, string) io" where
  "timestamp_xattr c name =
     io_case (BdevLvolGetXattr c name SnapshotTimestamp)
       (\<lambda>err. if \<not> IsJSONRPCRespErrorNoSuchFileOrDirectory err then io_fail err else io_return [])
       io_return"

definition checksum_xattr :: "'w rpc_env \<Rightarrow> BdevInfo \<Rightarrow> ('w session, string option) io" where
  "checksum_xattr c b =
     (if is_snapshot_lvol b
      then io_case (BdevLvolGetSnapshotChecksum c (BdevInfoBasic.Name b))
         (\<lambda>err. if \<not> IsJSONRPCRespErrorNoSuchDevice err then io_fail err else io_return None)
         (\<lambda>checksum. io_return (Some checksum))
      else io_return None)"

definition with_xattrs :: "'w rpc_env \<Rightarrow> BdevInfo \<Rightarrow> ('w session, BdevInfo) io" where
  "with_xattrs c b =
     io_bind (user_created_xattr c (BdevInfoBasic.Name b)) (\<lambda>userCreated.
     io_bind (timestamp_xattr c (BdevInfoBasic.Name b)) (\<lambda>snapshotTimestamp.
     io_bind (checksum_xattr c b) (\<lambda>checksum.
       let m = [UserCreated \<mapsto> userCreated, SnapshotTimestamp \<mapsto> snapshotTimestamp] in
       io_return (set_xattrs (case checksum of None \<Rightarrow> m | Some x \<Rightarrow> m(SnapshotChecksum \<mapsto> x)) b))))"

definition BdevLvolGetWithFilter ::
  "'w rpc_env \<Rightarrow> string \<Rightarrow> u64 \<Rightarrow> (BdevInfo \<Rightarrow> bool) \<Rightarrow> ('w session, BdevInfo list) io" where
  "BdevLvolGetWithFilter c name timeout keep =
     io_bind (rpc c ''bdev_get_bdevs'' (BdevGetBdevsRequest name timeout) (dec_list dec_BdevInfo))
       (\<lambda>bdevInfoList.
          io_collect (\<lambda>b.
            if GetBdevType (Some b) \<noteq> BdevTypeLvol then io_return []
            else if \<not> keep b then io_return []
            else io_bind (with_xattrs c b) (\<lambda>b'. io_return [b'])) bdevInfoList)"

definition BdevLvolGet :: "'w rpc_env \<Rightarrow> string \<Rightarrow> u64 \<Rightarrow> ('w session, BdevInfo list) io" where
  "BdevLvolGet c name timeout = BdevLvolGetWithFilter c name timeout (\<lambda>b. True)"

definition BdevLvolGetByName :: "'w rpc_env \<Rightarrow> string \<Rightarrow> u64 \<Rightarrow> ('w session, BdevInfo) io" where
  "BdevLvolGetByName c name timeout =
     io_bind (BdevLvolGetWithFilter c name timeout (\<lambda>b. True)) (\<lambda>bdevLvolList.
       if length bdevLvolList \<noteq> 1
       then io_fail (PlainErr (''zero or multiple lvols with name '' @ name @ '' found''))
       else io_return (bdevLvolList ! 0))"

definition BdevLvolSnapshot ::
  "'w rpc_env \<Rightarrow> string \<Rightarrow> string \<Rightarrow> (string \<times> string) list \<Rightarrow> ('w session, string) io" where
  "BdevLvolSnapshot c name snapshotName xattrs =
     rpc c ''bdev_lvol_snapshot'' (BdevLvolSnapshotRequest name snapshotName xattrs) dec_string"

definition BdevLvolClone :: "'w rpc_env \<Rightarrow> string \<Rightarrow> string \<Rightarrow> ('w session, string) io" where
  "BdevLvolClone c snapshot cloneName =
     rpc c ''bdev_lvol_clone'' (BdevLvolCloneRequest snapshot cloneName) dec_string"

definition BdevLvolCloneBdev :: "'w rpc_env \<Rightarrow> string \<Rightarrow> string \<Rightarrow> string \<Rightarrow> ('w session, string) io" where
  "BdevLvolCloneBdev c bdev lvsName cloneName =
     rpc c ''bdev_lvol_clone_bdev'' (BdevLvolCloneBdevRequest bdev lvsName cloneName) dec_string"

definition BdevLvolDecoupleParent :: "'w rpc_env \<Rightarrow> string \<Rightarrow> ('w session, bool) io" where
  "BdevLvolDecoupleParent c name =
     rpc_long c ''bdev_lvol_decouple_parent'' (BdevLvolDecoupleParentRequest name) dec_bool"

definition BdevLvolDetachParent :: "'w rpc_env \<Rightarrow> string \<Rightarrow> ('w session, bool) io" where
  "BdevLvolDetachParent c name =
     rpc_long c ''bdev_lvol_detach_parent'' (BdevLvolDetachParentRequest name) dec_bool"

definition BdevLvolSetParent :: "'w rpc_env \<Rightarrow> string \<Rightarrow> string \<Rightarrow> ('w session, bool) io" where
  "BdevLvolSetParent c lvol parent =
     rpc_long c ''bdev_lvol_set_parent'' (BdevLvolSetParentRequest lvol parent) dec_bool"

definition BdevLvolResize :: "'w rpc_env \<Rightarrow> string \<Rightarrow> u64 \<Rightarrow> ('w session, bool) io" where
  "BdevLvolResize c name sizeInMib =
     rpc c ''bdev_lvol_resize'' (BdevLvolResizeRequest name sizeInMib) dec_bool"

definition BdevLvolStartShallowCopy :: "'w rpc_env \<Rightarrow> string \<Rightarrow> string \<Rightarrow> ('w session, u32) io" where
  "BdevLvolStartShallowCopy c srcLvolName dstBdevName =
     io_bind (rpc c ''bdev_lvol_start_shallow_copy'' (BdevLvolShallowCopyRequest srcLvolName dstBdevName)
         dec_ShallowCopy)
       (\<lambda>shallowCopy. io_return (ShallowCopy.OperationId shallowCopy))"

definition BdevLvolStartRangeShallowCopy ::
  "'w rpc_env \<Rightarrow> string \<Rightarrow> string \<Rightarrow> u64 list option \<Rightarrow> ('w session, u32) io" where
  "BdevLvolStartRangeShallowCopy c srcLvolName dstBdevName clusters =
     io_bind (rpc c ''bdev_lvol_start_range_shallow_copy''
         (BdevLvolRangeShallowCopyRequest srcLvolName dstBdevName clusters) dec_ShallowCopy)
       (\<lambda>shallowCopy. io_return (ShallowCopy.OperationId shallowCopy))"

definition enc_ShallowCopy :: "ShallowCopy \<Rightarrow> json" where
  "enc_ShallowCopy x = JObj (field ''operation_id'' (jword (ShallowCopy.OperationId x)))"

definition BdevLvolCheckShallowCopy :: "'w rpc_env \<Rightarrow> u32 \<Rightarrow> ('w session, ShallowCopyStatus) io" where
  "BdevLvolCheckShallowCopy c operationId =
     rpc c ''bdev_lvol_check_shallow_copy'' (enc_ShallowCopy \<lparr> ShallowCopy.OperationId = operationId \<rparr>)
       dec_ShallowCopyStatus"

definition BdevLvolStartDeepCopy :: "'w rpc_env \<Rightarrow> string \<Rightarrow> string \<Rightarrow> ('w session, u32) io" where
  "BdevLvolStartDeepCopy c srcLvolName dstBdevName =
     io_bind (rpc c ''bdev_lvol_start_deep_copy'' (BdevLvolDeepCopyRequest srcLvolName dstBdevName) dec_DeepCopy)
       (\<lambda>deepCopy. io_return (DeepCopy.OperationId deepCopy))"

definition enc_DeepCopy :: "DeepCopy \<Rightarrow> json" where
  "enc_DeepCopy x = JObj (field ''operation_id'' (jword (DeepCopy.OperationId x)))"

definition BdevLvolCheckDeepCopy :: "'w rpc_env \<Rightarrow> u32 \<Rightarrow> ('w session, DeepCopyStatus) io" where
  "BdevLvolCheckDeepCopy c operationId =
     rpc c ''bdev_lvol_check_deep_copy'' (enc_DeepCopy \<lparr> DeepCopy.OperationId = operationId \<rparr>) dec_DeepCopyStatus"

definition BdevLvolGetFragmap :: "'w rpc_env \<Rightarrow> string \<Rightarrow> u64 \<Rightarrow> u64 \<Rightarrow> ('w session, BdevLvolFragmap) io" where
  "BdevLvolGetFragmap c name offset size' =
     rpc_long c ''bdev_lvol_get_fragmap'' (BdevLvolGetFragmapRequest name offset size') dec_BdevLvolFragmap"

definition BdevLvolRegisterSnapshotChecksum :: "'w rpc_env \<Rightarrow> string \<Rightarrow> ('w session, bool) io" where
  "BdevLvolRegisterSnapshotChecksum c name =
     rpc_long c ''bdev_lvol_register_snapshot_checksum'' (BdevLvolRegisterSnapshotChecksumRequest name) dec_bool"

definition BdevLvolRegisterRangeChecksums :: "'w rpc_env \<Rightarrow> string \<Rightarrow> ('w session, bool) io" where
  "BdevLvolRegisterRangeChecksums c name =
     rpc_long c ''bdev_lvol_register_snapshot_range_checksums'' (BdevLvolRegisterRangeChecksumsRequest name) dec_bool"

text \<open>The checksums by cluster: a later entry for a cluster overwrites an earlier one.\<close>

definition BdevLvolGetRangeChecksums :: "'w rpc_env \<Rightarrow> string \<Rightarrow> u64 \<Rightarrow> u64 \<Rightarrow> ('w session, u64 \<rightharpoonup> u64) io" where
  "BdevLvolGetRangeChecksums c name clusterStartIndex clusterCount =
     io_bind (rpc_long c ''bdev_lvol_get_snapshot_range_checksums''
         (BdevLvolGetRangeChecksumsRequest name clusterStartIndex clusterCount)
         (dec_list dec_BdevLvolRangeChecksum))
       (\<lambda>rangeChecksums. io_return
          (foldl (\<lambda>m x. m(BdevLvolRangeChecksum.ClusterIndex x \<mapsto> BdevLvolRangeChecksum.Checksum x))
             Map.empty rangeChecksums))"

definition BdevLvolStopSnapshotChecksum :: "'w rpc_env \<Rightarrow> string \<Rightarrow> ('w session, bool) io" where
  "BdevLvolStopSnapshotChecksum c name =
     rpc c ''bdev_lvol_stop_snapshot_checksum'' (BdevLvolStopSnapshotChecksumRequest name) dec_bool"

definition BdevLvolRename :: "'w rpc_env \<Rightarrow> string \<Rightarrow> string \<Rightarrow> ('w session, bool) io" where
  "BdevLvolRename c oldName newName =
     rpc_long c ''bdev_lvol_rename'' (BdevLvolRenameRequest oldName newName) dec_bool"

section \<open>RAID\<close>

definition raid_levels_with_strips :: "string list" where
  "raid_levels_with_strips = [''0'', ''raid0'', ''5f'', ''raid5f'']"

definition BdevRaidCreate ::
  "'w rpc_env \<Rightarrow> string \<Rightarrow> string \<Rightarrow> u32 \<Rightarrow> string list option \<Rightarrow> string \<Rightarrow> ('w session, bool) io" where
  "BdevRaidCreate c name raidLevel stripSizeKb baseBdevs uuid =
     (let strip = (if raidLevel \<notin> set raid_levels_with_strips then 0 else stripSizeKb) in
      rpc c ''bdev_raid_create''
        (BdevRaidCreateRequest name raidLevel strip baseBdevs (if uuid \<noteq> [] then uuid else [])) dec_bool)"

definition BdevRaidDelete :: "'w rpc_env \<Rightarrow> string \<Rightarrow> ('w session, bool) io" where
  "BdevRaidDelete c name =
     rpc c ''bdev_raid_delete'' (BdevRaidDeleteRequest name) dec_bool"

definition set_raid_name :: "string \<Rightarrow> BdevInfo \<Rightarrow> BdevInfo" where
  "set_raid_name name b = b\<lparr> DriverSpecific :=
     map_option (\<lambda>d. d\<lparr> Raid := map_option (\<lambda>r. r\<lparr> BdevRaidInfo.Name := name \<rparr>) (Raid d) \<rparr>) (DriverSpecific b) \<rparr>"

definition BdevRaidGet :: "'w rpc_env \<Rightarrow> string \<Rightarrow> u64 \<Rightarrow> ('w session, BdevInfo list) io" where
  "BdevRaidGet c name timeout =
     io_bind (rpc c ''bdev_get_bdevs'' (BdevGetBdevsRequest name timeout) (dec_list dec_BdevInfo))
       (\<lambda>bdevInfoList. io_return (map (set_raid_name name) (of_type BdevTypeRaid bdevInfoList)))"

definition BdevRaidGetInfoByCategory :: "'w rpc_env \<Rightarrow> string \<Rightarrow> ('w session, BdevRaidInfo list) io" where
  "BdevRaidGetInfoByCategory c category =
     rpc c ''bdev_raid_get_bdevs'' (BdevRaidGetBdevsRequest category) (dec_list dec_BdevRaidInfo)"

definition BdevRaidRemoveBaseBdev :: "'w rpc_env \<Rightarrow> string \<Rightarrow> ('w session, bool) io" where
  "BdevRaidRemoveBaseBdev c name =
     rpc c ''bdev_raid_remove_base_bdev'' (BdevRaidRemoveBaseBdevRequest name) dec_bool"

definition BdevRaidGrowBaseBdev :: "'w rpc_env \<Rightarrow> string \<Rightarrow> string \<Rightarrow> ('w session, bool) io" where
  "BdevRaidGrowBaseBdev c raidName baseBdevName =
     rpc c ''bdev_raid_grow_base_bdev'' (BdevRaidGrowBaseBdevRequest raidName baseBdevName) dec_bool"

section \<open>Virtio, statistics and limits\<close>

definition BdevVirtioAttachController ::
  "'w rpc_env \<Rightarrow> string \<Rightarrow> string \<Rightarrow> string \<Rightarrow> string \<Rightarrow> ('w session, string list) io" where
  "BdevVirtioAttachController c name trtype traddr devType =
     io_bind (SendCommandWithLongTimeout c ''bdev_virtio_attach_controller''
         (BdevVirtioAttachControllerRequest name trtype traddr devType))
       (\<lambda>cmdOutput.
          case dec_list dec_string cmdOutput of
            Inl err \<Rightarrow> io_fail (WrapErr (''failed to unmarshal disks: '' @ encoder_text cmdOutput) err)
          | Inr disks \<Rightarrow> io_return disks)"

definition BdevVirtioDetachController :: "'w rpc_env \<Rightarrow> string \<Rightarrow> ('w session, bool) io" where
  "BdevVirtioDetachController c name =
     rpc c ''bdev_virtio_detach_controller'' (BdevVirtioDetachControllerRequest name) dec_bool"

definition BdevGetIostat :: "'w rpc_env \<Rightarrow> string \<Rightarrow> bool \<Rightarrow> ('w session, BdevIostatResponse) io" where
  "BdevGetIostat c name perChannel =
     io_bind (SendCommand c ''bdev_get_iostat'' (BdevIostatRequest name perChannel))
       (\<lambda>cmdOutput.
          case dec_BdevIostatResponse cmdOutput of
            Inl err \<Rightarrow> io_fail (WrapErr ''failed to parse bdev_get_iostat response'' err)
          | Inr resp \<Rightarrow> io_return resp)"

definition BdevSetQosLimit ::
  "'w rpc_env \<Rightarrow> string \<Rightarrow> 64 word \<Rightarrow> 64 word \<Rightarrow> 64 word \<Rightarrow> 64 word \<Rightarrow> ('w session, unit) io" where
  "BdevSetQosLimit c bdevName rwIOsPerSec rwMBPerSec rMBPerSec wMBPerSec =
     (let params = jmap [(''name'', JStr bdevName), (''rw_ios_per_sec'', jsigned rwIOsPerSec),
            (''rw_mbytes_per_sec'', jsigned rwMBPerSec), (''r_mbytes_per_sec'', jsigned rMBPerSec),
            (''w_mbytes_per_sec'', jsigned wMBPerSec)] in
      io_case (SendCommand c ''bdev_set_qos_limit'' params)
        (\<lambda>err. io_fail (WrapErr ''failed to send bdev_set_qos_limit'' err))
        (\<lambda>resp.
           case dec_bool resp of
             Inl err \<Rightarrow> io_fail (WrapErr (''invalid response format: '' @ encoder_text resp) err)
           | Inr result \<Rightarrow>
               if \<not> result then io_fail (PlainErr ''SPDK returned false for bdev_set_qos_limit'')
               else io_return ()))"

definition SpdkKillInstance :: "'w rpc_env \<Rightarrow> string \<Rightarrow> ('w session, bool) io" where
  "SpdkKillInstance c sig =
     rpc c ''spdk_kill_instance'' (SpdkKillInstanceRequest sig) dec_bool"

end
