(* ===== verification/SpdkBdevFacts.thy ===== *)
theory SpdkBdevFacts
  imports SpdkBdev
begin

text \<open>
  Properties of the bdev methods: aliases, snapshot checksums, the attributes of listed volumes, RAID.
\<close>

section \<open>Aliases\<close>

text \<open>
  The alias of a volume gives back the store and the volume it was built from, whenever
  neither name contains a slash; and only such aliases are taken apart: of any other string both
  functions return the empty name.
\<close>

theorem alias_roundtrip:
  assumes "CHR ''/'' \<notin> set lvs" and "CHR ''/'' \<notin> set lvol"
  shows "GetLvsNameFromAlias (GetLvolAlias lvs lvol) = lvs \<and> GetLvolNameFromAlias (GetLvolAlias lvs lvol) = lvol \<and>
    (GetLvsNameFromAlias alias \<noteq> [] \<or> GetLvolNameFromAlias alias \<noteq> [] \<longrightarrow>
       GetLvolAlias (GetLvsNameFromAlias alias) (GetLvolNameFromAlias alias) = alias)"
proof (intro conjI impI)
  show "GetLvsNameFromAlias (GetLvolAlias lvs lvol) = lvs"
    and "GetLvolNameFromAlias (GetLvolAlias lvs lvol) = lvol"
    using assms by (simp_all add: GetLvsNameFromAlias_def GetLvolNameFromAlias_def GetLvolAlias_def
        split_on_append split_on_notin)
next
  assume ne: "GetLvsNameFromAlias alias \<noteq> [] \<or> GetLvolNameFromAlias alias \<noteq> []"
  then have two: "length (split_on (CHR ''/'') alias) = 2"
    by (auto simp: GetLvsNameFromAlias_def GetLvolNameFromAlias_def Let_def split: if_splits)
  then obtain a b where parts: "split_on (CHR ''/'') alias = [a, b]"
    by (auto simp: length_Suc_conv numeral_2_eq_2)
  have "alias = a @ CHR ''/'' # b"
    using split_on_two [OF parts] .
  then show "GetLvolAlias (GetLvsNameFromAlias alias) (GetLvolNameFromAlias alias) = alias"
    unfolding GetLvsNameFromAlias_def GetLvolNameFromAlias_def GetLvolAlias_def Let_def parts by simp
qed

theorem alias_roundtrip_witness:
  "GetLvsNameFromAlias (GetLvolAlias ''disk-1'' ''vol-r-1'') = ''disk-1'' \<and>
   GetLvolNameFromAlias (GetLvolAlias ''disk-1'' ''vol-r-1'') = ''vol-r-1''"
  using alias_roundtrip [of "''disk-1''" "''vol-r-1''"] by simp

section \<open>Snapshot checksums\<close>

text \<open>What SPDK writes on the wire, and the response the JSON-RPC client makes of it.\<close>

definition checksum_wire :: "int \<Rightarrow> json" where
  "checksum_wire n = JObj [(''id'', JNum 7), (''jsonrpc'', JStr ''2.0''), (''result'', JObj [(''checksum'', JNum n)])]"

lemma checksum_response:
  "dec_Response (checksum_wire n) = Inr (answer (JObj [(''checksum'', JNum (number_through_interface n))]))"
  by (simp add: checksum_wire_def dec_Response_def dec_interface_def decoder_defs answer_def jmap_def)

lemma checksum_of_answer:
  assumes "0 \<le> n" and "n < 2 ^ 64"
  shows "fst (BdevLvolGetSnapshotChecksum scripted name (new_session [answer (JObj [(''checksum'', JNum n)])])) =
    Inr (itoa n)"
proof -
  have "uint (word_of_int n :: u64) = n"
    using assms by (simp add: uint_word_of_int_eq take_bit_int_eq_self)
  then show ?thesis
    using assms by (simp add: BdevLvolGetSnapshotChecksum_def new_session_def io_bind_def io_return_def
        dec_BdevLvolSnapshotChecksum_def decoder_defs)
qed

text \<open>
  A snapshot checksum below \<open>2 ^ 53\<close> survives the client: the decimal text returned is the
  number SPDK sent, through the decoding of the response, the \<open>interface{}\<close> and the second decoding.
\<close>

theorem checksum_exact:
  assumes "0 \<le> n" and "n < 2 ^ 53" and "dec_Response (checksum_wire n) = Inr resp"
  shows "fst (BdevLvolGetSnapshotChecksum scripted name (new_session [resp])) = Inr (itoa n)"
proof -
  have "resp = answer (JObj [(''checksum'', JNum n)])"
    using assms by (simp add: checksum_response number_through_interface_exact)
  then show ?thesis
    using assms checksum_of_answer by simp
qed

theorem checksum_exact_witness:
  "fst (BdevLvolGetSnapshotChecksum scripted ''s'' (new_session [answer (JObj [(''checksum'', JNum 12)])])) = Inr (itoa 12)"
  by (rule checksum_exact [of 12]) (simp_all add: checksum_response number_through_interface_exact)

lemma rounded_checksum: "number_through_interface 9007199254740993 = 9007199254740992"
proof -
  have f: "f64_nat 9007199254740993 = 9007199254740992"
    by (simp add: f64_nat_53)
  have len: "length (itoa_nat 9007199254740992) = 16"
    by (simp add: itoa_nat.simps)
  have big: "f64_nat 10000000000000000 = 10000000000000000" "f64_nat 9008000000000000 = 9008000000000000"
    "f64_nat 9007200000000000 = 9007200000000000"
    by (simp_all add: f64_nat_53)
  have "shortest_decimal 9007199254740992 = 9007199254740992"
    unfolding shortest_decimal_def len
    by (simp add: shortest_from.simps f64_nat_small f64_nat_53 Let_def)
  then show ?thesis
    by (simp add: number_through_interface_def f)
qed

text \<open>
  A larger checksum can come back changed: SPDK's 64-bit checksum 9007199254740993 is
  returned as 9007199254740992, because the result passes through an \<open>interface{}\<close> as a float64.
\<close>

theorem checksum_changed:
  "\<exists>resp. dec_Response (checksum_wire 9007199254740993) = Inr resp \<and>
     fst (BdevLvolGetSnapshotChecksum scripted name (new_session [resp])) = Inr (itoa 9007199254740992)"
  by (simp add: checksum_response rounded_checksum checksum_of_answer)

section \<open>Listing volumes\<close>

definition xattrs_ok :: "BdevInfo \<Rightarrow> (string \<rightharpoonup> string) \<Rightarrow> bool" where
  "xattrs_ok b m \<longleftrightarrow> UserCreated \<in> dom m \<and> SnapshotTimestamp \<in> dom m \<and>
     (SnapshotChecksum \<in> dom m \<longrightarrow> is_snapshot_lvol b) \<and>
     dom m \<subseteq> {UserCreated, SnapshotTimestamp, SnapshotChecksum}"

lemma xattr_keys [simp]: "UserCreated \<noteq> SnapshotTimestamp" "UserCreated \<noteq> SnapshotChecksum"
    "SnapshotTimestamp \<noteq> SnapshotChecksum"
    "SnapshotTimestamp \<noteq> UserCreated" "SnapshotChecksum \<noteq> UserCreated" "SnapshotChecksum \<noteq> SnapshotTimestamp"
  by (simp_all add: const_defs)

lemma checksum_xattr_snapshot:
  "checksum_xattr c b s = (Inr (Some x), s') \<Longrightarrow> is_snapshot_lvol b"
  by (auto simp: checksum_xattr_def io_return_def split: if_splits)

lemma with_xattrs_ok:
  assumes "with_xattrs c b s = (Inr b', s')"
  shows "\<exists>m. b' = set_xattrs m b \<and> xattrs_ok b m"
proof -
  from assms obtain u t x s1 s2 where
    x: "checksum_xattr c b s1 = (Inr x, s2)" and
    b': "b' = set_xattrs (case x of None \<Rightarrow> [UserCreated \<mapsto> u, SnapshotTimestamp \<mapsto> t]
          | Some y \<Rightarrow> [UserCreated \<mapsto> u, SnapshotTimestamp \<mapsto> t](SnapshotChecksum \<mapsto> y)) b"
    by (auto simp: with_xattrs_def io_bind_eq_Inr io_return_def Let_def)
  show ?thesis
  proof (cases x)
    case None
    then show ?thesis
      by (intro exI [of _ "[UserCreated \<mapsto> u, SnapshotTimestamp \<mapsto> t]"]) (auto simp: b' xattrs_ok_def)
  next
    case (Some y)
    then show ?thesis
      using x checksum_xattr_snapshot
      by (intro exI [of _ "[UserCreated \<mapsto> u, SnapshotTimestamp \<mapsto> t](SnapshotChecksum \<mapsto> y)"])
        (auto simp: b' xattrs_ok_def)
  qed
qed

lemma collect_xattrs:
  assumes "io_collect (\<lambda>b. if GetBdevType (Some b) \<noteq> BdevTypeLvol then io_return []
            else if \<not> keep b then io_return []
            else io_bind (with_xattrs c b) (\<lambda>b'. io_return [b'])) bs s = (Inr out, s')"
  shows "list_all2 (\<lambda>b b'. \<exists>m. b' = set_xattrs m b \<and> xattrs_ok b m)
     (filter (\<lambda>b. GetBdevType (Some b) = BdevTypeLvol \<and> keep b) bs) out"
  using assms
proof (induction bs arbitrary: s s' out)
  case Nil
  then show ?case by (simp add: io_return_def)
next
  case (Cons b bs)
  show ?case
  proof (cases "GetBdevType (Some b) = BdevTypeLvol \<and> keep b")
    case True
    with Cons.prems obtain b' rest s1 s2 where "with_xattrs c b s = (Inr b', s1)" and "out = b' # rest"
      and rest: "io_collect (\<lambda>b. if GetBdevType (Some b) \<noteq> BdevTypeLvol then io_return []
            else if \<not> keep b then io_return []
            else io_bind (with_xattrs c b) (\<lambda>b'. io_return [b'])) bs s1 = (Inr rest, s2)"
      by (auto simp: io_bind_eq_Inr io_return_def)
    then show ?thesis
      using True with_xattrs_ok Cons.IH [OF rest] by simp
  next
    case False
    then show ?thesis
      using Cons by (auto simp: io_bind_eq_Inr io_return_def split: if_splits)
  qed
qed

text \<open>
  Property C31. \<open>BdevLvolGetWithFilter\<close> returns, in SPDK's order and each once, exactly the bdevs of the
  reply that are logical volumes and pass the filter, unchanged except for their attributes. Each has the
  two attributes \<open>user_created\<close> and \<open>snapshot_timestamp\<close>, no attribute but these and the checksum, and a
  checksum only if it is a snapshot.
\<close>

theorem BdevLvolGetWithFilter_exact:
  assumes "BdevLvolGetWithFilter c name timeout keep s = (Inr out, s')"
  shows "\<exists>bs s1. rpc c ''bdev_get_bdevs'' (BdevGetBdevsRequest name timeout) (dec_list dec_BdevInfo) s = (Inr bs, s1) \<and>
    list_all2 (\<lambda>b b'. \<exists>m. b' = set_xattrs m b \<and> xattrs_ok b m)
      (filter (\<lambda>b. GetBdevType (Some b) = BdevTypeLvol \<and> keep b) bs) out"
  using assms unfolding BdevLvolGetWithFilter_def io_bind_eq_Inr by (blast dest: collect_xattrs)

definition lvol_json :: json where
  "lvol_json = JObj [(''name'', JStr ''u-1''), (''product_name'', JStr ''Logical Volume''),
     (''driver_specific'', JObj [(''lvol'', JObj [(''snapshot'', JBool True)])])]"

definition example_lvol :: BdevInfo where
  "example_lvol =
     \<lparr> BdevInfoBasic.Name = ''u-1'', BdevInfoBasic.Aliases = [], BdevInfoBasic.ProductName =
     ''Logical Volume'', BdevInfoBasic.BlockSize = 0, BdevInfoBasic.NumBlocks = 0,
     BdevInfoBasic.UUID = [], BdevInfoBasic.CreationTime = [], BdevInfoBasic.MdSize = 0,
     BdevInfoBasic.MdInterleave = False, BdevInfoBasic.DifType = 0, BdevInfoBasic.DifIsHeadOfMd =
     False, BdevInfoBasic.EnabledDifCheckTypes = None, BdevInfoBasic.AssignedRateLimits = \<lparr>
     AssignedRateLimits.RwIosPerSec = 0, AssignedRateLimits.RwMbytesPerSec = 0,
     AssignedRateLimits.RMbytesPerSec = 0, AssignedRateLimits.WMbytesPerSec = 0 \<rparr>,
     BdevInfoBasic.Claimed = False, BdevInfoBasic.ClaimType = [], BdevInfoBasic.Zoned = False,
     BdevInfoBasic.ZoneSize = 0, BdevInfoBasic.MaxOpenZones = 0, BdevInfoBasic.OptimalOpenZones = 0,
     BdevInfoBasic.SupportedIoTypes = \<lparr> SupportedIoTypes.Read = False, SupportedIoTypes.Write
     = False, SupportedIoTypes.Unmap = False, SupportedIoTypes.WriteZeroes = False,
     SupportedIoTypes.Flush = False, SupportedIoTypes.Reset = False, SupportedIoTypes.Compare =
     False, SupportedIoTypes.CompareAndWrite = False, SupportedIoTypes.Abort = False,
     SupportedIoTypes.NvmeAdmin = False, SupportedIoTypes.NvmeIo = False \<rparr>,
     BdevInfoBasic.MemoryDomains = [], BdevInfo.DriverSpecific = Some \<lparr>
     BdevDriverSpecific.Aio = None, BdevDriverSpecific.Lvol = Some \<lparr>
     BdevDriverSpecificLvol.LvolStoreUUID = [], BdevDriverSpecificLvol.BaseBdev = [],
     BdevDriverSpecificLvol.BaseSnapshot = [], BdevDriverSpecificLvol.ThinProvision = False,
     BdevDriverSpecificLvol.NumAllocatedClusters = 0, BdevDriverSpecificLvol.Snapshot = True,
     BdevDriverSpecificLvol.Clone = False, BdevDriverSpecificLvol.Clones = [],
     BdevDriverSpecificLvol.Xattrs = Map.empty \<rparr>, BdevDriverSpecific.Raid = None,
     BdevDriverSpecific.Nvme = None, BdevDriverSpecific.MpPolicy = [], BdevDriverSpecific.Ec = None
     \<rparr> \<rparr>"

lemma example_lvol_decodes: "dec_list dec_BdevInfo (JArr [lvol_json]) = Inr [example_lvol]"
  by (simp add: lvol_json_def example_lvol_def dec_BdevInfo_def dec_BdevDriverSpecific_def dec_BdevDriverSpecificLvol_def
      dec_AssignedRateLimits_def dec_SupportedIoTypes_def dec_map_def decoder_defs)

text \<open>Neither attribute is set and no checksum is registered: the volume is listed with the defaults.\<close>

definition missing_attribute :: Response where
  "missing_attribute = refusal (-32603) ''No such file or directory''"

definition missing_checksum :: Response where
  "missing_checksum = refusal (-19) ''No such device''"

lemma example_listing:
  "BdevLvolGetWithFilter scripted [] 0 (\<lambda>b. True)
      (new_session [answer (JArr [lvol_json]), missing_attribute, missing_attribute, missing_checksum]) =
    (Inr [set_xattrs [UserCreated \<mapsto> ''true'', SnapshotTimestamp \<mapsto> []] example_lvol],
     \<lparr> issued =
        [\<lparr> rc_method = ''bdev_get_bdevs'', rc_params = JNull, rc_timeout = DefaultShortTimeout \<rparr>,
         \<lparr> rc_method = ''bdev_lvol_get_xattr'', rc_params = BdevLvolGetXattrRequest ''u-1'' UserCreated,
           rc_timeout = DefaultShortTimeout \<rparr>,
         \<lparr> rc_method = ''bdev_lvol_get_xattr'', rc_params = BdevLvolGetXattrRequest ''u-1'' SnapshotTimestamp,
           rc_timeout = DefaultShortTimeout \<rparr>,
         \<lparr> rc_method = ''bdev_lvol_get_snapshot_checksum'', rc_params = BdevLvolGetSnapshotChecksumRequest ''u-1'',
           rc_timeout = DefaultLongTimeout \<rparr>],
       slots = 0, peer = [] \<rparr>)"
proof -
  have kind: "GetBdevType (Some example_lvol) = BdevTypeLvol" "is_snapshot_lvol example_lvol"
    "BdevInfoBasic.Name example_lvol = ''u-1''"
    by (simp_all add: example_lvol_def GetBdevType_def is_snapshot_lvol_def const_defs)
  have cls: "IsJSONRPCRespErrorNoSuchFileOrDirectory (ClientErr 7 m ps (ResponseErr (-32603) ''No such file or directory''))"
    "IsJSONRPCRespErrorNoSuchDevice (ClientErr 7 m ps (ResponseErr (-19) ''No such device''))" for m ps
    by (simp_all add: classifier_defs const_defs)
  have reqs: "drop_empty_params (BdevGetBdevsRequest [] 0) = JNull"
    "drop_empty_params (BdevLvolGetXattrRequest n k) = BdevLvolGetXattrRequest n k"
    "drop_empty_params (BdevLvolGetSnapshotChecksumRequest n) = BdevLvolGetSnapshotChecksumRequest n" for n k
    by (simp_all add: drop_empty_params_def BdevGetBdevsRequest_def BdevLvolGetXattrRequest_def
        BdevLvolGetSnapshotChecksumRequest_def omitempty_def field_def jword_def)
  show ?thesis
    by (simp add: BdevLvolGetWithFilter_def new_session_def io_bind_def io_return_def io_case_def kind
        example_lvol_decodes with_xattrs_def user_created_xattr_def timestamp_xattr_def checksum_xattr_def
        BdevLvolGetXattr_def BdevLvolGetSnapshotChecksum_def missing_attribute_def missing_checksum_def cls reqs)
qed

theorem BdevLvolGetWithFilter_exact_witness:
  "\<exists>bs. list_all2 (\<lambda>b b'. \<exists>m. b' = set_xattrs m b \<and> xattrs_ok b m)
      (filter (\<lambda>b. GetBdevType (Some b) = BdevTypeLvol \<and> True) bs)
      [set_xattrs [UserCreated \<mapsto> ''true'', SnapshotTimestamp \<mapsto> []] example_lvol]"
  using BdevLvolGetWithFilter_exact [OF example_listing] by blast

section \<open>RAID\<close>

text \<open>
  \<open>BdevRaidGet\<close> overwrites the RAID name of everything it returns with the name it was asked
  for. Asked for all RAID bdevs (the empty name), it returns every one of them with an empty RAID name,
  also where SPDK reported one.
\<close>

theorem BdevRaidGet_lists_without_names:
  assumes "BdevRaidGet c [] timeout s = (Inr out, s')" and "b \<in> set out"
    and "DriverSpecific b = Some d" and "Raid d = Some r"
  shows "BdevRaidInfo.Name r = []"
  using assms by (auto simp: BdevRaidGet_def io_bind_eq_Inr io_return_def set_raid_name_def)

definition raid_json :: json where
  "raid_json = JObj [(''product_name'', JStr ''Raid Volume''),
     (''driver_specific'', JObj [(''raid'', JObj [(''name'', JStr ''raid01'')])])]"

definition example_raid :: BdevInfo where
  "example_raid =
     \<lparr> BdevInfoBasic.Name = [], BdevInfoBasic.Aliases = [], BdevInfoBasic.ProductName =
     ''Raid Volume'', BdevInfoBasic.BlockSize = 0, BdevInfoBasic.NumBlocks = 0, BdevInfoBasic.UUID =
     [], BdevInfoBasic.CreationTime = [], BdevInfoBasic.MdSize = 0, BdevInfoBasic.MdInterleave =
     False, BdevInfoBasic.DifType = 0, BdevInfoBasic.DifIsHeadOfMd = False,
     BdevInfoBasic.EnabledDifCheckTypes = None, BdevInfoBasic.AssignedRateLimits = \<lparr>
     AssignedRateLimits.RwIosPerSec = 0, AssignedRateLimits.RwMbytesPerSec = 0,
     AssignedRateLimits.RMbytesPerSec = 0, AssignedRateLimits.WMbytesPerSec = 0 \<rparr>,
     BdevInfoBasic.Claimed = False, BdevInfoBasic.ClaimType = [], BdevInfoBasic.Zoned = False,
     BdevInfoBasic.ZoneSize = 0, BdevInfoBasic.MaxOpenZones = 0, BdevInfoBasic.OptimalOpenZones = 0,
     BdevInfoBasic.SupportedIoTypes = \<lparr> SupportedIoTypes.Read = False, SupportedIoTypes.Write
     = False, SupportedIoTypes.Unmap = False, SupportedIoTypes.WriteZeroes = False,
     SupportedIoTypes.Flush = False, SupportedIoTypes.Reset = False, SupportedIoTypes.Compare =
     False, SupportedIoTypes.CompareAndWrite = False, SupportedIoTypes.Abort = False,
     SupportedIoTypes.NvmeAdmin = False, SupportedIoTypes.NvmeIo = False \<rparr>,
     BdevInfoBasic.MemoryDomains = [], BdevInfo.DriverSpecific = Some \<lparr>
     BdevDriverSpecific.Aio = None, BdevDriverSpecific.Lvol = None, BdevDriverSpecific.Raid = Some
     \<lparr> BdevRaidInfo.Name = ''raid01'', BdevRaidInfo.StripSizeKb = 0, BdevRaidInfo.State = [],
     BdevRaidInfo.RaidLevel = [], BdevRaidInfo.NumBaseBdevs = 0, BdevRaidInfo.NumBaseBdevsDiscovered
     = 0, BdevRaidInfo.NumBaseBdevsOperational = 0, BdevRaidInfo.BaseBdevsList = [],
     BdevRaidInfo.Superblock = False \<rparr>, BdevDriverSpecific.Nvme = None,
     BdevDriverSpecific.MpPolicy = [], BdevDriverSpecific.Ec = None \<rparr> \<rparr>"

lemma example_raid_decodes: "dec_list dec_BdevInfo (JArr [raid_json]) = Inr [example_raid]"
  by (simp add: raid_json_def example_raid_def dec_BdevInfo_def dec_BdevDriverSpecific_def dec_BdevRaidInfo_def
      dec_AssignedRateLimits_def dec_SupportedIoTypes_def decoder_defs)

lemma example_raid_kind: "GetBdevType (Some example_raid) = BdevTypeRaid"
  by (simp add: example_raid_def GetBdevType_def const_defs)

theorem BdevRaidGet_lists_without_names_witness:
  "\<exists>d r. DriverSpecific (set_raid_name [] example_raid) = Some d \<and> Raid d = Some r \<and> BdevRaidInfo.Name r = []"
proof -
  have run: "BdevRaidGet scripted [] 0 (new_session [answer (JArr [raid_json])]) =
      (Inr [set_raid_name [] example_raid], \<lparr> issued =
        [\<lparr> rc_method = ''bdev_get_bdevs'', rc_params = drop_empty_params (BdevGetBdevsRequest [] 0),
           rc_timeout = DefaultShortTimeout \<rparr>], slots = 0, peer = [] \<rparr>)"
    by (simp add: BdevRaidGet_def new_session_def io_bind_def io_return_def example_raid_decodes of_type_def
        example_raid_kind)
  obtain d r where d: "DriverSpecific (set_raid_name [] example_raid) = Some d" "Raid d = Some r"
    by (auto simp: set_raid_name_def example_raid_def)
  then show ?thesis
    using BdevRaidGet_lists_without_names [OF run _ d] by auto
qed

end
