(* ===== verification/SpdkNvmf.thy ===== *)
theory SpdkNvmf
  imports SpdkBdev
begin

text \<open>
  The NVMe, NVMe-oF and log methods of \<open>pkg/spdk/client/basic.go\<close>.
\<close>

section \<open>NVMe bdevs\<close>

definition BdevNvmeAttachController ::
  "'w rpc_env \<Rightarrow> string \<Rightarrow> string \<Rightarrow> string \<Rightarrow> string \<Rightarrow> string \<Rightarrow> string \<Rightarrow> i32 \<Rightarrow> i32 \<Rightarrow> i32 \<Rightarrow>
     string \<Rightarrow> string \<Rightarrow> ('w session, string list) io" where
  "BdevNvmeAttachController c name subnqn traddr trsvcid trtype adrfam
      ctrlrLossTimeoutSec reconnectDelaySec fastIOFailTimeoutSec multipath hostNQN =
     rpc_long c ''bdev_nvme_attach_controller''
       (BdevNvmeAttachControllerRequest name
          \<lparr> NvmeTransportID.Trtype = trtype, NvmeTransportID.Adrfam = adrfam, NvmeTransportID.Traddr = traddr,
            NvmeTransportID.Trsvcid = trsvcid, NvmeTransportID.Subnqn = subnqn \<rparr>
          hostNQN [] [] ctrlrLossTimeoutSec reconnectDelaySec fastIOFailTimeoutSec multipath)
       (dec_list dec_string)"

definition no_transport_id :: NvmeTransportID where
  "no_transport_id = \<lparr> NvmeTransportID.Trtype = [], NvmeTransportID.Adrfam = [], NvmeTransportID.Traddr = [],
     NvmeTransportID.Trsvcid = [], NvmeTransportID.Subnqn = [] \<rparr>"

definition BdevNvmeDetachController :: "'w rpc_env \<Rightarrow> string \<Rightarrow> ('w session, bool) io" where
  "BdevNvmeDetachController c name =
     rpc c ''bdev_nvme_detach_controller'' (BdevNvmeDetachControllerRequest name no_transport_id [] []) dec_bool"

definition BdevNvmeResetController :: "'w rpc_env \<Rightarrow> string \<Rightarrow> ('w session, bool) io" where
  "BdevNvmeResetController c name =
     rpc c ''bdev_nvme_reset_controller'' (BdevNvmeResetControllerRequest name) dec_bool"

definition BdevNvmeGetControllers :: "'w rpc_env \<Rightarrow> string \<Rightarrow> ('w session, BdevNvmeControllerInfo list) io" where
  "BdevNvmeGetControllers c name =
     rpc c ''bdev_nvme_get_controllers'' (BdevNvmeGetControllersRequest name) (dec_list dec_BdevNvmeControllerInfo)"

text \<open>The temperature is a float64; every reading above 255 becomes -1.\<close>

definition UnknownTemperature :: int where
  "UnknownTemperature = -1"

definition BdevNvmeGetControllerHealthInfo ::
  "'w rpc_env \<Rightarrow> string \<Rightarrow> ('w session, BdevNvmeControllerHealthInfo) io" where
  "BdevNvmeGetControllerHealthInfo c name =
     io_bind (rpc c ''bdev_nvme_get_controller_health_info'' (BdevNvmeGetControllerHealthInfoRequest name)
         dec_BdevNvmeControllerHealthInfo)
       (\<lambda>healthInfo. io_return
          (if TemperatureCelsius healthInfo > 255 then healthInfo\<lparr> TemperatureCelsius := UnknownTemperature \<rparr>
           else healthInfo))"

definition BdevNvmeSetOptions :: "'w rpc_env \<Rightarrow> i32 \<Rightarrow> i32 \<Rightarrow> i32 \<Rightarrow> i32 \<Rightarrow> i32 \<Rightarrow> ('w session, bool) io" where
  "BdevNvmeSetOptions c ctrlrLossTimeoutSec reconnectDelaySec fastIOFailTimeoutSec transportAckTimeout keepAliveTimeoutMs =
     rpc c ''bdev_nvme_set_options'' (BdevNvmeSetOptionsRequest ctrlrLossTimeoutSec reconnectDelaySec fastIOFailTimeoutSec transportAckTimeout keepAliveTimeoutMs) dec_bool"

definition BdevNvmeGet :: "'w rpc_env \<Rightarrow> string \<Rightarrow> u64 \<Rightarrow> ('w session, BdevInfo list) io" where
  "BdevNvmeGet c name timeout =
     io_bind (rpc c ''bdev_get_bdevs'' (BdevGetBdevsRequest name timeout) (dec_list dec_BdevInfo))
       (\<lambda>bdevInfoList. io_return (of_type BdevTypeNvme bdevInfoList))"

definition BdevNvmeSetHotplug :: "'w rpc_env \<Rightarrow> bool \<Rightarrow> u64 \<Rightarrow> ('w session, bool) io" where
  "BdevNvmeSetHotplug c enable periodUs =
     rpc c ''bdev_nvme_set_hotplug'' (jmap [(''enable'', JBool enable), (''period_us'', jword periodUs)]) dec_bool"

section \<open>NVMe-oF target\<close>

definition NvmeTransportTypeTCP :: string where
  "NvmeTransportTypeTCP = ''tcp''"

definition NvmfCreateTransport :: "'w rpc_env \<Rightarrow> string \<Rightarrow> ('w session, bool) io" where
  "NvmfCreateTransport c trtype =
     (let tr = (if trtype = [] then NvmeTransportTypeTCP else trtype) in
      rpc c ''nvmf_create_transport'' (NvmfCreateTransportRequest tr) dec_bool)"

text \<open>\<open>StartExposeBdev\<close> tells a nil list from an empty one: the result is an option.\<close>

definition NvmfGetTransports :: "'w rpc_env \<Rightarrow> string \<Rightarrow> string \<Rightarrow> ('w session, NvmfTransport list option) io" where
  "NvmfGetTransports c trtype tgtName =
     rpc c ''nvmf_get_transports'' (NvmfGetTransportRequest tgtName trtype) (dec_slice dec_NvmfTransport)"

definition NvmfCreateSubsystem :: "'w rpc_env \<Rightarrow> string \<Rightarrow> bool \<Rightarrow> ('w session, bool) io" where
  "NvmfCreateSubsystem c nqn allowAnyHost =
     rpc c ''nvmf_create_subsystem'' (NvmfCreateSubsystemRequest nqn [] [] [] allowAnyHost False 0 0 0) dec_bool"

definition NvmfCreateSubsystemWithCntlid :: "'w rpc_env \<Rightarrow> string \<Rightarrow> u16 \<Rightarrow> u16 \<Rightarrow> ('w session, bool) io" where
  "NvmfCreateSubsystemWithCntlid c nqn minCntlid maxCntlid =
     rpc c ''nvmf_create_subsystem''
       (NvmfCreateSubsystemRequest nqn [] [] [] True True 0
          (if minCntlid > 0 then minCntlid else 0) (if maxCntlid > 0 then maxCntlid else 0))
       dec_bool"

definition NvmfSubsystemAddHost :: "'w rpc_env \<Rightarrow> string \<Rightarrow> string \<Rightarrow> ('w session, bool) io" where
  "NvmfSubsystemAddHost c nqn hostNQN =
     rpc c ''nvmf_subsystem_add_host'' (NvmfSubsystemAddHostRequest nqn hostNQN []) dec_bool"

definition NvmfDeleteSubsystem :: "'w rpc_env \<Rightarrow> string \<Rightarrow> string \<Rightarrow> ('w session, bool) io" where
  "NvmfDeleteSubsystem c nqn targetName =
     rpc c ''nvmf_delete_subsystem'' (NvmfDeleteSubsystemRequest nqn targetName) dec_bool"

definition NvmfGetSubsystems :: "'w rpc_env \<Rightarrow> string \<Rightarrow> string \<Rightarrow> ('w session, NvmfSubsystem list) io" where
  "NvmfGetSubsystems c nqn tgtName =
     rpc c ''nvmf_get_subsystems'' (NvmfGetSubsystemsRequest nqn tgtName) (dec_list dec_NvmfSubsystem)"

definition NvmfSubsystemAddNsWithUUID ::
  "'w rpc_env \<Rightarrow> string \<Rightarrow> string \<Rightarrow> string \<Rightarrow> string \<Rightarrow> ('w session, u32) io" where
  "NvmfSubsystemAddNsWithUUID c nqn bdevName nguid nsUUID =
     rpc c ''nvmf_subsystem_add_ns''
       (NvmfSubsystemAddNsRequest nqn
          \<lparr> NvmfSubsystemNamespace.Nsid = 0, NvmfSubsystemNamespace.BdevName = bdevName,
            NvmfSubsystemNamespace.Nguid = nguid, NvmfSubsystemNamespace.Eui64 = [],
            NvmfSubsystemNamespace.UUID = nsUUID, NvmfSubsystemNamespace.Anagrpid = [],
            NvmfSubsystemNamespace.PtplFile = [] \<rparr> [])
       dec_word"

definition NvmfSubsystemAddNs :: "'w rpc_env \<Rightarrow> string \<Rightarrow> string \<Rightarrow> string \<Rightarrow> ('w session, u32) io" where
  "NvmfSubsystemAddNs c nqn bdevName nguid = NvmfSubsystemAddNsWithUUID c nqn bdevName nguid []"

definition NvmfSubsystemRemoveNs :: "'w rpc_env \<Rightarrow> string \<Rightarrow> u32 \<Rightarrow> ('w session, bool) io" where
  "NvmfSubsystemRemoveNs c nqn nsid =
     rpc c ''nvmf_subsystem_remove_ns'' (NvmfSubsystemRemoveNsRequest nqn nsid []) dec_bool"

definition NvmfSubsystemsGetNss ::
  "'w rpc_env \<Rightarrow> string \<Rightarrow> string \<Rightarrow> u32 \<Rightarrow> ('w session, NvmfSubsystemNamespace list) io" where
  "NvmfSubsystemsGetNss c nqn bdevName nsid =
     io_bind (rpc c ''nvmf_get_subsystems'' (NvmfGetSubsystemsRequest [] []) (dec_list dec_NvmfSubsystem))
       (\<lambda>subsystemList. io_return
          (concat (map (\<lambda>subsystem.
             if NvmfSubsystem.Nqn subsystem \<noteq> nqn then []
             else filter (\<lambda>ns.
                 \<not> (nsid > 0 \<and> NvmfSubsystemNamespace.Nsid ns \<noteq> nsid) \<and>
                 \<not> (bdevName \<noteq> [] \<and> NvmfSubsystemNamespace.BdevName ns \<noteq> bdevName))
               (NvmfSubsystem.Namespaces subsystem)) subsystemList)))"

definition listen_address :: "string \<Rightarrow> string \<Rightarrow> string \<Rightarrow> string \<Rightarrow> NvmfSubsystemListenAddress" where
  "listen_address traddr trsvcid trtype adrfam =
     \<lparr> NvmfSubsystemListenAddress.Trtype = trtype, NvmfSubsystemListenAddress.Adrfam = adrfam,
       NvmfSubsystemListenAddress.Traddr = traddr, NvmfSubsystemListenAddress.Trsvcid = trsvcid \<rparr>"

definition NvmfSubsystemAddListener ::
  "'w rpc_env \<Rightarrow> string \<Rightarrow> string \<Rightarrow> string \<Rightarrow> string \<Rightarrow> string \<Rightarrow> ('w session, bool) io" where
  "NvmfSubsystemAddListener c nqn traddr trsvcid trtype adrfam =
     rpc c ''nvmf_subsystem_add_listener''
       (NvmfSubsystemAddListenerRequest nqn (listen_address traddr trsvcid trtype adrfam) []) dec_bool"

definition NvmfSubsystemRemoveListener ::
  "'w rpc_env \<Rightarrow> string \<Rightarrow> string \<Rightarrow> string \<Rightarrow> string \<Rightarrow> string \<Rightarrow> ('w session, bool) io" where
  "NvmfSubsystemRemoveListener c nqn traddr trsvcid trtype adrfam =
     rpc c ''nvmf_subsystem_remove_listener''
       (NvmfSubsystemRemoveListenerRequest nqn (listen_address traddr trsvcid trtype adrfam) []) dec_bool"

definition DefaultNvmfANAGroupID :: u32 where
  "DefaultNvmfANAGroupID = 1"

definition NvmfSubsystemListenerSetANAState ::
  "'w rpc_env \<Rightarrow> string \<Rightarrow> string \<Rightarrow> string \<Rightarrow> string \<Rightarrow> string \<Rightarrow> string \<Rightarrow> u32 \<Rightarrow> ('w session, bool) io" where
  "NvmfSubsystemListenerSetANAState c nqn traddr trsvcid trtype adrfam anaState anaGrpid =
     (let grp = (if anaGrpid = 0 then DefaultNvmfANAGroupID else anaGrpid) in
      rpc c ''nvmf_subsystem_listener_set_ana_state''
        (NvmfSubsystemListenerSetANAStateRequest nqn (listen_address traddr trsvcid trtype adrfam) anaState grp [])
        dec_bool)"

definition NvmfSubsystemGetListeners :: "'w rpc_env \<Rightarrow> string \<Rightarrow> string \<Rightarrow> ('w session, NvmfSubsystemListener list) io" where
  "NvmfSubsystemGetListeners c nqn tgtName =
     rpc c ''nvmf_subsystem_get_listeners'' (NvmfSubsystemGetListenersRequest nqn tgtName) (dec_list dec_NvmfSubsystemListener)"

section \<open>Log\<close>

definition LogSetFlag :: "'w rpc_env \<Rightarrow> string \<Rightarrow> ('w session, bool) io" where
  "LogSetFlag c flag =
     rpc c ''log_set_flag'' (LogSetFlagRequest flag) dec_bool"

definition LogClearFlag :: "'w rpc_env \<Rightarrow> string \<Rightarrow> ('w session, bool) io" where
  "LogClearFlag c flag =
     rpc c ''log_clear_flag'' (LogClearFlagRequest flag) dec_bool"

definition LogGetFlags :: "'w rpc_env \<Rightarrow> ('w session, (string \<rightharpoonup> bool)) io" where
  "LogGetFlags c =
     rpc c ''log_get_flags'' LogGetFlagsRequest (dec_map dec_bool)"

definition LogSetLevel :: "'w rpc_env \<Rightarrow> string \<Rightarrow> ('w session, bool) io" where
  "LogSetLevel c level =
     rpc c ''log_set_level'' (LogSetLevelRequest level) dec_bool"

definition LogSetPrintLevel :: "'w rpc_env \<Rightarrow> string \<Rightarrow> ('w session, bool) io" where
  "LogSetPrintLevel c level =
     rpc c ''log_set_print_level'' (LogSetPrintLevelRequest level) dec_bool"

text \<open>The two getters trim quotes and newlines off the text of the output.\<close>

definition unquoted_output :: "json \<Rightarrow> string" where
  "unquoted_output out = trim_cutset [CHR 0x22, newline] (encoder_text out)"

definition LogGetLevel :: "'w rpc_env \<Rightarrow> ('w session, string) io" where
  "LogGetLevel c =
     io_bind (SendCommand c ''log_get_level'' LogGetLevelRequest) (\<lambda>level. io_return (unquoted_output level))"

definition LogGetPrintLevel :: "'w rpc_env \<Rightarrow> ('w session, string) io" where
  "LogGetPrintLevel c =
     io_bind (SendCommand c ''log_get_print_level'' LogGetPrintLevelRequest)
       (\<lambda>level. io_return (unquoted_output level))"

end
