(* ===== verification/SpdkEc.thy ===== *)
theory SpdkEc
  imports SpdkClient
begin

text \<open>
  The erasure-coding methods of \<open>pkg/spdk/client/ec.go\<close>. Two fields are not sent by SPDK and derived
  here: the state of an EC bdev and the state of a rebuild.
\<close>

definition BdevEcStateOnline :: string where [const_defs]: "BdevEcStateOnline = ''online''"
definition BdevEcStateDegraded :: string where [const_defs]: "BdevEcStateDegraded = ''degraded''"
definition BdevEcStateOffline :: string where [const_defs]: "BdevEcStateOffline = ''offline''"
definition BdevEcRebuildStateIdle :: string where [const_defs]: "BdevEcRebuildStateIdle = ''idle''"
definition BdevEcRebuildStateRunning :: string where [const_defs]: "BdevEcRebuildStateRunning = ''running''"
definition BdevEcRebuildStateDone :: string where [const_defs]: "BdevEcRebuildStateDone = ''done''"
definition BdevEcRebuildStateError :: string where [const_defs]: "BdevEcRebuildStateError = ''error''"

definition bdevEcState :: "BdevEcInfo \<Rightarrow> string" where
  "bdevEcState info =
     (if Offline info then BdevEcStateOffline
      else if FailedCount info > 0 then BdevEcStateDegraded
      else BdevEcStateOnline)"

definition set_rebuild_state :: "BdevEcRebuildProgress \<Rightarrow> BdevEcRebuildProgress" where
  "set_rebuild_state progress =
     (if BdevEcRebuildProgress.PercentComplete progress = 100
      then progress\<lparr> RebuildState := BdevEcRebuildStateDone \<rparr>
      else progress\<lparr> RebuildState := BdevEcRebuildStateRunning \<rparr>)"

definition BdevEcCreate ::
  "'w rpc_env \<Rightarrow> string \<Rightarrow> u32 \<Rightarrow> u32 \<Rightarrow> u32 \<Rightarrow> string list option \<Rightarrow> bool \<Rightarrow> ('w session, string) io" where
  "BdevEcCreate c name dataChunks parityChunks stripSizeKB baseBdevs salvageRequested =
     io_bind (rpc c ''bdev_ec_create''
         (BdevEcCreateRequest name dataChunks parityChunks stripSizeKB baseBdevs salvageRequested) dec_bool)
       (\<lambda>created.
          if \<not> created then io_fail (PlainErr (''bdev_ec_create returned false for '' @ name))
          else io_return name)"

definition BdevEcDelete :: "'w rpc_env \<Rightarrow> string \<Rightarrow> ('w session, bool) io" where
  "BdevEcDelete c name =
     rpc c ''bdev_ec_delete'' (BdevEcDeleteRequest name) dec_bool"

text \<open>The loop over the list: both derived states are filled in.\<close>

definition derive_states :: "BdevEcInfo \<Rightarrow> BdevEcInfo" where
  "derive_states info =
     (let info' = info\<lparr> BdevEcInfo.State := bdevEcState info \<rparr> in
      if RebuildInProgress info'
      then info'\<lparr> RebuildProgress := map_option set_rebuild_state (RebuildProgress info') \<rparr>
      else info')"

definition BdevEcGetBdevs :: "'w rpc_env \<Rightarrow> string \<Rightarrow> ('w session, BdevEcInfo list) io" where
  "BdevEcGetBdevs c name =
     io_bind (rpc c ''bdev_ec_get_bdevs'' (BdevEcGetBdevsRequest name) (dec_list dec_BdevEcInfo))
       (\<lambda>bdevEcInfoList. io_return (map derive_states bdevEcInfoList))"

definition BdevEcReplaceBaseBdev :: "'w rpc_env \<Rightarrow> string \<Rightarrow> u32 \<Rightarrow> string \<Rightarrow> ('w session, BdevEcReplaceBaseBdevResponse) io" where
  "BdevEcReplaceBaseBdev c name slot newBdevName =
     rpc c ''bdev_ec_replace_base_bdev'' (BdevEcReplaceBaseBdevRequest name slot newBdevName) dec_BdevEcReplaceBaseBdevResponse"

definition BdevEcStartRebuild :: "'w rpc_env \<Rightarrow> string \<Rightarrow> ('w session, BdevEcStartRebuildResponse) io" where
  "BdevEcStartRebuild c name =
     rpc c ''bdev_ec_start_rebuild'' (BdevEcStartRebuildRequest name) dec_BdevEcStartRebuildResponse"

text \<open>This method returns a progress along with its error, so the error is part of the result. After a
  decoding error the fields read so far are left out of the model.\<close>

definition no_progress :: BdevEcRebuildProgress where
  "no_progress = \<lparr> BdevEcRebuildProgress.EcName = [], BdevEcRebuildProgress.CurrentSlot = 0,
     BdevEcRebuildProgress.CurrentStripe = 0, BdevEcRebuildProgress.NumStripes = 0,
     BdevEcRebuildProgress.StripesRebuilt = 0, BdevEcRebuildProgress.SlotsToRebuild = 0,
     BdevEcRebuildProgress.PercentComplete = 0, BdevEcRebuildProgress.RebuildState = [] \<rparr>"

definition BdevEcGetRebuildProgress ::
  "'w rpc_env \<Rightarrow> string \<Rightarrow> 'w session \<Rightarrow> (BdevEcRebuildProgress \<times> go_error option) \<times> 'w session" where
  "BdevEcGetRebuildProgress c name s =
     (case SendCommand c ''bdev_ec_get_rebuild_progress'' (BdevEcGetRebuildProgressRequest name) s of
        (Inl err, s') \<Rightarrow>
          if IsJSONRPCRespErrorNoEntry err
          then ((no_progress\<lparr> RebuildState := BdevEcRebuildStateIdle \<rparr>, None), s')
          else ((no_progress\<lparr> RebuildState := BdevEcRebuildStateError \<rparr>, Some err), s')
      | (Inr cmdOutput, s') \<Rightarrow>
          (case dec_BdevEcRebuildProgress cmdOutput of
             Inl err \<Rightarrow> ((no_progress, Some err), s')
           | Inr progress \<Rightarrow> ((set_rebuild_state progress, None), s')))"

definition BdevEcStopRebuild :: "'w rpc_env \<Rightarrow> string \<Rightarrow> ('w session, bool) io" where
  "BdevEcStopRebuild c name =
     rpc c ''bdev_ec_stop_rebuild'' (BdevEcStopRebuildRequest name) dec_bool"

definition BdevEcSetRebuildQos :: "'w rpc_env \<Rightarrow> string \<Rightarrow> u32 \<Rightarrow> bool \<Rightarrow> ('w session, bool) io" where
  "BdevEcSetRebuildQos c name maxStripesPerSec paused =
     rpc c ''bdev_ec_set_rebuild_qos'' (BdevEcSetRebuildQosRequest name maxStripesPerSec paused) dec_bool"

definition BdevEcResize :: "'w rpc_env \<Rightarrow> string \<Rightarrow> ('w session, BdevEcResizeResponse) io" where
  "BdevEcResize c name =
     rpc c ''bdev_ec_resize'' (BdevEcResizeRequest name) dec_BdevEcResizeResponse"

definition BdevEcGetWibStatus :: "'w rpc_env \<Rightarrow> string \<Rightarrow> ('w session, BdevEcWibStatus) io" where
  "BdevEcGetWibStatus c name =
     rpc c ''bdev_ec_get_wib_status'' (BdevEcGetWibStatusRequest name) dec_BdevEcWibStatus"

definition BdevEcGetUnmapStatus :: "'w rpc_env \<Rightarrow> string \<Rightarrow> ('w session, BdevEcUnmapStatus) io" where
  "BdevEcGetUnmapStatus c name =
     rpc c ''bdev_ec_get_unmap_status'' (BdevEcGetUnmapStatusRequest name) dec_BdevEcUnmapStatus"

text \<open>No scrub is a nil result, not an error.\<close>

definition BdevEcGetScrubProgress :: "'w rpc_env \<Rightarrow> string \<Rightarrow> ('w session, BdevEcScrubProgress option) io" where
  "BdevEcGetScrubProgress c name =
     io_case (SendCommand c ''bdev_ec_get_scrub_progress'' (BdevEcGetScrubProgressRequest name))
       (\<lambda>err. if IsJSONRPCRespErrorNoEntry err then io_return None else io_fail err)
       (\<lambda>cmdOutput. io_lift (map_sum id Some (dec_BdevEcScrubProgress cmdOutput)))"

end
