(* ===== verification/SpdkUblk.thy ===== *)
theory SpdkUblk
  imports SpdkClient UblkIds
begin

text \<open>
  The ublk methods of \<open>pkg/spdk/client/ublk.go\<close>.
\<close>

definition dec_UblkDevice :: "UblkDevice decoder" where
  "dec_UblkDevice = dec_fields (\<lambda>kvs.
     get_field ''bdev_name'' dec_string kvs (\<lambda>x1.
     get_field ''id'' dec_signed kvs (\<lambda>x2.
     get_field ''num_queues'' dec_signed kvs (\<lambda>x3.
     get_field ''queue_depth'' dec_signed kvs (\<lambda>x4.
     get_field ''ublk_device'' dec_string kvs (\<lambda>x5.
     Inr \<lparr> ublk_bdev_name = x1, ublk_id = x2, ublk_num_queues = x3, ublk_queue_depth = x4,
           ublk_device = x5 \<rparr>))))))"

text \<open>The target is a singleton: an already created one counts as success.\<close>

definition UblkCreateTarget :: "'w rpc_env \<Rightarrow> string \<Rightarrow> bool \<Rightarrow> ('w session, unit) io" where
  "UblkCreateTarget c cpumask disableUserCopy =
     io_case (SendCommand c ''ublk_create_target'' (UblkCreateTargetRequest cpumask disableUserCopy))
       (\<lambda>err. if IsJSONRPCRespErrorDeviceOrResourceBusy err then io_return () else io_fail err)
       (\<lambda>_. io_return ())"

definition UblkDestroyTarget :: "'w rpc_env \<Rightarrow> ('w session, unit) io" where
  "UblkDestroyTarget c = rpc c ''ublk_destroy_target'' (JObj []) dec_any"

definition UblkGetDisks :: "'w rpc_env \<Rightarrow> i32 \<Rightarrow> ('w session, UblkDevice list) io" where
  "UblkGetDisks c ublkID = rpc c ''ublk_get_disks'' (UblkGetDisksRequest ublkID) (dec_list dec_UblkDevice)"

definition UblkStartDisk :: "'w rpc_env \<Rightarrow> string \<Rightarrow> i32 \<Rightarrow> i32 \<Rightarrow> i32 \<Rightarrow> ('w session, unit) io" where
  "UblkStartDisk c bdevName ublkId queueDepth numQueues =
     rpc c ''ublk_start_disk'' (UblkStartDiskRequest bdevName ublkId queueDepth numQueues) dec_any"

definition UblkRecoverDisk :: "'w rpc_env \<Rightarrow> string \<Rightarrow> i32 \<Rightarrow> ('w session, unit) io" where
  "UblkRecoverDisk c bdevName ublkId =
     rpc c ''ublk_recover_disk'' (UblkRecoverDiskRequest bdevName ublkId) dec_any"

definition UblkStopDisk :: "'w rpc_env \<Rightarrow> i32 \<Rightarrow> ('w session, unit) io" where
  "UblkStopDisk c ublkId = rpc c ''ublk_stop_disk'' (UblkStopDiskRequest ublkId) dec_any"

text \<open>The loop keeps the path found so far; an empty path counts as not found.\<close>

fun find_device_path :: "i32 \<Rightarrow> string \<Rightarrow> UblkDevice list \<Rightarrow> go_error + string" where
  "find_device_path ublkID devicePath [] = Inr devicePath"
| "find_device_path ublkID devicePath (d # ds) =
     (if ublk_id d = ublkID
      then (if devicePath \<noteq> []
            then Inl (PlainErr (''found multiple ublk device with the id '' @ itoa (sint ublkID)))
            else find_device_path ublkID (ublk_device d) ds)
      else find_device_path ublkID devicePath ds)"

definition FindUblkDevicePath :: "'w rpc_env \<Rightarrow> i32 \<Rightarrow> ('w session, string) io" where
  "FindUblkDevicePath c ublkID =
     io_bind (UblkGetDisks c ublkID) (\<lambda>ublkDeviceList. io_lift (find_device_path ublkID [] ublkDeviceList))"

end
