(* ===== verification/SpdkNvmfFacts.thy ===== *)
theory SpdkNvmfFacts
  imports SpdkNvmf SpdkEc SpdkUblk
begin

text \<open>
  Properties of the NVMe-oF, log, erasure-coding and ublk methods.
\<close>

section \<open>Namespaces\<close>

text \<open>
  The ANA group id of a namespace reads the same whether SPDK sends it as a number or as the
  decimal string of that number; null and an absent field read as empty; a number outside 32 bits and
  any other value is an error.
\<close>

theorem anagrpid_string_or_number:
  "dec_NvmfANAGroupID (JNum (uint w)) = dec_anagrpid (JStr (itoa (uint w))) \<and>
   dec_anagrpid (JNum (uint (w :: u32))) = Inr (itoa (uint w)) \<and>
   dec_anagrpid (JStr (itoa (uint w))) = Inr (itoa (uint w)) \<and>
   dec_anagrpid JNull = Inr [] \<and>
   (n < 0 \<or> 4294967296 \<le> n \<longrightarrow> isl (dec_anagrpid (JNum n))) \<and>
   isl (dec_anagrpid (JBool b)) \<and> isl (dec_anagrpid (JArr js)) \<and> isl (dec_anagrpid (JObj kvs))"
proof -
  have "dec_word (JNum (uint w)) = Inr w"
    using dec_word_jword [of w] by (simp add: jword_def)
  then show ?thesis
    by (auto simp: dec_anagrpid_def dec_NvmfANAGroupID_def dec_group_id_def dec_string_def dec_word_def)
qed

theorem anagrpid_string_or_number_witness:
  "isl (dec_anagrpid (JNum 4294967296))"
  using anagrpid_string_or_number [of 0 4294967296 False "[]" "[]"] by simp

text \<open>
  \<open>NvmfSubsystemsGetNss\<close> lists exactly the namespaces of the subsystems with the given NQN
  that have the given id, if one is given, and the given bdev, if one is given.
\<close>

theorem NvmfSubsystemsGetNss_exact:
  assumes "dec_list dec_NvmfSubsystem reported = Inr subs"
  shows "\<exists>nss. fst (NvmfSubsystemsGetNss scripted nqn bdevName nsid (new_session [answer reported])) = Inr nss \<and>
    (\<forall>ns. ns \<in> set nss \<longleftrightarrow>
       (\<exists>sub \<in> set subs. NvmfSubsystem.Nqn sub = nqn \<and> ns \<in> set (NvmfSubsystem.Namespaces sub)) \<and>
       (nsid = 0 \<or> NvmfSubsystemNamespace.Nsid ns = nsid) \<and>
       (bdevName = [] \<or> NvmfSubsystemNamespace.BdevName ns = bdevName))"
  using assms
  by (auto simp: NvmfSubsystemsGetNss_def new_session_def io_bind_def io_return_def word_gt_0 split: if_splits)

theorem NvmfSubsystemsGetNss_exact_witness:
  "\<exists>nss. fst (NvmfSubsystemsGetNss scripted ''a'' [] 0 (new_session [answer (JArr [])])) = Inr nss \<and>
    (\<forall>ns. ns \<in> set nss \<longleftrightarrow>
       (\<exists>sub \<in> set []. NvmfSubsystem.Nqn sub = ''a'' \<and> ns \<in> set (NvmfSubsystem.Namespaces sub)) \<and>
       (0 = (0 :: u32) \<or> NvmfSubsystemNamespace.Nsid ns = 0) \<and>
       ([] = ([] :: string) \<or> NvmfSubsystemNamespace.BdevName ns = []))"
  using NvmfSubsystemsGetNss_exact [of "JArr []" "[]" "''a''" "[]" 0] by (simp add: dec_list_def dec_slice_def)

section \<open>Log levels\<close>

definition trimmable :: "char \<Rightarrow> bool" where
  "trimmable c = (c \<in> set [CHR 0x22, newline])"

lemma plain_not_trimmable: "plain_char c \<Longrightarrow> \<not> trimmable c"
  by (auto simp: plain_char_def trimmable_def newline_def escape_char_def)

text \<open>
  The log level getters return the level SPDK reports, without the quotes and the newline of
  its encoding, for every level of characters that need no escaping.
\<close>

theorem log_level_returned:
  assumes plain: "\<forall>ch \<in> set level. plain_char ch"
  shows "fst (LogGetLevel scripted (new_session [answer (JStr level)])) = Inr level \<and>
    fst (LogGetPrintLevel scripted (new_session [answer (JStr level)])) = Inr level"
proof -
  have t: "dropWhile trimmable (s @ [CHR 0x22, newline]) = (if s = [] then [] else s @ [CHR 0x22, newline])"
    if "\<forall>ch \<in> set s. \<not> trimmable ch" for s
    using that by (cases s) (auto simp: trimmable_def)
  have nt: "\<forall>ch \<in> set level. \<not> trimmable ch"
    using plain plain_not_trimmable by blast
  have d: "dropWhile trimmable (rev level) = rev level"
    using nt by (cases "rev level") (auto simp: dropWhile_eq_self_iff simp del: rev_is_Nil_conv)
  have "trim_func trimmable (CHR 0x22 # level @ [CHR 0x22, newline]) = level"
    using t [OF nt] d by (simp add: trim_func_def trimmable_def)
  moreover have "(\<lambda>c. c \<in> set [CHR 0x22, newline]) = trimmable"
    by (simp add: trimmable_def fun_eq_iff)
  ultimately have "unquoted_output (JStr level) = level"
    using quoted_plain [OF plain] unfolding unquoted_output_def encoder_text_def trim_cutset_def by simp
  then show ?thesis
    by (simp add: LogGetLevel_def LogGetPrintLevel_def SendCommand_def new_session_def io_bind_def io_return_def)
qed

theorem log_level_returned_witness:
  "fst (LogGetLevel scripted (new_session [answer (JStr ''NOTICE'')])) = Inr ''NOTICE''"
  using log_level_returned [of "''NOTICE''"] by (simp add: plain_char_def escape_char_def)

section \<open>Erasure coding\<close>

text \<open>
  The rebuild progress is classified without overlap: an error is reported exactly when the
  state is \<open>error\<close> or, for a reply that does not decode, empty; the state is \<open>idle\<close> only if SPDK answered
  -ENOENT; a decoded reply is \<open>done\<close> exactly at 100 percent and \<open>running\<close> otherwise.
\<close>

theorem rebuild_progress_classified:
  assumes "BdevEcGetRebuildProgress c name s = ((progress, err), s')"
  shows "(err = None \<longleftrightarrow> RebuildState progress \<in> {''idle'', ''done'', ''running''}) \<and>
    (RebuildState progress = ''idle'' \<longleftrightarrow> (\<exists>e.
       fst (SendCommand c ''bdev_ec_get_rebuild_progress'' (BdevEcGetRebuildProgressRequest name) s) = Inl e \<and>
       IsJSONRPCRespErrorNoEntry e)) \<and>
    (RebuildState progress = ''done'' \<longrightarrow> BdevEcRebuildProgress.PercentComplete progress = 100) \<and>
    (RebuildState progress = ''running'' \<longrightarrow> BdevEcRebuildProgress.PercentComplete progress \<noteq> 100)"
  using assms
  by (auto simp: BdevEcGetRebuildProgress_def set_rebuild_state_def no_progress_def const_defs
      split: prod.splits sum.splits if_splits)

theorem rebuild_progress_classified_witness:
  "RebuildState (fst (fst (BdevEcGetRebuildProgress scripted ''ec0''
      (new_session [refusal (-2) ''No such file or directory''])))) = ''idle''"
proof -
  let ?run = "BdevEcGetRebuildProgress scripted ''ec0'' (new_session [refusal (-2) ''No such file or directory''])"
  have "?run = ((fst (fst ?run), snd (fst ?run)), snd ?run)" by simp
  from rebuild_progress_classified [OF this] show ?thesis
    by (simp add: SendCommand_def new_session_def IsJSONRPCRespErrorNoEntry_def const_defs)
qed

text \<open>
  Listed EC bdevs carry the derived state: offline wins over degraded, degraded means at
  least one failed base bdev, online none; the order, number and every other field of the reply are kept.
\<close>

theorem ec_states_derived:
  assumes "BdevEcGetBdevs c name s = (Inr out, s')"
  shows "\<exists>infos s1. rpc c ''bdev_ec_get_bdevs'' (BdevEcGetBdevsRequest name) (dec_list dec_BdevEcInfo) s = (Inr infos, s1) \<and>
    list_all2 (\<lambda>i x. BdevEcInfo.State x = (if Offline i then ''offline'' else if FailedCount i = 0 then ''online'' else ''degraded'') \<and>
        x\<lparr> BdevEcInfo.State := BdevEcInfo.State i, RebuildProgress := RebuildProgress i \<rparr> = i) infos out"
proof -
  from assms obtain infos s1 where
    r: "rpc c ''bdev_ec_get_bdevs'' (BdevEcGetBdevsRequest name) (dec_list dec_BdevEcInfo) s = (Inr infos, s1)"
    and out: "out = map derive_states infos"
    by (auto simp: BdevEcGetBdevs_def io_bind_eq_Inr io_return_def)
  have "list_all2 (\<lambda>i x. BdevEcInfo.State x = (if Offline i then ''offline'' else if FailedCount i = 0 then ''online'' else ''degraded'') \<and>
        x\<lparr> BdevEcInfo.State := BdevEcInfo.State i, RebuildProgress := RebuildProgress i \<rparr> = i) infos out"
    unfolding out list.rel_map
    by (rule list.rel_refl_strong)
      (auto simp: derive_states_def bdevEcState_def const_defs word_gt_0 Let_def)
  with r show ?thesis by blast
qed

definition degraded_json :: json where
  "degraded_json = JArr [JObj [(''failed_count'', JNum 1)]]"

definition degraded_info :: BdevEcInfo where
  "degraded_info =
     \<lparr> BdevEcInfo.Name = [], BdevEcInfo.DataChunks = 0, BdevEcInfo.ParityChunks = 0,
     BdevEcInfo.TotalChunks = 0, BdevEcInfo.StripSizeKB = 0, BdevEcInfo.FailedCount = 1,
     BdevEcInfo.Offline = False, BdevEcInfo.ReplaceInProgress = False, BdevEcInfo.RebuildInProgress
     = False, BdevEcInfo.DirtyStripes = 0, BdevEcInfo.RmwInFlight = 0, BdevEcInfo.RmwTotal = 0,
     BdevEcInfo.RmwDeferredScrub = 0, BdevEcInfo.RmwDeferredDirty = 0,
     BdevEcInfo.RmwDeferredInflight = 0, BdevEcInfo.FullStripeWrites = 0,
     BdevEcInfo.FullStripeWritesDeferred = 0, BdevEcInfo.UnmapsSubmitted = 0,
     BdevEcInfo.UnmapsCompleted = 0, BdevEcInfo.UnmapsDeferredBusy = 0,
     BdevEcInfo.UnmapsViaWriteZeros = 0, BdevEcInfo.UnmapsFailed = 0, BdevEcInfo.UnmapFanoutMisses =
     0, BdevEcInfo.UnmappedReadsSynthesized = 0, BdevEcInfo.WritesIntoUnmapped = 0,
     BdevEcInfo.WritesIntoUnmappedFailed = 0, BdevEcInfo.UnmappedStripes = 0,
     BdevEcInfo.DegradedReadsReconstructed = 0, BdevEcInfo.DegradedReadEioDirty = 0,
     BdevEcInfo.RebuildProgress = None, BdevEcInfo.BaseBdevs = [], BdevEcInfo.State = [] \<rparr>"

lemma degraded_decodes: "dec_list dec_BdevEcInfo degraded_json = Inr [degraded_info]"
  by (simp add: degraded_json_def degraded_info_def dec_BdevEcInfo_def decoder_defs)

theorem ec_states_derived_witness:
  "\<exists>infos. list_all2 (\<lambda>i x. BdevEcInfo.State x = (if Offline i then ''offline'' else if FailedCount i = 0 then ''online'' else ''degraded'') \<and>
        x\<lparr> BdevEcInfo.State := BdevEcInfo.State i, RebuildProgress := RebuildProgress i \<rparr> = i) infos [derive_states degraded_info]"
proof -
  have "BdevEcGetBdevs scripted [] (new_session [answer degraded_json]) = (Inr [derive_states degraded_info],
      snd (BdevEcGetBdevs scripted [] (new_session [answer degraded_json])))"
    by (simp add: BdevEcGetBdevs_def new_session_def io_bind_def io_return_def degraded_decodes)
  from ec_states_derived [OF this] show ?thesis by blast
qed

section \<open>ublk devices\<close>

definition paths_of :: "i32 \<Rightarrow> UblkDevice list \<Rightarrow> string list" where
  "paths_of i ds = map ublk_device (filter (\<lambda>d. ublk_id d = i) ds)"

lemma find_device_path_eq:
  "find_device_path i p ds =
     (if \<forall>x \<in> set (butlast (p # paths_of i ds)). x = [] then Inr (last (p # paths_of i ds))
      else Inl (PlainErr (''found multiple ublk device with the id '' @ itoa (sint i))))"
  by (induction ds arbitrary: p) (auto simp: paths_of_def)

text \<open>
  \<open>FindUblkDevicePath\<close> returns the path of the device with the id, or the empty path if SPDK
  lists none; it fails exactly when SPDK lists the id again after a device with a path. So as long as ids are
  unique it never fails on SPDK's answer.
\<close>

theorem FindUblkDevicePath_result:
  assumes "dec_list dec_UblkDevice reported = Inr ds"
  shows "(let r = fst (FindUblkDevicePath scripted i (new_session [answer reported])) in
      (isl r \<longleftrightarrow> (\<exists>x \<in> set (butlast (paths_of i ds)). x \<noteq> [])) \<and>
      (distinct (map ublk_id ds) \<longrightarrow> r = Inr (case find (\<lambda>d. ublk_id d = i) ds of None \<Rightarrow> [] | Some d \<Rightarrow> ublk_device d)))"
proof -
  have run: "fst (FindUblkDevicePath scripted i (new_session [answer reported])) = find_device_path i [] ds"
    using assms by (simp add: FindUblkDevicePath_def UblkGetDisks_def new_session_def io_bind_def io_lift_def)
  have one: "paths_of i ds = (case find (\<lambda>d. ublk_id d = i) ds of None \<Rightarrow> [] | Some d \<Rightarrow> [ublk_device d])"
    if "distinct (map ublk_id ds)" for ds
    using that
  proof (induction ds)
    case (Cons d ds)
    have "ublk_id d = i \<Longrightarrow> filter (\<lambda>d. ublk_id d = i) ds = []"
      using Cons.prems by (auto simp: filter_empty_conv image_iff)
    then show ?case
      using Cons by (simp add: paths_of_def)
  qed (simp add: paths_of_def)
  show ?thesis
    unfolding Let_def run
  proof (intro conjI impI)
    show "isl (find_device_path i [] ds) \<longleftrightarrow> (\<exists>x \<in> set (butlast (paths_of i ds)). x \<noteq> [])"
      by (simp add: find_device_path_eq)
    show "find_device_path i [] ds = Inr (case find (\<lambda>d. ublk_id d = i) ds of None \<Rightarrow> [] | Some d \<Rightarrow> ublk_device d)"
      if "distinct (map ublk_id ds)"
      using one [OF that] by (simp add: find_device_path_eq split: option.split)
  qed
qed

definition disks_json :: json where
  "disks_json = JArr [JObj [(''id'', JNum 3), (''ublk_device'', JStr ''/dev/ublkb3'')]]"

theorem FindUblkDevicePath_result_witness:
  "fst (FindUblkDevicePath scripted 3 (new_session [answer disks_json])) = Inr ''/dev/ublkb3''"
proof -
  have "dec_list dec_UblkDevice disks_json = Inr [\<lparr> ublk_bdev_name = [], ublk_id = 3, ublk_num_queues = 0,
      ublk_queue_depth = 0, ublk_device = ''/dev/ublkb3'' \<rparr>]"
    by (simp add: disks_json_def dec_UblkDevice_def decoder_defs)
  from FindUblkDevicePath_result [OF this, of 3] show ?thesis by (simp add: Let_def)
qed

text \<open>
  Creating the ublk target is idempotent: if SPDK answers that the target is busy, with the
  errno or with its message in any letter case, the call succeeds; every other error is passed on
  unchanged.
\<close>

theorem UblkCreateTarget_idempotent:
  "fst (UblkCreateTarget scripted cpumask user_copy (new_session [refusal code msg])) =
     (if code = -16 \<or> contains ''device or resource busy'' (to_lower msg) then Inr ()
      else Inl (ClientErr 7 ''ublk_create_target'' ''{}'' (ResponseErr code msg)))"
  by (simp add: UblkCreateTarget_def SendCommand_def new_session_def io_case_def io_return_def io_fail_def
      IsJSONRPCRespErrorDeviceOrResourceBusy_def const_defs)

section \<open>NVMe health\<close>

text \<open>
  A health report never carries an implausible temperature: it is the one SPDK sent if that is
  at most 255, and -1 otherwise, so the wrapped values SPDK computes for an unknown temperature are
  recognisable.
\<close>

theorem temperature_clamped:
  assumes "BdevNvmeGetControllerHealthInfo c name s = (Inr info, s')"
  shows "TemperatureCelsius info \<le> 255 \<and>
    (\<exists>reported s1. rpc c ''bdev_nvme_get_controller_health_info'' (BdevNvmeGetControllerHealthInfoRequest name)
        dec_BdevNvmeControllerHealthInfo s = (Inr reported, s1) \<and>
       info = (if TemperatureCelsius reported \<le> 255 then reported
               else reported\<lparr> TemperatureCelsius := -1 \<rparr>))"
proof -
  from assms obtain reported where
    r: "rpc c ''bdev_nvme_get_controller_health_info'' (BdevNvmeGetControllerHealthInfoRequest name)
        dec_BdevNvmeControllerHealthInfo s = (Inr reported, s')"
    and info: "info = (if TemperatureCelsius reported > 255 then reported\<lparr> TemperatureCelsius := UnknownTemperature \<rparr>
         else reported)"
    by (auto simp: BdevNvmeGetControllerHealthInfo_def io_bind_eq_Inr io_return_def)
  show ?thesis
    using r by (simp add: info UnknownTemperature_def)
qed

definition wrapped_json :: json where
  "wrapped_json = JObj [(''temperature_celsius'', JNum 18446744073709551343)]"

definition wrapped_info :: BdevNvmeControllerHealthInfo where
  "wrapped_info =
     \<lparr> BdevNvmeControllerHealthInfo.ModelNumber = [],
     BdevNvmeControllerHealthInfo.SerialNumber = [], BdevNvmeControllerHealthInfo.FirmwareRevision =
     [], BdevNvmeControllerHealthInfo.Traddr = [], BdevNvmeControllerHealthInfo.CriticalWarning = 0,
     BdevNvmeControllerHealthInfo.TemperatureCelsius = 18446744073709551343,
     BdevNvmeControllerHealthInfo.AvailableSparePercentage = 0,
     BdevNvmeControllerHealthInfo.AvailableSpareThresholdPercentage = 0,
     BdevNvmeControllerHealthInfo.PercentageUsed = 0, BdevNvmeControllerHealthInfo.DataUnitsRead =
     0, BdevNvmeControllerHealthInfo.DataUnitsWritten = 0,
     BdevNvmeControllerHealthInfo.HostReadCommands = 0,
     BdevNvmeControllerHealthInfo.HostWriteCommands = 0,
     BdevNvmeControllerHealthInfo.ControllerBusyTime = 0, BdevNvmeControllerHealthInfo.PowerCycles =
     0, BdevNvmeControllerHealthInfo.PowerOnHours = 0, BdevNvmeControllerHealthInfo.UnsafeShutdowns
     = 0, BdevNvmeControllerHealthInfo.MediaErrors = 0,
     BdevNvmeControllerHealthInfo.NumErrLogEntries = 0,
     BdevNvmeControllerHealthInfo.WarningTemperatureTimeMinutes = 0,
     BdevNvmeControllerHealthInfo.CriticalCompositeTemperatureTimeMinutes = 0 \<rparr>"

lemma wrapped_decodes: "dec_BdevNvmeControllerHealthInfo wrapped_json = Inr wrapped_info"
  by (simp add: wrapped_json_def wrapped_info_def dec_BdevNvmeControllerHealthInfo_def decoder_defs)

theorem temperature_clamped_witness:
  "TemperatureCelsius (wrapped_info\<lparr> TemperatureCelsius := -1 \<rparr>) \<le> 255"
proof -
  have "BdevNvmeGetControllerHealthInfo scripted ''nvme0'' (new_session [answer wrapped_json]) =
      (Inr (wrapped_info\<lparr> TemperatureCelsius := -1 \<rparr>),
       snd (BdevNvmeGetControllerHealthInfo scripted ''nvme0'' (new_session [answer wrapped_json])))"
    by (simp add: BdevNvmeGetControllerHealthInfo_def new_session_def io_bind_def io_return_def wrapped_decodes
        UnknownTemperature_def wrapped_info_def)
  from temperature_clamped [OF this] show ?thesis by blast
qed

end
