(* ===== verification/NvmeAddr.thy ===== *)
theory NvmeAddr
  imports GoStrings
begin

text \<open>
  Addresses and device names: \<open>pkg/util/nvme.go\<close>, the standard library's \<open>net.ParseIP\<close>, and
  \<open>DetectAddressFamily\<close> of \<open>pkg/spdk/client/advanced.go\<close>.
\<close>

section \<open>net.ParseIP\<close>

text \<open>An address is its eight 16-bit groups; an IPv4 address is mapped, as \<open>As16\<close> does.\<close>

definition octet :: "string \<Rightarrow> nat option" where
  "octet s =
     (if s = [] \<or> (1 < length s \<and> hd s = CHR ''0'') then None
      else (case digits_value 0 s of None \<Rightarrow> None | Some v \<Rightarrow> if v \<le> 255 then Some v else None))"

definition parse_octets :: "string \<Rightarrow> nat list option" where
  "parse_octets s =
     (let parts = map octet (split_on (CHR ''.'') s) in
      if length parts = 4 \<and> None \<notin> set parts then Some (map the parts) else None)"

definition v4_groups :: "nat list \<Rightarrow> nat list" where
  "v4_groups os = [os ! 0 * 256 + os ! 1, os ! 2 * 256 + os ! 3]"

definition hex_value :: "char \<Rightarrow> nat option" where
  "hex_value c =
     (let n = (of_char c :: nat) in
      if 48 \<le> n \<and> n \<le> 57 then Some (n - 48)
      else if 97 \<le> n \<and> n \<le> 102 then Some (n - 87)
      else if 65 \<le> n \<and> n \<le> 70 then Some (n - 55)
      else None)"

definition is_hex :: "char \<Rightarrow> bool" where
  "is_hex c = (hex_value c \<noteq> None)"

definition hex_number :: "string \<Rightarrow> nat" where
  "hex_number s = foldl (\<lambda>acc c. 16 * acc + the (hex_value c)) 0 s"

text \<open>
  The loop of \<open>netip.parseIPv6\<close>: \<open>gs\<close> are the groups read so far, \<open>ell\<close> the position of the ellipsis.
  Each round reads at most four hexadecimal digits; a dot hands the rest of the string to the IPv4
  parser. The result is the groups, the ellipsis and the unread rest. It stops at eight groups, so
  \<open>fuel = 8\<close> rounds are all of them.
\<close>

fun v6_loop :: "nat \<Rightarrow> nat list \<Rightarrow> nat option \<Rightarrow> string \<Rightarrow> (nat list \<times> nat option \<times> string) option" where
  "v6_loop 0 gs ell s = Some (gs, ell, s)"
| "v6_loop (Suc fuel) gs ell s =
     (let ds = takeWhile is_hex s; rest = dropWhile is_hex s in
      if ds = [] \<or> 4 < length ds then None
      else if rest \<noteq> [] \<and> hd rest = CHR ''.'' then
        (if ell = None \<and> length gs \<noteq> 6 then None
         else if 8 < length gs + 2 then None
         else (case parse_octets s of None \<Rightarrow> None | Some os \<Rightarrow> Some (gs @ v4_groups os, ell, [])))
      else
        (let gs' = gs @ [hex_number ds] in
         case rest of
           [] \<Rightarrow> Some (gs', ell, [])
         | c # cs \<Rightarrow>
             if c \<noteq> CHR '':'' \<or> cs = [] then None
             else if hd cs = CHR '':'' then
               (if ell \<noteq> None then None
                else if tl cs = [] then Some (gs', Some (length gs'), [])
                else v6_loop fuel gs' (Some (length gs')) (tl cs))
             else v6_loop fuel gs' ell cs))"

definition parse_v6 :: "string \<Rightarrow> nat list option" where
  "parse_v6 s =
     (let lead = has_prefix ''::'' s; s1 = (if lead then drop 2 s else s) in
      if lead \<and> s1 = [] then Some (replicate 8 0)
      else (case v6_loop 8 [] (if lead then Some 0 else None) s1 of
          None \<Rightarrow> None
        | Some (gs, ell, rest) \<Rightarrow>
            if rest \<noteq> [] then None
            else if length gs < 8 then
              (case ell of None \<Rightarrow> None
               | Some e \<Rightarrow> Some (take e gs @ replicate (8 - length gs) 0 @ drop e gs))
            else if ell \<noteq> None then None
            else Some gs))"

text \<open>\<open>netip.ParseAddr\<close> looks for the first of dot, colon and percent; an address with a zone is not an
  \<open>IP\<close>.\<close>

fun parse_ip_by :: "string \<Rightarrow> string \<Rightarrow> nat list option" where
  "parse_ip_by s [] = None"
| "parse_ip_by s (c # cs) =
     (if c = CHR ''.'' then map_option (\<lambda>os. [0, 0, 0, 0, 0, 65535] @ v4_groups os) (parse_octets s)
      else if c = CHR '':'' then (if CHR ''%'' \<in> set s then None else parse_v6 s)
      else if c = CHR ''%'' then None
      else parse_ip_by s cs)"

definition ParseIP :: "string \<Rightarrow> nat list option" where
  "ParseIP s = parse_ip_by s s"

definition is_v4 :: "nat list \<Rightarrow> bool" where
  "is_v4 gs = (take 6 gs = [0, 0, 0, 0, 0, 65535])"

section \<open>pkg/util/nvme.go\<close>

definition DevPath :: string where "DevPath = ''/dev''"
definition LonghornDevDir :: string where "LonghornDevDir = ''/longhorn''"

definition GetNvmeDevicePath :: "string \<Rightarrow> string" where
  "GetNvmeDevicePath name = join_abs [DevPath, name]"

definition GetLonghornDevicePath :: "string \<Rightarrow> string" where
  "GetLonghornDevicePath name = join_abs [DevPath, LonghornDevDir, name]"

definition GetNvmeNamespaceNameFromControllerName :: "string \<Rightarrow> int \<Rightarrow> string" where
  "GetNvmeNamespaceNameFromControllerName controllerName nsID = controllerName @ ''n'' @ itoa nsID"

text \<open>The expression \<open>([^"]*)n\\d+$\<close> matches a suffix \<open>n\<close> and digits with what precedes it up to a quote;
  replacing the match with its group takes the suffix off.\<close>

definition GetNvmeControllerNameFromNamespaceName :: "string \<Rightarrow> string" where
  "GetNvmeControllerNameFromNamespaceName nsName =
     (let digits = takeWhile is_digit (rev nsName); rest = dropWhile is_digit (rev nsName) in
      if digits \<noteq> [] \<and> rest \<noteq> [] \<and> hd rest = CHR ''n'' then rev (tl rest) else nsName)"

definition NormalizeNvmeAddr :: "string \<Rightarrow> string" where
  "NormalizeNvmeAddr ip =
     (let t = trim_space ip in
      if has_prefix ''['' t \<and> has_suffix '']'' t then take (length t - 2) (drop 1 t) else t)"

section \<open>The address family\<close>

definition NvmeAddressFamilyIPv4 :: string where "NvmeAddressFamilyIPv4 = ''ipv4''"
definition NvmeAddressFamilyIPv6 :: string where "NvmeAddressFamilyIPv6 = ''ipv6''"

definition DetectAddressFamily :: "string \<Rightarrow> string" where
  "DetectAddressFamily ip =
     (if ip = [] then NvmeAddressFamilyIPv4
      else (case ParseIP (NormalizeNvmeAddr ip) of
          None \<Rightarrow> NvmeAddressFamilyIPv4
        | Some gs \<Rightarrow> if \<not> is_v4 gs then NvmeAddressFamilyIPv6 else NvmeAddressFamilyIPv4))"

section \<open>Facts\<close>

lemma octet_itoa: "n \<le> 255 \<Longrightarrow> octet (itoa_nat n) = Some n"
  using itoa_nat_hd_nonzero [of n]
  by (cases "n = 0") (auto simp: octet_def digits_value_itoa_nat itoa_nat_zero is_digit_def)

lemma dot_notin_itoa: "CHR ''.'' \<notin> set (itoa_nat n)" "CHR '':'' \<notin> set (itoa_nat n)"
    "CHR ''%'' \<notin> set (itoa_nat n)"
  using itoa_nat_digits [of n] by (auto simp: is_digit_def)

definition dotted :: "nat \<Rightarrow> nat \<Rightarrow> nat \<Rightarrow> nat \<Rightarrow> string" where
  "dotted a b c d = itoa_nat a @ ''.'' @ itoa_nat b @ ''.'' @ itoa_nat c @ ''.'' @ itoa_nat d"

lemma parse_octets_dotted:
  assumes "a \<le> 255" and "b \<le> 255" and "c \<le> 255" and "d \<le> 255"
  shows "parse_octets (dotted a b c d) = Some [a, b, c, d]"
  using assms by (simp add: parse_octets_def dotted_def split_on_append split_on_notin dot_notin_itoa octet_itoa)

lemma parse_ip_by_skip:
  assumes "CHR ''.'' \<notin> set p" and "CHR '':'' \<notin> set p" and "CHR ''%'' \<notin> set p"
  shows "parse_ip_by s (p @ rest) = parse_ip_by s rest"
  using assms by (induction p) auto

lemma ParseIP_dotted:
  assumes "a \<le> 255" and "b \<le> 255" and "c \<le> 255" and "d \<le> 255"
  shows "ParseIP (dotted a b c d) = Some [0, 0, 0, 0, 0, 65535, a * 256 + b, c * 256 + d]"
proof -
  have "parse_ip_by s (dotted a b c d) = map_option (\<lambda>os. [0, 0, 0, 0, 0, 65535] @ v4_groups os) (parse_octets s)" for s
    unfolding dotted_def by (subst parse_ip_by_skip) (simp_all add: dot_notin_itoa)
  then show ?thesis
    by (simp add: ParseIP_def parse_octets_dotted [OF assms] v4_groups_def)
qed

lemma Normalize_plain:
  assumes "s \<noteq> []" and "\<not> is_space (hd s)" and "\<not> is_space (last s)" and "hd s \<noteq> CHR ''[''"
  shows "NormalizeNvmeAddr s = s"
proof -
  have "trim_space s = s"
    unfolding trim_space_def using assms by (intro trim_func_id) auto
  moreover have "\<not> has_prefix ''['' s"
    using assms(1,4) by (cases s) auto
  ultimately show ?thesis
    by (simp add: NormalizeNvmeAddr_def)
qed

lemma Normalize_bracketed: "NormalizeNvmeAddr (''['' @ s @ '']'') = s"
proof -
  have "trim_space (''['' @ s @ '']'') = ''['' @ s @ '']''"
    unfolding trim_space_def by (intro trim_func_id) (simp add: is_space_def)
  then show ?thesis
    by (simp add: NormalizeNvmeAddr_def has_suffix_def)
qed

section \<open>Properties\<close>

text \<open>
  The controller name comes back from the namespace name built from it, whatever the
  controller is called (names ending in digits or in \<open>n1\<close> included) and for every namespace id.
\<close>

theorem controller_name_roundtrip:
  "0 \<le> nsID \<Longrightarrow>
     GetNvmeControllerNameFromNamespaceName (GetNvmeNamespaceNameFromControllerName controllerName nsID) = controllerName"
proof -
  assume "0 \<le> nsID"
  then have i: "itoa nsID = itoa_nat (nat nsID)" by (simp add: itoa_def)
  let ?ds = "rev (itoa_nat (nat nsID))"
  have digits: "\<forall>c \<in> set ?ds. is_digit c" using itoa_nat_digits by simp
  have n: "\<not> is_digit (CHR ''n'')" by (simp add: is_digit_def)
  have r: "rev (GetNvmeNamespaceNameFromControllerName controllerName nsID) = ?ds @ CHR ''n'' # rev controllerName"
    by (simp add: GetNvmeNamespaceNameFromControllerName_def i)
  have "takeWhile is_digit (?ds @ CHR ''n'' # rev controllerName) = ?ds"
    and "dropWhile is_digit (?ds @ CHR ''n'' # rev controllerName) = CHR ''n'' # rev controllerName"
    using digits n by (subst takeWhile_append2 dropWhile_append2, blast, simp)+
  then show ?thesis
    unfolding GetNvmeControllerNameFromNamespaceName_def r by simp
qed

theorem controller_name_roundtrip_witness:
  "GetNvmeControllerNameFromNamespaceName (GetNvmeNamespaceNameFromControllerName ''n1'' 12) = ''n1''"
  by (rule controller_name_roundtrip) simp

text \<open>
  \<open>DetectAddressFamily\<close> says ipv4 of every dotted quad and of its bracketed form, and gives
  an address and its bracketed form the same family.
\<close>

theorem address_family:
  assumes "a \<le> 255" and "b \<le> 255" and "c \<le> 255" and "d \<le> 255"
    and "s \<noteq> []" and "\<not> is_space (hd s)" and "\<not> is_space (last s)" and "hd s \<noteq> CHR ''[''"
  shows "DetectAddressFamily (dotted a b c d) = ''ipv4'' \<and>
    DetectAddressFamily (''['' @ dotted a b c d @ '']'') = ''ipv4'' \<and>
    DetectAddressFamily (''['' @ s @ '']'') = DetectAddressFamily s"
proof -
  have hd: "is_digit (hd (dotted a b c d))" and last: "is_digit (last (dotted a b c d))"
    using itoa_nat_digits [of d] by (auto simp: dotted_def itoa_nat_hd_digit)
  have nz: "dotted a b c d \<noteq> []" by (simp add: dotted_def)
  have "NormalizeNvmeAddr (dotted a b c d) = dotted a b c d"
    using hd last nz by (intro Normalize_plain) (auto simp: is_digit_def is_space_def)
  moreover have "NormalizeNvmeAddr s = s"
    using assms(5-8) by (rule Normalize_plain)
  ultimately show ?thesis
    using nz assms(5)
    by (simp add: DetectAddressFamily_def Normalize_bracketed [simplified] ParseIP_dotted [OF assms(1-4)]
        is_v4_def NvmeAddressFamilyIPv4_def)
qed

lemmas v6_loop_numeral = v6_loop.simps(2) [of "pred_numeral k" for k, folded numeral_eq_Suc]
lemmas replicate_numeral = replicate.simps(2) [of "pred_numeral k" for k, folded numeral_eq_Suc]

lemma family_examples:
  "DetectAddressFamily ''fd00::1'' = ''ipv6''"
  "DetectAddressFamily ''::ffff:10.0.0.1'' = ''ipv4''"
  "DetectAddressFamily ''2001:db8:0:1:1:1:1:1'' = ''ipv6''"
  "DetectAddressFamily ''1:2:3:4:5:6:7:8:9'' = ''ipv4''"
  by (simp_all add: DetectAddressFamily_def ParseIP_def NormalizeNvmeAddr_def trim_space_def trim_func_def is_space_def
      has_suffix_def parse_v6_def is_hex_def hex_value_def hex_number_def parse_octets_def octet_def is_digit_def
      v4_groups_def is_v4_def NvmeAddressFamilyIPv4_def NvmeAddressFamilyIPv6_def v6_loop_numeral replicate_numeral)

theorem address_family_witness:
  "DetectAddressFamily (''['' @ ''fd00::1'' @ '']'') = DetectAddressFamily ''fd00::1''"
  using address_family [of 10 0 0 1 "''fd00::1''"] by (simp add: is_space_def)

section \<open>Subsystem names\<close>

definition NQNPrefix :: string where "NQNPrefix = ''nqn.2023-01.io.longhorn.spdk''"
definition InternalHostNQN :: string where "InternalHostNQN = NQNPrefix @ '':internal-host''"

definition GetNQN :: "string \<Rightarrow> string" where
  "GetNQN name = NQNPrefix @ '':'' @ name"

lemma GetNQN_inject [simp]: "GetNQN a = GetNQN b \<longleftrightarrow> a = b"
  by (simp add: GetNQN_def)

lemma GetNQN_internal: "GetNQN name = InternalHostNQN \<longleftrightarrow> name = ''internal-host''"
  by (simp add: GetNQN_def InternalHostNQN_def)

end
