(* ===== verification/SpdkExpose.thy ===== *)
theory SpdkExpose
  imports SpdkNvmf NvmeAddr "HOL-Library.Sublist"
begin

text \<open>
  The composite operations of \<open>pkg/spdk/client/advanced.go\<close>: adding and deleting a device, exposing a
  bdev over NVMe-oF and taking it back. Each is a sequence of calls that ends at the first error; what
  it may issue, in which order, is stated as a plan.
\<close>

section \<open>Operations\<close>

definition AddDevice ::
  "'w rpc_env \<Rightarrow> string \<Rightarrow> string \<Rightarrow> u32 \<Rightarrow> ('w session, string \<times> string \<times> string) io" where
  "AddDevice c devicePath name0 clusterSize =
     (let name = (if name0 = [] then path_base devicePath else name0) in
      io_bind (BdevAioCreate c devicePath name 4096) (\<lambda>_.
      io_bind (BdevLvolGetLvstore c [] []) (\<lambda>lvsList.
        case find (\<lambda>lvsInfo. LvstoreInfo.BaseBdev lvsInfo = name) lvsList of
          Some lvsInfo \<Rightarrow> io_return (name, name, LvstoreInfo.UUID lvsInfo)
        | None \<Rightarrow>
            io_bind (BdevLvolCreateLvstore c name name clusterSize) (\<lambda>lvsUUID.
            io_return (name, name, lvsUUID)))))"

definition DeleteDevice :: "'w rpc_env \<Rightarrow> string \<Rightarrow> string \<Rightarrow> ('w session, unit) io" where
  "DeleteDevice c bdevAioName lvsName =
     io_bind (BdevLvolDeleteLvstore c lvsName []) (\<lambda>_.
     io_bind (BdevAioDelete c bdevAioName) (\<lambda>_.
     io_return ()))"

text \<open>The TCP transport is created when the list of transports is empty and not nil; one that exists by
  now is fine.\<close>

definition ensure_transport :: "'w rpc_env \<Rightarrow> ('w session, unit) io" where
  "ensure_transport c =
     io_bind (NvmfGetTransports c [] []) (\<lambda>nvmfTransportList.
       if nvmfTransportList = Some []
       then io_case (NvmfCreateTransport c NvmeTransportTypeTCP)
              (\<lambda>err. if \<not> IsJSONRPCRespErrorTransportTypeAlreadyExists err then io_fail err else io_return ())
              (\<lambda>_. io_return ())
       else io_return ())"

definition StartExposeBdev ::
  "'w rpc_env \<Rightarrow> string \<Rightarrow> string \<Rightarrow> string \<Rightarrow> string \<Rightarrow> string \<Rightarrow> string list \<Rightarrow> ('w session, unit) io" where
  "StartExposeBdev c nqn bdevName nguid ip0 port allowedHostNQNs =
     (let ip = NormalizeNvmeAddr ip0 in
      io_bind (ensure_transport c) (\<lambda>_.
      io_bind (NvmfCreateSubsystem c nqn (length allowedHostNQNs = 0)) (\<lambda>_.
      io_bind (io_foreach (\<lambda>hostNQN. io_bind (NvmfSubsystemAddHost c nqn hostNQN) (\<lambda>_. io_return ()))
         allowedHostNQNs) (\<lambda>_.
      io_bind (NvmfSubsystemAddNs c nqn bdevName nguid) (\<lambda>_.
      io_bind (NvmfSubsystemAddListener c nqn ip port NvmeTransportTypeTCP (DetectAddressFamily ip)) (\<lambda>_.
      io_return ()))))))"

definition StartExposeBdevWithANAState ::
  "'w rpc_env \<Rightarrow> string \<Rightarrow> string \<Rightarrow> string \<Rightarrow> string \<Rightarrow> string \<Rightarrow> string \<Rightarrow> string \<Rightarrow> u16 \<Rightarrow> u16 \<Rightarrow>
     ('w session, unit) io" where
  "StartExposeBdevWithANAState c nqn bdevName nguid nsUUID ip0 port anaState minCntlid maxCntlid =
     (let ip = NormalizeNvmeAddr ip0 in
      io_bind (ensure_transport c) (\<lambda>_.
      io_bind (NvmfCreateSubsystemWithCntlid c nqn minCntlid maxCntlid) (\<lambda>_.
      io_bind (NvmfSubsystemAddNsWithUUID c nqn bdevName nguid nsUUID) (\<lambda>_.
      (let adrfam = DetectAddressFamily ip in
      io_bind (NvmfSubsystemAddListener c nqn ip port NvmeTransportTypeTCP adrfam) (\<lambda>_.
      io_bind (NvmfSubsystemListenerSetANAState c nqn ip port NvmeTransportTypeTCP adrfam anaState
         DefaultNvmfANAGroupID) (\<lambda>_.
      io_return ())))))))"

definition remove_listeners :: "'w rpc_env \<Rightarrow> string \<Rightarrow> NvmfSubsystemListener list \<Rightarrow> ('w session, unit) io" where
  "remove_listeners c nqn ls = io_foreach (\<lambda>l. let a = NvmfSubsystemListener.Address l in
     io_bind (NvmfSubsystemRemoveListener c nqn (NvmfSubsystemListenAddress.Traddr a)
        (NvmfSubsystemListenAddress.Trsvcid a) (NvmfSubsystemListenAddress.Trtype a)
        (NvmfSubsystemListenAddress.Adrfam a)) (\<lambda>_. io_return ())) ls"

definition remove_namespaces :: "'w rpc_env \<Rightarrow> string \<Rightarrow> NvmfSubsystemNamespace list \<Rightarrow> ('w session, unit) io" where
  "remove_namespaces c nqn nss = io_foreach (\<lambda>ns.
     io_bind (NvmfSubsystemRemoveNs c nqn (NvmfSubsystemNamespace.Nsid ns)) (\<lambda>_. io_return ())) nss"

definition StopExposeBdev :: "'w rpc_env \<Rightarrow> string \<Rightarrow> ('w session, unit) io" where
  "StopExposeBdev c nqn =
     io_bind (NvmfGetSubsystems c [] []) (\<lambda>subsystemList.
       case find (\<lambda>s. NvmfSubsystem.Nqn s = nqn) subsystemList of
         None \<Rightarrow> io_return ()
       | Some subsystem \<Rightarrow>
           io_bind (NvmfSubsystemGetListeners c nqn []) (\<lambda>listenerList.
           io_bind (remove_listeners c nqn listenerList) (\<lambda>_.
           io_bind (remove_namespaces c nqn (NvmfSubsystem.Namespaces subsystem)) (\<lambda>_.
           io_bind (NvmfDeleteSubsystem c nqn []) (\<lambda>_.
           io_return ())))))"

section \<open>Plans\<close>

text \<open>\<open>follows plan\<close>: the calls issued are an initial part of the plan, all of it on success.\<close>

definition follows :: "rpc_call list \<Rightarrow> go_error + 'a \<Rightarrow> rpc_call list \<Rightarrow> bool" where
  "follows plan r cs = (prefix cs plan \<and> (\<not> isl r \<longrightarrow> cs = plan))"

definition short_call :: "string \<Rightarrow> json \<Rightarrow> rpc_call" where
  "short_call meth req = \<lparr> rc_method = meth, rc_params = drop_empty_params req, rc_timeout = DefaultShortTimeout \<rparr>"

definition long_call :: "string \<Rightarrow> json \<Rightarrow> rpc_call" where
  "long_call meth req = \<lparr> rc_method = meth, rc_params = drop_empty_params req, rc_timeout = DefaultLongTimeout \<rparr>"

lemma follows_rpc: "runs (rpc c meth req d) (follows [short_call meth req])"
  by (rule runs_mono [OF runs_rpc]) (auto simp: one_call_def follows_def short_call_def)

lemma follows_rpc_long: "runs (rpc_long c meth req d) (follows [long_call meth req])"
  by (rule runs_mono [OF runs_rpc_long]) (auto simp: one_call_def follows_def long_call_def)

lemma follows_return: "runs (io_return x) (follows [])"
  by (rule runs_return) (simp add: follows_def)

lemma follows_bind:
  assumes "runs m (follows p)" and "\<And>x. runs (f x) (follows q)"
  shows "runs (io_bind m f) (follows (p @ q))"
proof (rule runs_bind [OF assms(1)])
  show "runs (f x) (\<lambda>r cs'. follows (p @ q) r (cs @ cs'))" if "follows p (Inr x) cs" for x cs
    using that by (intro runs_mono [OF assms(2)]) (auto simp: follows_def)
qed (auto simp: follows_def)

lemma follows_done: "runs m (follows p) \<Longrightarrow> runs (io_bind m (\<lambda>_. io_return ())) (follows p)"
  using follows_bind [OF _ follows_return, of m p "\<lambda>_. ()"] by simp

lemma follows_foreach:
  assumes "\<And>x. runs (f x) (follows (plan x))"
  shows "runs (io_foreach f xs) (follows (concat (map plan xs)))"
proof (induction xs)
  case Nil
  then show ?case by (simp add: follows_return)
next
  case (Cons x xs)
  then show ?case by (simp add: follows_bind assms)
qed

definition transport_plan :: "bool \<Rightarrow> rpc_call list" where
  "transport_plan create =
     short_call ''nvmf_get_transports'' (NvmfGetTransportRequest [] []) #
     (if create then [short_call ''nvmf_create_transport'' (NvmfCreateTransportRequest ''tcp'')] else [])"

lemma not_response_not_exists:
  "response_detail e = None \<Longrightarrow> \<not> IsJSONRPCRespErrorTransportTypeAlreadyExists e"
  by (simp add: IsJSONRPCRespErrorTransportTypeAlreadyExists_def)

text \<open>Whether the server lists no transport at all: the condition under which one has to be created.\<close>

definition no_transport :: "'w rpc_env \<Rightarrow> 'w session \<Rightarrow> bool" where
  "no_transport c s = (fst (NvmfGetTransports c [] [] s) = Inr (Some []))"

lemma create_transport_plan:
  "runs (io_case (NvmfCreateTransport c NvmeTransportTypeTCP)
      (\<lambda>err. if \<not> IsJSONRPCRespErrorTransportTypeAlreadyExists err then io_fail err else io_return ())
      (\<lambda>_. io_return ()))
     (follows [short_call ''nvmf_create_transport'' (NvmfCreateTransportRequest ''tcp'')])"
proof (rule runs_case)
  show "runs (NvmfCreateTransport c NvmeTransportTypeTCP)
      (one_call ''nvmf_create_transport'' (NvmfCreateTransportRequest ''tcp'') DefaultShortTimeout)"
    by (simp add: NvmfCreateTransport_def NvmeTransportTypeTCP_def runs_rpc)
qed (auto intro!: runs_fail runs_return simp: one_call_def follows_def short_call_def not_response_not_exists)

lemma ensure_transport_run:
  assumes run: "ensure_transport c s = (r, s')"
  shows "\<exists>cs. issued s' = issued s @ cs \<and> follows (transport_plan (no_transport c s)) r cs"
proof -
  let ?get = "short_call ''nvmf_get_transports'' (NvmfGetTransportRequest [] [])"
  obtain r1 s1 where g: "NvmfGetTransports c [] [] s = (r1, s1)" by fastforce
  have "runs (NvmfGetTransports c [] []) (follows [?get])"
    by (simp add: NvmfGetTransports_def follows_rpc)
  from runsD [OF this g] obtain cs1 where cs1: "issued s1 = issued s @ cs1" "follows [?get] r1 cs1" .
  show ?thesis
  proof (cases r1)
    case (Inl e)
    with run g have "r = Inl e" "s' = s1" by (simp_all add: ensure_transport_def io_bind_def)
    with cs1 Inl g show ?thesis by (auto simp: follows_def transport_plan_def no_transport_def)
  next
    case (Inr x)
    then have get: "cs1 = [?get]" using cs1(2) by (simp add: follows_def)
    show ?thesis
    proof (cases "x = Some []")
      case True
      with run g Inr have "io_case (NvmfCreateTransport c NvmeTransportTypeTCP)
          (\<lambda>err. if \<not> IsJSONRPCRespErrorTransportTypeAlreadyExists err then io_fail err else io_return ())
          (\<lambda>_. io_return ()) s1 = (r, s')"
        by (simp add: ensure_transport_def io_bind_def)
      from runsD [OF create_transport_plan this] obtain cs2 where "issued s' = issued s1 @ cs2"
          "follows [short_call ''nvmf_create_transport'' (NvmfCreateTransportRequest ''tcp'')] r cs2" .
      with cs1(1) get g Inr True show ?thesis
        by (intro exI [of _ "cs1 @ cs2"]) (auto simp: follows_def transport_plan_def no_transport_def)
    next
      case False
      with run g Inr have "r = Inr ()" "s' = s1" by (simp_all add: ensure_transport_def io_bind_def io_return_def)
      with cs1(1) get g Inr False show ?thesis
        by (auto simp: follows_def transport_plan_def no_transport_def)
    qed
  qed
qed

text \<open>The rest of an operation follows its plan after the transport plan.\<close>

lemma after_transport:
  assumes "\<And>x. runs (f x) (follows q)" and run: "io_bind (ensure_transport c) f s = (r, s')"
  shows "\<exists>cs. issued s' = issued s @ cs \<and> follows (transport_plan (no_transport c s) @ q) r cs"
proof -
  obtain r1 s1 where e: "ensure_transport c s = (r1, s1)" by fastforce
  from ensure_transport_run [OF this] obtain cs1
    where cs1: "issued s1 = issued s @ cs1" "follows (transport_plan (no_transport c s)) r1 cs1" by blast
  show ?thesis
  proof (cases r1)
    case (Inl err)
    with run e have "r = Inl err" "s' = s1" by (simp_all add: io_bind_def)
    with cs1 Inl show ?thesis by (auto simp: follows_def intro: prefix_prefix)
  next
    case (Inr x)
    with run e have "f x s1 = (r, s')" by (simp add: io_bind_def)
    from runsD [OF assms(1) this] obtain cs2 where "issued s' = issued s1 @ cs2" "follows q r cs2" .
    with cs1 Inr show ?thesis by (intro exI [of _ "cs1 @ cs2"]) (auto simp: follows_def)
  qed
qed

section \<open>Exposing a bdev\<close>

definition expose_plan ::
  "string \<Rightarrow> string \<Rightarrow> string \<Rightarrow> string \<Rightarrow> string \<Rightarrow> string list \<Rightarrow> rpc_call list" where
  "expose_plan nqn bdevName nguid ip port hosts =
     [short_call ''nvmf_create_subsystem'' (NvmfCreateSubsystemRequest nqn [] [] [] (hosts = []) False 0 0 0)] @
     map (\<lambda>h. short_call ''nvmf_subsystem_add_host'' (NvmfSubsystemAddHostRequest nqn h [])) hosts @
     [short_call ''nvmf_subsystem_add_ns'' (NvmfSubsystemAddNsRequest nqn
        \<lparr> NvmfSubsystemNamespace.Nsid = 0, NvmfSubsystemNamespace.BdevName = bdevName,
          NvmfSubsystemNamespace.Nguid = nguid, NvmfSubsystemNamespace.Eui64 = [],
          NvmfSubsystemNamespace.UUID = [], NvmfSubsystemNamespace.Anagrpid = [],
          NvmfSubsystemNamespace.PtplFile = [] \<rparr> []),
      short_call ''nvmf_subsystem_add_listener'' (NvmfSubsystemAddListenerRequest nqn
        (listen_address ip port ''tcp'' (DetectAddressFamily ip)) [])]"

lemma follows_cons: "runs m (follows [p]) \<Longrightarrow> (\<And>x. runs (f x) (follows q)) \<Longrightarrow> runs (io_bind m f) (follows (p # q))"
  using follows_bind [of m "[p]" f q] by simp

lemma expose_after_transport:
  "runs (io_bind (NvmfCreateSubsystem c nqn (length hosts = 0)) (\<lambda>_.
      io_bind (io_foreach (\<lambda>hostNQN. io_bind (NvmfSubsystemAddHost c nqn hostNQN) (\<lambda>_. io_return ())) hosts) (\<lambda>_.
      io_bind (NvmfSubsystemAddNs c nqn bdevName nguid) (\<lambda>_.
      io_bind (NvmfSubsystemAddListener c nqn ip port NvmeTransportTypeTCP (DetectAddressFamily ip)) (\<lambda>_.
      io_return ())))))
    (follows (expose_plan nqn bdevName nguid ip port hosts))"
proof -
  have hosts: "runs (io_foreach (\<lambda>h. io_bind (NvmfSubsystemAddHost c nqn h) (\<lambda>_. io_return ())) hosts)
      (follows (map (\<lambda>h. short_call ''nvmf_subsystem_add_host'' (NvmfSubsystemAddHostRequest nqn h [])) hosts))"
    using follows_foreach [of "\<lambda>h. io_bind (NvmfSubsystemAddHost c nqn h) (\<lambda>_. io_return ())"
        "\<lambda>h. [short_call ''nvmf_subsystem_add_host'' (NvmfSubsystemAddHostRequest nqn h [])]" hosts]
    by (simp add: NvmfSubsystemAddHost_def follows_done follows_rpc concat_map_singleton)
  show ?thesis
    unfolding expose_plan_def append.simps
    by (rule follows_cons, simp add: NvmfCreateSubsystem_def follows_rpc,
        rule follows_bind [OF hosts], rule follows_cons,
        simp add: NvmfSubsystemAddNs_def NvmfSubsystemAddNsWithUUID_def follows_rpc,
        rule follows_done, simp add: NvmfSubsystemAddListener_def NvmeTransportTypeTCP_def follows_rpc)
qed

text \<open>
  Property C13. \<open>StartExposeBdev\<close> issues, up to the first error, exactly: list the transports, create the
  TCP transport exactly if the server lists none, create the subsystem (open to any host exactly if no host list was
  given), add every allowed host in order, add the namespace, and only then the listener, at the
  normalised address. So a subsystem restricted to some hosts is never reachable before its host list is
  complete, and success means that all of it was issued.
\<close>

theorem StartExposeBdev_plan:
  "\<exists>cs. issued (snd (StartExposeBdev c nqn bdevName nguid ip port hosts s)) = issued s @ cs \<and>
     follows (transport_plan (no_transport c s) @ expose_plan nqn bdevName nguid (NormalizeNvmeAddr ip) port hosts)
       (fst (StartExposeBdev c nqn bdevName nguid ip port hosts s)) cs"
  unfolding StartExposeBdev_def Let_def
  by (rule after_transport [OF expose_after_transport prod.collapse [symmetric]])

definition ana_plan ::
  "string \<Rightarrow> string \<Rightarrow> string \<Rightarrow> string \<Rightarrow> string \<Rightarrow> string \<Rightarrow> string \<Rightarrow> u16 \<Rightarrow> u16 \<Rightarrow> rpc_call list" where
  "ana_plan nqn bdevName nguid nsUUID ip port anaState minCntlid maxCntlid =
     [short_call ''nvmf_create_subsystem''
        (NvmfCreateSubsystemRequest nqn [] [] [] True True 0 minCntlid maxCntlid),
      short_call ''nvmf_subsystem_add_ns'' (NvmfSubsystemAddNsRequest nqn
        \<lparr> NvmfSubsystemNamespace.Nsid = 0, NvmfSubsystemNamespace.BdevName = bdevName,
          NvmfSubsystemNamespace.Nguid = nguid, NvmfSubsystemNamespace.Eui64 = [],
          NvmfSubsystemNamespace.UUID = nsUUID, NvmfSubsystemNamespace.Anagrpid = [],
          NvmfSubsystemNamespace.PtplFile = [] \<rparr> []),
      short_call ''nvmf_subsystem_add_listener'' (NvmfSubsystemAddListenerRequest nqn
        (listen_address ip port ''tcp'' (DetectAddressFamily ip)) []),
      short_call ''nvmf_subsystem_listener_set_ana_state'' (NvmfSubsystemListenerSetANAStateRequest nqn
        (listen_address ip port ''tcp'' (DetectAddressFamily ip)) anaState 1 [])]"

lemma word_pos_or_zero: "(if 0 < x then x else 0) = (x :: 'a::len word)"
  by (simp add: word_gt_0)

text \<open>
  \<open>StartExposeBdevWithANAState\<close> creates the subsystem with ANA reporting and the given
  controller-id range, adds the namespace with its stable UUID, adds the listener, and sets the ANA state
  of that listener, address and family included, last and in the default group.
\<close>

theorem StartExposeBdevWithANAState_plan:
  "\<exists>cs. issued (snd (StartExposeBdevWithANAState c nqn bdevName nguid nsUUID ip port anaState minCntlid maxCntlid s)) =
       issued s @ cs \<and>
     follows (transport_plan (no_transport c s) @
         ana_plan nqn bdevName nguid nsUUID (NormalizeNvmeAddr ip) port anaState minCntlid maxCntlid)
       (fst (StartExposeBdevWithANAState c nqn bdevName nguid nsUUID ip port anaState minCntlid maxCntlid s)) cs"
  unfolding StartExposeBdevWithANAState_def Let_def ana_plan_def
  by (rule after_transport [OF _ prod.collapse [symmetric]], rule follows_cons,
      simp add: NvmfCreateSubsystemWithCntlid_def word_pos_or_zero follows_rpc,
      rule follows_cons, simp add: NvmfSubsystemAddNsWithUUID_def follows_rpc,
      rule follows_cons, simp add: NvmfSubsystemAddListener_def NvmeTransportTypeTCP_def follows_rpc,
      rule follows_done,
      simp add: NvmfSubsystemListenerSetANAState_def NvmeTransportTypeTCP_def DefaultNvmfANAGroupID_def follows_rpc)

section \<open>Taking it back\<close>

definition remove_listener_call :: "string \<Rightarrow> NvmfSubsystemListener \<Rightarrow> rpc_call" where
  "remove_listener_call nqn l = short_call ''nvmf_subsystem_remove_listener''
     (NvmfSubsystemRemoveListenerRequest nqn (NvmfSubsystemListener.Address l) [])"

definition remove_ns_call :: "string \<Rightarrow> NvmfSubsystemNamespace \<Rightarrow> rpc_call" where
  "remove_ns_call nqn ns = short_call ''nvmf_subsystem_remove_ns''
     (NvmfSubsystemRemoveNsRequest nqn (NvmfSubsystemNamespace.Nsid ns) [])"

definition find_subsystem_call :: rpc_call where
  "find_subsystem_call = short_call ''nvmf_get_subsystems'' (NvmfGetSubsystemsRequest [] [])"

definition teardown_plan ::
  "string \<Rightarrow> NvmfSubsystemListener list \<Rightarrow> NvmfSubsystemNamespace list \<Rightarrow> rpc_call list" where
  "teardown_plan nqn ls nss =
     map (remove_listener_call nqn) ls @ map (remove_ns_call nqn) nss @
     [short_call ''nvmf_delete_subsystem'' (NvmfDeleteSubsystemRequest nqn [])]"

definition get_listeners_call :: "string \<Rightarrow> rpc_call" where
  "get_listeners_call nqn = short_call ''nvmf_subsystem_get_listeners'' (NvmfSubsystemGetListenersRequest nqn [])"

lemma listen_address_eta:
  "listen_address (NvmfSubsystemListenAddress.Traddr a) (NvmfSubsystemListenAddress.Trsvcid a)
     (NvmfSubsystemListenAddress.Trtype a) (NvmfSubsystemListenAddress.Adrfam a) = a"
  by (simp add: listen_address_def)

lemma remove_listeners_plan: "runs (remove_listeners c nqn ls) (follows (map (remove_listener_call nqn) ls))"
proof -
  let ?f = "\<lambda>l. let a = NvmfSubsystemListener.Address l in
     io_bind (NvmfSubsystemRemoveListener c nqn (NvmfSubsystemListenAddress.Traddr a)
        (NvmfSubsystemListenAddress.Trsvcid a) (NvmfSubsystemListenAddress.Trtype a)
        (NvmfSubsystemListenAddress.Adrfam a)) (\<lambda>_. io_return ())"
  have "runs (?f l) (follows [remove_listener_call nqn l])" for l
    unfolding Let_def NvmfSubsystemRemoveListener_def listen_address_eta remove_listener_call_def
    by (rule follows_done) (rule follows_rpc)
  from follows_foreach [of ?f "\<lambda>l. [remove_listener_call nqn l]", OF this] show ?thesis
    by (simp add: remove_listeners_def concat_map_singleton)
qed

lemma remove_namespaces_plan: "runs (remove_namespaces c nqn nss) (follows (map (remove_ns_call nqn) nss))"
proof -
  let ?f = "\<lambda>ns. io_bind (NvmfSubsystemRemoveNs c nqn (NvmfSubsystemNamespace.Nsid ns)) (\<lambda>_. io_return ())"
  have "runs (?f ns) (follows [remove_ns_call nqn ns])" for ns
    unfolding NvmfSubsystemRemoveNs_def remove_ns_call_def by (rule follows_done) (rule follows_rpc)
  from follows_foreach [of ?f "\<lambda>ns. [remove_ns_call nqn ns]", OF this] show ?thesis
    by (simp add: remove_namespaces_def concat_map_singleton)
qed

lemma teardown:
  "runs (io_bind (remove_listeners c nqn ls) (\<lambda>_. io_bind (remove_namespaces c nqn nss) (\<lambda>_.
      io_bind (NvmfDeleteSubsystem c nqn []) (\<lambda>_. io_return ())))) (follows (teardown_plan nqn ls nss))"
  unfolding teardown_plan_def
  by (rule follows_bind [OF remove_listeners_plan], rule follows_bind [OF remove_namespaces_plan],
      rule follows_done, simp add: NvmfDeleteSubsystem_def follows_rpc)

text \<open>Against a target that answers every call, the operations are computed to the end.\<close>

lemma scripted_foreach:
  assumes "\<And>x cs rs. f x \<lparr> issued = cs, slots = n, peer = answer (JBool True) # rs \<rparr> =
      (Inr (), \<lparr> issued = cs @ [call x], slots = n, peer = rs \<rparr>)"
  shows "io_foreach f xs \<lparr> issued = cs, slots = n, peer = replicate (length xs) (answer (JBool True)) @ rs \<rparr> =
      (Inr (), \<lparr> issued = cs @ map call xs, slots = n, peer = rs \<rparr>)"
  using assms by (induction xs arbitrary: cs) (simp_all add: io_simps)

lemma dec_bool_True: "dec_bool (JBool True) = Inr True"
  by (simp add: dec_bool_def)

lemma scripted_remove_listeners:
  "remove_listeners scripted nqn ls
     \<lparr> issued = cs, slots = n, peer = replicate (length ls) (answer (JBool True)) @ rs \<rparr> =
     (Inr (), \<lparr> issued = cs @ map (remove_listener_call nqn) ls, slots = n, peer = rs \<rparr>)"
  unfolding remove_listeners_def
  by (rule scripted_foreach)
    (simp add: io_bind_def io_return_def NvmfSubsystemRemoveListener_def listen_address_eta
      remove_listener_call_def short_call_def dec_bool_True)

lemma scripted_remove_namespaces:
  "remove_namespaces scripted nqn nss
     \<lparr> issued = cs, slots = n, peer = replicate (length nss) (answer (JBool True)) @ rs \<rparr> =
     (Inr (), \<lparr> issued = cs @ map (remove_ns_call nqn) nss, slots = n, peer = rs \<rparr>)"
  unfolding remove_namespaces_def
  by (rule scripted_foreach)
    (simp add: io_bind_def io_return_def NvmfSubsystemRemoveNs_def remove_ns_call_def short_call_def dec_bool_True)

text \<open>
  \<open>StopExposeBdev\<close> looks the subsystem up first. Whatever the target answers, it then issues
  nothing, or asks for the listeners and removes listeners, then namespaces, then the subsystem, in this
  order and stopping at the first error: the subsystem is deleted only after every removal was accepted.
\<close>

theorem StopExposeBdev_order:
  "runs (StopExposeBdev c nqn) (\<lambda>r cs. follows [find_subsystem_call] r cs \<or>
     (\<exists>ls nss. follows (find_subsystem_call # get_listeners_call nqn # teardown_plan nqn ls nss) r cs))"
  (is "runs _ ?P")
  unfolding StopExposeBdev_def
proof (rule runs_bind)
  show "runs (NvmfGetSubsystems c [] []) (follows [find_subsystem_call])"
    by (simp add: NvmfGetSubsystems_def find_subsystem_call_def follows_rpc)
  show "?P (Inl e) cs" if "follows [find_subsystem_call] (Inl e) cs" for e cs
    using that by (simp add: follows_def)
next
  fix subs cs
  assume "follows [find_subsystem_call] (Inr subs :: go_error + NvmfSubsystem list) cs"
  then have cs: "cs = [find_subsystem_call]" by (simp add: follows_def)
  show "runs (case find (\<lambda>s. NvmfSubsystem.Nqn s = nqn) subs of None \<Rightarrow> io_return ()
      | Some subsystem \<Rightarrow> io_bind (NvmfSubsystemGetListeners c nqn []) (\<lambda>listenerList.
           io_bind (remove_listeners c nqn listenerList) (\<lambda>_.
           io_bind (remove_namespaces c nqn (NvmfSubsystem.Namespaces subsystem)) (\<lambda>_.
           io_bind (NvmfDeleteSubsystem c nqn []) (\<lambda>_. io_return ()))))) (\<lambda>r cs'. ?P r (cs @ cs'))"
  proof (cases "find (\<lambda>s. NvmfSubsystem.Nqn s = nqn) subs")
    case None
    then show ?thesis by (simp add: cs follows_def runs_return)
  next
    case (Some sub)
    let ?plan = "\<lambda>ls. find_subsystem_call # get_listeners_call nqn # teardown_plan nqn ls (NvmfSubsystem.Namespaces sub)"
    have get: "runs (NvmfSubsystemGetListeners c nqn []) (follows [get_listeners_call nqn])"
      by (simp add: NvmfSubsystemGetListeners_def get_listeners_call_def follows_rpc)
    have "runs (io_bind (NvmfSubsystemGetListeners c nqn []) (\<lambda>listenerList.
           io_bind (remove_listeners c nqn listenerList) (\<lambda>_.
           io_bind (remove_namespaces c nqn (NvmfSubsystem.Namespaces sub)) (\<lambda>_.
           io_bind (NvmfDeleteSubsystem c nqn []) (\<lambda>_. io_return ()))))) (\<lambda>r cs'. \<exists>ls. follows (?plan ls) r (cs @ cs'))"
    proof (rule runs_bind [OF get])
      show "runs (io_bind (remove_listeners c nqn x) (\<lambda>_.
           io_bind (remove_namespaces c nqn (NvmfSubsystem.Namespaces sub)) (\<lambda>_.
           io_bind (NvmfDeleteSubsystem c nqn []) (\<lambda>_. io_return ())))) (\<lambda>r cs''. \<exists>ls. follows (?plan ls) r (cs @ cs' @ cs''))"
        if "follows [get_listeners_call nqn] (Inr x) cs'" for x cs'
        using that by (intro runs_mono [OF teardown [of c nqn x]]) (auto simp: cs follows_def intro!: exI [of _ x])
    qed (auto simp: follows_def cs prefix_Cons)
    then show ?thesis
      unfolding Some option.case by (rule runs_mono) blast
  qed
qed

text \<open>
  Property C24. Against a target that answers, nothing is left behind: every listener the target reports is
  removed, then every namespace of the subsystem, then the subsystem. A subsystem that is not there is
  left alone, without an error.
\<close>

theorem StopExposeBdev_removes_all:
  assumes subs: "dec_list dec_NvmfSubsystem reported = Inr subs"
    and ls: "dec_list dec_NvmfSubsystemListener listed = Inr ls"
  shows "case find (\<lambda>s. NvmfSubsystem.Nqn s = nqn) subs of
      None \<Rightarrow>
        StopExposeBdev scripted nqn (new_session [answer reported]) =
          (Inr (), \<lparr> issued = [find_subsystem_call], slots = 0, peer = [] \<rparr>)
    | Some sub \<Rightarrow>
        StopExposeBdev scripted nqn (new_session (answer reported # answer listed #
          replicate (length ls + length (NvmfSubsystem.Namespaces sub) + 1) (answer (JBool True)))) =
        (Inr (), \<lparr> issued = find_subsystem_call # get_listeners_call nqn #
            teardown_plan nqn ls (NvmfSubsystem.Namespaces sub), slots = 0, peer = [] \<rparr>)"
proof (cases "find (\<lambda>s. NvmfSubsystem.Nqn s = nqn) subs")
  case None
  then show ?thesis
    by (simp add: StopExposeBdev_def NvmfGetSubsystems_def new_session_def io_bind_def io_return_def subs
        find_subsystem_call_def short_call_def)
next
  case (Some sub)
  let ?T = "answer (JBool True)"
  have split: "replicate (length ls + length (NvmfSubsystem.Namespaces sub) + 1) ?T =
      replicate (length ls) ?T @ (replicate (length (NvmfSubsystem.Namespaces sub)) ?T @ [?T])"
    by (simp add: replicate_add replicate_append_same)
  show ?thesis
    unfolding Some option.case split
    by (simp add: StopExposeBdev_def NvmfGetSubsystems_def NvmfSubsystemGetListeners_def NvmfDeleteSubsystem_def
        new_session_def io_bind_def io_return_def subs ls Some
        scripted_remove_listeners scripted_remove_namespaces dec_bool_True
        find_subsystem_call_def get_listeners_call_def teardown_plan_def short_call_def)
qed

definition example_reported :: json where
  "example_reported = JArr [JObj [(''nqn'', JStr ''a''), (''namespaces'', JArr [JObj [(''nsid'', JNum 1)]])]]"

definition example_listed :: json where
  "example_listed = JArr [JObj [(''address'', JObj [(''traddr'', JStr ''10.0.0.1'')])]]"

definition example_subsystem :: NvmfSubsystem where
  "example_subsystem = \<lparr> NvmfSubsystem.Nqn = ''a'', NvmfSubsystem.Subtype = [], NvmfSubsystem.ListenAddresses = [],
     NvmfSubsystem.AllowAnyHost = False, NvmfSubsystem.Hosts = [], NvmfSubsystem.SerialNumber = [],
     NvmfSubsystem.ModelNumber = [], NvmfSubsystem.MaxNamespaces = 0, NvmfSubsystem.MinCntlid = 0,
     NvmfSubsystem.MaxCntlid = 0, NvmfSubsystem.Namespaces =
       [\<lparr> NvmfSubsystemNamespace.Nsid = 1, NvmfSubsystemNamespace.BdevName = [],
          NvmfSubsystemNamespace.Nguid = [], NvmfSubsystemNamespace.Eui64 = [],
          NvmfSubsystemNamespace.UUID = [], NvmfSubsystemNamespace.Anagrpid = [],
          NvmfSubsystemNamespace.PtplFile = [] \<rparr>] \<rparr>"

definition example_listener :: NvmfSubsystemListener where
  "example_listener = \<lparr> NvmfSubsystemListener.Address = listen_address ''10.0.0.1'' [] [] [],
     NvmfSubsystemListener.AnaState = [] \<rparr>"

lemma example_reported_decodes: "dec_list dec_NvmfSubsystem example_reported = Inr [example_subsystem]"
  by (simp add: example_reported_def example_subsystem_def dec_NvmfSubsystem_def dec_NvmfSubsystemNamespace_def
      dec_anagrpid_def dec_group_id_def decoder_defs)

lemma example_listed_decodes: "dec_list dec_NvmfSubsystemListener example_listed = Inr [example_listener]"
  by (simp add: example_listed_def example_listener_def listen_address_def dec_NvmfSubsystemListener_def
      dec_NvmfSubsystemListenAddress_def decoder_defs)

theorem StopExposeBdev_removes_all_witness:
  "StopExposeBdev scripted ''a'' (new_session (answer example_reported # answer example_listed #
      replicate 3 (answer (JBool True)))) =
    (Inr (), \<lparr> issued = find_subsystem_call # get_listeners_call ''a'' #
        teardown_plan ''a'' [example_listener] (NvmfSubsystem.Namespaces example_subsystem), slots = 0, peer = [] \<rparr>)"
  using StopExposeBdev_removes_all [OF example_reported_decodes example_listed_decodes, of "''a''"]
  by (simp add: example_subsystem_def numeral_3_eq_3)

section \<open>Devices\<close>

definition add_aio_call :: "string \<Rightarrow> string \<Rightarrow> rpc_call" where
  "add_aio_call path name = long_call ''bdev_aio_create'' (BdevAioCreateRequest name path 4096)"

definition list_stores_call :: rpc_call where
  "list_stores_call = short_call ''bdev_lvol_get_lvstores'' (BdevLvolGetLvstoreRequest [] [])"

definition create_store_call :: "string \<Rightarrow> u32 \<Rightarrow> rpc_call" where
  "create_store_call name clusterSize =
     long_call ''bdev_lvol_create_lvstore'' (BdevLvolCreateLvstoreRequest name name clusterSize 0)"

text \<open>
  \<open>AddDevice\<close> is safe to repeat on a disk that already carries a store: if the target reports a
  store on the bdev, the first such store is returned and none is created; otherwise one is created with
  the given cluster size. An empty name becomes the base name of the device path.
\<close>

theorem AddDevice_reuses_store:
  assumes stores: "dec_list dec_LvstoreInfo reported = Inr lvs"
    and name: "name = (if name0 = [] then path_base path else name0)"
  shows "AddDevice scripted path name0 clusterSize
      (new_session [answer (JStr bdev), answer reported, answer (JStr uuid)]) =
    (case find (\<lambda>l. LvstoreInfo.BaseBdev l = name) lvs of
       Some l \<Rightarrow> (Inr (name, name, LvstoreInfo.UUID l),
         \<lparr> issued = [add_aio_call path name, list_stores_call], slots = 0, peer = [answer (JStr uuid)] \<rparr>)
     | None \<Rightarrow> (Inr (name, name, uuid),
         \<lparr> issued = [add_aio_call path name, list_stores_call, create_store_call name clusterSize],
            slots = 0, peer = [] \<rparr>))"
  using stores unfolding AddDevice_def Let_def name [symmetric]
  by (simp add: BdevAioCreate_def BdevLvolGetLvstore_def BdevLvolCreateLvstore_def
      BdevLvolCreateLvstoreWithMdRatio_def new_session_def io_bind_def io_return_def dec_string_def
      add_aio_call_def list_stores_call_def create_store_call_def short_call_def long_call_def
      split: option.splits)

definition stores_reply :: json where
  "stores_reply = JArr [JObj [(''base_bdev'', JStr ''nvme0n1''), (''uuid'', JStr ''u-1'')]]"

lemma stores_reply_decodes:
  "dec_list dec_LvstoreInfo stores_reply = Inr [\<lparr> LvstoreInfo.UUID = ''u-1'', LvstoreInfo.Name = [],
     LvstoreInfo.BaseBdev = ''nvme0n1'', LvstoreInfo.TotalDataClusters = 0, LvstoreInfo.FreeClusters = 0,
     LvstoreInfo.BlockSize = 0, LvstoreInfo.ClusterSize = 0 \<rparr>]"
  by (simp add: stores_reply_def dec_LvstoreInfo_def decoder_defs)

theorem AddDevice_reuses_store_witness:
  "fst (AddDevice scripted ''/dev/nvme0n1'' [] 4194304
      (new_session [answer (JStr ''nvme0n1''), answer stores_reply, answer (JStr ''u-2'')])) =
    Inr (''nvme0n1'', ''nvme0n1'', ''u-1'')"
  using AddDevice_reuses_store [OF stores_reply_decodes refl, of "''/dev/nvme0n1''" "[]" 4194304 "''nvme0n1''" "''u-2''"]
  by (simp add: path_base_def)

text \<open>
  \<open>DeleteDevice\<close> deletes the logical volume store before the AIO bdev below it, and keeps the
  bdev when the store could not be deleted.
\<close>

theorem DeleteDevice_order:
  "runs (DeleteDevice c bdevAioName lvsName) (follows
     [short_call ''bdev_lvol_delete_lvstore'' (BdevLvolDeleteLvstoreRequest [] lvsName),
      short_call ''bdev_aio_delete'' (BdevAioDeleteRequest bdevAioName)])"
  unfolding DeleteDevice_def
  by (rule follows_cons, simp add: BdevLvolDeleteLvstore_def follows_rpc, rule follows_done,
      simp add: BdevAioDelete_def follows_rpc)

end
