(* ===== verification/Exec.thy ===== *)
theory Exec
  imports Effects
begin

text \<open>
  Commands on the host. The code runs every command through an executor of \<open>go-common-libs\<close> that enters
  the host's namespaces; it is a parameter, a function of the command and the state of the host. The
  state also records the commands run.
\<close>

record command =
  cmd_envs :: "string list"
  cmd_binary :: string
  cmd_args :: "string list"
  cmd_timeout :: int

record 'w host =
  ran :: "command list"
  world :: 'w

type_synonym 'w executor = "command \<Rightarrow> 'w \<Rightarrow> (go_error + string) \<times> 'w"

definition ExecuteTimeout :: int where
  "ExecuteTimeout = 180"

definition Execute :: "'w executor \<Rightarrow> string list \<Rightarrow> string \<Rightarrow> string list \<Rightarrow> int \<Rightarrow> ('w host, string) io" where
  "Execute ex envs binary args timeout h =
     (let cmd = \<lparr> cmd_envs = envs, cmd_binary = binary, cmd_args = args, cmd_timeout = timeout \<rparr>;
          (r, w) = ex cmd (world h)
      in (r, h\<lparr> ran := ran h @ [cmd], world := w \<rparr>))"

text \<open>The idiom \<open>_, err := executor.Execute(\<dots>); return err\<close>.\<close>

definition run_only :: "('w host, string) io \<Rightarrow> ('w host, unit) io" where
  "run_only m = io_bind m (\<lambda>_. io_return ())"

section \<open>Which commands an operation runs\<close>

abbreviation execs :: "('w host, 'a) io \<Rightarrow> (go_error + 'a \<Rightarrow> command list \<Rightarrow> bool) \<Rightarrow> bool" where
  "execs \<equiv> traces ran"

definition cmd_of :: "string list \<Rightarrow> string \<Rightarrow> string list \<Rightarrow> int \<Rightarrow> command" where
  "cmd_of envs binary args timeout =
     \<lparr> cmd_envs = envs, cmd_binary = binary, cmd_args = args, cmd_timeout = timeout \<rparr>"

lemmas execsI = tracesI [where tr = ran]
lemmas execs_mono = traces_mono [where tr = ran]
lemmas execs_return = traces_return [where tr = ran]
lemmas execs_fail = traces_fail [where tr = ran]
lemmas execs_lift = traces_lift [where tr = ran]
lemmas execs_case = traces_case [where tr = ran]
lemmas execs_bind = traces_bind [where tr = ran]

lemma execs_Execute: "execs (Execute ex envs b args t) (\<lambda>r cs. cs = [cmd_of envs b args t])"
  by (simp add: traces_def Execute_def Let_def cmd_of_def split: prod.split)

text \<open>Operations all of whose commands satisfy a predicate.\<close>

definition all_execs :: "(command \<Rightarrow> bool) \<Rightarrow> ('w host, 'a) io \<Rightarrow> bool" where
  "all_execs Q m = execs m (\<lambda>_ cs. list_all Q cs)"

lemma all_execs_Execute [intro]: "Q (cmd_of envs b args t) \<Longrightarrow> all_execs Q (Execute ex envs b args t)"
  unfolding all_execs_def by (rule execs_mono [OF execs_Execute]) simp

lemma all_execs_return [simp, intro]: "all_execs Q (io_return x)"
  and all_execs_fail [simp, intro]: "all_execs Q (io_fail e)"
  and all_execs_lift [simp, intro]: "all_execs Q (io_lift r)"
  by (simp_all add: all_execs_def execs_return execs_fail execs_lift)

lemma all_execs_case [intro]:
  assumes "all_execs Q m" and "\<And>e. all_execs Q (h e)" and "\<And>x. all_execs Q (f x)"
  shows "all_execs Q (io_case m h f)"
  unfolding all_execs_def
proof (rule execs_case [OF assms(1) [unfolded all_execs_def]])
  show "execs (h e) (\<lambda>r cs'. list_all Q (cs @ cs'))" if "list_all Q cs" for e cs
    by (rule execs_mono [OF assms(2) [unfolded all_execs_def]]) (use that in simp)
  show "execs (f x) (\<lambda>r cs'. list_all Q (cs @ cs'))" if "list_all Q cs" for x cs
    by (rule execs_mono [OF assms(3) [unfolded all_execs_def]]) (use that in simp)
qed

lemma all_execs_bind [intro]:
  "all_execs Q m \<Longrightarrow> (\<And>x. all_execs Q (f x)) \<Longrightarrow> all_execs Q (io_bind m f)"
  unfolding io_bind_as_case by (rule all_execs_case) auto

lemma all_execs_mono: "all_execs Q m \<Longrightarrow> (\<And>c. Q c \<Longrightarrow> Q' c) \<Longrightarrow> all_execs Q' m"
  unfolding all_execs_def by (erule execs_mono) (auto simp: list_all_iff)

text \<open>A host for examples: the outputs come from a list.\<close>

definition scripted_exec :: "(go_error + string) list executor" where
  "scripted_exec cmd w = (case w of [] \<Rightarrow> (Inl (PlainErr ''no more output''), []) | r # rs \<Rightarrow> (r, rs))"

lemma Execute_scripted [simp]:
  "Execute scripted_exec envs b args t \<lparr> ran = cs, world = r # rs \<rparr> =
     (r, \<lparr> ran = cs @ [cmd_of envs b args t], world = rs \<rparr>)"
  by (simp add: Execute_def scripted_exec_def cmd_of_def)

end
