(* ===== verification/JsonParse.thy ===== *)
theory JsonParse
  imports Json
begin

text \<open>
  Decoding from text: \<open>json.Unmarshal\<close> as it is applied to the output of commands. The text is parsed
  into a value and the value decoded; a syntax error anywhere is an error. Numbers are integers (a
  fraction or an exponent, which the tools do not print, is refused), and an escape \<open>\u\<close> gives the UTF-8
  bytes of its code point.
\<close>

definition syntax_error :: go_error where
  "syntax_error = PlainErr ''invalid character in JSON input''"

definition is_ws :: "char \<Rightarrow> bool" where
  "is_ws c = (c \<in> {CHR '' '', CHR 0x09, CHR 0x0A, CHR 0x0D})"

definition skip_ws :: "string \<Rightarrow> string" where
  "skip_ws = dropWhile is_ws"

definition unescape :: "char \<Rightarrow> char option" where
  "unescape c =
     (if c = CHR 0x22 \<or> c = CHR 0x5C \<or> c = CHR ''/'' then Some c
      else if c = CHR ''b'' then Some (CHR 0x08)
      else if c = CHR ''f'' then Some (CHR 0x0C)
      else if c = CHR ''n'' then Some (CHR 0x0A)
      else if c = CHR ''r'' then Some (CHR 0x0D)
      else if c = CHR ''t'' then Some (CHR 0x09)
      else None)"

definition hex_of :: "char \<Rightarrow> nat option" where
  "hex_of c =
     (let n = (of_char c :: nat) in
      if 48 \<le> n \<and> n \<le> 57 then Some (n - 48)
      else if 97 \<le> n \<and> n \<le> 102 then Some (n - 87)
      else if 65 \<le> n \<and> n \<le> 70 then Some (n - 55)
      else None)"

definition utf8 :: "nat \<Rightarrow> string" where
  "utf8 n =
     (if n < 128 then [char_of n]
      else if n < 2048 then [char_of (192 + n div 64), char_of (128 + n mod 64)]
      else [char_of (224 + n div 4096), char_of (128 + n div 64 mod 64), char_of (128 + n mod 64)])"

text \<open>The rest of a string after its opening quote: its value and what follows the closing quote.\<close>

fun scan_string :: "string \<Rightarrow> (string \<times> string) option" where
  "scan_string [] = None"
| "scan_string (c # cs) =
     (if c = CHR 0x22 then Some ([], cs)
      else if c = CHR 0x5C then
        (case cs of
           [] \<Rightarrow> None
         | e # rest \<Rightarrow>
             if e = CHR ''u'' then
               (case rest of
                  h1 # h2 # h3 # h4 # rest' \<Rightarrow>
                    (case (hex_of h1, hex_of h2, hex_of h3, hex_of h4) of
                       (Some a, Some b, Some c', Some d) \<Rightarrow>
                         map_option (\<lambda>(s, r). (utf8 (((a * 16 + b) * 16 + c') * 16 + d) @ s, r)) (scan_string rest')
                     | _ \<Rightarrow> None)
                | _ \<Rightarrow> None)
             else (case unescape e of
                 None \<Rightarrow> None
               | Some x \<Rightarrow> map_option (\<lambda>(s, r). (x # s, r)) (scan_string rest)))
      else if (of_char c :: nat) < 32 then None
      else map_option (\<lambda>(s, r). (c # s, r)) (scan_string cs))"

definition scan_digits :: "string \<Rightarrow> (nat \<times> string) option" where
  "scan_digits s =
     (let ds = takeWhile is_digit s; rest = dropWhile is_digit s in
      if ds = [] \<or> (1 < length ds \<and> hd ds = CHR ''0'') then None
      else if rest \<noteq> [] \<and> hd rest \<in> {CHR ''.'', CHR ''e'', CHR ''E''} then None
      else map_option (\<lambda>n. (n, rest)) (digits_value 0 ds))"

definition scan_number :: "string \<Rightarrow> (int \<times> string) option" where
  "scan_number s =
     (case s of
        [] \<Rightarrow> None
      | c # cs \<Rightarrow>
          if c = CHR ''-'' then map_option (\<lambda>(n, r). (- int n, r)) (scan_digits cs)
          else map_option (\<lambda>(n, r). (int n, r)) (scan_digits s))"

text \<open>
  The parser: a value, the elements of an array after \<open>[\<close>, the members of an object after \<open>{\<close>. Every call
  consumes a character or is followed by one that does, so twice the length of the text is enough fuel.
\<close>

fun parse_value :: "nat \<Rightarrow> string \<Rightarrow> (json \<times> string) option"
  and parse_elements :: "nat \<Rightarrow> string \<Rightarrow> (json list \<times> string) option"
  and parse_members :: "nat \<Rightarrow> string \<Rightarrow> ((string \<times> json) list \<times> string) option" where
  "parse_value 0 s = None"
| "parse_value (Suc k) s =
     (let t = skip_ws s in
      if has_prefix ''null'' t then Some (JNull, drop 4 t)
      else if has_prefix ''true'' t then Some (JBool True, drop 4 t)
      else if has_prefix ''false'' t then Some (JBool False, drop 5 t)
      else (case t of
          [] \<Rightarrow> None
        | c # cs \<Rightarrow>
            if c = CHR 0x22 then map_option (\<lambda>(x, r). (JStr x, r)) (scan_string cs)
            else if c = CHR ''['' then
              (case skip_ws cs of
                 d # ds \<Rightarrow> if d = CHR '']'' then Some (JArr [], ds)
                           else map_option (\<lambda>(xs, r). (JArr xs, r)) (parse_elements k cs)
               | [] \<Rightarrow> None)
            else if c = CHR ''{'' then
              (case skip_ws cs of
                 d # ds \<Rightarrow> if d = CHR ''}'' then Some (JObj [], ds)
                           else map_option (\<lambda>(xs, r). (JObj xs, r)) (parse_members k cs)
               | [] \<Rightarrow> None)
            else map_option (\<lambda>(n, r). (JNum n, r)) (scan_number t)))"
| "parse_elements 0 s = None"
| "parse_elements (Suc k) s =
     (case parse_value k s of
        None \<Rightarrow> None
      | Some (x, r) \<Rightarrow>
          (case skip_ws r of
             [] \<Rightarrow> None
           | c # cs \<Rightarrow>
               if c = CHR '','' then map_option (\<lambda>(xs, r'). (x # xs, r')) (parse_elements k cs)
               else if c = CHR '']'' then Some ([x], cs)
               else None))"
| "parse_members 0 s = None"
| "parse_members (Suc k) s =
     (case skip_ws s of
        [] \<Rightarrow> None
      | q # qs \<Rightarrow>
          if q \<noteq> CHR 0x22 then None
          else (case scan_string qs of
              None \<Rightarrow> None
            | Some (key, r) \<Rightarrow>
                (case skip_ws r of
                   [] \<Rightarrow> None
                 | c # cs \<Rightarrow>
                     if c \<noteq> CHR '':'' then None
                     else (case parse_value k cs of
                         None \<Rightarrow> None
                       | Some (x, r2) \<Rightarrow>
                           (case skip_ws r2 of
                              [] \<Rightarrow> None
                            | d # ds \<Rightarrow>
                                if d = CHR '','' then
                                  map_option (\<lambda>(xs, r'). ((key, x) # xs, r')) (parse_members k ds)
                                else if d = CHR ''}'' then Some ([(key, x)], ds)
                                else None)))))"

definition parse_json :: "string \<Rightarrow> json option" where
  "parse_json s =
     (case parse_value (2 * length s + 2) s of
        None \<Rightarrow> None
      | Some (j, rest) \<Rightarrow> if skip_ws rest = [] then Some j else None)"

definition unmarshal :: "'a decoder \<Rightarrow> string \<Rightarrow> go_error + 'a" where
  "unmarshal d s = (case parse_json s of None \<Rightarrow> Inl syntax_error | Some j \<Rightarrow> d j)"

lemma parse_example:
  "parse_json ''{ \"a\" : [1, -20], \"b\":{}, \"c\": \"x y\" }'' =
     Some (JObj [(''a'', JArr [JNum 1, JNum (-20)]), (''b'', JObj []), (''c'', JStr ''x y'')])"
  by code_simp

end
