(* ===== verification/BlockDevices.thy ===== *)
theory BlockDevices
  imports Exec JsonParse
begin

text \<open>
  Block devices as lsblk, blkid and blockdev report them, \<open>pkg/util/device.go\<close>. Go's \<open>int\<close> is an
  \<^typ>\<open>int\<close> here: every value is read by a function that checks the 64-bit range.
\<close>

section \<open>Data\<close>

record BlockDevice =
  Name :: string
  Major :: int
  Minor :: int
  MajMin :: string

record LonghornBlockDevice =
  Source :: BlockDevice
  Export :: BlockDevice

definition lsblkBinary :: string where "lsblkBinary = ''lsblk''"
definition blkidBinary :: string where "blkidBinary = ''blkid''"
definition BlockdevBinary :: string where "BlockdevBinary = ''blockdev''"

definition no_device :: BlockDevice where
  "no_device = \<lparr> Name = [], Major = 0, Minor = 0, MajMin = [] \<rparr>"

section \<open>Reading numbers\<close>

text \<open>The verb \<open>%d\<close> of \<open>fmt.Sscanf\<close>: an optional sign and the longest run of digits, within 64 bits.\<close>

definition scan_int :: "string \<Rightarrow> (int \<times> string) option" where
  "scan_int s =
     (let sign = (if s \<noteq> [] \<and> (hd s = CHR ''-'' \<or> hd s = CHR ''+'') then [hd s] else []);
          rest = drop (length sign) s; ds = takeWhile is_digit rest
      in if ds = [] then None
         else map_option (\<lambda>n. (n, dropWhile is_digit rest)) (atoi (sign @ ds)))"

text \<open>\<open>fmt.Sscanf(s, "%d:%d", \<dots>)\<close>; what follows the second number is not looked at.\<close>

definition scan_major_minor :: "string \<Rightarrow> (int \<times> int) option" where
  "scan_major_minor s =
     (case scan_int s of
        Some (major, c # rest) \<Rightarrow>
          if c = CHR '':'' then map_option (\<lambda>(minor, _). (major, minor)) (scan_int rest) else None
      | _ \<Rightarrow> None)"

text \<open>\<open>strconv.Atoi\<close> with its error; the text is the one of a syntax error, a number out of range has another.\<close>

definition atoi_err :: "string \<Rightarrow> go_error + int" where
  "atoi_err s = (case atoi s of
       None \<Rightarrow> Inl (PlainErr (''strconv.Atoi: parsing \"'' @ s @ ''\": invalid syntax''))
     | Some n \<Rightarrow> Inr n)"

definition parseNumber :: "string \<Rightarrow> go_error + int" where
  "parseNumber str = atoi_err (trim_space str)"

definition splitIgnoreEmpty :: "string \<Rightarrow> char \<Rightarrow> string list" where
  "splitIgnoreEmpty str sep = filter (\<lambda>part. part \<noteq> []) (split_on sep str)"

definition splitMajMin :: "string \<Rightarrow> string list" where
  "splitMajMin majMin = splitIgnoreEmpty majMin (CHR '':'')"

text \<open>The lines of a \<open>bufio.Scanner\<close>: no empty line after the last newline, and a carriage return before a
  newline is dropped. (Lines longer than 64 KiB, at which it stops, are out of scope.)\<close>

definition drop_cr :: "string \<Rightarrow> string" where
  "drop_cr line = (if line \<noteq> [] \<and> last line = CHR 0x0D then butlast line else line)"

definition scan_lines :: "string \<Rightarrow> string list" where
  "scan_lines s =
     (let ls = split_on newline s in map drop_cr (if last ls = [] then butlast ls else ls))"

definition wrap_result :: "string \<Rightarrow> go_error + 'a \<Rightarrow> go_error + 'a" where
  "wrap_result msg r = map_sum (WrapErr msg) id r"

definition sum_bind :: "'e + 'a \<Rightarrow> ('a \<Rightarrow> 'e + 'b) \<Rightarrow> 'e + 'b" where
  "sum_bind r f = (case r of Inl e \<Rightarrow> Inl e | Inr x \<Rightarrow> f x)"

section \<open>Known devices\<close>

definition add_known ::
  "(string \<rightharpoonup> LonghornBlockDevice) \<Rightarrow> string \<Rightarrow> go_error + (string \<rightharpoonup> LonghornBlockDevice)" where
  "add_known known line =
     (case GoStrings.fields line of
        [name, majmin] \<Rightarrow>
          (case scan_major_minor majmin of
             None \<Rightarrow> Inl (PlainErr (''invalid major:minor '' @ name @ '' for NVMe device '' @ majmin))
           | Some (major, minor) \<Rightarrow>
               Inr (known(name \<mapsto> \<lparr> Source = \<lparr> Name = name, Major = major, Minor = minor, MajMin = [] \<rparr>,
                 Export = no_device \<rparr>)))
      | _ \<Rightarrow> Inr known)"

fun add_all_known ::
  "(string \<rightharpoonup> LonghornBlockDevice) \<Rightarrow> string list \<Rightarrow> go_error + (string \<rightharpoonup> LonghornBlockDevice)" where
  "add_all_known known [] = Inr known"
| "add_all_known known (line # ls) = sum_bind (add_known known line) (\<lambda>known'. add_all_known known' ls)"

definition GetKnownDevices :: "'w executor \<Rightarrow> ('w host, string \<rightharpoonup> LonghornBlockDevice) io" where
  "GetKnownDevices ex =
     io_bind (Execute ex [] lsblkBinary [''-l'', ''-n'', ''-o'', ''NAME,MAJ:MIN''] ExecuteTimeout) (\<lambda>output.
     io_lift (add_all_known Map.empty (scan_lines output)))"

section \<open>One device\<close>

definition detected :: "string \<Rightarrow> string \<Rightarrow> go_error + BlockDevice" where
  "detected path output =
     (case scan_lines output of
        line # _ \<Rightarrow>
          (case GoStrings.fields line of
             [name, majmin] \<Rightarrow>
               (case scan_major_minor majmin of
                  None \<Rightarrow> Inl (PlainErr (''invalid major:minor '' @ name @ '' for device '' @ majmin @
                    '' with path '' @ path))
                | Some (major, minor) \<Rightarrow>
                    Inr \<lparr> Name = name, Major = major, Minor = minor, MajMin = [] \<rparr>)
           | _ \<Rightarrow> Inl (PlainErr (''failed to get device with path '' @ path)))
      | [] \<Rightarrow> Inl (PlainErr (''failed to get device with path '' @ path)))"

definition DetectDevice :: "'w executor \<Rightarrow> string \<Rightarrow> ('w host, BlockDevice) io" where
  "DetectDevice ex path =
     io_bind (Execute ex [] lsblkBinary [path, ''-n'', ''-o'', ''NAME,MAJ:MIN'', ''--nodeps''] ExecuteTimeout)
       (\<lambda>output. io_lift (detected path output))"

definition dec_int64 :: "int decoder" where
  "dec_int64 j = map_sum id sint (dec_signed j :: go_error + 64 word)"

definition dec_BlockDevice :: "BlockDevice decoder" where
  "dec_BlockDevice = dec_fields (\<lambda>kvs.
     get_field ''name'' dec_string kvs (\<lambda>x1.
     get_field ''maj'' dec_int64 kvs (\<lambda>x2.
     get_field ''min'' dec_int64 kvs (\<lambda>x3.
     get_field ''maj:min'' dec_string kvs (\<lambda>x4.
     Inr \<lparr> Name = x1, Major = x2, Minor = x3, MajMin = x4 \<rparr>)))))"

definition dec_BlockDevices :: "BlockDevice list decoder" where
  "dec_BlockDevices = dec_fields (\<lambda>kvs. get_field ''blockdevices'' (dec_list dec_BlockDevice) kvs Inr)"

definition parseMajorMinorFromJSON :: "string \<Rightarrow> go_error + (int \<times> int)" where
  "parseMajorMinorFromJSON jsonStr =
     sum_bind (wrap_result ''failed to parse JSON'' (unmarshal dec_BlockDevices jsonStr)) (\<lambda>devices.
       case devices of
         [d] \<Rightarrow>
           (case splitMajMin (MajMin d) of
              [a, b] \<Rightarrow>
                sum_bind (wrap_result ''failed to parse major number'' (parseNumber a)) (\<lambda>major.
                sum_bind (wrap_result ''failed to parse minor number'' (parseNumber b)) (\<lambda>minor.
                Inr (major, minor)))
            | _ \<Rightarrow> Inl (PlainErr (''invalid maj:min format: '' @ MajMin d)))
       | _ \<Rightarrow> Inl (PlainErr ''number of devices is not 1''))"

definition GetDeviceNumbers :: "'w executor \<Rightarrow> string \<Rightarrow> ('w host, int \<times> int) io" where
  "GetDeviceNumbers ex devPath =
     io_bind (Execute ex [] lsblkBinary [''--nodeps'', ''-l'', ''-J'', ''-n'', ''-o'', ''MAJ:MIN'', devPath]
       ExecuteTimeout) (\<lambda>output. io_lift (parseMajorMinorFromJSON output))"

definition GetDeviceSectorSize :: "'w executor \<Rightarrow> string \<Rightarrow> ('w host, int) io" where
  "GetDeviceSectorSize ex devPath =
     io_bind (Execute ex [] BlockdevBinary [''--getsz'', devPath] ExecuteTimeout) (\<lambda>output.
     io_lift (atoi_err (trim_space output)))"

text \<open>\<open>blkid\<close> failing counts as \<open>nothing found\<close>.\<close>

definition blkid_finds :: "'w executor \<Rightarrow> string \<Rightarrow> string \<Rightarrow> ('w host, bool) io" where
  "blkid_finds ex tag devPath =
     io_case (Execute ex [] blkidBinary [''-s'', tag, ''-o'', ''value'', devPath] ExecuteTimeout)
       (\<lambda>_. io_return False) (\<lambda>output. io_return (trim_space output \<noteq> []))"

definition hasFilesystem :: "'w executor \<Rightarrow> string \<Rightarrow> ('w host, bool) io" where
  "hasFilesystem ex devPath = blkid_finds ex ''TYPE'' devPath"

definition hasPartitionTable :: "'w executor \<Rightarrow> string \<Rightarrow> ('w host, bool) io" where
  "hasPartitionTable ex devPath = blkid_finds ex ''PTTYPE'' devPath"

definition IsBlockDeviceInUse :: "'w executor \<Rightarrow> string \<Rightarrow> ('w host, bool) io" where
  "IsBlockDeviceInUse ex devPath =
     io_bind (hasFilesystem ex devPath) (\<lambda>b. if b then io_return True else hasPartitionTable ex devPath)"

section \<open>Facts\<close>

lemma scan_int_itoa:
  assumes "- (2 ^ 63) \<le> i" and "i < 2 ^ 63" and "rest = [] \<or> \<not> is_digit (hd rest)"
  shows "scan_int (itoa i @ rest) = Some (i, rest)"
proof -
  have tk: "takeWhile is_digit (itoa_nat n @ rest) = itoa_nat n"
    and dr: "dropWhile is_digit (itoa_nat n @ rest) = rest" for n
    using itoa_nat_digits [of n] assms(3) by (cases rest; simp add: takeWhile_append dropWhile_append)+
  show ?thesis
  proof (cases "i < 0")
    case True
    then have "itoa i = CHR ''-'' # itoa_nat (nat (- i))" by (simp add: itoa_def)
    then show ?thesis
      using atoi_itoa [OF assms(1,2)] by (simp add: scan_int_def tk dr)
  next
    case False
    then have i: "itoa i = itoa_nat (nat i)" by (simp add: itoa_def)
    moreover have "hd (itoa_nat (nat i)) \<noteq> CHR ''-''" "hd (itoa_nat (nat i)) \<noteq> CHR ''+''"
      using itoa_nat_hd_digit [of "nat i"] by (auto simp: is_digit_def)
    ultimately show ?thesis
      using atoi_itoa [OF assms(1,2)] by (simp add: scan_int_def tk dr)
  qed
qed

definition int64 :: "int \<Rightarrow> bool" where
  "int64 i = (- (2 ^ 63) \<le> i \<and> i < 2 ^ 63)"

lemma scan_major_minor_itoa:
  "int64 a \<Longrightarrow> int64 b \<Longrightarrow> scan_major_minor (itoa a @ '':'' @ itoa b) = Some (a, b)"
proof -
  assume "int64 a" "int64 b"
  then have "scan_int (itoa a @ CHR '':'' # itoa b) = Some (a, CHR '':'' # itoa b)"
    by (intro scan_int_itoa) (auto simp: int64_def is_digit_def)
  moreover have "scan_int (itoa b) = Some (b, [])"
    using scan_int_itoa [of b "[]"] \<open>int64 b\<close> by (simp add: int64_def)
  ultimately show ?thesis by (simp add: scan_major_minor_def)
qed

lemma fields_skip: "is_space c \<Longrightarrow> GoStrings.fields (c # cs) = GoStrings.fields cs"
  by (simp add: GoStrings.fields_def fields_func_def)

lemma fields_skip_replicate: "GoStrings.fields (replicate k (CHR '' '') @ s) = GoStrings.fields s"
  by (induction k) (simp_all add: fields_skip is_space_def)

lemma fields_two:
  assumes "a \<noteq> []" "b \<noteq> []" "\<forall>c \<in> set a. \<not> is_space c" "\<forall>c \<in> set b. \<not> is_space c"
  shows "GoStrings.fields (a @ replicate (Suc k) (CHR '' '') @ b) = [a, b]"
proof -
  have "GoStrings.fields (a @ CHR '' '' # (replicate k (CHR '' '') @ b)) = a # GoStrings.fields (replicate k (CHR '' '') @ b)"
    unfolding GoStrings.fields_def by (rule fields_func_run_sep [OF assms(3,1)]) (simp add: is_space_def)
  also have "GoStrings.fields (replicate k (CHR '' '') @ b) = [b]"
    unfolding fields_skip_replicate unfolding GoStrings.fields_def by (rule fields_func_run [OF assms(4,2)])
  finally show ?thesis by simp
qed

lemma split_lines:
  "\<forall>l \<in> set ls. newline \<notin> set l \<Longrightarrow> split_on newline (concat (map (\<lambda>l. l @ [newline]) ls)) = ls @ [[]]"
  by (induction ls) (auto simp: split_on_append)

lemma scan_lines_lines:
  assumes "\<forall>l \<in> set ls. newline \<notin> set l \<and> CHR 0x0D \<notin> set l"
  shows "scan_lines (concat (map (\<lambda>l. l @ [newline]) ls)) = ls"
proof -
  have "drop_cr l = l" if "l \<in> set ls" for l
    using assms that by (auto simp: drop_cr_def dest: last_in_set)
  then show ?thesis
    using assms by (simp add: scan_lines_def split_lines map_idI)
qed

text \<open>The listing \<open>lsblk -l -n -o NAME,MAJ:MIN\<close> prints: a name, blanks that align the column, the numbers.\<close>

type_synonym entry = "string \<times> nat \<times> int \<times> int"

definition entry_line :: "entry \<Rightarrow> string" where
  "entry_line = (\<lambda>(name, k, a, b). name @ replicate (Suc k) (CHR '' '') @ itoa a @ '':'' @ itoa b)"

definition listing :: "entry list \<Rightarrow> string" where
  "listing es = concat (map (\<lambda>l. l @ [newline]) (map entry_line es))"

definition good_entry :: "entry \<Rightarrow> bool" where
  "good_entry = (\<lambda>(name, k, a, b). name \<noteq> [] \<and> (\<forall>c \<in> set name. \<not> is_space c) \<and> int64 a \<and> int64 b)"

definition entry_device :: "entry \<Rightarrow> LonghornBlockDevice" where
  "entry_device = (\<lambda>(name, k, a, b). \<lparr> Source = \<lparr> Name = name, Major = a, Minor = b, MajMin = [] \<rparr>,
     Export = no_device \<rparr>)"

lemma numbers_no_space: "c \<in> set (itoa a @ '':'' @ itoa b) \<Longrightarrow> \<not> is_space c"
  using itoa_chars [of c a] itoa_chars [of c b] by (auto simp: is_space_def is_digit_def)

lemma add_known_entry:
  "good_entry e \<Longrightarrow> add_known known (entry_line e) = Inr (known(fst e \<mapsto> entry_device e))"
proof (cases e)
  case (fields name k a b)
  assume g: "good_entry e"
  have "GoStrings.fields (entry_line e) = [name, itoa a @ '':'' @ itoa b]"
    unfolding fields entry_line_def prod.case
    using g numbers_no_space by (intro fields_two) (auto simp: fields good_entry_def)
  then show ?thesis
    using g scan_major_minor_itoa [of a b] by (simp add: fields add_known_def good_entry_def entry_device_def)
qed

lemma add_all_known_entries:
  "\<forall>e \<in> set es. good_entry e \<Longrightarrow>
     add_all_known known (map entry_line es) = Inr (foldl (\<lambda>m e. m(fst e \<mapsto> entry_device e)) known es)"
  by (induction es arbitrary: known) (simp_all add: add_known_entry sum_bind_def)

lemma foldl_upd_map_of:
  "foldl (\<lambda>m e. m(k e \<mapsto> v e)) known es = known ++ map_of (rev (map (\<lambda>e. (k e, v e)) es))"
  by (induction es arbitrary: known) simp_all

lemma entry_line_clean:
  assumes "good_entry e"
  shows "newline \<notin> set (entry_line e) \<and> CHR 0x0D \<notin> set (entry_line e)"
proof (cases e)
  case (fields name k a b)
  have "is_space newline" "is_space (CHR 0x0D)"
    by (simp_all add: is_space_def newline_def)
  then show ?thesis
    using assms numbers_no_space [of newline a b] numbers_no_space [of "CHR 0x0D" a b]
    by (auto simp: fields entry_line_def good_entry_def newline_def)
qed

text \<open>
  Property C26. Reading back what lsblk prints: for any listing of devices with blank-free names and 64-bit
  numbers, however the column is aligned, \<open>GetKnownDevices\<close> returns the map with exactly the listed devices
  (the last one, should a name occur twice), after running one command.
\<close>

theorem GetKnownDevices_reads_listing:
  assumes "\<forall>e \<in> set es. good_entry e"
  shows "GetKnownDevices scripted_exec \<lparr> ran = cs, world = Inr (listing es) # rest \<rparr> =
    (Inr (map_of (rev (map (\<lambda>e. (fst e, entry_device e)) es))),
     \<lparr> ran = cs @ [cmd_of [] ''lsblk'' [''-l'', ''-n'', ''-o'', ''NAME,MAJ:MIN''] 180], world = rest \<rparr>)"
proof -
  have "scan_lines (listing es) = map entry_line es"
    unfolding listing_def using assms entry_line_clean by (intro scan_lines_lines) simp
  then show ?thesis
    using assms
    by (simp add: GetKnownDevices_def io_bind_def io_lift_def add_all_known_entries foldl_upd_map_of
        lsblkBinary_def ExecuteTimeout_def)
qed

theorem GetKnownDevices_reads_listing_witness:
  "fst (GetKnownDevices scripted_exec \<lparr> ran = [], world = [Inr (listing [(''sda'', 10, 8, 0), (''nvme0n1'', 4, 259, 1)])] \<rparr>) =
     Inr [''sda'' \<mapsto> entry_device (''sda'', 10, 8, 0), ''nvme0n1'' \<mapsto> entry_device (''nvme0n1'', 4, 259, 1)]"
  using GetKnownDevices_reads_listing [of "[(''sda'', 10, 8, 0), (''nvme0n1'', 4, 259, 1)]" "[]" "[]"]
  by (simp add: good_entry_def is_space_def int64_def fun_upd_twist)

end
