(* ===== verification/Node.thy ===== *)
theory Node
  imports BlockDevices JsonRpcClient
begin

text \<open>
  The host an initiator works on. Its operations run commands through the executor, make system calls, take
  a file lock, call SPDK and wait; all of this is one trace of events, and what the host, the kernel and SPDK
  answer is an environment over one outside state. Operations of the lower layers are lifted into it.
\<close>

section \<open>System calls and events\<close>

datatype syscall =
    Stat string
  | Remove string
  | MkdirAll string int
  | Mknod string int "64 word"
  | Chmod string int
  | Chown string int int
  | CreateDirectory string
  | Lock string int
  | Unlock string
  | Sleep int

datatype event = Ran command | Sys syscall | Called rpc_call

record stat_info =
  st_mode :: "32 word"
  st_rdev :: "64 word"

text \<open>
  \<^item> \<open>executor\<close>: the commands; \<open>spdk\<close>: the JSON-RPC server;
  \<^item> \<open>sys\<close>: the system calls that return only an error;
  \<^item> \<open>unix_stat\<close>: \<open>stat\<close> with its result;
  \<^item> \<open>os_remove\<close>: removing a node in the background: \<open>None\<close> when 30 seconds pass before it returns;
  \<^item> \<open>range_order\<close>: the order in which loops visit a Go map.
\<close>

record 'w node_env =
  executor :: "'w executor"
  spdk :: "'w rpc_env"
  sys :: "syscall \<Rightarrow> 'w \<Rightarrow> go_error option \<times> 'w"
  unix_stat :: "string \<Rightarrow> 'w \<Rightarrow> (go_error + stat_info) \<times> 'w"
  os_remove :: "string \<Rightarrow> 'w \<Rightarrow> go_error option option \<times> 'w"
  range_order :: "(string \<rightharpoonup> LonghornBlockDevice) \<Rightarrow> nat \<Rightarrow> LonghornBlockDevice list"

record ('o, 'w) node =
  obj :: 'o
  log :: "event list"
  outside :: 'w

type_synonym ('o, 'w, 'a) op = "(('o, 'w) node, 'a) io"

section \<open>Lifting\<close>

definition on_host :: "('w host, 'a) io \<Rightarrow> ('o, 'w, 'a) op" where
  "on_host m n =
     (let (r, h) = m \<lparr> ran = [], world = outside n \<rparr>
      in (r, n\<lparr> log := log n @ map Ran (ran h), outside := world h \<rparr>))"

text \<open>A client call holds a semaphore slot only while it runs, so that each call starts with none.\<close>

definition on_spdk :: "('w session, 'a) io \<Rightarrow> ('o, 'w, 'a) op" where
  "on_spdk m n =
     (let (r, s) = m \<lparr> issued = [], slots = 0, peer = outside n \<rparr>
      in (r, n\<lparr> log := log n @ map Called (issued s), outside := peer s \<rparr>))"

definition do_sys :: "'w node_env \<Rightarrow> syscall \<Rightarrow> ('o, 'w, unit) op" where
  "do_sys env c n =
     (let (r, w) = sys env c (outside n)
      in (case r of None \<Rightarrow> Inr () | Some e \<Rightarrow> Inl e, n\<lparr> log := log n @ [Sys c], outside := w \<rparr>))"

text \<open>Waiting has no error.\<close>

definition pause :: "'w node_env \<Rightarrow> int \<Rightarrow> ('o, 'w, unit) op" where
  "pause env delay n =
     (Inr (), n\<lparr> log := log n @ [Sys (Sleep delay)], outside := snd (sys env (Sleep delay) (outside n)) \<rparr>)"

definition do_stat :: "'w node_env \<Rightarrow> string \<Rightarrow> ('o, 'w, stat_info) op" where
  "do_stat env path n =
     (let (r, w) = unix_stat env path (outside n)
      in (r, n\<lparr> log := log n @ [Sys (Stat path)], outside := w \<rparr>))"

definition get :: "('o, 'w, 'o) op" where
  "get n = (Inr (obj n), n)"

definition modify :: "('o \<Rightarrow> 'o) \<Rightarrow> ('o, 'w, unit) op" where
  "modify f n = (Inr (), n\<lparr> obj := f (obj n) \<rparr>)"

text \<open>\<open>errors.Wrap(err, msg)\<close> on the way out; a panic passes.\<close>

definition wrapping :: "string \<Rightarrow> ('s, 'a) io \<Rightarrow> ('s, 'a) io" where
  "wrapping msg m = io_case m (\<lambda>e. io_fail (WrapErr msg e)) io_return"

section \<open>Retrying\<close>

text \<open>
  \<open>retry.Do\<close> of \<open>avast/retry-go\<close> with a fixed delay and \<open>LastErrorOnly\<close>, for at least one attempt: an attempt
  succeeds, asks for another one, or gives up (\<open>retry.Unrecoverable\<close>); there is no wait after the last one.
\<close>

datatype 'a attempt = Succeeded 'a | Again go_error | GiveUp go_error

fun retry_do :: "'w node_env \<Rightarrow> int \<Rightarrow> nat \<Rightarrow> ('o, 'w, 'a attempt) op \<Rightarrow> ('o, 'w, 'a) op" where
  "retry_do env delay 0 f = io_fail (PlainErr ''no attempts'')"
| "retry_do env delay (Suc k) f =
     io_bind f (\<lambda>a. case a of
         Succeeded x \<Rightarrow> io_return x
       | GiveUp e \<Rightarrow> io_fail e
       | Again e \<Rightarrow>
           if k = 0 then io_fail e
           else io_bind (pause env delay) (\<lambda>_. retry_do env delay k f))"

text \<open>The usual retried function: any error asks for another attempt.\<close>

definition attempt :: "('o, 'w, 'a) op \<Rightarrow> ('o, 'w, 'a attempt) op" where
  "attempt m = io_case m (\<lambda>e. io_return (Again e)) (\<lambda>x. io_return (Succeeded x))"

section \<open>Which events an operation adds\<close>

abbreviation logs :: "('o, 'w, 'a) op \<Rightarrow> (go_error + 'a \<Rightarrow> event list \<Rightarrow> bool) \<Rightarrow> bool" where
  "logs \<equiv> traces log"

lemmas logsI = tracesI [where tr = log]
lemmas logs_mono = traces_mono [where tr = log]
lemmas logs_return = traces_return [where tr = log]
lemmas logs_fail = traces_fail [where tr = log]
lemmas logs_lift = traces_lift [where tr = log]
lemmas logs_case = traces_case [where tr = log]
lemmas logs_bind = traces_bind [where tr = log]

lemma logs_on_host:
  assumes "execs m P"
  shows "logs (on_host m :: ('o, 'w, 'a) op) (\<lambda>r es. \<exists>cs. es = map Ran cs \<and> P r cs)"
proof (rule logsI)
  fix n :: "('o, 'w) node"
  obtain r h where m: "m \<lparr> ran = [], world = outside n \<rparr> = (r, h)" by (cases "m \<lparr> ran = [], world = outside n \<rparr>")
  obtain cs where "ran h = [] @ cs" "P r cs"
    by (rule tracesD [OF assms m]) (use that in simp)
  then show "\<exists>es. log (snd (on_host m n)) = log n @ es \<and> (\<exists>cs. es = map Ran cs \<and> P (fst (on_host m n)) cs)"
    by (auto simp: on_host_def m)
qed

lemma logs_on_spdk:
  assumes "runs m P"
  shows "logs (on_spdk m :: ('o, 'w, 'a) op) (\<lambda>r es. \<exists>cs. es = map Called cs \<and> P r cs)"
proof (rule logsI)
  fix n :: "('o, 'w) node"
  obtain r s where m: "m \<lparr> issued = [], slots = 0, peer = outside n \<rparr> = (r, s)"
    by (cases "m \<lparr> issued = [], slots = 0, peer = outside n \<rparr>")
  obtain cs where "issued s = [] @ cs" "P r cs"
    by (rule tracesD [OF assms m]) (use that in simp)
  then show "\<exists>es. log (snd (on_spdk m n)) = log n @ es \<and> (\<exists>cs. es = map Called cs \<and> P (fst (on_spdk m n)) cs)"
    by (auto simp: on_spdk_def m)
qed

lemma logs_sys: "logs (do_sys env c) (\<lambda>r es. es = [Sys c])"
  by (simp add: traces_def do_sys_def Let_def split: prod.split)

lemma logs_pause: "logs (pause env d) (\<lambda>r es. r = Inr () \<and> es = [Sys (Sleep d)])"
  by (simp add: traces_def pause_def)

lemma logs_stat: "logs (do_stat env path) (\<lambda>r es. es = [Sys (Stat path)])"
  by (simp add: traces_def do_stat_def Let_def split: prod.split)

lemma logs_get: "logs get (\<lambda>r es. es = [])"
  by (simp add: traces_def get_def)

lemma logs_modify: "logs (modify f) (\<lambda>r es. es = [])"
  by (simp add: traces_def modify_def)

section \<open>What an operation does to the object\<close>

text \<open>\<open>triple P m Q\<close>: from a state that satisfies \<open>P\<close>, the result and the final state satisfy \<open>Q\<close>.\<close>

definition triple :: "('s \<Rightarrow> bool) \<Rightarrow> ('s, 'a) io \<Rightarrow> (go_error + 'a \<Rightarrow> 's \<Rightarrow> bool) \<Rightarrow> bool" where
  "triple P m Q = (\<forall>s. P s \<longrightarrow> Q (fst (m s)) (snd (m s)))"

lemma tripleI: "(\<And>s r s'. P s \<Longrightarrow> m s = (r, s') \<Longrightarrow> Q r s') \<Longrightarrow> triple P m Q"
  unfolding triple_def by (metis prod.collapse)

lemma tripleD: "triple P m Q \<Longrightarrow> P s \<Longrightarrow> m s = (r, s') \<Longrightarrow> Q r s'"
  unfolding triple_def by (metis fst_conv snd_conv)

lemma triple_mono:
  "triple P m Q \<Longrightarrow> (\<And>s. P' s \<Longrightarrow> P s) \<Longrightarrow> (\<And>r s. Q r s \<Longrightarrow> Q' r s) \<Longrightarrow> triple P' m Q'"
  unfolding triple_def by blast

lemma triple_return: "(\<And>s. P s \<Longrightarrow> Q (Inr x) s) \<Longrightarrow> triple P (io_return x) Q"
  by (simp add: triple_def io_return_def)

lemma triple_fail: "(\<And>s. P s \<Longrightarrow> Q (Inl e) s) \<Longrightarrow> triple P (io_fail e) Q"
  by (simp add: triple_def io_fail_def)

lemma triple_lift: "(\<And>s. P s \<Longrightarrow> Q r s) \<Longrightarrow> triple P (io_lift r) Q"
  by (simp add: triple_def io_lift_def)

lemma triple_get: "(\<And>s. P s \<Longrightarrow> Q (Inr (obj s)) s) \<Longrightarrow> triple P get Q"
  by (simp add: triple_def get_def)

lemma triple_modify: "(\<And>s. P s \<Longrightarrow> Q (Inr ()) (s\<lparr> obj := f (obj s) \<rparr>)) \<Longrightarrow> triple P (modify f) Q"
  by (simp add: triple_def modify_def)

lemma triple_bind:
  assumes "triple P m R" and "\<And>x. triple (R (Inr x)) (f x) Q" and "\<And>e s. R (Inl e) s \<Longrightarrow> Q (Inl e) s"
  shows "triple P (io_bind m f) Q"
proof (rule tripleI)
  fix s r s' assume P: "P s" and b: "io_bind m f s = (r, s')"
  obtain r1 s1 where m: "m s = (r1, s1)" by (cases "m s")
  have R: "R r1 s1" by (rule tripleD [OF assms(1) P m])
  show "Q r s'"
  proof (cases r1)
    case (Inl e)
    with b m have "r = Inl e" "s' = s1" by (simp_all add: io_bind_def)
    then show ?thesis using R Inl assms(3) by simp
  next
    case (Inr x)
    with b m have "f x s1 = (r, s')" by (simp add: io_bind_def)
    then show ?thesis using tripleD [OF assms(2)] R Inr by blast
  qed
qed

lemma triple_case:
  assumes "triple P m R" and "\<And>x. triple (R (Inr x)) (f x) Q" and "\<And>e. triple (R (Inl e)) (h e) Q"
    and "\<And>e s. R (Inl e) s \<Longrightarrow> is_panic e \<Longrightarrow> Q (Inl e) s"
  shows "triple P (io_case m h f) Q"
proof (rule tripleI)
  fix s r s' assume P: "P s" and b: "io_case m h f s = (r, s')"
  obtain r1 s1 where m: "m s = (r1, s1)" by (cases "m s")
  have R: "R r1 s1" by (rule tripleD [OF assms(1) P m])
  show "Q r s'"
  proof (cases r1)
    case (Inl e)
    show ?thesis
    proof (cases "is_panic e")
      case True
      with b m Inl have "r = Inl e" "s' = s1" by (simp_all add: io_case_def)
      then show ?thesis using R Inl assms(4) True by simp
    next
      case False
      with b m Inl have "h e s1 = (r, s')" by (simp add: io_case_def)
      then show ?thesis using tripleD [OF assms(3)] R Inl by blast
    qed
  next
    case (Inr x)
    with b m have "f x s1 = (r, s')" by (simp add: io_case_def)
    then show ?thesis using tripleD [OF assms(2)] R Inr by blast
  qed
qed

text \<open>Operations on the outside leave the object alone.\<close>

definition keeps_obj :: "('o, 'w, 'a) op \<Rightarrow> bool" where
  "keeps_obj m = (\<forall>n. obj (snd (m n)) = obj n)"

lemma keeps_on_host [simp]: "keeps_obj (on_host m)"
  and keeps_on_spdk [simp]: "keeps_obj (on_spdk m')"
  and keeps_sys [simp]: "keeps_obj (do_sys env c)"
  and keeps_pause [simp]: "keeps_obj (pause env d)"
  and keeps_stat [simp]: "keeps_obj (do_stat env path)"
  and keeps_get [simp]: "keeps_obj get"
  and keeps_return [simp]: "keeps_obj (io_return x)"
  and keeps_fail [simp]: "keeps_obj (io_fail e)"
  and keeps_lift [simp]: "keeps_obj (io_lift r)"
  by (simp_all add: keeps_obj_def on_host_def on_spdk_def do_sys_def pause_def do_stat_def get_def io_return_def io_fail_def
      io_lift_def Let_def split: prod.split)

lemma keeps_case:
  "keeps_obj m \<Longrightarrow> (\<And>e. keeps_obj (h e)) \<Longrightarrow> (\<And>x. keeps_obj (f x)) \<Longrightarrow> keeps_obj (io_case m h f)"
  by (simp add: keeps_obj_def io_case_def split: prod.split sum.split) (metis snd_conv)

lemma keeps_bind: "keeps_obj m \<Longrightarrow> (\<And>x. keeps_obj (f x)) \<Longrightarrow> keeps_obj (io_bind m f)"
  unfolding io_bind_as_case by (rule keeps_case) simp_all

lemma keeps_if [simp]: "keeps_obj a \<Longrightarrow> keeps_obj b \<Longrightarrow> keeps_obj (if c then a else b)"
  by simp

lemma keeps_wrapping [simp]: "keeps_obj m \<Longrightarrow> keeps_obj (wrapping msg m)"
  unfolding wrapping_def by (rule keeps_case) simp_all

lemma triple_keeps: "keeps_obj m \<Longrightarrow> triple (\<lambda>s. P (obj s)) m (\<lambda>r s. P (obj s))"
  by (simp add: triple_def keeps_obj_def)

end
