(* ===== verification/DeviceNodes.thy ===== *)
theory DeviceNodes
  imports Node
begin

text \<open>
  Device nodes: the system calls of \<open>pkg/util/device.go\<close> that look at, make and remove them.
\<close>

unbundle bit_operations_syntax

section \<open>Device numbers\<close>

text \<open>\<open>unix.Major\<close>, \<open>unix.Minor\<close> and \<open>unix.Mkdev\<close> of \<open>golang.org/x/sys/unix\<close>.\<close>

definition unix_Major :: "64 word \<Rightarrow> 32 word" where
  "unix_Major dev = ucast (drop_bit 8 (dev AND 0x00000000000fff00)) OR ucast (drop_bit 32 (dev AND 0xfffff00000000000))"

definition unix_Minor :: "64 word \<Rightarrow> 32 word" where
  "unix_Minor dev = ucast (dev AND 0x00000000000000ff) OR ucast (drop_bit 12 (dev AND 0x00000ffffff00000))"

definition unix_Mkdev :: "32 word \<Rightarrow> 32 word \<Rightarrow> 64 word" where
  "unix_Mkdev major minor =
     push_bit 8 (ucast major AND 0x00000fff) OR push_bit 32 (ucast major AND 0xfffff000) OR
     (ucast minor AND 0x000000ff) OR push_bit 12 (ucast minor AND 0xffffff00)"

lemma number_masks:
  "(0x00000000000fff00 :: 64 word) = push_bit 8 (mask 12)"
  "(0xfffff00000000000 :: 64 word) = push_bit 44 (mask 20)"
  "(0x00000000000000ff :: 64 word) = mask 8"
  "(0x00000ffffff00000 :: 64 word) = push_bit 20 (mask 24)"
  "(0x00000fff :: 64 word) = mask 12"
  "(0xfffff000 :: 64 word) = push_bit 12 (mask 20)"
  "(0xffffff00 :: 64 word) = push_bit 8 (mask 24)"
  by (simp_all add: mask_eq_exp_minus_1 push_bit_eq_mult)

lemma Major_Mkdev: "unix_Major (unix_Mkdev a b) = a"
  unfolding unix_Major_def unix_Mkdev_def number_masks
  by (rule bit_word_eqI) (auto simp: bit_simps not_le dest: bit_imp_le_length)

lemma Minor_Mkdev: "unix_Minor (unix_Mkdev a b) = b"
  unfolding unix_Minor_def unix_Mkdev_def number_masks
  by (rule bit_word_eqI) (auto simp: bit_simps not_le dest: bit_imp_le_length)

definition S_IFMT :: "32 word" where "S_IFMT = 0xf000"
definition S_IFBLK :: "32 word" where "S_IFBLK = 0x6000"

definition is_block :: "stat_info \<Rightarrow> bool" where
  "is_block st = ((st_mode st AND S_IFMT) = S_IFBLK)"

section \<open>Operations\<close>

definition IsBlockDevice :: "'w node_env \<Rightarrow> string \<Rightarrow> ('o, 'w, bool) op" where
  "IsBlockDevice env path = io_bind (do_stat env path) (\<lambda>st. io_return (is_block st))"

text \<open>The messages \<open>removeAsync\<close> sends on its channel, given the result of \<open>os.Remove\<close>.\<close>

definition removeAsync :: "go_error option \<Rightarrow> go_error option list" where
  "removeAsync result =
     (case result of
        Some err \<Rightarrow> (if \<not> is_not_exist err then [Some err, None] else [None])
      | None \<Rightarrow> [None])"

text \<open>\<open>remove\<close> takes the first message, or gives up after 30 seconds.\<close>

definition remove :: "'w node_env \<Rightarrow> string \<Rightarrow> ('o, 'w, unit) op" where
  "remove env path n =
     (let (r, w) = os_remove env path (outside n)
      in (case r of
            None \<Rightarrow> Inl (PlainErr (''timeout trying to delete '' @ path))
          | Some result \<Rightarrow> (case hd (removeAsync result) of None \<Rightarrow> Inr () | Some err \<Rightarrow> Inl err),
          n\<lparr> log := log n @ [Sys (Remove path)], outside := w \<rparr>))"

definition RemoveDevice :: "'w node_env \<Rightarrow> string \<Rightarrow> ('o, 'w, unit) op" where
  "RemoveDevice env devPath =
     io_case (do_sys env (Stat devPath))
       (\<lambda>err. if is_not_exist err then io_return () else remove env devPath)
       (\<lambda>_. remove env devPath)"

definition node_mode :: int where "node_mode = 432"  \<comment> \<open>0660\<close>
definition dir_mode :: int where "dir_mode = 493"  \<comment> \<open>0755\<close>

definition mknod :: "'w node_env \<Rightarrow> string \<Rightarrow> int \<Rightarrow> int \<Rightarrow> ('o, 'w, unit) op" where
  "mknod env device major minor =
     do_sys env (Mknod device (node_mode + uint S_IFBLK) (unix_Mkdev (word_of_int major) (word_of_int minor)))"

definition ensure_dir :: "'w node_env \<Rightarrow> LonghornBlockDevice \<Rightarrow> string \<Rightarrow> ('o, 'w, unit) op" where
  "ensure_dir env dev dest =
     io_case (do_sys env (Stat (path_dir dest)))
       (\<lambda>err. if is_not_exist err
              then io_case (do_sys env (MkdirAll (path_dir dest) dir_mode))
                (\<lambda>_. io_fail (GoExit (''device '' @ Name (Source dev) @ '': Failed to create directory for '' @ dest)))
                io_return
              else io_return ())
       io_return"

definition DuplicateDevice :: "'w node_env \<Rightarrow> LonghornBlockDevice option \<Rightarrow> string \<Rightarrow> ('o, 'w, unit) op" where
  "DuplicateDevice env dev dest =
     (case dev of
        None \<Rightarrow> io_fail (PlainErr ''found nil device for device duplication'')
      | Some d \<Rightarrow>
          if dest = [] then io_fail (PlainErr ''found empty destination for device duplication'')
          else
            io_bind (ensure_dir env d dest) (\<lambda>_.
            io_bind (wrapping (''cannot create device node '' @ dest @ '' for device '' @ Name (Source d))
              (mknod env dest (Major (Export d)) (Minor (Export d)))) (\<lambda>_.
            io_bind (wrapping (''cannot change permission of the device '' @ dest)
              (do_sys env (Chmod dest node_mode))) (\<lambda>_.
            wrapping (''cannot change ownership of the device '' @ dest) (do_sys env (Chown dest 0 6))))))"

text \<open>The channel of \<open>removeAsync\<close> is unbuffered and its receiver takes one message. When the removal fails, it
  sends a second one, for which it waits forever.\<close>

lemma failed_removal_blocks_sender:
  "\<not> is_not_exist err \<Longrightarrow> length (removeAsync (Some err)) = 2"
  by (simp add: removeAsync_def)

section \<open>Facts\<close>

lemma keeps_remove [simp]: "keeps_obj (remove env path)"
  by (simp add: keeps_obj_def remove_def Let_def split: prod.split)

lemma keeps_RemoveDevice [simp]: "keeps_obj (RemoveDevice env path)"
  unfolding RemoveDevice_def by (intro keeps_case) simp_all

lemma keeps_DuplicateDevice [simp]: "keeps_obj (DuplicateDevice env dev dest)"
  by (auto simp: DuplicateDevice_def ensure_dir_def mknod_def split: option.split
      intro!: keeps_bind keeps_case keeps_wrapping)

lemma keeps_IsBlockDevice [simp]: "keeps_obj (IsBlockDevice env path)"
  unfolding IsBlockDevice_def by (intro keeps_bind) simp_all

end
