(* ===== verification/NvmeCli.thy ===== *)
theory NvmeCli
  imports Exec JsonParse NvmeAddr
begin

text \<open>
  The wrapper of the nvme command-line tool, \<open>pkg/initiator/nvmecli.go\<close>: the commands it runs, with every
  option, and how their output is read.
\<close>

section \<open>Data\<close>

type_synonym i64 = "64 word"

record Path =
  Name :: string
  Transport :: string
  Address :: string
  State :: string

record Subsystem =
  Name :: string
  NQN :: string
  Paths :: "Path list"

record CliDevice =
  NameSpace :: i32
  DevicePath :: string
  Firmware :: string
  Index :: i32
  ModelNumber :: string
  SerialNumber :: string
  UsedBytes :: i64
  MaximumLBA :: i64
  PhysicalSize :: i64
  SectorSize :: i32

record Controller =
  Controller :: string
  Transport :: string
  Address :: string
  State :: string

record Namespace =
  NameSpace :: string
  NSID :: i32
  UsedBytes :: i64
  MaximumLBA :: i64
  PhysicalSize :: i64
  SectorSize :: i32

record Device =
  Subsystem :: string
  SubsystemNQN :: string
  Controllers :: "Controller list"
  Namespaces :: "Namespace list"

record DiscoveryPageEntry =
  PortID :: u16
  TrsvcID :: string
  Subnqn :: string
  Traddr :: string
  SubType :: string

definition dec_Path :: "Path decoder" where
  "dec_Path = dec_fields (\<lambda>kvs.
     get_field ''Name'' dec_string kvs (\<lambda>x1.
     get_field ''Transport'' dec_string kvs (\<lambda>x2.
     get_field ''Address'' dec_string kvs (\<lambda>x3.
     get_field ''State'' dec_string kvs (\<lambda>x4.
     Inr \<lparr> Path.Name = x1, Path.Transport = x2, Path.Address = x3, Path.State = x4 \<rparr>)))))"

definition dec_Subsystem :: "Subsystem decoder" where
  "dec_Subsystem = dec_fields (\<lambda>kvs.
     get_field ''Name'' dec_string kvs (\<lambda>x1.
     get_field ''NQN'' dec_string kvs (\<lambda>x2.
     get_field ''Paths'' (dec_list dec_Path) kvs (\<lambda>x3.
     Inr \<lparr> Subsystem.Name = x1, Subsystem.NQN = x2, Subsystem.Paths = x3 \<rparr>))))"

definition dec_CliDevice :: "CliDevice decoder" where
  "dec_CliDevice = dec_fields (\<lambda>kvs.
     get_field ''Namespace'' dec_signed kvs (\<lambda>x1.
     get_field ''DevicePath'' dec_string kvs (\<lambda>x2.
     get_field ''Firmware'' dec_string kvs (\<lambda>x3.
     get_field ''Index'' dec_signed kvs (\<lambda>x4.
     get_field ''ModelNumber'' dec_string kvs (\<lambda>x5.
     get_field ''SerialNumber'' dec_string kvs (\<lambda>x6.
     get_field ''UsedBytes'' dec_signed kvs (\<lambda>x7.
     get_field ''MaximumLBA'' dec_signed kvs (\<lambda>x8.
     get_field ''PhysicalSize'' dec_signed kvs (\<lambda>x9.
     get_field ''SectorSize'' dec_signed kvs (\<lambda>x10.
     Inr \<lparr> CliDevice.NameSpace = x1, CliDevice.DevicePath = x2, CliDevice.Firmware = x3, CliDevice.Index = x4,
       CliDevice.ModelNumber = x5, CliDevice.SerialNumber = x6, CliDevice.UsedBytes = x7,
       CliDevice.MaximumLBA = x8, CliDevice.PhysicalSize = x9, CliDevice.SectorSize = x10 \<rparr>)))))))))))"

definition dec_DiscoveryPageEntry :: "DiscoveryPageEntry decoder" where
  "dec_DiscoveryPageEntry = dec_fields (\<lambda>kvs.
     get_field ''portid'' dec_word kvs (\<lambda>x1.
     get_field ''trsvcid'' dec_string kvs (\<lambda>x2.
     get_field ''subnqn'' dec_string kvs (\<lambda>x3.
     get_field ''traddr'' dec_string kvs (\<lambda>x4.
     get_field ''subtype'' dec_string kvs (\<lambda>x5.
     Inr \<lparr> PortID = x1, TrsvcID = x2, Subnqn = x3, Traddr = x4, SubType = x5 \<rparr>))))))"

section \<open>Reading the output\<close>

definition nvmeBinary :: string where "nvmeBinary = ''nvme''"
definition DefaultTransportType :: string where "DefaultTransportType = ''tcp''"
definition defaultCtrlLossTmo :: int where "defaultCtrlLossTmo = 30"
definition defaultKeepAliveTmo :: int where "defaultKeepAliveTmo = 5"
definition defaultReconnectDelay :: int where "defaultReconnectDelay = 2"

definition nvme :: "'w executor \<Rightarrow> string list \<Rightarrow> ('w host, string) io" where
  "nvme ex opts = Execute ex [] nvmeBinary opts ExecuteTimeout"

text \<open>The slice \<open>str[a : b+1]\<close>; it panics when the last closing bracket is before the first opening one.\<close>

definition json_slice :: "string \<Rightarrow> nat \<Rightarrow> nat \<Rightarrow> go_error + string" where
  "json_slice s a b =
     (if a > b + 1 then Inl (GoPanic ''slice bounds out of range'') else Inr (take (b + 1 - a) (drop a s)))"

definition invalid_json :: go_error where
  "invalid_json = PlainErr ''invalid JSON string''"

definition extractJSONString :: "string \<Rightarrow> go_error + string" where
  "extractJSONString str =
     (let startIndex = index_of (CHR ''{'') str; startIndexBracket = index_of (CHR ''['') str in
      if startIndex = None \<and> startIndexBracket = None then Inl invalid_json
      else if startIndex \<noteq> None \<and> (startIndexBracket = None \<or> the startIndex < the startIndexBracket) then
        (case last_index_of (CHR ''}'') str of
           None \<Rightarrow> Inl invalid_json
         | Some endIndex \<Rightarrow> json_slice str (the startIndex) endIndex)
      else if startIndexBracket \<noteq> None then
        (case last_index_of (CHR '']'') str of
           None \<Rightarrow> Inl invalid_json
         | Some endIndex \<Rightarrow> json_slice str (the startIndexBracket) endIndex)
      else Inl invalid_json)"

text \<open>The loop over the parts of a controller address: the last \<open>traddr\<close> and the last \<open>trsvcid\<close> win.\<close>

definition address_part :: "string \<times> string \<Rightarrow> string \<Rightarrow> string \<times> string" where
  "address_part acc part =
     (case split_n2 (CHR ''='') part of
        [k, v] \<Rightarrow>
          (let key = trim_space k; val = trim_space v in
           if key = ''traddr'' then (val, snd acc)
           else if key = ''trsvcid'' then (fst acc, val)
           else acc)
      | _ \<Rightarrow> acc)"

definition GetIPAndPortFromControllerAddress :: "string \<Rightarrow> string \<times> string" where
  "GetIPAndPortFromControllerAddress address =
     foldl address_part ([], []) (fields_func (\<lambda>c. c = CHR '','' \<or> c = CHR '' '') address)"

definition parse_cli_version :: "string \<Rightarrow> go_error + (int \<times> int)" where
  "parse_cli_version outputStr =
     (let versionStr = (case find (has_prefix ''nvme'') (split_on newline outputStr) of
            None \<Rightarrow> [] | Some line \<Rightarrow> trim_space line);
          version = (case find (contains ''.'') (split_on (CHR '' '') versionStr) of None \<Rightarrow> [] | Some v \<Rightarrow> v)
      in if version = [] then Inl (PlainErr (''failed to get version from '' @ outputStr))
         else (let versionArr = split_on (CHR ''.'') version;
                   major = (if length versionArr \<ge> 1 then parse_int_value (versionArr ! 0) else 0);
                   minor = (if length versionArr \<ge> 2 then parse_int_value (versionArr ! 1) else 0)
               in Inr (major, minor)))"

definition cliVersion :: "'w executor \<Rightarrow> ('w host, int \<times> int) io" where
  "cliVersion ex = io_bind (nvme ex [''--version'']) (\<lambda>outputStr. io_lift (parse_cli_version outputStr))"

definition showHostNQN :: "'w executor \<Rightarrow> ('w host, string) io" where
  "showHostNQN ex = io_bind (nvme ex [''--show-hostnqn'']) (\<lambda>outputStr.
     case find (has_prefix ''nqn.'') (split_on newline outputStr) of
       Some line \<Rightarrow> io_return (trim_space line)
     | None \<Rightarrow> io_fail (PlainErr (''failed to get host NQN from '' @ outputStr)))"

definition listSubsystemsV1 :: "string \<Rightarrow> go_error + Subsystem list" where
  "listSubsystemsV1 jsonStr =
     map_sum id (\<lambda>m. case m ''Subsystems'' of None \<Rightarrow> [] | Some xs \<Rightarrow> xs)
       (unmarshal (dec_map (dec_list dec_Subsystem)) jsonStr)"

definition dec_ListSubsystemsV2Output :: "Subsystem list decoder" where
  "dec_ListSubsystemsV2Output = dec_fields (\<lambda>kvs.
     get_field ''HostNQN'' dec_string kvs (\<lambda>_.
     get_field ''HostID'' dec_string kvs (\<lambda>_.
     get_field ''Subsystems'' (dec_list dec_Subsystem) kvs Inr)))"

definition listSubsystemsV2 :: "string \<Rightarrow> go_error + Subsystem list" where
  "listSubsystemsV2 jsonStr = map_sum id concat (unmarshal (dec_list dec_ListSubsystemsV2Output) jsonStr)"

definition listSubsystems :: "'w executor \<Rightarrow> string \<Rightarrow> ('w host, Subsystem list) io" where
  "listSubsystems ex devicePath =
     io_bind (cliVersion ex) (\<lambda>(major, minor).
     io_bind (nvme ex ([''list-subsys'', ''-o'', ''json''] @ (if devicePath \<noteq> [] then [devicePath] else []))) (\<lambda>outputStr.
     io_bind (io_lift (extractJSONString outputStr)) (\<lambda>jsonStr.
     io_lift (if major = 1 then listSubsystemsV1 jsonStr else listSubsystemsV2 jsonStr))))"

definition listRecognizedNvmeDevices :: "'w executor \<Rightarrow> ('w host, CliDevice list) io" where
  "listRecognizedNvmeDevices ex =
     io_bind (nvme ex [''list'', ''-o'', ''json'']) (\<lambda>outputStr.
     io_bind (io_lift (extractJSONString outputStr)) (\<lambda>jsonStr.
     io_lift (map_sum id (\<lambda>m. case m ''Devices'' of None \<Rightarrow> [] | Some xs \<Rightarrow> xs)
       (unmarshal (dec_map (dec_list dec_CliDevice)) jsonStr))))"

definition cat :: "'w executor \<Rightarrow> string \<Rightarrow> ('w host, string) io" where
  "cat ex path = Execute ex [] ''cat'' [path] ExecuteTimeout"

definition getHostID :: "'w executor \<Rightarrow> ('w host, string) io" where
  "getHostID ex =
     io_case (cat ex ''/etc/nvme/hostid'')
       (\<lambda>_. io_bind (cat ex ''/sys/class/dmi/id/product_uuid'') (\<lambda>outputStr. io_return (trim_space outputStr)))
       (\<lambda>outputStr. io_return (trim_space outputStr))"

section \<open>Commands\<close>

definition opt :: "string \<Rightarrow> string \<Rightarrow> string list" where
  "opt flag v = (if v \<noteq> [] then [flag, v] else [])"

definition discover_opts :: "string \<Rightarrow> string \<Rightarrow> string \<Rightarrow> string \<Rightarrow> string list" where
  "discover_opts hostID hostNQN ip port =
     [''discover'', ''-t'', DefaultTransportType, ''-a'', ip, ''-s'', port, ''-o'', ''json''] @
     opt ''-I'' hostID @ opt ''-q'' hostNQN"

definition dec_records :: "DiscoveryPageEntry list decoder" where
  "dec_records = dec_fields (\<lambda>kvs. get_field ''records'' (dec_list dec_DiscoveryPageEntry) kvs Inr)"

definition discovery ::
  "'w executor \<Rightarrow> string \<Rightarrow> string \<Rightarrow> string \<Rightarrow> string \<Rightarrow> ('w host, DiscoveryPageEntry list) io" where
  "discovery ex hostID hostNQN ip0 port =
     (let ip = NormalizeNvmeAddr ip0 in
      io_bind (nvme ex (discover_opts hostID hostNQN ip port)) (\<lambda>outputStr.
      io_bind (io_lift (extractJSONString outputStr)) (\<lambda>jsonStr.
      io_lift (unmarshal dec_records jsonStr))))"

definition connect_opts ::
  "string \<Rightarrow> string \<Rightarrow> string \<Rightarrow> string \<Rightarrow> string \<Rightarrow> string \<Rightarrow> i32 \<Rightarrow> string list" where
  "connect_opts hostID hostNQN nqn transportType ip port nrIoQueues =
     [''connect'', ''-t'', transportType, ''--nqn'', nqn, ''--ctrl-loss-tmo'', itoa defaultCtrlLossTmo,
      ''--keep-alive-tmo'', itoa defaultKeepAliveTmo, ''--reconnect-delay'', itoa defaultReconnectDelay,
      ''-o'', ''json''] @
     (if 0 < sint nrIoQueues then [''--nr-io-queues'', itoa (sint nrIoQueues)] else []) @
     opt ''-I'' hostID @ opt ''-q'' hostNQN @ opt ''-a'' ip @ opt ''-s'' port"

definition connect ::
  "'w executor \<Rightarrow> string \<Rightarrow> string \<Rightarrow> string \<Rightarrow> string \<Rightarrow> string \<Rightarrow> string \<Rightarrow> i32 \<Rightarrow> ('w host, string) io" where
  "connect ex hostID hostNQN nqn transportType ip0 port nrIoQueues =
     (let ip = NormalizeNvmeAddr ip0 in
      io_bind (nvme ex (connect_opts hostID hostNQN nqn transportType ip port nrIoQueues)) (\<lambda>outputStr.
      io_bind (io_lift (extractJSONString outputStr)) (\<lambda>jsonStr.
      io_lift (map_sum id (\<lambda>m. case m ''device'' of None \<Rightarrow> [] | Some d \<Rightarrow> d)
        (unmarshal (dec_map dec_string) jsonStr)))))"

definition disconnect :: "'w executor \<Rightarrow> string \<Rightarrow> ('w host, unit) io" where
  "disconnect ex nqn = run_only (nvme ex [''disconnect'', ''--nqn'', nqn])"

definition disconnectController :: "'w executor \<Rightarrow> string \<Rightarrow> ('w host, unit) io" where
  "disconnectController ex controllerName =
     run_only (nvme ex [''disconnect'', ''--device'', join_abs [''/dev'', controllerName]])"

definition flush :: "'w executor \<Rightarrow> string \<Rightarrow> string \<Rightarrow> ('w host, string) io" where
  "flush ex devicePath namespaceID =
     nvme ex ([''flush'', devicePath, ''-o'', ''json''] @ opt ''-n'' namespaceID)"

section \<open>Facts\<close>

lemma index_of_after:
  assumes "x \<notin> set a" and "x \<noteq> y" and "index_of x (a @ y # b) = Some i"
  shows "length a < i"
proof (rule ccontr)
  assume "\<not> length a < i"
  then consider "i < length a" | "i = length a" by linarith
  then show False
    using index_of_Some [OF assms(3)] assms(1,2) by cases (auto simp: nth_append)
qed

lemma extract_object:
  assumes "CHR ''{'' \<notin> set before" and "CHR ''['' \<notin> set before" and "CHR ''}'' \<notin> set after"
  shows "extractJSONString (before @ ''{'' @ body @ ''}'' @ after) = Inr (''{'' @ body @ ''}'')"
proof -
  let ?s = "before @ CHR ''{'' # (body @ CHR ''}'' # after)"
  have i: "index_of (CHR ''{'') ?s = Some (length before)"
    by (rule index_of_append_notin [OF assms(1)])
  have l: "last_index_of (CHR ''}'') ?s = Some (length before + Suc (length body))"
    using last_index_of_append_notin [OF assms(3), of "before @ CHR ''{'' # body"] by simp
  have b: "index_of (CHR ''['') ?s = None \<or> length before < the (index_of (CHR ''['') ?s)"
    using index_of_after [OF assms(2), of "CHR ''{''" "body @ CHR ''}'' # after"]
    by (cases "index_of (CHR ''['') ?s") simp_all
  show ?thesis
    using i l b by (simp add: extractJSONString_def json_slice_def)
qed

lemma extract_array:
  assumes "CHR ''{'' \<notin> set before" and "CHR ''['' \<notin> set before" and "CHR '']'' \<notin> set after"
  shows "extractJSONString (before @ ''['' @ body @ '']'' @ after) = Inr (''['' @ body @ '']'')"
proof -
  let ?s = "before @ CHR ''['' # (body @ CHR '']'' # after)"
  have i: "index_of (CHR ''['') ?s = Some (length before)"
    by (rule index_of_append_notin [OF assms(2)])
  have l: "last_index_of (CHR '']'') ?s = Some (length before + Suc (length body))"
    using last_index_of_append_notin [OF assms(3), of "before @ CHR ''['' # body"] by simp
  have b: "index_of (CHR ''{'') ?s = None \<or> length before < the (index_of (CHR ''{'') ?s)"
    using index_of_after [OF assms(1), of "CHR ''[''" "body @ CHR '']'' # after"]
    by (cases "index_of (CHR ''{'') ?s") simp_all
  show ?thesis
    using i l b by (auto simp: extractJSONString_def json_slice_def)
qed

text \<open>
  \<open>extractJSONString\<close> cuts an object or array out of the noise around it: text without
  opening brackets before it and without closing brackets after it is dropped, and the value itself,
  whatever it contains, is returned unchanged. On output in which the only closing brace stands before the
  opening one it panics instead of returning its error.
\<close>

theorem extractJSONString_cuts:
  assumes "CHR ''{'' \<notin> set before" and "CHR ''['' \<notin> set before" and "CHR ''}'' \<notin> set after" and "CHR '']'' \<notin> set after"
  shows "extractJSONString (before @ ''{'' @ body @ ''}'' @ after) = Inr (''{'' @ body @ ''}'') \<and>
    extractJSONString (before @ ''['' @ body @ '']'' @ after) = Inr (''['' @ body @ '']'') \<and>
    extractJSONString ''} {'' = Inl (GoPanic ''slice bounds out of range'')"
  using extract_object [OF assms(1-3)] extract_array [OF assms(1,2,4)] by (simp add: extractJSONString_def json_slice_def)

theorem extractJSONString_cuts_witness:
  "extractJSONString (''warning: '' @ ''{'' @ ''a'' @ ''}'' @ '' done'') = Inr ''{a}''"
  using extractJSONString_cuts [of "''warning: ''" "'' done''" "''a''"] by simp

end
