(* ===== verification/NvmeTarget.thy ===== *)
theory NvmeTarget
  imports NvmeCli
begin

text \<open>
  NVMe/TCP targets as the host sees them, \<open>pkg/initiator/nvme.go\<close>: discovering and connecting a target,
  finding the devices of a target among those the host recognises, and disconnecting.
\<close>

section \<open>Wrapped errors\<close>

text \<open>\<open>defer func() { err = errors.Wrapf(err, \<dots>) }()\<close>: an error is wrapped, a panic passes.\<close>

definition io_wrapped :: "string \<Rightarrow> ('s, 'a) io \<Rightarrow> ('s, 'a) io" where
  "io_wrapped msg m = io_case m (\<lambda>e. io_fail (WrapErr msg e)) io_return"

section \<open>Discovering\<close>

definition DiscoverTarget :: "'w executor \<Rightarrow> string \<Rightarrow> string \<Rightarrow> ('w host, string) io" where
  "DiscoverTarget ex ip port =
     io_bind (getHostID ex) (\<lambda>hostID.
     io_bind (showHostNQN ex) (\<lambda>hostNQN.
     io_bind (discovery ex hostID hostNQN ip port) (\<lambda>entries.
       case find (\<lambda>entry. TrsvcID entry = port) entries of
         Some entry \<Rightarrow> io_return (Subnqn entry)
       | None \<Rightarrow> io_fail (PlainErr (''found empty subnqn after nvme discover for '' @ ip @ '':'' @ port)))))"

section \<open>Finding devices\<close>

definition isTransientNVMeScanError :: "go_error \<Rightarrow> bool" where
  "isTransientNVMeScanError err = contains ErrorMessageNoSuchFileOrDirectory (to_lower (error_text err))"

definition controllers_of :: "Path list \<Rightarrow> Controller list" where
  "controllers_of = map (\<lambda>p. \<lparr> Controller.Controller = Path.Name p, Controller.Transport = Path.Transport p,
     Controller.Address = Path.Address p, Controller.State = Path.State p \<rparr>)"

definition namespace_of :: "CliDevice \<Rightarrow> Namespace" where
  "namespace_of d = \<lparr> Namespace.NameSpace = path_base (DevicePath d), NSID = CliDevice.NameSpace d,
     Namespace.UsedBytes = CliDevice.UsedBytes d, Namespace.MaximumLBA = CliDevice.MaximumLBA d,
     Namespace.PhysicalSize = CliDevice.PhysicalSize d, Namespace.SectorSize = CliDevice.SectorSize d \<rparr>"

definition device_of :: "Subsystem \<Rightarrow> Namespace list \<Rightarrow> Device" where
  "device_of sys namespaces = \<lparr> Device.Subsystem = Subsystem.Name sys, SubsystemNQN = NQN sys,
     Controllers = controllers_of (Paths sys), Namespaces = namespaces \<rparr>"

text \<open>The loop over the recognised devices; the number counts the devices skipped, which is only logged.\<close>

fun scan_devices :: "'w executor \<Rightarrow> CliDevice list \<Rightarrow> Device list \<Rightarrow> nat \<Rightarrow> ('w host, Device list \<times> nat) io" where
  "scan_devices ex [] devices skipped = io_return (devices, skipped)"
| "scan_devices ex (d # ds) devices skipped =
     io_case (listSubsystems ex (DevicePath d))
       (\<lambda>err. if isTransientNVMeScanError err then scan_devices ex ds devices (skipped + 1)
              else scan_devices ex ds devices skipped)
       (\<lambda>subsystems.
          case subsystems of
            [] \<Rightarrow> scan_devices ex ds devices (skipped + 1)
          | sys # rest \<Rightarrow>
              if rest \<noteq> []
              then io_fail (PlainErr (''multiple subsystems found for NVMe device '' @ DevicePath d))
              else scan_devices ex ds (devices @ [device_of sys [namespace_of d]]) skipped)"

definition address_matches :: "string \<Rightarrow> string \<Rightarrow> string \<Rightarrow> bool" where
  "address_matches ip port address =
     (let (controllerIP, controllerPort) = GetIPAndPortFromControllerAddress address
      in \<not> (ip \<noteq> [] \<and> ip \<noteq> controllerIP) \<and> \<not> (port \<noteq> [] \<and> port \<noteq> controllerPort))"

definition device_matches :: "string \<Rightarrow> string \<Rightarrow> string \<Rightarrow> Device \<Rightarrow> bool" where
  "device_matches ip port nqn d =
     (SubsystemNQN d = nqn \<and> Namespaces d \<noteq> [] \<and>
      list_ex (\<lambda>c. address_matches ip port (Controller.Address c)) (Controllers d))"

text \<open>The fallback for native multipath: for each matching subsystem the first scanned device of that
  subsystem, with the controllers of the unfiltered query.\<close>

definition multipath_device :: "Device list \<Rightarrow> string \<Rightarrow> string \<Rightarrow> string \<Rightarrow> Subsystem \<Rightarrow> Device list" where
  "multipath_device devices ip port nqn sys =
     (if NQN sys \<noteq> nqn then []
      else if \<not> list_ex (\<lambda>p. address_matches ip port (Path.Address p)) (Paths sys) then []
      else (case find (\<lambda>d. SubsystemNQN d = nqn \<and> Namespaces d \<noteq> []) devices of
              None \<Rightarrow> []
            | Some d \<Rightarrow> [device_of sys (Namespaces d)]))"

definition multipath_devices ::
  "'w executor \<Rightarrow> Device list \<Rightarrow> string \<Rightarrow> string \<Rightarrow> string \<Rightarrow> ('w host, Device list) io" where
  "multipath_devices ex devices ip port nqn =
     io_bind (listSubsystems ex []) (\<lambda>subsystems.
     io_return (concat (map (multipath_device devices ip port nqn) subsystems)))"

text \<open>The error when nothing is found: the state of the first path of the subsystem, if it has one.\<close>

definition not_found :: "'w executor \<Rightarrow> string \<Rightarrow> string \<Rightarrow> string \<Rightarrow> ('w host, Device list) io" where
  "not_found ex ip port nqn =
     io_bind (listSubsystems ex []) (\<lambda>subsystems.
       case concat (map Paths (filter (\<lambda>sys. NQN sys = nqn) subsystems)) of
         path # _ \<Rightarrow> io_fail (PlainErr (''subsystem NQN '' @ nqn @ '' path '' @ Path.Name path @ '' address '' @
           Path.Address path @ '' is in '' @ Path.State path @ '' state''))
       | [] \<Rightarrow> io_fail (PlainErr (ErrorMessageCannotFindValidNvmeDevice @ '' with subsystem NQN '' @ nqn @
           '' and address '' @ ip @ '':'' @ port)))"

definition select_devices ::
  "'w executor \<Rightarrow> Device list \<Rightarrow> string \<Rightarrow> string \<Rightarrow> string \<Rightarrow> ('w host, Device list) io" where
  "select_devices ex devices ip port nqn =
     (if nqn = [] then io_return devices
      else
        (let res = filter (device_matches ip port nqn) devices in
         io_bind (if res = [] then multipath_devices ex devices ip port nqn else io_return res) (\<lambda>res.
           if res = [] then not_found ex ip port nqn else io_return res)))"

definition GetDevices :: "'w executor \<Rightarrow> string \<Rightarrow> string \<Rightarrow> string \<Rightarrow> ('w host, Device list) io" where
  "GetDevices ex ip port nqn =
     io_wrapped (''failed to get devices for address '' @ ip @ '':'' @ port @ '' and nqn '' @ nqn)
       (io_bind (listRecognizedNvmeDevices ex) (\<lambda>nvmeDevices.
        io_bind (scan_devices ex nvmeDevices [] 0) (\<lambda>(devices, _).
        select_devices ex devices ip port nqn)))"

definition GetSubsystems :: "'w executor \<Rightarrow> ('w host, Subsystem list) io" where
  "GetSubsystems ex = listSubsystems ex []"

section \<open>Connecting and disconnecting\<close>

definition first_controller :: "Device \<Rightarrow> go_error + string" where
  "first_controller d = (case Controllers d of
       [] \<Rightarrow> Inl (GoPanic ''index out of range [0] with length 0'')
     | c # _ \<Rightarrow> Inr (Controller.Controller c))"

definition connect_new :: "'w executor \<Rightarrow> string \<Rightarrow> string \<Rightarrow> string \<Rightarrow> i32 \<Rightarrow> ('w host, string) io" where
  "connect_new ex ip port nqn nrIoQueues =
     io_bind (showHostNQN ex) (\<lambda>hostNQN.
     io_bind (getHostID ex) (\<lambda>hostID.
     connect ex hostID hostNQN nqn DefaultTransportType ip port nrIoQueues))"

definition ConnectTargetWithNrIoQueues ::
  "'w executor \<Rightarrow> string \<Rightarrow> string \<Rightarrow> string \<Rightarrow> i32 \<Rightarrow> ('w host, string) io" where
  "ConnectTargetWithNrIoQueues ex ip port nqn nrIoQueues =
     io_case (GetDevices ex ip port nqn)
       (\<lambda>_. connect_new ex ip port nqn nrIoQueues)
       (\<lambda>devices. case devices of
            [] \<Rightarrow> connect_new ex ip port nqn nrIoQueues
          | d # _ \<Rightarrow> io_lift (first_controller d))"

definition ConnectTarget :: "'w executor \<Rightarrow> string \<Rightarrow> string \<Rightarrow> string \<Rightarrow> ('w host, string) io" where
  "ConnectTarget ex ip port nqn = ConnectTargetWithNrIoQueues ex ip port nqn 0"

definition DisconnectTarget :: "'w executor \<Rightarrow> string \<Rightarrow> ('w host, unit) io" where
  "DisconnectTarget ex nqn = disconnect ex nqn"

definition controller_at :: "string \<Rightarrow> string \<Rightarrow> string \<Rightarrow> Subsystem list \<Rightarrow> Path option" where
  "controller_at nqn ip port subsystems =
     find (\<lambda>p. GetIPAndPortFromControllerAddress (Path.Address p) = (ip, port))
       (concat (map Paths (filter (\<lambda>sys. NQN sys = nqn) subsystems)))"

definition DisconnectController :: "'w executor \<Rightarrow> string \<Rightarrow> string \<Rightarrow> string \<Rightarrow> ('w host, unit) io" where
  "DisconnectController ex nqn ip port =
     io_bind (io_wrapped ''failed to list subsystems for controller disconnect'' (listSubsystems ex []))
       (\<lambda>subsystems.
          case controller_at nqn ip port subsystems of
            None \<Rightarrow> io_return ()
          | Some p \<Rightarrow> disconnectController ex (Path.Name p))"

definition Flush :: "'w executor \<Rightarrow> string \<Rightarrow> string \<Rightarrow> ('w host, string) io" where
  "Flush ex device namespaceID = flush ex device namespaceID"

section \<open>Facts\<close>

text \<open>The commands that only look: queries of nvme-cli and reading files.\<close>

definition is_query :: "command \<Rightarrow> bool" where
  "is_query c = (cmd_binary c = ''cat'' \<or>
     cmd_binary c = nvmeBinary \<and> cmd_args c \<noteq> [] \<and>
       hd (cmd_args c) \<in> {''--version'', ''--show-hostnqn'', ''list'', ''list-subsys'', ''discover''})"

lemma nvme_query:
  "a \<in> {''--version'', ''--show-hostnqn'', ''list'', ''list-subsys'', ''discover''} \<Longrightarrow>
     all_execs is_query (nvme ex (a # as))"
  unfolding nvme_def by (rule all_execs_Execute) (simp add: is_query_def cmd_of_def)

lemma cliVersion_queries: "all_execs is_query (cliVersion ex)"
  unfolding cliVersion_def by (intro all_execs_bind nvme_query all_execs_lift) simp

lemma listSubsystems_queries: "all_execs is_query (listSubsystems ex devicePath)"
  unfolding listSubsystems_def append_Cons case_prod_unfold
  by (intro all_execs_bind cliVersion_queries nvme_query all_execs_lift) simp

lemma listRecognizedNvmeDevices_queries: "all_execs is_query (listRecognizedNvmeDevices ex)"
  unfolding listRecognizedNvmeDevices_def by (intro all_execs_bind nvme_query all_execs_lift) simp

lemma showHostNQN_queries: "all_execs is_query (showHostNQN ex)"
  unfolding showHostNQN_def
  by (intro all_execs_bind nvme_query) (simp_all split: option.split)

lemma getHostID_queries: "all_execs is_query (getHostID ex)"
  unfolding getHostID_def cat_def
  by (intro all_execs_case all_execs_bind all_execs_Execute all_execs_return) (simp_all add: is_query_def cmd_of_def)

lemma scan_devices_queries: "all_execs is_query (scan_devices ex ds devices skipped)"
proof (induction ds arbitrary: devices skipped)
  case (Cons d ds)
  then show ?case
    by (auto simp: all_execs_return split: list.split intro!: all_execs_case listSubsystems_queries)
qed (simp add: all_execs_return)

lemma select_devices_queries: "all_execs is_query (select_devices ex devices ip port nqn)"
  unfolding select_devices_def multipath_devices_def not_found_def Let_def
  by (auto split: list.split intro!: all_execs_bind listSubsystems_queries)

lemma GetDevices_queries: "all_execs is_query (GetDevices ex ip port nqn)"
  unfolding GetDevices_def io_wrapped_def
  by (auto intro!: all_execs_case all_execs_bind listRecognizedNvmeDevices_queries scan_devices_queries
      select_devices_queries)

lemma io_wrapped_Inr: "io_wrapped msg m h = (Inr x, h') \<longleftrightarrow> m h = (Inr x, h')"
  by (auto simp: io_wrapped_def io_case_def io_fail_def io_return_def split: prod.splits sum.splits if_splits)

lemma scan_devices_namespaces:
  assumes "scan_devices ex ds devices skipped h = (Inr (devices', k), h')"
    and "\<forall>d \<in> set devices. length (Namespaces d) = 1"
  shows "\<forall>d \<in> set devices'. length (Namespaces d) = 1"
  using assms
proof (induction ds arbitrary: devices skipped h)
  case (Cons d ds)
  obtain r h1 where m: "listSubsystems ex (DevicePath d) h = (r, h1)" by (cases "listSubsystems ex (DevicePath d) h")
  show ?case
  proof (cases r)
    case (Inl e)
    with Cons m show ?thesis
      by (auto simp: io_case_def split: if_splits)
  next
    case (Inr subs)
    show ?thesis
    proof (cases subs)
      case Nil
      with Cons m Inr show ?thesis by (auto simp: io_case_def)
    next
      case (Cons sys rest)
      with Cons.prems m Inr have "scan_devices ex ds (devices @ [device_of sys [namespace_of d]]) skipped h1 =
          (Inr (devices', k), h')"
        by (auto simp: io_case_def io_fail_def split: if_splits)
      moreover have "\<forall>x \<in> set (devices @ [device_of sys [namespace_of d]]). length (Namespaces x) = 1"
        using Cons.prems(2) by (simp add: device_of_def)
      ultimately show ?thesis by (rule Cons.IH)
    qed
  qed
qed (simp add: io_return_def)

definition good_device :: "string \<Rightarrow> string \<Rightarrow> string \<Rightarrow> Device \<Rightarrow> bool" where
  "good_device ip port nqn d =
     (SubsystemNQN d = nqn \<and> length (Namespaces d) = 1 \<and>
      (\<exists>c \<in> set (Controllers d). address_matches ip port (Controller.Address c)))"

lemma multipath_device_good:
  assumes "d \<in> set (multipath_device devices ip port nqn sys)" and "\<forall>d \<in> set devices. length (Namespaces d) = 1"
  shows "good_device ip port nqn d"
proof -
  obtain d0 where "d = device_of sys (Namespaces d0)" "NQN sys = nqn"
    "list_ex (\<lambda>p. address_matches ip port (Path.Address p)) (Paths sys)"
    "find (\<lambda>d. SubsystemNQN d = nqn \<and> Namespaces d \<noteq> []) devices = Some d0"
    using assms(1) by (auto simp: multipath_device_def split: if_splits option.splits)
  then show ?thesis
    using assms(2) by (auto simp: good_device_def device_of_def controllers_of_def list_ex_iff find_Some_iff)
qed

lemma not_found_fails: "not_found ex ip port nqn h \<noteq> (Inr x, h')"
proof -
  have "(case ps of [] \<Rightarrow> io_fail e | p # _ \<Rightarrow> io_fail (f p)) s \<noteq> (Inr x, s')" for ps :: "Path list" and e f s s'
    by (cases ps) (simp_all add: io_fail_def)
  note no = this
  show ?thesis
  proof
    assume "not_found ex ip port nqn h = (Inr x, h')"
    then show False
      unfolding not_found_def io_bind_eq_Inr by (elim exE conjE) (erule no [THEN notE])
  qed
qed

lemma select_devices_good:
  assumes r: "select_devices ex devices ip port nqn h = (Inr res, h')" and n: "nqn \<noteq> []"
    and one: "\<forall>d \<in> set devices. length (Namespaces d) = 1"
  shows "res \<noteq> [] \<and> (\<forall>d \<in> set res. good_device ip port nqn d)"
proof -
  let ?res = "filter (device_matches ip port nqn) devices"
  obtain x h1 where m: "(if ?res = [] then multipath_devices ex devices ip port nqn else io_return ?res) h = (Inr x, h1)"
    and x: "(if x = [] then not_found ex ip port nqn else io_return x) h1 = (Inr res, h')"
    using r n unfolding select_devices_def Let_def by (auto simp: io_bind_eq_Inr)
  have "x \<noteq> [] \<and> res = x"
    using x by (auto simp: io_return_def not_found_fails split: if_splits)
  moreover have "\<forall>d \<in> set x. good_device ip port nqn d"
  proof (cases "?res = []")
    case True
    with m obtain subs where "x = concat (map (multipath_device devices ip port nqn) subs)"
      by (auto simp: multipath_devices_def io_bind_eq_Inr io_return_def)
    then show ?thesis using multipath_device_good [OF _ one] by auto
  next
    case False
    with m have "x = ?res" by (simp add: io_return_def)
    then show ?thesis
      using one by (auto simp: good_device_def device_matches_def list_ex_iff)
  qed
  ultimately show ?thesis by simp
qed

lemma GetDevices_good:
  assumes "GetDevices ex ip port nqn h = (Inr devices, h')" and "nqn \<noteq> []"
  shows "devices \<noteq> [] \<and> (\<forall>d \<in> set devices. good_device ip port nqn d)"
proof -
  obtain ds h1 devs k h2 where l: "scan_devices ex ds [] 0 h1 = (Inr (devs, k), h2)"
    and s: "select_devices ex devs ip port nqn h2 = (Inr devices, h')"
    using assms(1) by (auto simp: GetDevices_def io_wrapped_Inr io_bind_eq_Inr)
  have "\<forall>d \<in> set devs. length (Namespaces d) = 1"
    using scan_devices_namespaces [OF l] by simp
  then show ?thesis
    by (rule select_devices_good [OF s assms(2)])
qed

text \<open>
  Property C10. What \<open>GetDevices\<close> returns for a target belongs to the target: it is never empty, and every
  device has the requested NQN, exactly one namespace, and a controller whose address has the requested ip
  and port. Finding out runs queries only.
\<close>

theorem GetDevices_sound:
  assumes "GetDevices ex ip port nqn h = (Inr devices, h')" and "nqn \<noteq> []"
  shows "devices \<noteq> [] \<and> (\<forall>d \<in> set devices. SubsystemNQN d = nqn \<and> length (Namespaces d) = 1 \<and>
      (\<exists>c \<in> set (Controllers d). address_matches ip port (Controller.Address c))) \<and>
    (\<exists>cs. ran h' = ran h @ cs \<and> list_all is_query cs)"
proof -
  obtain cs where "ran h' = ran h @ cs" "list_all is_query cs"
    by (rule tracesD [OF GetDevices_queries [unfolded all_execs_def] assms(1)])
  then show ?thesis
    using GetDevices_good [OF assms] by (auto simp: good_device_def)
qed

text \<open>The command as it has to be, written out: \<open>nvme connect\<close> over TCP for the NQN, with the time-outs, the limit on
  queues if there is one, and the address and port. The address is the requested one without blanks and brackets.\<close>

definition connect_to :: "string \<Rightarrow> string \<Rightarrow> string \<Rightarrow> string \<Rightarrow> string \<Rightarrow> i32 \<Rightarrow> command" where
  "connect_to hostID hostNQN address port nqn nrIoQueues =
     \<lparr> cmd_envs = [], cmd_binary = ''nvme'',
       cmd_args =
         [''connect'', ''-t'', ''tcp'', ''--nqn'', nqn, ''--ctrl-loss-tmo'', ''30'', ''--keep-alive-tmo'', ''5'',
          ''--reconnect-delay'', ''2'', ''-o'', ''json''] @
         (if 0 < sint nrIoQueues then [''--nr-io-queues'', itoa (sint nrIoQueues)] else []) @
         (if hostID = [] then [] else [''-I'', hostID]) @ (if hostNQN = [] then [] else [''-q'', hostNQN]) @
         (if address = [] then [] else [''-a'', address]) @ (if port = [] then [] else [''-s'', port]),
       cmd_timeout = 180 \<rparr>"

definition bare_address :: "string \<Rightarrow> string \<Rightarrow> bool" where
  "bare_address ip address =
     (trim_space ip = ''['' @ address @ '']'' \<or>
      trim_space ip = address \<and> (\<forall>inner. trim_space ip \<noteq> ''['' @ inner @ '']''))"

definition connect_command :: "string \<Rightarrow> string \<Rightarrow> string \<Rightarrow> string \<Rightarrow> string \<Rightarrow> i32 \<Rightarrow> command" where
  "connect_command hostID hostNQN ip port nqn nrIoQueues =
     connect_to hostID hostNQN (NormalizeNvmeAddr ip) port nqn nrIoQueues"

lemma connect_opts_command:
  "cmd_of [] nvmeBinary (connect_opts hostID hostNQN nqn DefaultTransportType (NormalizeNvmeAddr ip) port n) ExecuteTimeout =
     connect_command hostID hostNQN ip port nqn n"
proof -
  have "itoa 30 = ''30''" "itoa 5 = ''5''" "itoa 2 = ''2''" by code_simp+
  then show ?thesis
    by (simp add: connect_command_def connect_to_def cmd_of_def connect_opts_def opt_def nvmeBinary_def
        DefaultTransportType_def defaultCtrlLossTmo_def defaultKeepAliveTmo_def defaultReconnectDelay_def ExecuteTimeout_def)
qed

lemma normalized_bare: "bare_address ip (NormalizeNvmeAddr ip)"
proof (cases "\<exists>inner. trim_space ip = ''['' @ inner @ '']''")
  case True
  then obtain inner where t: "trim_space ip = ''['' @ inner @ '']''" ..
  then have "NormalizeNvmeAddr ip = inner"
    by (simp add: NormalizeNvmeAddr_def has_suffix_def)
  with t show ?thesis by (simp add: bare_address_def)
next
  case False
  have "\<not> (has_prefix ''['' (trim_space ip) \<and> has_suffix '']'' (trim_space ip))"
  proof
    assume h: "has_prefix ''['' (trim_space ip) \<and> has_suffix '']'' (trim_space ip)"
    then obtain u where u: "trim_space ip = CHR ''['' # u" by (auto simp: has_prefix_iff)
    with h obtain v where "u = v @ '']''"
      by (cases u rule: rev_cases) (auto simp: has_suffix_def has_prefix_iff)
    with u False show False by (metis append_Cons append_Nil)
  qed
  then have "NormalizeNvmeAddr ip = trim_space ip" by (auto simp: NormalizeNvmeAddr_def Let_def)
  with False show ?thesis by (simp add: bare_address_def)
qed

definition queries_then :: "(command list \<Rightarrow> bool) \<Rightarrow> command list \<Rightarrow> bool" where
  "queries_then P cs = (\<exists>qs tl. cs = qs @ tl \<and> list_all is_query qs \<and> P tl)"

lemma queries_then_prefix: "list_all is_query qs \<Longrightarrow> queries_then P cs \<Longrightarrow> queries_then P (qs @ cs)"
  unfolding queries_then_def by (metis append.assoc list_all_append)

lemma queries_thenI: "list_all is_query cs \<Longrightarrow> P [] \<Longrightarrow> queries_then P cs"
  unfolding queries_then_def by force

lemma execs_after_queries:
  assumes "all_execs is_query m" and "P []"
    and "\<And>x. execs (f x) (\<lambda>_ cs. queries_then P cs)"
  shows "execs (io_bind m f) (\<lambda>_ cs. queries_then P cs)"
  by (rule execs_bind [OF assms(1) [unfolded all_execs_def]])
    (auto intro: queries_thenI assms(2) execs_mono [OF assms(3)] queries_then_prefix)

lemma execs_case_queries:
  assumes "all_execs is_query m" and "P []"
    and "\<And>e. execs (h e) (\<lambda>_ cs. queries_then P cs)" and "\<And>x. execs (f x) (\<lambda>_ cs. queries_then P cs)"
  shows "execs (io_case m h f) (\<lambda>_ cs. queries_then P cs)"
  by (rule execs_case [OF assms(1) [unfolded all_execs_def]])
    (auto intro: queries_thenI assms(2) execs_mono [OF assms(3)] execs_mono [OF assms(4)] queries_then_prefix)

lemma execs_last_command:
  assumes "P [cmd_of envs b args t]"
  shows "execs (Execute ex envs b args t) (\<lambda>_ cs. queries_then P cs)"
proof (rule execs_mono [OF execs_Execute])
  fix cs assume "cs = [cmd_of envs b args t]"
  with assms have "cs = [] @ cs \<and> list_all is_query [] \<and> P cs" by simp
  then show "queries_then P cs" unfolding queries_then_def by blast
qed

lemma execs_then_pure:
  assumes "execs m (\<lambda>_ cs. Q cs)" and "\<And>x. execs (f x) (\<lambda>_ cs. cs = [])"
  shows "execs (io_bind m f) (\<lambda>_ cs. Q cs)"
  by (rule execs_bind [OF assms(1)]) (auto intro: execs_mono [OF assms(2)])

lemma connect_new_commands:
  "execs (connect_new ex ip port nqn n) (\<lambda>_. queries_then (\<lambda>tl. tl = [] \<or>
     (\<exists>hostID hostNQN. tl = [connect_command hostID hostNQN ip port nqn n])))"
proof -
  have c: "execs (connect ex hostID hostNQN nqn DefaultTransportType ip port n) (\<lambda>_. queries_then (\<lambda>tl. tl = [] \<or>
     (\<exists>hostID hostNQN. tl = [connect_command hostID hostNQN ip port nqn n])))" for hostID hostNQN
    unfolding connect_def Let_def nvme_def
    by (rule execs_then_pure, rule execs_last_command)
      (auto simp: connect_opts_command intro!: execs_then_pure execs_lift)
  show ?thesis
    unfolding connect_new_def
    by (rule execs_after_queries [OF showHostNQN_queries], simp,
        rule execs_after_queries [OF getHostID_queries], simp, rule c)
qed

lemma ConnectTarget_logs:
  "execs (ConnectTargetWithNrIoQueues ex ip port nqn nrIoQueues) (\<lambda>_. queries_then (\<lambda>tl. tl = [] \<or>
     (\<exists>hostID hostNQN. tl = [connect_command hostID hostNQN ip port nqn nrIoQueues])))"
  unfolding ConnectTargetWithNrIoQueues_def
  by (rule execs_case_queries [OF GetDevices_queries])
    (auto intro: connect_new_commands queries_thenI split: list.split intro!: execs_lift)

lemma discover_queries: "all_execs is_query (DiscoverTarget ex ip port)"
  unfolding DiscoverTarget_def discovery_def Let_def discover_opts_def append_Cons
  by (auto intro!: all_execs_bind getHostID_queries showHostNQN_queries nvme_query split: option.split)

text \<open>What a success without a connection means: the host had devices of the target already, and the result is the
  first controller of the first one.\<close>

lemma connect_new_runs:
  assumes "connect_new ex ip port nqn n h = (Inr x, h')"
  shows "\<exists>cs hostID hostNQN. ran h' = ran h @ cs @ [connect_command hostID hostNQN ip port nqn n]"
proof -
  obtain hostNQN h1 hostID h2 where q: "showHostNQN ex h = (Inr hostNQN, h1)" and i: "getHostID ex h1 = (Inr hostID, h2)"
    and c: "connect ex hostID hostNQN nqn DefaultTransportType ip port n h2 = (Inr x, h')"
    using assms by (auto simp: connect_new_def io_bind_eq_Inr)
  obtain cs1 where 1: "ran h1 = ran h @ cs1" by (rule tracesD [OF showHostNQN_queries [unfolded all_execs_def] q])
  obtain cs2 where 2: "ran h2 = ran h1 @ cs2" by (rule tracesD [OF getHostID_queries [unfolded all_execs_def] i])
  have "ran h' = ran h2 @ [connect_command hostID hostNQN ip port nqn n]"
    using c by (auto simp: connect_def Let_def nvme_def Execute_def io_bind_eq_Inr io_lift_def connect_opts_command [symmetric]
        cmd_of_def split: prod.splits)
  with 1 2 show ?thesis by auto
qed

lemma connect_not_query: "\<not> is_query (connect_command hostID hostNQN ip port nqn n)"
  by (simp add: is_query_def connect_command_def connect_to_def nvmeBinary_def)

lemma ConnectTarget_success:
  assumes run: "ConnectTargetWithNrIoQueues ex ip port nqn n h = (Inr x, h')"
    and qs: "ran h' = ran h @ qs" "list_all is_query qs"
  shows "\<exists>d ds. fst (GetDevices ex ip port nqn h) = Inr (d # ds) \<and> first_controller d = Inr x"
proof -
  obtain r h1 where g: "GetDevices ex ip port nqn h = (r, h1)" by (cases "GetDevices ex ip port nqn h")
  obtain cs0 where h1: "ran h1 = ran h @ cs0" by (rule tracesD [OF GetDevices_queries [unfolded all_execs_def] g])
  have no: False if new: "connect_new ex ip port nqn n h1 = (Inr x, h')"
  proof -
    obtain cs hostID hostNQN where "ran h' = ran h1 @ cs @ [connect_command hostID hostNQN ip port nqn n]"
      using connect_new_runs [OF new] by blast
    then have "connect_command hostID hostNQN ip port nqn n \<in> set qs" using qs(1) h1 by auto
    then show False using qs(2) connect_not_query by (auto simp: list_all_iff)
  qed
  then show ?thesis
    using run g unfolding ConnectTargetWithNrIoQueues_def
    by (cases r) (auto simp: io_case_def io_lift_def split: list.splits if_splits)
qed

text \<open>
  Property C38. Connecting is the only change \<open>ConnectTarget\<close> makes, and it makes it once: whatever the tools
  answer, it runs queries and then at most one \<open>nvme connect\<close>, whose arguments are written out in \<open>connect_to\<close>: the
  requested NQN after \<open>--nqn\<close>, the requested address without blanks and brackets after \<open>-a\<close>, the port after \<open>-s\<close>, the
  fixed time-outs, the queue limit if there is one, and whatever host id and host NQN were read. Without a
  connect it returns an error, or the first controller of a device that the host already has for the target.
\<close>

theorem ConnectTarget_commands:
  "\<exists>qs tl. ran (snd (ConnectTargetWithNrIoQueues ex ip port nqn nrIoQueues h)) = ran h @ qs @ tl \<and> list_all is_query qs \<and>
     (case tl of
        [] \<Rightarrow> (\<exists>e. fst (ConnectTargetWithNrIoQueues ex ip port nqn nrIoQueues h) = Inl e) \<or>
          (\<exists>d ds c. fst (GetDevices ex ip port nqn h) = Inr (d # ds) \<and> c = hd (Controllers d) \<and>
             fst (ConnectTargetWithNrIoQueues ex ip port nqn nrIoQueues h) = Inr (Controller.Controller c))
      | command # rest \<Rightarrow> rest = [] \<and>
          (\<exists>hostID hostNQN address. bare_address ip address \<and> command = connect_to hostID hostNQN address port nqn nrIoQueues))"
proof -
  let ?m = "ConnectTargetWithNrIoQueues ex ip port nqn nrIoQueues"
  obtain r h' where run: "?m h = (r, h')" by (cases "?m h")
  obtain cs where "ran h' = ran h @ cs" and "queries_then (\<lambda>tl. tl = [] \<or>
      (\<exists>hostID hostNQN. tl = [connect_command hostID hostNQN ip port nqn nrIoQueues])) cs"
    by (rule tracesD [OF ConnectTarget_logs run])
  then obtain qs tl where cs: "ran h' = ran h @ qs @ tl" "list_all is_query qs"
      and tl: "tl = [] \<or> (\<exists>hostID hostNQN. tl = [connect_command hostID hostNQN ip port nqn nrIoQueues])"
    by (auto simp: queries_then_def)
  from tl show ?thesis
  proof (elim disjE exE)
    assume "tl = []"
    moreover have "\<exists>d ds. fst (GetDevices ex ip port nqn h) = Inr (d # ds) \<and> x = Controller.Controller (hd (Controllers d))"
      if "r = Inr x" for x
    proof -
      have success: "?m h = (Inr x, h')" and "ran h' = ran h @ qs"
        using run that cs(1) \<open>tl = []\<close> by simp_all
      from ConnectTarget_success [OF this cs(2)]
      obtain d ds where "fst (GetDevices ex ip port nqn h) = Inr (d # ds)" "first_controller d = Inr x"
        by blast
      then show ?thesis by (auto simp: first_controller_def split: list.splits)
    qed
    ultimately have "(\<exists>e. r = Inl e) \<or> (\<exists>d ds c. fst (GetDevices ex ip port nqn h) = Inr (d # ds) \<and> c = hd (Controllers d) \<and>
        r = Inr (Controller.Controller c))"
      by (cases r) auto
    then show ?thesis
      using cs \<open>tl = []\<close> unfolding run fst_conv snd_conv by (intro exI [of _ qs] exI [of _ "[]"]) simp
  next
    fix hostID hostNQN assume tl: "tl = [connect_command hostID hostNQN ip port nqn nrIoQueues]"
    show ?thesis
      using cs tl normalized_bare [of ip] unfolding run fst_conv snd_conv connect_command_def
      by (intro exI [of _ qs] exI [of _ tl]) auto
  qed
qed

text \<open>
  A target the host already has is not connected again: when \<open>GetDevices\<close> finds devices of a
  named target, \<open>ConnectTarget\<close> runs nothing more, does not panic, and returns the first controller of the
  first device.
\<close>

theorem ConnectTarget_reuses:
  assumes "GetDevices ex ip port nqn h = (Inr devices, h')" and "nqn \<noteq> []"
  shows "\<exists>d ds c cs. devices = d # ds \<and> Controllers d = c # cs \<and>
    ConnectTarget ex ip port nqn h = (Inr (Controller.Controller c), h')"
proof -
  have g: "devices \<noteq> []" "\<forall>d \<in> set devices. \<exists>c \<in> set (Controllers d). address_matches ip port (Controller.Address c)"
    using GetDevices_good [OF assms] by (auto simp: good_device_def)
  then obtain d ds where d: "devices = d # ds" by (cases devices) auto
  with g obtain c cs where c: "Controllers d = c # cs" by (cases "Controllers d") auto
  show ?thesis
    using assms(1) d c
    by (auto simp: ConnectTarget_def ConnectTargetWithNrIoQueues_def io_case_def first_controller_def io_lift_def)
qed

section \<open>A host with two paths to one subsystem\<close>

text \<open>nvme-cli lists one block device for the subsystem and, for that device, only the controller that owns it.\<close>

definition list_text :: string where
  "list_text = ''{\"Devices\":[{\"DevicePath\":\"/dev/nvme4n1\",\"Namespace\":1}]}''"

definition version_text :: string where "version_text = ''nvme version 1.13''"

definition path_text :: "string \<Rightarrow> string \<Rightarrow> string" where
  "path_text name ip = ''{\"Name\":\"'' @ name @ ''\",\"Transport\":\"tcp\",\"Address\":\"traddr='' @ ip @
     '',trsvcid=4420\",\"State\":\"live\"}''"

definition subsys_text :: "string \<Rightarrow> string" where
  "subsys_text paths = ''{\"Subsystems\":[{\"Name\":\"nvme-subsys4\",\"NQN\":\"nqn.a\",\"Paths\":['' @ paths @ '']}]}''"

definition one_path_text :: string where "one_path_text = subsys_text (path_text ''nvme4'' ''10.0.0.1'')"

definition two_paths_text :: string where
  "two_paths_text = subsys_text (path_text ''nvme4'' ''10.0.0.1'' @ '','' @ path_text ''nvme5'' ''10.0.0.2'')"

definition two_path_host :: "(go_error + string) list host" where
  "two_path_host = \<lparr> ran = [], world = [Inr list_text, Inr version_text, Inr one_path_text, Inr version_text,
     Inr two_paths_text] \<rparr>"

definition path_at :: "string \<Rightarrow> string \<Rightarrow> Path" where
  "path_at name address = \<lparr> Path.Name = name, Path.Transport = ''tcp'', Path.Address = address, Path.State = ''live'' \<rparr>"

abbreviation (input) "path4 \<equiv> path_at ''nvme4'' ''traddr=10.0.0.1,trsvcid=4420''"
abbreviation (input) "path5 \<equiv> path_at ''nvme5'' ''traddr=10.0.0.2,trsvcid=4420''"

definition subsys4 :: "Path list \<Rightarrow> Subsystem" where
  "subsys4 ps = \<lparr> Subsystem.Name = ''nvme-subsys4'', NQN = ''nqn.a'', Paths = ps \<rparr>"

definition nvme4n1 :: CliDevice where
  "nvme4n1 = \<lparr> CliDevice.NameSpace = 1, DevicePath = ''/dev/nvme4n1'', Firmware = [], Index = 0, ModelNumber = [],
     SerialNumber = [], CliDevice.UsedBytes = 0, CliDevice.MaximumLBA = 0, CliDevice.PhysicalSize = 0,
     CliDevice.SectorSize = 0 \<rparr>"

lemma version_text_parsed: "parse_cli_version version_text = Inr (1, 13)"
proof -
  have "atoi ''1'' = Some 1" "atoi ''13'' = Some 13"
    by (simp_all add: atoi_def is_digit_def)
  then show ?thesis
    by (simp add: parse_cli_version_def version_text_def newline_def trim_space_def trim_func_def is_space_def
        parse_int_value_def)
qed

lemma two_path_texts:
  "extractJSONString one_path_text = Inr one_path_text"
  "extractJSONString two_paths_text = Inr two_paths_text"
  "listSubsystemsV1 one_path_text = Inr [subsys4 [path4]]"
  "listSubsystemsV1 two_paths_text = Inr [subsys4 [path4, path5]]"
  "extractJSONString list_text = Inr list_text"
  "parse_json list_text = Some (JObj [(''Devices'', JArr [JObj [(''DevicePath'', JStr ''/dev/nvme4n1''), (''Namespace'', JNum 1)]])])"
  "path_base ''/dev/nvme4n1'' = ''nvme4n1''"
  by code_simp+

lemma list_text_devices:
  "map_sum id (\<lambda>m. case m ''Devices'' of None \<Rightarrow> [] | Some xs \<Rightarrow> xs)
     (unmarshal (dec_map (dec_list dec_CliDevice)) list_text) = Inr [nvme4n1]"
  by (simp add: unmarshal_def two_path_texts dec_map_def decoder_defs dec_CliDevice_def nvme4n1_def)

lemma two_path_addresses:
  "GetIPAndPortFromControllerAddress ''traddr=10.0.0.1,trsvcid=4420'' = (''10.0.0.1'', ''4420'')"
  "GetIPAndPortFromControllerAddress ''traddr=10.0.0.2,trsvcid=4420'' = (''10.0.0.2'', ''4420'')"
  by code_simp+

lemma listSubsystems_scripted:
  assumes "extractJSONString out = Inr out" and "listSubsystemsV1 out = Inr subs"
  shows "\<exists>cs'. listSubsystems scripted_exec dp \<lparr> ran = cs, world = Inr version_text # Inr out # rest \<rparr> =
     (Inr subs, \<lparr> ran = cs', world = rest \<rparr>)"
  by (simp add: listSubsystems_def cliVersion_def nvme_def io_bind_def io_lift_def assms version_text_parsed)

lemma scan_two_path_host:
  "\<exists>cs. scan_devices scripted_exec [nvme4n1] [] 0 \<lparr> ran = cs0, world = Inr version_text # Inr one_path_text # rest \<rparr> =
     (Inr ([device_of (subsys4 [path4]) [namespace_of nvme4n1]], 0), \<lparr> ran = cs, world = rest \<rparr>)"
proof -
  obtain cs where "listSubsystems scripted_exec (DevicePath nvme4n1)
      \<lparr> ran = cs0, world = Inr version_text # Inr one_path_text # rest \<rparr> = (Inr [subsys4 [path4]], \<lparr> ran = cs, world = rest \<rparr>)"
    using listSubsystems_scripted [OF two_path_texts(1,3)] by blast
  then show ?thesis by (simp add: io_case_def io_return_def)
qed

lemma GetDevices_two_path_host:
  "\<exists>h. GetDevices scripted_exec ''10.0.0.2'' ''4420'' ''nqn.a'' two_path_host =
     (Inr [device_of (subsys4 [path4, path5]) [namespace_of nvme4n1]], h)"
proof -
  let ?d = "device_of (subsys4 [path4]) [namespace_of nvme4n1]"
  obtain cs where l: "listRecognizedNvmeDevices scripted_exec two_path_host = (Inr [nvme4n1], \<lparr> ran = cs,
      world = [Inr version_text, Inr one_path_text, Inr version_text, Inr two_paths_text] \<rparr>)"
    by (simp add: listRecognizedNvmeDevices_def two_path_host_def nvme_def io_bind_def io_lift_def two_path_texts list_text_devices)
  obtain cs1 where s: "scan_devices scripted_exec [nvme4n1] [] 0 \<lparr> ran = cs,
      world = [Inr version_text, Inr one_path_text, Inr version_text, Inr two_paths_text] \<rparr> =
      (Inr ([?d], 0), \<lparr> ran = cs1, world = [Inr version_text, Inr two_paths_text] \<rparr>)"
    using scan_two_path_host by blast
  obtain cs2 where q: "listSubsystems scripted_exec [] \<lparr> ran = cs1, world = [Inr version_text, Inr two_paths_text] \<rparr> =
      (Inr [subsys4 [path4, path5]], \<lparr> ran = cs2, world = [] \<rparr>)"
    using listSubsystems_scripted [OF two_path_texts(2,4)] by blast
  have no: "filter (device_matches ''10.0.0.2'' ''4420'' ''nqn.a'') [?d] = []"
    by (simp add: device_matches_def device_of_def subsys4_def controllers_of_def address_matches_def path_at_def
        two_path_addresses)
  have mp: "multipath_device [?d] ''10.0.0.2'' ''4420'' ''nqn.a'' (subsys4 [path4, path5]) =
      [device_of (subsys4 [path4, path5]) [namespace_of nvme4n1]]"
    by (simp add: multipath_device_def subsys4_def device_of_def address_matches_def path_at_def two_path_addresses)
  have "\<exists>h. select_devices scripted_exec [?d] ''10.0.0.2'' ''4420'' ''nqn.a''
      \<lparr> ran = cs1, world = [Inr version_text, Inr two_paths_text] \<rparr> =
      (Inr [device_of (subsys4 [path4, path5]) [namespace_of nvme4n1]], h)"
    unfolding select_devices_def no multipath_devices_def
    by (simp add: io_bind_def q mp io_return_def)
  then show ?thesis
    unfolding GetDevices_def io_wrapped_Inr io_bind_Inr [where m = "listRecognizedNvmeDevices scripted_exec", OF l]
      io_bind_Inr [where m = "scan_devices scripted_exec [nvme4n1] [] 0", OF s] prod.case .
qed

text \<open>
  With two controllers connected to one subsystem, \<open>GetDevices\<close> for the second one finds the
  device through the unfiltered query and lists both controllers, so that the caller can select the right
  one. \<open>ConnectTarget\<close> does not select: asked to connect 10.0.0.2, which is \<open>nvme5\<close>, it returns \<open>nvme4\<close>,
  the controller of 10.0.0.1.
\<close>

theorem ConnectTarget_returns_other_controller:
  "fst (GetDevices scripted_exec ''10.0.0.2'' ''4420'' ''nqn.a'' two_path_host) =
     Inr [device_of (subsys4 [path4, path5]) [namespace_of nvme4n1]] \<and>
   fst (ConnectTarget scripted_exec ''10.0.0.2'' ''4420'' ''nqn.a'' two_path_host) = Inr ''nvme4'' \<and>
   address_matches ''10.0.0.2'' ''4420'' (Path.Address path5) \<and>
   \<not> address_matches ''10.0.0.2'' ''4420'' (Path.Address path4)"
proof -
  obtain h where g: "GetDevices scripted_exec ''10.0.0.2'' ''4420'' ''nqn.a'' two_path_host =
      (Inr [device_of (subsys4 [path4, path5]) [namespace_of nvme4n1]], h)"
    using GetDevices_two_path_host by blast
  then have "ConnectTarget scripted_exec ''10.0.0.2'' ''4420'' ''nqn.a'' two_path_host = (Inr ''nvme4'', h)"
    by (simp add: ConnectTarget_def ConnectTargetWithNrIoQueues_def io_case_def io_lift_def first_controller_def
        device_of_def subsys4_def controllers_of_def path_at_def)
  with g show ?thesis
    by (simp add: address_matches_def path_at_def two_path_addresses)
qed

theorem GetDevices_sound_witness:
  "let devices = [device_of (subsys4 [path4, path5]) [namespace_of nvme4n1]] in
     \<forall>d \<in> set devices. SubsystemNQN d = ''nqn.a'' \<and> length (Namespaces d) = 1 \<and>
       (\<exists>c \<in> set (Controllers d). address_matches ''10.0.0.2'' ''4420'' (Controller.Address c))"
proof -
  obtain h where g: "GetDevices scripted_exec ''10.0.0.2'' ''4420'' ''nqn.a'' two_path_host =
      (Inr [device_of (subsys4 [path4, path5]) [namespace_of nvme4n1]], h)"
    using GetDevices_two_path_host by blast
  show ?thesis
    using GetDevices_sound [OF g] by simp
qed

theorem ConnectTarget_reuses_witness:
  "\<exists>c h. ConnectTarget scripted_exec ''10.0.0.2'' ''4420'' ''nqn.a'' two_path_host = (Inr c, h)"
proof -
  obtain h where g: "GetDevices scripted_exec ''10.0.0.2'' ''4420'' ''nqn.a'' two_path_host =
      (Inr [device_of (subsys4 [path4, path5]) [namespace_of nvme4n1]], h)"
    using GetDevices_two_path_host by blast
  show ?thesis
    using ConnectTarget_reuses [OF g] by blast
qed

end
