(* ===== verification/DmSetup.thy ===== *)
theory DmSetup
  imports BlockDevices
begin

text \<open>
  The wrapper of the dmsetup command-line tool, \<open>pkg/util/dmsetup.go\<close>.
\<close>

section \<open>Commands\<close>

definition dmsetupBinary :: string where "dmsetupBinary = ''dmsetup''"

definition dmsetup :: "'w executor \<Rightarrow> string list \<Rightarrow> ('w host, string) io" where
  "dmsetup ex opts = Execute ex [] dmsetupBinary opts ExecuteTimeout"

definition DmsetupCreate :: "'w executor \<Rightarrow> string \<Rightarrow> string \<Rightarrow> ('w host, unit) io" where
  "DmsetupCreate ex dmDeviceName table = run_only (dmsetup ex [''create'', dmDeviceName, ''--table'', table])"

definition DmsetupSuspend :: "'w executor \<Rightarrow> string \<Rightarrow> bool \<Rightarrow> bool \<Rightarrow> ('w host, unit) io" where
  "DmsetupSuspend ex dmDeviceName noflush nolockfs =
     run_only (dmsetup ex ([''suspend'', dmDeviceName] @ (if noflush then [''--noflush''] else []) @
       (if nolockfs then [''--nolockfs''] else [])))"

definition DmsetupResume :: "'w executor \<Rightarrow> string \<Rightarrow> ('w host, unit) io" where
  "DmsetupResume ex dmDeviceName = run_only (dmsetup ex [''resume'', dmDeviceName])"

definition DmsetupReload :: "'w executor \<Rightarrow> string \<Rightarrow> string \<Rightarrow> ('w host, unit) io" where
  "DmsetupReload ex dmDeviceName table = run_only (dmsetup ex [''reload'', dmDeviceName, ''--table'', table])"

definition DmsetupRemove :: "'w executor \<Rightarrow> string \<Rightarrow> bool \<Rightarrow> bool \<Rightarrow> ('w host, unit) io" where
  "DmsetupRemove ex dmDeviceName force deferred =
     run_only (dmsetup ex ([''remove'', dmDeviceName] @ (if force then [''--force''] else []) @
       (if deferred then [''--deferred''] else [])))"

section \<open>Dependencies\<close>

text \<open>All matches of \<open>\(([^)]+)\)\<close>: from the leftmost opening parenthesis with a non-empty text up to the next
  closing one.\<close>

function paren_groups :: "string \<Rightarrow> string list" where
  "paren_groups [] = []"
| "paren_groups (c # cs) =
     (let g = takeWhile (\<lambda>x. x \<noteq> CHR '')'') cs; rest = dropWhile (\<lambda>x. x \<noteq> CHR '')'') cs in
      if c = CHR ''('' \<and> g \<noteq> [] \<and> rest \<noteq> [] then g # paren_groups (tl rest) else paren_groups cs)"
  by pat_completeness auto

termination
proof (relation "measure length")
  fix c :: char and cs :: string and g rest
  assume "rest = dropWhile (\<lambda>x. x \<noteq> CHR '')'') cs"
  then have "length rest \<le> length cs" by (simp add: length_dropWhile_le)
  then show "(tl rest, c # cs) \<in> measure length" by simp
qed simp_all

text \<open>The devices of a Go map come in an unspecified order, which may differ between two loops over it; \<open>order n\<close>
  is the order of the loop for the dependency number \<open>n\<close>.\<close>

definition numbered_device :: "LonghornBlockDevice list \<Rightarrow> int \<Rightarrow> int \<Rightarrow> string list" where
  "numbered_device known major minor =
     (case find (\<lambda>d. Major (Source d) = major \<and> Minor (Source d) = minor) known of
        Some d \<Rightarrow> [Name (Source d)]
      | None \<Rightarrow> [])"

definition dependent_device :: "LonghornBlockDevice list \<Rightarrow> string \<Rightarrow> string list" where
  "dependent_device known m =
     (let dep = trim_space m in
      if dep = [] then []
      else if \<not> contains '','' dep then [dep]
      else
        (case split_on (CHR '','') dep of
           [a, b] \<Rightarrow>
             (case (atoi (trim_space a), atoi (trim_space b)) of
                (Some major, Some minor) \<Rightarrow> numbered_device known major minor
              | _ \<Rightarrow> [])
         | _ \<Rightarrow> []))"

definition parseDependentDevicesFromString ::
  "string \<Rightarrow> (nat \<Rightarrow> LonghornBlockDevice list) \<Rightarrow> string list" where
  "parseDependentDevicesFromString str order =
     concat (map (\<lambda>(n, m). dependent_device (order n) m) (enumerate 0 (paren_groups str)))"

definition DmsetupDeps ::
  "'w executor \<Rightarrow> ((string \<rightharpoonup> LonghornBlockDevice) \<Rightarrow> nat \<Rightarrow> LonghornBlockDevice list) \<Rightarrow> string \<Rightarrow>
     ('w host, string list) io" where
  "DmsetupDeps ex range_order dmDeviceName =
     io_bind (dmsetup ex [''deps'', dmDeviceName, ''-o'', ''devname'']) (\<lambda>outputStr.
     io_bind (GetKnownDevices ex) (\<lambda>knownDevices.
     io_return (parseDependentDevicesFromString outputStr (range_order knownDevices))))"

section \<open>Information\<close>

record DeviceInfo =
  Name :: string
  BlockDeviceName :: string
  TableLive :: bool
  TableInactive :: bool
  Suspended :: bool
  ReadOnly :: bool
  DeferredRemove :: bool
  Major :: "32 word"
  Minor :: "32 word"
  OpenCount :: "32 word"
  TargetCount :: "32 word"
  EventNumber :: "32 word"

text \<open>\<open>fmt.Sscan\<close> of an unsigned 32-bit number, for the plain decimal numbers dmsetup prints (\<open>Sscan\<close> also reads
  underscores and prefixes like \<open>0x\<close>).\<close>

definition sscan_u32 :: "string \<Rightarrow> 32 word option" where
  "sscan_u32 tok =
     (if tok = [] then None
      else (case digits_value 0 tok of
              Some n \<Rightarrow> if n < 2 ^ 32 then Some (of_nat n) else None
            | None \<Rightarrow> None))"

definition scan_info :: "string \<Rightarrow> DeviceInfo option" where
  "scan_info line =
     (case GoStrings.fields line of
        name # blkdevname # attr # t1 # t2 # t3 # t4 # t5 # _ \<Rightarrow>
          (case (sscan_u32 t1, sscan_u32 t2, sscan_u32 t3, sscan_u32 t4, sscan_u32 t5) of
             (Some x1, Some x2, Some x3, Some x4, Some x5) \<Rightarrow>
               Some \<lparr> Name = name, BlockDeviceName = blkdevname, TableLive = contains ''L'' attr,
                 TableInactive = contains ''I'' attr, Suspended = contains ''s'' attr, ReadOnly = contains ''r'' attr,
                 DeferredRemove = False, Major = x1, Minor = x2, OpenCount = x3, TargetCount = x4,
                 EventNumber = x5 \<rparr>
           | _ \<Rightarrow> None)
      | _ \<Rightarrow> None)"

definition deferred_remove :: "string \<Rightarrow> string \<Rightarrow> go_error + bool" where
  "deferred_remove dmDeviceName outputStr =
     (case find (\<lambda>line. has_prefix ''State:'' (trim_space line)) (split_on newline outputStr) of
        Some line \<Rightarrow> Inr (contains ''DEFERRED REMOVE'' (to_upper line))
      | None \<Rightarrow> Inl (PlainErr (''failed to find State line in dmsetup info output for '' @ dmDeviceName)))"

definition DmsetupInfoDeferredRemove :: "'w executor \<Rightarrow> string \<Rightarrow> ('w host, bool) io" where
  "DmsetupInfoDeferredRemove ex dmDeviceName =
     io_bind (dmsetup ex [''info'', dmDeviceName]) (\<lambda>outputStr. io_lift (deferred_remove dmDeviceName outputStr))"

definition info_of_line :: "'w executor \<Rightarrow> string \<Rightarrow> ('w host, DeviceInfo list) io" where
  "info_of_line ex line =
     (case scan_info line of
        None \<Rightarrow> io_return []
      | Some info \<Rightarrow>
          io_case (DmsetupInfoDeferredRemove ex (Name info))
            (\<lambda>_. io_return [info]) (\<lambda>deferredRemove. io_return [info\<lparr> DeferredRemove := deferredRemove \<rparr>]))"

definition DmsetupInfo :: "'w executor \<Rightarrow> string \<Rightarrow> ('w host, DeviceInfo list) io" where
  "DmsetupInfo ex dmDeviceName =
     io_bind (dmsetup ex [''info'', ''--columns'', ''--noheadings'', ''-o'',
       ''name,blkdevname,attr,major,minor,open,segments,events'', ''--separator'', '' '', dmDeviceName]) (\<lambda>outputStr.
     io_collect (info_of_line ex) (takeWhile (\<lambda>line. line \<noteq> []) (split_on newline outputStr)))"

section \<open>Facts\<close>

lemma find_unique:
  assumes "\<And>x y. x \<in> set xs \<Longrightarrow> y \<in> set xs \<Longrightarrow> P x \<Longrightarrow> P y \<Longrightarrow> x = y" and "set ys = set xs"
  shows "find P ys = find P xs"
proof (cases "find P xs")
  case None
  then have "find P ys = None" using assms(2) by (auto simp: find_None_iff)
  with None show ?thesis by simp
next
  case (Some x)
  then have x: "x \<in> set xs" "P x" by (auto simp: find_Some_iff)
  then have "find P ys \<noteq> None" using assms(2) by (auto simp: find_None_iff)
  then obtain y where y: "find P ys = Some y" by auto
  then have "y \<in> set xs" "P y" using assms(2) by (auto simp: find_Some_iff)
  with x assms(1) Some y show ?thesis by simp
qed

text \<open>
  Property C27. The dependencies of a device do not depend on the order in which Go visits the map of known
  devices, as long as no two known devices have the same numbers: any two orders, changing from loop to loop,
  give the same list.
\<close>

theorem parseDependentDevices_order_independent:
  assumes "\<And>n. set (order n) = Map.ran known" and "\<And>n. set (order' n) = Map.ran known"
    and "\<And>d e. d \<in> Map.ran known \<Longrightarrow> e \<in> Map.ran known \<Longrightarrow> BlockDevice.Major (Source d) = BlockDevice.Major (Source e) \<Longrightarrow>
      BlockDevice.Minor (Source d) = BlockDevice.Minor (Source e) \<Longrightarrow> d = e"
  shows "parseDependentDevicesFromString str order = parseDependentDevicesFromString str order'"
proof -
  have "find (\<lambda>d. BlockDevice.Major (Source d) = a \<and> BlockDevice.Minor (Source d) = b) (order n) =
      find (\<lambda>d. BlockDevice.Major (Source d) = a \<and> BlockDevice.Minor (Source d) = b) (order' n)" for a b n
    by (rule find_unique) (use assms in auto)
  then have "numbered_device (order n) = numbered_device (order' n)" for n
    by (simp add: numbered_device_def fun_eq_iff)
  note eq = this
  have "dependent_device (order n) m = dependent_device (order' n) m" for n m
    unfolding dependent_device_def eq ..
  then show ?thesis by (simp add: parseDependentDevicesFromString_def)
qed


theorem parseDependentDevices_order_independent_witness:
  "let d = entry_device (''nvme4n1'', 0, 259, 6); e = entry_device (''nvme4n2'', 0, 259, 7) in
     parseDependentDevicesFromString ''2 dependencies  : (nvme4n1) (259, 7)'' (\<lambda>n. if n = 0 then [d, e] else [e, d]) =
     parseDependentDevicesFromString ''2 dependencies  : (nvme4n1) (259, 7)'' (\<lambda>n. [e, d])"
proof -
  define d where "d = entry_device (''nvme4n1'', 0, 259, 6)"
  define e where "e = entry_device (''nvme4n2'', 0, 259, 7)"
  have r: "Map.ran [''nvme4n1'' \<mapsto> d, ''nvme4n2'' \<mapsto> e] = {d, e}"
    by (simp add: insert_commute)
  have n: "BlockDevice.Minor (Source d) = 6" "BlockDevice.Minor (Source e) = 7"
    by (simp_all add: d_def e_def entry_device_def)
  have "parseDependentDevicesFromString str (\<lambda>n. if n = 0 then [d, e] else [e, d]) =
      parseDependentDevicesFromString str (\<lambda>n. [e, d])" for str
    by (rule parseDependentDevices_order_independent [where known = "[''nvme4n1'' \<mapsto> d, ''nvme4n2'' \<mapsto> e]"])
      (use n in \<open>auto simp: r\<close>)
  then show ?thesis unfolding Let_def d_def e_def .
qed

text \<open>The devices of the repository's own test.\<close>

lemma parse_test_devices:
  "let known = (\<lambda>_. [entry_device (''nvme4n1'', 0, 259, 6), entry_device (''nvme4n2'', 0, 259, 7)]) in
     parseDependentDevicesFromString ''2 dependencies  : (nvme4n1) (259, 7)'' known = [''nvme4n1'', ''nvme4n2''] \<and>
     parseDependentDevicesFromString ''1 dependencies  : (259, 99)'' known = []"
  by (simp add: parseDependentDevicesFromString_def dependent_device_def numbered_device_def entry_device_def
      atoi_def is_digit_def
      trim_space_def trim_func_def is_space_def)

definition flagged :: "DeviceInfo \<Rightarrow> go_error + string \<Rightarrow> DeviceInfo" where
  "flagged info r = info\<lparr> DeferredRemove :=
     (case sum_bind r (deferred_remove (DeviceInfo.Name info)) of Inr b \<Rightarrow> b | Inl _ \<Rightarrow> False) \<rparr>"

lemma info_of_line_scripted:
  assumes "scan_info line = Some info" and "\<forall>e. r = Inl e \<longrightarrow> \<not> is_panic e"
  shows "info_of_line scripted_exec line \<lparr> ran = cs, world = r # rest \<rparr> =
    (Inr [flagged info r],
     \<lparr> ran = cs @ [cmd_of [] dmsetupBinary [''info'', DeviceInfo.Name info] ExecuteTimeout], world = rest \<rparr>)"
proof -
  have off: "info\<lparr> DeferredRemove := False \<rparr> = info"
    using assms(1) by (auto simp: scan_info_def split: list.splits option.splits)
  have np: "\<not> is_panic e" if "deferred_remove n out = Inl e" for n out e
    using that by (auto simp: deferred_remove_def split: option.splits)
  show ?thesis
  proof (cases r)
    case (Inl e)
    then show ?thesis
      using assms by (simp add: info_of_line_def DmsetupInfoDeferredRemove_def dmsetup_def io_case_def io_bind_def
          io_return_def sum_bind_def flagged_def off)
  next
    case (Inr out)
    then show ?thesis
      using assms np by (cases "deferred_remove (DeviceInfo.Name info) out")
        (simp_all add: info_of_line_def DmsetupInfoDeferredRemove_def dmsetup_def io_case_def io_bind_def
          io_return_def io_lift_def sum_bind_def flagged_def off)
  qed
qed

lemma collect_infos:
  assumes "list_all2 (\<lambda>line info. scan_info line = Some info) ls infos" and "length answers = length infos"
    and "\<forall>e. Inl e \<in> set answers \<longrightarrow> \<not> is_panic e"
  shows "\<exists>cs'. io_collect (info_of_line scripted_exec) ls \<lparr> ran = cs, world = answers @ rest \<rparr> =
    (Inr (map2 flagged infos answers),
     \<lparr> ran = cs', world = rest \<rparr>)"
  using assms
proof (induction ls infos arbitrary: answers cs rule: list_all2_induct)
  case Nil
  then show ?case by (simp add: io_return_def)
next
  case (Cons line ls info infos)
  then obtain r rs where answers: "answers = r # rs" by (cases answers) auto
  let ?cs = "cs @ [cmd_of [] dmsetupBinary [''info'', DeviceInfo.Name info] ExecuteTimeout]"
  obtain cs' where "io_collect (info_of_line scripted_exec) ls \<lparr> ran = ?cs, world = rs @ rest \<rparr> =
      (Inr (map2 flagged infos rs), \<lparr> ran = cs', world = rest \<rparr>)"
    using Cons.IH [of rs ?cs] Cons.prems answers by auto
  moreover have "\<forall>e. r = Inl e \<longrightarrow> \<not> is_panic e"
    using Cons.prems answers by simp
  ultimately show ?case
    by (simp add: answers io_bind_def info_of_line_scripted [OF Cons.hyps(1)] io_return_def)
qed

text \<open>
  \<open>DmsetupInfo\<close> never fails because of its second query, for the deferred-remove flag: whatever
  dmsetup answers to those queries, errors included, an output of well-formed lines yields one entry per line,
  in order; the flag is set exactly where the second query succeeds and reports it, and everything else comes
  from the line.
\<close>

theorem DmsetupInfo_one_entry_per_line:
  assumes "list_all2 (\<lambda>line info. scan_info line = Some info) ls infos" and "\<forall>l \<in> set ls. newline \<notin> set l"
    and "length answers = length infos" and "\<forall>e. Inl e \<in> set answers \<longrightarrow> \<not> is_panic e"
  shows "fst (DmsetupInfo scripted_exec dev
      \<lparr> ran = [], world = Inr (concat (map (\<lambda>l. l @ [newline]) ls)) # answers \<rparr>) =
    Inr (map2 flagged infos answers)"
proof -
  have "scan_info [] = None" by (simp add: scan_info_def GoStrings.fields_def fields_func_def)
  moreover have "scan_info l \<noteq> None" if "l \<in> set ls" for l
    using assms(1) that by (auto simp: list_all2_conv_all_nth in_set_conv_nth)
  ultimately have "\<forall>l \<in> set ls. l \<noteq> []" by metis
  then have "takeWhile (\<lambda>line. line \<noteq> []) (ls @ [[]]) = ls"
    by (simp add: takeWhile_append2)
  moreover obtain cs' where "io_collect (info_of_line scripted_exec) ls \<lparr> ran = cs, world = answers @ [] \<rparr> =
    (Inr (map2 flagged infos answers),
     \<lparr> ran = cs' cs, world = [] \<rparr>)" for cs
    using collect_infos [OF assms(1,3,4), where rest = "[]"] by metis
  ultimately show ?thesis
    by (simp add: DmsetupInfo_def dmsetup_def io_bind_def split_lines [OF assms(2)])
qed

lemma sample_line:
  "scan_info ''vol0 dm-3 L--w 253 3 1 1 0'' = Some \<lparr> Name = ''vol0'', BlockDeviceName = ''dm-3'', TableLive = True,
     TableInactive = False, Suspended = False, ReadOnly = False, DeferredRemove = False, Major = 253, Minor = 3,
     OpenCount = 1, TargetCount = 1, EventNumber = 0 \<rparr>"
  by (simp add: scan_info_def GoStrings.fields_def fields_func_def is_space_def sscan_u32_def is_digit_def)

lemma sample_state:
  "deferred_remove n ''State:  ACTIVE (DEFERRED REMOVE)'' = Inr True"
  by (simp add: deferred_remove_def newline_def trim_space_def trim_func_def is_space_def to_upper_def upper_char_def)

theorem DmsetupInfo_one_entry_per_line_witness:
  "map_sum id (map (\<lambda>i. (DeviceInfo.Name i, DeferredRemove i)))
     (fst (DmsetupInfo scripted_exec ''vol0''
      \<lparr> ran = [], world = [Inr (''vol0 dm-3 L--w 253 3 1 1 0'' @ [newline]), Inr ''State:  ACTIVE (DEFERRED REMOVE)''] \<rparr>)) =
   Inr [(''vol0'', True)]"
  using DmsetupInfo_one_entry_per_line [of "[''vol0 dm-3 L--w 253 3 1 1 0'']"
      "[the (scan_info ''vol0 dm-3 L--w 253 3 1 1 0'')]" "[Inr ''State:  ACTIVE (DEFERRED REMOVE)'']" "''vol0''"]
  by (simp add: sample_line newline_def flagged_def sum_bind_def sample_state)

end
