(* ===== verification/Initiator.thy ===== *)
theory Initiator
  imports DeviceNodes NvmeTarget DmSetup SpdkUblk
begin

text \<open>
  The initiator, \<open>pkg/initiator/initiator.go\<close>: its state, its lock, and how it finds and connects NVMe/TCP
  paths. The object of an operation is the initiator with the two process-wide variables of its package; the
  logger is left out, and error texts print a structure by its name only.
\<close>

section \<open>State\<close>

record NVMeTCPInfo =
  SubsystemNQN :: string
  UUID :: string
  TransportAddress :: string
  TransportServiceID :: string
  ControllerName :: string
  NamespaceName :: string
  NrIoQueues :: i32

record UblkInfo =
  BdevName :: string
  UblkQueueDepth :: i32
  UblkNumberOfQueue :: i32
  UblkID :: i32

record Initiator =
  Name :: string
  Endpoint :: string
  dev :: "LonghornBlockDevice option"
  isUp :: bool
  NVMeTCPInfo :: "NVMeTCPInfo option"
  UblkInfo :: "UblkInfo option"
  hostProc :: string

record process =
  self :: Initiator
  isUblkTargetCreated :: bool
  idGenerator :: IDGenerator

type_synonym ('w, 'a) iop = "(process, 'w, 'a) op"

definition LockDir :: string where "LockDir = ''/var/run/longhorn''"
definition LockFilePrefix :: string where "LockFilePrefix = LockDir @ ''/spdk''"
definition LockTimeout :: int where "LockTimeout = 120"
definition HostProcDirectory :: string where "HostProcDirectory = ''/host/proc''"
definition validateDiskCreationMaxRetries :: nat where "validateDiskCreationMaxRetries = 60"
definition validateDiskCreationRetryInterval :: int where "validateDiskCreationRetryInterval = 1"
definition UnInitializedUblkId :: i32 where "UnInitializedUblkId = - 1"
definition DefaultUblkQueueDepth :: i32 where "DefaultUblkQueueDepth = 128"
definition DefaultUblkNumberOfQueue :: i32 where "DefaultUblkNumberOfQueue = 1"
definition DmSectorSize :: u64 where "DmSectorSize = 512"
definition maxConnectTargetRetries :: nat where "maxConnectTargetRetries = 15"
definition retryConnectTargetInterval :: int where "retryConnectTargetInterval = 1"
definition maxWaitDeviceRetries :: nat where "maxWaitDeviceRetries = 60"
definition waitDeviceInterval :: int where "waitDeviceInterval = 1"

definition NewInitiator ::
  "string \<Rightarrow> string \<Rightarrow> NVMeTCPInfo option \<Rightarrow> UblkInfo option \<Rightarrow> go_error option \<Rightarrow> go_error + Initiator" where
  "NewInitiator name hostProcPath nvmeTCPInfo ublkInfo executorErr =
     (if name = [] then Inl (PlainErr ''empty name for initiator creation'')
      else if (ublkInfo = None \<and> nvmeTCPInfo = None) \<or> (ublkInfo \<noteq> None \<and> nvmeTCPInfo \<noteq> None)
      then Inl (PlainErr ''cannot initiator creation because both nvmeTCPInfo and ublkInfo are nil or non-nil'')
      else if nvmeTCPInfo \<noteq> None \<and> SubsystemNQN (the nvmeTCPInfo) = []
      then Inl (PlainErr ''empty subsystem for NVMe/TCP initiator creation'')
      else if ublkInfo \<noteq> None \<and> BdevName (the ublkInfo) = []
      then Inl (PlainErr ''empty BdevName for ublk initiator creation'')
      else (case executorErr of
              Some err \<Rightarrow> Inl err
            | None \<Rightarrow>
                Inr \<lparr> Name = name, Endpoint = GetLonghornDevicePath name, dev = None, isUp = False,
                  NVMeTCPInfo = nvmeTCPInfo, UblkInfo = ublkInfo, hostProc = hostProcPath \<rparr>))"

section \<open>Access\<close>

definition nil_pointer :: go_error where
  "nil_pointer = GoPanic ''invalid memory address or nil pointer dereference''"

definition this :: "('w, Initiator) iop" where
  "this = io_bind get (\<lambda>p. io_return (self p))"

definition set_self :: "(Initiator \<Rightarrow> Initiator) \<Rightarrow> ('w, unit) iop" where
  "set_self f = modify (\<lambda>p. p\<lparr> self := f (self p) \<rparr>)"

text \<open>Reading through the pointers \<open>i.NVMeTCPInfo\<close> and \<open>i.dev\<close>.\<close>

definition info_ptr :: "('w, NVMeTCPInfo) iop" where
  "info_ptr = io_bind this (\<lambda>i. case NVMeTCPInfo i of None \<Rightarrow> io_fail nil_pointer | Some info \<Rightarrow> io_return info)"

definition dev_ptr :: "('w, LonghornBlockDevice) iop" where
  "dev_ptr = io_bind this (\<lambda>i. case dev i of None \<Rightarrow> io_fail nil_pointer | Some d \<Rightarrow> io_return d)"

definition set_info :: "(NVMeTCPInfo \<Rightarrow> NVMeTCPInfo) \<Rightarrow> ('w, unit) iop" where
  "set_info f = set_self (\<lambda>i. i\<lparr> NVMeTCPInfo := map_option f (NVMeTCPInfo i) \<rparr>)"

section \<open>The lock\<close>

definition lockFilePath :: "Initiator \<Rightarrow> string" where
  "lockFilePath i = LockFilePrefix @ ''-'' @ Name i @ ''.lock''"

definition newLock :: "'w node_env \<Rightarrow> ('w, unit) iop" where
  "newLock env = io_bind this (\<lambda>i.
     if hostProc i \<noteq> HostProcDirectory
     then io_fail (PlainErr (''invalid host proc path '' @ hostProc i @ '' for initiator '' @ Name i @
       '', supported path is '' @ HostProcDirectory))
     else
       io_bind (wrapping (''failed to create lock directory '' @ LockDir @ '' for initiator '' @ Name i)
         (do_sys env (CreateDirectory LockDir))) (\<lambda>_.
       wrapping (''failed to get file lock for initiator '' @ Name i)
         (do_sys env (Lock (lockFilePath i) LockTimeout))))"

text \<open>A deferred function runs on every way out, also when the operation panics, but not when the process
  exits. Its errors are dropped.\<close>

definition deferring :: "('s, 'a) io \<Rightarrow> ('s, unit) io \<Rightarrow> ('s, 'a) io" where
  "deferring m d s =
     (case m s of
        (r, s') \<Rightarrow> (case r of Inl (GoExit e) \<Rightarrow> (r, s') | _ \<Rightarrow> (r, snd (d s'))))"

text \<open>The lock keeps the path it was made with.\<close>

definition unlock :: "'w node_env \<Rightarrow> Initiator \<Rightarrow> ('w, unit) iop" where
  "unlock env i = do_sys env (Unlock (lockFilePath i))"

text \<open>The preamble of every exported operation: with an empty \<open>hostProc\<close> there is no lock.\<close>

definition locked :: "'w node_env \<Rightarrow> ('w, 'a) iop \<Rightarrow> ('w, 'a) iop" where
  "locked env m = io_bind this (\<lambda>i.
     if hostProc i \<noteq> [] then io_bind (newLock env) (\<lambda>_. deferring m (unlock env i)) else m)"

section \<open>Loading the device\<close>

definition selectControllerForNVMeDevice ::
  "Device \<Rightarrow> string \<Rightarrow> string \<Rightarrow> string \<Rightarrow> go_error + Controller" where
  "selectControllerForNVMeDevice device transportAddress transportServiceID recordedControllerName =
     (if Controllers device = []
      then Inl (PlainErr (''no NVMe controllers found for subsystem '' @ Device.SubsystemNQN device))
      else
        (let by_address = (if transportAddress \<noteq> [] \<and> transportServiceID \<noteq> []
               then find (\<lambda>c. GetIPAndPortFromControllerAddress (Controller.Address c) =
                 (transportAddress, transportServiceID)) (Controllers device) else None);
             by_name = (if recordedControllerName \<noteq> []
               then find (\<lambda>c. Controller.Controller c = recordedControllerName) (Controllers device) else None)
         in case by_address of
              Some c \<Rightarrow> Inr c
            | None \<Rightarrow> (case by_name of Some c \<Rightarrow> Inr c | None \<Rightarrow> Inr (Controllers device ! 0))))"

text \<open>What the information becomes once the controller is chosen, and the device behind it.\<close>

definition with_controller :: "Controller \<Rightarrow> Namespace \<Rightarrow> NVMeTCPInfo \<Rightarrow> NVMeTCPInfo" where
  "with_controller controller ns info = info\<lparr>
     ControllerName := Controller.Controller controller,
     NamespaceName := Namespace.NameSpace ns,
     TransportAddress := fst (GetIPAndPortFromControllerAddress (Controller.Address controller)),
     TransportServiceID := snd (GetIPAndPortFromControllerAddress (Controller.Address controller)) \<rparr>"

definition use_controller :: "'w node_env \<Rightarrow> Namespace \<Rightarrow> Controller \<Rightarrow> ('w, unit) iop" where
  "use_controller env ns controller =
     io_bind this (\<lambda>i.
     io_bind (set_info (with_controller controller ns)) (\<lambda>_.
     io_bind (wrapping (''cannot find the device for NVMe/TCP initiator '' @ Name i @ '' with namespace name '' @
         Namespace.NameSpace ns)
       (on_host (DetectDevice (executor env) (join_path [''/dev'', Namespace.NameSpace ns])))) (\<lambda>d.
     set_self (\<lambda>i. i\<lparr> dev := Some \<lparr> Source = d, Export = no_device \<rparr> \<rparr>))))"

definition load_devices ::
  "'w node_env \<Rightarrow> string \<Rightarrow> string \<Rightarrow> Initiator \<Rightarrow> NVMeTCPInfo \<Rightarrow> Device list \<Rightarrow> ('w, unit) iop" where
  "load_devices env transportAddress transportServiceID i info nvmeDevices =
     (case nvmeDevices of
        [d] \<Rightarrow>
          (case Device.Namespaces d of
             [ns] \<Rightarrow>
               io_bind (wrapping (''failed to select controller for NVMe/TCP initiator '' @ Name i)
                 (io_lift (selectControllerForNVMeDevice d transportAddress transportServiceID (ControllerName info))))
                 (use_controller env ns)
           | _ \<Rightarrow> io_fail (PlainErr (''found zero or multiple devices for NVMe/TCP initiator '' @ Name i)))
      | _ \<Rightarrow> io_fail (PlainErr (''found zero or multiple devices NVMe/TCP initiator '' @ Name i)))"

definition loadNVMeDeviceInfoWithoutLock ::
  "'w node_env \<Rightarrow> string \<Rightarrow> string \<Rightarrow> string \<Rightarrow> ('w, unit) iop" where
  "loadNVMeDeviceInfoWithoutLock env transportAddress transportServiceID subsystemNQN =
     io_bind this (\<lambda>i. case NVMeTCPInfo i of
       None \<Rightarrow> io_fail (PlainErr ''failed to loadNVMeDeviceInfoWithoutLock because nvmeTCPInfo is nil'')
     | Some info \<Rightarrow>
         io_bind (on_host (GetDevices (executor env) transportAddress transportServiceID subsystemNQN))
           (load_devices env transportAddress transportServiceID i info))"

definition waitAndLoadNVMeDeviceInfoWithoutLock :: "'w node_env \<Rightarrow> string \<Rightarrow> string \<Rightarrow> ('w, unit) iop" where
  "waitAndLoadNVMeDeviceInfoWithoutLock env transportAddress transportServiceID =
     io_bind this (\<lambda>i. case NVMeTCPInfo i of
       None \<Rightarrow> io_fail (PlainErr ''failed to waitAndLoadNVMeDeviceInfoWithoutLock because nvmeTCPInfo is nil'')
     | Some _ \<Rightarrow>
         wrapping ''failed to load NVMe device info''
           (retry_do env waitDeviceInterval maxWaitDeviceRetries
             (attempt (io_bind info_ptr (\<lambda>info.
                loadNVMeDeviceInfoWithoutLock env transportAddress transportServiceID (SubsystemNQN info))))))"

definition reuseExistingNVMeTCPPathWithoutLock :: "'w node_env \<Rightarrow> string \<Rightarrow> string \<Rightarrow> ('w, bool) iop" where
  "reuseExistingNVMeTCPPathWithoutLock env transportAddress transportServiceID =
     io_bind info_ptr (\<lambda>info.
     io_bind (loadNVMeDeviceInfoWithoutLock env (TransportAddress info) (TransportServiceID info) (SubsystemNQN info)) (\<lambda>_.
     io_bind info_ptr (\<lambda>info.
       if TransportAddress info \<noteq> transportAddress \<or> TransportServiceID info \<noteq> transportServiceID
       then io_return False
       else
         io_bind (waitAndLoadNVMeDeviceInfoWithoutLock env transportAddress transportServiceID) (\<lambda>_.
         io_return True))))"

section \<open>Connecting\<close>

definition nrIoQueues :: "Initiator \<Rightarrow> i32" where
  "nrIoQueues i = (case NVMeTCPInfo i of None \<Rightarrow> 0 | Some info \<Rightarrow> NrIoQueues info)"

definition findControllerBySubsystem :: "'w node_env \<Rightarrow> string \<Rightarrow> string \<Rightarrow> string \<Rightarrow> ('w, string) iop" where
  "findControllerBySubsystem env nqn transportAddress transportServiceID =
     io_bind (wrapping ''failed to list subsystems'' (on_host (GetSubsystems (executor env)))) (\<lambda>subsystems.
       case controller_at nqn transportAddress transportServiceID subsystems of
         Some path \<Rightarrow> io_return (Path.Name path)
       | None \<Rightarrow> io_fail (PlainErr (''no controller found for subsystem '' @ nqn @ '' at '' @ transportAddress @
           '':'' @ transportServiceID)))"

definition target_nqn :: "'w node_env \<Rightarrow> string \<Rightarrow> string \<Rightarrow> ('w, string) iop" where
  "target_nqn env transportAddress transportServiceID =
     io_bind info_ptr (\<lambda>info.
       if SubsystemNQN info \<noteq> [] then io_return (SubsystemNQN info)
       else wrapping (''discover NVMe/TCP target '' @ transportAddress @ '':'' @ transportServiceID @ '' failed'')
         (on_host (DiscoverTarget (executor env) transportAddress transportServiceID)))"

definition already_connected :: "go_error \<Rightarrow> bool" where
  "already_connected e = contains ''already connected'' (to_lower (error_text e))"

definition connect_failed :: "string \<Rightarrow> string \<Rightarrow> string \<Rightarrow> go_error \<Rightarrow> go_error" where
  "connect_failed transportAddress transportServiceID nqn e =
     WrapErr (''connect NVMe/TCP target '' @ transportAddress @ '':'' @ transportServiceID @
       '' (nqn='' @ nqn @ '') failed'') e"

definition connect_attempt ::
  "'w node_env \<Rightarrow> string \<Rightarrow> string \<Rightarrow> ('w, (string \<times> string) attempt) iop" where
  "connect_attempt env transportAddress transportServiceID =
     io_case (target_nqn env transportAddress transportServiceID)
       (\<lambda>e. io_return (Again e))
       (\<lambda>nqn. io_bind this (\<lambda>i.
          io_case (on_host (ConnectTargetWithNrIoQueues (executor env) transportAddress transportServiceID nqn
            (nrIoQueues i)))
            (\<lambda>e. if already_connected e
                  then io_case (findControllerBySubsystem env nqn transportAddress transportServiceID)
                    (\<lambda>_. io_return (GiveUp (connect_failed transportAddress transportServiceID nqn e)))
                    (\<lambda>name. io_return (Succeeded (nqn, name)))
                  else io_return (Again (connect_failed transportAddress transportServiceID nqn e)))
            (\<lambda>name. io_return (Succeeded (nqn, name)))))"

definition discoverAndConnectNVMeTCPTarget ::
  "'w node_env \<Rightarrow> string \<Rightarrow> string \<Rightarrow> nat \<Rightarrow> int \<Rightarrow> ('w, string \<times> string) iop" where
  "discoverAndConnectNVMeTCPTarget env transportAddress transportServiceID maxRetries retryInterval =
     io_bind this (\<lambda>i. case NVMeTCPInfo i of
       None \<Rightarrow> io_fail (PlainErr ''nvmeTCPInfo is nil'')
     | Some _ \<Rightarrow>
         wrapping (''failed to discover and connect NVMe/TCP target '' @ transportAddress @ '':'' @ transportServiceID)
           (retry_do env retryInterval maxRetries (connect_attempt env transportAddress transportServiceID)))"

definition recordConnectedNVMeTCPInfo :: "string \<Rightarrow> string \<Rightarrow> ('w, unit) iop" where
  "recordConnectedNVMeTCPInfo subsystemNQN controllerName =
     io_bind this (\<lambda>i. case NVMeTCPInfo i of
       None \<Rightarrow> io_fail (PlainErr ''nvmeTCPInfo is nil'')
     | Some _ \<Rightarrow>
         io_bind (if subsystemNQN \<noteq> [] then set_info (\<lambda>info. info\<lparr> SubsystemNQN := subsystemNQN \<rparr>) else io_return ()) (\<lambda>_.
         if controllerName = [] then io_fail (PlainErr ''controller name is empty'')
         else set_info (\<lambda>info. info\<lparr> ControllerName := controllerName \<rparr>)))"

text \<open>The cleanup after a failure behind a successful connect: disconnect that controller, its errors only
  logged, and put the saved information back.\<close>

definition undo_connect ::
  "'w node_env \<Rightarrow> NVMeTCPInfo \<Rightarrow> string \<Rightarrow> string \<Rightarrow> string \<Rightarrow> go_error \<Rightarrow> ('w, unit) iop" where
  "undo_connect env previousInfo subsystemNQN transportAddress transportServiceID err =
     io_bind (io_case (on_host (DisconnectController (executor env) subsystemNQN transportAddress transportServiceID))
       (\<lambda>_. io_return ()) io_return) (\<lambda>_.
     io_bind (set_info (\<lambda>_. previousInfo)) (\<lambda>_. io_fail err))"

definition connect_and_load :: "'w node_env \<Rightarrow> string \<Rightarrow> string \<Rightarrow> ('w, unit) iop" where
  "connect_and_load env transportAddress transportServiceID =
     io_bind info_ptr (\<lambda>previousInfo.
     io_bind (discoverAndConnectNVMeTCPTarget env transportAddress transportServiceID maxConnectTargetRetries
       retryConnectTargetInterval) (\<lambda>(subsystemNQN, controllerName).
     let undo = undo_connect env previousInfo subsystemNQN transportAddress transportServiceID in
     io_case (recordConnectedNVMeTCPInfo subsystemNQN controllerName) undo
       (\<lambda>_. io_case (waitAndLoadNVMeDeviceInfoWithoutLock env transportAddress transportServiceID) undo io_return)))"

definition ensureNVMeTCPPathWithoutLock :: "'w node_env \<Rightarrow> string \<Rightarrow> string \<Rightarrow> ('w, unit) iop" where
  "ensureNVMeTCPPathWithoutLock env transportAddress transportServiceID =
     io_case (reuseExistingNVMeTCPPathWithoutLock env transportAddress transportServiceID)
       (\<lambda>_. connect_and_load env transportAddress transportServiceID)
       (\<lambda>reused. if reused then io_return () else connect_and_load env transportAddress transportServiceID)"

definition connectNVMeTCPPathWithoutLock :: "'w node_env \<Rightarrow> string \<Rightarrow> string \<Rightarrow> ('w, unit) iop" where
  "connectNVMeTCPPathWithoutLock env transportAddress transportServiceID =
     (let fresh = io_bind (discoverAndConnectNVMeTCPTarget env transportAddress transportServiceID
            maxConnectTargetRetries retryConnectTargetInterval) (\<lambda>_. io_return ())
      in io_case (reuseExistingNVMeTCPPathWithoutLock env transportAddress transportServiceID)
           (\<lambda>_. fresh) (\<lambda>reused. if reused then io_return () else fresh))"

end
