(* ===== verification/InitiatorDm.thy ===== *)
theory InitiatorDm
  imports Initiator
begin

text \<open>
  The linear device-mapper device and the endpoint of an initiator: the parts of
  \<open>pkg/initiator/initiator.go\<close> that create, reload, suspend and remove them.
\<close>

section \<open>The endpoint\<close>

definition isEndpointValid :: "'w node_env \<Rightarrow> ('w, bool) iop" where
  "isEndpointValid env =
     io_bind this (\<lambda>i. case dev i of
       None \<Rightarrow> io_return False
     | Some d \<Rightarrow>
         io_case (do_stat env (Endpoint i)) (\<lambda>_. io_return False) (\<lambda>st.
           if \<not> is_block st then io_return False
           else io_return (uint (unix_Major (st_rdev st)) = BlockDevice.Major (Export d) \<and>
                           uint (unix_Minor (st_rdev st)) = BlockDevice.Minor (Export d))))"

definition isEndpointExist :: "'w node_env \<Rightarrow> ('w, bool) iop" where
  "isEndpointExist env =
     io_bind this (\<lambda>i.
     io_case (do_sys env (Stat (Endpoint i)))
       (\<lambda>err. if is_not_exist err then io_return False else io_fail err)
       (\<lambda>_. io_return True))"

definition makeEndpoint :: "'w node_env \<Rightarrow> ('w, unit) iop" where
  "makeEndpoint env =
     io_bind this (\<lambda>i.
     io_bind (wrapping ''failed to duplicate device'' (DuplicateDevice env (dev i) (Endpoint i))) (\<lambda>_.
     set_self (\<lambda>i. i\<lparr> isUp := True \<rparr>)))"

definition removeEndpoint :: "'w node_env \<Rightarrow> ('w, unit) iop" where
  "removeEndpoint env =
     io_bind this (\<lambda>i.
       if Endpoint i = [] then io_return ()
       else io_bind (RemoveDevice env (Endpoint i)) (\<lambda>_.
            set_self (\<lambda>i. i\<lparr> dev := None, isUp := False \<rparr>)))"

definition createEndpoint :: "'w node_env \<Rightarrow> ('w, unit) iop" where
  "createEndpoint env =
     io_bind this (\<lambda>i.
     io_bind (wrapping (''failed to check if endpoint '' @ Endpoint i @ '' exists for NVMe/TCP initiator '' @ Name i)
       (isEndpointExist env)) (\<lambda>exist.
       if exist then
         (if dev i \<noteq> None then
            io_bind (isEndpointValid env) (\<lambda>valid.
              if valid then set_self (\<lambda>i. i\<lparr> isUp := True \<rparr>)
              else
                io_bind (wrapping (''failed to remove stale endpoint '' @ Endpoint i @
                  '' for NVMe/TCP initiator '' @ Name i) (RemoveDevice env (Endpoint i))) (\<lambda>_.
                makeEndpoint env))
          else io_return ())
       else makeEndpoint env))"

section \<open>The linear device\<close>

definition getDmDevicePath :: "string \<Rightarrow> string" where
  "getDmDevicePath name = join_path [''/dev/mapper'', name]"

definition linear_table :: "int \<Rightarrow> string \<Rightarrow> string" where
  "linear_table sectors devPath = ''0 '' @ itoa sectors @ '' linear '' @ devPath @ '' 0''"

definition source_path :: "LonghornBlockDevice \<Rightarrow> string" where
  "source_path d = ''/dev/'' @ BlockDevice.Name (Source d)"

text \<open>The numbers of the device-mapper device go into \<open>i.dev.Export\<close>, through the pointer.\<close>

definition set_export :: "string \<Rightarrow> int \<Rightarrow> int \<Rightarrow> ('w, unit) iop" where
  "set_export name major minor =
     io_bind dev_ptr (\<lambda>d.
     set_self (\<lambda>i. i\<lparr> dev := Some (d\<lparr> Export := (Export d)\<lparr> BlockDevice.Name := name, BlockDevice.Major := major, BlockDevice.Minor := minor \<rparr> \<rparr>) \<rparr>))"

definition load_dm_numbers :: "'w node_env \<Rightarrow> ('w, unit) iop" where
  "load_dm_numbers env =
     io_bind this (\<lambda>i.
     io_bind (on_host (GetDeviceNumbers (executor env) (getDmDevicePath (Name i)))) (\<lambda>(major, minor).
     set_export (Name i) major minor))"

definition errDeviceNotReady :: go_error where
  "errDeviceNotReady = PlainErr ''device is not a block device yet''"

definition validateDiskCreation :: "'w node_env \<Rightarrow> string \<Rightarrow> nat \<Rightarrow> int \<Rightarrow> ('w, unit) iop" where
  "validateDiskCreation env path maxRetries retryInterval =
     (if maxRetries = 0 then io_fail (PlainErr ''maxRetries must be > 0'')
      else wrapping (''failed to validate device '' @ path @ '' creation'')
        (retry_do env retryInterval maxRetries
          (attempt (io_bind (IsBlockDevice env path) (\<lambda>isBlockDev.
             if isBlockDev then io_return () else io_fail errDeviceNotReady)))))"

definition createLinearDmDevice :: "'w node_env \<Rightarrow> ('w, unit) iop" where
  "createLinearDmDevice env =
     io_bind this (\<lambda>i. case dev i of
       None \<Rightarrow> io_fail (PlainErr ''found nil device for linear dm device creation'')
     | Some d \<Rightarrow>
         io_bind (on_host (GetDeviceSectorSize (executor env) (source_path d))) (\<lambda>sectors.
         io_bind (on_host (DmsetupCreate (executor env) (Name i) (linear_table sectors (source_path d)))) (\<lambda>_.
         io_bind (validateDiskCreation env (getDmDevicePath (Name i)) validateDiskCreationMaxRetries
           validateDiskCreationRetryInterval) (\<lambda>_.
         load_dm_numbers env))))"

definition removeLinearDmDevice :: "'w node_env \<Rightarrow> bool \<Rightarrow> bool \<Rightarrow> ('w, unit) iop" where
  "removeLinearDmDevice env force deferred =
     io_bind this (\<lambda>i.
     io_bind (do_sys env (Stat (getDmDevicePath (Name i)))) (\<lambda>_.
     on_host (DmsetupRemove (executor env) (Name i) force deferred)))"

definition suspendLinearDmDevice :: "'w node_env \<Rightarrow> bool \<Rightarrow> bool \<Rightarrow> ('w, unit) iop" where
  "suspendLinearDmDevice env noflush nolockfs =
     io_bind this (\<lambda>i. on_host (DmsetupSuspend (executor env) (Name i) noflush nolockfs))"

definition resumeLinearDmDevice :: "'w node_env \<Rightarrow> ('w, unit) iop" where
  "resumeLinearDmDevice env = io_bind this (\<lambda>i. on_host (DmsetupResume (executor env) (Name i)))"

text \<open>Reloading reads the device first: without one it panics.\<close>

definition reloadLinearDmDevice :: "'w node_env \<Rightarrow> ('w, unit) iop" where
  "reloadLinearDmDevice env =
     io_bind dev_ptr (\<lambda>d.
     io_bind this (\<lambda>i.
     io_bind (on_host (Execute (executor env) [] BlockdevBinary [''--getsize'', source_path d] ExecuteTimeout)) (\<lambda>output.
     io_bind (io_lift (atoi_err (trim_space output))) (\<lambda>sectors.
     io_bind (on_host (DmsetupReload (executor env) (Name i) (linear_table sectors (source_path d)))) (\<lambda>_.
     load_dm_numbers env)))))"

definition dm_info :: "'w node_env \<Rightarrow> (DeviceInfo \<Rightarrow> bool) \<Rightarrow> ('w, bool) iop" where
  "dm_info env flag =
     io_bind this (\<lambda>i.
     io_bind (on_host (DmsetupInfo (executor env) (Name i))) (\<lambda>devices.
       case find (\<lambda>device. DeviceInfo.Name device = Name i) devices of
         Some device \<Rightarrow> io_return (flag device)
       | None \<Rightarrow> io_fail (PlainErr (''failed to find linear dm device '' @ Name i))))"

definition IsSuspended :: "'w node_env \<Rightarrow> ('w, bool) iop" where
  "IsSuspended env = dm_info env Suspended"

definition IsDeferredRemoveSet :: "'w node_env \<Rightarrow> ('w, bool) iop" where
  "IsDeferredRemoveSet env = dm_info env DeferredRemove"

definition replaceDmDeviceTarget :: "'w node_env \<Rightarrow> ('w, unit) iop" where
  "replaceDmDeviceTarget env =
     io_bind this (\<lambda>i.
     io_bind (wrapping (''failed to check if linear dm device has deferred-remove flag set for initiator '' @ Name i)
       (IsDeferredRemoveSet env)) (\<lambda>_.
     io_bind (wrapping (''failed to check if linear dm device is suspended for initiator '' @ Name i)
       (IsSuspended env)) (\<lambda>suspended.
     io_bind (if suspended then io_return ()
              else wrapping (''failed to suspend linear dm device for initiator '' @ Name i)
                (suspendLinearDmDevice env True False)) (\<lambda>_.
     io_bind (wrapping (''failed to reload linear dm device for initiator '' @ Name i)
       (reloadLinearDmDevice env)) (\<lambda>_.
     wrapping (''failed to resume linear dm device for initiator '' @ Name i) (resumeLinearDmDevice env))))))"

section \<open>Exported operations\<close>

definition Suspend :: "'w node_env \<Rightarrow> bool \<Rightarrow> bool \<Rightarrow> ('w, unit) iop" where
  "Suspend env noflush nolockfs = locked env (
     io_bind this (\<lambda>i.
     io_bind (wrapping (''failed to check if linear dm device is suspended for NVMe/TCP initiator '' @ Name i)
       (IsSuspended env)) (\<lambda>suspended.
       if suspended then io_return ()
       else wrapping (''failed to suspend linear dm device for NVMe/TCP initiator '' @ Name i)
         (suspendLinearDmDevice env noflush nolockfs))))"

definition Resume :: "'w node_env \<Rightarrow> ('w, unit) iop" where
  "Resume env = locked env (
     io_bind this (\<lambda>i.
       wrapping (''failed to resume linear dm device for NVMe/TCP initiator '' @ Name i) (resumeLinearDmDevice env)))"

definition ReloadDmDevice :: "'w node_env \<Rightarrow> ('w, unit) iop" where
  "ReloadDmDevice env = locked env (reloadLinearDmDevice env)"

section \<open>Polling\<close>

text \<open>
  Two operations poll with \<open>retry.Do\<close> and a function that asks for one more attempt until a condition holds,
  one attempt beyond the limit being a no-op that succeeds. \<open>k\<close> is the number of attempts \<open>retry.Do\<close> has left,
  \<open>attempt\<close> the counter of the function, \<open>st\<close> what it has stored in the variables it shares with its caller.
\<close>

fun poll_retry ::
  "'w node_env \<Rightarrow> int \<Rightarrow> nat \<Rightarrow> nat \<Rightarrow> nat \<Rightarrow> ('st \<Rightarrow> ('o, 'w, 'st \<times> bool) op) \<Rightarrow> 'st \<Rightarrow> ('o, 'w, 'st) op" where
  "poll_retry env delay limit 0 n f st = io_return st"
| "poll_retry env delay limit (Suc k) n f st =
     (if n \<ge> limit then io_return st
      else
        io_bind (f st) (\<lambda>(st', done).
          if done then io_return st'
          else if k = 0 then io_return st'
          else io_bind (pause env delay) (\<lambda>_. poll_retry env delay limit k (Suc n) f st')))"

definition poll_size ::
  "'w node_env \<Rightarrow> string \<Rightarrow> int \<Rightarrow> int \<Rightarrow> ('w, int \<times> bool) iop" where
  "poll_size env devPath expectedSectors sectors =
     io_case (on_host (Execute (executor env) [] BlockdevBinary [''--getsize'', devPath] ExecuteTimeout))
       (\<lambda>_. io_return (sectors, False))
       (\<lambda>output. let sectors = parse_int_value (trim_space output) in io_return (sectors, sectors \<ge> expectedSectors))"

definition SyncDmDeviceSize :: "'w node_env \<Rightarrow> u64 \<Rightarrow> ('w, unit) iop" where
  "SyncDmDeviceSize env expectedSize =
     io_bind this (\<lambda>i. case dev i of
       None \<Rightarrow> io_fail (PlainErr ''initiator device source is not initialized'')
     | Some d \<Rightarrow>
         if BlockDevice.Name (Source d) = [] then io_fail (PlainErr ''initiator device source is not initialized'')
         else
           (let expectedSectors = uint (expectedSize div DmSectorSize) in
            io_bind (poll_retry env waitDeviceInterval maxWaitDeviceRetries (maxWaitDeviceRetries + 1) 0
              (poll_size env (source_path d) expectedSectors) 0) (\<lambda>sectors.
            if sectors < expectedSectors
            then io_fail (PlainErr (''timeout waiting for device '' @ source_path d @ '' to reach expected size '' @
              itoa expectedSectors))
            else reloadLinearDmDevice env)))"

section \<open>Loading the endpoint\<close>

definition isNamespaceExist :: "NVMeTCPInfo option \<Rightarrow> string list \<Rightarrow> bool" where
  "isNamespaceExist info devices = (case info of None \<Rightarrow> False | Some x \<Rightarrow> NamespaceName x \<in> set devices)"

definition findDependentDevices :: "'w node_env \<Rightarrow> string \<Rightarrow> ('w, string list) iop" where
  "findDependentDevices env devName = on_host (DmsetupDeps (executor env) (range_order env) devName)"

definition LoadEndpointForNvmeTcpFrontend :: "'w node_env \<Rightarrow> bool \<Rightarrow> ('w, unit) iop" where
  "LoadEndpointForNvmeTcpFrontend env dmDeviceIsBusy =
     io_bind this (\<lambda>i. case NVMeTCPInfo i of
       None \<Rightarrow> io_fail (PlainErr ''failed to LoadEndpointForNvmeTcpFrontend because nvmeTCPInfo is nil'')
     | Some info \<Rightarrow>
         io_bind (on_host (DetectDevice (executor env) (Endpoint i))) (\<lambda>d.
         io_bind (findDependentDevices env (BlockDevice.Name d)) (\<lambda>depDevices.
           if \<not> dmDeviceIsBusy \<and> NamespaceName info \<noteq> [] \<and> \<not> isNamespaceExist (NVMeTCPInfo i) depDevices
           then io_fail (PlainErr (''detected device '' @ BlockDevice.Name d @ '' name mismatching from endpoint '' @
             Endpoint i @ '' for NVMe/TCP initiator '' @ Name i))
           else
             set_self (\<lambda>i. i\<lparr> dev := Some
               \<lparr> Source = (case dev i of
                    Some old \<Rightarrow> if BlockDevice.Name (Source old) \<noteq> [] then Source old else no_device
                  | None \<Rightarrow> no_device),
                 Export = d \<rparr>, isUp := True \<rparr>))))"

end
