(* ===== verification/InitiatorStart.thy ===== *)
theory InitiatorStart
  imports InitiatorDm
begin

text \<open>
  Starting, stopping and waiting: the operations of \<open>pkg/initiator/initiator.go\<close> that put the others
  together.
\<close>

section \<open>Two results\<close>

text \<open>
  \<open>Start\<close> and \<open>Stop\<close> return \<open>(dmDeviceIsBusy, err)\<close> and their callers read both, so that here the pair is the
  result. \<open>or_return b m k\<close> is the idiom \<open>x, err := m(); if err != nil { return b, err }; k(x)\<close>.
\<close>

type_synonym 'w busy_op = "('w, bool \<times> go_error option) iop"

definition or_return :: "bool \<Rightarrow> ('w, 'a) iop \<Rightarrow> ('a \<Rightarrow> 'w busy_op) \<Rightarrow> 'w busy_op" where
  "or_return b m k = io_case m (\<lambda>err. io_return (b, Some err)) k"

definition wrap_busy :: "string \<Rightarrow> 'w busy_op \<Rightarrow> 'w busy_op" where
  "wrap_busy msg m = io_bind m (\<lambda>(b, err). io_return (b, map_option (WrapErr msg) err))"

definition locked_busy :: "'w node_env \<Rightarrow> ('w, unit) iop \<Rightarrow> 'w busy_op \<Rightarrow> 'w busy_op" where
  "locked_busy env at_end m = io_bind this (\<lambda>i.
     if hostProc i \<noteq> [] then or_return False (newLock env) (\<lambda>_. deferring m (io_bind at_end (\<lambda>_. unlock env i))) else m)"

section \<open>Stopping\<close>

definition stop_dm :: "'w node_env \<Rightarrow> bool \<Rightarrow> bool \<Rightarrow> 'w busy_op" where
  "stop_dm env deferDmDeviceCleanup returnErrorForBusyDevice =
     io_case (removeLinearDmDevice env False deferDmDeviceCleanup)
       (\<lambda>err. if is_not_exist err then io_return (False, None)
              else if ErrorIsDeviceOrResourceBusy err
                then (if returnErrorForBusyDevice then io_return (True, Some err) else io_return (True, None))
              else io_return (False, Some err))
       (\<lambda>_. io_return (False, None))"

definition stop_ublk :: "'w node_env \<Rightarrow> bool \<Rightarrow> bool \<Rightarrow> UblkInfo option \<Rightarrow> 'w busy_op" where
  "stop_ublk env has_client dmDeviceIsBusy info =
     (case info of
        Some u \<Rightarrow>
          if \<not> has_client
          then io_return (dmDeviceIsBusy, Some (PlainErr ''failed to stop ublk initiator because spdkClient or UblkInfo is nil''))
          else if UblkID u = UnInitializedUblkId then io_return (dmDeviceIsBusy, None)
          else io_case (on_spdk (UblkStopDisk (spdk env) (UblkID u)))
            (\<lambda>err. if IsJSONRPCRespErrorNoSuchDevice err then io_return (dmDeviceIsBusy, None)
                   else io_return (dmDeviceIsBusy, Some err))
            (\<lambda>_. io_return (dmDeviceIsBusy, None))
      | None \<Rightarrow>
          io_return (dmDeviceIsBusy, Some (PlainErr ''failed to stop ublk initiator because spdkClient or UblkInfo is nil'')))"

definition stop_frontend :: "'w node_env \<Rightarrow> bool \<Rightarrow> bool \<Rightarrow> 'w busy_op" where
  "stop_frontend env has_client dmDeviceIsBusy =
     io_bind this (\<lambda>i. case NVMeTCPInfo i of
       Some info \<Rightarrow>
         or_return dmDeviceIsBusy
           (wrapping (''failed to disconnect target for NVMe/TCP initiator '' @ Name i)
             (on_host (DisconnectTarget (executor env) (SubsystemNQN info)))) (\<lambda>_.
         io_bind (set_info (\<lambda>info. info\<lparr> ControllerName := [], NamespaceName := [], TransportAddress := [],
           TransportServiceID := [] \<rparr>)) (\<lambda>_.
         io_return (dmDeviceIsBusy, None)))
     | None \<Rightarrow> stop_ublk env has_client dmDeviceIsBusy (UblkInfo i))"

definition stopWithoutLock :: "'w node_env \<Rightarrow> bool \<Rightarrow> bool \<Rightarrow> bool \<Rightarrow> bool \<Rightarrow> 'w busy_op" where
  "stopWithoutLock env has_client dmDeviceAndEndpointCleanupRequired deferDmDeviceCleanup returnErrorForBusyDevice =
     (if dmDeviceAndEndpointCleanupRequired then
        io_bind (stop_dm env deferDmDeviceCleanup returnErrorForBusyDevice) (\<lambda>(dmDeviceIsBusy, err).
          if err \<noteq> None then io_return (dmDeviceIsBusy, err)
          else or_return False (removeEndpoint env) (\<lambda>_. stop_frontend env has_client dmDeviceIsBusy))
      else stop_frontend env has_client False)"

text \<open>\<open>Stop\<close> removes the lock file while it still holds the lock; a failure is only logged.\<close>

definition remove_lock_file :: "'w node_env \<Rightarrow> ('w, unit) iop" where
  "remove_lock_file env = io_bind this (\<lambda>i n. (Inr (), snd (do_sys env (Remove (lockFilePath i)) n)))"

definition Stop :: "'w node_env \<Rightarrow> bool \<Rightarrow> bool \<Rightarrow> bool \<Rightarrow> bool \<Rightarrow> 'w busy_op" where
  "Stop env has_client dmDeviceAndEndpointCleanupRequired deferDmDeviceCleanup returnErrorForBusyDevice =
     locked_busy env (remove_lock_file env)
       (stopWithoutLock env has_client dmDeviceAndEndpointCleanupRequired deferDmDeviceCleanup
         returnErrorForBusyDevice)"

section \<open>Starting\<close>

text \<open>The linear device on the new source: replaced if it is busy, otherwise created; without cleanup the source
  itself is exported.\<close>

definition export_source :: "('w, unit) iop" where
  "export_source = io_bind dev_ptr (\<lambda>d. set_self (\<lambda>i. i\<lparr> dev := Some (d\<lparr> Export := Source d \<rparr>) \<rparr>))"

definition attach_dm :: "'w node_env \<Rightarrow> string \<Rightarrow> bool \<Rightarrow> bool \<Rightarrow> (bool \<Rightarrow> 'w busy_op) \<Rightarrow> 'w busy_op" where
  "attach_dm env msg dmDeviceAndEndpointCleanupRequired dmDeviceIsBusy k =
     (if dmDeviceAndEndpointCleanupRequired then
        (if dmDeviceIsBusy
         then io_case (replaceDmDeviceTarget env) (\<lambda>_. k True) (\<lambda>_. k False)
         else or_return False (wrapping msg (createLinearDmDevice env)) (\<lambda>_. k False))
      else io_bind export_source (\<lambda>_. k dmDeviceIsBusy))"

definition already_launched :: "'w node_env \<Rightarrow> string \<Rightarrow> string \<Rightarrow> ('w, bool) iop" where
  "already_launched env transportAddress transportServiceID =
     io_case (reuseExistingNVMeTCPPathWithoutLock env transportAddress transportServiceID)
       (\<lambda>_. io_return False)
       (\<lambda>launched.
          if launched
          then io_case (LoadEndpointForNvmeTcpFrontend env False) (\<lambda>_. io_return False) (\<lambda>_. io_return True)
          else io_return False)"

definition start_nvme :: "'w node_env \<Rightarrow> string \<Rightarrow> string \<Rightarrow> bool \<Rightarrow> bool \<Rightarrow> 'w busy_op" where
  "start_nvme env transportAddress transportServiceID dmDeviceAndEndpointCleanupRequired stop =
     io_bind this (\<lambda>i.
     io_bind (already_launched env transportAddress transportServiceID) (\<lambda>done.
       if done then io_return (False, None)
       else
         io_bind (if stop
             then wrap_busy (''failed to stop the mismatching NVMe/TCP initiator '' @ Name i @ '' before starting'')
               (stopWithoutLock env False dmDeviceAndEndpointCleanupRequired False False)
             else io_return (True, None)) (\<lambda>(dmDeviceIsBusy, err).
           if err \<noteq> None then io_return (dmDeviceIsBusy, err)
           else
             or_return dmDeviceIsBusy
               (wrapping (''failed to ensure device info after connecting target for NVMe/TCP initiator '' @ Name i)
                 (ensureNVMeTCPPathWithoutLock env transportAddress transportServiceID)) (\<lambda>_.
             attach_dm env (''failed to create linear dm device for NVMe/TCP initiator '' @ Name i)
               dmDeviceAndEndpointCleanupRequired dmDeviceIsBusy (\<lambda>dmDeviceIsBusy.
             or_return dmDeviceIsBusy (createEndpoint env) (\<lambda>_. io_return (dmDeviceIsBusy, None)))))))"

definition StartNvmeTCPInitiator :: "'w node_env \<Rightarrow> string \<Rightarrow> string \<Rightarrow> bool \<Rightarrow> bool \<Rightarrow> 'w busy_op" where
  "StartNvmeTCPInitiator env transportAddress transportServiceID dmDeviceAndEndpointCleanupRequired stop =
     io_bind this (\<lambda>i. wrap_busy (''failed to start NVMe/TCP initiator '' @ Name i) (
       case NVMeTCPInfo i of
         None \<Rightarrow> io_return (False, Some (PlainErr ''nvmeTCPInfo is nil''))
       | Some _ \<Rightarrow>
           if transportAddress = [] \<or> transportServiceID = []
           then io_return (False, Some (PlainErr (''invalid transportAddress '' @ transportAddress @
             '' and transportServiceID '' @ transportServiceID @ '' for starting initiator '' @ Name i)))
           else locked_busy env (io_return ())
             (start_nvme env transportAddress transportServiceID dmDeviceAndEndpointCleanupRequired stop)))"

section \<open>Starting a ublk initiator\<close>

fun stop_disks_of :: "'w node_env \<Rightarrow> string \<Rightarrow> UblkDevice list \<Rightarrow> ('w, unit) iop" where
  "stop_disks_of env bdevName [] = io_return ()"
| "stop_disks_of env bdevName (d # ds) =
     (if ublk_bdev_name d = bdevName
      then io_bind (io_case (on_spdk (UblkStopDisk (spdk env) (ublk_id d)))
             (\<lambda>err. if \<not> IsJSONRPCRespErrorNoSuchDevice err then io_fail err else io_return ()) io_return) (\<lambda>_.
           stop_disks_of env bdevName ds)
      else stop_disks_of env bdevName ds)"

definition set_ublk :: "(UblkInfo \<Rightarrow> UblkInfo) \<Rightarrow> ('w, unit) iop" where
  "set_ublk f = set_self (\<lambda>i. i\<lparr> UblkInfo := map_option f (UblkInfo i) \<rparr>)"

definition ublk_ptr :: "('w, UblkInfo) iop" where
  "ublk_ptr = io_bind this (\<lambda>i. case UblkInfo i of None \<Rightarrow> io_fail nil_pointer | Some u \<Rightarrow> io_return u)"

definition next_ublk_id :: "UblkDevice list \<Rightarrow> ('w, i32) iop" where
  "next_ublk_id ublkDeviceList =
     io_bind get (\<lambda>p.
       let (r, gen) = GetAvailableID (idGenerator p) ublkDeviceList in
       io_bind (modify (\<lambda>p. p\<lparr> idGenerator := gen \<rparr>)) (\<lambda>_. io_lift r))"

definition ublk_defaults :: "UblkInfo \<Rightarrow> UblkInfo" where
  "ublk_defaults u = u\<lparr>
     UblkQueueDepth := (if sint (UblkQueueDepth u) \<le> 0 then DefaultUblkQueueDepth else UblkQueueDepth u),
     UblkNumberOfQueue := (if sint (UblkNumberOfQueue u) \<le> 0 then DefaultUblkNumberOfQueue else UblkNumberOfQueue u) \<rparr>"

text \<open>The target is created once per process.\<close>

definition ensure_ublk_target :: "'w node_env \<Rightarrow> ('w, unit) iop" where
  "ensure_ublk_target env =
     io_bind get (\<lambda>p.
       if isUblkTargetCreated p then io_return ()
       else io_bind (wrapping ''failed to create ublk target'' (on_spdk (UblkCreateTarget (spdk env) [] True))) (\<lambda>_.
            modify (\<lambda>p. p\<lparr> isUblkTargetCreated := True \<rparr>)))"

definition launch_ublk :: "'w node_env \<Rightarrow> i32 \<Rightarrow> ('w, unit) iop" where
  "launch_ublk env availableUblkID =
     io_bind (set_ublk ublk_defaults) (\<lambda>_.
     io_bind (ensure_ublk_target env) (\<lambda>_.
     io_bind ublk_ptr (\<lambda>u.
     io_bind (on_spdk (UblkStartDisk (spdk env) (BdevName u) availableUblkID (UblkQueueDepth u) (UblkNumberOfQueue u))) (\<lambda>_.
     set_ublk (\<lambda>u. u\<lparr> UblkID := availableUblkID \<rparr>)))))"

definition ublk_endpoint :: "'w node_env \<Rightarrow> bool \<Rightarrow> 'w busy_op" where
  "ublk_endpoint env dmDeviceIsBusy =
     io_bind this (\<lambda>i.
     or_return dmDeviceIsBusy
       (wrapping (''failed to check if endpoint '' @ Endpoint i @ '' exists for ublk initiator '' @ Name i)
         (isEndpointExist env)) (\<lambda>exist.
       if exist then io_return (dmDeviceIsBusy, None)
       else or_return dmDeviceIsBusy (makeEndpoint env) (\<lambda>_. io_return (dmDeviceIsBusy, None))))"

definition start_ublk :: "'w node_env \<Rightarrow> bool \<Rightarrow> 'w busy_op" where
  "start_ublk env dmDeviceAndEndpointCleanupRequired =
     io_bind this (\<lambda>i.
     or_return False (on_spdk (UblkGetDisks (spdk env) 0)) (\<lambda>ublkDeviceList.
     or_return False (io_bind ublk_ptr (\<lambda>u. stop_disks_of env (BdevName u) ublkDeviceList)) (\<lambda>_.
     io_bind (wrap_busy (''failed to stop the ublk initiator '' @ Name i @ '' before starting'')
       (stopWithoutLock env True dmDeviceAndEndpointCleanupRequired False False)) (\<lambda>(dmDeviceIsBusy, err).
       if err \<noteq> None then io_return (dmDeviceIsBusy, err)
       else
         or_return False (on_spdk (UblkGetDisks (spdk env) 0)) (\<lambda>ublkDeviceList.
         or_return False (next_ublk_id ublkDeviceList) (\<lambda>availableUblkID.
         or_return False (launch_ublk env availableUblkID) (\<lambda>_.
         or_return False (on_spdk (FindUblkDevicePath (spdk env) availableUblkID)) (\<lambda>devicePath.
         or_return dmDeviceIsBusy
           (wrapping (''cannot find the device for ublk initiator '' @ Name i @ '' at path '' @ devicePath)
             (on_host (DetectDevice (executor env) devicePath))) (\<lambda>d.
         io_bind (set_self (\<lambda>i. i\<lparr> dev := Some \<lparr> Source = d, Export = no_device \<rparr> \<rparr>)) (\<lambda>_.
         attach_dm env (''failed to create linear dm device for ublk initiator '' @ Name i)
           dmDeviceAndEndpointCleanupRequired dmDeviceIsBusy (ublk_endpoint env)))))))))))"

definition StartUblkInitiator :: "'w node_env \<Rightarrow> bool \<Rightarrow> 'w busy_op" where
  "StartUblkInitiator env dmDeviceAndEndpointCleanupRequired =
     io_bind this (\<lambda>i. wrap_busy (''failed to start ublk initiator '' @ Name i) (
       case UblkInfo i of
         None \<Rightarrow> io_return (False, Some (PlainErr ''UblkInfo is nil''))
       | Some _ \<Rightarrow> locked_busy env (io_return ()) (start_ublk env dmDeviceAndEndpointCleanupRequired)))"

section \<open>Paths\<close>

definition executeNVMeTCPPathOp ::
  "'w node_env \<Rightarrow> string \<Rightarrow> string \<Rightarrow> string \<Rightarrow> (string \<Rightarrow> string \<Rightarrow> ('w, unit) iop) \<Rightarrow> ('w, unit) iop" where
  "executeNVMeTCPPathOp env transportAddress transportServiceID opName fn =
     io_bind this (\<lambda>i. wrapping (''failed to '' @ opName @ '' NVMe/TCP path for initiator '' @ Name i) (
       case NVMeTCPInfo i of
         None \<Rightarrow> io_fail (PlainErr ''nvmeTCPInfo is nil'')
       | Some _ \<Rightarrow>
           if transportAddress = [] \<or> transportServiceID = []
           then io_fail (PlainErr (''invalid transportAddress '' @ transportAddress @
             '' and transportServiceID '' @ transportServiceID @ '' for initiator '' @ Name i))
           else locked env (fn transportAddress transportServiceID)))"

definition ConnectNVMeTCPPath :: "'w node_env \<Rightarrow> string \<Rightarrow> string \<Rightarrow> ('w, unit) iop" where
  "ConnectNVMeTCPPath env transportAddress transportServiceID =
     executeNVMeTCPPathOp env transportAddress transportServiceID ''connect'' (connectNVMeTCPPathWithoutLock env)"

definition ReconnectNVMeTCPPath :: "'w node_env \<Rightarrow> string \<Rightarrow> string \<Rightarrow> ('w, unit) iop" where
  "ReconnectNVMeTCPPath env transportAddress transportServiceID =
     executeNVMeTCPPathOp env transportAddress transportServiceID ''reconnect'' (ensureNVMeTCPPathWithoutLock env)"

definition DiscoverNVMeTCPTarget :: "'w node_env \<Rightarrow> string \<Rightarrow> string \<Rightarrow> ('w, string) iop" where
  "DiscoverNVMeTCPTarget env ip port = locked env (on_host (DiscoverTarget (executor env) ip port))"

definition ConnectNVMeTCPTarget :: "'w node_env \<Rightarrow> string \<Rightarrow> string \<Rightarrow> string \<Rightarrow> ('w, string) iop" where
  "ConnectNVMeTCPTarget env ip port nqn = locked env (io_bind this (\<lambda>i.
     on_host (ConnectTargetWithNrIoQueues (executor env) ip port nqn (nrIoQueues i))))"

definition DisconnectNVMeTCPTarget :: "'w node_env \<Rightarrow> ('w, unit) iop" where
  "DisconnectNVMeTCPTarget env =
     io_bind this (\<lambda>i. case NVMeTCPInfo i of
       None \<Rightarrow> io_fail (PlainErr ''failed to DisconnectNVMeTCPTarget because nvmeTCPInfo is nil'')
     | Some info \<Rightarrow> locked env (on_host (DisconnectTarget (executor env) (SubsystemNQN info))))"

definition LoadNVMeDeviceInfo :: "'w node_env \<Rightarrow> string \<Rightarrow> string \<Rightarrow> string \<Rightarrow> ('w, unit) iop" where
  "LoadNVMeDeviceInfo env transportAddress transportServiceID subsystemNQN =
     locked env (loadNVMeDeviceInfoWithoutLock env transportAddress transportServiceID subsystemNQN)"

section \<open>Waiting\<close>

definition load_recorded :: "'w node_env \<Rightarrow> ('w, unit) iop" where
  "load_recorded env = io_bind info_ptr (\<lambda>info.
     loadNVMeDeviceInfoWithoutLock env (TransportAddress info) (TransportServiceID info) (SubsystemNQN info))"

text \<open>For at least one attempt; with none, \<open>retry.Do\<close> would go on until it succeeds.\<close>

definition WaitForNVMeTCPConnect :: "'w node_env \<Rightarrow> nat \<Rightarrow> int \<Rightarrow> ('w, unit) iop" where
  "WaitForNVMeTCPConnect env maxRetries retryInterval =
     io_bind this (\<lambda>i. case NVMeTCPInfo i of
       None \<Rightarrow> io_fail (PlainErr ''failed to WaitForNVMeTCPConnect because nvmeTCPInfo is nil'')
     | Some _ \<Rightarrow> locked env (wrapping ''failed to wait for NVMe/TCP connect''
         (retry_do env retryInterval maxRetries (attempt (load_recorded env)))))"

text \<open>One poll of \<open>WaitForNVMeTCPTargetDisconnect\<close>: it stores the error in \<open>lastErr\<close> and asks for the text of it.
  When the device could be loaded there is no error, and the call of \<open>Error\<close> on a nil interface panics.\<close>

definition poll_disconnected ::
  "'w node_env \<Rightarrow> bool \<times> go_error option \<Rightarrow> ('w, (bool \<times> go_error option) \<times> bool) iop" where
  "poll_disconnected env st =
     io_case (load_recorded env)
       (\<lambda>lastErr. let found = ErrorIsValidNvmeDeviceNotFound lastErr in
          io_return ((fst st \<or> found, Some lastErr), found))
       (\<lambda>_. io_fail nil_pointer)"

definition WaitForNVMeTCPTargetDisconnect :: "'w node_env \<Rightarrow> int \<Rightarrow> int \<Rightarrow> ('w, unit) iop" where
  "WaitForNVMeTCPTargetDisconnect env maxRetries retryInterval =
     io_bind this (\<lambda>i. case NVMeTCPInfo i of
       None \<Rightarrow> io_fail (PlainErr ''failed to WaitForNVMeTCPTargetDisconnect because nvmeTCPInfo is nil'')
     | Some _ \<Rightarrow> locked env (
         if maxRetries \<le> 0 then io_return ()
         else
           io_bind (poll_retry env retryInterval (nat maxRetries) (nat maxRetries + 1) 0 (poll_disconnected env)
             (False, None)) (\<lambda>(found, lastErr).
           if found then io_return ()
           else (case lastErr of None \<Rightarrow> io_return () | Some err \<Rightarrow> io_fail err))))"

definition live_path :: "string \<Rightarrow> string \<Rightarrow> string \<Rightarrow> Subsystem list \<Rightarrow> bool" where
  "live_path nqn transportAddress transportServiceID subsystems =
     list_ex (\<lambda>p. GetIPAndPortFromControllerAddress (Path.Address p) = (transportAddress, transportServiceID) \<and>
         Path.State p = ''live'')
       (concat (map Paths (filter (\<lambda>sys. NQN sys = nqn) subsystems)))"

definition controller_live :: "'w node_env \<Rightarrow> string \<Rightarrow> string \<Rightarrow> string \<Rightarrow> ('w, unit) iop" where
  "controller_live env nqn transportAddress transportServiceID =
     io_bind (wrapping ''failed to list subsystems while waiting for controller live state''
       (on_host (GetSubsystems (executor env)))) (\<lambda>subsystems.
     if live_path nqn transportAddress transportServiceID subsystems then io_return ()
     else io_fail (PlainErr (''NVMe controller for '' @ transportAddress @ '':'' @ transportServiceID @
       '' is not live yet'')))"

definition WaitForControllerLive :: "'w node_env \<Rightarrow> string \<Rightarrow> string \<Rightarrow> nat \<Rightarrow> int \<Rightarrow> ('w, unit) iop" where
  "WaitForControllerLive env transportAddress transportServiceID maxAttempts retryInterval =
     io_bind this (\<lambda>i. case NVMeTCPInfo i of
       None \<Rightarrow> io_fail (PlainErr ''nvmeTCPInfo is nil'')
     | Some info \<Rightarrow>
         io_case (retry_do env retryInterval maxAttempts
             (attempt (controller_live env (SubsystemNQN info) transportAddress transportServiceID)))
           (\<lambda>_. io_fail (PlainErr (''timed out waiting for NVMe controller to become live for '' @ transportAddress @
             '':'' @ transportServiceID @ '' after '' @ itoa (int maxAttempts) @ '' attempts'')))
           io_return)"

section \<open>Getters\<close>

definition info_string :: "(NVMeTCPInfo \<Rightarrow> string) \<Rightarrow> Initiator \<Rightarrow> string" where
  "info_string f i = (case NVMeTCPInfo i of None \<Rightarrow> [] | Some info \<Rightarrow> f info)"

definition GetControllerName :: "Initiator \<Rightarrow> string" where
  "GetControllerName = info_string ControllerName"

definition GetNamespaceName :: "Initiator \<Rightarrow> string" where
  "GetNamespaceName = info_string NamespaceName"

definition GetTransportAddress :: "Initiator \<Rightarrow> string" where
  "GetTransportAddress = info_string TransportAddress"

definition GetTransportServiceID :: "Initiator \<Rightarrow> string" where
  "GetTransportServiceID = info_string TransportServiceID"

definition GetEndpoint :: "Initiator \<Rightarrow> string" where
  "GetEndpoint i = (if isUp i then Endpoint i else [])"

end
