(* ===== verification/InitiatorEndpoint.thy ===== *)
theory InitiatorEndpoint
  imports InitiatorStart
begin

text \<open>
  What the endpoint operations do to the file system. \<open>kernel_fs\<close> states what the code relies on of the system
  calls it makes; it holds of the device table of the last section.
\<close>

section \<open>Reading operations as functions\<close>

lemma this_run [io_simps]: "this n = (Inr (self (obj n)), n)"
  by (simp add: this_def io_bind_def get_def io_return_def)

lemma set_self_run [io_simps]: "set_self f n = (Inr (), n\<lparr> obj := (obj n)\<lparr> self := f (self (obj n)) \<rparr> \<rparr>)"
  by (simp add: set_self_def modify_def)

lemma do_sys_run:
  assumes "sys env c (outside n) = (r, w)"
  shows "do_sys env c n = (case r of None \<Rightarrow> Inr () | Some e \<Rightarrow> Inl e, n\<lparr> log := log n @ [Sys c], outside := w \<rparr>)"
  using assms by (simp add: do_sys_def)

lemma wrapping_Inr: "wrapping msg m n = (Inr x, n') \<longleftrightarrow> m n = (Inr x, n')"
  by (auto simp: wrapping_def io_case_def io_fail_def io_return_def split: prod.splits sum.splits if_splits)

section \<open>The file system\<close>

text \<open>
  \<open>fs\<close> reads the nodes off the outside state:
  \<^item> looking at a path changes nothing, and succeeds exactly if there is a node;
  \<^item> a successful \<open>mknod\<close> makes the node it is asked for;
  \<^item> \<open>chmod\<close> and \<open>chown\<close> keep the type and the number of a node, and making directories keeps the nodes there are;
  \<^item> a removal that returns, successfully or because there is nothing to remove, leaves no node.
\<close>

definition same_kind :: "stat_info option \<Rightarrow> stat_info option \<Rightarrow> bool" where
  "same_kind a b = (case (a, b) of
       (Some s, Some t) \<Rightarrow> is_block s = is_block t \<and> st_rdev s = st_rdev t
     | (None, None) \<Rightarrow> True
     | _ \<Rightarrow> False)"

definition kernel_fs :: "'w node_env \<Rightarrow> ('w \<Rightarrow> string \<rightharpoonup> stat_info) \<Rightarrow> bool" where
  "kernel_fs env fs =
     ((\<forall>p w r w'. sys env (Stat p) w = (r, w') \<longrightarrow> fs w' = fs w \<and> (r = None \<longleftrightarrow> fs w p \<noteq> None)) \<and>
      (\<forall>p w r w'. unix_stat env p w = (r, w') \<longrightarrow> fs w' = fs w \<and> (\<forall>st. r = Inr st \<longrightarrow> fs w p = Some st)) \<and>
      (\<forall>p mode dev w w'. sys env (Mknod p mode dev) w = (None, w') \<longrightarrow>
         (\<exists>st. fs w' p = Some st \<and> st_rdev st = dev \<and> st_mode st AND S_IFMT = word_of_int mode AND S_IFMT)) \<and>
      (\<forall>p mode w r w'. sys env (Chmod p mode) w = (r, w') \<longrightarrow> (\<forall>q. same_kind (fs w q) (fs w' q))) \<and>
      (\<forall>p u g w r w'. sys env (Chown p u g) w = (r, w') \<longrightarrow> (\<forall>q. same_kind (fs w q) (fs w' q))) \<and>
      (\<forall>p w r w'. os_remove env p w = (Some r, w') \<longrightarrow> (r = None \<or> is_not_exist (the r)) \<longrightarrow> fs w' p = None))"

lemma kernel_stat:
  "kernel_fs env fs \<Longrightarrow> sys env (Stat p) w = (r, w') \<Longrightarrow> fs w' = fs w \<and> (r = None \<longleftrightarrow> fs w p \<noteq> None)"
  by (simp add: kernel_fs_def)

text \<open>The abstract specification: at the endpoint there is a block device with the exported numbers.\<close>

definition endpoint_node :: "('w \<Rightarrow> string \<rightharpoonup> stat_info) \<Rightarrow> (process, 'w) node \<Rightarrow> string \<Rightarrow> int \<Rightarrow> int \<Rightarrow> bool" where
  "endpoint_node fs n path major minor =
     (\<exists>st. fs (outside n) path = Some st \<and> is_block st \<and> uint (unix_Major (st_rdev st)) = major \<and>
       uint (unix_Minor (st_rdev st)) = minor)"

definition dev_number :: "int \<Rightarrow> bool" where
  "dev_number i = (0 \<le> i \<and> i < 2 ^ 32)"

lemma Mkdev_numbers:
  "dev_number a \<Longrightarrow> dev_number b \<Longrightarrow>
     uint (unix_Major (unix_Mkdev (word_of_int a) (word_of_int b))) = a \<and>
     uint (unix_Minor (unix_Mkdev (word_of_int a) (word_of_int b))) = b"
  by (simp add: Major_Mkdev Minor_Mkdev dev_number_def unsigned_of_int take_bit_int_eq_self)

lemma block_mode: "word_of_int (node_mode + uint S_IFBLK) AND S_IFMT = S_IFBLK"
  by (simp add: node_mode_def S_IFBLK_def S_IFMT_def)

lemma is_block_mode: "st_mode st AND S_IFMT = word_of_int (node_mode + uint S_IFBLK) AND S_IFMT \<Longrightarrow> is_block st"
  by (simp only: is_block_def block_mode)

lemma endpoint_node_same_kind:
  "endpoint_node fs n p a b \<Longrightarrow> (\<And>q. same_kind (fs (outside n) q) (fs (outside n') q)) \<Longrightarrow> endpoint_node fs n' p a b"
  unfolding endpoint_node_def same_kind_def
  by (elim exE conjE) (drule meta_spec [of _ p], auto split: option.splits)

lemma DuplicateDevice_makes_node:
  assumes fs: "kernel_fs env fs" and num: "dev_number (BlockDevice.Major (Export d))" "dev_number (BlockDevice.Minor (Export d))"
    and run: "DuplicateDevice env (Some d) dest n = (Inr (), n')"
  shows "endpoint_node fs n' dest (BlockDevice.Major (Export d)) (BlockDevice.Minor (Export d))"
proof -
  obtain n1 n2 n3 where mk: "mknod env dest (BlockDevice.Major (Export d)) (BlockDevice.Minor (Export d)) n1 = (Inr (), n2)"
    and ch: "do_sys env (Chmod dest node_mode) n2 = (Inr (), n3)"
    and ow: "do_sys env (Chown dest 0 6) n3 = (Inr (), n')"
    using run by (auto simp: DuplicateDevice_def io_bind_eq_Inr wrapping_Inr io_fail_def split: if_splits)
  have "endpoint_node fs n2 dest (BlockDevice.Major (Export d)) (BlockDevice.Minor (Export d))"
  proof -
    let ?dev = "unix_Mkdev (word_of_int (BlockDevice.Major (Export d))) (word_of_int (BlockDevice.Minor (Export d)))"
    obtain w where "sys env (Mknod dest (node_mode + uint S_IFBLK) ?dev) (outside n1) = (None, w)" "outside n2 = w"
      using mk by (auto simp: mknod_def do_sys_def split: prod.splits option.splits)
    then obtain st where st: "fs (outside n2) dest = Some st" "st_rdev st = ?dev"
      "st_mode st AND S_IFMT = word_of_int (node_mode + uint S_IFBLK) AND S_IFMT"
      using fs unfolding kernel_fs_def by metis
    then show ?thesis
      unfolding endpoint_node_def using Mkdev_numbers [OF num] is_block_mode [OF st(3)] by auto
  qed
  moreover have "same_kind (fs (outside n2) q) (fs (outside n3) q)" for q
    using ch fs by (auto simp: do_sys_def kernel_fs_def split: prod.splits)
  moreover have "same_kind (fs (outside n3) q) (fs (outside n') q)" for q
    using ow fs by (auto simp: do_sys_def kernel_fs_def split: prod.splits)
  ultimately show ?thesis
    by (meson endpoint_node_same_kind)
qed

lemma makeEndpoint_makes_node:
  assumes "kernel_fs env fs" and "dev (self (obj n)) = Some d"
    and "dev_number (BlockDevice.Major (Export d))" "dev_number (BlockDevice.Minor (Export d))"
    and "makeEndpoint env n = (Inr (), n')"
  shows "endpoint_node fs n' (Endpoint (self (obj n))) (BlockDevice.Major (Export d)) (BlockDevice.Minor (Export d))"
    and "isUp (self (obj n'))" and "dev (self (obj n')) = Some d" and "Endpoint (self (obj n')) = Endpoint (self (obj n))"
proof -
  obtain n1 where dup: "DuplicateDevice env (Some d) (Endpoint (self (obj n))) n = (Inr (), n1)"
    and n': "n' = n1\<lparr> obj := (obj n1)\<lparr> self := (self (obj n1))\<lparr> isUp := True \<rparr> \<rparr> \<rparr>"
    using assms(2,5) by (auto simp: makeEndpoint_def io_bind_eq_Inr wrapping_Inr io_simps)
  have o: "obj n1 = obj n"
    using dup keeps_DuplicateDevice [of env "Some d" "Endpoint (self (obj n))"] unfolding keeps_obj_def
    by (metis snd_conv)
  show "endpoint_node fs n' (Endpoint (self (obj n))) (BlockDevice.Major (Export d)) (BlockDevice.Minor (Export d))"
    using DuplicateDevice_makes_node [OF assms(1,3,4) dup] by (simp add: endpoint_node_def n')
  show "isUp (self (obj n'))" "dev (self (obj n')) = Some d" "Endpoint (self (obj n')) = Endpoint (self (obj n))"
    using assms(2) by (simp_all add: n' o)
qed

lemma isEndpointValid_True:
  assumes "kernel_fs env fs" and "dev (self (obj n)) = Some d" and "isEndpointValid env n = (Inr True, n')"
  shows "endpoint_node fs n' (Endpoint (self (obj n))) (BlockDevice.Major (Export d)) (BlockDevice.Minor (Export d))"
    and "obj n' = obj n"
proof -
  obtain st where "do_stat env (Endpoint (self (obj n))) n = (Inr st, n')" and st: "is_block st"
    "uint (unix_Major (st_rdev st)) = BlockDevice.Major (Export d)" "uint (unix_Minor (st_rdev st)) = BlockDevice.Minor (Export d)"
    using assms(2,3)
    by (auto simp: isEndpointValid_def io_bind_eq_Inr io_simps io_case_def io_return_def split: prod.splits sum.splits if_splits)
  then obtain w where w: "unix_stat env (Endpoint (self (obj n))) (outside n) = (Inr st, w)"
    and n': "n' = n\<lparr> log := log n @ [Sys (Stat (Endpoint (self (obj n))))], outside := w \<rparr>"
    by (auto simp: do_stat_def split: prod.splits)
  have "fs w = fs (outside n)" "fs (outside n) (Endpoint (self (obj n))) = Some st"
    using assms(1) w unfolding kernel_fs_def by metis+
  then show "endpoint_node fs n' (Endpoint (self (obj n))) (BlockDevice.Major (Export d)) (BlockDevice.Minor (Export d))"
    using st by (simp add: endpoint_node_def n')
  show "obj n' = obj n" by (simp add: n')
qed

lemma keeps_run: "keeps_obj m \<Longrightarrow> m n = (r, n') \<Longrightarrow> obj n' = obj n"
  unfolding keeps_obj_def by (metis snd_conv)

lemma keeps_this [simp]: "keeps_obj this"
  by (simp add: keeps_obj_def io_simps)

lemma keeps_isEndpointExist [simp]: "keeps_obj (isEndpointExist env)"
  by (auto simp: isEndpointExist_def intro!: keeps_bind keeps_case)

lemma keeps_isEndpointValid [simp]: "keeps_obj (isEndpointValid env)"
  by (auto simp: isEndpointValid_def intro!: keeps_bind keeps_case split: option.split)

text \<open>A successful \<open>createEndpoint\<close> with a device made the node, or found it valid and marked the initiator as up.\<close>

lemma createEndpoint_outcome:
  assumes d: "dev (self (obj n)) \<noteq> None" and run: "createEndpoint env n = (Inr (), n')"
  obtains (make) m where "obj m = obj n" and "makeEndpoint env m = (Inr (), n')"
  | (keep) n1 n2 where "obj n1 = obj n" and "isEndpointValid env n1 = (Inr True, n2)"
      and "n' = n2\<lparr> obj := (obj n2)\<lparr> self := (self (obj n2))\<lparr> isUp := True \<rparr> \<rparr> \<rparr>"
proof -
  let ?remove = "wrapping (''failed to remove stale endpoint '' @ Endpoint (self (obj n)) @
      '' for NVMe/TCP initiator '' @ Name (self (obj n))) (RemoveDevice env (Endpoint (self (obj n))))"
  let ?act = "\<lambda>valid. if valid then set_self (\<lambda>i. i\<lparr> isUp := True \<rparr>) else io_bind ?remove (\<lambda>_. makeEndpoint env)"
  obtain exist n1 where e: "isEndpointExist env n = (Inr exist, n1)"
    and k: "(if exist then if dev (self (obj n)) \<noteq> None then io_bind (isEndpointValid env) ?act else io_return ()
        else makeEndpoint env) n1 = (Inr (), n')"
    using run unfolding createEndpoint_def by (auto simp: io_bind_eq_Inr io_simps wrapping_Inr)
  have o1: "obj n1 = obj n" by (rule keeps_run [OF keeps_isEndpointExist e])
  show thesis
  proof (cases exist)
    case False
    with k o1 show thesis by (intro make) simp_all
  next
    case True
    with k d have "io_bind (isEndpointValid env) ?act n1 = (Inr (), n')" by simp
    then obtain valid n2 where v: "isEndpointValid env n1 = (Inr valid, n2)" and v2: "?act valid n2 = (Inr (), n')"
      unfolding io_bind_eq_Inr by blast
    have o2: "obj n2 = obj n1" by (rule keeps_run [OF keeps_isEndpointValid v])
    show thesis
    proof (cases valid)
      case True
      with v v2 keep o1 show thesis by (simp add: io_simps)
    next
      case False
      then obtain n3 where "RemoveDevice env (Endpoint (self (obj n))) n2 = (Inr (), n3)" "makeEndpoint env n3 = (Inr (), n')"
        using v2 by (auto simp: io_bind_eq_Inr wrapping_Inr)
      with make keeps_run [OF keeps_RemoveDevice this(1)] o1 o2 show thesis by simp
    qed
  qed
qed

text \<open>
  Property C5. Creating the endpoint implements its specification on any kernel that keeps \<open>kernel_fs\<close>: whatever
  was there before (nothing, a stale node, a node of another type, or the right one, which is kept), after a
  successful \<open>createEndpoint\<close> with a device the endpoint is a block device with exactly the exported major and
  minor numbers, and the initiator is up with the same device.
\<close>

theorem createEndpoint_implements:
  assumes "kernel_fs env fs" and "dev (self (obj n)) = Some d"
    and "dev_number (BlockDevice.Major (Export d))" "dev_number (BlockDevice.Minor (Export d))"
    and run: "createEndpoint env n = (Inr (), n')"
  shows "endpoint_node fs n' (Endpoint (self (obj n))) (BlockDevice.Major (Export d)) (BlockDevice.Minor (Export d)) \<and>
    isUp (self (obj n')) \<and> dev (self (obj n')) = Some d"
proof -
  have "dev (self (obj n)) \<noteq> None" using assms(2) by simp
  from this run show ?thesis
  proof (cases rule: createEndpoint_outcome)
    case make
    then show ?thesis using makeEndpoint_makes_node [OF assms(1) _ assms(3,4)] assms(2) by metis
  next
    case (keep n1 n2)
    then show ?thesis
      using isEndpointValid_True [OF assms(1) _ keep(2)] assms(2) by (auto simp: endpoint_node_def)
  qed
qed

text \<open>
  Property C30. Removing the endpoint implements its specification: after a successful \<open>removeEndpoint\<close> of an
  initiator that has one, there is no node at the endpoint, and the initiator is down and has no device.
\<close>

theorem removeEndpoint_implements:
  assumes fs: "kernel_fs env fs" and ne: "Endpoint (self (obj n)) \<noteq> []" and run: "removeEndpoint env n = (Inr (), n')"
  shows "fs (outside n') (Endpoint (self (obj n))) = None \<and> \<not> isUp (self (obj n')) \<and> dev (self (obj n')) = None"
proof -
  let ?p = "Endpoint (self (obj n))"
  obtain n1 where r: "RemoveDevice env ?p n = (Inr (), n1)"
    and n': "n' = n1\<lparr> obj := (obj n1)\<lparr> self := (self (obj n1))\<lparr> dev := None, isUp := False \<rparr> \<rparr> \<rparr>"
    using run ne by (auto simp: removeEndpoint_def io_bind_eq_Inr io_simps)
  obtain e n2 where s: "do_sys env (Stat ?p) n = (e, n2)" by (cases "do_sys env (Stat ?p) n")
  have rm: "fs (outside m') ?p = None" if "remove env ?p m = (Inr (), m')" for m m'
    using that fs
    by (fastforce simp: remove_def removeAsync_def kernel_fs_def split: prod.splits option.splits if_splits)
  have "fs (outside n1) ?p = None"
  proof (cases "\<exists>m. remove env ?p m = (Inr (), n1)")
    case True
    then show ?thesis using rm by blast
  next
    case False
    then obtain err where "e = Inl err" "is_not_exist err" "n1 = n2"
      using r s by (auto simp: RemoveDevice_def io_case_def io_return_def split: sum.splits if_splits)
    then obtain w where "sys env (Stat ?p) (outside n) = (Some err, w)" "outside n1 = w"
      using s by (auto simp: do_sys_def split: prod.splits option.splits)
    with kernel_stat [OF fs] show ?thesis by fastforce
  qed
  then show ?thesis by (simp add: n')
qed

section \<open>A device table\<close>

text \<open>A kernel that keeps the contract: its state is the table of nodes. Commands and SPDK do not answer.\<close>

definition silent_spdk :: "'w rpc_env" where
  "silent_spdk = \<lparr> on_sem = (\<lambda>w. (TimedOut, w)), on_queue = (\<lambda>_ _ w. (TimedOut, w)), on_response = (\<lambda>w. (TimedOut, w)),
     fmt_params = (\<lambda>_. []) \<rparr>"

definition table_sys :: "syscall \<Rightarrow> (string \<rightharpoonup> stat_info) \<Rightarrow> go_error option \<times> (string \<rightharpoonup> stat_info)" where
  "table_sys c w =
     (case c of
        Stat p \<Rightarrow> (if w p = None then Some (NotExistErr ''no such file or directory'') else None, w)
      | Mknod p mode num \<Rightarrow>
          (if w p = None then (None, w(p \<mapsto> \<lparr> st_mode = word_of_int mode, st_rdev = num \<rparr>))
           else (Some (PlainErr ''file exists''), w))
      | _ \<Rightarrow> (None, w))"

definition table_env :: "(string \<rightharpoonup> stat_info) node_env" where
  "table_env = \<lparr> executor = (\<lambda>_ w. (Inl (PlainErr ''no command''), w)), spdk = silent_spdk, sys = table_sys,
     unix_stat = (\<lambda>p w. (case w p of None \<Rightarrow> Inl (NotExistErr ''no such file or directory'') | Some st \<Rightarrow> Inr st, w)),
     os_remove = (\<lambda>p w. (Some (if w p = None then Some (NotExistErr ''no such file or directory'') else None), w(p := None))),
     range_order = (\<lambda>_ _. []) \<rparr>"

lemma table_kernel: "kernel_fs table_env (\<lambda>w. w)"
  unfolding kernel_fs_def
  by (auto simp: table_env_def table_sys_def same_kind_def split: if_splits option.splits)

definition sample_initiator :: Initiator where
  "sample_initiator = \<lparr> Name = ''v'', Endpoint = ''/dev/longhorn/v'',
     dev = Some \<lparr> Source = no_device, Export = no_device\<lparr> BlockDevice.Major := 253, BlockDevice.Minor := 7 \<rparr> \<rparr>,
     isUp = False, NVMeTCPInfo = None, UblkInfo = None, hostProc = [] \<rparr>"

definition sample_node :: "(string \<rightharpoonup> stat_info) \<Rightarrow> (process, string \<rightharpoonup> stat_info) node" where
  "sample_node w = \<lparr> obj = \<lparr> self = sample_initiator, isUblkTargetCreated = False, idGenerator = \<lparr> lastCandidate = 0 \<rparr> \<rparr>,
     log = [], outside = w \<rparr>"

text \<open>The endpoint exists, but it is a regular file.\<close>

definition stale_table :: "string \<rightharpoonup> stat_info" where
  "stale_table = [''/dev/longhorn'' \<mapsto> \<lparr> st_mode = 0x4000, st_rdev = 0 \<rparr>, ''/dev/longhorn/v'' \<mapsto> \<lparr> st_mode = 0x8000, st_rdev = 0 \<rparr>]"

lemma sample_dir: "path_dir ''/dev/longhorn/v'' = ''/dev/longhorn''"
  by code_simp

lemma createEndpoint_sample: "\<exists>n'. createEndpoint table_env (sample_node stale_table) = (Inr (), n')"
  by (simp add: createEndpoint_def isEndpointExist_def isEndpointValid_def makeEndpoint_def DuplicateDevice_def
      ensure_dir_def mknod_def RemoveDevice_def remove_def removeAsync_def io_bind_def io_case_def io_return_def wrapping_def
      this_run set_self_run do_sys_def do_stat_def table_env_def table_sys_def sample_node_def sample_initiator_def
      stale_table_def is_block_def S_IFMT_def S_IFBLK_def sample_dir)

theorem createEndpoint_implements_witness:
  "\<exists>n'. createEndpoint table_env (sample_node stale_table) = (Inr (), n') \<and>
     endpoint_node (\<lambda>w. w) n' ''/dev/longhorn/v'' 253 7"
proof -
  obtain n' where run: "createEndpoint table_env (sample_node stale_table) = (Inr (), n')"
    using createEndpoint_sample by blast
  show ?thesis
    using createEndpoint_implements [OF table_kernel _ _ _ run, of "the (dev sample_initiator)"] run
    by (simp add: sample_node_def sample_initiator_def dev_number_def no_device_def)
qed

theorem removeEndpoint_implements_witness:
  "\<exists>n'. removeEndpoint table_env (sample_node stale_table) = (Inr (), n') \<and> outside n' ''/dev/longhorn/v'' = None"
proof -
  obtain n' where run: "removeEndpoint table_env (sample_node stale_table) = (Inr (), n')"
    by (auto simp: removeEndpoint_def RemoveDevice_def remove_def removeAsync_def io_bind_def io_case_def
        this_run set_self_run do_sys_def table_env_def table_sys_def sample_node_def sample_initiator_def stale_table_def)
  show ?thesis
    using removeEndpoint_implements [OF table_kernel _ run] run by (simp add: sample_node_def sample_initiator_def)
qed

end
