(* ===== verification/InitiatorFacts.thy ===== *)
theory InitiatorFacts
  imports InitiatorEndpoint
begin

text \<open>
  What the operations of the initiator do to its state: an invariant that each of them preserves, and what a
  successful start establishes.
\<close>

section \<open>Preservation\<close>

definition preserves :: "('o \<Rightarrow> bool) \<Rightarrow> ('o, 'w, 'a) op \<Rightarrow> bool" where
  "preserves P m = (\<forall>n. P (obj n) \<longrightarrow> P (obj (snd (m n))))"

named_theorems preserving \<open>preservation of an invariant of the object\<close>

lemma preservesD: "preserves P m \<Longrightarrow> m n = (r, n') \<Longrightarrow> P (obj n) \<Longrightarrow> P (obj n')"
  unfolding preserves_def by (metis snd_conv)

lemma preserves_keeps: "keeps_obj m \<Longrightarrow> preserves P m"
  by (simp add: preserves_def keeps_obj_def)

lemma preserves_case [preserving]:
  assumes "preserves P m" and "\<And>e. preserves P (h e)" and "\<And>x. preserves P (f x)"
  shows "preserves P (io_case m h f)"
  unfolding preserves_def
proof (intro allI impI)
  fix n :: "('a, 'b) node" assume P: "P (obj n)"
  obtain r s where m: "m n = (r, s)" by (cases "m n")
  have "P (obj s)" by (rule preservesD [OF assms(1) m P])
  then show "P (obj (snd (io_case m h f n)))"
    using assms(2,3) by (auto simp: io_case_def m preserves_def split: sum.split)
qed

lemma preserves_pure [preserving]:
  "preserves P (io_return x)" "preserves P (io_fail e)" "preserves P (io_lift r)" "preserves P get"
  "preserves P (on_host mh)" "preserves P (on_spdk ms)" "preserves P (do_sys env c)" "preserves P (pause env d)" "preserves P (do_stat env path)"
  by (simp_all add: preserves_keeps)

lemma preserves_this [preserving]: "preserves P this"
  by (simp add: preserves_keeps)

lemma preserves_bind [preserving]:
  "preserves P m \<Longrightarrow> (\<And>x. preserves P (f x)) \<Longrightarrow> preserves P (io_bind m f)"
  unfolding io_bind_as_case by (rule preserves_case) (simp_all add: preserves_keeps)

lemma preserves_wrapping [preserving]: "preserves P m \<Longrightarrow> preserves P (wrapping msg m)"
  unfolding wrapping_def by (intro preserves_case preserves_pure)

lemma preserves_attempt [preserving]: "preserves P m \<Longrightarrow> preserves P (attempt m)"
  unfolding attempt_def by (intro preserves_case preserves_pure)

lemma preserves_retry [preserving]: "preserves P f \<Longrightarrow> preserves P (retry_do env d k f)"
proof (induction k)
  case 0
  then show ?case by (simp add: preserves_pure)
next
  case (Suc k)
  then show ?case
    by (auto split: attempt.split intro!: preserving)
qed

lemma preserves_if [preserving]: "(c \<Longrightarrow> preserves P a) \<Longrightarrow> (\<not> c \<Longrightarrow> preserves P b) \<Longrightarrow> preserves P (if c then a else b)"
  by simp

lemma preserves_option [preserving]:
  "preserves P a \<Longrightarrow> (\<And>x. preserves P (f x)) \<Longrightarrow> preserves P (case v of None \<Rightarrow> a | Some x \<Rightarrow> f x)"
  by (cases v) simp_all

lemma preserves_list [preserving]:
  "preserves P a \<Longrightarrow> (\<And>x xs. preserves P (f x xs)) \<Longrightarrow> preserves P (case v of [] \<Rightarrow> a | x # xs \<Rightarrow> f x xs)"
  by (cases v) simp_all

lemma preserves_pair [preserving]: "(\<And>x y. preserves P (f x y)) \<Longrightarrow> preserves P (case v of (x, y) \<Rightarrow> f x y)"
  by (cases v) simp

lemma preserves_set_self [preserving]:
  "(\<And>p. P p \<Longrightarrow> P (p\<lparr> self := f (self p) \<rparr>)) \<Longrightarrow> preserves P (set_self f)"
  by (simp add: preserves_def set_self_run)

lemma preserves_ptr [preserving]: "preserves P info_ptr" "preserves P dev_ptr"
  unfolding info_ptr_def dev_ptr_def by (intro preserving)+

lemma preserves_endpoint [preserving]:
  "preserves P (RemoveDevice env path)" "preserves P (DuplicateDevice env d path)"
  "preserves P (isEndpointExist env)" "preserves P (isEndpointValid env)" "preserves P (IsBlockDevice env path)"
  by (simp_all add: preserves_keeps)

lemma retry_success:
  assumes "retry_do env d k f n = (Inr x, n')" and "preserves P f" and "P (obj n)"
  obtains m where "P (obj m)" and "f m = (Inr (Succeeded x), n')"
  using assms
proof (induction k arbitrary: n thesis)
  case 0
  then show ?case by (simp add: io_fail_def)
next
  case (Suc k)
  obtain a n1 where f: "f n = (Inr a, n1)"
    and rest: "(case a of Succeeded x \<Rightarrow> io_return x | Again e \<Rightarrow> if k = 0 then io_fail e
        else io_bind (pause env d) (\<lambda>_. retry_do env d k f) | GiveUp e \<Rightarrow> io_fail e) n1 = (Inr x, n')"
    using Suc.prems(2) by (auto simp: io_bind_eq_Inr)
  show ?case
  proof (cases a)
    case (Succeeded y)
    with f rest Suc.prems show ?thesis by (simp add: io_return_def)
  next
    case (GiveUp e)
    with rest show ?thesis by (simp add: io_fail_def)
  next
    case (Again e)
    then obtain n2 where "pause env d n1 = (Inr (), n2)" "retry_do env d k f n2 = (Inr x, n')"
      using rest by (auto simp: io_bind_eq_Inr io_fail_def split: if_splits)
    moreover have "P (obj n2)"
      using preservesD [OF Suc.prems(3) f Suc.prems(4)] keeps_run [OF keeps_pause calculation(1)] by simp
    ultimately show ?thesis using Suc.IH Suc.prems by blast
  qed
qed

lemma attempt_success: "attempt m n = (Inr (Succeeded x), n') \<longleftrightarrow> m n = (Inr x, n')"
  by (auto simp: attempt_def io_case_def io_return_def split: prod.splits sum.splits if_splits)

section \<open>The target of an initiator\<close>

definition has_nqn :: "string \<Rightarrow> process \<Rightarrow> bool" where
  "has_nqn nqn p = (\<exists>info. NVMeTCPInfo (self p) = Some info \<and> SubsystemNQN info = nqn)"

definition at_address :: "string \<Rightarrow> string \<Rightarrow> process \<Rightarrow> bool" where
  "at_address a s p = (\<exists>info. NVMeTCPInfo (self p) = Some info \<and> TransportAddress info = a \<and> TransportServiceID info = s)"

text \<open>Connected to an address, with the device behind it known.\<close>

definition linked :: "string \<Rightarrow> string \<Rightarrow> string \<Rightarrow> process \<Rightarrow> bool" where
  "linked nqn a s p = (has_nqn nqn p \<and> at_address a s p \<and> dev (self p) \<noteq> None)"

lemma nqn_set_info [preserving]:
  "(\<And>info. SubsystemNQN info = nqn \<Longrightarrow> SubsystemNQN (f info) = nqn) \<Longrightarrow> preserves (has_nqn nqn) (set_info f)"
  unfolding set_info_def by (rule preserving) (auto simp: has_nqn_def)

lemma nqn_set_dev [preserving]:
  "preserves (has_nqn nqn) (set_self (\<lambda>i. i\<lparr> dev := f i \<rparr>))"
  "preserves (has_nqn nqn) (set_self (\<lambda>i. i\<lparr> isUp := g i \<rparr>))"
  "preserves (has_nqn nqn) (set_self (\<lambda>i. i\<lparr> dev := f i, isUp := g i \<rparr>))"
  by (rule preserves_set_self; auto simp: has_nqn_def)+

lemma linked_set_dev [preserving]:
  "(\<And>i. f i \<noteq> None) \<Longrightarrow> preserves (linked nqn a s) (set_self (\<lambda>i. i\<lparr> dev := f i \<rparr>))"
  "preserves (linked nqn a s) (set_self (\<lambda>i. i\<lparr> isUp := g i \<rparr>))"
  "(\<And>i. f i \<noteq> None) \<Longrightarrow> preserves (linked nqn a s) (set_self (\<lambda>i. i\<lparr> dev := f i, isUp := g i \<rparr>))"
  by (rule preserves_set_self; auto simp: linked_def has_nqn_def at_address_def)+

lemma load_nqn [preserving]: "preserves (has_nqn nqn) (loadNVMeDeviceInfoWithoutLock env a s q)"
  unfolding loadNVMeDeviceInfoWithoutLock_def load_devices_def use_controller_def
  by (intro preserving) (simp add: with_controller_def)

lemma wait_load_nqn [preserving]: "preserves (has_nqn nqn) (waitAndLoadNVMeDeviceInfoWithoutLock env a s)"
  unfolding waitAndLoadNVMeDeviceInfoWithoutLock_def by (intro preserving)

lemma reuse_nqn [preserving]: "preserves (has_nqn nqn) (reuseExistingNVMeTCPPathWithoutLock env a s)"
  unfolding reuseExistingNVMeTCPPathWithoutLock_def by (intro preserving)

lemma on_host_Inr: "on_host m n = (Inr x, n') \<Longrightarrow>
    \<exists>h. m \<lparr> ran = [], world = outside n \<rparr> = (Inr x, h) \<and> obj n' = obj n"
  by (auto simp: on_host_def Let_def split: prod.splits)

lemma address_matches_exact:
  "address_matches a s addr \<Longrightarrow> a \<noteq> [] \<Longrightarrow> s \<noteq> [] \<Longrightarrow> GetIPAndPortFromControllerAddress addr = (a, s)"
  by (auto simp: address_matches_def split: prod.splits)

lemma select_by_address:
  assumes "a \<noteq> []" and "s \<noteq> []" and "\<exists>c \<in> set (Controllers d). address_matches a s (Controller.Address c)"
    and "selectControllerForNVMeDevice d a s r = Inr c"
  shows "GetIPAndPortFromControllerAddress (Controller.Address c) = (a, s)"
proof -
  let ?Q = "\<lambda>c. GetIPAndPortFromControllerAddress (Controller.Address c) = (a, s)"
  have "\<exists>c \<in> set (Controllers d). ?Q c" using assms(1-3) address_matches_exact by blast
  then obtain c' where f: "find ?Q (Controllers d) = Some c'"
    by (cases "find ?Q (Controllers d)") (auto simp: find_None_iff)
  then have "c = c'"
    using assms(1,2,4) by (auto simp: selectControllerForNVMeDevice_def split: if_splits)
  then show ?thesis using f by (auto simp: find_Some_iff)
qed

lemma load_success:
  assumes run: "loadNVMeDeviceInfoWithoutLock env a s nqn n = (Inr (), n')" and "nqn \<noteq> []" and "has_nqn nqn (obj n)"
  shows "has_nqn nqn (obj n')" and "dev (self (obj n')) \<noteq> None"
    and "a \<noteq> [] \<Longrightarrow> s \<noteq> [] \<Longrightarrow> at_address a s (obj n')"
proof -
  obtain info where info: "NVMeTCPInfo (self (obj n)) = Some info"
    using assms(3) by (auto simp: has_nqn_def)
  obtain devs n1 where g: "on_host (GetDevices (executor env) a s nqn) n = (Inr devs, n1)"
    and l: "load_devices env a s (self (obj n)) info devs n1 = (Inr (), n')"
    using run info by (auto simp: loadNVMeDeviceInfoWithoutLock_def io_bind_eq_Inr io_simps)
  obtain d ns where devs: "devs = [d]" and ns: "Device.Namespaces d = [ns]"
    using l by (auto simp: load_devices_def io_fail_def split: list.splits)
  obtain h where "GetDevices (executor env) a s nqn \<lparr> ran = [], world = outside n \<rparr> = (Inr devs, h)" and o1: "obj n1 = obj n"
    using on_host_Inr [OF g] by blast
  from GetDevices_good [OF this(1) assms(2)] have c: "\<exists>c \<in> set (Controllers d). address_matches a s (Controller.Address c)"
    by (simp add: good_device_def devs)
  obtain c where sel: "selectControllerForNVMeDevice d a s (ControllerName info) = Inr c"
    and u: "use_controller env ns c n1 = (Inr (), n')"
    using l by (auto simp: load_devices_def devs ns io_bind_eq_Inr wrapping_Inr io_lift_def)
  have "\<exists>d'. obj n' = (obj n)\<lparr> self := (self (obj n))\<lparr> NVMeTCPInfo := Some (with_controller c ns info),
      dev := Some \<lparr> Source = d', Export = no_device \<rparr> \<rparr> \<rparr>"
    using u o1 info
    by (auto simp: use_controller_def io_bind_eq_Inr wrapping_Inr set_info_def io_simps dest!: on_host_Inr)
  then obtain d' where n': "obj n' = (obj n)\<lparr> self := (self (obj n))\<lparr> NVMeTCPInfo := Some (with_controller c ns info),
      dev := Some \<lparr> Source = d', Export = no_device \<rparr> \<rparr> \<rparr>" ..
  show "has_nqn nqn (obj n')" "dev (self (obj n')) \<noteq> None"
    using assms(3) info by (auto simp: n' has_nqn_def with_controller_def)
  show "at_address a s (obj n')" if "a \<noteq> []" "s \<noteq> []"
    using select_by_address [OF that c sel] by (simp add: n' at_address_def with_controller_def)
qed

lemma info_ptr_run: "has_nqn nqn (obj n) \<Longrightarrow> \<exists>info. info_ptr n = (Inr info, n) \<and> SubsystemNQN info = nqn \<and>
    NVMeTCPInfo (self (obj n)) = Some info"
  by (auto simp: has_nqn_def info_ptr_def io_bind_def io_simps io_return_def)

lemma wait_load_success:
  assumes "waitAndLoadNVMeDeviceInfoWithoutLock env a s n = (Inr (), n')" and "has_nqn nqn (obj n)"
    and "nqn \<noteq> []" "a \<noteq> []" "s \<noteq> []"
  shows "linked nqn a s (obj n')"
proof -
  let ?load = "io_bind info_ptr (\<lambda>info. loadNVMeDeviceInfoWithoutLock env a s (SubsystemNQN info))"
  have "retry_do env waitDeviceInterval maxWaitDeviceRetries (attempt ?load) n = (Inr (), n')"
    using assms(1,2) by (auto simp: waitAndLoadNVMeDeviceInfoWithoutLock_def io_bind_eq_Inr io_simps wrapping_Inr has_nqn_def)
  moreover have "preserves (has_nqn nqn) (attempt ?load)" by (intro preserving)
  ultimately obtain m where m: "has_nqn nqn (obj m)" "?load m = (Inr (), n')"
    using assms(2) by (auto elim!: retry_success simp: attempt_success)
  with info_ptr_run [OF m(1)] have "loadNVMeDeviceInfoWithoutLock env a s nqn m = (Inr (), n')"
    by (auto simp: io_bind_def)
  from load_success [OF this assms(3) m(1)] assms(4,5) show ?thesis by (simp add: linked_def)
qed

lemma reuse_success:
  assumes "reuseExistingNVMeTCPPathWithoutLock env a s n = (Inr True, n')" and "has_nqn nqn (obj n)"
    and "nqn \<noteq> []" "a \<noteq> []" "s \<noteq> []"
  shows "linked nqn a s (obj n')"
proof -
  obtain info where i: "info_ptr n = (Inr info, n)" "SubsystemNQN info = nqn"
    using info_ptr_run [OF assms(2)] by blast
  then obtain n1 info' n2 where l: "loadNVMeDeviceInfoWithoutLock env (TransportAddress info) (TransportServiceID info) nqn n = (Inr (), n1)"
    and i': "info_ptr n1 = (Inr info', n2)"
    and r: "(if TransportAddress info' \<noteq> a \<or> TransportServiceID info' \<noteq> s then io_return False
        else io_bind (waitAndLoadNVMeDeviceInfoWithoutLock env a s) (\<lambda>_. io_return True)) n2 = (Inr True, n')"
    using assms(1) unfolding reuseExistingNVMeTCPPathWithoutLock_def by (auto simp: io_bind_eq_Inr)
  have "has_nqn nqn (obj n1)" by (rule preservesD [OF load_nqn l assms(2)])
  with info_ptr_run [OF this] i' have nqn: "n2 = n1" "has_nqn nqn (obj n1)" by auto
  have "waitAndLoadNVMeDeviceInfoWithoutLock env a s n1 = (Inr (), n')"
    using r nqn(1) by (auto simp: io_bind_eq_Inr io_return_def split: if_splits)
  from wait_load_success [OF this nqn(2) assms(3-5)] show ?thesis .
qed

section \<open>Connecting\<close>

lemma target_nqn_run: "has_nqn nqn (obj n) \<Longrightarrow> nqn \<noteq> [] \<Longrightarrow> target_nqn env a s n = (Inr nqn, n)"
  by (auto simp: target_nqn_def info_ptr_def has_nqn_def io_bind_def io_simps io_return_def)

lemma connect_attempt_preserves [preserving]: "preserves P (connect_attempt env a s)"
  unfolding connect_attempt_def target_nqn_def findControllerBySubsystem_def
  by (intro preserving)

lemma connect_attempt_nqn:
  assumes "connect_attempt env a s n = (Inr (Succeeded (q, name)), n')" and "has_nqn nqn (obj n)" and "nqn \<noteq> []"
  shows "q = nqn"
  using assms(1) target_nqn_run [OF assms(2,3)]
  by (auto simp: connect_attempt_def io_case_def io_bind_def io_simps io_return_def
      split: prod.splits sum.splits if_splits)

lemma discover_preserves [preserving]: "preserves P (discoverAndConnectNVMeTCPTarget env a s k d)"
  unfolding discoverAndConnectNVMeTCPTarget_def by (intro preserving)

lemma discover_nqn:
  assumes "discoverAndConnectNVMeTCPTarget env a s k d n = (Inr (q, name), n')" and "has_nqn nqn (obj n)" and "nqn \<noteq> []"
  shows "q = nqn"
proof -
  have "retry_do env d k (connect_attempt env a s) n = (Inr (q, name), n')"
    using assms(1,2) by (auto simp: discoverAndConnectNVMeTCPTarget_def io_bind_eq_Inr io_simps wrapping_Inr has_nqn_def)
  then obtain m where "has_nqn nqn (obj m)" "connect_attempt env a s m = (Inr (Succeeded (q, name)), n')"
    using connect_attempt_preserves assms(2) by (rule retry_success)
  then show ?thesis using connect_attempt_nqn assms(3) by blast
qed

lemma record_nqn [preserving]: "q = nqn \<or> q = [] \<Longrightarrow> preserves (has_nqn nqn) (recordConnectedNVMeTCPInfo q name)"
  unfolding recordConnectedNVMeTCPInfo_def by (intro preserving) auto

lemma undo_nqn [preserving]: "SubsystemNQN info = nqn \<Longrightarrow> preserves (has_nqn nqn) (undo_connect env info q a s e)"
  unfolding undo_connect_def by (intro preserving) auto

lemma undo_fails: "undo_connect env info q a s e n \<noteq> (Inr x, n')"
  by (auto simp: undo_connect_def io_bind_eq_Inr io_fail_def)

lemma connect_and_load_nqn [preserving]:
  assumes "nqn \<noteq> []"
  shows "preserves (has_nqn nqn) (connect_and_load env a s)"
  unfolding preserves_def
proof (intro allI impI)
  fix n :: "(process, 'a) node" assume nqn: "has_nqn nqn (obj n)"
  obtain info where info: "info_ptr n = (Inr info, n)" "SubsystemNQN info = nqn"
    using info_ptr_run [OF nqn] by blast
  obtain r n1 where d: "discoverAndConnectNVMeTCPTarget env a s maxConnectTargetRetries retryConnectTargetInterval n = (r, n1)"
    by (cases "discoverAndConnectNVMeTCPTarget env a s maxConnectTargetRetries retryConnectTargetInterval n")
  have n1: "has_nqn nqn (obj n1)" by (rule preservesD [where P = "has_nqn nqn", OF discover_preserves d nqn])
  show "has_nqn nqn (obj (snd (connect_and_load env a s n)))"
  proof (cases r)
    case (Inl e)
    then show ?thesis using n1 info d by (simp add: connect_and_load_def io_bind_def)
  next
    case (Inr x)
    then obtain q name where x: "r = Inr (q, name)" by (cases x) simp
    have q: "q = nqn" using discover_nqn d nqn assms x by blast
    let ?undo = "undo_connect env info q a s"
    let ?rest = "io_case (recordConnectedNVMeTCPInfo q name) ?undo
        (\<lambda>_. io_case (waitAndLoadNVMeDeviceInfoWithoutLock env a s) ?undo io_return)"
    have "preserves (has_nqn nqn) ?rest"
      using info(2) q by (intro preserving) simp_all
    then have "has_nqn nqn (obj (snd (?rest n1)))"
      using n1 by (simp add: preserves_def)
    then show ?thesis
      using info d x by (simp add: connect_and_load_def io_bind_def Let_def)
  qed
qed

lemma ensure_nqn [preserving]: "nqn \<noteq> [] \<Longrightarrow> preserves (has_nqn nqn) (ensureNVMeTCPPathWithoutLock env a s)"
  unfolding ensureNVMeTCPPathWithoutLock_def by (intro preserving) simp_all

lemma connect_and_load_success:
  assumes "connect_and_load env a s n = (Inr (), n')" and "has_nqn nqn (obj n)" and "nqn \<noteq> []" "a \<noteq> []" "s \<noteq> []"
  shows "linked nqn a s (obj n')"
proof -
  obtain info where info: "info_ptr n = (Inr info, n)"
    using info_ptr_run [OF assms(2)] by blast
  obtain q name n1 where d: "discoverAndConnectNVMeTCPTarget env a s maxConnectTargetRetries retryConnectTargetInterval n =
      (Inr (q, name), n1)"
    and r: "io_case (recordConnectedNVMeTCPInfo q name) (undo_connect env info q a s)
        (\<lambda>_. io_case (waitAndLoadNVMeDeviceInfoWithoutLock env a s) (undo_connect env info q a s) io_return) n1 = (Inr (), n')"
    using assms(1) info by (auto simp: connect_and_load_def io_bind_eq_Inr Let_def)
  obtain n2 where rec: "recordConnectedNVMeTCPInfo q name n1 = (Inr (), n2)"
    and w: "waitAndLoadNVMeDeviceInfoWithoutLock env a s n2 = (Inr (), n')"
    using r by (auto simp: io_case_def undo_fails io_return_def split: prod.splits sum.splits if_splits)
  have "has_nqn nqn (obj n1)" by (rule preservesD [where P = "has_nqn nqn", OF discover_preserves d assms(2)])
  then have "has_nqn nqn (obj n2)"
    using preservesD [OF record_nqn rec] discover_nqn [OF d assms(2,3)] by blast
  from wait_load_success [OF w this assms(3-5)] show ?thesis .
qed

text \<open>Both branches of an \<open>io_case\<close> that succeeds.\<close>

lemma io_case_eq_Inr:
  "io_case m h f n = (Inr y, n'') \<longleftrightarrow>
     (\<exists>e n'. m n = (Inl e, n') \<and> \<not> is_panic e \<and> h e n' = (Inr y, n'')) \<or>
     (\<exists>x n'. m n = (Inr x, n') \<and> f x n' = (Inr y, n''))"
  by (auto simp: io_case_def split: prod.splits sum.splits)

lemma ensure_success:
  assumes "ensureNVMeTCPPathWithoutLock env a s n = (Inr (), n')" and nqn: "has_nqn nqn (obj n)"
    and ne: "nqn \<noteq> []" "a \<noteq> []" "s \<noteq> []"
  shows "linked nqn a s (obj n')"
proof -
  obtain r n1 where r: "reuseExistingNVMeTCPPathWithoutLock env a s n = (r, n1)"
    by (cases "reuseExistingNVMeTCPPathWithoutLock env a s n")
  have n1: "has_nqn nqn (obj n1)" by (rule preservesD [OF reuse_nqn r nqn])
  have "r = Inr True \<and> n' = n1 \<or> connect_and_load env a s n1 = (Inr (), n')"
    using assms(1) r by (auto simp: ensureNVMeTCPPathWithoutLock_def io_case_eq_Inr io_return_def split: if_splits)
  then show ?thesis
    using reuse_success [OF _ nqn ne] r connect_and_load_success [OF _ n1 ne] by blast
qed

end
