(* ===== verification/InitiatorStartFacts.thy ===== *)
theory InitiatorStartFacts
  imports InitiatorFacts
begin

text \<open>
  Starting and stopping: what they preserve, what they establish, and the order of what they do.
\<close>

section \<open>The target is kept\<close>

lemma preserves_or_return [preserving]:
  "preserves P m \<Longrightarrow> (\<And>x. preserves P (k x)) \<Longrightarrow> preserves P (or_return b m k)"
  unfolding or_return_def by (intro preserving)

lemma preserves_wrap_busy [preserving]: "preserves P m \<Longrightarrow> preserves P (wrap_busy msg m)"
  unfolding wrap_busy_def by (intro preserving)

lemma preserves_deferring [preserving]:
  assumes "preserves P m" and "preserves P d"
  shows "preserves P (deferring m d)"
  unfolding preserves_def
proof (intro allI impI)
  fix n :: "('a, 'b) node" assume P: "P (obj n)"
  obtain r s where m: "m n = (r, s)" by (cases "m n")
  have "P (obj s)" by (rule preservesD [OF assms(1) m P])
  then show "P (obj (snd (deferring m d n)))"
    using assms(2) by (auto simp: deferring_def m preserves_def split: sum.split go_error.split)
qed

lemma preserves_lock [preserving]: "preserves P (newLock env)" "preserves P (unlock env i)" "preserves P (remove_lock_file env)"
proof -
  show "preserves P (newLock env)" "preserves P (unlock env i)"
    unfolding newLock_def unlock_def by (intro preserving)+
  show "preserves P (remove_lock_file env)"
    by (rule preserves_keeps) (simp add: remove_lock_file_def keeps_obj_def io_bind_def this_run do_sys_def split: prod.split)
qed

lemma preserves_locked [preserving]: "preserves P m \<Longrightarrow> preserves P (locked env m)"
  unfolding locked_def by (intro preserving)

lemma preserves_locked_busy [preserving]:
  "preserves P m \<Longrightarrow> preserves P d \<Longrightarrow> preserves P (locked_busy env d m)"
  unfolding locked_busy_def by (intro preserving)

lemma preserves_removeEndpoint_nqn [preserving]: "preserves (has_nqn nqn) (removeEndpoint env)"
  unfolding removeEndpoint_def by (intro preserving)

lemma preserves_dm [preserving]:
  "preserves P (removeLinearDmDevice env force deferred)" "preserves P (suspendLinearDmDevice env x y)"
  "preserves P (resumeLinearDmDevice env)" "preserves P (dm_info env flag)"
  "preserves P (validateDiskCreation env path k d)"
  unfolding removeLinearDmDevice_def suspendLinearDmDevice_def resumeLinearDmDevice_def dm_info_def
    validateDiskCreation_def
  by (intro preserving)+

lemma stop_frontend_nqn [preserving]: "preserves (has_nqn nqn) (stop_frontend env c b)"
  unfolding stop_frontend_def stop_ublk_def by (intro preserving) simp_all

lemma stop_nqn [preserving]: "preserves (has_nqn nqn) (stopWithoutLock env c cleanup d r)"
  unfolding stopWithoutLock_def stop_dm_def by (intro preserving)

text \<open>Operations on the linear device and the endpoint keep a device and the link to the target.\<close>

lemma set_export_linked [preserving]: "preserves (linked nqn a s) (set_export name x y)"
  unfolding set_export_def by (intro preserving) simp

lemma set_export_nqn [preserving]: "preserves (has_nqn nqn) (set_export name x y)"
  unfolding set_export_def by (intro preserving)

lemma dm_linked [preserving]:
  "preserves (linked nqn a s) (reloadLinearDmDevice env)" "preserves (linked nqn a s) (createLinearDmDevice env)"
  unfolding reloadLinearDmDevice_def createLinearDmDevice_def load_dm_numbers_def by (intro preserving)+

lemma dm_nqn [preserving]:
  "preserves (has_nqn nqn) (reloadLinearDmDevice env)" "preserves (has_nqn nqn) (createLinearDmDevice env)"
  unfolding reloadLinearDmDevice_def createLinearDmDevice_def load_dm_numbers_def by (intro preserving)+

lemma replace_linked [preserving]: "preserves (linked nqn a s) (replaceDmDeviceTarget env)"
  unfolding replaceDmDeviceTarget_def IsDeferredRemoveSet_def IsSuspended_def by (intro preserving)

lemma replace_nqn [preserving]: "preserves (has_nqn nqn) (replaceDmDeviceTarget env)"
  unfolding replaceDmDeviceTarget_def IsDeferredRemoveSet_def IsSuspended_def by (intro preserving)

lemma endpoint_linked [preserving]: "preserves (linked nqn a s) (createEndpoint env)"
  unfolding createEndpoint_def makeEndpoint_def by (intro preserving)

lemma endpoint_nqn [preserving]: "preserves (has_nqn nqn) (createEndpoint env)"
  unfolding createEndpoint_def makeEndpoint_def by (intro preserving)

lemma load_endpoint_linked [preserving]: "preserves (linked nqn a s) (LoadEndpointForNvmeTcpFrontend env b)"
  unfolding LoadEndpointForNvmeTcpFrontend_def findDependentDevices_def by (intro preserving) simp

lemma load_endpoint_nqn [preserving]: "preserves (has_nqn nqn) (LoadEndpointForNvmeTcpFrontend env b)"
  unfolding LoadEndpointForNvmeTcpFrontend_def findDependentDevices_def by (intro preserving)

lemma export_linked [preserving]: "preserves (linked nqn a s) export_source"
  unfolding export_source_def by (intro preserving) simp

lemma export_nqn [preserving]: "preserves (has_nqn nqn) export_source"
  unfolding export_source_def by (intro preserving)

lemma already_launched_nqn [preserving]: "preserves (has_nqn nqn) (already_launched env a s)"
  unfolding already_launched_def by (intro preserving)

lemma attach_preserves [preserving]:
  fixes env :: "'w node_env"
  assumes "preserves P (replaceDmDeviceTarget env)" "preserves P (createLinearDmDevice env)"
    and "preserves P (export_source :: ('w, unit) iop)"
    and "\<And>b. preserves P (k b)"
  shows "preserves P (attach_dm env msg cleanup busy k)"
  unfolding attach_dm_def by (intro preserving assms)

section \<open>A successful start\<close>

lemma createEndpoint_up:
  assumes "createEndpoint env n = (Inr (), n')" and "dev (self (obj n)) \<noteq> None"
  shows "isUp (self (obj n'))"
  using assms
  by (auto simp: createEndpoint_def makeEndpoint_def io_bind_eq_Inr io_simps wrapping_Inr split: if_splits)

lemma already_launched_success:
  assumes "already_launched env a s n = (Inr True, n')" and nqn: "has_nqn nqn (obj n)"
    and ne: "nqn \<noteq> []" "a \<noteq> []" "s \<noteq> []"
  shows "linked nqn a s (obj n') \<and> isUp (self (obj n'))"
proof -
  obtain n1 where r: "reuseExistingNVMeTCPPathWithoutLock env a s n = (Inr True, n1)"
    and l: "LoadEndpointForNvmeTcpFrontend env False n1 = (Inr (), n')"
    using assms(1) by (auto simp: already_launched_def io_case_eq_Inr io_return_def split: if_splits)
  have "linked nqn a s (obj n')"
    by (rule preservesD [OF load_endpoint_linked l reuse_success [OF r nqn ne]])
  moreover have "isUp (self (obj n'))"
    using l by (auto simp: LoadEndpointForNvmeTcpFrontend_def io_bind_eq_Inr io_simps io_fail_def split: if_splits option.splits)
  ultimately show ?thesis ..
qed

lemma or_return_success:
  "or_return b m k n = (Inr (b', None), n') \<longleftrightarrow> (\<exists>x n1. m n = (Inr x, n1) \<and> k x n1 = (Inr (b', None), n'))"
  by (auto simp: or_return_def io_case_eq_Inr io_return_def)

lemma attach_success:
  assumes "attach_dm env msg cleanup busy k n = (Inr (b, None), n')" and "linked nqn a s (obj n)"
  shows "\<exists>busy' n1. linked nqn a s (obj n1) \<and> k busy' n1 = (Inr (b, None), n')"
proof (cases cleanup)
  case False
  then show ?thesis
    using assms preservesD [OF export_linked] by (auto simp: attach_dm_def io_bind_eq_Inr) blast
next
  case True
  show ?thesis
  proof (cases busy)
    case True
    with \<open>cleanup\<close> show ?thesis
      using assms preservesD [OF replace_linked] by (auto simp: attach_dm_def io_case_eq_Inr) blast+
  next
    case False
    with \<open>cleanup\<close> obtain n1 where "createLinearDmDevice env n = (Inr (), n1)" "k False n1 = (Inr (b, None), n')"
      using assms(1) by (auto simp: attach_dm_def or_return_success wrapping_Inr)
    then show ?thesis using assms(2) preservesD [OF dm_linked(2)] by blast
  qed
qed

lemma start_nvme_success:
  assumes run: "start_nvme env a s cleanup stop n = (Inr (b, None), n')" and nqn: "has_nqn nqn (obj n)"
    and ne: "nqn \<noteq> []" "a \<noteq> []" "s \<noteq> []"
  shows "linked nqn a s (obj n') \<and> isUp (self (obj n'))"
proof -
  obtain finished n1 where l: "already_launched env a s n = (Inr finished, n1)"
    using run by (auto simp: start_nvme_def io_bind_eq_Inr io_simps)
  have n1: "has_nqn nqn (obj n1)" by (rule preservesD [OF already_launched_nqn l nqn])
  show ?thesis
  proof (cases finished)
    case True
    with run l have "n' = n1" by (auto simp: start_nvme_def io_bind_eq_Inr io_simps io_return_def)
    then show ?thesis using already_launched_success [OF _ nqn ne] l True by simp
  next
    case False
    let ?stop = "if stop then wrap_busy (''failed to stop the mismatching NVMe/TCP initiator '' @ Name (self (obj n)) @
        '' before starting'') (stopWithoutLock env False cleanup False False) else io_return (True, None)"
    let ?k = "\<lambda>busy. or_return busy (createEndpoint env) (\<lambda>_. io_return (busy, None))"
    obtain busy err n2 where st: "?stop n1 = (Inr (busy, err), n2)"
      and r: "(if err \<noteq> None then io_return (busy, err) else or_return busy
          (wrapping (''failed to ensure device info after connecting target for NVMe/TCP initiator '' @ Name (self (obj n)))
            (ensureNVMeTCPPathWithoutLock env a s)) (\<lambda>_.
          attach_dm env (''failed to create linear dm device for NVMe/TCP initiator '' @ Name (self (obj n)))
            cleanup busy ?k)) n2 = (Inr (b, None), n')"
      using run l False by (auto simp: start_nvme_def io_bind_eq_Inr io_simps)
    have "preserves (has_nqn nqn) ?stop" by (intro preserving)
    from preservesD [OF this st n1] have n2: "has_nqn nqn (obj n2)" .
    have "err = None" using r by (auto simp: io_return_def split: if_splits)
    with r obtain n3 where e: "ensureNVMeTCPPathWithoutLock env a s n2 = (Inr (), n3)"
      and at: "attach_dm env (''failed to create linear dm device for NVMe/TCP initiator '' @ Name (self (obj n)))
            cleanup busy ?k n3 = (Inr (b, None), n')"
      by (auto simp: or_return_success wrapping_Inr)
    obtain busy' n4 where n4: "linked nqn a s (obj n4)" and k: "?k busy' n4 = (Inr (b, None), n')"
      using attach_success [OF at ensure_success [OF e n2 ne]] by blast
    then have c: "createEndpoint env n4 = (Inr (), n')"
      by (auto simp: or_return_success io_return_def)
    have "linked nqn a s (obj n')" by (rule preservesD [OF endpoint_linked c n4])
    moreover have "isUp (self (obj n'))"
      using createEndpoint_up [OF c] n4 by (simp add: linked_def)
    ultimately show ?thesis ..
  qed
qed

lemma wrap_busy_success: "wrap_busy msg m n = (Inr (b, None), n') \<longleftrightarrow> m n = (Inr (b, None), n')"
  by (auto simp: wrap_busy_def io_bind_eq_Inr io_return_def)

lemma deferring_success:
  assumes "deferring m d n = (Inr x, n')"
  obtains n1 where "m n = (Inr x, n1)" and "n' = snd (d n1)"
  using assms that by (auto simp: deferring_def split: prod.splits sum.splits go_error.splits)

lemma newLock_obj: "newLock env n = (r, n') \<Longrightarrow> obj n' = obj n"
proof -
  have "keeps_obj (newLock env)"
    unfolding newLock_def by (auto intro!: keeps_bind keeps_wrapping)
  then show "newLock env n = (r, n') \<Longrightarrow> obj n' = obj n" by (rule keeps_run)
qed

lemma unlock_obj: "obj (snd (unlock env i n)) = obj n"
  by (simp add: unlock_def do_sys_def split: prod.split)

text \<open>What a success under the lock says of the operation itself.\<close>

lemma locked_busy_success:
  assumes "locked_busy env at_end m n = (Inr (b, None), n')"
  obtains (unlocked) "hostProc (self (obj n)) = []" and "m n = (Inr (b, None), n')"
  | (locked) n1 n2 where "hostProc (self (obj n)) \<noteq> []" and "newLock env n = (Inr (), n1)" and "obj n1 = obj n"
      and "m n1 = (Inr (b, None), n2)" and "n' = snd (io_bind at_end (\<lambda>_. unlock env (self (obj n))) n2)"
proof (cases "hostProc (self (obj n)) = []")
  case True
  then show ?thesis using assms unlocked by (simp add: locked_busy_def io_bind_def io_simps)
next
  case False
  then obtain n1 where lock: "newLock env n = (Inr (), n1)"
    and "deferring m (io_bind at_end (\<lambda>_. unlock env (self (obj n)))) n1 = (Inr (b, None), n')"
    using assms by (auto simp: locked_busy_def io_bind_def [of this] io_simps or_return_success)
  then show ?thesis using False locked newLock_obj [OF lock] by (auto elim: deferring_success)
qed

lemma locked_busy_obj:
  assumes "locked_busy env (io_return ()) m n = (Inr (b, None), n')"
  obtains n1 n2 where "obj n1 = obj n" and "m n1 = (Inr (b, None), n2)" and "obj n' = obj n2"
  by (rule locked_busy_success [OF assms]) (use that in \<open>auto simp: io_bind_def io_return_def unlock_obj\<close>)

text \<open>
  Property C6. A successful \<open>StartNvmeTCPInitiator\<close> has connected the initiator: whatever it found (a path to
  reuse, a device to replace, a busy linear device, a stale endpoint) and whatever the host answered, the
  recorded address is the requested one, the NQN is the configured one, the device is known, and the initiator
  is up.
\<close>

theorem StartNvmeTCPInitiator_connects:
  assumes run: "StartNvmeTCPInitiator env a s cleanup stop n = (Inr (b, None), n')"
    and info: "NVMeTCPInfo (self (obj n)) = Some info" and nqn: "SubsystemNQN info \<noteq> []"
  shows "\<exists>info'. NVMeTCPInfo (self (obj n')) = Some info' \<and> SubsystemNQN info' = SubsystemNQN info \<and>
    TransportAddress info' = a \<and> TransportServiceID info' = s \<and> dev (self (obj n')) \<noteq> None \<and> isUp (self (obj n'))"
proof -
  have has: "has_nqn (SubsystemNQN info) (obj n)" using info by (simp add: has_nqn_def)
  have ne: "a \<noteq> []" "s \<noteq> []"
    and l: "locked_busy env (io_return ()) (start_nvme env a s cleanup stop) n = (Inr (b, None), n')"
    using run info by (auto simp: StartNvmeTCPInitiator_def io_bind_def io_simps wrap_busy_success io_return_def
        split: if_splits)
  from l obtain n1 n2 where n1: "obj n1 = obj n" and r: "start_nvme env a s cleanup stop n1 = (Inr (b, None), n2)"
      and n': "obj n' = obj n2"
    by (rule locked_busy_obj)
  have "linked (SubsystemNQN info) a s (obj n') \<and> isUp (self (obj n'))"
    using start_nvme_success [OF r _ nqn ne] has n1 n' by simp
  then show ?thesis by (auto simp: linked_def has_nqn_def at_address_def)
qed

text \<open>
  Property C39. The configured NQN is an invariant: no operation on the paths or the life cycle of an NVMe/TCP
  initiator changes it, whether it succeeds, fails, is undone half-way, or panics.
\<close>

theorem nqn_invariant:
  assumes "nqn \<noteq> []"
  shows "preserves (has_nqn nqn) (StartNvmeTCPInitiator env a s cleanup stop) \<and>
    preserves (has_nqn nqn) (Stop env c cleanup deferred busy) \<and>
    preserves (has_nqn nqn) (ConnectNVMeTCPPath env a s) \<and>
    preserves (has_nqn nqn) (ReconnectNVMeTCPPath env a s) \<and>
    preserves (has_nqn nqn) (LoadNVMeDeviceInfo env a s q) \<and>
    preserves (has_nqn nqn) (WaitForNVMeTCPConnect env k d)"
proof (intro conjI)
  show "preserves (has_nqn nqn) (StartNvmeTCPInitiator env a s cleanup stop)"
    unfolding StartNvmeTCPInitiator_def start_nvme_def by (intro preserving assms)
  show "preserves (has_nqn nqn) (Stop env c cleanup deferred busy)"
    unfolding Stop_def by (intro preserving)
  show "preserves (has_nqn nqn) (ConnectNVMeTCPPath env a s)"
    unfolding ConnectNVMeTCPPath_def executeNVMeTCPPathOp_def connectNVMeTCPPathWithoutLock_def Let_def
    by (intro preserving)
  show "preserves (has_nqn nqn) (ReconnectNVMeTCPPath env a s)"
    unfolding ReconnectNVMeTCPPath_def executeNVMeTCPPathOp_def by (intro preserving assms)
  show "preserves (has_nqn nqn) (LoadNVMeDeviceInfo env a s q)"
    unfolding LoadNVMeDeviceInfo_def by (intro preserving)
  show "preserves (has_nqn nqn) (WaitForNVMeTCPConnect env k d)"
    unfolding WaitForNVMeTCPConnect_def load_recorded_def by (intro preserving)
qed

end
