(* ===== verification/InitiatorRuns.thy ===== *)
theory InitiatorRuns
  imports InitiatorStartFacts
begin

text \<open>
  Concrete runs of the initiator: a host whose tools answer with fixed texts, over the device table of
  \<open>InitiatorEndpoint\<close>. A start on it reuses the connected path, finds no endpoint and creates it.
\<close>

section \<open>The host\<close>

definition path_exec :: "'w executor" where
  "path_exec c w =
     (if cmd_binary c = lsblkBinary \<and> cmd_args c \<noteq> [] \<and> hd (cmd_args c) = ''/dev/nvme4n1'' then Inr ''nvme4n1 259:3''
      else if cmd_binary c = nvmeBinary \<and> cmd_args c \<noteq> [] \<and> hd (cmd_args c) = ''--version'' then Inr version_text
      else if cmd_binary c = nvmeBinary \<and> cmd_args c \<noteq> [] \<and> hd (cmd_args c) = ''list'' then Inr list_text
      else if cmd_binary c = nvmeBinary \<and> cmd_args c \<noteq> [] \<and> hd (cmd_args c) = ''list-subsys'' then Inr one_path_text
      else Inl (PlainErr ''no such device''), w)"

definition path_env :: "(string \<rightharpoonup> stat_info) node_env" where
  "path_env = table_env\<lparr> executor := path_exec \<rparr>"

definition path_device :: Device where
  "path_device = device_of (subsys4 [path4]) [namespace_of nvme4n1]"

lemma path_nvme:
  "nvme path_exec [''--version''] h = (Inr version_text, h\<lparr> ran := ran h @ [cmd_of [] nvmeBinary [''--version''] 180] \<rparr>)"
  "nvme path_exec (''list'' # as) h = (Inr list_text, h\<lparr> ran := ran h @ [cmd_of [] nvmeBinary (''list'' # as) 180] \<rparr>)"
  "nvme path_exec (''list-subsys'' # as) h =
     (Inr one_path_text, h\<lparr> ran := ran h @ [cmd_of [] nvmeBinary (''list-subsys'' # as) 180] \<rparr>)"
  by (simp_all add: nvme_def Execute_def path_exec_def cmd_of_def nvmeBinary_def lsblkBinary_def ExecuteTimeout_def)

lemma path_subsystems: "\<exists>cs. listSubsystems path_exec dp h = (Inr [subsys4 [path4]], h\<lparr> ran := cs \<rparr>)"
  by (cases "dp = []")
    (auto simp: listSubsystems_def cliVersion_def path_nvme io_bind_def io_lift_def version_text_parsed two_path_texts)

lemma path_matches: "filter (device_matches ''10.0.0.1'' ''4420'' ''nqn.a'') [path_device] = [path_device]"
  by (simp add: path_device_def device_matches_def device_of_def subsys4_def controllers_of_def address_matches_def
      path_at_def two_path_addresses)

lemma path_GetDevices:
  "\<exists>cs. GetDevices path_exec ''10.0.0.1'' ''4420'' ''nqn.a'' h = (Inr [path_device], h\<lparr> ran := cs \<rparr>)"
proof -
  obtain cs where l: "listRecognizedNvmeDevices path_exec h = (Inr [nvme4n1], h\<lparr> ran := cs \<rparr>)"
    by (simp add: listRecognizedNvmeDevices_def path_nvme io_bind_def io_lift_def two_path_texts list_text_devices)
  obtain cs1 where q: "listSubsystems path_exec (DevicePath nvme4n1) (h\<lparr> ran := cs \<rparr>) =
      (Inr [subsys4 [path4]], h\<lparr> ran := cs \<rparr>\<lparr> ran := cs1 \<rparr>)"
    using path_subsystems by blast
  have s: "scan_devices path_exec [nvme4n1] [] 0 (h\<lparr> ran := cs \<rparr>) = (Inr ([path_device], 0), h\<lparr> ran := cs1 \<rparr>)"
    using q by (simp add: io_case_def io_return_def path_device_def)
  have "select_devices path_exec [path_device] ''10.0.0.1'' ''4420'' ''nqn.a'' (h\<lparr> ran := cs1 \<rparr>) =
      (Inr [path_device], h\<lparr> ran := cs1 \<rparr>)"
    unfolding select_devices_def path_matches by (simp add: io_bind_def io_return_def)
  then show ?thesis
    unfolding GetDevices_def io_wrapped_Inr io_bind_Inr [where m = "listRecognizedNvmeDevices path_exec", OF l]
      io_bind_Inr [where m = "scan_devices path_exec [nvme4n1] [] 0", OF s] prod.case by blast
qed

lemma path_listing:
  "scan_lines ''nvme4n1 259:3'' = [''nvme4n1 259:3'']"
  "GoStrings.fields ''nvme4n1 259:3'' = [''nvme4n1'', ''259:3'']"
  "join_path [''/dev'', ''nvme4n1''] = ''/dev/nvme4n1''"
  by code_simp+

lemma path_numbers: "scan_major_minor ''259:3'' = Some (259, 3)"
proof -
  have "atoi ''259'' = Some 259" "atoi ''3'' = Some 3"
    by (simp_all add: atoi_def is_digit_def)
  then show ?thesis by (simp add: scan_major_minor_def scan_int_def is_digit_def)
qed

definition path_source :: BlockDevice where
  "path_source = \<lparr> BlockDevice.Name = ''nvme4n1'', Major = 259, Minor = 3, MajMin = [] \<rparr>"

lemma path_detected: "detected ''/dev/nvme4n1'' ''nvme4n1 259:3'' = Inr path_source"
  by (simp add: detected_def path_listing path_numbers path_source_def)


section \<open>A start\<close>

text \<open>An operation on the host that always answers the same and changes nothing but the log.\<close>

lemma on_host_quiet:
  assumes "\<And>h. \<exists>cs. m h = (r, h\<lparr> ran := cs \<rparr>)"
  obtains K where "\<And>n. (on_host m :: ('o, 'w, 'a) op) n = (r, n\<lparr> log := K n \<rparr>)"
proof -
  have "\<exists>l. on_host m n = (r, n\<lparr> log := l \<rparr>)" for n :: "('o, 'w) node"
    using assms [of "\<lparr> ran = [], world = outside n \<rparr>"] by (auto simp: on_host_def)
  then show ?thesis using that by metis
qed

type_synonym table_node = "(process, string \<rightharpoonup> stat_info) node"

definition path_info :: "string \<Rightarrow> string \<Rightarrow> NVMeTCPInfo" where
  "path_info controller namespace = \<lparr> SubsystemNQN = ''nqn.a'', UUID = [], TransportAddress = ''10.0.0.1'',
     TransportServiceID = ''4420'', ControllerName = controller, NamespaceName = namespace, NrIoQueues = 0 \<rparr>"

definition path_process :: "NVMeTCPInfo \<Rightarrow> LonghornBlockDevice option \<Rightarrow> bool \<Rightarrow> process" where
  "path_process info d up = \<lparr>
     self = \<lparr> Name = ''v'', Endpoint = ''/dev/longhorn/v'', dev = d, isUp = up, NVMeTCPInfo = Some info,
       UblkInfo = None, hostProc = HostProcDirectory \<rparr>,
     isUblkTargetCreated = False, idGenerator = \<lparr> lastCandidate = 0 \<rparr> \<rparr>"

definition run_node :: "process \<Rightarrow> (string \<rightharpoonup> stat_info) \<Rightarrow> event list \<Rightarrow> table_node" where
  "run_node p w l = \<lparr> obj = p, log = l, outside = w \<rparr>"

abbreviation "fresh_process \<equiv> path_process (path_info [] []) None False"
abbreviation "loaded d up \<equiv> path_process (path_info ''nvme4'' ''nvme4n1'') (Some \<lparr> Source = path_source, Export = d \<rparr>) up"

lemma run_node_log [simp]: "(run_node p w l)\<lparr> log := l' \<rparr> = run_node p w l'"
  and run_node_obj [simp]: "(run_node p w l)\<lparr> obj := p' \<rparr> = run_node p' w l"
  and run_node_get [simp]: "obj (run_node p w l) = p" "outside (run_node p w l) = w"
  by (simp_all add: run_node_def)

lemma path_self [simp]:
  "NVMeTCPInfo (self (path_process i d up)) = Some i" "dev (self (path_process i d up)) = d"
  "Endpoint (self (path_process i d up)) = ''/dev/longhorn/v''" "Initiator.Name (self (path_process i d up)) = ''v''"
  "hostProc (self (path_process i d up)) = HostProcDirectory"
  "(path_process i d up)\<lparr> self := (self (path_process i d up))\<lparr> dev := d' \<rparr> \<rparr> = path_process i d' up"
  "(path_process i d up)\<lparr> self := (self (path_process i d up))\<lparr> isUp := up' \<rparr> \<rparr> = path_process i d up'"
  by (simp_all add: path_process_def)

lemma path_info_get [simp]:
  "SubsystemNQN (path_info c ns) = ''nqn.a''" "TransportAddress (path_info c ns) = ''10.0.0.1''"
  "TransportServiceID (path_info c ns) = ''4420''"
  by (simp_all add: path_info_def)

lemma path_env_get [simp]: "executor path_env = path_exec" "sys path_env = table_sys" "unix_stat path_env = unix_stat table_env"
  by (simp_all add: path_env_def table_env_def)

lemma path_select:
  "selectControllerForNVMeDevice path_device ''10.0.0.1'' ''4420'' c =
     Inr \<lparr> Controller.Controller = ''nvme4'', Controller.Transport = ''tcp'',
       Controller.Address = ''traddr=10.0.0.1,trsvcid=4420'', Controller.State = ''live'' \<rparr>"
  by (simp add: selectControllerForNVMeDevice_def path_device_def device_of_def subsys4_def controllers_of_def
      path_at_def two_path_addresses)

lemma path_DetectDevice: "\<exists>cs. DetectDevice path_exec ''/dev/nvme4n1'' h = (Inr path_source, h\<lparr> ran := cs \<rparr>)"
  by (auto simp: DetectDevice_def Execute_def path_exec_def lsblkBinary_def nvmeBinary_def io_bind_def io_lift_def path_detected)

lemma no_DetectDevice:
  "\<exists>cs. DetectDevice path_exec ''/dev/longhorn/v'' h = (Inl (PlainErr ''no such device''), h\<lparr> ran := cs \<rparr>)"
  by (auto simp: DetectDevice_def Execute_def path_exec_def lsblkBinary_def nvmeBinary_def io_bind_def)

lemma path_namespace:
  obtains x where "Device.Namespaces path_device = [x]" "Namespace.NameSpace x = ''nvme4n1''"
  by (simp add: path_device_def device_of_def namespace_of_def nvme4n1_def two_path_texts)

lemma path_load:
  "\<exists>l'. loadNVMeDeviceInfoWithoutLock path_env ''10.0.0.1'' ''4420'' ''nqn.a''
     (run_node (path_process (path_info c ns) d up) w l) = (Inr (), run_node (loaded no_device up) w l')"
proof -
  obtain K where k: "\<And>n :: table_node. on_host (GetDevices path_exec ''10.0.0.1'' ''4420'' ''nqn.a'') n = (Inr [path_device], n\<lparr> log := K n \<rparr>)"
    using on_host_quiet [OF path_GetDevices] by blast
  obtain L where l: "\<And>n :: table_node. on_host (DetectDevice path_exec ''/dev/nvme4n1'') n = (Inr path_source, n\<lparr> log := L n \<rparr>)"
    using on_host_quiet [OF path_DetectDevice] by blast
  obtain x where n: "Device.Namespaces path_device = [x]" "Namespace.NameSpace x = ''nvme4n1''" by (rule path_namespace)
  show ?thesis
    by (simp add: loadNVMeDeviceInfoWithoutLock_def io_bind_def io_case_def io_return_def io_lift_def this_run set_self_run
        load_devices_def use_controller_def set_info_def k l n path_select path_listing wrapping_def path_process_def path_info_def with_controller_def two_path_addresses run_node_def)
qed

lemma path_reuse:
  "\<exists>l'. reuseExistingNVMeTCPPathWithoutLock path_env ''10.0.0.1'' ''4420''
     (run_node (path_process (path_info c ns) d up) w l) = (Inr True, run_node (loaded no_device up) w l')"
proof -
  obtain l1 where l1: "loadNVMeDeviceInfoWithoutLock path_env ''10.0.0.1'' ''4420'' ''nqn.a''
      (run_node (path_process (path_info c ns) d up) w l) = (Inr (), run_node (loaded no_device up) w l1)"
    using path_load by blast
  obtain l2 where l2: "loadNVMeDeviceInfoWithoutLock path_env ''10.0.0.1'' ''4420'' ''nqn.a''
      (run_node (loaded no_device up) w l1) = (Inr (), run_node (loaded no_device up) w l2)"
    using path_load by blast
  have i: "info_ptr (run_node (path_process (path_info c ns) d up) w l) = (Inr (path_info c ns), run_node (path_process (path_info c ns) d up) w l)"
    for c ns d up l
    by (simp add: info_ptr_def io_bind_def this_run io_return_def)
  have s: "maxWaitDeviceRetries = Suc 59" by (simp add: maxWaitDeviceRetries_def)
  have "waitAndLoadNVMeDeviceInfoWithoutLock path_env ''10.0.0.1'' ''4420'' (run_node (loaded no_device up) w l1) =
      (Inr (), run_node (loaded no_device up) w l2)"
    unfolding waitAndLoadNVMeDeviceInfoWithoutLock_def s retry_do.simps(2)
    by (simp add: io_bind_def this_run wrapping_def io_case_def attempt_def i l2 io_return_def)
  then show ?thesis
    by (auto simp: reuseExistingNVMeTCPPathWithoutLock_def io_bind_def i l1 io_return_def)
qed

lemma path_no_endpoint:
  "\<exists>l'. already_launched path_env ''10.0.0.1'' ''4420'' (run_node (path_process (path_info c ns) d up) w l) =
     (Inr False, run_node (loaded no_device up) w l')"
proof -
  obtain l1 where l1: "reuseExistingNVMeTCPPathWithoutLock path_env ''10.0.0.1'' ''4420''
      (run_node (path_process (path_info c ns) d up) w l) = (Inr True, run_node (loaded no_device up) w l1)"
    using path_reuse by blast
  obtain K where k: "\<And>n :: table_node. on_host (DetectDevice path_exec ''/dev/longhorn/v'') n =
      (Inl (PlainErr ''no such device''), n\<lparr> log := K n \<rparr>)"
    using on_host_quiet [OF no_DetectDevice] by blast
  show ?thesis
    unfolding already_launched_def LoadEndpointForNvmeTcpFrontend_def
    by (auto simp: io_case_def l1 io_bind_def this_run k io_return_def)
qed

lemma path_lock:
  obtains l where "newLock path_env (run_node (path_process i d up) w l0) = (Inr (), run_node (path_process i d up) w l)"
  by (simp add: newLock_def io_bind_def this_run wrapping_def io_case_def do_sys_def table_sys_def
      io_return_def run_node_def)

lemma path_start:
  "\<exists>n'. StartNvmeTCPInitiator path_env ''10.0.0.1'' ''4420'' False False (run_node fresh_process [''/dev/longhorn'' \<mapsto> \<lparr> st_mode = 0x4000, st_rdev = 0 \<rparr>] []) =
     (Inr (True, None), n')"
proof -
  let ?w = "[''/dev/longhorn'' \<mapsto> \<lparr> st_mode = 0x4000, st_rdev = 0 \<rparr>] :: string \<rightharpoonup> stat_info"
  obtain l0 where l0: "newLock path_env (run_node fresh_process ?w []) = (Inr (), run_node fresh_process ?w l0)"
    by (rule path_lock)
  obtain l1 where l1: "already_launched path_env ''10.0.0.1'' ''4420'' (run_node fresh_process ?w l0) =
      (Inr False, run_node (loaded no_device False) ?w l1)"
    using path_no_endpoint by blast
  obtain l2 where "reuseExistingNVMeTCPPathWithoutLock path_env ''10.0.0.1'' ''4420'' (run_node (loaded no_device False) ?w l1) =
      (Inr True, run_node (loaded no_device False) ?w l2)"
    using path_reuse by blast
  then have l2: "ensureNVMeTCPPathWithoutLock path_env ''10.0.0.1'' ''4420'' (run_node (loaded no_device False) ?w l1) =
      (Inr (), run_node (loaded no_device False) ?w l2)"
    by (simp add: ensureNVMeTCPPathWithoutLock_def io_case_def io_return_def)
  have x: "export_source (run_node (loaded no_device False) ?w l2) = (Inr (), run_node (loaded path_source False) ?w l2)"
    by (simp add: export_source_def dev_ptr_def io_bind_def this_run set_self_run io_return_def)
  have "\<exists>n'. createEndpoint path_env (run_node (loaded path_source False) ?w l2) = (Inr (), n')"
    by (simp add: createEndpoint_def isEndpointExist_def makeEndpoint_def DuplicateDevice_def
        ensure_dir_def mknod_def io_bind_def io_case_def io_return_def wrapping_def path_source_def
        this_run set_self_run do_sys_def do_stat_def table_sys_def sample_dir run_node_def)
  then obtain n' where c: "createEndpoint path_env (run_node (loaded path_source False) ?w l2) = (Inr (), n')" ..
  have st: "start_nvme path_env ''10.0.0.1'' ''4420'' False False (run_node fresh_process ?w l0) = (Inr (True, None), n')"
    by (simp add: start_nvme_def io_bind_def this_run l1 l2 or_return_def wrapping_def io_case_def attach_dm_def x c io_return_def)
  show ?thesis
    by (simp add: StartNvmeTCPInitiator_def io_bind_def this_run wrap_busy_def
        locked_busy_def or_return_def io_case_def deferring_def l0 st
        HostProcDirectory_def io_return_def)
qed

section \<open>Witnesses\<close>

theorem StartNvmeTCPInitiator_connects_witness:
  "\<exists>n'. StartNvmeTCPInitiator path_env ''10.0.0.1'' ''4420'' False False
       (run_node fresh_process [''/dev/longhorn'' \<mapsto> \<lparr> st_mode = 0x4000, st_rdev = 0 \<rparr>] []) = (Inr (True, None), n') \<and>
     dev (self (obj n')) \<noteq> None \<and> isUp (self (obj n'))"
proof -
  obtain n' where run: "StartNvmeTCPInitiator path_env ''10.0.0.1'' ''4420'' False False
      (run_node fresh_process [''/dev/longhorn'' \<mapsto> \<lparr> st_mode = 0x4000, st_rdev = 0 \<rparr>] []) = (Inr (True, None), n')"
    using path_start by blast
  show ?thesis
    using StartNvmeTCPInitiator_connects [OF run, of "path_info [] []"] run by auto
qed

theorem nqn_invariant_witness:
  "preserves (has_nqn ''nqn.a'') (StartNvmeTCPInitiator path_env ''10.0.0.1'' ''4420'' False False)"
  using nqn_invariant [of "''nqn.a''"] by blast

end
