(* ===== verification/InitiatorWaits.thy ===== *)
theory InitiatorWaits
  imports InitiatorRuns
begin

text \<open>
  Waiting and retrying: when a retried operation succeeds, that the two polls are plain loops, and what
  happens when the device one waits for is still there.
\<close>

section \<open>Retrying\<close>

text \<open>The state before the attempt \<open>j\<close> (from 0), when the ones before it asked for another one.\<close>

fun before_attempt :: "'w node_env \<Rightarrow> int \<Rightarrow> ('o, 'w, 'a) op \<Rightarrow> nat \<Rightarrow> ('o, 'w) node \<Rightarrow> ('o, 'w) node" where
  "before_attempt env delay m 0 n = n"
| "before_attempt env delay m (Suc j) n = before_attempt env delay m j (snd (pause env delay (snd (m n))))"

lemma attempt_run:
  "attempt m n = (case m n of
     (Inr x, n') \<Rightarrow> (Inr (Succeeded x), n')
   | (Inl e, n') \<Rightarrow> if is_panic e then (Inl e, n') else (Inr (Again e), n'))"
  by (simp add: attempt_def io_case_def io_return_def split: prod.split sum.split)

definition failed :: "go_error + 'a \<Rightarrow> bool" where
  "failed r = (case r of Inl e \<Rightarrow> \<not> is_panic e | Inr x \<Rightarrow> False)"

lemma retry_step:
  "retry_do env d (Suc k) (attempt m) n =
     (case m n of
        (Inr x, n') \<Rightarrow> (Inr x, n')
      | (Inl e, n') \<Rightarrow> if is_panic e \<or> k = 0 then (Inl e, n') else retry_do env d k (attempt m) (snd (pause env d n')))"
  by (simp add: io_bind_def attempt_run io_return_def io_fail_def pause_def split: prod.split sum.split)

lemma retry_first_success:
  "j < k \<Longrightarrow> (\<And>i. i < j \<Longrightarrow> failed (fst (m (before_attempt env d m i n)))) \<Longrightarrow>
    m (before_attempt env d m j n) = (Inr x, n') \<Longrightarrow> retry_do env d k (attempt m) n = (Inr x, n')"
proof (induction k arbitrary: j n)
  case (Suc k)
  show ?case
  proof (cases j)
    case 0
    with Suc.prems show ?thesis by (simp add: retry_step del: retry_do.simps)
  next
    case (Suc j')
    obtain r n1 where m: "m n = (r, n1)" by (cases "m n")
    then obtain e where e: "r = Inl e" "\<not> is_panic e"
      using Suc.prems(2) [of 0] Suc by (auto simp: failed_def split: sum.splits)
    have "failed (fst (m (before_attempt env d m i (snd (pause env d n1)))))" if "i < j'" for i
      using Suc.prems(2) [of "Suc i"] that Suc m by simp
    then have "retry_do env d k (attempt m) (snd (pause env d n1)) = (Inr x, n')"
      using Suc.IH [of j'] Suc.prems(1,3) Suc m by simp
    then show ?thesis
      using m e Suc.prems(1) Suc by (simp add: retry_step del: retry_do.simps)
  qed
qed simp

lemma retry_needs_success:
  "retry_do env d k (attempt m) n = (Inr x, n') \<Longrightarrow>
    \<exists>j < k. m (before_attempt env d m j n) = (Inr x, n') \<and> (\<forall>i < j. failed (fst (m (before_attempt env d m i n))))"
proof (induction k arbitrary: n)
  case 0
  then show ?case by (simp add: io_fail_def)
next
  case (Suc k)
  obtain r n1 where m: "m n = (r, n1)" by (cases "m n")
  show ?case
  proof (cases r)
    case (Inr y)
    with Suc.prems m have "m (before_attempt env d m 0 n) = (Inr x, n')"
      by (simp add: retry_step del: retry_do.simps)
    then show ?thesis by blast
  next
    case (Inl e)
    with Suc.prems m have e: "\<not> is_panic e" and r: "retry_do env d k (attempt m) (snd (pause env d n1)) = (Inr x, n')"
      by (auto simp: retry_step simp del: retry_do.simps split: if_splits)
    obtain j where j: "j < k" "m (before_attempt env d m j (snd (pause env d n1))) = (Inr x, n')"
      "\<forall>i < j. failed (fst (m (before_attempt env d m i (snd (pause env d n1)))))"
      using Suc.IH [OF r] by blast
    have "failed (fst (m (before_attempt env d m i n)))" if "i < Suc j" for i
      using j(3) m Inl e that by (cases i) (auto simp: failed_def)
    then show ?thesis using j(1,2) m by (intro exI [of _ "Suc j"]) auto
  qed
qed

section \<open>Waiting for a controller\<close>

text \<open>What the subsystem listing of the attempt \<open>j\<close> answers, from the state of the host.\<close>

fun world_at :: "'w node_env \<Rightarrow> int \<Rightarrow> nat \<Rightarrow> 'w \<Rightarrow> 'w" where
  "world_at env delay 0 w = w"
| "world_at env delay (Suc j) w =
     world_at env delay j (snd (sys env (Sleep delay) (world (snd (GetSubsystems (executor env) \<lparr> ran = [], world = w \<rparr>)))))"

definition listing_at :: "'w node_env \<Rightarrow> int \<Rightarrow> nat \<Rightarrow> 'w \<Rightarrow> go_error + Subsystem list" where
  "listing_at env delay j w = fst (GetSubsystems (executor env) \<lparr> ran = [], world = world_at env delay j w \<rparr>)"

text \<open>A listing that shows the path: a subsystem of that NQN with a path at the address whose state is \<open>live\<close>.\<close>

definition shows_live :: "string \<Rightarrow> string \<Rightarrow> string \<Rightarrow> Subsystem list \<Rightarrow> bool" where
  "shows_live nqn a s subsystems =
     (\<exists>sys \<in> set subsystems. NQN sys = nqn \<and>
        (\<exists>p \<in> set (Paths sys). GetIPAndPortFromControllerAddress (Path.Address p) = (a, s) \<and> Path.State p = ''live''))"

lemma live_path_shows: "live_path nqn a s subsystems = shows_live nqn a s subsystems"
  by (auto simp: live_path_def shows_live_def list_ex_iff)

definition live_at :: "'w node_env \<Rightarrow> int \<Rightarrow> string \<Rightarrow> string \<Rightarrow> string \<Rightarrow> 'w \<Rightarrow> nat \<Rightarrow> bool" where
  "live_at env delay nqn a s w j =
     (case listing_at env delay j w of Inr subsystems \<Rightarrow> shows_live nqn a s subsystems | Inl e \<Rightarrow> False)"

definition panics_at :: "'w node_env \<Rightarrow> int \<Rightarrow> 'w \<Rightarrow> nat \<Rightarrow> bool" where
  "panics_at env delay w j = (case listing_at env delay j w of Inl e \<Rightarrow> is_panic e | Inr x \<Rightarrow> False)"

lemma controller_live_outside:
  "outside (snd (controller_live env nqn a s n)) = world (snd (GetSubsystems (executor env) \<lparr> ran = [], world = outside n \<rparr>))"
  by (simp add: controller_live_def io_bind_def wrapping_def io_case_def on_host_def io_return_def io_fail_def
      split: prod.split sum.split)

lemma outside_before_attempt:
  "outside (before_attempt env d (controller_live env nqn a s) j n) = world_at env d j (outside n)"
  by (induction j arbitrary: n) (simp_all add: controller_live_outside pause_def)

lemma controller_live_result:
  assumes "fst (GetSubsystems (executor env) \<lparr> ran = [], world = outside n \<rparr>) = r"
  shows "fst (controller_live env nqn a s n) = Inr () \<longleftrightarrow> (\<exists>subs. r = Inr subs \<and> live_path nqn a s subs)"
    and "failed (fst (controller_live env nqn a s n)) \<longleftrightarrow>
      (case r of Inl e \<Rightarrow> \<not> is_panic e | Inr subs \<Rightarrow> \<not> live_path nqn a s subs)"
  using assms
  by (auto simp: controller_live_def io_bind_def wrapping_def io_case_def on_host_def io_return_def io_fail_def
      failed_def split: prod.splits sum.splits if_splits)

lemma live_attempts:
  fixes n :: "(process, 'w) node" and env :: "'w node_env" and nqn a s :: string
  defines "m \<equiv> controller_live env nqn a s"
  shows "fst (m (before_attempt env d m j n)) = Inr () \<longleftrightarrow> live_at env d nqn a s (outside n) j"
    and "failed (fst (m (before_attempt env d m j n))) \<longleftrightarrow>
      \<not> live_at env d nqn a s (outside n) j \<and> \<not> panics_at env d (outside n) j"
proof -
  have r: "fst (GetSubsystems (executor env) \<lparr> ran = [], world = outside (before_attempt env d m j n) \<rparr>) =
      listing_at env d j (outside n)"
    by (simp add: listing_at_def m_def outside_before_attempt)
  show "fst (m (before_attempt env d m j n)) = Inr () \<longleftrightarrow> live_at env d nqn a s (outside n) j"
    unfolding m_def controller_live_result(1) [OF r [unfolded m_def]] live_at_def live_path_shows by (auto split: sum.splits)
  show "failed (fst (m (before_attempt env d m j n))) \<longleftrightarrow>
      \<not> live_at env d nqn a s (outside n) j \<and> \<not> panics_at env d (outside n) j"
    unfolding m_def controller_live_result(2) [OF r [unfolded m_def]] live_at_def live_path_shows panics_at_def by (auto split: sum.splits)
qed

text \<open>
  Property C21. Waiting for a controller returns exactly when it should: for at least one attempt (with none, \<open>retry.Do\<close>
  goes on until it succeeds, which is outside the model of it), \<open>WaitForControllerLive\<close> succeeds if and only if one of its attempts finds, in the host as it is after that many queries and waits, a live path of the
  subsystem at the address, and no earlier query panicked. Failing queries, other paths, paths in another state
  and a path that goes away later do not matter.
\<close>

theorem WaitForControllerLive_returns:
  assumes info: "NVMeTCPInfo (self (obj n)) = Some info" and attempts: "0 < maxAttempts"
  shows "fst (WaitForControllerLive env a s maxAttempts d n) = Inr () \<longleftrightarrow>
    (\<exists>j < maxAttempts. live_at env d (SubsystemNQN info) a s (outside n) j \<and> (\<forall>i < j. \<not> panics_at env d (outside n) i))"
    (is "?wait \<longleftrightarrow> (\<exists>j < maxAttempts. ?live j \<and> (\<forall>i < j. \<not> ?panics i))")
proof -
  let ?m = "controller_live env (SubsystemNQN info) a s"
  let ?f = "retry_do env d maxAttempts (attempt ?m) n"
  have w: "?wait \<longleftrightarrow> fst ?f = Inr ()"
    using info
    by (auto simp: WaitForControllerLive_def io_bind_def this_run io_case_def io_return_def io_fail_def
        split: prod.splits sum.splits)
  show ?thesis
  proof
    assume ?wait
    then obtain n' where "?f = (Inr (), n')" using w by (metis prod.collapse)
    from retry_needs_success [OF this] obtain j where j: "j < maxAttempts"
      "?m (before_attempt env d ?m j n) = (Inr (), n')" "\<forall>i < j. failed (fst (?m (before_attempt env d ?m i n)))"
      by blast
    have "?live j" using j(2) live_attempts(1) [of env "SubsystemNQN info" a s d j n] by simp
    moreover have "\<not> ?panics i" if "i < j" for i
      using j(3) [rule_format, OF that] live_attempts(2) [of env "SubsystemNQN info" a s d i n] by blast
    ultimately show "\<exists>j < maxAttempts. ?live j \<and> (\<forall>i < j. \<not> ?panics i)" using j(1) by blast
  next
    assume "\<exists>j < maxAttempts. ?live j \<and> (\<forall>i < j. \<not> ?panics i)"
    then obtain j0 where j0: "j0 < maxAttempts" "?live j0" "\<forall>i < j0. \<not> ?panics i" by blast
    define j where "j = (LEAST j. ?live j)"
    have j: "?live j" "j \<le> j0"
      unfolding j_def by (rule LeastI [of ?live, OF j0(2)], rule Least_le [of ?live, OF j0(2)])
    have least: "\<not> ?live i" if "i < j" for i
      by (rule not_less_Least [of i ?live, OF that [unfolded j_def]])
    obtain n' where "?m (before_attempt env d ?m j n) = (Inr (), n')"
      using j(1) live_attempts(1) [of env "SubsystemNQN info" a s d j n] by (metis prod.collapse)
    moreover have "failed (fst (?m (before_attempt env d ?m i n)))" if "i < j" for i
      using live_attempts(2) [of env "SubsystemNQN info" a s d i n] least [OF that] j0(3) j(2) that by simp
    ultimately have "?f = (Inr (), n')"
      using retry_first_success [of j maxAttempts ?m env d n] j(2) j0(1) by simp
    then show ?wait using w by simp
  qed
qed

theorem WaitForControllerLive_returns_witness:
  "fst (WaitForControllerLive path_env ''10.0.0.1'' ''4420'' 3 1 (run_node fresh_process Map.empty [])) = Inr ()"
proof -
  obtain cs where l: "GetSubsystems path_exec \<lparr> ran = [], world = Map.empty :: string \<rightharpoonup> stat_info \<rparr> =
      (Inr [subsys4 [path4]], \<lparr> ran = [], world = Map.empty \<rparr>\<lparr> ran := cs \<rparr>)"
    using path_subsystems unfolding GetSubsystems_def by blast
  have "live_at path_env 1 ''nqn.a'' ''10.0.0.1'' ''4420'' Map.empty 0"
    by (simp add: live_at_def listing_at_def l shows_live_def subsys4_def path_at_def two_path_addresses)
  then show ?thesis
    using WaitForControllerLive_returns [of "run_node fresh_process Map.empty []" "path_info [] []" 3 path_env "''10.0.0.1''" "''4420''" 1]
    by force
qed

section \<open>Polling\<close>

text \<open>The loop the code says it keeps the behaviour of: at most so many polls, and a wait after each one that
  does not end it.\<close>

fun for_loop :: "'w node_env \<Rightarrow> int \<Rightarrow> nat \<Rightarrow> ('st \<Rightarrow> ('o, 'w, 'st \<times> bool) op) \<Rightarrow> 'st \<Rightarrow> ('o, 'w, 'st) op" where
  "for_loop env delay 0 f st = io_return st"
| "for_loop env delay (Suc k) f st =
     io_bind (f st) (\<lambda>(st', done).
       if done then io_return st' else io_bind (pause env delay) (\<lambda>_. for_loop env delay k f st'))"

lemma poll_retry_loop:
  "i + k = limit \<Longrightarrow> poll_retry env delay limit (Suc k) i f st = for_loop env delay k f st"
proof (induction k arbitrary: i st)
  case (Suc k)
  have IH: "poll_retry env delay limit (Suc k) (Suc i) f st' = for_loop env delay k f st'" for st'
    using Suc by simp
  have "i < limit" using Suc.prems by simp
  then show ?case
    unfolding poll_retry.simps(2) [of env delay limit "Suc k"] for_loop.simps(2) IH by (simp cong: if_cong)
qed simp

lemma poll_is_loop: "poll_retry env delay limit (limit + 1) 0 f st = for_loop env delay limit f st"
  using poll_retry_loop [of 0 limit limit env delay f st] by (simp del: poll_retry.simps)

text \<open>
  The polls are the loops they replace: \<open>retry.Do\<close> with one attempt more than the limit and a
  closing attempt that does nothing is, for any polled function and start value, the plain loop with a wait
  after every unsuccessful poll, the last one included. So \<open>WaitForNVMeTCPTargetDisconnect\<close> polls at most
  \<open>maxRetries\<close> times, and with a limit that is not positive it takes and releases the lock and returns.
\<close>

theorem polls_are_loops:
  "poll_retry env delay limit (limit + 1) 0 f st = for_loop env delay limit f st \<and>
   WaitForNVMeTCPTargetDisconnect env maxRetries delay =
     io_bind this (\<lambda>i. case NVMeTCPInfo i of
       None \<Rightarrow> io_fail (PlainErr ''failed to WaitForNVMeTCPTargetDisconnect because nvmeTCPInfo is nil'')
     | Some _ \<Rightarrow> locked env (
         io_bind (for_loop env delay (nat maxRetries) (poll_disconnected env) (False, None)) (\<lambda>(found, lastErr).
           if found then io_return ()
           else (case lastErr of None \<Rightarrow> io_return () | Some err \<Rightarrow> io_fail err))))"
proof
  show "poll_retry env delay limit (limit + 1) 0 f st = for_loop env delay limit f st" by (rule poll_is_loop)
  let ?fin = "\<lambda>(found, lastErr). if found then io_return () else (case lastErr of None \<Rightarrow> io_return () | Some err \<Rightarrow> io_fail err)"
  have "(if maxRetries \<le> 0 then io_return ()
         else io_bind (for_loop env delay (nat maxRetries) (poll_disconnected env) (False, None)) ?fin) =
      io_bind (for_loop env delay (nat maxRetries) (poll_disconnected env) (False, None)) ?fin"
    by (cases "maxRetries \<le> 0") (simp_all add: io_bind_def io_return_def fun_eq_iff)
  note body = this
  show "WaitForNVMeTCPTargetDisconnect env maxRetries delay =
     io_bind this (\<lambda>i. case NVMeTCPInfo i of
       None \<Rightarrow> io_fail (PlainErr ''failed to WaitForNVMeTCPTargetDisconnect because nvmeTCPInfo is nil'')
     | Some _ \<Rightarrow> locked env (
         io_bind (for_loop env delay (nat maxRetries) (poll_disconnected env) (False, None)) ?fin))"
    unfolding WaitForNVMeTCPTargetDisconnect_def poll_is_loop body ..
qed

section \<open>A target that is still connected\<close>

lemma poll_panics:
  assumes "load_recorded env n = (Inr (), n1)"
  shows "for_loop env delay (Suc k) (poll_disconnected env) st n = (Inl nil_pointer, n1)"
  using assms by (simp add: io_bind_def poll_disconnected_def io_case_def io_fail_def)

text \<open>
  Property C40. Waiting for a target to disconnect does not survive one that is still connected: when the first
  poll can load the device, there is no error, the code asks the nil error for its text, and the process
  panics, whatever the number of retries; a lock that was taken is released on the way.
\<close>

theorem WaitForNVMeTCPTargetDisconnect_panics:
  assumes info: "NVMeTCPInfo (self (obj n)) = Some info" and pos: "0 < maxRetries"
    and start: "if hostProc (self (obj n)) = [] then n0 = n else newLock env n = (Inr (), n0)"
    and loads: "load_recorded env n0 = (Inr (), n1)"
  shows "WaitForNVMeTCPTargetDisconnect env maxRetries delay n =
    (Inl nil_pointer, if hostProc (self (obj n)) = [] then n1 else snd (unlock env (self (obj n)) n1))"
proof -
  obtain k where k: "nat maxRetries = Suc k" using pos by (cases "nat maxRetries") auto
  let ?body = "if maxRetries \<le> 0 then io_return () else
      io_bind (poll_retry env delay (nat maxRetries) (nat maxRetries + 1) 0 (poll_disconnected env) (False, None))
        (\<lambda>(found, lastErr). if found then io_return () else (case lastErr of None \<Rightarrow> io_return () | Some err \<Rightarrow> io_fail err))"
  have body: "?body n0 = (Inl nil_pointer, n1)"
    unfolding poll_is_loop k using pos by (simp add: io_bind_def poll_panics [OF loads] del: for_loop.simps)
  have w: "WaitForNVMeTCPTargetDisconnect env maxRetries delay n = locked env ?body n"
    using info by (simp add: WaitForNVMeTCPTargetDisconnect_def io_bind_def [of this] this_run del: poll_retry.simps)
  show ?thesis
  proof (cases "hostProc (self (obj n)) = []")
    case True
    with start body w show ?thesis by (simp add: locked_def io_bind_def [of this] this_run del: poll_retry.simps)
  next
    case False
    then have "newLock env n = (Inr (), n0)" using start by simp
    moreover have "deferring ?body (unlock env (self (obj n))) n0 = (Inl nil_pointer, snd (unlock env (self (obj n)) n1))"
      unfolding deferring_def body by (simp add: nil_pointer_def)
    ultimately have "locked env ?body n = (Inl nil_pointer, snd (unlock env (self (obj n)) n1))"
      unfolding locked_def io_bind_def [of this] this_run using False
      by (simp add: io_bind_def [of "newLock env"] del: poll_retry.simps)
    with w False show ?thesis by simp
  qed
qed

theorem WaitForNVMeTCPTargetDisconnect_panics_witness:
  "fst (WaitForNVMeTCPTargetDisconnect path_env 3 1 (run_node fresh_process Map.empty [])) = Inl nil_pointer"
proof -
  obtain l0 where l0: "newLock path_env (run_node fresh_process Map.empty []) = (Inr (), run_node fresh_process Map.empty l0)"
    by (rule path_lock)
  obtain l1 where "loadNVMeDeviceInfoWithoutLock path_env ''10.0.0.1'' ''4420'' ''nqn.a'' (run_node fresh_process Map.empty l0) =
      (Inr (), run_node (loaded no_device False) Map.empty l1)"
    using path_load by blast
  then have "load_recorded path_env (run_node fresh_process Map.empty l0) = (Inr (), run_node (loaded no_device False) Map.empty l1)"
    by (simp add: load_recorded_def info_ptr_def io_bind_def this_run io_return_def)
  then show ?thesis
    using WaitForNVMeTCPTargetDisconnect_panics [of "run_node fresh_process Map.empty []" "path_info [] []" 3 _ path_env _ 1] l0
    by (simp add: HostProcDirectory_def)
qed

end
