(* ===== verification/InitiatorPaths.thy ===== *)
theory InitiatorPaths
  imports InitiatorWaits
begin

text \<open>
  Connecting a path: how much a connection attempt may do to the host, and that a failed one is undone.
\<close>

section \<open>Bounded work\<close>

text \<open>\<open>within G Q k m\<close>: every event of \<open>m\<close> satisfies \<open>G\<close>, and at most \<open>k\<close> of them satisfy \<open>Q\<close>.\<close>

definition within :: "(event \<Rightarrow> bool) \<Rightarrow> (event \<Rightarrow> bool) \<Rightarrow> nat \<Rightarrow> ('o, 'w, 'a) op \<Rightarrow> bool" where
  "within G Q k m = logs m (\<lambda>_ es. list_all G es \<and> length (filter Q es) \<le> k)"

lemma within_mono: "within G Q k m \<Longrightarrow> k \<le> k' \<Longrightarrow> within G Q k' m"
  unfolding within_def by (erule logs_mono) simp

lemma within_case:
  assumes "within G Q a m" and "\<And>e. within G Q b (h e)" and "\<And>x. within G Q b (f x)"
  shows "within G Q (a + b) (io_case m h f)"
  unfolding within_def
proof (rule logs_case [OF assms(1) [unfolded within_def]])
  fix e cs assume "list_all G cs \<and> length (filter Q cs) \<le> a"
  then show "logs (h e) (\<lambda>_ es. list_all G (cs @ es) \<and> length (filter Q (cs @ es)) \<le> a + b)"
    by (intro logs_mono [OF assms(2) [unfolded within_def]]) simp
next
  fix x cs assume "list_all G cs \<and> length (filter Q cs) \<le> a"
  then show "logs (f x) (\<lambda>_ es. list_all G (cs @ es) \<and> length (filter Q (cs @ es)) \<le> a + b)"
    by (intro logs_mono [OF assms(3) [unfolded within_def]]) simp
qed simp

lemma within_bind:
  "within G Q a m \<Longrightarrow> (\<And>x. within G Q b (f x)) \<Longrightarrow> within G Q (a + b) (io_bind m f)"
  unfolding io_bind_as_case by (rule within_case) (simp_all add: within_def logs_fail)

lemma within_pure:
  "within G Q k (io_return x)" "within G Q k (io_fail e)" "within G Q k (io_lift r)"
  by (auto simp: within_def intro!: logs_return logs_fail logs_lift)

lemma within_get: "within G Q 0 get"
  unfolding within_def by (rule logs_mono [OF logs_get]) simp

text \<open>The same, with the sum of the two bounds below a given one.\<close>

lemma within_case_le:
  "within G Q a m \<Longrightarrow> (\<And>e. within G Q b (h e)) \<Longrightarrow> (\<And>x. within G Q b (f x)) \<Longrightarrow> a + b \<le> k \<Longrightarrow>
    within G Q k (io_case m h f)"
  by (rule within_mono [OF within_case])

lemma within_bind_le:
  "within G Q a m \<Longrightarrow> (\<And>x. within G Q b (f x)) \<Longrightarrow> a + b \<le> k \<Longrightarrow> within G Q k (io_bind m f)"
  by (rule within_mono [OF within_bind])

lemma within_this: "within G Q 0 this"
  unfolding this_def by (rule within_bind_le [OF within_get within_pure(1)]) simp

lemma within_info_ptr: "within G Q 0 info_ptr"
  unfolding info_ptr_def
  by (rule within_bind_le [OF within_this, where b = 0]) (simp_all add: within_pure split: option.split)

lemma within_if: "within G Q k a \<Longrightarrow> within G Q k b \<Longrightarrow> within G Q k (if c then a else b)"
  by simp

lemma within_wrapping: "within G Q k m \<Longrightarrow> within G Q k (wrapping msg m)"
  unfolding wrapping_def by (erule within_case_le [where b = 0]) (simp_all add: within_pure)

lemma within_queries:
  assumes "all_execs is_query m" and "\<And>c. is_query c \<Longrightarrow> G (Ran c) \<and> \<not> Q (Ran c)"
  shows "within G Q 0 (on_host m)"
  unfolding within_def
  by (rule logs_mono [OF logs_on_host [OF assms(1) [unfolded all_execs_def]]])
    (use assms(2) in \<open>auto simp: list_all_iff filter_empty_conv\<close>)

lemma within_retry:
  assumes f: "within G Q a f" and g: "G (Sys (Sleep d))" and b: "Q (Sys (Sleep d)) \<Longrightarrow> 1 \<le> b"
  shows "within G Q (k * a + (k - 1) * b) (retry_do env d k f)"
proof (induction k)
  case 0
  then show ?case by (simp add: within_pure)
next
  case (Suc k)
  have p: "within G Q b (pause env d)"
    unfolding within_def by (rule logs_mono [OF logs_pause]) (use g b in auto)
  have "within G Q (k * a + k * b) (case x of Succeeded x \<Rightarrow> io_return x | Again e \<Rightarrow>
      if k = 0 then io_fail e else io_bind (pause env d) (\<lambda>_. retry_do env d k f) | GiveUp e \<Rightarrow> io_fail e)" for x
  proof (cases "k = 0")
    case False
    then have "b + (k * a + (k - 1) * b) = k * a + k * b" by (cases k) simp_all
    with within_bind [OF p Suc] have "within G Q (k * a + k * b) (io_bind (pause env d) (\<lambda>_. retry_do env d k f))"
      by metis
    then show ?thesis
      using False by (auto simp: within_pure split: attempt.split)
  qed (auto simp: within_pure split: attempt.split)
  then show ?case
    unfolding retry_do.simps by (rule within_bind_le [OF f]) simp
qed


section \<open>The connection loop\<close>

definition is_connect :: "string \<Rightarrow> string \<Rightarrow> event \<Rightarrow> bool" where
  "is_connect a s e = (\<exists>hostID hostNQN nqn nr. e = Ran (connect_command hostID hostNQN a s nqn nr))"

definition is_wait :: "int \<Rightarrow> event \<Rightarrow> bool" where
  "is_wait d e = (e = Sys (Sleep d))"

definition connecting :: "string \<Rightarrow> string \<Rightarrow> int \<Rightarrow> event \<Rightarrow> bool" where
  "connecting a s d e = ((\<exists>c. e = Ran c \<and> is_query c) \<or> is_connect a s e \<or> is_wait d e)"

lemma query_no_connect: "is_query c \<Longrightarrow> connecting a s d (Ran c) \<and> \<not> is_connect a s (Ran c)"
  by (auto simp: connecting_def is_connect_def is_query_def connect_command_def connect_to_def nvmeBinary_def)

lemma query_no_wait: "is_query c \<Longrightarrow> connecting a s d (Ran c) \<and> \<not> is_wait d (Ran c)"
  by (auto simp: connecting_def is_wait_def)

lemma connect_is_connect: "is_connect a s (Ran (connect_command hostID hostNQN a s nqn nr))"
  unfolding is_connect_def by blast

lemma connect_events:
  "within (connecting a s d) (is_connect a s) 1 (on_host (ConnectTargetWithNrIoQueues ex a s nqn nr))" (is ?connects)
  "within (connecting a s d) (is_wait d) 0 (on_host (ConnectTargetWithNrIoQueues ex a s nqn nr))" (is ?waits)
proof -
  have t: "list_all (connecting a s d) (map Ran cs) \<and> length (filter (is_connect a s) (map Ran cs)) \<le> 1 \<and>
      length (filter (is_wait d) (map Ran cs)) \<le> 0"
    if q: "queries_then (\<lambda>tl. tl = [] \<or> (\<exists>hostID hostNQN. tl = [connect_command hostID hostNQN a s nqn nr])) cs" for cs
  proof -
    obtain qs tl where cs: "cs = qs @ tl" "\<forall>c \<in> set qs. is_query c"
      and tl: "tl = [] \<or> (\<exists>hostID hostNQN. tl = [connect_command hostID hostNQN a s nqn nr])"
      using q by (auto simp: queries_then_def list_all_iff)
    have "list_all (connecting a s d) (map Ran qs)" "filter (is_connect a s) (map Ran qs) = []"
      using cs(2) query_no_connect by (auto simp: list_all_iff filter_empty_conv)
    moreover have "list_all (connecting a s d) (map Ran tl)" "length (filter (is_connect a s) (map Ran tl)) \<le> 1"
      using tl connect_is_connect [of a s] by (auto simp: connecting_def)
    ultimately show ?thesis by (simp add: cs(1) is_wait_def filter_empty_conv)
  qed
  note l = logs_on_host [OF ConnectTarget_logs]
  show ?connects unfolding within_def by (rule logs_mono [OF l]) (use t in blast)
  show ?waits unfolding within_def by (rule logs_mono [OF l]) (use t in blast)
qed

lemma attempt_within:
  fixes env :: "'w node_env"
  assumes q: "\<And>c. is_query c \<Longrightarrow> connecting a s d (Ran c) \<and> \<not> Q (Ran c)"
    and c: "\<And>nqn nr. within (connecting a s d) Q k (on_host (ConnectTargetWithNrIoQueues (executor env) a s nqn nr) :: ('w, string) iop)"
  shows "within (connecting a s d) Q k (connect_attempt env a s)"
proof -
  have h: "within (connecting a s d) Q 0 (on_host m :: ('w, 'b) iop)" if "all_execs is_query m" for m :: "('w host, 'b) io"
    by (rule within_queries [OF that]) (erule q)
  have n: "within (connecting a s d) Q 0 (target_nqn env a s)"
    unfolding target_nqn_def
    by (rule within_bind_le [OF within_info_ptr, where b = 0])
      (simp_all add: within_pure within_wrapping h discover_queries)
  have f: "within (connecting a s d) Q 0 (findControllerBySubsystem env nqn a s)" for nqn
    unfolding findControllerBySubsystem_def GetSubsystems_def
    by (rule within_bind_le [where a = 0 and b = 0])
      (simp_all add: within_pure within_wrapping h listSubsystems_queries split: option.split)
  have r: "within (connecting a s d) Q 0 (if already_connected e
        then io_case (findControllerBySubsystem env nqn a s)
          (\<lambda>_. io_return (GiveUp (connect_failed a s nqn e))) (\<lambda>name. io_return (Succeeded (nqn, name)))
        else io_return (Again (connect_failed a s nqn e)))" for e nqn
    by (rule within_if [OF within_case_le [OF f, where b = 0]]) (simp_all add: within_pure)
  have t: "within (connecting a s d) Q k (io_bind this (\<lambda>i.
          io_case (on_host (ConnectTargetWithNrIoQueues (executor env) a s nqn (nrIoQueues i)))
            (\<lambda>e. if already_connected e
                  then io_case (findControllerBySubsystem env nqn a s)
                    (\<lambda>_. io_return (GiveUp (connect_failed a s nqn e)))
                    (\<lambda>name. io_return (Succeeded (nqn, name)))
                  else io_return (Again (connect_failed a s nqn e)))
            (\<lambda>name. io_return (Succeeded (nqn, name)))))" for nqn
    by (rule within_bind_le [OF within_this, where b = k], rule within_case_le [OF c, where b = 0], rule r, rule within_pure)
      simp_all
  show ?thesis
    unfolding connect_attempt_def by (rule within_case_le [OF n, where b = k], rule within_pure, rule t) simp
qed

lemmas attempt_events =
  attempt_within [OF query_no_connect connect_events(1)] attempt_within [OF query_no_wait connect_events(2)]

text \<open>
  Property C29. Connecting is bounded, whatever the host answers: in up to \<open>maxRetries\<close> attempts,
  \<open>discoverAndConnectNVMeTCPTarget\<close> runs queries, at most \<open>maxRetries\<close> \<open>nvme connect\<close> commands, all for the
  requested address and port, and fewer waits than attempts, each of the requested length, and nothing else.
\<close>

theorem discoverAndConnect_bounded:
  "logs (discoverAndConnectNVMeTCPTarget env a s maxRetries d)
     (\<lambda>_ es. list_all (connecting a s d) es \<and> length (filter (is_connect a s) es) \<le> maxRetries \<and>
        length (filter (is_wait d) es) \<le> maxRetries - 1)"
proof -
  have body: "within (connecting a s d) Q k (discoverAndConnectNVMeTCPTarget env a s maxRetries d)"
    if "within (connecting a s d) Q k (retry_do env d maxRetries (connect_attempt env a s))" for Q k
    unfolding discoverAndConnectNVMeTCPTarget_def
    by (rule within_bind_le [OF within_this, where b = k])
      (simp_all add: within_pure within_wrapping that split: option.split)
  have g: "connecting a s d (Sys (Sleep d))" "\<not> is_connect a s (Sys (Sleep d))"
    by (simp_all add: connecting_def is_wait_def is_connect_def)
  have "within (connecting a s d) (is_connect a s) maxRetries (discoverAndConnectNVMeTCPTarget env a s maxRetries d)"
    using within_retry [OF attempt_events(1) g(1), of 0 maxRetries] g(2) by (intro body) simp
  moreover have "within (connecting a s d) (is_wait d) (maxRetries - 1) (discoverAndConnectNVMeTCPTarget env a s maxRetries d)"
    using within_retry [OF attempt_events(2) g(1), of 1 maxRetries] by (intro body) simp
  ultimately show ?thesis
    unfolding within_def traces_def by (metis append_same_eq same_append_eq)
qed

section \<open>A failed connection is undone\<close>

text \<open>States that differ at most in what the NVMe/TCP information holds.\<close>

definition info_only :: "process \<Rightarrow> process \<Rightarrow> bool" where
  "info_only p q = (\<exists>f. q = p\<lparr> self := (self p)\<lparr> NVMeTCPInfo := map_option f (NVMeTCPInfo (self p)) \<rparr> \<rparr>)"

lemma info_only_refl: "info_only p p"
proof -
  have "p = p\<lparr> self := (self p)\<lparr> NVMeTCPInfo := map_option id (NVMeTCPInfo (self p)) \<rparr> \<rparr>"
    by (simp add: option.map_id)
  then show ?thesis unfolding info_only_def by blast
qed

lemma info_only_trans: "info_only p q \<Longrightarrow> info_only q r \<Longrightarrow> info_only p r"
proof -
  assume "info_only p q" "info_only q r"
  then obtain f g where "q = p\<lparr> self := (self p)\<lparr> NVMeTCPInfo := map_option f (NVMeTCPInfo (self p)) \<rparr> \<rparr>"
    "r = q\<lparr> self := (self q)\<lparr> NVMeTCPInfo := map_option g (NVMeTCPInfo (self q)) \<rparr> \<rparr>"
    unfolding info_only_def by blast
  then have "r = p\<lparr> self := (self p)\<lparr> NVMeTCPInfo := map_option (g \<circ> f) (NVMeTCPInfo (self p)) \<rparr> \<rparr>"
    by (simp add: option.map_comp)
  then show ?thesis unfolding info_only_def by blast
qed

lemma set_info_only: "set_info f n = (r, n') \<Longrightarrow> info_only (obj n) (obj n') \<and> r = Inr ()"
  unfolding info_only_def by (auto simp: set_info_def set_self_run)

lemma obj_only: "obj n' = obj n \<Longrightarrow> info_only (obj n) (obj n')"
  using info_only_refl by simp

text \<open>Loading the device fails before it stores the device.\<close>

lemma use_controller_fails:
  assumes "use_controller env ns c n = (Inl e, n')"
  shows "info_only (obj n) (obj n')"
proof -
  obtain n1 where s: "set_info (with_controller c ns) n = (Inr (), n1)"
    by (metis surj_pair set_info_only)
  let ?d = "wrapping (''cannot find the device for NVMe/TCP initiator '' @ Initiator.Name (self (obj n)) @ '' with namespace name '' @
         Namespace.NameSpace ns) (on_host (DetectDevice (executor env) (join_path [''/dev'', Namespace.NameSpace ns])))"
  have "?d n1 = (Inl e, n')"
    using assms s by (auto simp: use_controller_def io_bind_def this_run set_self_run split: prod.splits sum.splits)
  then have "obj n' = obj n1" using keeps_run [of ?d] by simp
  then show ?thesis using set_info_only [OF s] by simp
qed

lemma load_fails:
  assumes "loadNVMeDeviceInfoWithoutLock env a s q n = (Inl e, n')"
  shows "info_only (obj n) (obj n')"
proof (cases "NVMeTCPInfo (self (obj n))")
  case None
  then show ?thesis
    using assms by (simp add: loadNVMeDeviceInfoWithoutLock_def io_bind_def this_run io_fail_def info_only_refl)
next
  case (Some info)
  then have run: "io_bind (on_host (GetDevices (executor env) a s q)) (load_devices env a s (self (obj n)) info) n = (Inl e, n')"
    using assms by (simp add: loadNVMeDeviceInfoWithoutLock_def io_bind_def [of this] this_run)
  obtain r n1 where g: "on_host (GetDevices (executor env) a s q) n = (r, n1)" by (cases "on_host (GetDevices (executor env) a s q) n")
  have o: "obj n1 = obj n" using keeps_run [OF keeps_on_host g] .
  show ?thesis
  proof (cases r)
    case (Inl e')
    with run g o show ?thesis by (simp add: io_bind_def obj_only)
  next
    case (Inr devs)
    then have l: "load_devices env a s (self (obj n)) info devs n1 = (Inl e, n')"
      using run g by (simp add: io_bind_def)
    have "info_only (obj n1) (obj n')"
    proof (cases "\<exists>d ns. devs = [d] \<and> Device.Namespaces d = [ns]")
      case False
      then have "\<exists>m. load_devices env a s (self (obj n)) info devs = io_fail m"
        unfolding load_devices_def by (auto split: list.splits)
      with l show ?thesis by (auto simp: io_fail_def info_only_refl)
    next
      case True
      then obtain d ns where "devs = [d]" "Device.Namespaces d = [ns]" by blast
      with l use_controller_fails [of env ns _ n1 e n'] show ?thesis
        by (auto simp: load_devices_def io_bind_def wrapping_def io_case_def io_lift_def io_fail_def io_return_def
            info_only_refl split: sum.splits if_splits)
    qed
    then show ?thesis by (simp add: o)
  qed
qed

lemma retry_fails:
  assumes "\<And>n e n'. m n = (Inl e, n') \<Longrightarrow> info_only (obj n) (obj n')"
    and "retry_do env d k (attempt m) n = (Inl e, n')"
  shows "info_only (obj n) (obj n')"
  using assms(2)
proof (induction k arbitrary: n)
  case 0
  then show ?case by (simp add: io_fail_def info_only_refl)
next
  case (Suc k)
  obtain r n1 where m: "m n = (r, n1)" by (cases "m n")
  with Suc.prems obtain e1 where e1: "r = Inl e1" by (cases r) (auto simp: retry_step simp del: retry_do.simps)
  have i: "info_only (obj n) (obj n1)" using assms(1) m e1 by simp
  show ?case
  proof (cases "is_panic e1 \<or> k = 0")
    case True
    with Suc.prems m e1 i show ?thesis by (auto simp: retry_step simp del: retry_do.simps)
  next
    case False
    with Suc.prems m e1 have "retry_do env d k (attempt m) (snd (pause env d n1)) = (Inl e, n')"
      by (auto simp: retry_step simp del: retry_do.simps)
    from Suc.IH [OF this] i show ?thesis by (auto simp: pause_def intro: info_only_trans)
  qed
qed

lemma wait_load_fails:
  assumes "waitAndLoadNVMeDeviceInfoWithoutLock env a s n = (Inl e, n')"
  shows "info_only (obj n) (obj n')"
proof -
  let ?m = "io_bind info_ptr (\<lambda>info. loadNVMeDeviceInfoWithoutLock env a s (SubsystemNQN info))"
  have f: "info_only (obj n) (obj n')" if "?m n = (Inl e, n')" for n e n'
    using that load_fails
    by (auto simp: io_bind_def info_ptr_def this_run io_fail_def io_return_def info_only_refl split: option.splits)
  show ?thesis
  proof (cases "NVMeTCPInfo (self (obj n))")
    case None
    with assms show ?thesis
      by (simp add: waitAndLoadNVMeDeviceInfoWithoutLock_def io_bind_def [of this] this_run io_fail_def info_only_refl)
  next
    case (Some info)
    with assms obtain e' where "retry_do env waitDeviceInterval maxWaitDeviceRetries (attempt ?m) n = (Inl e', n')"
      by (auto simp: waitAndLoadNVMeDeviceInfoWithoutLock_def io_bind_def [of this] this_run io_fail_def wrapping_def
          io_case_def io_return_def split: prod.splits sum.splits if_splits)
    from retry_fails [OF f this] show ?thesis by simp
  qed
qed

lemma keeps_discover [simp]: "keeps_obj (discoverAndConnectNVMeTCPTarget env a s k d)"
proof -
  have p: "keeps_obj info_ptr"
    unfolding info_ptr_def by (rule keeps_bind) (simp_all split: option.split)
  have t: "keeps_obj (target_nqn env a s)"
    unfolding target_nqn_def by (rule keeps_bind [OF p]) simp
  have f: "keeps_obj (findControllerBySubsystem env nqn a s)" for nqn
    unfolding findControllerBySubsystem_def by (rule keeps_bind) (simp_all split: option.split)
  have c: "keeps_obj (connect_attempt env a s)"
    unfolding connect_attempt_def by (intro keeps_case keeps_bind keeps_if t f) simp_all
  have r: "keeps_obj (retry_do env d k (connect_attempt env a s))" for k
    by (induction k) (auto intro!: keeps_bind c split: attempt.split)
  show ?thesis
    unfolding discoverAndConnectNVMeTCPTarget_def by (rule keeps_bind) (simp_all add: r split: option.split)
qed

lemma record_only: "recordConnectedNVMeTCPInfo nqn c n = (r, n') \<Longrightarrow> info_only (obj n) (obj n')"
proof (cases "NVMeTCPInfo (self (obj n))")
  case None
  moreover assume "recordConnectedNVMeTCPInfo nqn c n = (r, n')"
  ultimately show ?thesis
    by (simp add: recordConnectedNVMeTCPInfo_def io_bind_def this_run io_fail_def info_only_refl)
next
  case (Some info)
  assume run: "recordConnectedNVMeTCPInfo nqn c n = (r, n')"
  let ?a = "if nqn \<noteq> [] then set_info (\<lambda>info. info\<lparr> SubsystemNQN := nqn \<rparr>) else io_return ()"
  obtain n1 where a: "?a n = (Inr (), n1)" and i: "info_only (obj n) (obj n1)"
    by (cases "nqn = []") (auto simp: io_return_def info_only_refl set_info_only, metis set_info_only surj_pair)
  have "(if c = [] then io_fail (PlainErr ''controller name is empty'')
         else set_info (\<lambda>info. info\<lparr> ControllerName := c \<rparr>)) n1 = (r, n')"
    using run Some a by (simp add: recordConnectedNVMeTCPInfo_def io_bind_def [of this] this_run io_bind_def [of ?a])
  then have "info_only (obj n1) (obj n')"
    by (auto simp: io_fail_def info_only_refl set_info_only split: if_splits)
  with i show ?thesis by (rule info_only_trans)
qed

text \<open>Putting the saved information back.\<close>

lemma undo_restores:
  assumes "undo_connect env info nqn a s e n = (Inl e', n')" and "\<not> is_panic e'"
    and "info_only p (obj n)" and "NVMeTCPInfo (self p) = Some info"
  shows "obj n' = p"
proof -
  let ?d = "io_case (on_host (DisconnectController (executor env) nqn a s)) (\<lambda>_. io_return ()) io_return"
  obtain r n1 where d: "?d n = (r, n1)" by (cases "?d n")
  have o: "obj n1 = obj n" by (rule keeps_run [OF keeps_case d]) simp_all
  have "r = Inr () \<or> (\<exists>x. r = Inl x \<and> is_panic x)"
    using d by (auto simp: io_case_def io_return_def split: prod.splits sum.splits if_splits)
  then have "r = Inr ()" using assms(1,2) d by (auto simp: undo_connect_def io_bind_def)
  then have "n' = n1\<lparr> obj := (obj n1)\<lparr> self := (self (obj n1))\<lparr> NVMeTCPInfo := map_option (\<lambda>_. info) (NVMeTCPInfo (self (obj n1))) \<rparr> \<rparr> \<rparr>"
    using assms(1) d by (simp add: undo_connect_def io_bind_def set_info_def set_self_run io_fail_def)
  then show ?thesis using assms(3,4) o by (auto simp: info_only_def)
qed

lemma established_fails:
  fixes env :: "'w node_env"
  defines "undo \<equiv> undo_connect env"
  assumes run: "io_case (recordConnectedNVMeTCPInfo nqn c) (undo info nqn a s)
      (\<lambda>_. io_case (waitAndLoadNVMeDeviceInfoWithoutLock env a s) (undo info nqn a s) io_return) n = (Inl e, n')"
    and calm: "\<not> is_panic e" and p: "obj n = p" "NVMeTCPInfo (self p) = Some info"
  shows "obj n' = p"
proof -
  obtain r1 n1 where rec: "recordConnectedNVMeTCPInfo nqn c n = (r1, n1)" by (cases "recordConnectedNVMeTCPInfo nqn c n")
  have i1: "info_only p (obj n1)" using record_only [OF rec] p(1) by simp
  show ?thesis
  proof (cases r1)
    case (Inl e1)
    with run rec calm have "undo info nqn a s e1 n1 = (Inl e, n')" by (auto simp: io_case_def split: if_splits)
    from undo_restores [OF this [unfolded undo_def] calm i1 p(2)] show ?thesis .
  next
    case (Inr u)
    obtain r2 n2 where w: "waitAndLoadNVMeDeviceInfoWithoutLock env a s n1 = (r2, n2)"
      by (cases "waitAndLoadNVMeDeviceInfoWithoutLock env a s n1")
    with run rec Inr calm obtain e2 where e2: "r2 = Inl e2" "undo info nqn a s e2 n2 = (Inl e, n')"
      by (cases r2) (auto simp: io_case_def io_return_def split: if_splits)
    have "info_only p (obj n2)" using info_only_trans [OF i1 wait_load_fails] w e2(1) by simp
    from undo_restores [OF e2(2) [unfolded undo_def] calm this p(2)] show ?thesis .
  qed
qed

lemma connect_and_load_fails:
  assumes run: "connect_and_load env a s n = (Inl e, n')" and calm: "\<not> is_panic e"
  shows "obj n' = obj n"
proof (cases "NVMeTCPInfo (self (obj n))")
  case None
  with run show ?thesis by (simp add: connect_and_load_def info_ptr_def io_bind_def this_run io_fail_def)
next
  case (Some info)
  let ?disc = "discoverAndConnectNVMeTCPTarget env a s maxConnectTargetRetries retryConnectTargetInterval"
  obtain r n1 where d: "?disc n = (r, n1)" by (cases "?disc n")
  have o: "obj n1 = obj n" by (rule keeps_run [OF keeps_discover d])
  show ?thesis
  proof (cases r)
    case (Inl e')
    with run d o Some show ?thesis
      by (simp add: connect_and_load_def info_ptr_def io_bind_def this_run io_return_def)
  next
    case (Inr x)
    obtain nqn c where x: "x = (nqn, c)" by (cases x)
    have "io_case (recordConnectedNVMeTCPInfo nqn c) (undo_connect env info nqn a s)
        (\<lambda>_. io_case (waitAndLoadNVMeDeviceInfoWithoutLock env a s) (undo_connect env info nqn a s) io_return) n1 = (Inl e, n')"
      using run d Inr x Some
      by (simp add: connect_and_load_def info_ptr_def io_bind_def this_run io_return_def Let_def)
    from established_fails [OF this calm o Some] show ?thesis .
  qed
qed

text \<open>
  Property C4. A failed connection is undone: when \<open>ensureNVMeTCPPathWithoutLock\<close> returns an error, wherever it
  came from (the discovery, the connect command, a missing controller name, a device that never appeared, a
  failing lookup of it), the initiator is exactly as it was before the new connection was tried: the subsystem,
  controller, namespace and address that were recorded, and the device, which stays the one it had.
\<close>

theorem failed_connection_undone:
  assumes "ensureNVMeTCPPathWithoutLock env a s n = (Inl e, n')" and "\<not> is_panic e"
  shows "obj n' = obj (snd (reuseExistingNVMeTCPPathWithoutLock env a s n))"
proof -
  obtain r n1 where r: "reuseExistingNVMeTCPPathWithoutLock env a s n = (r, n1)"
    by (cases "reuseExistingNVMeTCPPathWithoutLock env a s n")
  have "connect_and_load env a s n1 = (Inl e, n')"
    using assms r by (auto simp: ensureNVMeTCPPathWithoutLock_def io_case_def io_return_def split: sum.splits if_splits)
  with connect_and_load_fails [OF this assms(2)] r show ?thesis by simp
qed

section \<open>A host without tools\<close>

lemma no_command [simp]: "\<exists>cs. nvme (executor table_env) opts h = (Inl (PlainErr ''no command''), h\<lparr> ran := cs \<rparr>)"
  by (auto simp: nvme_def Execute_def table_env_def)

lemma table_GetDevices:
  "\<exists>cs. GetDevices (executor table_env) a s nqn h = (Inl (WrapErr (''failed to get devices for address '' @ a @ '':'' @ s @
     '' and nqn '' @ nqn) (PlainErr ''no command'')), h\<lparr> ran := cs \<rparr>)"
proof -
  obtain cs where "nvme (executor table_env) [''list'', ''-o'', ''json''] h = (Inl (PlainErr ''no command''), h\<lparr> ran := cs \<rparr>)"
    using no_command by blast
  then show ?thesis
    by (auto simp: GetDevices_def io_wrapped_def io_case_def io_bind_def listRecognizedNvmeDevices_def io_fail_def)
qed

lemma table_connect:
  "\<exists>cs. ConnectTargetWithNrIoQueues (executor table_env) a s nqn nr h = (Inl (PlainErr ''no command''), h\<lparr> ran := cs \<rparr>)"
proof -
  obtain cs where g: "GetDevices (executor table_env) a s nqn h = (Inl (WrapErr (''failed to get devices for address '' @ a @
      '':'' @ s @ '' and nqn '' @ nqn) (PlainErr ''no command'')), h\<lparr> ran := cs \<rparr>)"
    using table_GetDevices by blast
  obtain cs' where "nvme (executor table_env) [''--show-hostnqn''] (h\<lparr> ran := cs \<rparr>) =
      (Inl (PlainErr ''no command''), h\<lparr> ran := cs \<rparr>\<lparr> ran := cs' \<rparr>)"
    using no_command by blast
  with g show ?thesis
    by (auto simp: ConnectTargetWithNrIoQueues_def io_case_def connect_new_def showHostNQN_def io_bind_def)
qed

lemma not_already_connected: "\<not> already_connected (PlainErr ''no command'')"
  by code_simp

lemma table_attempt:
  assumes "obj n = fresh_process"
  shows "\<exists>e n'. connect_attempt table_env a s n = (Inr (Again e), n') \<and> obj n' = fresh_process \<and> \<not> is_panic e"
proof -
  obtain K where k: "\<And>n :: table_node. on_host (ConnectTargetWithNrIoQueues (executor table_env) a s ''nqn.a'' 0) n =
      (Inl (PlainErr ''no command''), n\<lparr> log := K n \<rparr>)"
    using on_host_quiet [OF table_connect [of a s "''nqn.a''" 0]] by blast
  have t: "target_nqn table_env a s n = (Inr ''nqn.a'', n)"
    using assms by (simp add: target_nqn_def info_ptr_def io_bind_def this_run io_return_def)
  have q: "nrIoQueues (self fresh_process) = 0" by (simp add: nrIoQueues_def path_info_def)
  show ?thesis
    using assms by (simp add: connect_attempt_def io_case_def t io_bind_def this_run q k not_already_connected
        io_return_def connect_failed_def)
qed

lemma table_retry:
  "obj n = fresh_process \<Longrightarrow>
    \<exists>e n'. retry_do table_env d (Suc k) (connect_attempt table_env a s) n = (Inl e, n') \<and> \<not> is_panic e"
proof (induction k arbitrary: n)
  case 0
  then show ?case using table_attempt [of n a s] by (auto simp: io_bind_def io_fail_def)
next
  case (Suc k)
  obtain e n1 where a: "connect_attempt table_env a s n = (Inr (Again e), n1)" "obj n1 = fresh_process"
    using table_attempt [OF Suc.prems, of a s] by blast
  have "obj (snd (pause table_env d n1)) = fresh_process" using a(2) by (simp add: pause_def)
  from Suc.IH [OF this] a(1) show ?case
    unfolding retry_do.simps(2) [of table_env d "Suc k"]
    by (simp add: io_bind_def [of "connect_attempt table_env a s"]) (simp add: io_bind_def [of "pause table_env d"] pause_def)
qed

theorem failed_connection_undone_witness:
  "\<exists>e n'. ensureNVMeTCPPathWithoutLock table_env ''10.0.0.1'' ''4420'' (run_node fresh_process Map.empty []) = (Inl e, n') \<and>
     obj n' = fresh_process"
proof -
  let ?n = "run_node fresh_process Map.empty []"
  obtain K where k: "\<And>n :: table_node. on_host (GetDevices (executor table_env) ''10.0.0.1'' ''4420'' ''nqn.a'') n =
      (Inl (WrapErr (''failed to get devices for address '' @ ''10.0.0.1'' @ '':'' @ ''4420'' @ '' and nqn '' @ ''nqn.a'')
        (PlainErr ''no command'')), n\<lparr> log := K n \<rparr>)"
    using on_host_quiet [OF table_GetDevices] by blast
  obtain e1 l where r: "reuseExistingNVMeTCPPathWithoutLock table_env ''10.0.0.1'' ''4420'' ?n =
      (Inl e1, run_node fresh_process Map.empty l)" "\<not> is_panic e1"
    by (simp add: reuseExistingNVMeTCPPathWithoutLock_def loadNVMeDeviceInfoWithoutLock_def info_ptr_def io_bind_def
        this_run io_return_def k [simplified] run_node_def)
  have m: "maxConnectTargetRetries = Suc 14" by (simp add: maxConnectTargetRetries_def)
  obtain e n' where t: "retry_do table_env retryConnectTargetInterval maxConnectTargetRetries
      (connect_attempt table_env ''10.0.0.1'' ''4420'') (run_node fresh_process Map.empty l) = (Inl e, n')" "\<not> is_panic e"
    unfolding m
    using table_retry [where n = "run_node fresh_process Map.empty l" and d = retryConnectTargetInterval and k = 14
        and a = "''10.0.0.1''" and s = "''4420''"] by auto
  have c: "connect_and_load table_env ''10.0.0.1'' ''4420'' (run_node fresh_process Map.empty l) =
      (Inl (WrapErr (''failed to discover and connect NVMe/TCP target '' @ ''10.0.0.1'' @ '':'' @ ''4420'') e), n')"
    using t by (simp add: connect_and_load_def info_ptr_def io_bind_def this_run io_return_def
        discoverAndConnectNVMeTCPTarget_def wrapping_def io_case_def io_fail_def)
  have run: "ensureNVMeTCPPathWithoutLock table_env ''10.0.0.1'' ''4420'' ?n =
      (Inl (WrapErr (''failed to discover and connect NVMe/TCP target '' @ ''10.0.0.1'' @ '':'' @ ''4420'') e), n')"
    using r c by (simp add: ensureNVMeTCPPathWithoutLock_def io_case_def)
  from failed_connection_undone [OF run] run r show ?thesis by auto
qed

end
