(* ===== verification/InitiatorEvents.thy ===== *)
theory InitiatorEvents
  imports InitiatorPaths
begin

text \<open>
  Which events the operations of the initiator add to the log. The interface \<open>quiet_events\<close> is a property that
  holds of every command, of every system call that is not a call on a file lock, and of every call to SPDK but
  the one that starts a ublk disk; what follows from it for the operations is proved once, and used for the
  events that start no disk, for the events that leave locks alone, and for any event.
\<close>

section \<open>Structure\<close>

definition emits :: "(event \<Rightarrow> bool) \<Rightarrow> ('o, 'w, 'a) op \<Rightarrow> bool" where
  "emits Q m = logs m (\<lambda>_ es. list_all Q es)"

named_theorems emitting \<open>which events an operation emits\<close>

lemma emits_case [emitting]:
  "emits Q m \<Longrightarrow> (\<And>e. emits Q (h e)) \<Longrightarrow> (\<And>x. emits Q (f x)) \<Longrightarrow> emits Q (io_case m h f)"
  unfolding emits_def by (rule logs_case) (auto elim!: logs_mono)

lemma emits_pure [emitting]:
  "emits Q (io_return x)" "emits Q (io_fail e)" "emits Q (io_lift r)" "emits Q get" "emits Q (modify f)"
  by (simp_all add: emits_def traces_def io_return_def io_fail_def io_lift_def get_def modify_def)

lemma emits_bind [emitting]: "emits Q m \<Longrightarrow> (\<And>x. emits Q (f x)) \<Longrightarrow> emits Q (io_bind m f)"
  unfolding io_bind_as_case by (rule emits_case) (simp_all add: emits_pure)

lemma emits_this [emitting]: "emits Q this" "emits Q (set_self f')" "emits Q (set_info f)" "emits Q (set_ublk g)"
  unfolding this_def set_info_def set_self_def set_ublk_def by (intro emitting)+

lemma emits_if [emitting]: "emits Q a \<Longrightarrow> emits Q b \<Longrightarrow> emits Q (if c then a else b)"
  and emits_option [emitting]: "emits Q m \<Longrightarrow> (\<And>x. emits Q (f x)) \<Longrightarrow> emits Q (case v of None \<Rightarrow> m | Some x \<Rightarrow> f x)"
  and emits_list [emitting]: "emits Q m' \<Longrightarrow> (\<And>x xs. emits Q (g x xs)) \<Longrightarrow> emits Q (case v' of [] \<Rightarrow> m' | x # xs \<Rightarrow> g x xs)"
  and emits_pair [emitting]: "(\<And>x y. emits Q (h x y)) \<Longrightarrow> emits Q (case p of (x, y) \<Rightarrow> h x y)"
  by (simp_all split: option.split list.split prod.split)

lemma emits_wrapping [emitting]: "emits Q m \<Longrightarrow> emits Q (wrapping msg m)"
  and emits_attempt [emitting]: "emits Q m' \<Longrightarrow> emits Q (attempt m')"
  unfolding wrapping_def attempt_def by (intro emitting; assumption)+

lemma emits_ptr [emitting]: "emits Q info_ptr" "emits Q dev_ptr" "emits Q ublk_ptr"
  unfolding info_ptr_def dev_ptr_def ublk_ptr_def by (intro emitting)+

lemma emits_busy [emitting]:
  "emits Q m \<Longrightarrow> (\<And>x. emits Q (k x)) \<Longrightarrow> emits Q (or_return b m k)" "emits Q m' \<Longrightarrow> emits Q (wrap_busy msg m')"
  unfolding or_return_def wrap_busy_def by (intro emitting; assumption)+

section \<open>The interface\<close>

fun is_lock_call :: "syscall \<Rightarrow> bool" where
  "is_lock_call (Lock path t) = True"
| "is_lock_call (Unlock path) = True"
| "is_lock_call _ = False"

lemma lock_calls [emitting]:
  "\<not> is_lock_call (Stat path)" "\<not> is_lock_call (Remove path)" "\<not> is_lock_call (MkdirAll path mode)"
  "\<not> is_lock_call (Mknod path mode num)" "\<not> is_lock_call (Chmod path mode)" "\<not> is_lock_call (Chown path uid gid)"
  "\<not> is_lock_call (CreateDirectory path)" "\<not> is_lock_call (Sleep d)"
  by simp_all

locale quiet_events =
  fixes Q :: "event \<Rightarrow> bool"
  assumes ran: "Q (Ran c)" and system: "\<not> is_lock_call x \<Longrightarrow> Q (Sys x)" and called: "rc_method p \<noteq> ''ublk_start_disk'' \<Longrightarrow> Q (Called p)"
begin

lemma outside [emitting]:
  "emits Q (on_host mh)" "\<not> is_lock_call x \<Longrightarrow> emits Q (do_sys env x)" "emits Q (do_stat env path)"
  "emits Q (pause env d)" "emits Q (remove env path)"
  by (auto simp: emits_def traces_def on_host_def do_sys_def do_stat_def pause_def remove_def ran system list_all_iff
      split: prod.splits)

lemma one_call_quiet:
  assumes "runs m (one_call meth ps t)" and "meth \<noteq> ''ublk_start_disk''"
  shows "emits Q (on_spdk m)"
  unfolding emits_def
  by (rule logs_mono [OF logs_on_spdk [OF assms(1)]]) (use assms(2) called in \<open>auto simp: one_call_def\<close>)

lemma retrying [emitting]: "emits Q f \<Longrightarrow> emits Q (retry_do env d k f)"
  by (induction k) (auto intro!: emitting split: attempt.split)

lemma polling [emitting]: "(\<And>st. emits Q (f st)) \<Longrightarrow> emits Q (poll_retry env d limit k i f st)"
proof (induction k arbitrary: i st)
  case (Suc k)
  then show ?case unfolding poll_retry.simps by (intro emitting) simp_all
qed (simp add: emitting)

lemma paths [emitting]:
  "emits Q (loadNVMeDeviceInfoWithoutLock env a s q)" "emits Q (waitAndLoadNVMeDeviceInfoWithoutLock env a s)"
  "emits Q (reuseExistingNVMeTCPPathWithoutLock env a s)" "emits Q (discoverAndConnectNVMeTCPTarget env a s k d)"
  unfolding reuseExistingNVMeTCPPathWithoutLock_def waitAndLoadNVMeDeviceInfoWithoutLock_def
    loadNVMeDeviceInfoWithoutLock_def load_devices_def use_controller_def discoverAndConnectNVMeTCPTarget_def
    connect_attempt_def target_nqn_def findControllerBySubsystem_def
  by (intro emitting)+

lemma connecting [emitting]:
  "emits Q (ensureNVMeTCPPathWithoutLock env a s)" "emits Q (connectNVMeTCPPathWithoutLock env a s)"
  unfolding ensureNVMeTCPPathWithoutLock_def connect_and_load_def recordConnectedNVMeTCPInfo_def undo_connect_def
    connectNVMeTCPPathWithoutLock_def Let_def
  by (intro emitting)+

lemma nodes [emitting]:
  "emits Q (RemoveDevice env path)" "emits Q (IsBlockDevice env path)" "emits Q (DuplicateDevice env d path)"
  unfolding RemoveDevice_def IsBlockDevice_def DuplicateDevice_def ensure_dir_def mknod_def
  by (intro emitting)+

lemma endpoints [emitting]:
  "emits Q (isEndpointValid env)" "emits Q (isEndpointExist env)" "emits Q (makeEndpoint env)" "emits Q (removeEndpoint env)"
  unfolding isEndpointValid_def isEndpointExist_def makeEndpoint_def removeEndpoint_def by (intro emitting)+

lemma linear [emitting]:
  "emits Q (createEndpoint env)" "emits Q (createLinearDmDevice env)" "emits Q (removeLinearDmDevice env b1 b2)"
  "emits Q (suspendLinearDmDevice env b1 b2)" "emits Q (resumeLinearDmDevice env)" "emits Q (reloadLinearDmDevice env)"
  "emits Q (IsSuspended env)" "emits Q (IsDeferredRemoveSet env)" "emits Q (LoadEndpointForNvmeTcpFrontend env b)"
  unfolding createEndpoint_def createLinearDmDevice_def validateDiskCreation_def load_dm_numbers_def set_export_def
    removeLinearDmDevice_def suspendLinearDmDevice_def resumeLinearDmDevice_def reloadLinearDmDevice_def
    IsSuspended_def IsDeferredRemoveSet_def dm_info_def LoadEndpointForNvmeTcpFrontend_def findDependentDevices_def
  by (intro emitting)+

lemma replacing [emitting]: "emits Q (replaceDmDeviceTarget env)"
  unfolding replaceDmDeviceTarget_def by (intro emitting)

lemma ublk_calls [emitting]:
  "emits Q (on_spdk (UblkStopDisk c i))" "emits Q (on_spdk (UblkGetDisks c i))" "emits Q (on_spdk (FindUblkDevicePath c i))"
proof -
  show "emits Q (on_spdk (UblkStopDisk c i))" "emits Q (on_spdk (UblkGetDisks c i))"
    unfolding UblkStopDisk_def UblkGetDisks_def by (rule one_call_quiet [OF runs_rpc], simp)+
  show "emits Q (on_spdk (FindUblkDevicePath c i))"
    unfolding FindUblkDevicePath_def UblkGetDisks_def by (rule one_call_quiet [OF runs_then_pure [OF runs_rpc]]) simp
qed

lemma stopping [emitting]: "emits Q (stopWithoutLock env c cleanup d r)"
  unfolding stopWithoutLock_def stop_dm_def stop_frontend_def stop_ublk_def by (intro emitting)

lemma attaching [emitting]: "(\<And>b. emits Q (k b)) \<Longrightarrow> emits Q (attach_dm env msg cleanup busy k)"
  unfolding attach_dm_def export_source_def by (intro emitting; assumption)

lemma starting [emitting]: "emits Q (start_nvme env a s cleanup stop)"
  unfolding start_nvme_def already_launched_def by (intro emitting)

lemma disks [emitting]: "emits Q (stop_disks_of env b ds)"
proof (induction ds)
  case (Cons d ds)
  then show ?case unfolding stop_disks_of.simps by (intro emitting)
qed (simp add: emitting)

lemma ids [emitting]: "emits Q (next_ublk_id ds)"
  unfolding next_ublk_id_def Let_def by (intro emitting)

lemma ublk_endpoint_quiet [emitting]: "emits Q (ublk_endpoint env b)"
  unfolding ublk_endpoint_def by (intro emitting)

end

definition starts_disk :: "event \<Rightarrow> bool" where
  "starts_disk e = (\<exists>p. e = Called p \<and> rc_method p = ''ublk_start_disk'')"

text \<open>With every call to SPDK allowed, the disk may be started as well.\<close>

locale all_calls = quiet_events +
  assumes every_call: "Q (Called p)"
begin

lemma spdk_calls [emitting]: "emits Q (on_spdk ms)"
  by (auto simp: emits_def traces_def on_spdk_def list_all_iff every_call split: prod.splits)

lemma launching [emitting]: "emits Q (launch_ublk env i)"
  unfolding launch_ublk_def ensure_ublk_target_def by (intro emitting)

lemma starting_ublk [emitting]: "emits Q (start_ublk env cleanup)"
  unfolding start_ublk_def by (intro emitting)

lemma unlocked [emitting]:
  "emits Q (SyncDmDeviceSize env z)" "emits Q (WaitForControllerLive env a s k d)"
  unfolding SyncDmDeviceSize_def poll_size_def WaitForControllerLive_def controller_live_def Let_def by (intro emitting)+

end

text \<open>The events that do not touch a file lock.\<close>

fun off_lock :: "event \<Rightarrow> bool" where
  "off_lock (Sys x) = (\<not> is_lock_call x)"
| "off_lock _ = True"

interpretation any: all_calls "\<lambda>_. True"
  by unfold_locales simp_all

interpretation inside: all_calls off_lock
  by unfold_locales simp_all

interpretation calm: quiet_events "\<lambda>e. \<not> starts_disk e"
  by unfold_locales (simp_all add: starts_disk_def)

end
