(* ===== verification/ExitFree.thy ===== *)
theory ExitFree
  imports NvmeTarget DmSetup SpdkUblk
begin

text \<open>
  Which errors an operation can end with. The process can exit in the middle of an operation (\<open>logrus.Fatalf\<close>),
  and then nothing deferred runs, so that what an operation promises on every way out depends on it. Here: decoders, parsers, the
  commands on the host and the calls to SPDK never exit, if no answer of the host is an exit.
\<close>

section \<open>Results\<close>

fun is_exit :: "go_error \<Rightarrow> bool" where
  "is_exit (GoExit m) = True"
| "is_exit _ = False"

lemma is_exit_panic: "is_exit e \<Longrightarrow> is_panic e"
  by (cases e) simp_all

definition ordinary :: "go_error + 'a \<Rightarrow> bool" where
  "ordinary r = (case r of Inl e \<Rightarrow> \<not> is_exit e | Inr x \<Rightarrow> True)"

lemma ordinary_simps [simp]: "ordinary (Inr x)" "ordinary (Inl e) \<longleftrightarrow> \<not> is_exit e"
  by (simp_all add: ordinary_def)

lemma ordinary_map [simp]: "ordinary (map_sum id f r) \<longleftrightarrow> ordinary r"
  and ordinary_wrap [simp]: "ordinary (wrap_result msg r)"
  by (cases r; simp add: wrap_result_def)+

lemma ordinary_sum_bind: "ordinary r \<Longrightarrow> (\<And>x. ordinary (f x)) \<Longrightarrow> ordinary (sum_bind r f)"
  by (cases r) (simp_all add: sum_bind_def)

section \<open>Decoders\<close>

definition plain_decoder :: "'a decoder \<Rightarrow> bool" where
  "plain_decoder d = (\<forall>j. ordinary (d j))"

named_theorems plain_decoders \<open>decoders that do not exit\<close>

lemma type_error_ordinary [simp]: "\<not> is_exit type_error"
  by (simp add: type_error_def)

lemma plain_scalars [plain_decoders]:
  "plain_decoder dec_string" "plain_decoder dec_word" "plain_decoder dec_signed" "plain_decoder dec_any"
  by (auto simp: plain_decoder_def dec_string_def dec_word_def dec_signed_def dec_any_def split: json.split)

lemma plain_int64 [plain_decoders]: "plain_decoder dec_int64"
  using plain_scalars(3) by (auto simp: plain_decoder_def dec_int64_def)

lemma plain_list [plain_decoders]:
  assumes "plain_decoder d"
  shows "plain_decoder (dec_list d)"
proof -
  have "ordinary (dec_all d js)" for js
    using assms by (induction js) (auto simp: plain_decoder_def ordinary_def split: sum.splits)
  then show ?thesis by (auto simp: plain_decoder_def dec_list_def dec_slice_def split: json.split)
qed

lemma plain_map [plain_decoders]:
  assumes "plain_decoder d"
  shows "plain_decoder (dec_map d)"
proof -
  have "ordinary (dec_pairs d kvs)" for kvs
    using assms by (induction kvs) (auto simp: plain_decoder_def ordinary_def split: sum.splits)
  then show ?thesis by (auto simp: plain_decoder_def dec_map_def split: json.split)
qed

lemma plain_fields [plain_decoders]: "(\<And>kvs. ordinary (f kvs)) \<Longrightarrow> plain_decoder (dec_fields f)"
  by (auto simp: plain_decoder_def dec_fields_def split: json.split)

lemma field_ordinary [plain_decoders]:
  assumes "plain_decoder d" and "\<And>x. ordinary (g x)"
  shows "ordinary (get_field k d kvs g)"
  using assms(1) [unfolded plain_decoder_def, rule_format, of "lookup_field k kvs"] assms(2)
  by (cases "d (lookup_field k kvs)") (simp_all add: get_field_def)

lemma Inr_ordinary [plain_decoders]: "ordinary (Inr x)"
  by simp

lemma plain_structs [plain_decoders]:
  "plain_decoder dec_Subsystem" "plain_decoder dec_CliDevice" "plain_decoder dec_DiscoveryPageEntry"
  "plain_decoder dec_BlockDevice" "plain_decoder dec_UblkDevice"
  unfolding dec_Subsystem_def dec_Path_def dec_CliDevice_def dec_DiscoveryPageEntry_def dec_BlockDevice_def dec_UblkDevice_def
  by (intro plain_decoders)+

lemma unmarshal_ordinary: "plain_decoder d \<Longrightarrow> ordinary (unmarshal d s)"
  by (simp add: unmarshal_def syntax_error_def plain_decoder_def split: option.split)

section \<open>Parsers\<close>

lemma parsers_ordinary [simp]:
  "ordinary (atoi_err s)" "ordinary (extractJSONString s)" "ordinary (parse_cli_version s)" "ordinary (detected path s)"
  "ordinary (deferred_remove name s)" "ordinary (first_controller d)"
  by (auto simp: atoi_err_def extractJSONString_def Let_def json_slice_def invalid_json_def parse_cli_version_def detected_def
      deferred_remove_def first_controller_def split: option.split list.split)

lemma add_all_known_ordinary [simp]: "ordinary (add_all_known known ls)"
proof (induction ls arbitrary: known)
  case (Cons line ls)
  then show ?case
    by (auto intro!: ordinary_sum_bind simp: add_known_def split: option.split list.split)
qed simp

lemma listings_ordinary [simp]:
  "ordinary (listSubsystemsV1 s)" "ordinary (listSubsystemsV2 s)" "ordinary (unmarshal dec_records s)"
  "ordinary (unmarshal (dec_map (dec_list dec_CliDevice)) s)" "ordinary (unmarshal (dec_map dec_string) s)"
  unfolding listSubsystemsV1_def listSubsystemsV2_def dec_ListSubsystemsV2Output_def dec_records_def ordinary_map
  by (intro unmarshal_ordinary plain_decoders)+

lemma numbers_ordinary [simp]: "ordinary (parseMajorMinorFromJSON s)"
  unfolding parseMajorMinorFromJSON_def
  by (auto intro!: ordinary_sum_bind split: list.split)

section \<open>Operations\<close>

definition exit_free :: "('s, 'a) io \<Rightarrow> bool" where
  "exit_free m = (\<forall>s. ordinary (fst (m s)))"

named_theorems exit_rules \<open>operations that do not exit\<close>

lemma exit_free_case [exit_rules]:
  "exit_free m \<Longrightarrow> (\<And>e. \<not> is_exit e \<Longrightarrow> exit_free (h e)) \<Longrightarrow> (\<And>x. exit_free (f x)) \<Longrightarrow> exit_free (io_case m h f)"
  by (auto simp: exit_free_def io_case_def split: prod.split sum.split) (metis fst_conv ordinary_simps(2))+

lemma exit_free_bind [exit_rules]: "exit_free m \<Longrightarrow> (\<And>x. exit_free (f x)) \<Longrightarrow> exit_free (io_bind m f)"
  by (auto simp: exit_free_def io_bind_def split: prod.split sum.split) (metis fst_conv ordinary_simps(2))

lemma exit_free_pure [exit_rules]:
  "exit_free (io_return x)" "\<not> is_exit e \<Longrightarrow> exit_free (io_fail e)" "ordinary r \<Longrightarrow> exit_free (io_lift r)"
  by (simp_all add: exit_free_def io_return_def io_fail_def io_lift_def)

lemma exit_free_if [exit_rules]: "exit_free a \<Longrightarrow> exit_free b \<Longrightarrow> exit_free (if c then a else b)"
  and exit_free_option [exit_rules]: "exit_free m \<Longrightarrow> (\<And>x. exit_free (f x)) \<Longrightarrow> exit_free (case v of None \<Rightarrow> m | Some x \<Rightarrow> f x)"
  and exit_free_list [exit_rules]: "exit_free m' \<Longrightarrow> (\<And>x xs. exit_free (g x xs)) \<Longrightarrow> exit_free (case v' of [] \<Rightarrow> m' | x # xs \<Rightarrow> g x xs)"
  and exit_free_pair [exit_rules]: "(\<And>x y. exit_free (k x y)) \<Longrightarrow> exit_free (case p of (x, y) \<Rightarrow> k x y)"
  by (simp_all split: option.split list.split prod.split)

lemma exit_free_collect [exit_rules]: "(\<And>x. exit_free (f x)) \<Longrightarrow> exit_free (io_collect f xs)"
  by (induction xs) (simp_all add: exit_rules)

section \<open>Commands\<close>

definition ordinary_executor :: "'w executor \<Rightarrow> bool" where
  "ordinary_executor ex = (\<forall>c w. ordinary (fst (ex c w)))"

lemma exit_free_Execute [exit_rules]: "ordinary_executor ex \<Longrightarrow> exit_free (Execute ex envs binary args t)"
  by (simp add: exit_free_def ordinary_executor_def Execute_def Let_def split: prod.split) (metis fst_conv)

lemma exit_free_nvme [exit_rules]:
  assumes "ordinary_executor ex"
  shows "exit_free (listSubsystems ex path)" "exit_free (listRecognizedNvmeDevices ex)" "exit_free (showHostNQN ex)"
    "exit_free (getHostID ex)" "exit_free (discovery ex hostID hostNQN ip port)"
    "exit_free (connect ex hostID hostNQN nqn tr ip port q)" "exit_free (DisconnectTarget ex nqn)"
    "exit_free (disconnectController ex name)"
  unfolding listSubsystems_def cliVersion_def listRecognizedNvmeDevices_def showHostNQN_def getHostID_def cat_def discovery_def
    connect_def DisconnectTarget_def disconnect_def disconnectController_def run_only_def nvme_def Let_def
  by (intro exit_rules assms; simp)+

lemma exit_free_scan [exit_rules]:
  assumes "ordinary_executor ex"
  shows "exit_free (scan_devices ex ds devices skipped)"
proof (induction ds arbitrary: devices skipped)
  case (Cons d ds)
  then show ?case unfolding scan_devices.simps by (intro exit_rules assms) simp_all
qed (simp add: exit_rules)

lemma exit_free_targets [exit_rules]:
  assumes "ordinary_executor ex"
  shows "exit_free (GetDevices ex ip port nqn)" "exit_free (GetSubsystems ex)" "exit_free (DiscoverTarget ex ip port)"
    "exit_free (DisconnectController ex nqn ip port)"
  unfolding GetDevices_def io_wrapped_def select_devices_def multipath_devices_def not_found_def GetSubsystems_def
    DiscoverTarget_def DisconnectController_def Let_def
  by (intro exit_rules assms; simp)+

lemma exit_free_connect [exit_rules]:
  assumes "ordinary_executor ex"
  shows "exit_free (ConnectTargetWithNrIoQueues ex ip port nqn q)"
  unfolding ConnectTargetWithNrIoQueues_def connect_new_def
  by (intro exit_rules assms; simp)

lemma exit_free_devices [exit_rules]:
  assumes "ordinary_executor ex"
  shows "exit_free (DetectDevice ex path)" "exit_free (GetDeviceNumbers ex path)" "exit_free (GetDeviceSectorSize ex path)"
    "exit_free (GetKnownDevices ex)"
  unfolding DetectDevice_def GetDeviceNumbers_def GetDeviceSectorSize_def GetKnownDevices_def
  by (intro exit_rules assms; simp)+

lemma exit_free_dmsetup [exit_rules]:
  assumes "ordinary_executor ex"
  shows "exit_free (DmsetupCreate ex name table)" "exit_free (DmsetupRemove ex name force deferred)"
    "exit_free (DmsetupSuspend ex name noflush nolockfs)" "exit_free (DmsetupResume ex name)"
    "exit_free (DmsetupReload ex name table)" "exit_free (DmsetupDeps ex order name)" "exit_free (DmsetupInfo ex name)"
  unfolding DmsetupCreate_def DmsetupRemove_def DmsetupSuspend_def DmsetupResume_def DmsetupReload_def DmsetupDeps_def
    DmsetupInfo_def info_of_line_def DmsetupInfoDeferredRemove_def dmsetup_def run_only_def
  by (intro exit_rules assms; simp)+

section \<open>Calls to SPDK\<close>

lemma exit_free_send: "exit_free (SendMsgAsyncWithTimeout c meth ps t)"
  unfolding exit_free_def
proof
  fix s
  show "ordinary (fst (SendMsgAsyncWithTimeout c meth ps t s))"
  proof (cases rule: send_outcome [of c meth ps t s])
    case (queued w)
    show ?thesis
      unfolding queued
      by (rule receive_response_outcome [of c meth "drop_empty_params ps" t "s\<lparr> slots := Suc (slots s), peer := w,
             issued := issued s @ [\<lparr> rc_method = meth, rc_params = drop_empty_params ps, rc_timeout = t \<rparr>] \<rparr>"])
        (simp_all add: client_error_def)
  qed (simp add: client_error_def)
qed

lemma exit_free_rpc [exit_rules]: "plain_decoder d \<Longrightarrow> exit_free (rpc c meth req d)"
  unfolding rpc_def SendCommand_def by (intro exit_rules exit_free_send) (simp add: plain_decoder_def)

lemma find_device_path_ordinary [simp]: "ordinary (find_device_path i path ds)"
  by (induction i path ds rule: find_device_path.induct) simp_all

lemma exit_free_ublk [exit_rules]:
  "exit_free (UblkGetDisks c i)" "exit_free (UblkStopDisk c i)" "exit_free (UblkStartDisk c b i q k)"
  "exit_free (FindUblkDevicePath c i)" "exit_free (UblkCreateTarget c cpus b')"
  unfolding UblkGetDisks_def UblkStopDisk_def UblkStartDisk_def FindUblkDevicePath_def UblkCreateTarget_def SendCommand_def
  by (intro exit_rules plain_decoders exit_free_send; simp)+

end
