(* ===== verification/InitiatorExits.thy ===== *)
theory InitiatorExits
  imports InitiatorEvents ExitFree
begin

text \<open>
  Where an operation of the initiator can end the process. Only \<open>DuplicateDevice\<close> does (\<open>logrus.Fatalf\<close>), when the
  directory of the endpoint cannot be made: for an environment whose answers are ordinary, an operation that
  exits has just tried to make a directory, and the operations that create no endpoint never exit.
\<close>

section \<open>Ordinary environments\<close>

definition ordinary_env :: "'w node_env \<Rightarrow> bool" where
  "ordinary_env env =
     (ordinary_executor (executor env) \<and>
      (\<forall>x w e. fst (sys env x w) = Some e \<longrightarrow> \<not> is_exit e) \<and>
      (\<forall>path w. ordinary (fst (unix_stat env path w))) \<and>
      (\<forall>path w e. fst (os_remove env path w) = Some (Some e) \<longrightarrow> \<not> is_exit e))"

lemma ordinary_env_executor [exit_rules]: "ordinary_env env \<Longrightarrow> ordinary_executor (executor env)"
  by (simp add: ordinary_env_def)

section \<open>What precedes an exit\<close>

text \<open>\<open>departs D V m\<close>: when \<open>m\<close> exits, \<open>D\<close> holds of the events it has added, and when it returns, \<open>V\<close> holds of its
  value; \<open>departing D m\<close> leaves the value open.\<close>

definition departs :: "(event list \<Rightarrow> bool) \<Rightarrow> ('a \<Rightarrow> bool) \<Rightarrow> ('o, 'w, 'a) op \<Rightarrow> bool" where
  "departs D V m = logs m (\<lambda>r es. case r of Inl e \<Rightarrow> is_exit e \<longrightarrow> D es | Inr x \<Rightarrow> V x)"

abbreviation "departing D \<equiv> departs D (\<lambda>_. True)"

named_theorems departures \<open>what precedes an exit\<close>

text \<open>What is asked of \<open>D\<close>: that it is a property of the last events.\<close>

locale departure =
  fixes D :: "event list \<Rightarrow> bool"
  assumes later: "D es \<Longrightarrow> D (cs @ es)"
begin

lemma case_with:
  fixes m :: "('o, 'w, 'a) op" and f :: "'a \<Rightarrow> ('o, 'w, 'b) op"
  assumes m: "departs D U m" and h: "\<And>e. \<not> is_exit e \<Longrightarrow> departs D V (h e)" and f: "\<And>x. U x \<Longrightarrow> departs D V (f x)"
  shows "departs D V (io_case m h f)"
  unfolding departs_def
proof (rule logsI)
  fix n :: "('o, 'w) node"
  let ?P = "\<lambda>V r es. case r of Inl e \<Rightarrow> is_exit e \<longrightarrow> D es | Inr x \<Rightarrow> V x"
  obtain r n1 where mn: "m n = (r, n1)" by (cases "m n")
  obtain cs where cs: "log n1 = log n @ cs" "?P U r cs"
    by (rule tracesD [OF m [unfolded departs_def] mn])
  have next_part: "\<exists>es. log (snd (k n1)) = log n @ es \<and> ?P V (fst (k n1)) es" if k: "departs D V k" for k :: "('o, 'w, 'b) op"
  proof -
    obtain r2 n2 where kn: "k n1 = (r2, n2)" by (cases "k n1")
    obtain es where "log n2 = log n1 @ es" "?P V r2 es"
      by (rule tracesD [OF k [unfolded departs_def] kn])
    then show ?thesis using cs(1) kn later by (intro exI [of _ "cs @ es"]) (auto split: sum.splits)
  qed
  show "\<exists>es. log (snd (io_case m h f n)) = log n @ es \<and> ?P V (fst (io_case m h f n)) es"
  proof (cases r)
    case (Inl e)
    show ?thesis
    proof (cases "is_panic e")
      case True
      with cs mn Inl show ?thesis by (simp add: io_case_def)
    next
      case False
      with is_exit_panic have "\<not> is_exit e" by blast
      with next_part [OF h] False mn Inl show ?thesis by (simp add: io_case_def)
    qed
  next
    case (Inr x)
    with next_part [OF f] cs(2) mn show ?thesis by (simp add: io_case_def)
  qed
qed

lemma pure [departures]:
  "V x \<Longrightarrow> departs D V (io_return x)" "\<not> is_exit e \<Longrightarrow> departs D V (io_fail e)" "ordinary r \<Longrightarrow> departing D (io_lift r)"
  "departing D get" "departing D (modify f)"
  by (auto simp: departs_def traces_def io_return_def io_fail_def io_lift_def get_def modify_def ordinary_def split: sum.split)

lemma case_any [departures]:
  "departing D m \<Longrightarrow> (\<And>e. \<not> is_exit e \<Longrightarrow> departs D V (h e)) \<Longrightarrow> (\<And>x. departs D V (f x)) \<Longrightarrow> departs D V (io_case m h f)"
  by (rule case_with)

lemma bind_with: "departs D U m \<Longrightarrow> (\<And>x. U x \<Longrightarrow> departs D V (f x)) \<Longrightarrow> departs D V (io_bind m f)"
  unfolding io_bind_as_case by (rule case_with [where U = U]) (simp_all add: pure)

lemma bind_any [departures]: "departing D m \<Longrightarrow> (\<And>x. departs D V (f x)) \<Longrightarrow> departs D V (io_bind m f)"
  by (rule bind_with)

lemma branches [departures]:
  "departs D V a \<Longrightarrow> departs D V b \<Longrightarrow> departs D V (if c then a else b)"
  "departs D V m \<Longrightarrow> (\<And>x. departs D V (k x)) \<Longrightarrow> departs D V (case v of None \<Rightarrow> m | Some x \<Rightarrow> k x)"
  "departs D V m \<Longrightarrow> (\<And>x xs. departs D V (g x xs)) \<Longrightarrow> departs D V (case l of [] \<Rightarrow> m | x # xs \<Rightarrow> g x xs)"
  "(\<And>x y. departs D V (q x y)) \<Longrightarrow> departs D V (case p of (x, y) \<Rightarrow> q x y)"
  by (simp_all split: option.split list.split prod.split)

lemma wrapped [departures]: "departing D m \<Longrightarrow> departing D (wrapping msg m)"
  unfolding wrapping_def by (intro departures) simp_all

lemma object [departures]:
  "departing D this" "departing D (set_self f)" "departing D (set_info g)" "departing D (set_ublk h)"
  "departing D info_ptr" "departing D dev_ptr" "departing D ublk_ptr"
  unfolding this_def set_self_def set_info_def set_ublk_def info_ptr_def dev_ptr_def ublk_ptr_def nil_pointer_def
  by (intro departures; simp)+

lemma two_results [departures]:
  "departing D m \<Longrightarrow> (\<And>x. departing D (k x)) \<Longrightarrow> departing D (or_return b m k)"
  "departing D m' \<Longrightarrow> departing D (wrap_busy msg m')"
  unfolding or_return_def wrap_busy_def by (intro departures; simp)+

lemma outside [departures]:
  "exit_free mh \<Longrightarrow> departing D (on_host mh)" "exit_free ms \<Longrightarrow> departing D (on_spdk ms)"
  "ordinary_env env \<Longrightarrow> departing D (do_sys env x)" "ordinary_env env \<Longrightarrow> departing D (do_stat env path)"
  "ordinary_env env \<Longrightarrow> departing D (remove env path)" "departing D (pause env d)"
  by (auto simp: departs_def traces_def on_host_def on_spdk_def do_sys_def do_stat_def remove_def removeAsync_def pause_def
      exit_free_def ordinary_def ordinary_env_def Let_def split: prod.splits sum.splits option.splits)
    (metis fst_conv)+

text \<open>A retried operation keeps the errors of its attempts for later.\<close>

fun calm_attempt :: "'a attempt \<Rightarrow> bool" where
  "calm_attempt (Succeeded x) = True"
| "calm_attempt (Again e) = (\<not> is_exit e)"
| "calm_attempt (GiveUp e) = (\<not> is_exit e)"

lemma attempted [departures]: "departing D m \<Longrightarrow> departs D calm_attempt (attempt m)"
  unfolding attempt_def by (intro departures) simp_all

lemma retried [departures]:
  fixes f :: "('o, 'w, 'a attempt) op"
  shows "departs D calm_attempt f \<Longrightarrow> departing D (retry_do env d k f)"
proof (induction k)
  case (Suc k)
  show ?case
    unfolding retry_do.simps
  proof (rule bind_with [OF Suc.prems])
    fix a :: "'a attempt" assume "calm_attempt a"
    then show "departing D (case a of Succeeded x \<Rightarrow> io_return x | Again e \<Rightarrow> if k = 0 then io_fail e
        else io_bind (pause env d) (\<lambda>_. retry_do env d k f) | GiveUp e \<Rightarrow> io_fail e)"
      using Suc by (cases a) (auto intro!: departures)
  qed
qed (simp add: departures)

lemma polled:
  assumes "\<And>st. I st \<Longrightarrow> departs D (\<lambda>(st', finished). I st') (f st)" and "I st"
  shows "departs D I (poll_retry env d limit k i f st)"
  using assms(2)
proof (induction k arbitrary: i st)
  case (Suc k)
  show ?case
    unfolding poll_retry.simps
    by (rule branches(1), rule pure(1) [where V = I, OF Suc.prems], rule bind_with [OF assms(1) [OF Suc.prems]])
      (auto intro!: departures Suc.IH)
qed (simp add: departures)

end

section \<open>The operations that never exit\<close>

context departure
begin

lemma paths [departures]:
  assumes "ordinary_env env"
  shows "departing D (loadNVMeDeviceInfoWithoutLock env a s q)" "departing D (waitAndLoadNVMeDeviceInfoWithoutLock env a s)"
    "departing D (reuseExistingNVMeTCPPathWithoutLock env a s)"
  unfolding reuseExistingNVMeTCPPathWithoutLock_def waitAndLoadNVMeDeviceInfoWithoutLock_def
    loadNVMeDeviceInfoWithoutLock_def load_devices_def use_controller_def selectControllerForNVMeDevice_def Let_def
  by (intro departures exit_rules assms; simp split: option.split)+

lemma attempting [departures]:
  assumes "ordinary_env env"
  shows "departs D calm_attempt (connect_attempt env a s)"
  unfolding connect_attempt_def target_nqn_def findControllerBySubsystem_def connect_failed_def
  by (intro departures exit_rules assms; simp)

lemma connecting [departures]:
  assumes "ordinary_env env"
  shows "departing D (discoverAndConnectNVMeTCPTarget env a s k d)" "departing D (ensureNVMeTCPPathWithoutLock env a s)"
    "departing D (connectNVMeTCPPathWithoutLock env a s)"
  unfolding ensureNVMeTCPPathWithoutLock_def connect_and_load_def recordConnectedNVMeTCPInfo_def undo_connect_def
    connectNVMeTCPPathWithoutLock_def discoverAndConnectNVMeTCPTarget_def Let_def
  by (intro departures exit_rules assms; simp)+

lemma endpoints [departures]:
  assumes "ordinary_env env"
  shows "departing D (RemoveDevice env path)" "departing D (IsBlockDevice env path)" "departing D (isEndpointValid env)"
    "departing D (isEndpointExist env)" "departing D (removeEndpoint env)"
  unfolding RemoveDevice_def IsBlockDevice_def isEndpointValid_def isEndpointExist_def removeEndpoint_def
  by (intro departures assms; simp)+

lemma linear [departures]:
  assumes "ordinary_env env"
  shows "departing D (createLinearDmDevice env)" "departing D (removeLinearDmDevice env b1 b2)"
    "departing D (suspendLinearDmDevice env b1 b2)" "departing D (resumeLinearDmDevice env)"
    "departing D (reloadLinearDmDevice env)" "departing D (IsSuspended env)" "departing D (IsDeferredRemoveSet env)"
    "departing D (LoadEndpointForNvmeTcpFrontend env b)"
  unfolding createLinearDmDevice_def validateDiskCreation_def load_dm_numbers_def set_export_def
    removeLinearDmDevice_def suspendLinearDmDevice_def resumeLinearDmDevice_def reloadLinearDmDevice_def
    IsSuspended_def IsDeferredRemoveSet_def dm_info_def LoadEndpointForNvmeTcpFrontend_def findDependentDevices_def
    errDeviceNotReady_def
  by (intro departures exit_rules assms; simp)+

lemma replacing [departures]: "ordinary_env env \<Longrightarrow> departing D (replaceDmDeviceTarget env)"
  unfolding replaceDmDeviceTarget_def by (intro departures; simp)

lemma stopping [departures]: "ordinary_env env \<Longrightarrow> departing D (stopWithoutLock env c cleanup d r)"
  unfolding stopWithoutLock_def stop_dm_def stop_frontend_def stop_ublk_def
  by (intro departures exit_rules; simp)

lemma disks [departures]: "departing D (stop_disks_of env b ds)"
proof (induction ds)
  case (Cons d ds)
  then show ?case unfolding stop_disks_of.simps by (intro departures exit_rules) simp_all
qed (simp add: departures)

lemma ids [departures]: "departing D (next_ublk_id ds)"
  by (auto simp: departs_def traces_def next_ublk_id_def GetAvailableID_def io_bind_def get_def modify_def io_lift_def
      Let_def no_available_id_def split: option.split)

lemma launching [departures]: "departing D (launch_ublk env i)"
  unfolding launch_ublk_def ensure_ublk_target_def by (intro departures exit_rules; simp)

lemma waiting [departures]: "ordinary_env env \<Longrightarrow> departing D (load_recorded env)"
  unfolding load_recorded_def by (intro departures; simp)

lemma disconnecting [departures]:
  assumes "ordinary_env env"
  shows "departs D (\<lambda>(found, e). \<forall>x. e = Some x \<longrightarrow> \<not> is_exit x)
    (poll_retry env d limit k i (poll_disconnected env) (False, None))"
  by (rule polled)
    (auto simp: poll_disconnected_def Let_def nil_pointer_def intro!: departures assms)

end

section \<open>The operations that create an endpoint\<close>

text \<open>The last event is the attempt to make a directory.\<close>

definition parting :: "event list \<Rightarrow> bool" where
  "parting es = (\<exists>path. es \<noteq> [] \<and> last es = Sys (MkdirAll path dir_mode))"

interpretation never: departure "\<lambda>_. False"
  by unfold_locales

interpretation exiting: departure parting
  by unfold_locales (auto simp: parting_def)

lemma making_directory [departures]:
  assumes "ordinary_env env"
  shows "departing parting (ensure_dir env d path)"
proof -
  have "departing parting (io_case (do_sys env (MkdirAll (path_dir path) dir_mode))
      (\<lambda>_. io_fail (GoExit m)) io_return)" for m
    by (auto simp: departs_def traces_def io_case_def do_sys_def io_fail_def io_return_def parting_def Let_def split: prod.split option.split)
  then show ?thesis
    unfolding ensure_dir_def
    by (rule_tac exiting.case_any [OF exiting.outside(3) [OF assms]], rule_tac exiting.branches(1)) (simp_all add: departures)
qed

lemma making_endpoint [departures]:
  assumes "ordinary_env env"
  shows "departing parting (makeEndpoint env)" "departing parting (createEndpoint env)" "departing parting (ublk_endpoint env b)"
  unfolding createEndpoint_def ublk_endpoint_def makeEndpoint_def DuplicateDevice_def mknod_def
  by (intro departures assms; simp)+

lemma exits_attaching [departures]:
  "ordinary_env env \<Longrightarrow> (\<And>b. departing parting (k b)) \<Longrightarrow> departing parting (attach_dm env msg cleanup busy k)"
  unfolding attach_dm_def export_source_def by (intro departures; simp)

lemma exits_starting [departures]:
  assumes "ordinary_env env"
  shows "departing parting (start_nvme env a s cleanup stop)" "departing parting (start_ublk env cleanup)"
  unfolding start_nvme_def already_launched_def start_ublk_def
  by (intro departures exit_rules assms; simp)+

end
