(* ===== verification/InitiatorLocks.thy ===== *)
theory InitiatorLocks
  imports InitiatorExits
begin

text \<open>
  The per-volume lock: every exported operation that takes it works between taking and releasing it, on every
  way out, and the others leave it alone.
\<close>

section \<open>The lock\<close>

text \<open>\<open>guarded env exits tail m\<close>: an initiator with a host path does nothing at all in \<open>m\<close>, or asks for its lock
  and is refused (its host path, the directory of the lock, or the lock itself), or takes it, works without
  touching a lock, and ends with the events \<open>tail\<close>; \<open>exits\<close> says after which work the tail may be missing. The log has no
  answers, so that \<open>lock_attempt\<close> reads from the environment whether the lock is granted.\<close>

definition lock_events :: "Initiator \<Rightarrow> event list" where
  "lock_events i = [Sys (CreateDirectory LockDir), Sys (Lock (lockFilePath i) LockTimeout)]"

definition lock_attempt :: "'w node_env \<Rightarrow> 'w \<Rightarrow> Initiator \<Rightarrow> bool \<times> event list" where
  "lock_attempt env w i =
     (if hostProc i \<noteq> HostProcDirectory then (False, [])
      else (case sys env (CreateDirectory LockDir) w of
          (Some e, w1) \<Rightarrow> (False, [Sys (CreateDirectory LockDir)])
        | (None, w1) \<Rightarrow> (fst (sys env (Lock (lockFilePath i) LockTimeout) w1) = None, lock_events i)))"

definition bracketed ::
  "(event list \<Rightarrow> bool) \<Rightarrow> 'w node_env \<Rightarrow> 'w \<Rightarrow> Initiator \<Rightarrow> syscall list \<Rightarrow> event list \<Rightarrow> bool" where
  "bracketed exits env w i tail es =
     (es = [] \<or>
      (case lock_attempt env w i of (taken, asked) \<Rightarrow>
         if taken then \<exists>body. list_all off_lock body \<and>
           (es = asked @ body @ map Sys tail \<or> exits body \<and> es = asked @ body)
         else es = asked))"

definition guarded ::
  "'w node_env \<Rightarrow> (event list \<Rightarrow> bool) \<Rightarrow> (Initiator \<Rightarrow> syscall list) \<Rightarrow> ('w, 'a) iop \<Rightarrow> bool" where
  "guarded env exits tail m = (\<forall>n. hostProc (self (obj n)) \<noteq> [] \<longrightarrow>
     (\<exists>es. log (snd (m n)) = log n @ es \<and>
       bracketed exits env (outside n) (self (obj n)) (tail (self (obj n))) es))"

definition unlocks :: "Initiator \<Rightarrow> syscall list" where
  "unlocks i = [Unlock (lockFilePath i)]"

text \<open>An operation that promises the release on every way out.\<close>

abbreviation always_released :: "event list \<Rightarrow> bool" where
  "always_released \<equiv> (\<lambda>_. False)"

lemma guarded_none: "(\<And>n. log (snd (m n)) = log n) \<Longrightarrow> guarded env exits tail m"
  by (simp add: guarded_def bracketed_def)

lemma newLock_log:
  assumes "newLock env n = (r, n')"
  shows "log n' = log n @ snd (lock_attempt env (outside n) (self (obj n)))"
    and "\<not> isl r \<longleftrightarrow> fst (lock_attempt env (outside n) (self (obj n)))"
proof -
  have "log n' = log n @ snd (lock_attempt env (outside n) (self (obj n))) \<and>
      (\<not> isl r \<longleftrightarrow> fst (lock_attempt env (outside n) (self (obj n))))"
    using assms
    by (auto simp: newLock_def lock_attempt_def lock_events_def io_bind_def this_run wrapping_def io_case_def io_fail_def
        io_return_def do_sys_def Let_def split: if_splits sum.splits prod.splits option.splits)
  then show "log n' = log n @ snd (lock_attempt env (outside n) (self (obj n)))"
    "\<not> isl r \<longleftrightarrow> fst (lock_attempt env (outside n) (self (obj n)))" by simp_all
qed

lemma lock_attempt_taken: "fst (lock_attempt env w i) \<Longrightarrow> snd (lock_attempt env w i) = lock_events i"
  by (auto simp: lock_attempt_def split: if_splits prod.splits option.splits)

lemma newLock_taken: "newLock env n = (Inr (), n') \<Longrightarrow> log n' = log n @ lock_events (self (obj n))"
  using newLock_log [of env n "Inr ()" n'] by (simp add: lock_attempt_taken)

lemma newLock_fails:
  "newLock env n = (Inl e, n') \<Longrightarrow>
     \<exists>es. log n' = log n @ es \<and> bracketed exits env (outside n) (self (obj n)) tail es"
  using newLock_log [of env n "Inl e" n'] by (auto simp: bracketed_def split: prod.split)

text \<open>What runs at the end adds the events of the tail, whatever it answers.\<close>

lemma guarded_deferring:
  assumes "emits off_lock m" and "departing exits m" and k: "newLock env n0 = (Inr (), n)"
    and "\<And>r1 n1. m n = (r1, n1) \<Longrightarrow> log (snd (d n1)) = log n1 @ map Sys tail"
  shows "\<exists>es. log (snd (deferring m d n)) = log n0 @ es \<and> bracketed exits env (outside n0) (self (obj n0)) tail es"
proof -
  obtain r1 n1 where m: "m n = (r1, n1)" by (cases "m n")
  obtain body where b: "log n1 = log n @ body" "list_all off_lock body"
    by (rule tracesD [OF assms(1) [unfolded emits_def] m])
  obtain cs where "log n1 = log n @ cs" "case r1 of Inl e \<Rightarrow> is_exit e \<longrightarrow> exits cs | Inr x \<Rightarrow> True"
    by (rule tracesD [OF assms(2) [unfolded departs_def] m])
  with b have x: "exits body" if "r1 = Inl (GoExit e)" for e using that by simp
  have l: "log n1 = log n0 @ lock_events (self (obj n0)) @ body" using newLock_taken [OF k] b by simp
  have "lock_attempt env (outside n0) (self (obj n0)) = (True, lock_events (self (obj n0)))"
    using newLock_log(2) [OF k] lock_attempt_taken by (metis isl_def prod.collapse sum.distinct(1))
  then have br: "bracketed exits env (outside n0) (self (obj n0)) tail es \<longleftrightarrow> es = [] \<or> (\<exists>body. list_all off_lock body \<and>
      (es = lock_events (self (obj n0)) @ body @ map Sys tail \<or> exits body \<and> es = lock_events (self (obj n0)) @ body))" for es
    by (simp add: bracketed_def)
  show ?thesis
  proof (cases "\<exists>e. r1 = Inl (GoExit e)")
    case True
    then obtain e where e: "r1 = Inl (GoExit e)" ..
    then have "deferring m d n = (Inl (GoExit e), n1)" by (simp add: deferring_def m)
    then show ?thesis using l b(2) x [OF e] unfolding br by auto
  next
    case False
    then have "deferring m d n = (r1, snd (d n1))" by (auto simp: deferring_def m split: sum.split go_error.split)
    moreover have "log (snd (d n1)) = log n0 @ lock_events (self (obj n0)) @ body @ map Sys tail"
      using l assms(4) [OF m] by simp
    ultimately show ?thesis using b(2) unfolding br by auto
  qed
qed

lemma unlock_log: "log (snd (unlock env i n)) = log n @ map Sys (unlocks i)"
  by (simp add: unlock_def do_sys_def unlocks_def split: prod.split)

lemma guarded_locked:
  assumes "emits off_lock m" and "departing exits m"
  shows "guarded env exits unlocks (locked env m)"
  unfolding guarded_def
proof (intro allI impI)
  fix n :: "(process, 'a) node" assume h: "hostProc (self (obj n)) \<noteq> []"
  obtain r n1 where k: "newLock env n = (r, n1)" by (cases "newLock env n")
  show "\<exists>es. log (snd (locked env m n)) = log n @ es \<and>
      bracketed exits env (outside n) (self (obj n)) (unlocks (self (obj n))) es"
  proof (cases r)
    case (Inl e)
    then have "locked env m n = (Inl e, n1)" using h k by (simp add: locked_def io_bind_def this_run)
    with newLock_fails k Inl show ?thesis by fastforce
  next
    case (Inr x)
    then have "locked env m n = deferring m (unlock env (self (obj n))) n1"
      using h k by (simp add: locked_def io_bind_def this_run)
    moreover have "newLock env n = (Inr (), n1)" using k Inr by simp
    from guarded_deferring [OF assms this unlock_log] show ?thesis unfolding calculation .
  qed
qed

text \<open>With something more to do before the release.\<close>

lemma guarded_locked_busy:
  fixes m :: "'w busy_op"
  assumes "emits off_lock m" and "departing exits m"
    and e: "\<And>n n0 r1 n1. newLock env n = (Inr (), n0) \<Longrightarrow> m n0 = (r1, n1) \<Longrightarrow>
      \<exists>n2. at_end n1 = (Inr (), n2) \<and> log n2 = log n1 @ map Sys (ending (self (obj n)))"
  shows "guarded env exits (\<lambda>i. ending i @ unlocks i) (locked_busy env at_end m)"
  unfolding guarded_def
proof (intro allI impI)
  fix n :: "(process, 'w) node" assume h: "hostProc (self (obj n)) \<noteq> []"
  obtain r n1 where k: "newLock env n = (r, n1)" by (cases "newLock env n")
  let ?d = "io_bind at_end (\<lambda>_. unlock env (self (obj n)))"
  show "\<exists>es. log (snd (locked_busy env at_end m n)) = log n @ es \<and>
      bracketed exits env (outside n) (self (obj n)) (ending (self (obj n)) @ unlocks (self (obj n))) es"
  proof (cases r)
    case (Inl e)
    then have "snd (locked_busy env at_end m n) = n1"
      using h k by (simp add: locked_busy_def io_bind_def this_run or_return_def io_case_def io_return_def)
    with newLock_fails k Inl show ?thesis by fastforce
  next
    case (Inr x)
    then have "locked_busy env at_end m n = deferring m ?d n1"
      using h k by (simp add: locked_busy_def io_bind_def [of this] this_run or_return_def io_case_def)
    moreover have "log (snd (?d n2)) = log n2 @ map Sys (ending (self (obj n)) @ unlocks (self (obj n)))"
      if "m n1 = (r1, n2)" for r1 n2
      using e [OF _ that, of n] k Inr by (auto simp: io_bind_def unlock_log)
    ultimately show ?thesis using guarded_deferring [OF assms(1,2), of env n n1 ?d] k Inr by simp
  qed
qed

lemma guarded_this: "(\<And>i. guarded env exits tail (f i)) \<Longrightarrow> guarded env exits tail (io_bind this f)"
  unfolding guarded_def by (simp add: io_bind_def this_run)

lemma guarded_failing: "guarded env exits tail (io_fail e)" "guarded env exits tail (io_return x)"
  by (rule guarded_none; simp add: io_fail_def io_return_def)+

lemma wrapping_run: "snd (wrapping msg m n) = snd (m n)" "snd (wrap_busy msg m' n') = snd (m' n')"
  by (auto simp: wrapping_def wrap_busy_def io_case_def io_bind_def io_fail_def io_return_def split: prod.split sum.split)

lemma guarded_wrapping: "guarded env exits tail m \<Longrightarrow> guarded env exits tail (wrapping msg m)"
  and guarded_wrap_busy: "guarded env exits tail m' \<Longrightarrow> guarded env exits tail (wrap_busy msg m')"
  unfolding guarded_def wrapping_run by assumption+

lemma guarded_option: "guarded env exits tail m \<Longrightarrow> (\<And>x. guarded env exits tail (f x)) \<Longrightarrow>
      guarded env exits tail (case v of None \<Rightarrow> m | Some x \<Rightarrow> f x)"
  and guarded_if: "guarded env exits tail a \<Longrightarrow> guarded env exits tail b \<Longrightarrow> guarded env exits tail (if c then a else b)"
  by (simp_all split: option.split)

lemma guarded_start: "emits off_lock m \<Longrightarrow> departing exits m \<Longrightarrow> guarded env exits unlocks (locked_busy env (io_return ()) m)"
  using guarded_locked_busy [where at_end = "io_return ()" and ending = "\<lambda>_. []"] by (simp add: io_return_def)

lemmas guarding = guarded_this guarded_failing guarded_wrapping guarded_wrap_busy guarded_option guarded_if
  guarded_locked guarded_start emitting

text \<open>\<open>Stop\<close> removes the lock file before it releases the lock.\<close>

definition keeps_name :: "string \<Rightarrow> process \<Rightarrow> bool" where
  "keeps_name nm p = (Initiator.Name (self p) = nm)"

lemma name_kept [preserving]:
  "preserves (keeps_name nm) (removeEndpoint env)" "preserves (keeps_name nm) (stop_frontend env c b)"
  unfolding removeEndpoint_def stop_frontend_def stop_ublk_def set_info_def
  by (intro preserving; simp add: keeps_name_def)+

lemma stop_name: "preserves (keeps_name nm) (stopWithoutLock env c cleanup d r)"
  unfolding stopWithoutLock_def stop_dm_def by (intro preserving)

definition removes_then_unlocks :: "Initiator \<Rightarrow> syscall list" where
  "removes_then_unlocks i = [Remove (lockFilePath i), Unlock (lockFilePath i)]"

lemma guarded_Stop:
  assumes "ordinary_env env"
  shows "guarded env always_released removes_then_unlocks (Stop env c cleanup d r)"
proof -
  have "\<exists>n2. remove_lock_file env n1 = (Inr (), n2) \<and> log n2 = log n1 @ map Sys [Remove (lockFilePath (self (obj n)))]"
    if k: "newLock env n = (Inr (), n0)" and m: "stopWithoutLock env c cleanup d r n0 = (r1, n1)" for n n0 r1 n1
  proof -
    have "keeps_name (Initiator.Name (self (obj n))) (obj n0)" using newLock_obj [OF k] by (simp add: keeps_name_def)
    from preservesD [OF stop_name m this] have "lockFilePath (self (obj n1)) = lockFilePath (self (obj n))"
      by (simp add: keeps_name_def lockFilePath_def)
    then show ?thesis
      by (simp add: remove_lock_file_def io_bind_def this_run do_sys_def split: prod.split)
  qed
  from guarded_locked_busy [where m = "stopWithoutLock env c cleanup d r" and env = env and at_end = "remove_lock_file env"
      and ending = "\<lambda>i. [Remove (lockFilePath i)]", OF inside.stopping never.stopping [OF assms] this]
  show ?thesis by (simp add: Stop_def removes_then_unlocks_def [abs_def] unlocks_def)
qed

lemma guarded_starts:
  assumes "ordinary_env env"
  shows "guarded env parting unlocks (StartNvmeTCPInitiator env a s b1 b2)" "guarded env parting unlocks (StartUblkInitiator env b1)"
  unfolding StartNvmeTCPInitiator_def StartUblkInitiator_def by (intro guarding departures assms)+

lemma guarded_paths:
  assumes "ordinary_env env"
  shows "guarded env always_released unlocks (ConnectNVMeTCPPath env a s)"
    "guarded env always_released unlocks (ReconnectNVMeTCPPath env a s)"
    "guarded env always_released unlocks (DiscoverNVMeTCPTarget env a s)"
    "guarded env always_released unlocks (ConnectNVMeTCPTarget env a s q)"
    "guarded env always_released unlocks (DisconnectNVMeTCPTarget env)"
    "guarded env always_released unlocks (LoadNVMeDeviceInfo env a s q)"
  unfolding ConnectNVMeTCPPath_def ReconnectNVMeTCPPath_def executeNVMeTCPPathOp_def DiscoverNVMeTCPTarget_def
    ConnectNVMeTCPTarget_def DisconnectNVMeTCPTarget_def LoadNVMeDeviceInfo_def
  by (intro guarding departures exit_rules assms; simp)+

lemma guarded_waits:
  assumes "ordinary_env env"
  shows "guarded env always_released unlocks (WaitForNVMeTCPConnect env k d)"
    "guarded env always_released unlocks (WaitForNVMeTCPTargetDisconnect env z d)"
proof -
  show "guarded env always_released unlocks (WaitForNVMeTCPConnect env k d)"
    unfolding WaitForNVMeTCPConnect_def load_recorded_def by (intro guarding departures assms)
  have "departing always_released (io_bind (poll_retry env d limit j i (poll_disconnected env) (False, None)) (\<lambda>(found, lastErr).
      if found then io_return () else (case lastErr of None \<Rightarrow> io_return () | Some err \<Rightarrow> io_fail err)))" for limit j i
    by (rule never.bind_with [OF never.disconnecting [OF assms]]) (auto simp: never.pure split: option.split)
  moreover have "emits off_lock (io_bind (poll_retry env d limit j i (poll_disconnected env) (False, None)) (\<lambda>(found, lastErr).
      if found then io_return () else (case lastErr of None \<Rightarrow> io_return () | Some err \<Rightarrow> io_fail err)))" for limit j i
    unfolding poll_disconnected_def load_recorded_def Let_def by (intro emitting)
  ultimately show "guarded env always_released unlocks (WaitForNVMeTCPTargetDisconnect env z d)"
    unfolding WaitForNVMeTCPTargetDisconnect_def by (intro guarded_this guarded_option guarded_failing guarded_locked emits_if emits_pure never.branches(1) never.pure(1);
        simp del: poll_retry.simps)
qed

lemma guarded_devices:
  assumes "ordinary_env env"
  shows "guarded env always_released unlocks (Suspend env b1 b2)" "guarded env always_released unlocks (Resume env)"
    "guarded env always_released unlocks (ReloadDmDevice env)"
  unfolding Suspend_def Resume_def ReloadDmDevice_def by (intro guarding departures assms; simp)+

text \<open>
  Property C1. Operations on a volume hold its lock. On an initiator with a host path, each of the fourteen
  operations that take the lock, whatever the host, the kernel and SPDK answer, does nothing; or only asks for the
  lock of the volume and is refused; or takes it, runs without touching any file lock, and then releases it, on
  success, error and panic alike (\<open>Stop\<close> removes the lock file just before). The two operations that start a disk
  keep the lock in one case only: the process exits because the directory of the endpoint cannot be made. The five other
  exported operations that work on the host, \<open>SyncDmDeviceSize\<close> among them, never touch a file lock.
\<close>

theorem operations_hold_the_lock:
  assumes "ordinary_env env"
  shows "guarded env parting unlocks (StartNvmeTCPInitiator env a s b1 b2) \<and>
    guarded env parting unlocks (StartUblkInitiator env b1) \<and>
    guarded env always_released removes_then_unlocks (Stop env b1 b2 b3 b4) \<and>
    guarded env always_released unlocks (ConnectNVMeTCPPath env a s) \<and>
    guarded env always_released unlocks (ReconnectNVMeTCPPath env a s) \<and>
    guarded env always_released unlocks (DiscoverNVMeTCPTarget env a s) \<and>
    guarded env always_released unlocks (ConnectNVMeTCPTarget env a s q) \<and>
    guarded env always_released unlocks (DisconnectNVMeTCPTarget env) \<and>
    guarded env always_released unlocks (LoadNVMeDeviceInfo env a s q) \<and>
    guarded env always_released unlocks (WaitForNVMeTCPConnect env (Suc k) d) \<and>
    guarded env always_released unlocks (WaitForNVMeTCPTargetDisconnect env z d) \<and>
    guarded env always_released unlocks (Suspend env b1 b2) \<and>
    guarded env always_released unlocks (Resume env) \<and>
    guarded env always_released unlocks (ReloadDmDevice env) \<and>
    emits off_lock (SyncDmDeviceSize env expected) \<and> emits off_lock (LoadEndpointForNvmeTcpFrontend env b1) \<and>
    emits off_lock (WaitForControllerLive env a s (Suc k) d) \<and>
    emits off_lock (IsSuspended env) \<and> emits off_lock (IsDeferredRemoveSet env)"
  by (intro conjI guarded_starts guarded_Stop guarded_paths guarded_waits guarded_devices inside.unlocked inside.linear assms)

lemma table_env_ordinary: "ordinary_env table_env"
  by (auto simp: ordinary_env_def ordinary_executor_def table_env_def table_sys_def split: option.splits if_splits syscall.splits)

text \<open>Stopping an initiator of a host whose commands all fail, and which grants the lock.\<close>

theorem operations_hold_the_lock_witness:
  "guarded table_env always_released removes_then_unlocks (Stop table_env False True False False) \<and>
   guarded table_env parting unlocks (StartNvmeTCPInitiator table_env ''10.0.0.1'' ''4420'' False True) \<and>
   fst (lock_attempt table_env Map.empty (self fresh_process))"
  using operations_hold_the_lock [OF table_env_ordinary, of "''10.0.0.1''" "''4420''" False True False]
  by (simp add: lock_attempt_def path_process_def table_env_def table_sys_def)

text \<open>
  Reloading the linear device of an initiator that has no device (a new one, or one that was
  stopped) panics on the nil pointer instead of returning an error, although creating one checks for it; the
  lock is released. \<open>SyncDmDeviceSize\<close>, which ends in the same reload, returns an error.
\<close>

theorem ReloadDmDevice_panics:
  assumes "dev (self (obj n)) = None"
  shows "(if hostProc (self (obj n)) = [] then ReloadDmDevice env n = (Inl nil_pointer, n)
      else (case newLock env n of
          (Inl e, n0) \<Rightarrow> ReloadDmDevice env n = (Inl e, n0)
        | (Inr _, n0) \<Rightarrow> ReloadDmDevice env n = (Inl nil_pointer, snd (unlock env (self (obj n)) n0)))) \<and>
    createLinearDmDevice env n = (Inl (PlainErr ''found nil device for linear dm device creation''), n) \<and>
    SyncDmDeviceSize env k n = (Inl (PlainErr ''initiator device source is not initialized''), n)"
proof -
  have r: "reloadLinearDmDevice env m = (Inl nil_pointer, m)" if "obj m = obj n" for m
    using assms that by (simp add: reloadLinearDmDevice_def dev_ptr_def io_bind_def this_run io_fail_def)
  obtain res n0 where k: "newLock env n = (res, n0)" by (cases "newLock env n")
  have "ReloadDmDevice env n = (Inl nil_pointer, n)" if "hostProc (self (obj n)) = []"
    using that r [of n] by (simp add: ReloadDmDevice_def locked_def io_bind_def this_run)
  moreover have "ReloadDmDevice env n =
      (case res of Inl e \<Rightarrow> (Inl e, n0) | Inr _ \<Rightarrow> (Inl nil_pointer, snd (unlock env (self (obj n)) n0)))"
    if "hostProc (self (obj n)) \<noteq> []"
    using that k r [of n0] newLock_obj [OF k]
    by (simp add: ReloadDmDevice_def locked_def io_bind_def this_run deferring_def nil_pointer_def split: sum.split)
  ultimately show ?thesis
    using assms k by (simp add: createLinearDmDevice_def SyncDmDeviceSize_def io_bind_def this_run io_fail_def split: sum.split)
qed

theorem ReloadDmDevice_panics_witness:
  "fst (ReloadDmDevice path_env (run_node fresh_process Map.empty [])) = Inl nil_pointer"
proof -
  obtain l0 where "newLock path_env (run_node fresh_process Map.empty []) = (Inr (), run_node fresh_process Map.empty l0)"
    by (rule path_lock)
  then show ?thesis
    using ReloadDmDevice_panics [of "run_node fresh_process Map.empty []" path_env]
    by (simp add: HostProcDirectory_def)
qed

end
