(* ===== verification/InitiatorUblk.thy ===== *)
theory InitiatorUblk
  imports InitiatorLocks
begin

text \<open>
  Starting a ublk initiator: the target exists before a disk is started, and what a successful start leaves
  behind.
\<close>

section \<open>The target comes first\<close>

definition creates_target :: "event \<Rightarrow> bool" where
  "creates_target e = (\<exists>p. e = Called p \<and> rc_method p = ''ublk_create_target'')"








abbreviation "calmly \<equiv> emits (\<lambda>e. \<not> starts_disk e)"


lemma calmlyD:
  assumes "calmly m" and "m n = (r, n')"
  obtains es where "log n' = log n @ es" and "list_all (\<lambda>e. \<not> starts_disk e) es"
  using assms unfolding emits_def traces_def by (metis snd_conv)





section \<open>Starting a disk\<close>


lemma flag_set_self [preserving]:
  "preserves (\<lambda>p. isUblkTargetCreated p = b) (set_self f)" "preserves (\<lambda>p. isUblkTargetCreated p = b) (set_info g)"
  "preserves (\<lambda>p. isUblkTargetCreated p = b) (set_ublk h)"
  unfolding set_info_def set_ublk_def by (rule preserves_set_self, simp)+

lemma flag_stop [preserving]: "preserves (\<lambda>p. isUblkTargetCreated p = b) (stopWithoutLock env c cleanup d r)"
  unfolding stopWithoutLock_def stop_dm_def removeEndpoint_def stop_frontend_def stop_ublk_def by (intro preserving)

lemma preserves_ublk_ptr [preserving]: "preserves P ublk_ptr"
  unfolding ublk_ptr_def by (intro preserving)

lemma preserves_disks [preserving]: "preserves P (stop_disks_of env b ds)"
proof (induction ds)
  case (Cons d ds)
  then show ?case unfolding stop_disks_of.simps by (intro preserving)
qed (simp add: preserving)

lemma preserves_modify: "(\<And>p. P p \<Longrightarrow> P (f p)) \<Longrightarrow> preserves P (modify f)"
  by (simp add: preserves_def modify_def)

lemma flag_ids [preserving]: "preserves (\<lambda>p. isUblkTargetCreated p = b) (next_ublk_id ds)"
  unfolding next_ublk_id_def Let_def
  by (rule preserves_bind [OF preserves_pure(4)], rule preserves_pair)
    (auto intro!: preserves_bind preserves_modify preserves_pure)

lemma runs_create_target:
  "runs (UblkCreateTarget c cpumask b) (\<lambda>r cs. list_all (\<lambda>p. rc_method p = ''ublk_create_target'') cs \<and> (r = Inr () \<longrightarrow> cs \<noteq> []))"
  unfolding UblkCreateTarget_def
proof (rule runs_case [OF short.hands_over])
  fix e cs assume one: "one_call ''ublk_create_target'' (UblkCreateTargetRequest cpumask b) DefaultShortTimeout (Inl e :: go_error + json) cs"
  have "IsJSONRPCRespErrorDeviceOrResourceBusy e \<Longrightarrow> cs \<noteq> []"
    using one by (auto simp: one_call_def IsJSONRPCRespErrorDeviceOrResourceBusy_def)
  then show "runs (if IsJSONRPCRespErrorDeviceOrResourceBusy e then io_return () else io_fail e)
      (\<lambda>r cs'. list_all (\<lambda>p. rc_method p = ''ublk_create_target'') (cs @ cs') \<and> (r = Inr () \<longrightarrow> cs @ cs' \<noteq> []))"
    using one by (auto simp: one_call_def intro!: runs_return runs_fail)
qed (auto simp: one_call_def intro!: runs_return)

text \<open>After \<open>ensure_ublk_target\<close> succeeded, the flag is set, and it was set before or the target was created.\<close>

lemma ensure_target:
  assumes "ensure_ublk_target env n = (r, n')"
  shows "\<exists>es. log n' = log n @ es \<and> list_all (\<lambda>e. \<not> starts_disk e) es \<and>
    (r = Inr () \<longrightarrow> isUblkTargetCreated (obj n') \<and> (isUblkTargetCreated (obj n) \<or> list_ex creates_target es))"
proof (cases "isUblkTargetCreated (obj n)")
  case True
  then have "n' = n" using assms by (simp add: ensure_ublk_target_def io_bind_def get_def io_return_def)
  then show ?thesis using True by (intro exI [of _ "[]"]) simp
next
  case False
  let ?c = "wrapping ''failed to create ublk target'' (on_spdk (UblkCreateTarget (spdk env) [] True))"
  obtain r1 n1 where c: "on_spdk (UblkCreateTarget (spdk env) [] True) n = (r1, n1)"
    by (cases "on_spdk (UblkCreateTarget (spdk env) [] True) n")
  obtain es where es: "log n1 = log n @ es" and "\<exists>cs. es = map Called cs \<and>
      list_all (\<lambda>p. rc_method p = ''ublk_create_target'') cs \<and> (r1 = Inr () \<longrightarrow> cs \<noteq> [])"
    by (rule tracesD [OF logs_on_spdk [OF runs_create_target] c])
  then have calm: "list_all (\<lambda>e. \<not> starts_disk e) es" and made: "r1 = Inr () \<Longrightarrow> list_ex creates_target es"
    by (auto simp: list_all_iff list_ex_iff starts_disk_def creates_target_def neq_Nil_conv)
  obtain r2 n2 where w2: "?c n = (r2, n2)" by (cases "?c n")
  then have w: "?c n = (r2, n1)" and r2: "r2 = Inr () \<longleftrightarrow> r1 = Inr ()"
    using c by (auto simp: wrapping_def io_case_def io_fail_def io_return_def split: sum.splits if_splits)
  show ?thesis
  proof (cases r2)
    case (Inl e)
    then have "n' = n1 \<and> r = Inl e"
      using assms False w by (simp add: ensure_ublk_target_def io_bind_def [of get] get_def io_bind_def)
    then show ?thesis using es calm by auto
  next
    case (Inr u)
    then have "n' = n1\<lparr> obj := (obj n1)\<lparr> isUblkTargetCreated := True \<rparr> \<rparr>"
      using assms False w by (simp add: ensure_ublk_target_def io_bind_def get_def modify_def)
    then show ?thesis using es calm made r2 Inr by auto
  qed
qed










lemma calm_sys [emitting]: "calmly (do_sys env x)"
  by (simp add: emits_def traces_def do_sys_def starts_disk_def split: prod.splits)




section \<open>A successful start\<close>

definition ublk_at :: "UblkInfo \<Rightarrow> IDGenerator \<Rightarrow> process \<Rightarrow> bool" where
  "ublk_at u g p = (UblkInfo (self p) = Some u \<and> idGenerator p = g)"

definition launched :: "UblkInfo \<Rightarrow> IDGenerator \<Rightarrow> process \<Rightarrow> bool" where
  "launched u g p = (ublk_at u g p \<and> isUblkTargetCreated p \<and> dev (self p) \<noteq> None)"

lemma ublk_at_set [preserving]:
  "preserves (ublk_at u g) (set_self (\<lambda>i. i\<lparr> dev := f i, isUp := h i \<rparr>))" "preserves (ublk_at u g) (set_info k)"
  unfolding set_info_def by (rule preserves_set_self, simp add: ublk_at_def)+

lemma ublk_at_stop: "preserves (ublk_at u g) (stopWithoutLock env c cleanup d r)"
  unfolding stopWithoutLock_def stop_dm_def removeEndpoint_def stop_frontend_def stop_ublk_def by (intro preserving)

lemma launched_set [preserving]:
  "(\<And>i. f i \<noteq> None) \<Longrightarrow> preserves (launched u g) (set_self (\<lambda>i. i\<lparr> dev := f i \<rparr>))"
  "preserves (launched u g) (set_self (\<lambda>i. i\<lparr> isUp := h i \<rparr>))"
  by (rule preserves_set_self; simp add: launched_def ublk_at_def)+

lemma launched_export [preserving]: "preserves (launched u g) (set_export nm x y)" "preserves (launched u g) export_source"
  unfolding set_export_def export_source_def by (intro preserving; simp)+

lemma launched_dm [preserving]:
  "preserves (launched u g) (reloadLinearDmDevice env)" "preserves (launched u g) (createLinearDmDevice env)"
  "preserves (launched u g) (replaceDmDeviceTarget env)"
  unfolding replaceDmDeviceTarget_def IsDeferredRemoveSet_def IsSuspended_def reloadLinearDmDevice_def
    createLinearDmDevice_def load_dm_numbers_def
  by (intro preserving)+

lemma launched_endpoint [preserving]: "preserves (launched u g) (ublk_endpoint env b)"
  unfolding ublk_endpoint_def makeEndpoint_def by (intro preserving)

text \<open>What starting a disk is on the host: SPDK lists its disks, the target is created if this process has not done so, and the
  disk is started with an id that is not among the listed ones; no other disk is started before or after.\<close>

definition target_ready :: "'w node_env \<Rightarrow> bool \<Rightarrow> (process, 'w) node \<Rightarrow> (process, 'w) node" where
  "target_ready env created n = (if created then n else snd (on_spdk (UblkCreateTarget (spdk env) [] True) n))"

definition disks_request :: event where
  "disks_request = Called \<lparr> rc_method = ''ublk_get_disks'', rc_params = JObj [(''ublk_id'', JNum 0)],
     rc_timeout = DefaultShortTimeout \<rparr>"

definition start_request :: "string \<Rightarrow> i32 \<Rightarrow> i32 \<Rightarrow> i32 \<Rightarrow> event" where
  "start_request bdev i depth queues = Called \<lparr> rc_method = ''ublk_start_disk'',
     rc_params = JObj [(''bdev_name'', JStr bdev), (''ublk_id'', JNum (sint i)), (''queue_depth'', JNum (sint depth)),
       (''num_queues'', JNum (sint queues))],
     rc_timeout = DefaultShortTimeout \<rparr>"

definition fresh_disk_started ::
  "'w node_env \<Rightarrow> bool \<Rightarrow> string \<Rightarrow> i32 \<Rightarrow> i32 \<Rightarrow> i32 \<Rightarrow> UblkDevice list \<Rightarrow> event list \<Rightarrow> event list \<Rightarrow> bool" where
  "fresh_disk_started env created bdev i depth queues disks l l' =
     (\<exists>before n1 n2 n4 after.
        log n1 = l @ before \<and>
        on_spdk (UblkGetDisks (spdk env) 0) n1 = (Inr disks, n2) \<and> log n2 = log n1 @ [disks_request] \<and>
        i \<notin> ublk_id ` set disks \<and>
        (created \<or> fst (on_spdk (UblkCreateTarget (spdk env) [] True) n2) = Inr ()) \<and>
        on_spdk (UblkStartDisk (spdk env) bdev i depth queues) (target_ready env created n2) = (Inr (), n4) \<and>
        log n4 = log (target_ready env created n2) @ [start_request bdev i depth queues] \<and>
        l' = log n4 @ after \<and> list_all (\<lambda>e. \<not> starts_disk e) (before @ after))"

lemma fresh_disk_around:
  "fresh_disk_started env created bdev i depth queues ds (l @ pre) l' \<Longrightarrow> list_all (\<lambda>e. \<not> starts_disk e) pre \<Longrightarrow>
    list_all (\<lambda>e. \<not> starts_disk e) post \<Longrightarrow> fresh_disk_started env created bdev i depth queues ds l (l' @ post)"
  unfolding fresh_disk_started_def
  by (elim exE, rule_tac x = "pre @ before" in exI, rule_tac x = n1 in exI, rule_tac x = n2 in exI, rule_tac x = n4 in exI,
      rule_tac x = "after @ post" in exI) simp

lemma request_log:
  assumes "runs m (one_call meth ps t)" and "on_spdk m n = (Inr x, n')"
  shows "log n' = log n @ [Called \<lparr> rc_method = meth, rc_params = drop_empty_params ps, rc_timeout = t \<rparr>]"
  by (rule tracesD [OF logs_on_spdk [OF assms(1)] assms(2)]) (auto simp: one_call_def)

lemma disk_request_logs:
  "on_spdk (UblkGetDisks c 0) n = (Inr ds, n') \<Longrightarrow> log n' = log n @ [disks_request]"
  "on_spdk (UblkStartDisk c' bdev i depth queues) m = (Inr (), m') \<Longrightarrow> log m' = log m @ [start_request bdev i depth queues]"
  unfolding UblkGetDisks_def UblkStartDisk_def
  by (drule request_log [OF runs_rpc],
      simp add: disks_request_def start_request_def UblkGetDisksRequest_def UblkStartDiskRequest_def field_def jsigned_def
        drop_empty_params_def)+

text \<open>A call to SPDK does not look at the object.\<close>

lemma on_spdk_obj: "on_spdk m n = (r, n') \<Longrightarrow> on_spdk m (n\<lparr> obj := p \<rparr>) = (r, n'\<lparr> obj := p \<rparr>)"
  by (auto simp: on_spdk_def Let_def split: prod.splits)

lemma ensure_target_ready:
  assumes "ensure_ublk_target env n = (Inr (), n')"
  shows "isUblkTargetCreated (obj n) \<or> fst (on_spdk (UblkCreateTarget (spdk env) [] True) n) = Inr ()"
    and "\<exists>p. n' = (target_ready env (isUblkTargetCreated (obj n)) n)\<lparr> obj := p \<rparr>"
  using assms
  by (auto simp: ensure_ublk_target_def target_ready_def io_bind_def get_def modify_def io_return_def wrapping_Inr
      split: if_splits prod.splits sum.splits intro: exI [of _ "obj n"])

lemma launch_success:
  assumes "launch_ublk env i n = (Inr (), n')" and "ublk_at u g (obj n)"
  shows "ublk_at ((ublk_defaults u)\<lparr> UblkID := i \<rparr>) g (obj n')" and "isUblkTargetCreated (obj n')"
    and "isUblkTargetCreated (obj n) \<or> fst (on_spdk (UblkCreateTarget (spdk env) [] True) n) = Inr ()"
    and "\<exists>m. on_spdk (UblkStartDisk (spdk env) (BdevName u) i (UblkQueueDepth (ublk_defaults u)) (UblkNumberOfQueue (ublk_defaults u)))
        (target_ready env (isUblkTargetCreated (obj n)) n) = (Inr (), m) \<and> log n' = log m"
proof -
  define n1 where "n1 = n\<lparr> obj := (obj n)\<lparr> self := (self (obj n))\<lparr> UblkInfo := Some (ublk_defaults u) \<rparr> \<rparr> \<rparr>"
  have s: "set_ublk ublk_defaults n = (Inr (), n1)"
    using assms(2) by (simp add: set_ublk_def set_self_run n1_def ublk_at_def)
  obtain n2 v n3 where e: "ensure_ublk_target env n1 = (Inr (), n2)"
    and p: "ublk_ptr n2 = (Inr v, n2)"
    and k: "on_spdk (UblkStartDisk (spdk env) (BdevName v) i (UblkQueueDepth v) (UblkNumberOfQueue v)) n2 = (Inr (), n3)"
    and d: "set_ublk (\<lambda>u. u\<lparr> UblkID := i \<rparr>) n3 = (Inr (), n')"
    using assms(1) s unfolding launch_ublk_def
    by (auto simp: io_bind_eq_Inr ublk_ptr_def this_run io_fail_def io_return_def split: option.splits)
  have "preserves (ublk_at (ublk_defaults u) g) (ensure_ublk_target env)"
    unfolding ensure_ublk_target_def by (intro preserving preserves_modify) (simp add: ublk_at_def)
  from preservesD [OF this e] have at: "ublk_at (ublk_defaults u) g (obj n2)" by (simp add: n1_def ublk_at_def assms(2) [unfolded ublk_at_def])
  have flag: "isUblkTargetCreated (obj n2)" using ensure_target [OF e] by auto
  have o: "obj n3 = obj n2" by (rule keeps_run [OF keeps_on_spdk k])
  show "ublk_at ((ublk_defaults u)\<lparr> UblkID := i \<rparr>) g (obj n')" "isUblkTargetCreated (obj n')"
    using d at flag o by (auto simp: set_ublk_def set_self_run ublk_at_def)
  have n1: "isUblkTargetCreated (obj n1) = isUblkTargetCreated (obj n)" "n1 = n\<lparr> obj := obj n1 \<rparr>" by (simp_all add: n1_def)
  obtain r m where c: "on_spdk (UblkCreateTarget (spdk env) [] True) n = (r, m)" by fastforce
  then have c1: "on_spdk (UblkCreateTarget (spdk env) [] True) n1 = (r, m\<lparr> obj := obj n1 \<rparr>)" using on_spdk_obj n1(2) by metis
  show "isUblkTargetCreated (obj n) \<or> fst (on_spdk (UblkCreateTarget (spdk env) [] True) n) = Inr ()"
    using ensure_target_ready(1) [OF e] n1(1) c c1 by simp
  have v: "v = ublk_defaults u" using p at by (simp add: ublk_ptr_def io_bind_def this_run ublk_at_def io_return_def)
  have same: "target_ready env (isUblkTargetCreated (obj n)) n1 = (target_ready env (isUblkTargetCreated (obj n)) n)\<lparr> obj := obj n1 \<rparr>"
    using c c1 n1(2) by (simp add: target_ready_def)
  obtain q where "n2 = (target_ready env (isUblkTargetCreated (obj n)) n1)\<lparr> obj := q \<rparr>"
    using ensure_target_ready(2) [OF e] n1(1) by auto
  then have n2: "n2 = (target_ready env (isUblkTargetCreated (obj n)) n)\<lparr> obj := q \<rparr>" using same by simp
  then have "target_ready env (isUblkTargetCreated (obj n)) n = n2\<lparr> obj := obj (target_ready env (isUblkTargetCreated (obj n)) n) \<rparr>"
    by simp
  from on_spdk_obj [OF k, of "obj (target_ready env (isUblkTargetCreated (obj n)) n)", folded this]
  show "\<exists>m. on_spdk (UblkStartDisk (spdk env) (BdevName u) i (UblkQueueDepth (ublk_defaults u)) (UblkNumberOfQueue (ublk_defaults u)))
      (target_ready env (isUblkTargetCreated (obj n)) n) = (Inr (), m) \<and> log n' = log m"
    using d by (auto simp: v ublk_defaults_def set_ublk_def set_self_run)
qed

lemma attach_preserved:
  fixes env :: "'w node_env"
  assumes "attach_dm env msg cleanup busy k n = (r, n')" and "P (obj n)"
    and "preserves P (replaceDmDeviceTarget env)" "preserves P (createLinearDmDevice env)"
    and "preserves P (export_source :: ('w, unit) iop)" and "\<And>b. preserves P (k b)"
  shows "P (obj n')"
  by (rule preservesD [OF attach_preserves [OF assms(3,4,5,6)] assms(1,2)])

text \<open>The second half of a start: from a stopped disk to the endpoint.\<close>

definition start_fresh :: "'w node_env \<Rightarrow> bool \<Rightarrow> string \<Rightarrow> bool \<Rightarrow> ('w, bool \<times> go_error option) iop" where
  "start_fresh env cleanup name busy =
     or_return False (on_spdk (UblkGetDisks (spdk env) 0)) (\<lambda>ublkDeviceList.
     or_return False (next_ublk_id ublkDeviceList) (\<lambda>availableUblkID.
     or_return False (launch_ublk env availableUblkID) (\<lambda>_.
     or_return False (on_spdk (FindUblkDevicePath (spdk env) availableUblkID)) (\<lambda>devicePath.
     or_return busy
       (wrapping (''cannot find the device for ublk initiator '' @ name @ '' at path '' @ devicePath)
         (on_host (DetectDevice (executor env) devicePath))) (\<lambda>d.
     io_bind (set_self (\<lambda>i. i\<lparr> dev := Some \<lparr> Source = d, Export = no_device \<rparr> \<rparr>)) (\<lambda>_.
     attach_dm env (''failed to create linear dm device for ublk initiator '' @ name)
       cleanup busy (ublk_endpoint env)))))))"

text \<open>The steps before the disk list and after the start of the disk.\<close>

lemma next_id_run:
  "next_ublk_id ds n = (Inr i, n') \<Longrightarrow> \<exists>g'. GetAvailableID (idGenerator (obj n)) ds = (Inr i, g') \<and>
     n' = n\<lparr> obj := (obj n)\<lparr> idGenerator := g' \<rparr> \<rparr>"
  by (auto simp: next_ublk_id_def io_bind_def get_def modify_def io_lift_def Let_def split: prod.splits)

lemma start_fresh_success:
  assumes run: "start_fresh env cleanup name busy n = (Inr (b, None), n')" and at: "ublk_at u g (obj n)"
    and cursor: "cursor_ok g"
  shows "\<exists>ds i g'. GetAvailableID g ds = (Inr i, g') \<and> launched ((ublk_defaults u)\<lparr> UblkID := i \<rparr>) g' (obj n') \<and>
    fresh_disk_started env (isUblkTargetCreated (obj n)) (BdevName u) i (UblkQueueDepth (ublk_defaults u))
      (UblkNumberOfQueue (ublk_defaults u)) ds (log n) (log n')"
proof -
  obtain ds n4 i n5 n6 path n7 d n8 where l2: "on_spdk (UblkGetDisks (spdk env) 0) n = (Inr ds, n4)"
    and i: "next_ublk_id ds n4 = (Inr i, n5)" and la: "launch_ublk env i n5 = (Inr (), n6)"
    and f: "on_spdk (FindUblkDevicePath (spdk env) i) n6 = (Inr path, n7)"
    and dt: "on_host (DetectDevice (executor env) path) n7 = (Inr d, n8)"
    and at8: "attach_dm env (''failed to create linear dm device for ublk initiator '' @ name) cleanup busy (ublk_endpoint env)
           (n8\<lparr> obj := (obj n8)\<lparr> self := (self (obj n8))\<lparr> dev := Some \<lparr> Source = d, Export = no_device \<rparr> \<rparr> \<rparr> \<rparr>) =
           (Inr (b, None), n')"
    using run unfolding start_fresh_def
    by (auto simp: or_return_success wrapping_Inr io_bind_def [of "set_self _"] set_self_run)
  have o4: "obj n4 = obj n" using keeps_run [OF keeps_on_spdk l2] .
  obtain g' where g': "GetAvailableID g ds = (Inr i, g')" and n5: "n5 = n4\<lparr> obj := (obj n4)\<lparr> idGenerator := g' \<rparr> \<rparr>"
    using next_id_run [OF i] at o4 by (auto simp: ublk_at_def)
  have a5: "ublk_at u g' (obj n5)" "isUblkTargetCreated (obj n5) = isUblkTargetCreated (obj n)"
    using at o4 by (simp_all add: n5 ublk_at_def)
  note a6 = launch_success [OF la a5(1), unfolded a5(2)]
  have "obj n8 = obj n6" using keeps_run [OF keeps_on_spdk f] keeps_run [OF keeps_on_host dt] by simp
  with a6(1,2) have "launched ((ublk_defaults u)\<lparr> UblkID := i \<rparr>) g' (obj (n8\<lparr> obj := (obj n8)\<lparr> self := (self (obj n8))\<lparr> dev :=
      Some \<lparr> Source = d, Export = no_device \<rparr> \<rparr> \<rparr> \<rparr>))"
    by (simp add: launched_def ublk_at_def)
  from attach_preserved [where P = "launched ((ublk_defaults u)\<lparr> UblkID := i \<rparr>) g'", OF at8 this
      launched_dm(3) launched_dm(2) launched_export(2) launched_endpoint]
  have there: "launched ((ublk_defaults u)\<lparr> UblkID := i \<rparr>) g' (obj n')" .
  let ?t = "isUblkTargetCreated (obj n)"
  let ?created = "on_spdk (UblkCreateTarget (spdk env) [] True)"
  obtain r m where c: "?created n4 = (r, m)" by fastforce
  then have "?created n5 = (r, m\<lparr> obj := obj n5 \<rparr>)" unfolding n5 by (simp add: on_spdk_obj)
  with c n5 have made: "?t \<or> fst (?created n4) = Inr ()" "target_ready env ?t n5 = (target_ready env ?t n4)\<lparr> obj := obj n5 \<rparr>"
    using a6(3) by (auto simp: target_ready_def)
  obtain m1 where m1: "on_spdk (UblkStartDisk (spdk env) (BdevName u) i (UblkQueueDepth (ublk_defaults u))
      (UblkNumberOfQueue (ublk_defaults u))) (target_ready env ?t n5) = (Inr (), m1)" "log n6 = log m1"
    using a6(4) by blast
  from on_spdk_obj [OF m1(1), of "obj (target_ready env ?t n4)"]
  have st: "on_spdk (UblkStartDisk (spdk env) (BdevName u) i (UblkQueueDepth (ublk_defaults u))
      (UblkNumberOfQueue (ublk_defaults u))) (target_ready env ?t n4) = (Inr (), m1\<lparr> obj := obj (target_ready env ?t n4) \<rparr>)"
    by (simp add: made(2))
  obtain es1 where es1: "log n7 = log n6 @ es1" "list_all (\<lambda>e. \<not> starts_disk e) es1" by (rule calmlyD [OF calm.ublk_calls(3) f])
  obtain es2 where es2: "log n8 = log n7 @ es2" "list_all (\<lambda>e. \<not> starts_disk e) es2" by (rule calmlyD [OF calm.outside(1) dt])
  obtain es3 where es3: "log n' = log n8 @ es3" "list_all (\<lambda>e. \<not> starts_disk e) es3"
    by (rule calmlyD [OF calm.attaching [OF calm.ublk_endpoint_quiet] at8]) simp
  have "i \<notin> ublk_id ` set ds" using GetAvailableID_Inr [OF cursor g'] by simp
  then have "fresh_disk_started env ?t (BdevName u) i (UblkQueueDepth (ublk_defaults u))
      (UblkNumberOfQueue (ublk_defaults u)) ds (log n) (log n')"
    unfolding fresh_disk_started_def
    using l2 disk_request_logs(1) [OF l2] made(1) st disk_request_logs(2) [OF st] m1(2) es1 es2 es3
    by (intro exI [of _ "[]"] exI [of _ n] exI [of _ n4] exI [of _ "m1\<lparr> obj := obj (target_ready env ?t n4) \<rparr>"]
        exI [of _ "es1 @ es2 @ es3"]) simp
  then show ?thesis using there g' by blast
qed

lemma start_ublk_success:
  assumes run: "start_ublk env cleanup n = (Inr (b, None), n')" and at: "ublk_at u g (obj n)" and cursor: "cursor_ok g"
  shows "\<exists>ds i g'. GetAvailableID g ds = (Inr i, g') \<and> launched ((ublk_defaults u)\<lparr> UblkID := i \<rparr>) g' (obj n') \<and>
    fresh_disk_started env (isUblkTargetCreated (obj n)) (BdevName u) i (UblkQueueDepth (ublk_defaults u))
      (UblkNumberOfQueue (ublk_defaults u)) ds (log n) (log n')"
proof -
  let ?stop = "wrap_busy (''failed to stop the ublk initiator '' @ Initiator.Name (self (obj n)) @ '' before starting'')
       (stopWithoutLock env True cleanup False False)"
  let ?disks = "\<lambda>l. io_bind ublk_ptr (\<lambda>u. stop_disks_of env (BdevName u) l)"
  obtain l n1 n2 busy err n3 where l1: "on_spdk (UblkGetDisks (spdk env) 0) n = (Inr l, n1)"
    and s1: "?disks l n1 = (Inr (), n2)" and st: "?stop n2 = (Inr (busy, err), n3)"
    and r1: "(if err \<noteq> None then io_return (busy, err)
       else start_fresh env cleanup (Initiator.Name (self (obj n))) busy) n3 = (Inr (b, None), n')"
    using run unfolding start_ublk_def start_fresh_def
    by (auto simp: io_bind_def [of this] this_run or_return_success io_bind_eq_Inr [of "wrap_busy _ _"])
  have keep: "P (obj n3)" if "P (obj n)" "preserves P (?disks l)" "preserves P ?stop" for P
    using preservesD [OF that(3) st preservesD [OF that(2) s1]] that(1) keeps_run [OF keeps_on_spdk l1] by simp
  have a3: "ublk_at u g (obj n3)"
    by (rule keep [OF at _ preserves_wrap_busy [OF ublk_at_stop]]) (intro preserving)
  have t3: "isUblkTargetCreated (obj n3) = isUblkTargetCreated (obj n)"
    by (rule keep [OF refl _ preserves_wrap_busy [OF flag_stop]]) (intro preserving)
  obtain es1 where es1: "log n1 = log n @ es1" "list_all (\<lambda>e. \<not> starts_disk e) es1" by (rule calmlyD [OF calm.ublk_calls(2) l1])
  have c2: "calmly (?disks l)" by (intro emitting)
  obtain es2 where es2: "log n2 = log n1 @ es2" "list_all (\<lambda>e. \<not> starts_disk e) es2" by (rule calmlyD [OF c2 s1])
  obtain es3 where es3: "log n3 = log n2 @ es3" "list_all (\<lambda>e. \<not> starts_disk e) es3"
    by (rule calmlyD [OF emits_busy(2) [OF calm.stopping] st])
  have "err = None" using r1 by (auto simp: io_return_def split: if_splits)
  with r1 have "start_fresh env cleanup (Initiator.Name (self (obj n))) busy n3 = (Inr (b, None), n')" by simp
  from start_fresh_success [OF this a3 cursor] obtain ds i g' where g': "GetAvailableID g ds = (Inr i, g')"
    and la: "launched ((ublk_defaults u)\<lparr> UblkID := i \<rparr>) g' (obj n')"
    and fr: "fresh_disk_started env (isUblkTargetCreated (obj n)) (BdevName u) i (UblkQueueDepth (ublk_defaults u))
      (UblkNumberOfQueue (ublk_defaults u)) ds (log n @ es1 @ es2 @ es3) (log n')"
    using t3 es1(1) es2(1) es3(1) by auto
  from fresh_disk_around [OF fr, of "[]"] show ?thesis using g' la es1(2) es2(2) es3(2) by auto
qed

text \<open>
  Property C11. A successful \<open>StartUblkInitiator\<close> has launched one disk under a fresh id. SPDK has listed its disks, the
  target was created if this process had not done so, and then SPDK was asked, with exactly these parameters, to start
  a disk on the configured bdev, and has agreed; no other disk is started in the run. The id is a valid one that is
  not among the listed disks and not the one handed out last, and it is recorded both in the initiator and in the
  process-wide generator; the depth and number of queues are the configured ones or, where those are not positive, the
  defaults; the target exists and the device is known.
\<close>

theorem StartUblkInitiator_launches:
  assumes run: "StartUblkInitiator env cleanup n = (Inr (b, None), n')"
    and info: "UblkInfo (self (obj n)) = Some u" and cursor: "cursor_ok (idGenerator (obj n))"
  shows "\<exists>u' disks. UblkInfo (self (obj n')) = Some u' \<and> BdevName u' = BdevName u \<and>
    0 < unat (UblkID u') \<and> unat (UblkID u') \<le> 65535 \<and> UblkID u' \<noteq> lastCandidate (idGenerator (obj n)) \<and>
    UblkID u' = lastCandidate (idGenerator (obj n')) \<and>
    UblkQueueDepth u' = (if 0 < sint (UblkQueueDepth u) then UblkQueueDepth u else DefaultUblkQueueDepth) \<and>
    UblkNumberOfQueue u' = (if 0 < sint (UblkNumberOfQueue u) then UblkNumberOfQueue u else DefaultUblkNumberOfQueue) \<and>
    isUblkTargetCreated (obj n') \<and> dev (self (obj n')) \<noteq> None \<and>
    fresh_disk_started env (isUblkTargetCreated (obj n)) (BdevName u) (UblkID u') (UblkQueueDepth u') (UblkNumberOfQueue u')
      disks (log n) (log n')"
proof -
  let ?g = "idGenerator (obj n)"
  have l: "locked_busy env (io_return ()) (start_ublk env cleanup) n = (Inr (b, None), n')"
    using run info by (auto simp: StartUblkInitiator_def io_bind_def this_run wrap_busy_success [unfolded io_bind_def])
  have "\<exists>n1 n2 pre post. obj n1 = obj n \<and> start_ublk env cleanup n1 = (Inr (b, None), n2) \<and> obj n' = obj n2 \<and>
      log n1 = log n @ pre \<and> log n' = log n2 @ post \<and> list_all (\<lambda>e. \<not> starts_disk e) (pre @ post)"
    using l
  proof (cases rule: locked_busy_success)
    case unlocked
    then show ?thesis by (intro exI [of _ n] exI [of _ n'] exI [of _ "[]"]) simp
  next
    case (locked n1 n2)
    then have "log n' = log n2 @ map Sys (unlocks (self (obj n)))" "obj n' = obj n2"
      by (simp_all add: io_bind_def io_return_def unlock_log unlock_obj)
    then show ?thesis
      using newLock_taken [OF locked(2)] locked(3,4) by (auto simp: lock_events_def unlocks_def starts_disk_def)
  qed
  then obtain n1 n2 pre post where n1: "obj n1 = obj n" "log n1 = log n @ pre"
    and r: "start_ublk env cleanup n1 = (Inr (b, None), n2)" and n': "obj n' = obj n2" "log n' = log n2 @ post"
    and calm: "list_all (\<lambda>e. \<not> starts_disk e) pre" "list_all (\<lambda>e. \<not> starts_disk e) post"
    by auto
  have at: "ublk_at u ?g (obj n1)" using info n1(1) by (simp add: ublk_at_def)
  obtain ds i g' where i: "GetAvailableID ?g ds = (Inr i, g')"
    and la: "launched ((ublk_defaults u)\<lparr> UblkID := i \<rparr>) g' (obj n')"
    and fr: "fresh_disk_started env (isUblkTargetCreated (obj n)) (BdevName u) i (UblkQueueDepth (ublk_defaults u))
      (UblkNumberOfQueue (ublk_defaults u)) ds (log n @ pre) (log n2)"
    using start_ublk_success [OF r at cursor] n1 n'(1) by auto
  from fresh_disk_around [OF fr calm] n'(2) have fr: "fresh_disk_started env (isUblkTargetCreated (obj n)) (BdevName u) i
      (UblkQueueDepth (ublk_defaults u)) (UblkNumberOfQueue (ublk_defaults u)) ds (log n) (log n')" by simp
  from GetAvailableID_Inr [OF cursor i]
  have "0 < unat i" "unat i \<le> 65535" "i \<noteq> lastCandidate ?g" "lastCandidate g' = i" by auto
  then show ?thesis
    using la fr by (intro exI [of _ "(ublk_defaults u)\<lparr> UblkID := i \<rparr>"] exI [of _ ds])
      (auto simp: launched_def ublk_at_def ublk_defaults_def)
qed

section \<open>An endpoint that is already there\<close>

text \<open>
  Starting a ublk initiator whose endpoint exists takes whatever is there: the endpoint is neither
  compared with the new device nor replaced, and the start succeeds without marking the initiator as up, so
  that \<open>GetEndpoint\<close> of an initiator that was down still answers the empty path. (Starting an NVMe/TCP initiator
  goes through \<open>createEndpoint\<close>, which checks and replaces a stale endpoint and always ends up.)
\<close>

theorem ublk_endpoint_not_up:
  assumes exists: "isEndpointExist env n = (Inr True, n')" and down: "\<not> isUp (self (obj n))"
  shows "ublk_endpoint env b n = (Inr (b, None), n') \<and> GetEndpoint (self (obj n')) = [] \<and>
    (dev (self (obj n)) \<noteq> None \<longrightarrow> (\<forall>n''. createEndpoint env n = (Inr (), n'') \<longrightarrow> isUp (self (obj n''))))"
proof -
  have o: "obj n' = obj n" by (rule keeps_run [OF keeps_isEndpointExist exists])
  have "ublk_endpoint env b n = (Inr (b, None), n')"
    using exists by (simp add: ublk_endpoint_def io_bind_def this_run or_return_def wrapping_def io_case_def io_return_def)
  then show ?thesis using down o createEndpoint_up by (auto simp: GetEndpoint_def)
qed

theorem ublk_endpoint_not_up_witness:
  "\<exists>n'. ublk_endpoint table_env False (sample_node stale_table) = (Inr (False, None), n') \<and> GetEndpoint (self (obj n')) = []"
proof -
  obtain n' where e: "isEndpointExist table_env (sample_node stale_table) = (Inr True, n')"
    by (simp add: isEndpointExist_def io_bind_def this_run io_case_def do_sys_def table_env_def table_sys_def
        sample_node_def sample_initiator_def stale_table_def io_return_def)
  show ?thesis
    using ublk_endpoint_not_up [OF e] by (auto simp: sample_node_def sample_initiator_def)
qed

section \<open>A run\<close>

definition ublk_exec :: "'w executor" where
  "ublk_exec c w = (Inr ''nvme4n1 259:3'', w)"

definition ublk_env :: "Response list node_env" where
  "ublk_env = \<lparr> executor = ublk_exec, spdk = scripted,
     sys = (\<lambda>c w. (if c = Stat ''/dev/longhorn/v'' then Some (NotExistErr ''no such file or directory'') else None, w)),
     unix_stat = (\<lambda>p w. (Inl (NotExistErr ''no such file or directory''), w)),
     os_remove = (\<lambda>p w. (Some None, w)), range_order = (\<lambda>_ _. []) \<rparr>"

definition ublk_answers :: "Response list" where
  "ublk_answers = [answer (JArr []), answer (JArr []), answer JNull, answer JNull,
     answer (JArr [JObj [(''id'', JNum 1), (''ublk_device'', JStr ''/dev/nvme4n1'')]])]"

abbreviation (input) "at_node p w l \<equiv> \<lparr> obj = p, log = l, outside = w \<rparr>"

lemma ublk_calls_run:
  fixes p :: process
  shows
  "\<exists>l'. on_spdk (UblkGetDisks scripted 0) (at_node p (answer (JArr []) # rs) l) = (Inr [], at_node p rs l')"
  "\<exists>l'. on_spdk (UblkCreateTarget scripted [] True) (at_node p (answer JNull # rs) l) = (Inr (), at_node p rs l')"
  "\<exists>l'. on_spdk (UblkStartDisk scripted b i q nq) (at_node p (answer JNull # rs) l) = (Inr (), at_node p rs l')"
  "\<exists>l'. on_spdk (FindUblkDevicePath scripted 1) (at_node p (answer (JArr [JObj [(''id'', JNum 1),
     (''ublk_device'', JStr ''/dev/nvme4n1'')]]) # rs) l) = (Inr ''/dev/nvme4n1'', at_node p rs l')"
proof -
  have d1: "dec_list dec_UblkDevice (JArr [JObj [(''id'', JNum 1), (''ublk_device'', JStr ''/dev/nvme4n1'')]]) =
      Inr [\<lparr> ublk_bdev_name = [], ublk_id = 1, ublk_num_queues = 0, ublk_queue_depth = 0, ublk_device = ''/dev/nvme4n1'' \<rparr>]"
    by (simp add: dec_UblkDevice_def decoder_defs)
  show "\<exists>l'. on_spdk (UblkGetDisks scripted 0) (at_node p (answer (JArr []) # rs) l) = (Inr [], at_node p rs l')"
    by (simp add: on_spdk_def UblkGetDisks_def decoder_defs)
  show "\<exists>l'. on_spdk (UblkCreateTarget scripted [] True) (at_node p (answer JNull # rs) l) = (Inr (), at_node p rs l')"
    by (simp add: on_spdk_def UblkCreateTarget_def SendCommand_def io_case_def io_return_def)
  show "\<exists>l'. on_spdk (UblkStartDisk scripted b i q nq) (at_node p (answer JNull # rs) l) = (Inr (), at_node p rs l')"
    by (simp add: on_spdk_def UblkStartDisk_def dec_any_def)
  show "\<exists>l'. on_spdk (FindUblkDevicePath scripted 1) (at_node p (answer (JArr [JObj [(''id'', JNum 1),
     (''ublk_device'', JStr ''/dev/nvme4n1'')]]) # rs) l) = (Inr ''/dev/nvme4n1'', at_node p rs l')"
    by (simp add: on_spdk_def FindUblkDevicePath_def UblkGetDisks_def io_bind_def io_lift_def d1)
qed

definition ublk_with :: "LonghornBlockDevice option \<Rightarrow> i32 \<Rightarrow> i32 \<Rightarrow> i32 \<Rightarrow> bool \<Rightarrow> process" where
  "ublk_with d depth i cursor created = \<lparr>
     self = \<lparr> Name = ''v'', Endpoint = ''/dev/longhorn/v'', dev = d, isUp = False, NVMeTCPInfo = None,
       UblkInfo = Some \<lparr> BdevName = ''bdev'', UblkQueueDepth = depth, UblkNumberOfQueue = 4, UblkID = i \<rparr>,
       hostProc = [] \<rparr>,
     isUblkTargetCreated = created, idGenerator = \<lparr> lastCandidate = cursor \<rparr> \<rparr>"

lemma ublk_with_simps [simp]:
  "UblkInfo (self (ublk_with d q i c t)) = Some \<lparr> BdevName = ''bdev'', UblkQueueDepth = q, UblkNumberOfQueue = 4, UblkID = i \<rparr>"
  "NVMeTCPInfo (self (ublk_with d q i c t)) = None" "dev (self (ublk_with d q i c t)) = d"
  "hostProc (self (ublk_with d q i c t)) = []" "isUp (self (ublk_with d q i c t)) = False"
  "isUblkTargetCreated (ublk_with d q i c t) = t" "idGenerator (ublk_with d q i c t) = \<lparr> lastCandidate = c \<rparr>"
  "(ublk_with d q i c t)\<lparr> self := (self (ublk_with d q i c t))\<lparr> dev := d' \<rparr> \<rparr> = ublk_with d' q i c t"
  "(ublk_with d q i c t)\<lparr> self := (self (ublk_with d q i c t))\<lparr> UblkInfo := Some \<lparr> BdevName = ''bdev'', UblkQueueDepth = q',
     UblkNumberOfQueue = 4, UblkID = i' \<rparr> \<rparr> \<rparr> = ublk_with d q' i' c t"
  "(ublk_with d q i c t)\<lparr> isUblkTargetCreated := t' \<rparr> = ublk_with d q i c t'"
  "(ublk_with d q i c t)\<lparr> idGenerator := \<lparr> lastCandidate = c' \<rparr> \<rparr> = ublk_with d q i c' t"
  by (simp_all add: ublk_with_def)

abbreviation "ublk_fresh \<equiv> ublk_with None 0 UnInitializedUblkId 0 False"

lemma ublk_env_simps: "spdk ublk_env = scripted" "executor ublk_env = ublk_exec"
  by (simp_all add: ublk_env_def)

lemma ublk_launch_run:
  "\<exists>l'. launch_ublk ublk_env 1 (at_node (ublk_with None 0 UnInitializedUblkId 1 False) (answer JNull # answer JNull # rs) l) =
     (Inr (), at_node (ublk_with None DefaultUblkQueueDepth 1 1 True) rs l')"
proof -
  let ?q = DefaultUblkQueueDepth
  obtain l1 where l1: "on_spdk (UblkCreateTarget scripted [] True)
      (at_node (ublk_with None ?q UnInitializedUblkId 1 False) (answer JNull # answer JNull # rs) l) =
      (Inr (), at_node (ublk_with None ?q UnInitializedUblkId 1 False) (answer JNull # rs) l1)"
    using ublk_calls_run(2) by blast
  obtain l2 where l2: "on_spdk (UblkStartDisk scripted ''bdev'' 1 ?q 4)
      (at_node (ublk_with None ?q UnInitializedUblkId 1 True) (answer JNull # rs) l1) =
      (Inr (), at_node (ublk_with None ?q UnInitializedUblkId 1 True) rs l2)"
    using ublk_calls_run(3) by blast
  show ?thesis
    using l1 l2 by (simp add: launch_ublk_def io_bind_def ensure_ublk_target_def get_def wrapping_def io_case_def
        ublk_env_simps modify_def io_return_def ublk_ptr_def this_run set_ublk_def set_self_run ublk_defaults_def)
qed

lemma ublk_device_run:
  "\<exists>l'. on_host (DetectDevice ublk_exec ''/dev/nvme4n1'') (at_node p w l) = (Inr path_source, at_node p w l')"
  "\<exists>n'. ublk_endpoint ublk_env False
      (at_node (ublk_with (Some \<lparr> Source = path_source, Export = path_source \<rparr>) q 1 1 True) rs l) = (Inr (False, None), n')"
  by (simp_all add: on_host_def DetectDevice_def Execute_def ublk_exec_def io_bind_def io_lift_def path_detected
      ublk_endpoint_def or_return_def isEndpointExist_def makeEndpoint_def DuplicateDevice_def ensure_dir_def mknod_def
      io_case_def io_return_def wrapping_def this_run set_self_run do_sys_def ublk_env_def ublk_with_def sample_dir)

text \<open>The steps that call nobody.\<close>

lemma this_then: "io_bind this k n = k (self (obj n)) n"
  and set_then: "io_bind (set_self f) k' n = k' () (n\<lparr> obj := (obj n)\<lparr> self := f (self (obj n)) \<rparr> \<rparr>)"
  by (simp_all add: io_bind_def this_run set_self_run)

lemma ublk_silent_run:
  "io_bind ublk_ptr (\<lambda>u. stop_disks_of ublk_env (BdevName u) []) (at_node ublk_fresh rs l) = (Inr (), at_node ublk_fresh rs l)"
  "io_bind ublk_ptr (\<lambda>u. io_return ()) (at_node ublk_fresh rs l) = (Inr (), at_node ublk_fresh rs l)"
  "io_bind (wrap_busy msg (stopWithoutLock ublk_env True False False False)) k (at_node ublk_fresh rs l) =
     k (False, None) (at_node ublk_fresh rs l)"
  by (simp_all add: ublk_ptr_def wrap_busy_def stopWithoutLock_def stop_frontend_def stop_ublk_def io_bind_def this_run
      io_return_def)

lemma ublk_id_run:
  "next_ublk_id [] (at_node ublk_fresh rs l) = (Inr 1, at_node (ublk_with None 0 UnInitializedUblkId 1 False) rs l)"
proof -
  have "GetAvailableID \<lparr> lastCandidate = 0 \<rparr> [] = (Inr 1, \<lparr> lastCandidate = 1 \<rparr>)"
    by (simp add: GetAvailableID_def try_ids.simps candidate_def const_defs Let_def)
  then show ?thesis by (simp add: next_ublk_id_def io_bind_def get_def modify_def io_lift_def)
qed

lemma ublk_run:
  "\<exists>n'. start_ublk ublk_env False (at_node ublk_fresh ublk_answers []) = (Inr (False, None), n')"
proof -
  let ?rs1 = "tl ublk_answers" and ?rs2 = "tl (tl ublk_answers)"
  let ?rs4 = "tl (tl (tl (tl ublk_answers)))"
  let ?q = DefaultUblkQueueDepth
  note e = ublk_env_simps
  obtain l1 where l1: "on_spdk (UblkGetDisks scripted 0) (at_node ublk_fresh ublk_answers []) = (Inr [], at_node ublk_fresh ?rs1 l1)"
    using ublk_calls_run(1) unfolding ublk_answers_def list.sel by blast
  obtain l2 where l2: "on_spdk (UblkGetDisks scripted 0) (at_node ublk_fresh ?rs1 l1) = (Inr [], at_node ublk_fresh ?rs2 l2)"
    using ublk_calls_run(1) unfolding ublk_answers_def list.sel by blast
  obtain l4 where la: "launch_ublk ublk_env 1 (at_node (ublk_with None 0 UnInitializedUblkId 1 False) ?rs2 l2) =
      (Inr (), at_node (ublk_with None ?q 1 1 True) ?rs4 l4)"
    using ublk_launch_run unfolding ublk_answers_def list.sel by blast
  obtain l5 where l5: "on_spdk (FindUblkDevicePath scripted 1) (at_node (ublk_with None ?q 1 1 True) ?rs4 l4) =
      (Inr ''/dev/nvme4n1'', at_node (ublk_with None ?q 1 1 True) [] l5)"
    using ublk_calls_run(4) unfolding ublk_answers_def list.sel by blast
  obtain l6 where l6: "on_host (DetectDevice ublk_exec ''/dev/nvme4n1'') (at_node (ublk_with None ?q 1 1 True) ([] :: Response list) l5) =
      (Inr path_source, at_node (ublk_with None ?q 1 1 True) [] l6)"
    by (rule exE [OF ublk_device_run(1)])
  obtain n' where n': "ublk_endpoint ublk_env False
      (at_node (ublk_with (Some \<lparr> Source = path_source, Export = path_source \<rparr>) ?q 1 1 True) ([] :: Response list) l6) = (Inr (False, None), n')"
    by (rule exE [OF ublk_device_run(2)])
  show ?thesis
    unfolding start_ublk_def
    by (simp add: this_then or_return_def io_case_def e l1 l2 la l5 l6 ublk_silent_run ublk_id_run
        wrapping_def io_return_apply set_then attach_dm_def export_source_def io_bind_assoc dev_ptr_def n')
qed

theorem StartUblkInitiator_launches_witness:
  "\<exists>n'. StartUblkInitiator ublk_env False (at_node ublk_fresh ublk_answers []) = (Inr (False, None), n') \<and>
     isUblkTargetCreated (obj n') \<and> lastCandidate (idGenerator (obj n')) \<noteq> 0"
proof -
  obtain n' where "start_ublk ublk_env False (at_node ublk_fresh ublk_answers []) = (Inr (False, None), n')"
    using ublk_run by blast
  then have run: "StartUblkInitiator ublk_env False (at_node ublk_fresh ublk_answers []) = (Inr (False, None), n')"
    by (simp add: StartUblkInitiator_def io_bind_def this_run wrap_busy_def locked_busy_def io_return_def)
  show ?thesis
    using StartUblkInitiator_launches [OF run] run by (auto simp: cursor_ok_def)
qed

end
