(* ===== verification/InitiatorStop.thy ===== *)
theory InitiatorStop
  imports InitiatorLocks InitiatorRuns
begin

text \<open>
  Stopping an NVMe/TCP initiator: what a successful \<open>Stop\<close> does to the host, in its order and with the answers
  of the host that lead to it, and the object it leaves.
\<close>

section \<open>The plan\<close>

text \<open>Each step of the plan is given by the events it adds, the error it ends with, if any, and the state of the host
  after it.\<close>

definition removal_command :: "Initiator \<Rightarrow> bool \<Rightarrow> command" where
  "removal_command i deferred =
     cmd_of [] ''dmsetup'' ([''remove'', Initiator.Name i] @ (if deferred then [''--deferred''] else [])) ExecuteTimeout"

definition disconnection_command :: "string \<Rightarrow> command" where
  "disconnection_command nqn = cmd_of [] ''nvme'' [''disconnect'', ''--nqn'', nqn] ExecuteTimeout"

text \<open>The linear device is looked for and, exactly if it is there, removed.\<close>

definition dm_removal :: "'w node_env \<Rightarrow> Initiator \<Rightarrow> bool \<Rightarrow> 'w \<Rightarrow> event list \<times> go_error option \<times> 'w" where
  "dm_removal env i deferred w =
     (let path = getDmDevicePath (Initiator.Name i)
      in case sys env (Stat path) w of
           (Some err, w1) \<Rightarrow> ([Sys (Stat path)], Some err, w1)
         | (None, w1) \<Rightarrow>
             (case executor env (removal_command i deferred) w1 of
                (r, w2) \<Rightarrow> ([Sys (Stat path), Ran (removal_command i deferred)],
                  case r of Inl err \<Rightarrow> Some err | Inr out \<Rightarrow> None, w2)))"

text \<open>The endpoint is looked for and removed, unless the answer is that there is none.\<close>

definition endpoint_removal :: "'w node_env \<Rightarrow> Initiator \<Rightarrow> 'w \<Rightarrow> event list \<times> go_error option \<times> 'w" where
  "endpoint_removal env i w =
     (if Endpoint i = [] then ([], None, w)
      else (case sys env (Stat (Endpoint i)) w of (found, w1) \<Rightarrow>
        if case found of Some err \<Rightarrow> is_not_exist err | None \<Rightarrow> False then ([Sys (Stat (Endpoint i))], None, w1)
        else (case os_remove env (Endpoint i) w1 of (r, w2) \<Rightarrow>
          ([Sys (Stat (Endpoint i)), Sys (Remove (Endpoint i))],
           case r of
             None \<Rightarrow> Some (PlainErr (''timeout trying to delete '' @ Endpoint i))
           | Some None \<Rightarrow> None
           | Some (Some err) \<Rightarrow> if is_not_exist err then None else Some err, w2))))"

text \<open>No linear device is as good as a removed one; a busy one is reported, if that is tolerated.\<close>

definition dm_settled :: "bool \<Rightarrow> bool \<Rightarrow> go_error option \<Rightarrow> bool" where
  "dm_settled busy strict outcome =
     (case outcome of
        None \<Rightarrow> \<not> busy
      | Some err \<Rightarrow> if is_not_exist err then \<not> busy else ErrorIsDeviceOrResourceBusy err \<and> busy \<and> \<not> strict)"

definition teardown ::
  "'w node_env \<Rightarrow> Initiator \<Rightarrow> bool \<Rightarrow> bool \<Rightarrow> bool \<Rightarrow> string \<Rightarrow> bool \<Rightarrow> 'w \<Rightarrow> event list \<Rightarrow> bool" where
  "teardown env i cleanup deferred strict nqn busy w es =
     (let (dm, dm_error, w1) = if cleanup then dm_removal env i deferred w else ([], None, w);
          (ep, ep_error, w2) = if cleanup then endpoint_removal env i w1 else ([], None, w1)
      in es = dm @ ep @ [Ran (disconnection_command nqn)] \<and> dm_settled busy strict dm_error \<and> ep_error = None \<and>
        \<not> isl (fst (executor env (disconnection_command nqn) w2)))"

definition without_path :: "NVMeTCPInfo \<Rightarrow> NVMeTCPInfo" where
  "without_path info =
     info\<lparr> ControllerName := [], NamespaceName := [], TransportAddress := [], TransportServiceID := [] \<rparr>"

section \<open>The steps\<close>

lemma command_run:
  assumes "on_host (run_only (Execute ex envs binary args t)) n = (r, n1)"
  shows "log n1 = log n @ [Ran (cmd_of envs binary args t)]" and "obj n1 = obj n"
    and "map_sum id (\<lambda>_. ()) (fst (ex (cmd_of envs binary args t) (outside n))) = r"
    and "snd (ex (cmd_of envs binary args t) (outside n)) = outside n1"
  using assms
  by (auto simp: on_host_def run_only_def Execute_def cmd_of_def io_bind_def io_return_def Let_def split: prod.splits sum.splits)

definition error_of :: "go_error + 'a \<Rightarrow> go_error option" where
  "error_of r = (case r of Inl err \<Rightarrow> Some err | Inr x \<Rightarrow> None)"

lemma removeLinearDmDevice_run:
  assumes run: "removeLinearDmDevice env False deferred n = (r, n1)"
  shows "\<exists>es. dm_removal env (self (obj n)) deferred (outside n) = (es, error_of r, outside n1) \<and> log n1 = log n @ es \<and>
    obj n1 = obj n"
proof -
  let ?i = "self (obj n)"
  let ?path = "getDmDevicePath (Initiator.Name ?i)"
  obtain e w where s: "sys env (Stat ?path) (outside n) = (e, w)" by fastforce
  let ?n = "n\<lparr> log := log n @ [Sys (Stat ?path)], outside := w \<rparr>"
  show ?thesis
  proof (cases e)
    case (Some err)
    then have "r = Inl err" "n1 = ?n"
      using run s by (auto simp: removeLinearDmDevice_def io_bind_def this_run  do_sys_def)
    then show ?thesis using s Some by (simp add: dm_removal_def error_of_def)
  next
    case None
    then have "on_host (run_only (Execute (executor env) [] ''dmsetup''
        ([''remove'', Initiator.Name ?i] @ (if deferred then [''--deferred''] else [])) ExecuteTimeout)) ?n = (r, n1)"
      using run s
      by (simp add: removeLinearDmDevice_def io_bind_def this_run  do_sys_def DmsetupRemove_def dmsetup_def
          dmsetupBinary_def)
    from command_run [OF this] show ?thesis
      using s None
      by (cases "executor env (removal_command ?i deferred) w"; cases r)
        (auto simp: dm_removal_def removal_command_def error_of_def split: sum.splits)
  qed
qed

lemma stop_dm_run:
  assumes "stop_dm env deferred strict n = (Inr (busy, None), n1)"
  shows "\<exists>es e. dm_removal env (self (obj n)) deferred (outside n) = (es, e, outside n1) \<and> dm_settled busy strict e \<and>
    log n1 = log n @ es \<and> obj n1 = obj n"
proof -
  obtain r where r: "removeLinearDmDevice env False deferred n = (r, n1)" and "dm_settled busy strict (error_of r)"
    using assms
    by (auto simp: stop_dm_def dm_settled_def error_of_def io_case_def io_return_def split: prod.splits sum.splits if_splits)
  then show ?thesis using removeLinearDmDevice_run [OF r] by blast
qed

lemma removeEndpoint_run:
  assumes "removeEndpoint env n = (Inr (), n1)"
  shows "self (obj n1) = (if Endpoint (self (obj n)) = [] then self (obj n) else (self (obj n))\<lparr> dev := None, isUp := False \<rparr>)"
    and "\<exists>es. endpoint_removal env (self (obj n)) (outside n) = (es, None, outside n1) \<and> log n1 = log n @ es"
  using assms
  by (auto simp: removeEndpoint_def RemoveDevice_def remove_def removeAsync_def do_sys_def endpoint_removal_def io_case_def
      io_bind_def this_run set_self_run io_return_def split: prod.splits sum.splits option.splits if_splits)

lemma stop_frontend_run:
  assumes "stop_frontend env has_client busy n = (Inr (b, None), n1)" and "NVMeTCPInfo (self (obj n)) = Some info"
  shows "b = busy" and "self (obj n1) = (self (obj n))\<lparr> NVMeTCPInfo := Some (without_path info) \<rparr>"
    and "log n1 = log n @ [Ran (disconnection_command (SubsystemNQN info))]"
    and "\<not> isl (fst (executor env (disconnection_command (SubsystemNQN info)) (outside n)))"
proof -
  let ?disconnect = "on_host (run_only (Execute (executor env) [] nvmeBinary [''disconnect'', ''--nqn'', SubsystemNQN info] ExecuteTimeout))"
  obtain n2 where d: "?disconnect n = (Inr (), n2)" and b: "b = busy"
    and n1: "n1 = n2\<lparr> obj := (obj n2)\<lparr> self := (self (obj n2))\<lparr> NVMeTCPInfo := map_option without_path (NVMeTCPInfo (self (obj n2))) \<rparr> \<rparr> \<rparr>"
    using assms
    by (auto simp: stop_frontend_def DisconnectTarget_def disconnect_def nvme_def or_return_success wrapping_Inr set_info_def
        without_path_def [abs_def] io_bind_eq_Inr io_simps io_return_def)
  note l = command_run [OF d]
  show "b = busy" by (rule b)
  show "self (obj n1) = (self (obj n))\<lparr> NVMeTCPInfo := Some (without_path info) \<rparr>"
    using l(2) assms(2) by (simp add: n1)
  show "log n1 = log n @ [Ran (disconnection_command (SubsystemNQN info))]"
    using l(1) by (simp add: n1 disconnection_command_def nvmeBinary_def)
  show "\<not> isl (fst (executor env (disconnection_command (SubsystemNQN info)) (outside n)))"
    using l(3) by (cases "fst (executor env (disconnection_command (SubsystemNQN info)) (outside n))")
      (simp_all add: disconnection_command_def nvmeBinary_def)
qed

text \<open>What a stop leaves of the initiator.\<close>

definition stopped :: "bool \<Rightarrow> NVMeTCPInfo \<Rightarrow> Initiator \<Rightarrow> Initiator" where
  "stopped cleanup info i =
     (if cleanup \<and> Endpoint i \<noteq> [] then i\<lparr> dev := None, isUp := False \<rparr> else i)\<lparr> NVMeTCPInfo := Some (without_path info) \<rparr>"

lemma stopWithoutLock_run:
  assumes run: "stopWithoutLock env has_client cleanup deferred strict n = (Inr (busy, None), n')"
    and info: "NVMeTCPInfo (self (obj n)) = Some info"
  shows "self (obj n') = stopped cleanup info (self (obj n)) \<and>
    (\<exists>es. log n' = log n @ es \<and> teardown env (self (obj n)) cleanup deferred strict (SubsystemNQN info) busy (outside n) es)"
proof (cases cleanup)
  case False
  with stop_frontend_run [OF _ info] run show ?thesis
    by (fastforce simp: stopWithoutLock_def stopped_def teardown_def dm_settled_def)
next
  case True
  then obtain b n1 n2 where d: "stop_dm env deferred strict n = (Inr (b, None), n1)" and e: "removeEndpoint env n1 = (Inr (), n2)"
    and f: "stop_frontend env has_client b n2 = (Inr (busy, None), n')"
    using run by (auto simp: stopWithoutLock_def io_bind_eq_Inr or_return_success io_return_def split: if_splits)
  obtain es1 x where dm: "dm_removal env (self (obj n)) deferred (outside n) = (es1, x, outside n1)" "dm_settled b strict x"
    "log n1 = log n @ es1" "obj n1 = obj n"
    using stop_dm_run [OF d] by blast
  note ep = removeEndpoint_run [OF e]
  obtain es2 where es2: "endpoint_removal env (self (obj n1)) (outside n1) = (es2, None, outside n2)" "log n2 = log n1 @ es2"
    using ep(2) by blast
  have "NVMeTCPInfo (self (obj n2)) = Some info"
    using info dm(4) ep(1) by simp
  note fr = stop_frontend_run [OF f this]
  have "log n' = log n @ es1 @ es2 @ [Ran (disconnection_command (SubsystemNQN info))]"
    using dm(3) es2(2) fr(3) by simp
  moreover have "teardown env (self (obj n)) cleanup deferred strict (SubsystemNQN info) busy (outside n)
      (es1 @ es2 @ [Ran (disconnection_command (SubsystemNQN info))])"
    using True dm es2(1) fr(1,4) by (simp add: teardown_def)
  moreover have "self (obj n') = stopped cleanup info (self (obj n))"
    using True fr(2) dm(4) ep(1) by (simp add: stopped_def)
  ultimately show ?thesis by blast
qed

lemma releases:
  "log (snd (io_bind (remove_lock_file env) (\<lambda>_. unlock env i) n)) =
     log n @ [Sys (Remove (lockFilePath (self (obj n)))), Sys (Unlock (lockFilePath i))]"
  "obj (snd (io_bind (remove_lock_file env) (\<lambda>_. unlock env i) n)) = obj n"
  by (simp_all add: remove_lock_file_def unlock_def io_bind_def this_run do_sys_def split: prod.split)

text \<open>The host once the lock is held.\<close>

definition once_locked :: "'w node_env \<Rightarrow> Initiator \<Rightarrow> 'w \<Rightarrow> 'w" where
  "once_locked env i w =
     (if hostProc i = [] then w
      else snd (sys env (Lock (lockFilePath i) LockTimeout) (snd (sys env (CreateDirectory LockDir) w))))"

lemma newLock_world:
  "newLock env n = (Inr (), n1) \<Longrightarrow> hostProc (self (obj n)) \<noteq> [] \<Longrightarrow> outside n1 = once_locked env (self (obj n)) (outside n)"
  by (auto simp: newLock_def once_locked_def io_bind_def this_run wrapping_def io_case_def io_fail_def io_return_def
      do_sys_def Let_def split: if_splits sum.splits prod.splits option.splits)

section \<open>Stopping\<close>

text \<open>
  Property C7. A successful \<open>Stop\<close> of an NVMe/TCP initiator tears it down in the reverse order of its start: with
  the lock held, if it was asked to clean up, it looks for the linear device and, exactly if it is there, has
  \<open>dmsetup\<close> remove it; then it removes the endpoint, unless the host answers that there is none; then \<open>nvme\<close>
  disconnects the target; and last the lock file is removed and the lock released. Each step has succeeded, or found
  nothing to remove, or the linear device is busy, which is reported, and only if that was to be tolerated; nothing
  else is done to the host. The recorded path is forgotten and the NQN kept; with cleanup of an endpoint, the
  device is forgotten and the initiator has no endpoint any more.
\<close>

theorem Stop_takes_down:
  assumes run: "Stop env has_client cleanup deferred strict n = (Inr (busy, None), n')"
    and info: "NVMeTCPInfo (self (obj n)) = Some info"
  shows "(\<exists>es. teardown env (self (obj n)) cleanup deferred strict (SubsystemNQN info) busy
         (once_locked env (self (obj n)) (outside n)) es \<and>
       log n' = log n @ (if hostProc (self (obj n)) = [] then es
         else lock_events (self (obj n)) @ es @ map Sys (removes_then_unlocks (self (obj n))))) \<and>
     self (obj n') = stopped cleanup info (self (obj n)) \<and>
     (cleanup \<and> Endpoint (self (obj n)) \<noteq> [] \<longrightarrow> GetEndpoint (self (obj n')) = []) \<and>
     (busy \<longrightarrow> cleanup \<and> \<not> strict)"
proof -
  let ?i = "self (obj n)"
  have down: "cleanup \<and> Endpoint ?i \<noteq> [] \<longrightarrow> GetEndpoint (stopped cleanup info ?i) = []"
    by (simp add: stopped_def GetEndpoint_def)
  have b: "busy \<longrightarrow> cleanup \<and> \<not> strict" if "teardown env ?i cleanup deferred strict q busy w es" for q w es
    using that by (auto simp: teardown_def dm_settled_def split: if_splits prod.splits option.splits)
  from run [unfolded Stop_def] show ?thesis
  proof (cases rule: locked_busy_success)
    case unlocked
    with stopWithoutLock_run [OF unlocked(2) info] down b show ?thesis by (auto simp: once_locked_def)
  next
    case (locked n1 n2)
    from stopWithoutLock_run [OF locked(4), of info] info locked(3) obtain es
      where st: "self (obj n2) = stopped cleanup info ?i"
        and es: "log n2 = log n1 @ es" "teardown env ?i cleanup deferred strict (SubsystemNQN info) busy (outside n1) es"
      by auto
    have "log n1 = log n @ lock_events ?i" by (rule newLock_taken [OF locked(2)])
    with es(1) have "log n2 = log n @ lock_events ?i @ es" by simp
    moreover have "lockFilePath (self (obj n2)) = lockFilePath ?i" using st by (simp add: stopped_def lockFilePath_def)
    ultimately have "log n' = log n @ lock_events ?i @ es @ map Sys (removes_then_unlocks ?i)" and "obj n' = obj n2"
      using releases [of env ?i n2] locked(5) by (simp_all add: removes_then_unlocks_def)
    moreover have "outside n1 = once_locked env ?i (outside n)" by (rule newLock_world [OF locked(2,1)])
    ultimately show ?thesis using es(2) st down b [OF es(2)] locked(1) by auto
  qed
qed

text \<open>A host that answers every command, the device table with a linear device and an endpoint.\<close>

definition obliging_env :: "(string \<rightharpoonup> stat_info) node_env" where
  "obliging_env = table_env\<lparr> executor := \<lambda>_ w. (Inr [], w) \<rparr>"

definition two_nodes :: "string \<rightharpoonup> stat_info" where
  "two_nodes = [''/dev/mapper/v'' \<mapsto> \<lparr> st_mode = 0x6000, st_rdev = 0 \<rparr>, ''/dev/longhorn/v'' \<mapsto> \<lparr> st_mode = 0x6000, st_rdev = 0 \<rparr>]"

lemma linear_path: "getDmDevicePath ''v'' = ''/dev/mapper/v''"
  by code_simp

theorem Stop_takes_down_witness:
  "\<exists>n'. Stop obliging_env False True True False (run_node (loaded no_device True) two_nodes []) = (Inr (False, None), n') \<and>
     GetEndpoint (self (obj n')) = [] \<and> dev (self (obj n')) = None"
proof -
  let ?n = "run_node (loaded no_device True) two_nodes []"
  have "\<exists>n'. Stop obliging_env False True True False ?n = (Inr (False, None), n')"
    by (simp add: Stop_def locked_busy_def newLock_def stopWithoutLock_def stop_dm_def removeLinearDmDevice_def DmsetupRemove_def
        dmsetup_def removeEndpoint_def RemoveDevice_def remove_def removeAsync_def stop_frontend_def DisconnectTarget_def disconnect_def
        nvme_def Execute_def run_only_def on_host_def or_return_def wrapping_def deferring_def set_info_def io_bind_def io_case_def
        io_return_def this_run set_self_run do_sys_def obliging_env_def table_env_def table_sys_def two_nodes_def linear_path
        path_process_def run_node_def)
  then obtain n' where run: "Stop obliging_env False True True False ?n = (Inr (False, None), n')" ..
  from Stop_takes_down [OF run] run show ?thesis by (auto simp: stopped_def)
qed

end
