(* ===== verification/ProcessFinder.thy ===== *)
theory ProcessFinder
  imports GoErrors
begin

text \<open>
  Finding an ancestor process by name, \<open>pkg/util/process.go\<close>. Reading \<open>/proc/<pid>/status\<close> is a library of
  its own (\<open>goprocinfo\<close>): the parameter \<open>read_status\<close>, a function of the path.
\<close>

record ProcessStatus =
  Name :: string
  Pid :: int
  PPid :: int

record ProcessFinder =
  procPath :: string

type_synonym read_status = "string \<Rightarrow> go_error + ProcessStatus"

definition DockerdProcess :: string where "DockerdProcess = ''dockerd''"
definition ContainerdProcess :: string where "ContainerdProcess = ''containerd''"
definition ContainerdShimProcess :: string where "ContainerdShimProcess = ''containerd-shim''"

definition NewProcessFinder :: "string \<Rightarrow> ProcessFinder" where
  "NewProcessFinder path = \<lparr> procPath = path \<rparr>"

definition FindPid :: "read_status \<Rightarrow> ProcessFinder \<Rightarrow> int \<Rightarrow> go_error + ProcessStatus" where
  "FindPid rd p pid = rd (procPath p @ ''/'' @ itoa pid @ ''/status'')"

definition FindSelf :: "read_status \<Rightarrow> ProcessFinder \<Rightarrow> go_error + ProcessStatus" where
  "FindSelf rd p = rd (procPath p @ ''/self/status'')"

text \<open>The loop up the parents. It has no bound of its own, so that its result is \<^term>\<open>None\<close> when it does not end.\<close>

partial_function (option) climb ::
  "read_status \<Rightarrow> ProcessFinder \<Rightarrow> string \<Rightarrow> ProcessStatus \<Rightarrow> (go_error + ProcessStatus) option" where
  "climb rd p ancestorProcess ps =
     (if Name ps = ancestorProcess then Some (Inr ps)
      else if PPid ps = 0
      then Some (Inl (PlainErr (''failed to find the ancestor process: '' @ ancestorProcess)))
      else (case FindPid rd p (PPid ps) of
              Inl err \<Rightarrow> Some (Inl err)
            | Inr ps' \<Rightarrow> climb rd p ancestorProcess ps'))"

definition FindAncestorByName ::
  "read_status \<Rightarrow> ProcessFinder \<Rightarrow> string \<Rightarrow> (go_error + ProcessStatus) option" where
  "FindAncestorByName rd p ancestorProcess =
     (case FindSelf rd p of
        Inl err \<Rightarrow> Some (Inl err)
      | Inr ps \<Rightarrow> climb rd p ancestorProcess ps)"

definition ns_path :: "string \<Rightarrow> int \<Rightarrow> string" where
  "ns_path hostProcPath pid = hostProcPath @ ''/'' @ itoa pid @ ''/ns/''"

definition GetHostNamespacePath :: "read_status \<Rightarrow> string \<Rightarrow> string option" where
  "GetHostNamespacePath rd hostProcPath =
     (let pf = NewProcessFinder hostProcPath in
      Option.bind (FindAncestorByName rd pf DockerdProcess) (\<lambda>r. case r of
        Inr proc \<Rightarrow> Some (ns_path hostProcPath (Pid proc))
      | Inl _ \<Rightarrow>
          Option.bind (FindAncestorByName rd pf ContainerdProcess) (\<lambda>r. case r of
            Inr proc \<Rightarrow> Some (ns_path hostProcPath (Pid proc))
          | Inl _ \<Rightarrow>
              Option.bind (FindAncestorByName rd pf ContainerdShimProcess) (\<lambda>r. case r of
                Inr proc \<Rightarrow> Some (ns_path hostProcPath (Pid proc))
              | Inl _ \<Rightarrow> Some (ns_path hostProcPath 1)))))"

section \<open>Facts\<close>

text \<open>The processes above a process.\<close>

inductive above :: "read_status \<Rightarrow> ProcessFinder \<Rightarrow> ProcessStatus \<Rightarrow> ProcessStatus \<Rightarrow> bool"
  for rd p where
  above_self: "above rd p ps ps"
| above_parent: "PPid ps \<noteq> 0 \<Longrightarrow> FindPid rd p (PPid ps) = Inr ps' \<Longrightarrow> above rd p ps' qs \<Longrightarrow> above rd p ps qs"

inductive_cases aboveE: "above rd p ps qs"

text \<open>A forest of processes: a child is one level below its parent. It is what the kernel keeps, and it rules out
  cycles.\<close>

definition forest :: "(ProcessStatus \<Rightarrow> nat) \<Rightarrow> read_status \<Rightarrow> ProcessFinder \<Rightarrow> bool" where
  "forest level rd p =
     (\<forall>ps ps'. PPid ps \<noteq> 0 \<longrightarrow> FindPid rd p (PPid ps) = Inr ps' \<longrightarrow> level ps' < level ps)"

lemma climb_returns:
  assumes "forest level rd p"
  shows "\<exists>r. climb rd p a ps = Some r \<and> (case r of
      Inr qs \<Rightarrow> Name qs = a \<and> above rd p ps qs
    | Inl _ \<Rightarrow> \<not> (\<exists>qs. above rd p ps qs \<and> Name qs = a))"
proof (induction "level ps" arbitrary: ps rule: less_induct)
  case less
  show ?case
  proof (cases "Name ps = a")
    case True
    then show ?thesis by (subst climb.simps) (auto intro: above_self)
  next
    case ne: False
    show ?thesis
    proof (cases "PPid ps \<noteq> 0 \<and> (\<exists>ps'. FindPid rd p (PPid ps) = Inr ps')")
      case True
      then obtain ps' where parent: "PPid ps \<noteq> 0" "FindPid rd p (PPid ps) = Inr ps'" by auto
      with assms have "level ps' < level ps" by (auto simp: forest_def)
      from less [OF this] obtain r where r: "climb rd p a ps' = Some r" "case r of
          Inr qs \<Rightarrow> Name qs = a \<and> above rd p ps' qs | Inl _ \<Rightarrow> \<not> (\<exists>qs. above rd p ps' qs \<and> Name qs = a)"
        by auto
      have "climb rd p a ps = Some r"
        using ne parent r(1) by (subst climb.simps) simp
      moreover have "above rd p ps' qs \<or> qs = ps" if "above rd p ps qs" for qs
        using that parent by (auto elim: aboveE)
      ultimately show ?thesis
        using r(2) ne parent by (cases r) (auto intro: above_parent)
    next
      case False
      have "qs = ps" if "above rd p ps qs" for qs
        using that False by (auto elim: aboveE)
      then have "\<not> (\<exists>qs. above rd p ps qs \<and> Name qs = a)"
        using ne by blast
      moreover have "\<exists>e. climb rd p a ps = Some (Inl e)"
        using ne False by (subst climb.simps) (auto split: sum.split)
      ultimately show ?thesis by auto
    qed
  qed
qed

text \<open>
  Property C23. On a forest of processes the search always ends, and it is exact: it finds a process with the
  requested name that is the calling process or one of its ancestors, and it reports an error only if there is
  none (or the calling process cannot be read). Hence \<open>GetHostNamespacePath\<close> always returns a path, of process
  1 if none of the three daemons is an ancestor.
\<close>

theorem FindAncestorByName_exact:
  assumes "forest level rd p"
  shows "(\<exists>r. FindAncestorByName rd p a = Some r \<and> (case r of
      Inr qs \<Rightarrow> Name qs = a \<and> (\<exists>ps. FindSelf rd p = Inr ps \<and> above rd p ps qs)
    | Inl _ \<Rightarrow> \<not> (\<exists>ps qs. FindSelf rd p = Inr ps \<and> above rd p ps qs \<and> Name qs = a))) \<and>
    (\<exists>pid. GetHostNamespacePath rd (procPath p) = Some (ns_path (procPath p) pid))"
proof -
  have f: "\<exists>r. FindAncestorByName rd p a = Some r \<and> (case r of
      Inr qs \<Rightarrow> Name qs = a \<and> (\<exists>ps. FindSelf rd p = Inr ps \<and> above rd p ps qs)
    | Inl _ \<Rightarrow> \<not> (\<exists>ps qs. FindSelf rd p = Inr ps \<and> above rd p ps qs \<and> Name qs = a))" for a
    using climb_returns [OF assms, of a]
    by (cases "FindSelf rd p") (fastforce simp: FindAncestorByName_def split: sum.splits)+
  then have s: "\<exists>r. FindAncestorByName rd p a = Some r" for a by blast
  have "NewProcessFinder (procPath p) = p" by (simp add: NewProcessFinder_def)
  then have "\<exists>pid. GetHostNamespacePath rd (procPath p) = Some (ns_path (procPath p) pid)"
    using s [of DockerdProcess] s [of ContainerdProcess] s [of ContainerdShimProcess]
    by (auto simp: GetHostNamespacePath_def split: sum.split)
  with f show ?thesis by blast
qed

text \<open>An example: a process under containerd under process 1.\<close>

definition sample_status :: read_status where
  "sample_status path =
     (if path = ''/host/proc/self/status'' then Inr \<lparr> Name = ''helper'', Pid = 40, PPid = 7 \<rparr>
      else if path = ''/host/proc/7/status'' then Inr \<lparr> Name = ''containerd'', Pid = 7, PPid = 1 \<rparr>
      else if path = ''/host/proc/1/status'' then Inr \<lparr> Name = ''systemd'', Pid = 1, PPid = 0 \<rparr>
      else Inl (NotExistErr ''no such process''))"

lemma itoa_digit:
  assumes "itoa i = itoa_nat n"
  shows "i = int n"
proof (cases "i < 0")
  case True
  then have "itoa_nat n = CHR ''-'' # itoa_nat (nat (- i))"
    unfolding assms [symmetric] by (simp add: itoa_def)
  then have "is_digit (CHR ''-'')" using itoa_nat_hd_digit [of n] by simp
  then show ?thesis by (simp add: is_digit_def)
next
  case False
  then have "itoa_nat (nat i) = itoa_nat n" using assms by (simp add: itoa_def)
  then have "nat i = n" by (metis digits_value_itoa_nat option.inject)
  then show ?thesis using False by simp
qed

lemma sample_forest:
  "forest (\<lambda>ps. if PPid ps = 0 then 0 else if PPid ps = 1 then 1 else 2) sample_status \<lparr> procPath = ''/host/proc'' \<rparr>"
proof -
  have d: "''7'' = itoa_nat 7" "''1'' = itoa_nat 1"
    by code_simp+
  have "itoa i = ''7'' \<Longrightarrow> i = 7" "itoa i = ''1'' \<Longrightarrow> i = 1" for i
    unfolding d by (drule itoa_digit, simp)+
  moreover have "itoa 1 = ''1''" by code_simp
  moreover have "itoa i \<noteq> ''self''" for i
    using itoa_chars [of "CHR ''s''" i] by (auto simp: is_digit_def)
  ultimately show ?thesis
    by (auto simp: forest_def FindPid_def sample_status_def split: if_splits)
qed

theorem FindAncestorByName_exact_witness:
  "\<exists>pid. GetHostNamespacePath sample_status ''/host/proc'' = Some (ns_path ''/host/proc'' pid)"
  using FindAncestorByName_exact [OF sample_forest] by simp

end
