(* ===== verification/SpdkSetup.thy ===== *)
theory SpdkSetup
  imports NvmeCli
begin

text \<open>
  Binding devices to drivers through SPDK's setup script, and starting \<open>spdk_tgt\<close>:
  \<open>pkg/spdk/setup/setup.go\<close> and \<open>pkg/spdk/target/target.go\<close>.
\<close>

section \<open>The setup script\<close>

record DiskStatus =
  Bdf :: string
  Type :: string
  Driver :: string
  Vendor :: string
  Numa :: string
  Device :: string
  BlockDevices :: string

definition dec_DiskStatus :: "DiskStatus decoder" where
  "dec_DiskStatus = dec_fields (\<lambda>kvs.
     get_field ''Bdf'' dec_string kvs (\<lambda>x1.
     get_field ''Type'' dec_string kvs (\<lambda>x2.
     get_field ''Driver'' dec_string kvs (\<lambda>x3.
     get_field ''Vendor'' dec_string kvs (\<lambda>x4.
     get_field ''Numa'' dec_string kvs (\<lambda>x5.
     get_field ''Device'' dec_string kvs (\<lambda>x6.
     get_field ''BlockDevices'' dec_string kvs (\<lambda>x7.
     Inr \<lparr> Bdf = x1, Type = x2, Driver = x3, Vendor = x4, Numa = x5, DiskStatus.Device = x6, BlockDevices = x7 \<rparr>))))))))"

definition spdkSetupPath :: string where "spdkSetupPath = ''/usr/src/spdk/scripts/setup.sh''"

definition empty_address :: go_error where "empty_address = PlainErr ''device address is empty''"

definition setup_script :: "'w executor \<Rightarrow> string list \<Rightarrow> string list \<Rightarrow> ('w host, string) io" where
  "setup_script ex envs args = Execute ex envs ''bash'' (spdkSetupPath # args) ExecuteTimeout"

definition Bind :: "'w executor \<Rightarrow> string \<Rightarrow> string \<Rightarrow> ('w host, string) io" where
  "Bind ex deviceAddr deviceDriver =
     (if deviceAddr = [] then io_fail empty_address
      else setup_script ex
        ([''PCI_ALLOWED='' @ deviceAddr] @ (if deviceDriver \<noteq> [] then [''DRIVER_OVERRIDE='' @ deviceDriver] else [])) [])"

definition Unbind :: "'w executor \<Rightarrow> string \<Rightarrow> ('w host, string) io" where
  "Unbind ex deviceAddr =
     (if deviceAddr = [] then io_fail empty_address else setup_script ex [] [''unbind'', deviceAddr])"

definition extractJSON :: "string \<Rightarrow> go_error + string" where
  "extractJSON outputStr =
     (case (index_of (CHR ''{'') outputStr, last_index_of (CHR ''}'') outputStr) of
        (Some start, Some stop) \<Rightarrow> json_slice outputStr start stop
      | _ \<Rightarrow> Inl (PlainErr (''failed to extract JSON from output: '' @ outputStr)))"

definition GetDiskDriver :: "'w executor \<Rightarrow> string \<Rightarrow> ('w host, string) io" where
  "GetDiskDriver ex deviceAddr =
     (if deviceAddr = [] then io_fail empty_address
      else io_bind (setup_script ex [] [''disk-driver'', deviceAddr]) (\<lambda>outputStr. io_lift (extractJSON outputStr)))"

definition GetDiskStatus :: "'w executor \<Rightarrow> string \<Rightarrow> ('w host, DiskStatus) io" where
  "GetDiskStatus ex deviceAddr =
     (if deviceAddr = [] then io_fail empty_address
      else io_bind (setup_script ex [] [''disk-status'', deviceAddr]) (\<lambda>outputStr.
           io_bind (io_lift (extractJSON outputStr)) (\<lambda>jsonsStr.
           io_lift (map_sum (WrapErr (''failed to unmarshal disk status for '' @ deviceAddr)) id
             (unmarshal dec_DiskStatus jsonsStr)))))"

section \<open>The target\<close>

definition SPDKScriptsDir :: string where "SPDKScriptsDir = ''scripts''"
definition SPDKSetupScript :: string where "SPDKSetupScript = ''setup.sh''"
definition SPDKTGTBinary :: string where "SPDKTGTBinary = ''spdk_tgt''"

text \<open>The loop \<open>argsInStr = fmt.Sprintf("%s %s", argsInStr, arg)\<close>.\<close>

definition spaced :: "string list \<Rightarrow> string" where
  "spaced args = foldl (\<lambda>acc arg. acc @ '' '' @ arg) [] args"

definition SetupTarget :: "'w executor \<Rightarrow> string \<Rightarrow> string list \<Rightarrow> ('w host, unit) io" where
  "SetupTarget ex spdkDir setupArgs =
     (let setupScriptPath = join_path [spdkDir, SPDKScriptsDir, SPDKSetupScript];
          setupOpts = [''-c'', setupScriptPath @ '' '' @ spaced setupArgs];
          resetOpts = [''-c'', setupScriptPath, ''reset'']
      in io_bind (Execute ex [] ''sh'' resetOpts ExecuteTimeout) (\<lambda>_.
         run_only (Execute ex [] ''sh'' setupOpts ExecuteTimeout)))"

text \<open>\<open>running\<close>: a client could be created and its \<open>bdev_get_bdevs\<close> succeeded.\<close>

definition StartTarget :: "'w executor \<Rightarrow> bool \<Rightarrow> string \<Rightarrow> string list \<Rightarrow> int \<Rightarrow> ('w host, unit) io" where
  "StartTarget ex running spdkDir args timeout =
     (if running then io_return ()
      else
        (let binary = (if spdkDir = [] then join_path [spdkDir, SPDKTGTBinary] else SPDKTGTBinary);
             tgtOpts = [''-c'', binary @ '' '' @ spaced args]
         in run_only (Execute ex [] ''sh'' tgtOpts timeout)))"

section \<open>Facts\<close>

lemma extractJSON_object:
  assumes "CHR ''{'' \<notin> set before" and "CHR ''}'' \<notin> set after"
  shows "extractJSON (before @ ''{'' @ body @ ''}'' @ after) = Inr (''{'' @ body @ ''}'')"
proof -
  have "index_of (CHR ''{'') (before @ CHR ''{'' # (body @ CHR ''}'' # after)) = Some (length before)"
    by (rule index_of_append_notin [OF assms(1)])
  moreover have "last_index_of (CHR ''}'') (before @ CHR ''{'' # (body @ CHR ''}'' # after)) =
      Some (length before + Suc (length body))"
    using last_index_of_append_notin [OF assms(2), of "before @ CHR ''{'' # body"] by simp
  ultimately show ?thesis by (simp add: extractJSON_def json_slice_def)
qed

text \<open>
  The directory given to \<open>StartTarget\<close> is never used: for every directory, the command run is
  \<open>spdk_tgt\<close> as found in the search path, the same as without a directory (the test for an empty directory is
  the wrong way round). \<open>SetupTarget\<close>, in contrast, runs the script of the directory: first with \<open>reset\<close> and,
  only if that succeeds, with the arguments.
\<close>

theorem StartTarget_ignores_directory:
  "StartTarget ex running spdkDir args timeout = StartTarget ex running spdkDir' args timeout \<and>
   execs (StartTarget ex False spdkDir args timeout)
     (\<lambda>_ cs. cs = [cmd_of [] ''sh'' [''-c'', ''spdk_tgt '' @ spaced args] timeout]) \<and>
   execs (SetupTarget ex ''/opt/spdk'' args) (\<lambda>r cs.
     (cs = [cmd_of [] ''sh'' [''-c'', ''/opt/spdk/scripts/setup.sh'', ''reset''] 180] \<and> (\<exists>e. r = Inl e)) \<or>
     cs = [cmd_of [] ''sh'' [''-c'', ''/opt/spdk/scripts/setup.sh'', ''reset''] 180,
           cmd_of [] ''sh'' [''-c'', ''/opt/spdk/scripts/setup.sh '' @ spaced args] 180])"
proof -
  have j: "join_path [[], SPDKTGTBinary] = SPDKTGTBinary" by code_simp
  then have s: "StartTarget ex running d args timeout =
      (if running then io_return () else run_only (Execute ex [] ''sh'' [''-c'', ''spdk_tgt '' @ spaced args] timeout))"
    for running d
    by (simp add: StartTarget_def Let_def SPDKTGTBinary_def)
  have run: "execs (run_only (Execute ex envs b args t)) (\<lambda>_ cs. cs = [cmd_of envs b args t])" for envs b args t
    unfolding run_only_def by (rule execs_bind [OF execs_Execute]) (auto intro: execs_return)
  have p: "join_path [''/opt/spdk'', SPDKScriptsDir, SPDKSetupScript] = ''/opt/spdk/scripts/setup.sh''" by code_simp
  have "execs (SetupTarget ex ''/opt/spdk'' args) (\<lambda>r cs.
     (cs = [cmd_of [] ''sh'' [''-c'', ''/opt/spdk/scripts/setup.sh'', ''reset''] 180] \<and> (\<exists>e. r = Inl e)) \<or>
     cs = [cmd_of [] ''sh'' [''-c'', ''/opt/spdk/scripts/setup.sh'', ''reset''] 180,
           cmd_of [] ''sh'' [''-c'', ''/opt/spdk/scripts/setup.sh '' @ spaced args] 180])"
    unfolding SetupTarget_def Let_def p ExecuteTimeout_def
    by (rule execs_bind [OF execs_Execute]) (auto intro: execs_mono [OF run])
  then show ?thesis using run by (simp add: s)
qed

end
