(* ===== verification/CliFlags.thy ===== *)
theory CliFlags
  imports GoErrors "HOL-Library.Char_ord"
begin

text \<open>
  Command-line flags: the parts of \<open>urfave/cli\<close> and of Go's package \<open>flag\<close> that stand between the arguments of the
  tool and its commands. A command declares its flags; a flag set holds one typed value per name; parsing consumes the
  arguments and leaves the positional ones; a command then reads flags by name, and a name that is not declared reads
  as the zero value. Usage texts, environment variables, files and destinations are left out: no flag uses the latter.
\<close>

section \<open>Numbers and truth values\<close>

text \<open>\<open>strconv.ParseBool\<close>.\<close>

definition ParseBool :: "string \<Rightarrow> bool option" where
  "ParseBool s =
     (if s \<in> {''1'', ''t'', ''T'', ''TRUE'', ''true'', ''True''} then Some True
      else if s \<in> {''0'', ''f'', ''F'', ''FALSE'', ''false'', ''False''} then Some False
      else None)"

text \<open>The base of \<open>strconv.ParseUint(s, 0, 64)\<close> and the digits after the prefix.\<close>

definition base_prefix :: "string \<Rightarrow> nat \<times> string" where
  "base_prefix s =
     (if s = [] \<or> hd s \<noteq> CHR ''0'' then (10, s)
      else if 3 \<le> length s \<and> lower_char (s ! 1) = CHR ''b'' then (2, drop 2 s)
      else if 3 \<le> length s \<and> lower_char (s ! 1) = CHR ''o'' then (8, drop 2 s)
      else if 3 \<le> length s \<and> lower_char (s ! 1) = CHR ''x'' then (16, drop 2 s)
      else (8, drop 1 s))"

definition digit_value :: "char \<Rightarrow> nat option" where
  "digit_value c =
     (if is_digit c then Some (of_char c - 48)
      else if CHR ''a'' \<le> lower_char c \<and> lower_char c \<le> CHR ''z'' then Some (of_char (lower_char c) - 97 + 10)
      else None)"

text \<open>The value of the digits; underscores are skipped, and a value beyond 64 bits is an error.\<close>

fun digits_in_base :: "nat \<Rightarrow> nat \<Rightarrow> string \<Rightarrow> nat option" where
  "digits_in_base base acc [] = Some acc"
| "digits_in_base base acc (c # cs) =
     (if c = CHR ''_'' then digits_in_base base acc cs
      else (case digit_value c of
          None \<Rightarrow> None
        | Some d \<Rightarrow>
            if base \<le> d \<or> 2 ^ 64 \<le> base * acc + d then None else digits_in_base base (base * acc + d) cs))"

text \<open>\<open>strconv.underscoreOK\<close>: underscores separate digits; the last character seen is a digit, an underscore or
  another one.\<close>

datatype seen = Start | Digit | Underscore | Other

fun underscores_ok :: "bool \<Rightarrow> seen \<Rightarrow> string \<Rightarrow> bool" where
  "underscores_ok hex i [] = (i \<noteq> Underscore)"
| "underscores_ok hex i (c # cs) =
     (if is_digit c \<or> (hex \<and> CHR ''a'' \<le> lower_char c \<and> lower_char c \<le> CHR ''f'') then underscores_ok hex Digit cs
      else if c = CHR ''_'' then (if i \<noteq> Digit then False else underscores_ok hex Underscore cs)
      else if i = Underscore then False
      else underscores_ok hex Other cs)"

definition underscoreOK :: "string \<Rightarrow> bool" where
  "underscoreOK s =
     (if 2 \<le> length s \<and> hd s = CHR ''0'' \<and> lower_char (s ! 1) \<in> {CHR ''b'', CHR ''o'', CHR ''x''}
      then underscores_ok (lower_char (s ! 1) = CHR ''x'') Digit (drop 2 s)
      else underscores_ok False Start s)"

definition ParseUint :: "string \<Rightarrow> u64 option" where
  "ParseUint s =
     (if s = [] then None
      else (let (base, ds) = base_prefix s
            in (case digits_in_base base 0 ds of
                  None \<Rightarrow> None
                | Some n \<Rightarrow> if CHR ''_'' \<in> set ds \<and> \<not> underscoreOK s then None else Some (of_nat n))))"

definition ParseInt :: "string \<Rightarrow> int option" where
  "ParseInt s =
     (if s = [] then None
      else (let neg = (hd s = CHR ''-''); ds = (if hd s = CHR ''-'' \<or> hd s = CHR ''+'' then tl s else s)
            in (case ParseUint ds of
                  None \<Rightarrow> None
                | Some un \<Rightarrow>
                    if \<not> neg \<and> 2 ^ 63 \<le> uint un then None
                    else if neg \<and> 2 ^ 63 < uint un then None
                    else Some (if neg then - uint un else uint un))))"

section \<open>Flags\<close>

text \<open>The flag types the commands use, each with its name and aliases, whether it is required, and its default.\<close>

datatype flag =
    StringFlag string bool string
  | BoolFlag string
  | UintFlag string bool u64
  | Uint64Flag string bool u64
  | IntFlag string bool int
  | Int64Flag string bool int
  | StringSliceFlag string bool
  | Int64SliceFlag string bool

fun GetName :: "flag \<Rightarrow> string" where
  "GetName (StringFlag n r v) = n"
| "GetName (BoolFlag n) = n"
| "GetName (UintFlag n r v) = n"
| "GetName (Uint64Flag n r v) = n"
| "GetName (IntFlag n r i) = n"
| "GetName (Int64Flag n r i) = n"
| "GetName (StringSliceFlag n r) = n"
| "GetName (Int64SliceFlag n r) = n"

fun IsRequired :: "flag \<Rightarrow> bool" where
  "IsRequired (StringFlag n r v) = r"
| "IsRequired (BoolFlag n) = False"
| "IsRequired (UintFlag n r v) = r"
| "IsRequired (Uint64Flag n r v) = r"
| "IsRequired (IntFlag n r i) = r"
| "IsRequired (Int64Flag n r i) = r"
| "IsRequired (StringSliceFlag n r) = r"
| "IsRequired (Int64SliceFlag n r) = r"

definition HelpFlag :: flag where
  "HelpFlag = BoolFlag ''help, h''"

text \<open>\<open>eachName\<close>.\<close>

definition flag_names :: "flag \<Rightarrow> string list" where
  "flag_names f = map trim_space (split_on (CHR '','') (GetName f))"

datatype flag_value =
    VString string
  | VBool bool
  | VUint u64
  | VInt int
  | VStrings "string list"
  | VInts "int list"

fun flag_default :: "flag \<Rightarrow> flag_value" where
  "flag_default (StringFlag n r v) = VString v"
| "flag_default (BoolFlag n) = VBool False"
| "flag_default (UintFlag n r v) = VUint v"
| "flag_default (Uint64Flag n r v) = VUint v"
| "flag_default (IntFlag n r i) = VInt i"
| "flag_default (Int64Flag n r i) = VInt i"
| "flag_default (StringSliceFlag n r) = VStrings []"
| "flag_default (Int64SliceFlag n r) = VInts []"

text \<open>\<open>Value.Set\<close> and \<open>Value.String\<close>.\<close>

fun set_text :: "flag_value \<Rightarrow> string \<Rightarrow> flag_value option" where
  "set_text (VString v) t = Some (VString t)"
| "set_text (VBool b) t = map_option VBool (ParseBool t)"
| "set_text (VUint v) t = map_option VUint (ParseUint t)"
| "set_text (VInt i) t = map_option VInt (ParseInt t)"
| "set_text (VStrings vs) t = Some (VStrings (vs @ [t]))"
| "set_text (VInts is) t = map_option (\<lambda>i. VInts (is @ [i])) (atoi t)"

fun value_text :: "flag_value \<Rightarrow> string" where
  "value_text (VString v) = v"
| "value_text (VBool b) = (if b then ''true'' else ''false'')"
| "value_text (VUint v) = itoa (uint v)"
| "value_text (VInt i) = itoa i"
| "value_text (VStrings vs) = join_with '','' vs"
| "value_text (VInts is) = join_with '','' (map itoa is)"

fun is_slice :: "flag_value \<Rightarrow> bool" where
  "is_slice (VStrings vs) = True"
| "is_slice (VInts is) = True"
| "is_slice _ = False"

section \<open>Flag sets\<close>

record flag_set =
  formal :: "string \<rightharpoonup> flag_value"
  actual :: "string set"
  Args :: "string list"

definition empty_set :: flag_set where
  "empty_set = \<lparr> formal = (\<lambda>_. None), actual = {}, Args = [] \<rparr>"

text \<open>\<open>FlagSet.Var\<close>, which panics on a name that is taken or malformed.\<close>

definition declare_name :: "flag_value \<Rightarrow> string \<Rightarrow> flag_set \<Rightarrow> go_error + flag_set" where
  "declare_name v n fs =
     (if has_prefix ''-'' n then Inl (GoPanic (''flag '' @ n @ '' begins with -''))
      else if CHR ''='' \<in> set n then Inl (GoPanic (''flag '' @ n @ '' contains =''))
      else if formal fs n \<noteq> None then Inl (GoPanic (''flag redefined: '' @ n))
      else Inr (fs\<lparr> formal := (formal fs)(n \<mapsto> v) \<rparr>))"

fun declare_names :: "(string \<times> flag_value) list \<Rightarrow> flag_set \<Rightarrow> go_error + flag_set" where
  "declare_names [] fs = Inr fs"
| "declare_names ((n, v) # ns) fs =
     (case declare_name v n fs of Inl e \<Rightarrow> Inl e | Inr fs' \<Rightarrow> declare_names ns fs')"

definition declarations :: "flag list \<Rightarrow> (string \<times> flag_value) list" where
  "declarations flags = concat (map (\<lambda>f. map (\<lambda>n. (n, flag_default f)) (flag_names f)) flags)"

definition flagSet :: "flag list \<Rightarrow> go_error + flag_set" where
  "flagSet flags = declare_names (declarations flags) empty_set"

text \<open>The names of a slice flag share one value.\<close>

definition shared_names :: "flag list \<Rightarrow> string \<Rightarrow> flag_value \<Rightarrow> string list" where
  "shared_names flags n v =
     (if is_slice v then concat (map flag_names (filter (\<lambda>f. n \<in> set (flag_names f)) flags)) else [n])"

definition store :: "flag list \<Rightarrow> string \<Rightarrow> flag_value \<Rightarrow> flag_set \<Rightarrow> flag_set" where
  "store flags n v fs =
     fs\<lparr> formal := (\<lambda>m. if m \<in> set (shared_names flags n v) then Some v else formal fs m),
         actual := insert n (actual fs) \<rparr>"

text \<open>\<open>FlagSet.Parse\<close>: the error, if any, and the set as far as it was filled.\<close>

definition cut_value :: "string \<Rightarrow> string \<times> string option" where
  "cut_value name =
     (case index_of (CHR ''='') name of
        None \<Rightarrow> (name, None)
      | Some i \<Rightarrow> (take i name, Some (drop (Suc i) name)))"

fun parse_flags :: "flag list \<Rightarrow> flag_set \<Rightarrow> string list \<Rightarrow> go_error option \<times> flag_set" where
  "parse_flags flags fs [] = (None, fs\<lparr> Args := [] \<rparr>)"
| "parse_flags flags fs (s # rest) =
     (if length s < 2 \<or> hd s \<noteq> CHR ''-'' then (None, fs\<lparr> Args := s # rest \<rparr>)
      else if s = ''--'' then (None, fs\<lparr> Args := rest \<rparr>)
      else
        (let name = drop (if s ! 1 = CHR ''-'' then 2 else 1) s
         in if name = [] \<or> hd name = CHR ''-'' \<or> hd name = CHR ''=''
            then (Some (PlainErr (''bad flag syntax: '' @ s)), fs)
            else
              (let (n, value) = cut_value name
               in case formal fs n of
                    None \<Rightarrow>
                      (Some (PlainErr (if n = ''help'' \<or> n = ''h'' then ''flag: help requested''
                                       else ''flag provided but not defined: -'' @ n)), fs)
                  | Some (VBool b) \<Rightarrow>
                      (case set_text (VBool b) (case value of None \<Rightarrow> ''true'' | Some t \<Rightarrow> t) of
                         None \<Rightarrow> (Some (PlainErr (''invalid boolean value for -'' @ n)), fs)
                       | Some v \<Rightarrow> parse_flags flags (store flags n v fs) rest)
                  | Some old \<Rightarrow>
                      (case value of
                         Some t \<Rightarrow>
                           (case set_text old t of
                              None \<Rightarrow> (Some (PlainErr (''invalid value for flag -'' @ n)), fs)
                            | Some v \<Rightarrow> parse_flags flags (store flags n v fs) rest)
                       | None \<Rightarrow>
                           (case rest of
                              [] \<Rightarrow> (Some (PlainErr (''flag needs an argument: -'' @ n)), fs)
                            | t # rest' \<Rightarrow>
                                (case set_text old t of
                                   None \<Rightarrow> (Some (PlainErr (''invalid value for flag -'' @ n)), fs)
                                 | Some v \<Rightarrow> parse_flags flags (store flags n v fs) rest'))))))"

section \<open>A command line\<close>

text \<open>\<open>normalizeFlags\<close>: a flag given under one of its names is copied to the others; two of them are an error. The
  shared value of a string slice needs no copy, but then only the name that was used counts as set.\<close>

definition copyFlag :: "flag list \<Rightarrow> string \<Rightarrow> flag_value \<Rightarrow> flag_set \<Rightarrow> flag_set" where
  "copyFlag flags name ff fs =
     (case ff of
        VStrings vs \<Rightarrow> fs
      | _ \<Rightarrow>
          (case formal fs name of
             None \<Rightarrow> fs
           | Some old \<Rightarrow>
               (case set_text old (value_text ff) of None \<Rightarrow> fs | Some v \<Rightarrow> store flags name v fs)))"

fun normalize :: "flag list \<Rightarrow> string set \<Rightarrow> flag list \<Rightarrow> flag_set \<Rightarrow> go_error option \<times> flag_set" where
  "normalize flags visited [] fs = (None, fs)"
| "normalize flags visited (f # rest) fs =
     (case filter (\<lambda>n. n \<in> visited) (flag_names f) of
        [] \<Rightarrow> normalize flags visited rest fs
      | [ff] \<Rightarrow>
          normalize flags visited rest
            (foldl (\<lambda>fs name. if name \<in> visited then fs else copyFlag flags name (the (formal fs ff)) fs)
               fs (flag_names f))
      | ff # name # others \<Rightarrow>
          (Some (PlainErr (''Cannot use two forms of the same flag: '' @ name @ '' '' @ ff)), fs))"

definition normalizeFlags :: "flag list \<Rightarrow> flag_set \<Rightarrow> go_error option \<times> flag_set" where
  "normalizeFlags flags fs = normalize flags (actual fs) flags fs"

text \<open>\<open>reorderArgs\<close>: flags, each with the argument that may be its value, before the other arguments; a boolean
  flag, too, draws the next argument to it.\<close>

definition argIsFlag :: "flag list \<Rightarrow> string \<Rightarrow> bool" where
  "argIsFlag commandFlags arg =
     (if arg = ''-'' \<or> arg = ''--'' then False
      else if \<not> has_prefix ''-'' arg then False
      else
        (let a = (if has_prefix ''--'' arg then drop 2 arg else arg);
             a' = (if has_prefix ''-'' a then drop 1 a else a)
         in list_ex (\<lambda>f. hd (split_on (CHR ''='') a') \<in> set (flag_names f)) commandFlags))"

fun reorder :: "flag list \<Rightarrow> bool \<Rightarrow> string list \<Rightarrow> string list \<Rightarrow> string list \<Rightarrow> string list" where
  "reorder flags expecting reordered remaining [] = reordered @ remaining"
| "reorder flags expecting reordered remaining (arg # args) =
     (if expecting \<and> \<not> argIsFlag flags arg then reorder flags False (reordered @ [arg]) remaining args
      else if arg = ''--'' then reordered @ (''--'' # remaining @ args)
      else if argIsFlag flags arg
        then reorder flags (\<not> contains ''='' arg) (reordered @ [arg]) remaining args
      else reorder flags expecting reordered (remaining @ [arg]) args)"

definition reorderArgs :: "flag list \<Rightarrow> string list \<Rightarrow> string list" where
  "reorderArgs flags args = reorder flags False [] [] args"

text \<open>\<open>Command.parseFlags\<close>.\<close>

definition parseFlags :: "flag list \<Rightarrow> string list \<Rightarrow> go_error + flag_set" where
  "parseFlags flags args =
     (case flagSet flags of
        Inl e \<Rightarrow> Inl e
      | Inr fs0 \<Rightarrow>
          (case parse_flags flags fs0 (reorderArgs flags args) of
             (Some e, fs) \<Rightarrow> Inl e
           | (None, fs) \<Rightarrow> (case normalizeFlags flags fs of (Some e, fs') \<Rightarrow> Inl e | (None, fs') \<Rightarrow> Inr fs')))"

text \<open>\<open>Context.IsSet\<close> for the names of declared flags, and \<open>checkRequiredFlags\<close>.\<close>

definition IsSet :: "flag list \<Rightarrow> flag_set \<Rightarrow> string \<Rightarrow> bool" where
  "IsSet flags fs name =
     (name \<in> actual fs \<or>
      list_ex (\<lambda>f. name \<in> set (flag_names f) \<and> list_ex (\<lambda>n. n \<in> actual fs) (flag_names f)) flags)"

definition missing_flag :: "flag list \<Rightarrow> flag_set \<Rightarrow> flag \<Rightarrow> string list" where
  "missing_flag flags fs f =
     (let named = filter (\<lambda>key. 1 < length key) (flag_names f)
      in if IsRequired f \<and> \<not> list_ex (IsSet flags fs) (flag_names f) \<and> named \<noteq> [] then [last named] else [])"

definition checkRequiredFlags :: "flag list \<Rightarrow> flag_set \<Rightarrow> go_error option" where
  "checkRequiredFlags flags fs =
     (case concat (map (missing_flag flags fs) flags) of
        [] \<Rightarrow> None
      | [n] \<Rightarrow> Some (PlainErr (''Required flag \"'' @ n @ ''\" not set''))
      | ns \<Rightarrow> Some (PlainErr (''Required flags \"'' @ join_with '', '' ns @ ''\" not set'')))"

section \<open>Reading flags\<close>

text \<open>A context is a flag set with those of the commands around it, innermost first.\<close>

record cli_context =
  parsed :: flag_set
  parents :: "flag_set list"

abbreviation looked_up :: "cli_context \<Rightarrow> string \<Rightarrow> flag_value option" where
  "looked_up c name \<equiv> formal (parsed c) name"

definition First :: "cli_context \<Rightarrow> string" where
  "First c = (case Args (parsed c) of [] \<Rightarrow> [] | a # as \<Rightarrow> a)"

definition text_in :: "flag_set \<Rightarrow> string \<Rightarrow> string" where
  "text_in fs name = (case formal fs name of None \<Rightarrow> [] | Some v \<Rightarrow> value_text v)"

definition StringOf :: "cli_context \<Rightarrow> string \<Rightarrow> string" where
  "StringOf c name = text_in (parsed c) name"

definition BoolOf :: "cli_context \<Rightarrow> string \<Rightarrow> bool" where
  "BoolOf c name = (ParseBool (text_in (parsed c) name) = Some True)"

definition UintOf :: "cli_context \<Rightarrow> string \<Rightarrow> u64" where
  "UintOf c name = (case ParseUint (text_in (parsed c) name) of None \<Rightarrow> 0 | Some n \<Rightarrow> n)"

definition IntOf :: "cli_context \<Rightarrow> string \<Rightarrow> int" where
  "IntOf c name = (case ParseInt (text_in (parsed c) name) of None \<Rightarrow> 0 | Some i \<Rightarrow> i)"

text \<open>\<open>lookupStringSlice\<close> takes the default away, which is the one string in \<open>strings.Split("", ",")\<close>: an empty
  element is dropped, unless it is the only one.\<close>

definition StringSliceOf :: "cli_context \<Rightarrow> string \<Rightarrow> string list" where
  "StringSliceOf c name =
     (case looked_up c name of
        Some (VStrings vs) \<Rightarrow> (if vs = [[]] then vs else remove1 [] vs)
      | _ \<Rightarrow> [])"

definition Int64SliceOf :: "cli_context \<Rightarrow> string \<Rightarrow> int list" where
  "Int64SliceOf c name = (case looked_up c name of Some (VInts is) \<Rightarrow> is | _ \<Rightarrow> [])"

text \<open>\<open>GlobalString\<close> asks the enclosing contexts.\<close>

definition GlobalString :: "cli_context \<Rightarrow> string \<Rightarrow> string" where
  "GlobalString c name =
     (case find (\<lambda>fs. formal fs name \<noteq> None) (if parents c = [] then [parsed c] else parents c) of
        None \<Rightarrow> []
      | Some fs \<Rightarrow> text_in fs name)"

end
