(* ===== verification/Cli.thy ===== *)
theory Cli
  imports CliFlags InitiatorStart SpdkExpose SpdkEc SpdkSetup
begin

text \<open>
  The command-line tool around the library: commands as data, the way \<open>app/cmd\<close> builds them for \<open>urfave/cli\<close>, and
  how \<open>urfave/cli\<close> runs them on the arguments of \<open>main.go\<close>. What an action prints is its result; help texts,
  usage texts and log output are left out.
\<close>

section \<open>The surroundings\<close>

text \<open>
  \<^item> \<open>dial\<close>: opening a socket, given its network and its address (\<open>pkg/spdk/client/client.go\<close>); \<open>socket\<close>: the server
    behind it; \<open>hang_up\<close>: closing it;
  \<^item> \<open>enter\<close>: creating an executor for a proc directory (\<open>pkg/util/executor.go\<close>); \<open>node_of\<close>: the host as that
    executor and the system calls see it;
  \<^item> \<open>SPDK_DIR\<close>: the environment variable.
\<close>

record 'w cli_env =
  dial :: "string \<Rightarrow> string \<Rightarrow> 'w \<Rightarrow> go_error option \<times> 'w"
  socket :: "'w rpc_env"
  hang_up :: "'w \<Rightarrow> go_error option \<times> 'w"
  enter :: "string \<Rightarrow> 'w \<Rightarrow> go_error option \<times> 'w"
  node_of :: "string \<Rightarrow> 'w node_env"
  SPDK_DIR :: string

definition DefaultJSONServerNetwork :: string where "DefaultJSONServerNetwork = ''unix''"
definition DefaultUnixDomainSocketPath :: string where "DefaultUnixDomainSocketPath = ''/var/tmp/spdk.sock''"

definition NewClient :: "'w cli_env \<Rightarrow> ('w, 'w rpc_env) iop" where
  "NewClient env n =
     (let (err, w) = dial env DefaultJSONServerNetwork DefaultUnixDomainSocketPath (outside n)
      in (case err of None \<Rightarrow> Inr (socket env)
            | Some e \<Rightarrow> Inl (WrapErr ''error opening socket for spdk client'' e), n\<lparr> outside := w \<rparr>))"

text \<open>A client without a connection is closed already.\<close>

definition Close :: "'w cli_env \<Rightarrow> bool \<Rightarrow> ('w, unit) iop" where
  "Close env has_conn n =
     (if \<not> has_conn then (Inr (), n)
      else let (err, w) = hang_up env (outside n)
           in (case err of None \<Rightarrow> Inr () | Some e \<Rightarrow> Inl e, n\<lparr> outside := w \<rparr>))"

definition NewExecutor :: "'w cli_env \<Rightarrow> string \<Rightarrow> ('w, 'w executor) iop" where
  "NewExecutor env proc n =
     (let (err, w) = enter env proc (outside n)
      in (case err of None \<Rightarrow> Inr (executor (node_of env proc)) | Some e \<Rightarrow> Inl e, n\<lparr> outside := w \<rparr>))"

section \<open>What is printed\<close>

datatype printed =
    PNothing
  | PHelp
  | PText string
  | PBool bool
  | PString string
  | PStrings "string list"
  | PUint32 u32
  | PStringMap "(string \<times> string) list"
  | PBdevs "BdevInfo list"
  | PLvstores "LvstoreInfo list"
  | PLvols "LvolInfo list"
  | PShallowCopy ShallowCopyStatus
  | PDeepCopy DeepCopyStatus
  | PFragmap BdevLvolFragmap
  | PChecksums "u64 \<rightharpoonup> u64"
  | PNvmeControllers "BdevNvmeControllerInfo list"
  | PTransports "NvmfTransport list option"
  | PSubsystems "NvmfSubsystem list"
  | PNamespaces "NvmfSubsystemNamespace list"
  | PListeners "NvmfSubsystemListener list"
  | PLogFlags "string \<rightharpoonup> bool"
  | PUblkDevices "UblkDevice list"
  | PEcInfos "BdevEcInfo list"
  | PEcReplaced BdevEcReplaceBaseBdevResponse
  | PEcRebuildStarted BdevEcStartRebuildResponse
  | PEcProgress BdevEcRebuildProgress
  | PEcResized BdevEcResizeResponse
  | PEcWib BdevEcWibStatus
  | PEcUnmap BdevEcUnmapStatus
  | PEcScrub "BdevEcScrubProgress option"
  | PDevices "Device list"
  | PDiskStatus DiskStatus

text \<open>\<open>util.PrintObject\<close>: every object the commands print can be marshalled.\<close>

definition PrintObject :: "printed \<Rightarrow> ('w, printed) iop" where
  "PrintObject v = io_return v"

section \<open>Constants\<close>

definition MiB :: u64 where [const_defs]: "MiB = 1048576"
definition LocalIP :: string where [const_defs]: "LocalIP = ''127.0.0.1''"
definition ProcDirectory :: string where [const_defs]: "ProcDirectory = ''/proc''"
definition DefaultCtrlrLossTimeoutSec :: int where [const_defs]: "DefaultCtrlrLossTimeoutSec = 15"
definition DefaultReconnectDelaySec :: int where [const_defs]: "DefaultReconnectDelaySec = 2"
definition DefaultFastIOFailTimeoutSec :: int where [const_defs]: "DefaultFastIOFailTimeoutSec = 10"
definition DefaultTransportAckTimeout :: int where [const_defs]: "DefaultTransportAckTimeout = 10"
definition DefaultKeepAliveTimeoutMs :: int where [const_defs]: "DefaultKeepAliveTimeoutMs = 10000"
definition NvmeMultipathBehaviorFailover :: string where [const_defs]: "NvmeMultipathBehaviorFailover = ''failover''"
definition BdevRaidLevelRaid1 :: string where [const_defs]: "BdevRaidLevelRaid1 = ''raid1''"

section \<open>Commands\<close>

type_synonym 'w action = "'w cli_env \<Rightarrow> cli_context \<Rightarrow> ('w, printed) iop"

datatype 'w Command = Command
  (CmdName: string) (ShortName: string) (Flags: "flag list") (Subcommands: "'w Command list") (Action: "'w action option")

text \<open>The idiom \<open>if err := f(c); err != nil { logrus.WithError(err).Fatalf(msg) }\<close>, which ends the process.\<close>

definition Fatalf :: "(cli_context \<Rightarrow> string) \<Rightarrow> 'w action \<Rightarrow> 'w action" where
  "Fatalf msg f env c = io_case (f env c) (\<lambda>err. io_fail (GoExit (msg c @ '': '' @ error_text err))) io_return"

text \<open>A command without subcommands.\<close>

abbreviation leaf :: "string \<Rightarrow> flag list \<Rightarrow> string \<Rightarrow> 'w action \<Rightarrow> 'w Command" where
  "leaf name fs msg f \<equiv> Command name [] fs [] (Some (Fatalf (\<lambda>_. msg) f))"

text \<open>The idiom \<open>name := c.String(a); if name == "" { name = c.String(b) }\<close>, the nil slice, and the idiom
  \<open>fmt.Errorf("\<dots>: %v", err)\<close>.\<close>

definition either_of :: "cli_context \<Rightarrow> string \<Rightarrow> string \<Rightarrow> string" where
  "either_of c a b = (if StringOf c a = [] then StringOf c b else StringOf c a)"

definition nil_if_empty :: "'a list \<Rightarrow> 'a list option" where
  "nil_if_empty xs = (if xs = [] then None else Some xs)"

definition describing :: "string \<Rightarrow> ('s, 'a) io \<Rightarrow> ('s, 'a) io" where
  "describing msg m = io_case m (\<lambda>err. io_fail (PlainErr (msg @ '': '' @ error_text err))) io_return"

definition HasName :: "string \<Rightarrow> 'w Command \<Rightarrow> bool" where
  "HasName name cmd = (name = CmdName cmd \<or> (ShortName cmd \<noteq> [] \<and> name = ShortName cmd))"

text \<open>The help command that \<open>urfave/cli\<close> adds, and the default action of an application: help on a known command, or
  the exit code 3.\<close>

definition help_action :: "'w Command list \<Rightarrow> 'w action" where
  "help_action cmds env c =
     (let name = First c
      in if name = [] \<or> list_ex (HasName name) cmds \<or> name = ''help'' \<or> name = ''h'' then io_return PHelp
         else io_fail (GoExit (''No help topic for '' @ name)))"

definition helpCommand :: "'w Command list \<Rightarrow> 'w Command" where
  "helpCommand cmds = Command ''help'' ''h'' [] [] (Some (help_action cmds))"

definition with_help :: "'w Command list \<Rightarrow> 'w Command list" where
  "with_help cmds = (if list_ex (HasName ''help'') cmds then cmds else cmds @ [helpCommand cmds])"

definition group_flags :: "'w Command list \<Rightarrow> flag list \<Rightarrow> flag list" where
  "group_flags cmds fs =
     (if list_ex (HasName ''help'') cmds \<or> HelpFlag \<in> set fs then fs else fs @ [HelpFlag])"

section \<open>Running\<close>

text \<open>The flags of an application or of a command with subcommands; the first argument that is not a flag ends them.\<close>

definition asked_for_help :: "cli_context \<Rightarrow> bool" where
  "asked_for_help c = (BoolOf c ''h'' \<or> BoolOf c ''help'')"

definition parse_app :: "flag list \<Rightarrow> flag_set list \<Rightarrow> string list \<Rightarrow> go_error + cli_context" where
  "parse_app fl encl args =
     (case flagSet fl of
        Inl e \<Rightarrow> Inl e
      | Inr fs0 \<Rightarrow>
          (let (err, fs) = parse_flags fl fs0 args
           in (case normalizeFlags fl fs of
                 (Some nerr, fs') \<Rightarrow> Inl nerr
               | (None, fs') \<Rightarrow>
                   (case err of Some e \<Rightarrow> Inl e | None \<Rightarrow> Inr \<lparr> parsed = fs', parents = encl \<rparr>))))"

text \<open>\<open>Command.Run\<close> of a command without subcommands.\<close>

definition run_leaf :: "'w cli_env \<Rightarrow> flag_set list \<Rightarrow> flag list \<Rightarrow> 'w action \<Rightarrow> string list \<Rightarrow> ('w, printed) iop" where
  "run_leaf env encl fl act args =
     (case parseFlags (fl @ [HelpFlag]) args of
        Inl e \<Rightarrow> io_fail e
      | Inr fs \<Rightarrow>
          (let c = \<lparr> parsed = fs, parents = encl \<rparr>
           in if asked_for_help c then io_return PHelp
              else (case checkRequiredFlags (fl @ [HelpFlag]) fs of
                      Some e \<Rightarrow> io_fail e
                    | None \<Rightarrow> act env c)))"

text \<open>\<open>Command.Run\<close> with \<open>startApp\<close> and \<open>RunAsSubcommand\<close> for a command with subcommands.\<close>

function run_command :: "'w cli_env \<Rightarrow> flag_set list \<Rightarrow> 'w Command \<Rightarrow> string list \<Rightarrow> ('w, printed) iop" where
  "run_command env encl (Command name short fl subs act) args =
     (if subs = []
      then run_leaf env encl fl (case act of None \<Rightarrow> help_action [] | Some a \<Rightarrow> a) args
      else
        (case parse_app (group_flags subs fl) encl args of
           Inl e \<Rightarrow> io_fail e
         | Inr c \<Rightarrow>
             if asked_for_help c then io_return PHelp
             else (case checkRequiredFlags (group_flags subs fl) (parsed c) of
                 Some e \<Rightarrow> io_fail e
               | None \<Rightarrow>
                   (case Args (parsed c) of
                      [] \<Rightarrow> (case act of None \<Rightarrow> help_action subs | Some a \<Rightarrow> a) env c
                    | sub # rest \<Rightarrow>
                        (case find (HasName sub) subs of
                           Some cmd \<Rightarrow> run_command env (parsed c # encl) cmd rest
                         | None \<Rightarrow>
                             (case find (HasName sub) (with_help subs) of
                                Some cmd \<Rightarrow> run_leaf env (parsed c # encl) (Flags cmd)
                                  (case Action cmd of None \<Rightarrow> help_action [] | Some a \<Rightarrow> a) rest
                              | None \<Rightarrow> (case act of None \<Rightarrow> help_action subs | Some a \<Rightarrow> a) env c))))))"
  by pat_completeness auto

termination
proof (relation "measure (\<lambda>(env, encl, cmd, args). size cmd)")
  show "wf (measure (\<lambda>(env, encl, cmd, args). size cmd))" by simp
next
  fix env :: "'w cli_env" and encl :: "flag_set list" and name short fl act args c sub rest cmd
  fix subs :: "'w Command list"
  assume "find (HasName sub) subs = Some cmd"
  then have "cmd \<in> set subs" by (auto simp: find_Some_iff)
  then have "size cmd < Suc (size_list size subs)"
    by (induction subs) auto
  then show "((env, parsed c # encl, cmd, rest), (env, encl, Command name short fl subs act, args))
      \<in> measure (\<lambda>(env, encl, cmd, args). size cmd)"
    by simp
qed

end
