(* ===== verification/CmdBdev.thy ===== *)
theory CmdBdev
  imports Cli
begin

text \<open>
  The commands for block devices, \<open>app/cmd/basic\<close>: all of them, AIO, virtio, stores, NVMe and RAID.
\<close>

section \<open>Any bdev\<close>

definition bdevGet :: "'w action" where
  "bdevGet env c =
     io_bind (NewClient env) (\<lambda>spdkCli.
     io_bind (on_spdk (BdevGetBdevs spdkCli (First c) 0)) (\<lambda>bdevGetResp.
     PrintObject (PBdevs bdevGetResp)))"

definition BdevGetCmd :: "'w Command" where
  "BdevGetCmd = leaf ''get''
     [Uint64Flag ''timeout, t'' False 0]
     ''Failed to run get bdev command'' bdevGet"

definition BdevCmd :: "'w Command" where
  "BdevCmd = Command ''bdev'' []
     []
     [BdevGetCmd]
     None"

section \<open>AIO\<close>

definition bdevAioCreate :: "'w action" where
  "bdevAioCreate env c =
     io_bind (NewClient env) (\<lambda>spdkCli.
     io_bind (on_spdk (BdevAioCreate spdkCli (StringOf c ''file-path'') (StringOf c ''bdev-name'') (UintOf c ''block-size''))) (\<lambda>bdevName.
     PrintObject (PStringMap [(''bdev_name'', bdevName)])))"

definition BdevAioCreateCmd :: "'w Command" where
  "BdevAioCreateCmd = leaf ''create''
     [StringFlag ''file-path, f'' True [],
      StringFlag ''bdev-name, n'' True [],
      Uint64Flag ''block-size, b'' False 4096]
     ''Failed to run create bdev aio command'' bdevAioCreate"

definition bdevAioDelete :: "'w action" where
  "bdevAioDelete env c =
     io_bind (NewClient env) (\<lambda>spdkCli.
     io_bind (on_spdk (BdevAioDelete spdkCli (First c))) (\<lambda>deleted.
     PrintObject (PBool deleted)))"

definition BdevAioDeleteCmd :: "'w Command" where
  "BdevAioDeleteCmd = leaf ''delete''
     []
     ''Failed to run delete bdev aio command'' bdevAioDelete"

definition bdevAioGet :: "'w action" where
  "bdevAioGet env c =
     io_bind (NewClient env) (\<lambda>spdkCli.
     io_bind (on_spdk (BdevAioGet spdkCli (First c) 0)) (\<lambda>bdevAioGetResp.
     PrintObject (PBdevs bdevAioGetResp)))"

definition BdevAioGetCmd :: "'w Command" where
  "BdevAioGetCmd = leaf ''get''
     [Uint64Flag ''timeout, t'' False 0]
     ''Failed to run get bdev aio command'' bdevAioGet"

definition BdevAioCmd :: "'w Command" where
  "BdevAioCmd = Command ''bdev-aio'' ''aio''
     []
     [BdevAioCreateCmd,
      BdevAioDeleteCmd,
      BdevAioGetCmd]
     None"

section \<open>Virtio\<close>

definition bdevVirtioAttachController :: "'w action" where
  "bdevVirtioAttachController env c =
     io_bind (NewClient env) (\<lambda>spdkCli.
     let name = First c in
     io_bind (on_spdk (BdevVirtioAttachController spdkCli name (StringOf c ''trtype'') (StringOf c ''traddr'') (StringOf c ''dev-type''))) (\<lambda>bdevNameList.
     PrintObject (PStrings bdevNameList)))"

definition BdevVirtioAttachControllerCmd :: "'w Command" where
  "BdevVirtioAttachControllerCmd = leaf ''attach''
     [StringFlag ''trtype'' True [],
      StringFlag ''traddr'' True [],
      StringFlag ''dev-type'' True []]
     ''Failed to run attach bdev virtio command'' bdevVirtioAttachController"

definition bdevVirtioDetachControllerCmd :: "'w action" where
  "bdevVirtioDetachControllerCmd env c =
     io_bind (NewClient env) (\<lambda>spdkCli.
     io_bind (on_spdk (BdevVirtioDetachController spdkCli (First c))) (\<lambda>detached.
     PrintObject (PBool detached)))"

definition BdevVirtioDetachControllerCmd :: "'w Command" where
  "BdevVirtioDetachControllerCmd = leaf ''detach''
     []
     ''Failed to run detach bdev virtio command'' bdevVirtioDetachControllerCmd"

definition BdevVirtioCmd :: "'w Command" where
  "BdevVirtioCmd = Command ''bdev-virtio'' ''virtio''
     []
     [BdevVirtioAttachControllerCmd,
      BdevVirtioDetachControllerCmd]
     None"

section \<open>Stores\<close>

definition bdevLvstoreCreate :: "'w action" where
  "bdevLvstoreCreate env c =
     io_bind (NewClient env) (\<lambda>spdkCli.
     io_bind (on_spdk (BdevLvolCreateLvstore spdkCli (StringOf c ''bdev-name'') (StringOf c ''lvs-name'') (ucast (UintOf c ''cluster-size'')))) (\<lambda>uuid.
     PrintObject (PString uuid)))"

definition BdevLvstoreCreateCmd :: "'w Command" where
  "BdevLvstoreCreateCmd = leaf ''create''
     [StringFlag ''bdev-name'' True [],
      StringFlag ''lvs-name'' True [],
      UintFlag ''cluster-size'' False MiB]
     ''Failed to run create bdev lvstore command'' bdevLvstoreCreate"

definition bdevLvstoreRename :: "'w action" where
  "bdevLvstoreRename env c =
     io_bind (NewClient env) (\<lambda>spdkCli.
     io_bind (on_spdk (BdevLvolRenameLvstore spdkCli (StringOf c ''old-name'') (StringOf c ''new-name''))) (\<lambda>renamed.
     PrintObject (PBool renamed)))"

definition BdevLvstoreRenameCmd :: "'w Command" where
  "BdevLvstoreRenameCmd = leaf ''rename''
     [StringFlag ''old-name'' True [],
      StringFlag ''new-name'' True []]
     ''Failed to run rename bdev lvstore command'' bdevLvstoreRename"

definition bdevLvstoreDelete :: "'w action" where
  "bdevLvstoreDelete env c =
     io_bind (NewClient env) (\<lambda>spdkCli.
     io_bind (on_spdk (BdevLvolDeleteLvstore spdkCli (StringOf c ''lvs-name'') (StringOf c ''uuid''))) (\<lambda>deleted.
     PrintObject (PBool deleted)))"

definition BdevLvstoreDeleteCmd :: "'w Command" where
  "BdevLvstoreDeleteCmd = leaf ''delete''
     [StringFlag ''lvs-name'' False [],
      StringFlag ''uuid'' False []]
     ''Failed to run delete bdev lvstore command'' bdevLvstoreDelete"

definition bdevLvstoreGet :: "'w action" where
  "bdevLvstoreGet env c =
     io_bind (NewClient env) (\<lambda>spdkCli.
     io_bind (on_spdk (BdevLvolGetLvstore spdkCli (StringOf c ''lvs-name'') (StringOf c ''uuid''))) (\<lambda>bdevLvstoreGetResp.
     PrintObject (PLvstores bdevLvstoreGetResp)))"

definition BdevLvstoreGetCmd :: "'w Command" where
  "BdevLvstoreGetCmd = leaf ''get''
     [StringFlag ''lvs-name'' False [],
      StringFlag ''uuid'' False []]
     ''Failed to run get bdev lvstore command'' bdevLvstoreGet"

definition bdevLvstoreGrow :: "'w action" where
  "bdevLvstoreGrow env c =
     (let lvsName = StringOf c ''lvs-name'' in
     let uuid = StringOf c ''uuid'' in
     if lvsName = [] \<and> uuid = [] then io_fail (PlainErr ''either --lvs-name or --uuid must be provided'') else
     if lvsName \<noteq> [] \<and> uuid \<noteq> [] then io_fail (PlainErr ''only one of --lvs-name or --uuid may be provided'') else
     io_bind (NewClient env) (\<lambda>spdkCli.
     io_bind (on_spdk (BdevLvolGrowLvstore spdkCli lvsName uuid)) (\<lambda>grown.
     PrintObject (PBool grown))))"

definition BdevLvstoreGrowCmd :: "'w Command" where
  "BdevLvstoreGrowCmd = leaf ''grow''
     [StringFlag ''lvs-name'' False [],
      StringFlag ''uuid'' False []]
     ''Failed to run grow bdev lvstore command'' bdevLvstoreGrow"

definition bdevLvolList :: "'w action" where
  "bdevLvolList env c =
     io_bind (NewClient env) (\<lambda>spdkCli.
     io_bind (on_spdk (BdevLvolGetLvols spdkCli (StringOf c ''lvs-name'') (StringOf c ''uuid''))) (\<lambda>bdevLvstoreGetResp.
     PrintObject (PLvols bdevLvstoreGetResp)))"

definition BdevLvstoreGetLvolsCmd :: "'w Command" where
  "BdevLvstoreGetLvolsCmd = leaf ''list-lvols''
     [StringFlag ''lvs-name'' False [],
      StringFlag ''uuid'' False []]
     ''Failed to run list lvol command'' bdevLvolList"

definition BdevLvstoreCmd :: "'w Command" where
  "BdevLvstoreCmd = Command ''bdev-lvstore'' ''lvs''
     []
     [BdevLvstoreCreateCmd,
      BdevLvstoreDeleteCmd,
      BdevLvstoreGetCmd,
      BdevLvstoreRenameCmd,
      BdevLvstoreGrowCmd,
      BdevLvstoreGetLvolsCmd]
     None"

section \<open>NVMe\<close>

definition bdevNvmeAttachController :: "'w action" where
  "bdevNvmeAttachController env c =
     io_bind (NewClient env) (\<lambda>spdkCli.
     io_bind (on_spdk (BdevNvmeAttachController spdkCli (StringOf c ''name'') (StringOf c ''subnqn'') (StringOf c ''traddr'') (StringOf c ''trsvcid'') (StringOf c ''trtype'') (StringOf c ''adrfam'') (word_of_int (IntOf c ''ctrlr-loss-timeout-sec'')) (word_of_int (IntOf c ''reconnect-delay-sec'')) (word_of_int (IntOf c ''fast-io-fail-timeout-sec'')) (StringOf c ''multipath'') [])) (\<lambda>bdevNameList.
     PrintObject (PStrings bdevNameList)))"

definition BdevNvmeAttachControllerCmd :: "'w Command" where
  "BdevNvmeAttachControllerCmd = leaf ''controller-attach''
     [StringFlag ''name'' True [],
      StringFlag ''subnqn'' False [],
      StringFlag ''traddr'' True [],
      StringFlag ''trsvcid'' False [],
      StringFlag ''trtype'' False NvmeTransportTypeTCP,
      StringFlag ''adrfam'' False NvmeAddressFamilyIPv4,
      IntFlag ''ctrlr-loss-timeout-sec'' False DefaultCtrlrLossTimeoutSec,
      IntFlag ''reconnect-delay-sec'' False DefaultReconnectDelaySec,
      IntFlag ''fast-io-fail-timeout-sec'' False DefaultFastIOFailTimeoutSec,
      IntFlag ''keep_alive_timeout_ms'' False DefaultKeepAliveTimeoutMs,
      StringFlag ''multipath'' False NvmeMultipathBehaviorFailover]
     ''Failed to run attach nvme controller command'' bdevNvmeAttachController"

definition bdevNvmeDetachController :: "'w action" where
  "bdevNvmeDetachController env c =
     io_bind (NewClient env) (\<lambda>spdkCli.
     io_bind (on_spdk (BdevNvmeDetachController spdkCli (First c))) (\<lambda>detached.
     PrintObject (PBool detached)))"

definition BdevNvmeDetachControllerCmd :: "'w Command" where
  "BdevNvmeDetachControllerCmd = leaf ''controller-detach''
     []
     ''Failed to run detach nvme controller command'' bdevNvmeDetachController"

definition bdevNvmeResetController :: "'w action" where
  "bdevNvmeResetController env c =
     (let name = First c in
     if name = [] then io_fail (PlainErr ''controller name is required'') else
     io_bind (NewClient env) (\<lambda>spdkCli.
     io_bind (on_spdk (BdevNvmeResetController spdkCli name)) (\<lambda>success.
     PrintObject (PBool success))))"

definition BdevNvmeResetControllerCmd :: "'w Command" where
  "BdevNvmeResetControllerCmd = leaf ''controller-reset''
     []
     ''Failed to run reset nvme controller command'' bdevNvmeResetController"

definition bdevNvmeGetControllers :: "'w action" where
  "bdevNvmeGetControllers env c =
     io_bind (NewClient env) (\<lambda>spdkCli.
     io_bind (on_spdk (BdevNvmeGetControllers spdkCli (First c))) (\<lambda>bdevNvmeGetControllersResp.
     PrintObject (PNvmeControllers bdevNvmeGetControllersResp)))"

definition BdevNvmeGetControllersCmd :: "'w Command" where
  "BdevNvmeGetControllersCmd = leaf ''controller-get''
     []
     ''Failed to run get nvme controller command'' bdevNvmeGetControllers"

definition bdevNvmeGet :: "'w action" where
  "bdevNvmeGet env c =
     io_bind (NewClient env) (\<lambda>spdkCli.
     io_bind (on_spdk (BdevNvmeGet spdkCli (First c) (UintOf c ''timeout''))) (\<lambda>bdevNvmeGetResp.
     PrintObject (PBdevs bdevNvmeGetResp)))"

definition BdevNvmeGetCmd :: "'w Command" where
  "BdevNvmeGetCmd = leaf ''get''
     [Uint64Flag ''timeout, t'' False 0]
     ''Failed to run get nvme controller command'' bdevNvmeGet"

definition bdevNvmeSetOptions :: "'w action" where
  "bdevNvmeSetOptions env c =
     io_bind (NewClient env) (\<lambda>spdkCli.
     io_bind (on_spdk (BdevNvmeSetOptions spdkCli (word_of_int (IntOf c ''ctrlr-loss-timeout-sec'')) (word_of_int (IntOf c ''reconnect-delay-sec'')) (word_of_int (IntOf c ''fast-io-fail-timeout-sec'')) (word_of_int (IntOf c ''transport-ack-timeout'')) (word_of_int (IntOf c ''keep_alive_timeout_ms'')))) (\<lambda>result.
     PrintObject (PBool result)))"

definition BdevNvmeSetOptionsCmd :: "'w Command" where
  "BdevNvmeSetOptionsCmd = leaf ''option-set''
     [IntFlag ''ctrlr-loss-timeout-sec'' False DefaultCtrlrLossTimeoutSec,
      IntFlag ''reconnect-delay-sec'' False DefaultReconnectDelaySec,
      IntFlag ''fast-io-fail-timeout-sec'' False DefaultFastIOFailTimeoutSec,
      IntFlag ''transport-ack-timeout'' False DefaultTransportAckTimeout]
     ''Failed to run set nvme options command'' bdevNvmeSetOptions"

definition BdevNvmeCmd :: "'w Command" where
  "BdevNvmeCmd = Command ''bdev-nvme'' ''nvme''
     []
     [BdevNvmeAttachControllerCmd,
      BdevNvmeDetachControllerCmd,
      BdevNvmeResetControllerCmd,
      BdevNvmeGetControllersCmd,
      BdevNvmeGetCmd,
      BdevNvmeSetOptionsCmd]
     None"

section \<open>RAID\<close>

definition bdevRaidCreate :: "'w action" where
  "bdevRaidCreate env c =
     io_bind (NewClient env) (\<lambda>spdkCli.
     io_bind (on_spdk (BdevRaidCreate spdkCli (StringOf c ''name'') (StringOf c ''level'') (ucast (UintOf c ''strip-size-kb'')) (nil_if_empty (StringSliceOf c ''base-bdevs'')) (StringOf c ''uuid''))) (\<lambda>created.
     PrintObject (PBool created)))"

definition BdevRaidCreateCmd :: "'w Command" where
  "BdevRaidCreateCmd = leaf ''create''
     [StringFlag ''name,n'' True [],
      StringFlag ''level,l'' False BdevRaidLevelRaid1,
      Uint64Flag ''strip-size-kb,s'' False 0,
      StringSliceFlag ''base-bdevs,b'' True,
      StringFlag ''uuid,u'' False []]
     ''Failed to run create bdev raid command'' bdevRaidCreate"

definition bdevRaidDelete :: "'w action" where
  "bdevRaidDelete env c =
     io_bind (NewClient env) (\<lambda>spdkCli.
     io_bind (on_spdk (BdevRaidDelete spdkCli (First c))) (\<lambda>deleted.
     PrintObject (PBool deleted)))"

definition BdevRaidDeleteCmd :: "'w Command" where
  "BdevRaidDeleteCmd = leaf ''delete''
     []
     ''Failed to run delete bdev raid command'' bdevRaidDelete"

definition bdevRaidGet :: "'w action" where
  "bdevRaidGet env c =
     io_bind (NewClient env) (\<lambda>spdkCli.
     io_bind (on_spdk (BdevRaidGet spdkCli (First c) (UintOf c ''timeout''))) (\<lambda>bdevRaidGetResp.
     PrintObject (PBdevs bdevRaidGetResp)))"

definition BdevRaidGetCmd :: "'w Command" where
  "BdevRaidGetCmd = leaf ''get''
     [Uint64Flag ''timeout, t'' False 0]
     ''Failed to run get bdev raid command'' bdevRaidGet"

definition bdevRaidRemoveBaseBdev :: "'w action" where
  "bdevRaidRemoveBaseBdev env c =
     io_bind (NewClient env) (\<lambda>spdkCli.
     io_bind (on_spdk (BdevRaidRemoveBaseBdev spdkCli (First c))) (\<lambda>deleted.
     PrintObject (PBool deleted)))"

definition BdevRaidRemoveBaseBdevCmd :: "'w Command" where
  "BdevRaidRemoveBaseBdevCmd = leaf ''remove-base-bdev''
     []
     ''Failed to run remove base bdev from raid command'' bdevRaidRemoveBaseBdev"

definition bdevRaidGrowBaseBdev :: "'w action" where
  "bdevRaidGrowBaseBdev env c =
     io_bind (NewClient env) (\<lambda>spdkCli.
     io_bind (on_spdk (BdevRaidGrowBaseBdev spdkCli (StringOf c ''raid-name'') (StringOf c ''base-name''))) (\<lambda>growed.
     PrintObject (PBool growed)))"

definition BdevRaidGrowBaseBdevCmd :: "'w Command" where
  "BdevRaidGrowBaseBdevCmd = leaf ''grow-base-bdev''
     [StringFlag ''raid-name'' True [],
      StringFlag ''base-name'' True []]
     ''Failed to run grow base bdev to raid command'' bdevRaidGrowBaseBdev"

definition BdevRaidCmd :: "'w Command" where
  "BdevRaidCmd = Command ''bdev-raid'' ''raid''
     []
     [BdevRaidCreateCmd,
      BdevRaidDeleteCmd,
      BdevRaidGetCmd,
      BdevRaidRemoveBaseBdevCmd,
      BdevRaidGrowBaseBdevCmd]
     None"

end
