(* ===== verification/CmdLvol.thy ===== *)
theory CmdLvol
  imports Cli
begin

text \<open>
  The commands for logical volumes, \<open>app/cmd/basic/bdev_lvol.go\<close>.
\<close>

section \<open>Logical volumes\<close>

definition bdevLvolCreate :: "'w action" where
  "bdevLvolCreate env c =
     io_bind (NewClient env) (\<lambda>spdkCli.
     let lvsName = StringOf c ''lvs-name'' in
     let lvsUUID = StringOf c ''lvs-uuid'' in
     let lvolName = StringOf c ''lvol-name'' in
     let size = UintOf c ''size'' in
     io_bind (on_spdk (BdevLvolCreate spdkCli lvsName lvsUUID lvolName size BdevLvolClearMethodUnmap True)) (\<lambda>uuid.
     PrintObject (PStringMap [(''uuid'', uuid), (''alias'', lvsName @ ''/'' @ lvolName)])))"

definition BdevLvolCreateCmd :: "'w Command" where
  "BdevLvolCreateCmd = leaf ''create''
     [StringFlag ''lvs-name'' False [],
      StringFlag ''lvs-uuid'' False [],
      StringFlag ''lvol-name'' True [],
      Uint64Flag ''size'' True 0]
     ''Failed to run create bdev lvol command'' bdevLvolCreate"

definition bdevLvolDelete :: "'w action" where
  "bdevLvolDelete env c =
     io_bind (NewClient env) (\<lambda>spdkCli.
     let name = either_of c ''alias'' ''uuid'' in
     io_bind (on_spdk (BdevLvolDelete spdkCli name)) (\<lambda>deleted.
     PrintObject (PBool deleted)))"

definition BdevLvolDeleteCmd :: "'w Command" where
  "BdevLvolDeleteCmd = leaf ''delete''
     [StringFlag ''alias'' False [],
      StringFlag ''uuid'' False []]
     ''Failed to run delete bdev lvol command'' bdevLvolDelete"

definition bdevLvolGet :: "'w action" where
  "bdevLvolGet env c =
     io_bind (NewClient env) (\<lambda>spdkCli.
     io_bind (on_spdk (BdevLvolGet spdkCli (First c) (UintOf c ''timeout''))) (\<lambda>bdevLvolGetResp.
     PrintObject (PBdevs bdevLvolGetResp)))"

definition BdevLvolGetCmd :: "'w Command" where
  "BdevLvolGetCmd = leaf ''get''
     [Uint64Flag ''timeout, t'' False 0]
     ''Failed to run get bdev lvol command'' bdevLvolGet"

text \<open>The loop over \<open>xattr\<close>: each is \<open>name=value\<close>, with a single equals sign.\<close>

fun parse_xattrs :: "string list \<Rightarrow> go_error + (string \<times> string) list" where
  "parse_xattrs [] = Inr []"
| "parse_xattrs (s # xattrs_args) =
     (case split_on (CHR ''='') s of
        [name, value] \<Rightarrow>
          (case parse_xattrs xattrs_args of Inl e \<Rightarrow> Inl e | Inr xattrs \<Rightarrow> Inr ((name, value) # xattrs))
      | _ \<Rightarrow> Inl (PlainErr (''xattr '' @ s @ '' not in name=value format'')))"

definition bdevLvolSnapshot :: "'w action" where
  "bdevLvolSnapshot env c =
     io_bind (NewClient env) (\<lambda>spdkCli.
     let name = either_of c ''alias'' ''uuid'' in
     io_bind (io_lift (parse_xattrs (StringSliceOf c ''xattr''))) (\<lambda>xattrs.
     io_bind (on_spdk (BdevLvolSnapshot spdkCli name (StringOf c ''snapshot-name'') xattrs)) (\<lambda>uuid.
     PrintObject (PString uuid))))"

definition BdevLvolSnapshotCmd :: "'w Command" where
  "BdevLvolSnapshotCmd = leaf ''snapshot''
     [StringFlag ''alias'' False [],
      StringFlag ''uuid'' False [],
      StringSliceFlag ''xattr'' False,
      StringFlag ''snapshot-name'' True []]
     ''Failed to run snapshot bdev lvol command'' bdevLvolSnapshot"

definition bdevLvolClone :: "'w action" where
  "bdevLvolClone env c =
     io_bind (NewClient env) (\<lambda>spdkCli.
     io_bind (on_spdk (BdevLvolClone spdkCli (StringOf c ''snapshot'') (StringOf c ''clone-name''))) (\<lambda>uuid.
     PrintObject (PString uuid)))"

definition BdevLvolCloneCmd :: "'w Command" where
  "BdevLvolCloneCmd = leaf ''clone''
     [StringFlag ''snapshot'' True [],
      StringFlag ''clone-name'' True []]
     ''Failed to run clone bdev lvol command'' bdevLvolClone"

definition bdevLvolCloneBdev :: "'w action" where
  "bdevLvolCloneBdev env c =
     io_bind (NewClient env) (\<lambda>spdkCli.
     io_bind (on_spdk (BdevLvolCloneBdev spdkCli (StringOf c ''bdev'') (StringOf c ''lvs-name'') (StringOf c ''clone-name''))) (\<lambda>uuid.
     PrintObject (PString uuid)))"

definition BdevLvolCloneBdevCmd :: "'w Command" where
  "BdevLvolCloneBdevCmd = leaf ''clone-bdev''
     [StringFlag ''bdev'' False [],
      StringFlag ''lvs-name'' False [],
      StringFlag ''clone-name'' True []]
     ''Failed to run clone bdev command'' bdevLvolCloneBdev"

definition bdevLvolDecoupleParent :: "'w action" where
  "bdevLvolDecoupleParent env c =
     io_bind (NewClient env) (\<lambda>spdkCli.
     let name = either_of c ''alias'' ''uuid'' in
     io_bind (on_spdk (BdevLvolDecoupleParent spdkCli name)) (\<lambda>decoupled.
     PrintObject (PBool decoupled)))"

definition BdevLvolDecoupleParentCmd :: "'w Command" where
  "BdevLvolDecoupleParentCmd = leaf ''decouple''
     [StringFlag ''alias'' False [],
      StringFlag ''uuid'' False []]
     ''Failed to run decouple parent bdev lvol command'' bdevLvolDecoupleParent"

definition bdevLvolDetachParent :: "'w action" where
  "bdevLvolDetachParent env c =
     io_bind (NewClient env) (\<lambda>spdkCli.
     let name = either_of c ''alias'' ''uuid'' in
     io_bind (on_spdk (BdevLvolDetachParent spdkCli name)) (\<lambda>decoupled.
     PrintObject (PBool decoupled)))"

definition BdevLvolDetachParentCmd :: "'w Command" where
  "BdevLvolDetachParentCmd = leaf ''detach''
     [StringFlag ''alias'' False [],
      StringFlag ''uuid'' False []]
     ''Failed to run detach parent bdev lvol command'' bdevLvolDetachParent"

definition bdevLvolSetParent :: "'w action" where
  "bdevLvolSetParent env c =
     io_bind (NewClient env) (\<lambda>spdkCli.
     io_bind (on_spdk (BdevLvolSetParent spdkCli (StringOf c ''lvol'') (StringOf c ''parent''))) (\<lambda>set.
     PrintObject (PBool set)))"

definition BdevLvolSetParentCmd :: "'w Command" where
  "BdevLvolSetParentCmd = leaf ''set-parent''
     [StringFlag ''lvol'' True [],
      StringFlag ''parent'' True []]
     ''Failed to run set parent bdev lvol command'' bdevLvolSetParent"

definition bdevLvolResize :: "'w action" where
  "bdevLvolResize env c =
     io_bind (NewClient env) (\<lambda>spdkCli.
     let name = either_of c ''alias'' ''uuid'' in
     io_bind (on_spdk (BdevLvolResize spdkCli name (UintOf c ''size-in-mib''))) (\<lambda>resized.
     PrintObject (PBool resized)))"

definition BdevLvolResizeCmd :: "'w Command" where
  "BdevLvolResizeCmd = leaf ''resize''
     [StringFlag ''alias'' False [],
      StringFlag ''uuid'' False [],
      Uint64Flag ''size-in-mib'' True 0]
     ''Failed to run resize bdev lvol command'' bdevLvolResize"

definition bdevLvolStartShallowCopy :: "'w action" where
  "bdevLvolStartShallowCopy env c =
     io_bind (NewClient env) (\<lambda>spdkCli.
     let srcLvolName = either_of c ''src-lvol-alias'' ''src-lvol-uuid'' in
     io_bind (on_spdk (BdevLvolStartShallowCopy spdkCli srcLvolName (StringOf c ''dst-bdev-name''))) (\<lambda>operationId.
     PrintObject (PUint32 operationId)))"

definition BdevLvolStartShallowCopyCmd :: "'w Command" where
  "BdevLvolStartShallowCopyCmd = leaf ''shallow-copy-start''
     [StringFlag ''src-lvol-alias'' False [],
      StringFlag ''src-lvol-uuid'' False [],
      StringFlag ''dst-bdev-name'' True []]
     ''Failed to run start shallow copy bdev lvol command'' bdevLvolStartShallowCopy"

definition bdevLvolStartRangeShallowCopy :: "'w action" where
  "bdevLvolStartRangeShallowCopy env c =
     io_bind (NewClient env) (\<lambda>spdkCli.
     let srcLvolName = either_of c ''src-lvol-alias'' ''src-lvol-uuid'' in
     let clusters = nil_if_empty (map word_of_int (Int64SliceOf c ''cluster'')) in
     io_bind (on_spdk (BdevLvolStartRangeShallowCopy spdkCli srcLvolName (StringOf c ''dst-bdev-name'') clusters)) (\<lambda>operationId.
     PrintObject (PUint32 operationId)))"

definition BdevLvolStartRangeShallowCopyCmd :: "'w Command" where
  "BdevLvolStartRangeShallowCopyCmd = leaf ''range-shallow-copy-start''
     [StringFlag ''src-lvol-alias'' False [],
      StringFlag ''src-lvol-uuid'' False [],
      StringFlag ''dst-bdev-name'' True [],
      Int64SliceFlag ''cluster'' False]
     ''Failed to run start range shallow copy bdev lvol command'' bdevLvolStartRangeShallowCopy"

definition bdevLvolCheckShallowCopy :: "'w action" where
  "bdevLvolCheckShallowCopy env c =
     io_bind (NewClient env) (\<lambda>spdkCli.
     let operationId = UintOf c ''operation-id'' in
     io_bind (on_spdk (BdevLvolCheckShallowCopy spdkCli (ucast operationId))) (\<lambda>copied.
     PrintObject (PShallowCopy copied)))"

definition BdevLvolCheckShallowCopyCmd :: "'w Command" where
  "BdevLvolCheckShallowCopyCmd = leaf ''shallow-copy-check''
     [UintFlag ''operation-id'' True 0]
     ''Failed to run check shallow copy bdev lvol command'' bdevLvolCheckShallowCopy"

definition bdevLvolStartDeepCopy :: "'w action" where
  "bdevLvolStartDeepCopy env c =
     io_bind (NewClient env) (\<lambda>spdkCli.
     let srcLvolName = StringOf c ''src-lvol'' in
     io_bind (on_spdk (BdevLvolStartDeepCopy spdkCli srcLvolName (StringOf c ''dst-bdev''))) (\<lambda>operationId.
     PrintObject (PUint32 operationId)))"

definition BdevLvolStartDeepCopyCmd :: "'w Command" where
  "BdevLvolStartDeepCopyCmd = leaf ''deep-copy-start''
     [StringFlag ''src-lvol'' True [],
      StringFlag ''dst-bdev'' True []]
     ''Failed to run start deep copy bdev lvol command'' bdevLvolStartDeepCopy"

definition bdevLvolCheckDeepCopy :: "'w action" where
  "bdevLvolCheckDeepCopy env c =
     io_bind (NewClient env) (\<lambda>spdkCli.
     let operationId = UintOf c ''operation-id'' in
     io_bind (on_spdk (BdevLvolCheckDeepCopy spdkCli (ucast operationId))) (\<lambda>deepCopyStatus.
     PrintObject (PDeepCopy deepCopyStatus)))"

definition BdevLvolCheckDeepCopyCmd :: "'w Command" where
  "BdevLvolCheckDeepCopyCmd = leaf ''deep-copy-check''
     [UintFlag ''operation-id'' True 0]
     ''Failed to run check deep copy bdev lvol command'' bdevLvolCheckDeepCopy"

definition bdevLvolSetXattr :: "'w action" where
  "bdevLvolSetXattr env c =
     io_bind (NewClient env) (\<lambda>spdkCli.
     let name = either_of c ''alias'' ''uuid'' in
     io_bind (on_spdk (BdevLvolSetXattr spdkCli name (StringOf c ''xattr-name'') (StringOf c ''xattr-value''))) (\<lambda>set.
     PrintObject (PBool set)))"

definition BdevLvolSetXattrCmd :: "'w Command" where
  "BdevLvolSetXattrCmd = leaf ''set-xattr''
     [StringFlag ''alias'' False [],
      StringFlag ''uuid'' False [],
      StringFlag ''xattr-name'' False [],
      StringFlag ''xattr-value'' False []]
     ''Failed to run set bdev lvol xattr command'' bdevLvolSetXattr"

definition bdevLvolGetXattr :: "'w action" where
  "bdevLvolGetXattr env c =
     io_bind (NewClient env) (\<lambda>spdkCli.
     let name = either_of c ''alias'' ''uuid'' in
     io_bind (on_spdk (BdevLvolGetXattr spdkCli name (StringOf c ''xattr-name''))) (\<lambda>bdevLvolGetResp.
     PrintObject (PString bdevLvolGetResp)))"

definition BdevLvolGetXattrCmd :: "'w Command" where
  "BdevLvolGetXattrCmd = leaf ''get-xattr''
     [StringFlag ''alias'' False [],
      StringFlag ''uuid'' False [],
      StringFlag ''xattr-name'' False []]
     ''Failed to run get bdev lvol xattr command'' bdevLvolGetXattr"

definition bdevLvolGetFragmap :: "'w action" where
  "bdevLvolGetFragmap env c =
     io_bind (NewClient env) (\<lambda>spdkCli.
     let name = either_of c ''alias'' ''uuid'' in
     let offset = UintOf c ''offset'' in
     let size = UintOf c ''size'' in
     io_bind (on_spdk (BdevLvolGetFragmap spdkCli name offset size)) (\<lambda>output.
     PrintObject (PFragmap output)))"

definition BdevLvolGetFragmapCmd :: "'w Command" where
  "BdevLvolGetFragmapCmd = leaf ''get-fragmap''
     [StringFlag ''alias'' False [],
      StringFlag ''uuid'' False [],
      Uint64Flag ''offset'' False 0,
      Uint64Flag ''size'' False 0]
     ''Failed to run get lvol get fragmap command'' bdevLvolGetFragmap"

definition bdevLvolRename :: "'w action" where
  "bdevLvolRename env c =
     io_bind (NewClient env) (\<lambda>spdkCli.
     let oldName = StringOf c ''old-name'' in
     let newName = StringOf c ''new-name'' in
     if oldName = [] \<or> newName = [] then io_fail (PlainErr ''both old-name and new-name must be provided'') else
     if oldName = newName then io_fail (PlainErr ''old-name and new-name must be different'') else
     io_bind (describing (''failed to rename logical volume from '' @ oldName @ '' to '' @ newName) (on_spdk (BdevLvolRename spdkCli oldName newName))) (\<lambda>renamed.
     PrintObject (PBool renamed)))"

definition BdevLvolRenameCmd :: "'w Command" where
  "BdevLvolRenameCmd = leaf ''rename''
     [StringFlag ''old-name'' True [],
      StringFlag ''new-name'' True []]
     ''Failed to run rename bdev lvol command'' bdevLvolRename"

definition bdevLvolRegisterSnapshotChecksum :: "'w action" where
  "bdevLvolRegisterSnapshotChecksum env c =
     io_bind (NewClient env) (\<lambda>spdkCli.
     let name = either_of c ''alias'' ''uuid'' in
     if name = [] then io_fail (PlainErr ''either alias or uuid must be provided'') else
     io_bind (describing (''failed to register checksum for snapshot '' @ name) (on_spdk (BdevLvolRegisterSnapshotChecksum spdkCli name))) (\<lambda>registered.
     PrintObject (PBool registered)))"

definition BdevLvolRegisterSnapshotChecksumCmd :: "'w Command" where
  "BdevLvolRegisterSnapshotChecksumCmd = leaf ''register-snapshot-checksum''
     [StringFlag ''alias'' False [],
      StringFlag ''uuid'' False []]
     ''Failed to run register snapshot checksum command'' bdevLvolRegisterSnapshotChecksum"

definition bdevLvolRegisterRangeChecksums :: "'w action" where
  "bdevLvolRegisterRangeChecksums env c =
     io_bind (NewClient env) (\<lambda>spdkCli.
     let name = either_of c ''alias'' ''uuid'' in
     if name = [] then io_fail (PlainErr ''either alias or uuid must be provided'') else
     io_bind (describing (''failed to register range checksums for snapshot '' @ name) (on_spdk (BdevLvolRegisterRangeChecksums spdkCli name))) (\<lambda>registered.
     PrintObject (PBool registered)))"

definition BdevLvolRegisterRangeChecksumsCmd :: "'w Command" where
  "BdevLvolRegisterRangeChecksumsCmd = leaf ''register-range-checksums''
     [StringFlag ''alias'' False [],
      StringFlag ''uuid'' False []]
     ''Failed to run register range checksums command'' bdevLvolRegisterRangeChecksums"

definition bdevLvolGetSnapshotChecksum :: "'w action" where
  "bdevLvolGetSnapshotChecksum env c =
     io_bind (NewClient env) (\<lambda>spdkCli.
     let name = either_of c ''alias'' ''uuid'' in
     if name = [] then io_fail (PlainErr ''either alias or uuid must be provided'') else
     io_bind (describing (''failed to get checksum for snapshot '' @ name) (on_spdk (BdevLvolGetSnapshotChecksum spdkCli name))) (\<lambda>checksum.
     if checksum = [] then io_fail (PlainErr (''no checksum found for snapshot '' @ name)) else
     PrintObject (PString checksum)))"

definition BdevLvolGetSnapshotChecksumCmd :: "'w Command" where
  "BdevLvolGetSnapshotChecksumCmd = leaf ''get-snapshot-checksum''
     [StringFlag ''alias'' False [],
      StringFlag ''uuid'' False []]
     ''Failed to run get snapshot checksum command'' bdevLvolGetSnapshotChecksum"

definition bdevLvolGetRangeChecksums :: "'w action" where
  "bdevLvolGetRangeChecksums env c =
     io_bind (NewClient env) (\<lambda>spdkCli.
     let name = either_of c ''alias'' ''uuid'' in
     if name = [] then io_fail (PlainErr ''either alias or uuid must be provided'') else
     let clusterStartIndex = UintOf c ''cluster-start-index'' in
     let clusterCount = UintOf c ''cluster-count'' in
     if clusterCount = 0 then io_fail (PlainErr ''cluster-count must be greater than 0'') else
     io_bind (describing (''failed to get range checksums for snapshot '' @ name) (on_spdk (BdevLvolGetRangeChecksums spdkCli name clusterStartIndex clusterCount))) (\<lambda>checksums.
     if checksums = Map.empty then io_fail (PlainErr (''no checksum found for snapshot '' @ name)) else
     PrintObject (PChecksums checksums)))"

definition BdevLvolGetRangeChecksumsCmd :: "'w Command" where
  "BdevLvolGetRangeChecksumsCmd = leaf ''get-range-checksums''
     [StringFlag ''alias'' False [],
      StringFlag ''uuid'' False [],
      Uint64Flag ''cluster-start-index'' False 0,
      Uint64Flag ''cluster-count'' False 0]
     ''Failed to run get range checksums command'' bdevLvolGetRangeChecksums"

definition bdevLvolStopSnapshotChecksum :: "'w action" where
  "bdevLvolStopSnapshotChecksum env c =
     io_bind (NewClient env) (\<lambda>spdkCli.
     let name = either_of c ''alias'' ''uuid'' in
     if name = [] then io_fail (PlainErr ''either alias or uuid must be provided'') else
     io_bind (describing (''failed to stop checksum registration for snapshot '' @ name) (on_spdk (BdevLvolStopSnapshotChecksum spdkCli name))) (\<lambda>registered.
     PrintObject (PBool registered)))"

definition BdevLvolStopSnapshotChecksumCmd :: "'w Command" where
  "BdevLvolStopSnapshotChecksumCmd = leaf ''stop-snapshot-checksum''
     [StringFlag ''alias'' False [],
      StringFlag ''uuid'' False []]
     ''Failed to run stop snapshot checksum command'' bdevLvolStopSnapshotChecksum"

definition BdevLvolCmd :: "'w Command" where
  "BdevLvolCmd = Command ''bdev-lvol'' ''lvol''
     []
     [BdevLvolCreateCmd,
      BdevLvolDeleteCmd,
      BdevLvolGetCmd,
      BdevLvolSnapshotCmd,
      BdevLvolCloneCmd,
      BdevLvolCloneBdevCmd,
      BdevLvolSetParentCmd,
      BdevLvolDecoupleParentCmd,
      BdevLvolDetachParentCmd,
      BdevLvolResizeCmd,
      BdevLvolStartShallowCopyCmd,
      BdevLvolStartRangeShallowCopyCmd,
      BdevLvolCheckShallowCopyCmd,
      BdevLvolStartDeepCopyCmd,
      BdevLvolCheckDeepCopyCmd,
      BdevLvolSetXattrCmd,
      BdevLvolGetXattrCmd,
      BdevLvolGetFragmapCmd,
      BdevLvolRenameCmd,
      BdevLvolRegisterSnapshotChecksumCmd,
      BdevLvolRegisterRangeChecksumsCmd,
      BdevLvolGetSnapshotChecksumCmd,
      BdevLvolGetRangeChecksumsCmd,
      BdevLvolStopSnapshotChecksumCmd]
     None"

end
