(* ===== verification/CmdEc.thy ===== *)
theory CmdEc
  imports Cli
begin

text \<open>
  The commands for erasure-coded bdevs, \<open>app/cmd/basic/bdev_ec.go\<close>.
\<close>

section \<open>Erasure-coded bdevs\<close>

definition bdevEcCreate :: "'w action" where
  "bdevEcCreate env c =
     io_bind (NewClient env) (\<lambda>spdkCli.
     io_bind (on_spdk (BdevEcCreate spdkCli (StringOf c ''name'') (ucast (UintOf c ''data-chunks'')) (ucast (UintOf c ''parity-chunks'')) (ucast (UintOf c ''strip-size-kb'')) (nil_if_empty (StringSliceOf c ''base-bdevs'')) (BoolOf c ''salvage''))) (\<lambda>bdevName.
     PrintObject (PString bdevName)))"

definition BdevEcCreateCmd :: "'w Command" where
  "BdevEcCreateCmd = leaf ''create''
     [StringFlag ''name,n'' True [],
      UintFlag ''data-chunks'' True 0,
      UintFlag ''parity-chunks'' True 0,
      UintFlag ''strip-size-kb,s'' True 0,
      StringSliceFlag ''base-bdevs,b'' True,
      BoolFlag ''salvage'']
     ''Failed to run create bdev ec command'' bdevEcCreate"

definition bdevEcDelete :: "'w action" where
  "bdevEcDelete env c =
     (let name = First c in
     if name = [] then io_fail (PlainErr ''EC bdev name is required'') else
     io_bind (NewClient env) (\<lambda>spdkCli.
     io_bind (on_spdk (BdevEcDelete spdkCli name)) (\<lambda>deleted.
     PrintObject (PBool deleted))))"

definition BdevEcDeleteCmd :: "'w Command" where
  "BdevEcDeleteCmd = leaf ''delete''
     []
     ''Failed to run delete bdev ec command'' bdevEcDelete"

definition bdevEcGet :: "'w action" where
  "bdevEcGet env c =
     io_bind (NewClient env) (\<lambda>spdkCli.
     io_bind (on_spdk (BdevEcGetBdevs spdkCli (First c))) (\<lambda>bdevEcInfoList.
     PrintObject (PEcInfos bdevEcInfoList)))"

definition BdevEcGetCmd :: "'w Command" where
  "BdevEcGetCmd = leaf ''get''
     []
     ''Failed to run get bdev ec command'' bdevEcGet"

definition bdevEcReplace :: "'w action" where
  "bdevEcReplace env c =
     io_bind (NewClient env) (\<lambda>spdkCli.
     io_bind (on_spdk (BdevEcReplaceBaseBdev spdkCli (StringOf c ''name'') (ucast (UintOf c ''slot'')) (StringOf c ''new-bdev''))) (\<lambda>resp.
     PrintObject (PEcReplaced resp)))"

definition BdevEcReplaceCmd :: "'w Command" where
  "BdevEcReplaceCmd = leaf ''replace''
     [StringFlag ''name,n'' True [],
      UintFlag ''slot'' True 0,
      StringFlag ''new-bdev'' True []]
     ''Failed to run replace bdev ec command'' bdevEcReplace"

definition bdevEcRebuildStart :: "'w action" where
  "bdevEcRebuildStart env c =
     (let name = First c in
     if name = [] then io_fail (PlainErr ''EC bdev name is required'') else
     io_bind (NewClient env) (\<lambda>spdkCli.
     io_bind (on_spdk (BdevEcStartRebuild spdkCli name)) (\<lambda>resp.
     PrintObject (PEcRebuildStarted resp))))"

definition BdevEcRebuildStartCmd :: "'w Command" where
  "BdevEcRebuildStartCmd = leaf ''rebuild-start''
     []
     ''Failed to run rebuild-start bdev ec command'' bdevEcRebuildStart"

definition bdevEcRebuildStop :: "'w action" where
  "bdevEcRebuildStop env c =
     (let name = First c in
     if name = [] then io_fail (PlainErr ''EC bdev name is required'') else
     io_bind (NewClient env) (\<lambda>spdkCli.
     io_bind (on_spdk (BdevEcStopRebuild spdkCli name)) (\<lambda>stopped.
     PrintObject (PBool stopped))))"

definition BdevEcRebuildStopCmd :: "'w Command" where
  "BdevEcRebuildStopCmd = leaf ''rebuild-stop''
     []
     ''Failed to run rebuild-stop bdev ec command'' bdevEcRebuildStop"

definition bdevEcRebuildQosSet :: "'w action" where
  "bdevEcRebuildQosSet env c =
     io_bind (NewClient env) (\<lambda>spdkCli.
     io_bind (on_spdk (BdevEcSetRebuildQos spdkCli (StringOf c ''name'') (ucast (UintOf c ''max-stripes-per-sec'')) (BoolOf c ''paused''))) (\<lambda>set.
     PrintObject (PBool set)))"

definition BdevEcRebuildQosSetCmd :: "'w Command" where
  "BdevEcRebuildQosSetCmd = leaf ''rebuild-qos-set''
     [StringFlag ''name,n'' True [],
      UintFlag ''max-stripes-per-sec'' False 0,
      BoolFlag ''paused'']
     ''Failed to run rebuild-qos-set bdev ec command'' bdevEcRebuildQosSet"

text \<open>The error of the call; the progress returned with an error is dropped.\<close>

definition progress_or_error :: "'w rpc_env \<Rightarrow> string \<Rightarrow> ('w session, BdevEcRebuildProgress) io" where
  "progress_or_error spdkCli name s =
     (case BdevEcGetRebuildProgress spdkCli name s of
        ((progress, None), s') \<Rightarrow> (Inr progress, s')
      | ((progress, Some err), s') \<Rightarrow> (Inl err, s'))"

definition bdevEcRebuildProgress :: "'w action" where
  "bdevEcRebuildProgress env c =
     (let name = First c in
     if name = [] then io_fail (PlainErr ''EC bdev name is required'') else
     io_bind (NewClient env) (\<lambda>spdkCli.
     io_bind (on_spdk (progress_or_error spdkCli name)) (\<lambda>progress.
     PrintObject (PEcProgress progress))))"

definition BdevEcRebuildProgressCmd :: "'w Command" where
  "BdevEcRebuildProgressCmd = leaf ''rebuild-progress''
     []
     ''Failed to run rebuild-progress bdev ec command'' bdevEcRebuildProgress"

definition bdevEcResize :: "'w action" where
  "bdevEcResize env c =
     (let name = First c in
     if name = [] then io_fail (PlainErr ''EC bdev name is required'') else
     io_bind (NewClient env) (\<lambda>spdkCli.
     io_bind (on_spdk (BdevEcResize spdkCli name)) (\<lambda>resp.
     PrintObject (PEcResized resp))))"

definition BdevEcResizeCmd :: "'w Command" where
  "BdevEcResizeCmd = leaf ''resize''
     []
     ''Failed to run resize bdev ec command'' bdevEcResize"

definition bdevEcWibStatus :: "'w action" where
  "bdevEcWibStatus env c =
     (let name = First c in
     if name = [] then io_fail (PlainErr ''EC bdev name is required'') else
     io_bind (NewClient env) (\<lambda>spdkCli.
     io_bind (on_spdk (BdevEcGetWibStatus spdkCli name)) (\<lambda>status.
     PrintObject (PEcWib status))))"

definition BdevEcWibStatusCmd :: "'w Command" where
  "BdevEcWibStatusCmd = leaf ''wib-status''
     []
     ''Failed to run wib-status bdev ec command'' bdevEcWibStatus"

definition bdevEcUnmapStatus :: "'w action" where
  "bdevEcUnmapStatus env c =
     (let name = First c in
     if name = [] then io_fail (PlainErr ''EC bdev name is required'') else
     io_bind (NewClient env) (\<lambda>spdkCli.
     io_bind (on_spdk (BdevEcGetUnmapStatus spdkCli name)) (\<lambda>status.
     PrintObject (PEcUnmap status))))"

definition BdevEcUnmapStatusCmd :: "'w Command" where
  "BdevEcUnmapStatusCmd = leaf ''unmap-status''
     []
     ''Failed to run unmap-status bdev ec command'' bdevEcUnmapStatus"

definition bdevEcScrubProgress :: "'w action" where
  "bdevEcScrubProgress env c =
     (let name = First c in
     if name = [] then io_fail (PlainErr ''EC bdev name is required'') else
     io_bind (NewClient env) (\<lambda>spdkCli.
     io_bind (on_spdk (BdevEcGetScrubProgress spdkCli name)) (\<lambda>progress.
     PrintObject (PEcScrub progress))))"

definition BdevEcScrubProgressCmd :: "'w Command" where
  "BdevEcScrubProgressCmd = leaf ''scrub-progress''
     []
     ''Failed to run scrub-progress bdev ec command'' bdevEcScrubProgress"

definition BdevEcCmd :: "'w Command" where
  "BdevEcCmd = Command ''bdev-ec'' ''ec''
     []
     [BdevEcCreateCmd,
      BdevEcDeleteCmd,
      BdevEcGetCmd,
      BdevEcReplaceCmd,
      BdevEcRebuildStartCmd,
      BdevEcRebuildStopCmd,
      BdevEcRebuildProgressCmd,
      BdevEcRebuildQosSetCmd,
      BdevEcResizeCmd,
      BdevEcWibStatusCmd,
      BdevEcUnmapStatusCmd,
      BdevEcScrubProgressCmd]
     None"

end
