(* ===== verification/CmdNvmf.thy ===== *)
theory CmdNvmf
  imports Cli
begin

text \<open>
  The commands for NVMe-oF targets, logs, ublk and the SPDK process, \<open>app/cmd/basic\<close>.
\<close>

section \<open>NVMe-oF\<close>

definition nvmfCreateTransport :: "'w action" where
  "nvmfCreateTransport env c =
     io_bind (NewClient env) (\<lambda>spdkCli.
     io_bind (on_spdk (NvmfCreateTransport spdkCli (StringOf c ''trtype''))) (\<lambda>created.
     PrintObject (PBool created)))"

definition NvmfCreateTransportCmd :: "'w Command" where
  "NvmfCreateTransportCmd = leaf ''transport-create''
     [StringFlag ''trtype'' False NvmeTransportTypeTCP]
     ''Failed to run create nvmf transport command'' nvmfCreateTransport"

definition nvmfGetTransports :: "'w action" where
  "nvmfGetTransports env c =
     io_bind (NewClient env) (\<lambda>spdkCli.
     io_bind (on_spdk (NvmfGetTransports spdkCli (StringOf c ''trtype'') (StringOf c ''tgt-name''))) (\<lambda>transportList.
     PrintObject (PTransports transportList)))"

definition NvmfGetTransportsCmd :: "'w Command" where
  "NvmfGetTransportsCmd = leaf ''transport-get''
     [StringFlag ''trtype'' False [],
      StringFlag ''tgt-name'' False []]
     ''Failed to run get nvmf transports command'' nvmfGetTransports"

definition nvmfCreateSubsystem :: "'w action" where
  "nvmfCreateSubsystem env c =
     io_bind (NewClient env) (\<lambda>spdkCli.
     io_bind (on_spdk (NvmfCreateSubsystem spdkCli (First c) True)) (\<lambda>created.
     PrintObject (PBool created)))"

definition NvmfCreateSubsystemCmd :: "'w Command" where
  "NvmfCreateSubsystemCmd = leaf ''subsystem-create''
     []
     ''Failed to run create nvmf subsystem command'' nvmfCreateSubsystem"

definition nvmfDeleteSubsystem :: "'w action" where
  "nvmfDeleteSubsystem env c =
     io_bind (NewClient env) (\<lambda>spdkCli.
     io_bind (on_spdk (NvmfDeleteSubsystem spdkCli (First c) [])) (\<lambda>deleted.
     PrintObject (PBool deleted)))"

definition NvmfDeleteSubsystemCmd :: "'w Command" where
  "NvmfDeleteSubsystemCmd = leaf ''subsystem-delete''
     []
     ''Failed to run delete nvmf subsystem command'' nvmfDeleteSubsystem"

definition nvmfGetSubsystems :: "'w action" where
  "nvmfGetSubsystems env c =
     io_bind (NewClient env) (\<lambda>spdkCli.
     io_bind (on_spdk (NvmfGetSubsystems spdkCli (StringOf c ''nqn'') (StringOf c ''tgt-name''))) (\<lambda>subsystemList.
     PrintObject (PSubsystems subsystemList)))"

definition NvmfGetSubsystemsCmd :: "'w Command" where
  "NvmfGetSubsystemsCmd = leaf ''subsystem-get''
     [StringFlag ''nqn'' False [],
      StringFlag ''tgt-name'' False []]
     ''Failed to run get nvmf subsystems command'' nvmfGetSubsystems"

definition nvmfSubsystemAddNs :: "'w action" where
  "nvmfSubsystemAddNs env c =
     io_bind (NewClient env) (\<lambda>spdkCli.
     io_bind (on_spdk (NvmfSubsystemAddNs spdkCli (StringOf c ''nqn'') (StringOf c ''bdev-name'') (StringOf c ''nguid''))) (\<lambda>added.
     PrintObject (PUint32 added)))"

definition NvmfSubsystemAddNsCmd :: "'w Command" where
  "NvmfSubsystemAddNsCmd = leaf ''ns-add''
     [StringFlag ''nqn'' True [],
      StringFlag ''bdev-name'' True [],
      StringFlag ''nguid'' False []]
     ''Failed to run add nvmf subsystem namespace command'' nvmfSubsystemAddNs"

definition nvmfSubsystemRemoveNs :: "'w action" where
  "nvmfSubsystemRemoveNs env c =
     io_bind (NewClient env) (\<lambda>spdkCli.
     io_bind (on_spdk (NvmfSubsystemRemoveNs spdkCli (StringOf c ''nqn'') (ucast (UintOf c ''nsid'')))) (\<lambda>deleted.
     PrintObject (PBool deleted)))"

definition NvmfSubsystemRemoveNsCmd :: "'w Command" where
  "NvmfSubsystemRemoveNsCmd = leaf ''ns-remove''
     [StringFlag ''nqn'' True [],
      UintFlag ''nsid'' True 0]
     ''Failed to run remove nvmf subsystem namespace command'' nvmfSubsystemRemoveNs"

definition nvmfSubsystemGetNss :: "'w action" where
  "nvmfSubsystemGetNss env c =
     (let nqn = StringOf c ''nqn'' in
     if nqn = [] then io_fail (PlainErr ''subsystem NQN is required'') else
     io_bind (NewClient env) (\<lambda>spdkCli.
     io_bind (on_spdk (NvmfSubsystemsGetNss spdkCli nqn (StringOf c ''bdev-name'') (ucast (UintOf c ''nsid'')))) (\<lambda>nsList.
     PrintObject (PNamespaces nsList))))"

definition NvmfSubsystemGetNssCmd :: "'w Command" where
  "NvmfSubsystemGetNssCmd = leaf ''ns-get''
     [StringFlag ''nqn'' True [],
      StringFlag ''bdev-name'' False [],
      UintFlag ''nsid'' False 0]
     ''Failed to run get nvmf subsystem namespaces command'' nvmfSubsystemGetNss"

definition nvmfSubsystemAddListener :: "'w action" where
  "nvmfSubsystemAddListener env c =
     io_bind (NewClient env) (\<lambda>spdkCli.
     io_bind (on_spdk (NvmfSubsystemAddListener spdkCli (StringOf c ''nqn'') (StringOf c ''traddr'') (StringOf c ''trsvcid'') (StringOf c ''trtype'') (StringOf c ''adrfam''))) (\<lambda>added.
     PrintObject (PBool added)))"

definition NvmfSubsystemAddListenerCmd :: "'w Command" where
  "NvmfSubsystemAddListenerCmd = leaf ''listener-add''
     [StringFlag ''nqn'' True [],
      StringFlag ''traddr'' True [],
      StringFlag ''trsvcid'' True [],
      StringFlag ''trtype'' False NvmeTransportTypeTCP,
      StringFlag ''adrfam'' False NvmeAddressFamilyIPv4]
     ''Failed to run add nvmf subsystem listener command'' nvmfSubsystemAddListener"

definition nvmfSubsystemRemoveListener :: "'w action" where
  "nvmfSubsystemRemoveListener env c =
     io_bind (NewClient env) (\<lambda>spdkCli.
     io_bind (on_spdk (NvmfSubsystemRemoveListener spdkCli (StringOf c ''nqn'') (StringOf c ''traddr'') (StringOf c ''trsvcid'') (StringOf c ''trtype'') (StringOf c ''adrfam''))) (\<lambda>deleted.
     PrintObject (PBool deleted)))"

definition NvmfSubsystemRemoveListenerCmd :: "'w Command" where
  "NvmfSubsystemRemoveListenerCmd = leaf ''listener-remove''
     [StringFlag ''nqn'' True [],
      StringFlag ''traddr'' True [],
      StringFlag ''trsvcid'' True [],
      StringFlag ''trtype'' False NvmeTransportTypeTCP,
      StringFlag ''adrfam'' False NvmeAddressFamilyIPv4]
     ''Failed to run remove nvmf subsystem listener command'' nvmfSubsystemRemoveListener"

definition nvmfSubsystemGetListeners :: "'w action" where
  "nvmfSubsystemGetListeners env c =
     io_bind (NewClient env) (\<lambda>spdkCli.
     io_bind (on_spdk (NvmfSubsystemGetListeners spdkCli (First c) [])) (\<lambda>listenerList.
     PrintObject (PListeners listenerList)))"

definition NvmfSubsystemGetListenersCmd :: "'w Command" where
  "NvmfSubsystemGetListenersCmd = leaf ''listener-get''
     []
     ''Failed to run get nvmf subsystem listeners command'' nvmfSubsystemGetListeners"

definition NvmfCmd :: "'w Command" where
  "NvmfCmd = Command ''nvme-of'' ''nvmf''
     []
     [NvmfCreateTransportCmd,
      NvmfGetTransportsCmd,
      NvmfCreateSubsystemCmd,
      NvmfDeleteSubsystemCmd,
      NvmfGetSubsystemsCmd,
      NvmfSubsystemAddNsCmd,
      NvmfSubsystemRemoveNsCmd,
      NvmfSubsystemGetNssCmd,
      NvmfSubsystemAddListenerCmd,
      NvmfSubsystemRemoveListenerCmd,
      NvmfSubsystemGetListenersCmd]
     None"

section \<open>Logs\<close>

definition logSetFlag :: "'w action" where
  "logSetFlag env c =
     io_bind (NewClient env) (\<lambda>spdkCli.
     io_bind (on_spdk (LogSetFlag spdkCli (First c))) (\<lambda>result.
     PrintObject (PBool result)))"

definition LogSetFlagCmd :: "'w Command" where
  "LogSetFlagCmd = leaf ''set-flag''
     []
     ''Failed to run set log flag command'' logSetFlag"

definition logClearFlag :: "'w action" where
  "logClearFlag env c =
     io_bind (NewClient env) (\<lambda>spdkCli.
     io_bind (on_spdk (LogClearFlag spdkCli (First c))) (\<lambda>result.
     PrintObject (PBool result)))"

definition LogClearFlagCmd :: "'w Command" where
  "LogClearFlagCmd = leaf ''clear-flag''
     []
     ''Failed to run clear log flag command'' logClearFlag"

definition logGetFlags :: "'w action" where
  "logGetFlags env c =
     io_bind (NewClient env) (\<lambda>spdkCli.
     io_bind (on_spdk (LogGetFlags spdkCli)) (\<lambda>logFlags.
     PrintObject (PLogFlags logFlags)))"

definition LogGetFlagsCmd :: "'w Command" where
  "LogGetFlagsCmd = leaf ''get-flags''
     []
     ''Failed to run get log flags command'' logGetFlags"

definition logSetLevel :: "'w action" where
  "logSetLevel env c =
     io_bind (NewClient env) (\<lambda>spdkCli.
     io_bind (on_spdk (LogSetLevel spdkCli (First c))) (\<lambda>result.
     PrintObject (PBool result)))"

definition LogSetLevelCmd :: "'w Command" where
  "LogSetLevelCmd = leaf ''set-level''
     []
     ''Failed to run set log level command'' logSetLevel"

definition logGetLevel :: "'w action" where
  "logGetLevel env c =
     io_bind (NewClient env) (\<lambda>spdkCli.
     io_bind (on_spdk (LogGetLevel spdkCli)) (\<lambda>logLevel.
     PrintObject (PString logLevel)))"

definition LogGetLevelCmd :: "'w Command" where
  "LogGetLevelCmd = leaf ''get-level''
     []
     ''Failed to run get log level command'' logGetLevel"

definition logSetPrintLevel :: "'w action" where
  "logSetPrintLevel env c =
     io_bind (NewClient env) (\<lambda>spdkCli.
     io_bind (on_spdk (LogSetPrintLevel spdkCli (First c))) (\<lambda>result.
     PrintObject (PBool result)))"

definition LogSetPrintLevelCmd :: "'w Command" where
  "LogSetPrintLevelCmd = leaf ''set-print-level''
     []
     ''Failed to run set log print level command'' logSetPrintLevel"

definition logGetPrintLevel :: "'w action" where
  "logGetPrintLevel env c =
     io_bind (NewClient env) (\<lambda>spdkCli.
     io_bind (on_spdk (LogGetPrintLevel spdkCli)) (\<lambda>logPrintLevel.
     PrintObject (PString logPrintLevel)))"

definition LogGetPrintLevelCmd :: "'w Command" where
  "LogGetPrintLevelCmd = leaf ''get-print-level''
     []
     ''Failed to run get log print level command'' logGetPrintLevel"

definition LogCmd :: "'w Command" where
  "LogCmd = Command ''log'' []
     []
     [LogSetFlagCmd,
      LogClearFlagCmd,
      LogGetFlagsCmd,
      LogSetLevelCmd,
      LogGetLevelCmd,
      LogSetPrintLevelCmd,
      LogGetPrintLevelCmd]
     None"

section \<open>Ublk\<close>

definition ublkCreateTarget :: "'w action" where
  "ublkCreateTarget env c =
     io_bind (NewClient env) (\<lambda>spdkCli.
     io_bind (on_spdk (UblkCreateTarget spdkCli (StringOf c ''cpumask'') (BoolOf c ''disable-user-copy''))) (\<lambda>_. io_return PNothing))"

definition UblkCreateTargetCmd :: "'w Command" where
  "UblkCreateTargetCmd = leaf ''create-target''
     [StringFlag ''cpumask'' False [],
      BoolFlag ''disable-user-copy'']
     ''Failed to run UblkCreateTargetCmd'' ublkCreateTarget"

definition ublkDestroyTarget :: "'w action" where
  "ublkDestroyTarget env c =
     io_bind (NewClient env) (\<lambda>spdkCli.
     io_bind (on_spdk (UblkDestroyTarget spdkCli)) (\<lambda>_. io_return PNothing))"

definition UblkDestroyTargetCmd :: "'w Command" where
  "UblkDestroyTargetCmd = leaf ''destroy-target''
     []
     ''Failed to run UblkDestroyTargetCmd'' ublkDestroyTarget"

definition ublkGetDisks :: "'w action" where
  "ublkGetDisks env c =
     io_bind (NewClient env) (\<lambda>spdkCli.
     io_bind (on_spdk (UblkGetDisks spdkCli (word_of_int (IntOf c ''ublk-id'')))) (\<lambda>resp.
     PrintObject (PUblkDevices resp)))"

definition UblkGetDisksCmd :: "'w Command" where
  "UblkGetDisksCmd = leaf ''get-disks''
     [IntFlag ''ublk-id'' False 0]
     ''Failed to run UblkGetDisksCmd'' ublkGetDisks"

definition ublkStartDisk :: "'w action" where
  "ublkStartDisk env c =
     io_bind (NewClient env) (\<lambda>spdkCli.
     io_bind (on_spdk (UblkStartDisk spdkCli (StringOf c ''bdev-name'') (word_of_int (IntOf c ''ublk-id'')) (word_of_int (IntOf c ''queue-depth'')) (word_of_int (IntOf c ''num-queues'')))) (\<lambda>_. io_return PNothing))"

definition UblkStartDiskCmd :: "'w Command" where
  "UblkStartDiskCmd = leaf ''start-disk''
     [StringFlag ''bdev-name'' True [],
      IntFlag ''ublk-id'' True 0,
      IntFlag ''queue-depth'' False 128,
      IntFlag ''num-queues'' False 1]
     ''Failed to run UblkStartDiskCmd'' ublkStartDisk"

definition ublkRecoverDisk :: "'w action" where
  "ublkRecoverDisk env c =
     io_bind (NewClient env) (\<lambda>spdkCli.
     io_bind (on_spdk (UblkRecoverDisk spdkCli (StringOf c ''bdev-name'') (word_of_int (IntOf c ''ublk-id'')))) (\<lambda>_. io_return PNothing))"

definition UblkRecoverDiskCmd :: "'w Command" where
  "UblkRecoverDiskCmd = leaf ''recover-disk''
     [StringFlag ''bdev-name'' True [],
      IntFlag ''ublk-id'' True 0]
     ''Failed to run UblkRecoverDiskCmd'' ublkRecoverDisk"

definition ublkStopDisk :: "'w action" where
  "ublkStopDisk env c =
     io_bind (NewClient env) (\<lambda>spdkCli.
     io_bind (on_spdk (UblkStopDisk spdkCli (word_of_int (IntOf c ''ublk-id'')))) (\<lambda>_. io_return PNothing))"

definition UblkStopDiskCmd :: "'w Command" where
  "UblkStopDiskCmd = leaf ''stop-disk''
     [IntFlag ''ublk-id'' True 0]
     ''Failed to run UblkStopDiskCmd'' ublkStopDisk"

definition UblkCmd :: "'w Command" where
  "UblkCmd = Command ''ublk'' []
     []
     [UblkCreateTargetCmd,
      UblkDestroyTargetCmd,
      UblkGetDisksCmd,
      UblkStartDiskCmd,
      UblkRecoverDiskCmd,
      UblkStopDiskCmd]
     None"

section \<open>The process\<close>

definition spdkKillInstanceCmd :: "'w action" where
  "spdkKillInstanceCmd env c =
     io_bind (NewClient env) (\<lambda>spdkCli.
     io_bind (on_spdk (SpdkKillInstance spdkCli (StringOf c ''sig-name''))) (\<lambda>result.
     PrintObject (PBool result)))"

definition SpdkKillInstanceCmd :: "'w Command" where
  "SpdkKillInstanceCmd = leaf ''kill-instance''
     [StringFlag ''sig-name'' True []]
     ''Failed to run spdk kill instance command'' spdkKillInstanceCmd"

end
