(* ===== verification/CmdDmsetup.thy ===== *)
theory CmdDmsetup
  imports Cli
begin

text \<open>
  The commands for device-mapper devices, \<open>app/cmd/dmsetup\<close>.
\<close>

section \<open>Device mapper\<close>

definition create :: "'w action" where
  "create env c =
     io_bind (NewExecutor env (GlobalString c ''host-proc'')) (\<lambda>ex.
     let deviceName = First c in
     if deviceName = [] then io_fail (PlainErr ''device name is required'') else
     io_bind (on_host (DmsetupCreate ex deviceName (StringOf c ''table''))) (\<lambda>_. io_return PNothing))"

definition CreateCmd :: "'w Command" where
  "CreateCmd = Command ''create'' []
     [StringFlag ''table'' True []] []
     (Some (Fatalf (\<lambda>c. ''Failed to create device '' @ First c @ '' with table '' @ StringOf c ''table'') create))"

definition suspend :: "'w action" where
  "suspend env c =
     io_bind (NewExecutor env (GlobalString c ''host-proc'')) (\<lambda>ex.
     let deviceName = First c in
     if deviceName = [] then io_fail (PlainErr ''device name is required'') else
     io_bind (on_host (DmsetupSuspend ex deviceName (BoolOf c ''noflush'') (BoolOf c ''nolockfs''))) (\<lambda>_. io_return PNothing))"

definition SuspendCmd :: "'w Command" where
  "SuspendCmd = Command ''suspend'' []
     [BoolFlag ''noflush'',
      BoolFlag ''nolockfs''] []
     (Some (Fatalf (\<lambda>c. ''Failed to suspend device '' @ First c) suspend))"

definition resume :: "'w action" where
  "resume env c =
     io_bind (NewExecutor env (GlobalString c ''host-proc'')) (\<lambda>ex.
     let deviceName = First c in
     if deviceName = [] then io_fail (PlainErr ''device name is required'') else
     io_bind (on_host (DmsetupResume ex deviceName)) (\<lambda>_. io_return PNothing))"

definition ResumeCmd :: "'w Command" where
  "ResumeCmd = Command ''resume'' []
     [] []
     (Some (Fatalf (\<lambda>c. ''Failed to resume device '' @ First c) resume))"

definition reload :: "'w action" where
  "reload env c =
     io_bind (NewExecutor env (GlobalString c ''host-proc'')) (\<lambda>ex.
     let deviceName = First c in
     if deviceName = [] then io_fail (PlainErr ''device name is required'') else
     io_bind (on_host (DmsetupReload ex deviceName (StringOf c ''table''))) (\<lambda>_. io_return PNothing))"

definition ReloadCmd :: "'w Command" where
  "ReloadCmd = Command ''reload'' []
     [StringFlag ''table'' True []] []
     (Some (Fatalf (\<lambda>c. ''Failed to reload device '' @ First c @ '' with table '' @ StringOf c ''table'') reload))"

definition remove :: "'w action" where
  "remove env c =
     io_bind (NewExecutor env (GlobalString c ''host-proc'')) (\<lambda>ex.
     let deviceName = First c in
     if deviceName = [] then io_fail (PlainErr ''device name is required'') else
     io_bind (on_host (DmsetupRemove ex deviceName (BoolOf c ''force'') (BoolOf c ''deferred''))) (\<lambda>_. io_return PNothing))"

definition RemoveCmd :: "'w Command" where
  "RemoveCmd = Command ''remove'' []
     [BoolFlag ''force'',
      BoolFlag ''deferred''] []
     (Some (Fatalf (\<lambda>c. ''Failed to create device '' @ First c @ '' with table '' @ StringOf c ''table'') remove))"

text \<open>\<open>fmt.Printf("%v")\<close> of a slice: its elements in brackets.\<close>

definition deps :: "'w action" where
  "deps env c =
     io_bind (NewExecutor env (GlobalString c ''host-proc'')) (\<lambda>ex.
     let deviceName = First c in
     if deviceName = [] then io_fail (PlainErr ''device name is required'') else
     io_bind (on_host (DmsetupDeps ex (range_order (node_of env (GlobalString c ''host-proc''))) deviceName)) (\<lambda>output.
     io_return (PText (''Dependent devices: ['' @ join_with '' '' output @ '']''))))"

definition DepsCmd :: "'w Command" where
  "DepsCmd = Command ''deps'' []
     [] []
     (Some (Fatalf (\<lambda>c. ''Failed to output a list of devices referenced by the live table for the specified device '' @ First c) deps))"

definition Cmd :: "'w Command" where
  "Cmd = Command ''dmsetup'' []
     [StringFlag ''host-proc'' False ProcDirectory]
     [CreateCmd,
      RemoveCmd,
      SuspendCmd,
      ResumeCmd,
      ReloadCmd,
      DepsCmd]
     None"

end
