(* ===== verification/CmdNvmecli.thy ===== *)
theory CmdNvmecli
  imports Cli
begin

text \<open>
  The commands for initiators and nvme-cli, \<open>app/cmd/nvmecli\<close>.
\<close>

section \<open>nvme-cli\<close>

definition discover :: "'w action" where
  "discover env c =
     io_bind (NewExecutor env (GlobalString c ''host-proc'')) (\<lambda>ex.
     io_bind (on_host (DiscoverTarget ex (StringOf c ''traddr'') (StringOf c ''trsvcid''))) (\<lambda>subnqn.
     PrintObject (PStringMap [(''subnqn'', subnqn)])))"

definition DiscoverCmd :: "'w Command" where
  "DiscoverCmd = leaf ''discover''
     [StringFlag ''traddr'' True LocalIP,
      StringFlag ''trsvcid'' True []]
     ''Failed to run nvme-cli discover command'' discover"

definition connect :: "'w action" where
  "connect env c =
     io_bind (NewExecutor env (GlobalString c ''host-proc'')) (\<lambda>ex.
     io_bind (on_host (ConnectTarget ex (StringOf c ''traddr'') (StringOf c ''trsvcid'') (StringOf c ''nqn''))) (\<lambda>controllerName.
     PrintObject (PStringMap [(''controllerName'', controllerName)])))"

definition ConnectCmd :: "'w Command" where
  "ConnectCmd = leaf ''connect''
     [StringFlag ''traddr'' True LocalIP,
      StringFlag ''trsvcid'' True [],
      StringFlag ''nqn'' True []]
     ''Failed to run nvme-cli connect command'' connect"

definition disconnect :: "'w action" where
  "disconnect env c =
     io_bind (NewExecutor env (GlobalString c ''host-proc'')) (\<lambda>ex.
     io_bind (on_host (DisconnectTarget ex (First c))) (\<lambda>_. io_return PNothing))"

definition DisconnectCmd :: "'w Command" where
  "DisconnectCmd = leaf ''disconnect''
     []
     ''Failed to run nvme-cli disconnect command'' disconnect"

definition get :: "'w action" where
  "get env c =
     io_bind (NewExecutor env (GlobalString c ''host-proc'')) (\<lambda>ex.
     io_bind (on_host (GetDevices ex (StringOf c ''traddr'') (StringOf c ''trsvcid'') (StringOf c ''nqn''))) (\<lambda>getResp.
     PrintObject (PDevices getResp)))"

definition GetCmd :: "'w Command" where
  "GetCmd = leaf ''get''
     [StringFlag ''traddr'' False LocalIP,
      StringFlag ''trsvcid'' False [],
      StringFlag ''nqn'' False []]
     ''Failed to run nvme-cli get command'' get"

text \<open>The initiator is a local variable of the action: the object of the node. Its executor is the one \<open>NewInitiator\<close>
  makes, for \<open>/proc\<close>, whatever \<open>host-proc\<close> is.\<close>

definition with_initiator :: "'w cli_env \<Rightarrow> string \<Rightarrow> string \<Rightarrow> NVMeTCPInfo option \<Rightarrow> ('w, 'a) iop \<Rightarrow> ('w, 'a) iop" where
  "with_initiator env name proc info m =
     io_bind (io_lift (NewInitiator name proc info None None)) (\<lambda>i.
     io_bind (NewExecutor env ProcDirectory) (\<lambda>_.
     io_bind (set_self (\<lambda>_. i)) (\<lambda>_. m)))"

definition busy_ignored :: "'w busy_op \<Rightarrow> ('w, unit) iop" where
  "busy_ignored m = io_bind m (\<lambda>(_, err). case err of None \<Rightarrow> io_return () | Some e \<Rightarrow> io_fail e)"

definition info_of :: "cli_context \<Rightarrow> NVMeTCPInfo" where
  "info_of c = \<lparr> SubsystemNQN = StringOf c ''nqn'', UUID = [], TransportAddress = [], TransportServiceID = [],
     ControllerName = [], NamespaceName = [], NrIoQueues = 0 \<rparr>"

definition start :: "'w action" where
  "start env c =
     (let nvmeTCPInfo = info_of c;
          node = node_of env ProcDirectory
      in with_initiator env (StringOf c ''name'') (GlobalString c ''host-proc'') (Some nvmeTCPInfo) (
         io_bind (busy_ignored (StartNvmeTCPInitiator node (StringOf c ''traddr'') (StringOf c ''trsvcid'') True True)) (\<lambda>_.
         io_bind this (\<lambda>i.
         PrintObject (PStringMap [(''controller_name'', GetControllerName i), (''namespace_name'', GetNamespaceName i),
           (''endpoint'', GetEndpoint i)])))))"

definition StartCmd :: "'w Command" where
  "StartCmd = leaf ''start''
     [StringFlag ''name'' True [],
      StringFlag ''traddr'' True LocalIP,
      StringFlag ''trsvcid'' True [],
      StringFlag ''nqn'' True []]
     ''Failed to run initiator start command'' start"

definition stop :: "'w action" where
  "stop env c =
     (let nvmeTCPInfo = info_of c;
          node = node_of env ProcDirectory
      in with_initiator env (StringOf c ''name'') (GlobalString c ''host-proc'') (Some nvmeTCPInfo) (
         io_bind (busy_ignored (Stop node False True False True)) (\<lambda>_. io_return PNothing)))"

definition StopCmd :: "'w Command" where
  "StopCmd = leaf ''stop''
     [StringFlag ''name'' True [],
      StringFlag ''nqn'' True []]
     ''Failed to run initiator stop command'' stop"

definition flush :: "'w action" where
  "flush env c =
     io_bind (NewExecutor env (GlobalString c ''host-proc'')) (\<lambda>ex.
     let devicePath = First c in
     if devicePath = [] then io_fail (PlainErr ''device path is required'') else
     io_bind (on_host (NvmeTarget.Flush ex devicePath (StringOf c ''namespace-id''))) (\<lambda>resp.
     PrintObject (PString resp)))"

definition FlushCmd :: "'w Command" where
  "FlushCmd = leaf ''flush''
     [StringFlag ''namespace-id'' False []]
     ''Failed to run nvme-cli flush command'' flush"

definition Cmd :: "'w Command" where
  "Cmd = Command ''nvmecli'' []
     [StringFlag ''host-proc'' False ProcDirectory]
     [DiscoverCmd,
      ConnectCmd,
      DisconnectCmd,
      GetCmd,
      StartCmd,
      StopCmd,
      FlushCmd]
     None"

end
