(* ===== verification/CmdSpdksetup.thy ===== *)
theory CmdSpdksetup
  imports Cli
begin

text \<open>
  The commands that bind devices to drivers, \<open>app/cmd/spdksetup\<close>.
\<close>

section \<open>Drivers\<close>

definition bind :: "'w action" where
  "bind env c =
     io_bind (NewExecutor env (GlobalString c ''host-proc'')) (\<lambda>ex.
     let deviceAddr = First c in
     io_bind (on_host (Bind ex deviceAddr (StringOf c ''device-driver''))) (\<lambda>_. io_return PNothing))"

definition BindCmd :: "'w Command" where
  "BindCmd = Command ''bind'' []
     [StringFlag ''device-driver'' True []] []
     (Some (Fatalf (\<lambda>c. ''Failed to bind device '' @ First c @ '' to driver '' @ StringOf c ''device-driver'') bind))"

definition unbind :: "'w action" where
  "unbind env c =
     io_bind (NewExecutor env (GlobalString c ''host-proc'')) (\<lambda>ex.
     let deviceAddr = First c in
     io_bind (on_host (Unbind ex deviceAddr)) (\<lambda>_. io_return PNothing))"

definition UnbindCmd :: "'w Command" where
  "UnbindCmd = Command ''unbind'' []
     [] []
     (Some (Fatalf (\<lambda>c. ''Failed to unbind device '' @ First c) unbind))"

definition diskDriverCmd :: "'w action" where
  "diskDriverCmd env c =
     io_bind (NewExecutor env (GlobalString c ''host-proc'')) (\<lambda>ex.
     let deviceAddr = First c in
     io_bind (on_host (GetDiskDriver ex deviceAddr)) (\<lambda>output. io_return (PText output)))"

definition DiskDriverCmd :: "'w Command" where
  "DiskDriverCmd = Command ''disk-driver'' []
     [] []
     (Some (Fatalf (\<lambda>c. ''Failed to get disk driver of device '' @ First c) diskDriverCmd))"

definition diskStatusCmd :: "'w action" where
  "diskStatusCmd env c =
     io_bind (NewExecutor env (GlobalString c ''host-proc'')) (\<lambda>ex.
     let deviceAddr = First c in
     io_bind (on_host (GetDiskStatus ex deviceAddr)) (\<lambda>status. io_return (PDiskStatus status)))"

definition DiskStatusCmd :: "'w Command" where
  "DiskStatusCmd = Command ''disk-status'' []
     [] []
     (Some (Fatalf (\<lambda>c. ''Failed to get disk status of device '' @ First c) diskStatusCmd))"

definition Cmd :: "'w Command" where
  "Cmd = Command ''spdk-setup'' ''setup''
     [StringFlag ''host-proc'' False ProcDirectory]
     [BindCmd,
      UnbindCmd,
      DiskDriverCmd,
      DiskStatusCmd]
     None"

end
