(* ===== verification/CmdSpdktgt.thy ===== *)
theory CmdSpdktgt
  imports Cli
begin

text \<open>
  The command that starts \<open>spdk_tgt\<close>, \<open>app/cmd/spdktgt\<close>. Its timeout is counted in seconds.
\<close>

text \<open>\<open>StartTarget\<close> first probes for a running target.\<close>

definition target_running :: "'w cli_env \<Rightarrow> ('w, bool) iop" where
  "target_running env =
     io_case (io_bind (NewClient env) (\<lambda>spdkCli. on_spdk (BdevGetBdevs spdkCli [] 0)))
       (\<lambda>_. io_return False) (\<lambda>_. io_return True)"

definition spdkTGT :: "'w action" where
  "spdkTGT env c =
     io_bind (NewExecutor env ProcDirectory) (\<lambda>ne.
     io_bind (target_running env) (\<lambda>running.
     io_bind (on_host (StartTarget ne running (StringOf c ''spdk-dir'') (StringSliceOf c ''opts'') (IntOf c ''timeout''))) (\<lambda>_.
     io_return PNothing)))"

definition Cmd :: "'w cli_env \<Rightarrow> 'w Command" where
  "Cmd env = Command ''spdk-tgt'' ''tgt''
     [StringFlag ''spdk-dir'' True (SPDK_DIR env),
      StringSliceFlag ''opts'' False,
      Int64Flag ''timeout'' False 3600]
     []
     (Some (Fatalf (\<lambda>_. ''Failed to run spdk-tgt start command'') spdkTGT))"

end
