(* ===== verification/CmdAdvanced.thy ===== *)
theory CmdAdvanced
  imports Cli
begin

text \<open>
  The composite commands, \<open>app/cmd/advanced\<close>: devices, and exposing bdevs.
\<close>

section \<open>Devices\<close>

definition deviceAdd :: "'w action" where
  "deviceAdd env c =
     (let devicePath = First c in
     io_bind (NewClient env) (\<lambda>spdkCli.
     io_bind (on_spdk (AddDevice spdkCli devicePath [] (ucast (UintOf c ''cluster-size'')))) (\<lambda>(bdevAioName, lvsName, lvsUUID).
     PrintObject (PStringMap [(''bdev_aio_name'', bdevAioName), (''lvs_name'', lvsName), (''lvs_uuid'', lvsUUID)]))))"

definition DeviceAddCmd :: "'w Command" where
  "DeviceAddCmd = leaf ''add''
     [UintFlag ''cluster-size'' False MiB]
     ''Failed to run add device command'' deviceAdd"

definition deviceDelete :: "'w action" where
  "deviceDelete env c =
     (let devicePath = First c; fileName = path_base devicePath in
     io_bind (NewClient env) (\<lambda>spdkCli.
     io_bind (on_spdk (DeleteDevice spdkCli fileName fileName)) (\<lambda>_.
     PrintObject (PBool True))))"

definition DeviceDeleteCmd :: "'w Command" where
  "DeviceDeleteCmd = leaf ''delete''
     []
     ''Failed to run delete device command'' deviceDelete"

definition DeviceCmd :: "'w Command" where
  "DeviceCmd = Command ''device'' []
     []
     [DeviceAddCmd,
      DeviceDeleteCmd]
     None"

section \<open>Exposing\<close>

definition startExpose :: "'w action" where
  "startExpose env c =
     io_bind (NewClient env) (\<lambda>spdkCli.
     io_bind (on_spdk (StartExposeBdev spdkCli (StringOf c ''nqn'') (StringOf c ''bdev-name'') (StringOf c ''nguid'')
       (StringOf c ''ip'') (StringOf c ''port'') [])) (\<lambda>_.
     PrintObject (PBool True)))"

definition StartExposeCmd :: "'w Command" where
  "StartExposeCmd = leaf ''start''
     [StringFlag ''nqn'' True [],
      StringFlag ''bdev-name'' True [],
      StringFlag ''nguid'' False [],
      StringFlag ''ip'' True [],
      StringFlag ''port'' True []]
     ''Failed to run start expose command'' startExpose"

definition stopExpose :: "'w action" where
  "stopExpose env c =
     io_bind (NewClient env) (\<lambda>spdkCli.
     io_bind (on_spdk (StopExposeBdev spdkCli (StringOf c ''nqn''))) (\<lambda>_.
     PrintObject (PBool True)))"

definition StopExposeCmd :: "'w Command" where
  "StopExposeCmd = leaf ''stop''
     [StringFlag ''nqn'' True []]
     ''Failed to run stop expose command'' stopExpose"

definition ExposeCmd :: "'w Command" where
  "ExposeCmd = Command ''expose'' []
     []
     [StartExposeCmd,
      StopExposeCmd]
     None"

end
