(* ===== verification/CliApp.thy ===== *)
theory CliApp
  imports CmdBdev CmdLvol CmdEc CmdNvmf CmdDmsetup CmdNvmecli CmdSpdksetup CmdSpdktgt CmdAdvanced
begin

text \<open>
  The tool as a whole, \<open>main.go\<close>: its commands, and a run on the arguments after the program's name. The log level
  that \<open>debug\<close> sets is left out.
\<close>

definition app_commands :: "'w cli_env \<Rightarrow> 'w Command list" where
  "app_commands env =
     [BdevCmd, BdevAioCmd, BdevVirtioCmd, BdevLvstoreCmd, BdevLvolCmd, BdevNvmeCmd, BdevRaidCmd, BdevEcCmd, NvmfCmd,
      LogCmd, UblkCmd, SpdkKillInstanceCmd, DeviceCmd, ExposeCmd, CmdNvmecli.Cmd, CmdDmsetup.Cmd, CmdSpdktgt.Cmd env,
      CmdSpdksetup.Cmd]"

definition app :: "'w cli_env \<Rightarrow> 'w Command" where
  "app env = Command ''go-spdk-helper'' [] [BoolFlag ''debug''] (app_commands env) None"

definition main :: "'w cli_env \<Rightarrow> string list \<Rightarrow> ('w, printed) iop" where
  "main env args =
     io_case (run_command env [] (app env) args)
       (\<lambda>err. io_fail (GoExit (''Failed to execute command: '' @ error_text err))) io_return"

end
