(* ===== verification/CliFacts.thy ===== *)
theory CliFacts
  imports CliFlags
begin

text \<open>
  What parsing a command line establishes: the numbers of a flag set read back, every declared flag has a value of its
  type, a required flag was given, and flags may stand anywhere among the arguments.
\<close>

section \<open>Numbers read back\<close>

lemma digits_value_ge: "digits_value acc ds = Some n \<Longrightarrow> acc \<le> n"
proof (induction ds arbitrary: acc)
  case (Cons c cs)
  then have "10 * acc + (of_char c - 48) \<le> n" by (auto split: if_splits)
  then show ?case by linarith
qed simp

lemma digit_value_digit: "is_digit c \<Longrightarrow> digit_value c = Some (of_char c - 48)"
  by (simp add: digit_value_def)

lemma digit_small: "is_digit c \<Longrightarrow> of_char c - 48 < (10 :: nat)"
  by (auto simp: is_digit_def)

lemma digit_no_underscore: "is_digit c \<Longrightarrow> c \<noteq> CHR ''_''"
  by (auto simp: is_digit_def)

lemma digits_in_base_10:
  "digits_value acc ds = Some n \<Longrightarrow> n < 2 ^ 64 \<Longrightarrow> digits_in_base 10 acc ds = Some n"
proof (induction ds arbitrary: acc)
  case (Cons c cs)
  then have c: "is_digit c" and v: "digits_value (10 * acc + (of_char c - 48)) cs = Some n"
    by (auto split: if_splits)
  have "10 * acc + (of_char c - 48) < 2 ^ 64" using digits_value_ge [OF v] Cons.prems(2) by linarith
  then show ?case
    using c Cons.IH [OF v Cons.prems(2)] digit_small [OF c] by (simp add: digit_value_digit digit_no_underscore)
qed simp

lemma ParseUint_itoa_nat:
  assumes "n < 2 ^ 64"
  shows "ParseUint (itoa_nat n) = Some (of_nat n)"
proof (cases "n = 0")
  case True
  moreover have "itoa_nat 0 = ''0''" by (rule itoa_nat_zero)
  moreover have "ParseUint ''0'' = Some 0" by code_simp
  ultimately show ?thesis by simp
next
  case False
  then have "base_prefix (itoa_nat n) = (10, itoa_nat n)"
    using itoa_nat_hd_nonzero [of n] by (simp add: base_prefix_def)
  moreover have "digits_in_base 10 0 (itoa_nat n) = Some n"
    by (rule digits_in_base_10 [OF digits_value_itoa_nat assms])
  moreover have "CHR ''_'' \<notin> set (itoa_nat n)"
    using itoa_nat_digits [of n] digit_no_underscore by blast
  ultimately show ?thesis by (simp add: ParseUint_def)
qed

lemma ParseUint_itoa: "ParseUint (itoa (uint w)) = Some w"
proof -
  have "nat (uint w) < 2 ^ 64" using unat_bound_u64 [of w] by simp
  then have "ParseUint (itoa_nat (nat (uint w))) = Some (of_nat (nat (uint w)))" by (rule ParseUint_itoa_nat)
  then show ?thesis by (simp add: itoa_def)
qed

lemma ParseInt_itoa:
  assumes "- (2 ^ 63) \<le> i" and "i < 2 ^ 63"
  shows "ParseInt (itoa i) = Some i"
proof -
  have hd_digit: "hd (itoa_nat k) \<noteq> CHR ''-'' \<and> hd (itoa_nat k) \<noteq> CHR ''+''" for k
    using itoa_nat_hd_digit [of k] by (auto simp: is_digit_def)
  have u: "uint (of_nat (nat j) :: u64) = j" if "0 \<le> j" "j < 2 ^ 64" for j
    using that by (simp add: uint_word_of_int)
  show ?thesis
  proof (cases "i < 0")
    case True
    then have "ParseUint (itoa_nat (nat (- i))) = Some (of_nat (nat (- i)))"
      using assms by (intro ParseUint_itoa_nat) simp
    then show ?thesis using True assms u [of "- i"] by (simp add: ParseInt_def itoa_def)
  next
    case False
    then have "ParseUint (itoa_nat (nat i)) = Some (of_nat (nat i))"
      using assms by (intro ParseUint_itoa_nat) simp
    then show ?thesis using False assms u [of i] hd_digit [of "nat i"] by (simp add: ParseInt_def itoa_def)
  qed
qed

section \<open>Values have the type of their flag\<close>

abbreviation int64 :: "int \<Rightarrow> bool" where
  "int64 i \<equiv> - (2 ^ 63) \<le> i \<and> i < 2 ^ 63"

fun fits :: "flag \<Rightarrow> flag_value \<Rightarrow> bool" where
  "fits (StringFlag n r d) (VString v) = True"
| "fits (BoolFlag n) (VBool b) = True"
| "fits (UintFlag n r d) (VUint v) = True"
| "fits (Uint64Flag n r d) (VUint v) = True"
| "fits (IntFlag n r d) (VInt i) = int64 i"
| "fits (Int64Flag n r d) (VInt i) = int64 i"
| "fits (StringSliceFlag n r) (VStrings vs) = True"
| "fits (Int64SliceFlag n r) (VInts is) = list_all int64 is"
| "fits f v = False"

lemma ParseInt_int64:
  assumes "ParseInt s = Some i"
  shows "int64 i"
proof -
  have u: "0 \<le> uint w" for w :: u64 by simp
  show ?thesis
    using assms by (auto simp: ParseInt_def Let_def split: if_splits option.splits)
      (use u in \<open>smt (verit)\<close>)+
qed

lemma atoi_int64:
  assumes "atoi s = Some i"
  shows "int64 i"
  using assms by (auto simp: atoi_def Let_def split: if_splits option.splits prod.splits list.splits)

lemma set_text_fits:
  assumes "fits f v" and "set_text v t = Some v'"
  shows "fits f v'"
  using assms by (cases f; cases v) (auto dest!: ParseInt_int64 atoi_int64)

section \<open>Declared names\<close>

lemma declare_names_Inr:
  assumes "declare_names ns fs = Inr fs'"
  shows "formal fs' = formal fs ++ map_of ns \<and> distinct (map fst ns) \<and> (\<forall>n \<in> fst ` set ns. formal fs n = None) \<and>
    (\<forall>n \<in> fst ` set ns. \<not> has_prefix ''-'' n \<and> CHR ''='' \<notin> set n) \<and> actual fs' = actual fs \<and> Args fs' = Args fs"
  using assms
proof (induction ns arbitrary: fs)
  case (Cons p ns)
  obtain n v where p: "p = (n, v)" by (cases p)
  from Cons.prems p have ok: "\<not> has_prefix ''-'' n" "CHR ''='' \<notin> set n" "formal fs n = None"
    and rest: "declare_names ns (fs\<lparr> formal := (formal fs)(n \<mapsto> v) \<rparr>) = Inr fs'"
    by (auto simp: declare_name_def split: if_splits)
  note IH = Cons.IH [OF rest]
  then have "n \<notin> fst ` set ns" by fastforce
  then have "(formal fs)(n \<mapsto> v) ++ map_of ns = formal fs ++ map_of ((n, v) # ns)"
    by (simp add: map_add_upd_left dom_map_of_conv_image_fst)
  then have "formal fs' = formal fs ++ map_of (p # ns)" using IH p by (metis flag_set.select_convs(1) flag_set.surjective flag_set.update_convs(1))
  then show ?case using IH ok p \<open>n \<notin> fst ` set ns\<close> by (auto simp del: map_of.simps split: if_splits)
qed simp

lemma declared_names: "fst ` set (declarations fl) = (\<Union>f \<in> set fl. set (flag_names f))"
  by (force simp: declarations_def)

lemma flagSet_Inr:
  assumes "flagSet fl = Inr fs"
  shows "formal fs = map_of (declarations fl)" and "distinct (map fst (declarations fl))"
    and "actual fs = {}" and "\<And>f n. f \<in> set fl \<Longrightarrow> n \<in> set (flag_names f) \<Longrightarrow> \<not> has_prefix ''-'' n \<and> CHR ''='' \<notin> set n"
  using declare_names_Inr [OF assms [unfolded flagSet_def]]
  by (auto simp: empty_set_def declared_names)

lemma map_fst_declarations: "map fst (declarations fl) = concat (map flag_names fl)"
  by (simp add: declarations_def map_concat comp_def)

text \<open>A name belongs to one flag.\<close>

lemma flag_of_name:
  assumes "distinct (concat (map flag_names fl))" and "f \<in> set fl" and "g \<in> set fl"
    and "n \<in> set (flag_names f)" and "n \<in> set (flag_names g)"
  shows "f = g"
  using assms by (induction fl) fastforce+

lemma declared_value:
  assumes "flagSet fl = Inr fs" and f: "f \<in> set fl" "n \<in> set (flag_names f)"
  shows "formal fs n = Some (flag_default f)"
proof -
  have "(n, flag_default f) \<in> set (declarations fl)" using f by (force simp: declarations_def)
  then show ?thesis using flagSet_Inr(1,2) [OF assms(1)] by simp
qed

lemma declared_only:
  assumes "flagSet fl = Inr fs" and "formal fs n = Some v"
  shows "\<exists>f \<in> set fl. n \<in> set (flag_names f)"
proof -
  have "n \<in> fst ` set (declarations fl)"
    using assms(2) flagSet_Inr(1) [OF assms(1)] by (metis domI dom_map_of_conv_image_fst)
  then show ?thesis by (simp add: declared_names)
qed

lemma shared_names_eq:
  assumes "distinct (concat (map flag_names fl))" and "f \<in> set fl" and "n \<in> set (flag_names f)"
  shows "set (shared_names fl n v) = (if is_slice v then set (flag_names f) else {n})"
proof -
  have "(\<Union>g \<in> {g \<in> set fl. n \<in> set (flag_names g)}. set (flag_names g)) = set (flag_names f)"
    using flag_of_name [OF assms(1)] assms(2,3) by blast
  then show ?thesis by (simp add: shared_names_def)
qed

section \<open>Invariants of parsing\<close>

text \<open>Parsing changes a flag set only by storing, under a name an argument gives, a text the old value accepts.\<close>

definition arg_name :: "string \<Rightarrow> string" where
  "arg_name s = fst (cut_value (drop (if s ! 1 = CHR ''-'' then 2 else 1) s))"

definition names_flag :: "string list \<Rightarrow> string \<Rightarrow> bool" where
  "names_flag args n = (\<exists>s \<in> set args. 2 \<le> length s \<and> hd s = CHR ''-'' \<and> arg_name s = n)"

text \<open>
  The interface of an invariant of parsing: it is kept when the positional arguments are set, and when a text that the
  old value accepts is stored under a name that was given.
\<close>

locale stays =
  fixes fl :: "flag list" and given :: "string \<Rightarrow> bool" and P :: "flag_set \<Rightarrow> bool"
  assumes with_args: "P fs \<Longrightarrow> P (fs\<lparr> Args := as \<rparr>)"
    and stored: "P fs \<Longrightarrow> given n \<Longrightarrow> formal fs n = Some old \<Longrightarrow> set_text old t = Some v \<Longrightarrow> P (store fl n v fs)"

lemma names_flag_Cons:
  "names_flag args n \<Longrightarrow> names_flag (s # args) n"
  by (auto simp: names_flag_def)

context stays
begin

lemma parse_one:
  assumes "P fs" and "cut_value (drop (if s ! 1 = CHR ''-'' then 2 else 1) s) = (n, val)"
    and "\<And>m. names_flag (s # rest) m \<Longrightarrow> given m" and "length rest' \<le> length rest"
    and "set rest' \<subseteq> set rest"
    and "2 \<le> length s" "hd s = CHR ''-''" "formal fs n = Some old" "set_text old t = Some v"
    and IH: "\<And>fs'. P fs' \<Longrightarrow> (\<And>m. names_flag rest' m \<Longrightarrow> given m) \<Longrightarrow> P (snd (parse_flags fl fs' rest'))"
  shows "P (snd (parse_flags fl (store fl n v fs) rest'))"
proof (rule IH)
  have "names_flag (s # rest) n" using assms(2,6,7) by (auto simp: names_flag_def arg_name_def)
  then show "P (store fl n v fs)" using stored [OF assms(1)] assms(3,8,9) by blast
  show "given m" if "names_flag rest' m" for m
    using assms(3) that assms(5) by (fastforce simp: names_flag_def)
qed

lemma parsing: "P fs \<Longrightarrow> (\<And>n. names_flag args n \<Longrightarrow> given n) \<Longrightarrow> P (snd (parse_flags fl fs args))"
proof (induction "length args" arbitrary: fs args rule: less_induct)
  case less
  note as = with_args [OF less.prems(1)]
  show ?case
  proof (cases args)
    case Nil
    then show ?thesis using as by simp
  next
    case (Cons s rest)
    obtain n val where nv: "cut_value (drop (if s ! 1 = CHR ''-'' then 2 else 1) s) = (n, val)"
      by (cases "cut_value (drop (if s ! 1 = CHR ''-'' then 2 else 1) s)")
    have step: "P (snd (parse_flags fl (store fl n v fs) rest'))"
      if "2 \<le> length s" "hd s = CHR ''-''" "formal fs n = Some old" "set_text old t = Some v"
        and "rest' = rest \<or> rest = t # rest'" for old t v rest'
      using that(5)
      by (intro parse_one [OF less.prems(1) nv less.prems(2) [unfolded Cons] _ _ that(1-4)] less.hyps)
        (auto simp: Cons)
    show ?thesis
    proof (cases "length s < 2 \<or> hd s \<noteq> CHR ''-'' \<or> formal fs n = None")
      case True
      then show ?thesis using as less.prems(1) nv by (auto simp: Cons Let_def)
    next
      case False
      then obtain old where s: "2 \<le> length s" "hd s = CHR ''-''" and old: "formal fs n = Some old" by auto
      show ?thesis
        using s old nv as less.prems(1) step [OF s old]
        by (cases old) (auto simp: Cons Let_def split: option.split list.split simp del: set_text.simps)
    qed
  qed
qed

lemma copying: "P fs \<Longrightarrow> given n \<Longrightarrow> P (copyFlag fl n v fs)"
  using stored by (auto simp: copyFlag_def split: flag_value.split option.split)

lemma copies:
  "P fs \<Longrightarrow> \<forall>n \<in> set ns. given n \<Longrightarrow> P (foldl (\<lambda>fs n. if n \<in> visited then fs else copyFlag fl n (g fs) fs) fs ns)"
  by (induction ns arbitrary: fs) (simp_all add: copying)

lemma normalizing:
  assumes "P fs"
    and "\<And>f n m. f \<in> set rest \<Longrightarrow> n \<in> set (flag_names f) \<Longrightarrow> m \<in> set (flag_names f) \<Longrightarrow> m \<in> visited \<Longrightarrow> given n"
  shows "P (snd (normalize fl visited rest fs))"
  using assms
proof (induction rest arbitrary: fs)
  case (Cons f rest)
  have IH: "P (snd (normalize fl visited rest fs'))" if "P fs'" for fs'
    by (rule Cons.IH [OF that]) (rule Cons.prems(2), simp_all)
  note P = Cons.prems(1) and al = Cons.prems(2)
  show ?case
  proof (cases "filter (\<lambda>n. n \<in> visited) (flag_names f)")
    case Nil
    then show ?thesis using IH [OF P] by simp
  next
    case (Cons ff others)
    then have "ff \<in> set (filter (\<lambda>n. n \<in> visited) (flag_names f))" by simp
    then have "ff \<in> set (flag_names f)" "ff \<in> visited" by simp_all
    then have "\<forall>n \<in> set (flag_names f). given n" using al by (meson list.set_intros(1))
    then have fold: "P (foldl (\<lambda>fs n. if n \<in> visited then fs else copyFlag fl n (the (formal fs ff)) fs) fs (flag_names f))"
      by (rule copies [where g = "\<lambda>fs. the (formal fs ff)", OF P])
    then show ?thesis using Cons IH [OF fold] P by (cases others) simp_all
  qed
qed simp

lemma whole:
  assumes "parseFlags fl args = Inr fs" and "flagSet fl = Inr fs0" and "P fs0"
    and "\<And>n. names_flag (reorderArgs fl args) n \<Longrightarrow> given n"
    and "\<And>f n m. f \<in> set fl \<Longrightarrow> n \<in> set (flag_names f) \<Longrightarrow> m \<in> set (flag_names f) \<Longrightarrow>
         m \<in> actual (snd (parse_flags fl fs0 (reorderArgs fl args))) \<Longrightarrow> given n"
  shows "P fs"
proof -
  obtain fs1 where 1: "parse_flags fl fs0 (reorderArgs fl args) = (None, fs1)" and 2: "normalizeFlags fl fs1 = (None, fs)"
    using assms(1,2) by (auto simp: parseFlags_def split: prod.splits option.splits)
  have "P fs1" using parsing [where args = "reorderArgs fl args", OF assms(3,4)] 1 by simp
  then have "P (snd (normalize fl (actual fs1) fl fs1))"
    by (rule normalizing) (use assms(5) 1 in auto)
  then show "P fs" using 2 by (simp add: normalizeFlags_def)
qed

end

text \<open>Two invariants: names are set only by an argument, and names that are set stay set.\<close>

interpretation actual: stays fl given "\<lambda>fs. \<forall>n \<in> actual fs. given n" for fl given
  by unfold_locales (auto simp: store_def)

interpretation kept: stays fl "\<lambda>_. True" "\<lambda>fs. A \<subseteq> actual fs" for fl A
  by unfold_locales (auto simp: store_def)

lemma parseFlags_declared: "parseFlags fl args = Inr fs \<Longrightarrow> \<exists>fs0. flagSet fl = Inr fs0"
  by (auto simp: parseFlags_def split: sum.splits)

text \<open>Reordering neither adds nor drops arguments, apart from the separator.\<close>

lemma set_reorder: "set (reorder fl b xs ys args) \<subseteq> set xs \<union> set ys \<union> set args \<union> {''--''}"
  by (induction fl b xs ys args rule: reorder.induct) auto

lemma names_flag_reorderArgs:
  assumes "names_flag (reorderArgs fl args) n" and "\<not> has_prefix ''-'' n" and "n \<noteq> []"
  shows "names_flag args n"
proof -
  obtain s where s: "s \<in> set (reorderArgs fl args)" "2 \<le> length s" "hd s = CHR ''-''" "arg_name s = n"
    using assms(1) by (auto simp: names_flag_def)
  have "arg_name ''--'' = []" by code_simp
  then have "s \<noteq> ''--''" using s(4) assms(3) by auto
  then have "s \<in> set args" using s(1) set_reorder [of fl False "[]" "[]" args] by (auto simp: reorderArgs_def)
  then show ?thesis using s by (auto simp: names_flag_def)
qed

section \<open>Types\<close>

definition typed :: "flag list \<Rightarrow> flag_set \<Rightarrow> bool" where
  "typed fl fs =
     ((\<forall>f \<in> set fl. \<forall>n \<in> set (flag_names f). \<exists>v. formal fs n = Some v \<and> fits f v) \<and>
      (\<forall>n v. formal fs n = Some v \<longrightarrow> (\<exists>f \<in> set fl. n \<in> set (flag_names f))))"

lemma typedD: "typed fl fs \<Longrightarrow> f \<in> set fl \<Longrightarrow> n \<in> set (flag_names f) \<Longrightarrow> \<exists>v. formal fs n = Some v \<and> fits f v"
  by (simp add: typed_def)

lemma stays_typed:
  assumes "distinct (concat (map flag_names fl))"
  shows "stays fl (\<lambda>_. True) (typed fl)"
proof
  show "typed fl (fs\<lparr> Args := as \<rparr>)" if "typed fl fs" for fs as
    using that by (simp add: typed_def)
  fix fs n old t v
  assume ty: "typed fl fs" and old: "formal fs n = Some old" and v: "set_text old t = Some v"
  obtain f where f: "f \<in> set fl" "n \<in> set (flag_names f)" using ty old by (auto simp: typed_def)
  then have "fits f old" using ty old by (fastforce simp: typed_def)
  then have fv: "fits f v" using v by (rule set_text_fits)
  note sh = shared_names_eq [OF assms f, of v]
  have "\<exists>w. formal (store fl n v fs) m = Some w \<and> fits g w" if g: "g \<in> set fl" "m \<in> set (flag_names g)" for g m
  proof (cases "m \<in> set (shared_names fl n v)")
    case True
    then have "m \<in> set (flag_names f)" using sh f by (auto split: if_splits)
    then have "g = f" using flag_of_name [OF assms g(1) f(1) g(2)] by blast
    then show ?thesis using True fv by (simp add: store_def)
  next
    case False
    then show ?thesis using ty g by (fastforce simp: store_def typed_def)
  qed
  moreover have "\<exists>g \<in> set fl. m \<in> set (flag_names g)" if "formal (store fl n v fs) m = Some w" for m w
    using that ty sh f by (fastforce simp: store_def typed_def split: if_splits)
  ultimately show "typed fl (store fl n v fs)" by (simp add: typed_def)
qed

lemma flagSet_typed:
  assumes "flagSet fl = Inr fs" and "list_all (\<lambda>f. fits f (flag_default f)) fl"
  shows "typed fl fs"
  using declared_value [OF assms(1)] declared_only [OF assms(1)] assms(2) by (auto simp: typed_def list_all_iff)

lemma parseFlags_typed:
  assumes "parseFlags fl args = Inr fs" and "list_all (\<lambda>f. fits f (flag_default f)) fl"
  shows "typed fl fs"
proof -
  obtain fs0 where 0: "flagSet fl = Inr fs0" using parseFlags_declared [OF assms(1)] ..
  have "distinct (concat (map flag_names fl))"
    using flagSet_Inr(2) [OF 0] by (simp add: map_fst_declarations)
  from stays.whole [OF stays_typed [OF this] assms(1) 0 flagSet_typed [OF 0 assms(2)]] show ?thesis by simp
qed

text \<open>What an action reads of a flag, by the accessor of its type.\<close>

fun reads_as :: "flag \<Rightarrow> cli_context \<Rightarrow> string \<Rightarrow> flag_value" where
  "reads_as (StringFlag n r v) c m = VString (StringOf c m)"
| "reads_as (BoolFlag n) c m = VBool (BoolOf c m)"
| "reads_as (UintFlag n r v) c m = VUint (UintOf c m)"
| "reads_as (Uint64Flag n r v) c m = VUint (UintOf c m)"
| "reads_as (IntFlag n r i) c m = VInt (IntOf c m)"
| "reads_as (Int64Flag n r i) c m = VInt (IntOf c m)"
| "reads_as (StringSliceFlag n r) c m = VStrings (StringSliceOf c m)"
| "reads_as (Int64SliceFlag n r) c m = VInts (Int64SliceOf c m)"

lemma reads_stored:
  assumes "formal (parsed c) n = Some v" and "fits f v"
  shows "reads_as f c n = (case v of VStrings vs \<Rightarrow> VStrings (if vs = [[]] then vs else remove1 [] vs) | _ \<Rightarrow> v)"
  using assms
  by (cases f; cases v)
    (simp_all add: StringOf_def BoolOf_def UintOf_def IntOf_def StringSliceOf_def Int64SliceOf_def text_in_def
      ParseUint_itoa ParseInt_itoa ParseBool_def)

text \<open>What the accessor of its type makes of a stored value: a string slice loses one empty element.\<close>

definition read_value :: "flag_value \<Rightarrow> flag_value" where
  "read_value v = (case v of VStrings vs \<Rightarrow> VStrings (if vs = [[]] then vs else remove1 [] vs) | _ \<Rightarrow> v)"

lemma typed_reads:
  assumes "typed fl (parsed c)" and "f \<in> set fl" and "n \<in> set (flag_names f)"
  shows "\<exists>v. looked_up c n = Some v \<and> fits f v \<and> reads_as f c n = read_value v"
  using typedD [OF assms] reads_stored by (force simp: read_value_def)

section \<open>Required flags\<close>

definition from_args :: "string list \<Rightarrow> flag list \<Rightarrow> string \<Rightarrow> bool" where
  "from_args args fl n =
     (names_flag args n \<or> (\<exists>g \<in> set fl. n \<in> set (flag_names g) \<and> (\<exists>m \<in> set (flag_names g). names_flag args m)))"

lemma actual_from_args:
  assumes "parseFlags fl args = Inr fs" and "n \<in> actual fs"
  shows "from_args (reorderArgs fl args) fl n"
proof -
  let ?as = "reorderArgs fl args"
  obtain fs0 where 0: "flagSet fl = Inr fs0" using parseFlags_declared [OF assms(1)] ..
  have e: "actual fs0 = {}" by (rule flagSet_Inr(3) [OF 0])
  have "\<forall>m \<in> actual (snd (parse_flags fl fs0 ?as)). names_flag ?as m"
    by (rule actual.parsing) (simp_all add: e)
  then have "\<forall>n \<in> actual fs. from_args ?as fl n"
    by (intro actual.whole [OF assms(1) 0]) (auto simp: e from_args_def)
  with assms(2) show ?thesis by blast
qed

lemma required_missing:
  assumes p: "parseFlags fl args = Inr fs" and f: "f \<in> set fl" "IsRequired f"
    and long: "filter (\<lambda>n. 1 < length n) (flag_names f) \<noteq> []"
    and absent: "\<And>n. n \<in> set (flag_names f) \<Longrightarrow> n \<noteq> [] \<and> \<not> names_flag args n"
  shows "\<exists>e. checkRequiredFlags fl fs = Some (PlainErr e)"
proof -
  obtain fs0 where 0: "flagSet fl = Inr fs0" using parseFlags_declared [OF p] ..
  have d: "distinct (concat (map flag_names fl))"
    using flagSet_Inr(2) [OF 0] by (simp add: map_fst_declarations)
  have "\<not> names_flag (reorderArgs fl args) n" if "n \<in> set (flag_names f)" for n
    using names_flag_reorderArgs [of fl args n] absent [OF that] flagSet_Inr(4) [OF 0 f(1) that] by blast
  then have no: "\<not> from_args (reorderArgs fl args) fl n" if "n \<in> set (flag_names f)" for n
    using flag_of_name [OF d] f(1) that unfolding from_args_def by blast
  have "\<not> IsSet fl fs n" if n: "n \<in> set (flag_names f)" for n
  proof
    assume "IsSet fl fs n"
    then consider "n \<in> actual fs" | g m where "g \<in> set fl" "n \<in> set (flag_names g)" "m \<in> set (flag_names g)" "m \<in> actual fs"
      by (auto simp: IsSet_def list_ex_iff)
    then show False
    proof cases
      case 1
      then show ?thesis using actual_from_args [OF p] no [OF n] by blast
    next
      case 2
      then have "g = f" using flag_of_name [OF d 2(1) f(1) 2(2) n] by simp
      then show ?thesis using actual_from_args [OF p 2(4)] no 2(3) by blast
    qed
  qed
  then have "missing_flag fl fs f \<noteq> []"
    using f(2) long by (simp add: missing_flag_def Let_def list_ex_iff)
  then have "concat (map (missing_flag fl fs) fl) \<noteq> []" using f(1) by auto
  then show ?thesis by (auto simp: checkRequiredFlags_def split: list.split)
qed

section \<open>Refused lines\<close>

text \<open>Once the flags can be declared, a refusal is an error, not a panic.\<close>

fun plain_error :: "go_error option \<Rightarrow> bool" where
  "plain_error None = True"
| "plain_error (Some e) = (\<exists>m. e = PlainErr m)"

lemma parse_flags_error: "plain_error (fst (parse_flags fl fs args))"
proof (induction args arbitrary: fs rule: length_induct)
  case (1 args)
  show ?case
  proof (cases args)
    case (Cons s rest)
    obtain n val where nv: "cut_value (drop (if s ! 1 = CHR ''-'' then 2 else 1) s) = (n, val)"
      by (cases "cut_value (drop (if s ! 1 = CHR ''-'' then 2 else 1) s)")
    have next1: "plain_error (fst (parse_flags fl fs' rest))" for fs' using 1 Cons by simp
    have next2: "plain_error (fst (parse_flags fl fs' rest'))" if "rest = t # rest'" for fs' t rest'
      using 1 Cons that by simp
    show ?thesis
    proof (cases "length s < 2 \<or> hd s \<noteq> CHR ''-'' \<or> formal fs n = None")
      case True
      then show ?thesis using nv by (auto simp: Cons Let_def)
    next
      case False
      then obtain old where "2 \<le> length s" "hd s = CHR ''-''" and "formal fs n = Some old" by auto
      then show ?thesis
        using nv next1 next2
        by (cases old) (auto simp: Cons Let_def split: option.split list.split simp del: set_text.simps)
    qed
  qed simp
qed

lemma normalize_error: "plain_error (fst (normalize fl visited rest fs))"
  by (induction fl visited rest fs rule: normalize.induct) (auto split: list.split)

lemma parseFlags_error:
  assumes "flagSet fl = Inr fs0" and "parseFlags fl args = Inl e"
  shows "\<exists>m. e = PlainErr m"
proof -
  obtain err fs1 where p: "parse_flags fl fs0 (reorderArgs fl args) = (err, fs1)" by fastforce
  obtain nerr fs2 where n: "normalizeFlags fl fs1 = (nerr, fs2)" by fastforce
  have "plain_error err" using parse_flags_error [of fl fs0 "reorderArgs fl args"] p by simp
  moreover have "plain_error nerr" using normalize_error [of fl "actual fs1" fl fs1] n by (simp add: normalizeFlags_def)
  ultimately show ?thesis using assms p n by (auto simp: parseFlags_def split: option.splits)
qed

end
