(* ===== verification/CliLines.thy ===== *)
theory CliLines
  imports CliFacts
begin

text \<open>
  Well-formed command lines: flags given as \<open>--name=value\<close> and positional arguments, in any order, are read back.
\<close>

definition assign :: "string \<Rightarrow> string \<Rightarrow> string" where
  "assign n t = ''--'' @ n @ ''='' @ t"

definition well_named :: "string \<Rightarrow> bool" where
  "well_named n = (n \<noteq> [] \<and> \<not> has_prefix ''-'' n \<and> CHR ''='' \<notin> set n)"

lemma assign_shape:
  assumes "well_named n"
  shows "2 \<le> length (assign n t)" and "hd (assign n t) = CHR ''-''" and "assign n t ! 1 = CHR ''-''"
    and "assign n t \<noteq> ''--''" and "assign n t \<noteq> ''-''" and "drop 2 (assign n t) = n @ CHR ''='' # t"
    and "has_prefix ''-'' (assign n t)" and "has_prefix ''--'' (assign n t)" and "contains ''='' (assign n t)"
proof -
  have "contains ''='' ((''--'' @ n) @ ''='' @ t)" by (rule contains_middle)
  then show "contains ''='' (assign n t)" by (simp add: assign_def)
qed (use assms in \<open>simp_all add: assign_def well_named_def\<close>)

lemma cut_assigned: "well_named n \<Longrightarrow> cut_value (n @ CHR ''='' # t) = (n, Some t)"
  by (simp add: cut_value_def well_named_def index_of_append_notin)

lemma named_head:
  assumes "well_named n"
  shows "n @ xs \<noteq> []" and "hd (n @ xs) \<noteq> CHR ''-''" and "hd (n @ xs) \<noteq> CHR ''=''"
  using assms by (cases n; auto simp: well_named_def)+

lemma argIsFlag_assign:
  assumes "well_named n" and "f \<in> set fl" and "n \<in> set (flag_names f)"
  shows "argIsFlag fl (assign n t)"
proof -
  have "\<not> has_prefix ''-'' (n @ CHR ''='' # t)" using named_head(1,2) [OF assms(1)] by (cases n) auto
  moreover have "hd (split_on (CHR ''='') (n @ CHR ''='' # t)) = n"
    using assms(1) by (simp add: well_named_def split_on_append)
  ultimately show ?thesis
    using assms assign_shape [OF assms(1), of t] by (auto simp: argIsFlag_def Let_def list_ex_iff)
qed

section \<open>Reordering\<close>

definition plain :: "flag list \<Rightarrow> string \<Rightarrow> bool" where
  "plain fl arg =
     (\<not> has_prefix ''-'' arg \<or> (\<exists>n t. arg = assign n t \<and> well_named n \<and> (\<exists>f \<in> set fl. n \<in> set (flag_names f))))"

lemma reorder_plain:
  "list_all (plain fl) args \<Longrightarrow>
   reorder fl False xs ys args = xs @ filter (has_prefix ''-'') args @ ys @ filter (\<lambda>a. \<not> has_prefix ''-'' a) args"
proof (induction args arbitrary: xs ys)
  case (Cons a args)
  then have rest: "list_all (plain fl) args" by simp
  show ?case
  proof (cases "has_prefix ''-'' a")
    case False
    moreover have "\<not> argIsFlag fl a" using False by (simp add: argIsFlag_def)
    moreover have "a \<noteq> ''--''" using False by auto
    ultimately show ?thesis using Cons.IH [OF rest] by simp
  next
    case True
    then obtain n t f where a: "a = assign n t" "well_named n" "f \<in> set fl" "n \<in> set (flag_names f)"
      using Cons.prems by (auto simp: plain_def)
    then show ?thesis
      using True argIsFlag_assign [OF a(2-4)] assign_shape(4,9) [OF a(2)] Cons.IH [OF rest] by simp
  qed
qed simp

section \<open>Reading assignments\<close>

fun assigned :: "flag list \<Rightarrow> (string \<times> string) list \<Rightarrow> flag_set \<Rightarrow> flag_set option" where
  "assigned fl [] fs = Some fs"
| "assigned fl ((n, t) # kvs) fs =
     (case formal fs n of
        None \<Rightarrow> None
      | Some old \<Rightarrow> (case set_text old t of None \<Rightarrow> None | Some v \<Rightarrow> assigned fl kvs (store fl n v fs)))"

lemma parse_assignment:
  assumes n: "well_named n" and old: "formal fs n = Some old" and v: "set_text old t = Some v"
  shows "parse_flags fl fs (assign n t # rest) = parse_flags fl (store fl n v fs) rest"
proof -
  note sh = assign_shape [OF n, of t] named_head [OF n, of "CHR ''='' # t"] cut_assigned [OF n, of t]
  show ?thesis
    using sh old v by (cases old) (simp_all add: Let_def not_less del: set_text.simps)
qed

lemma parse_assignments:
  assumes "list_all (\<lambda>(n, t). well_named n) kvs" and "assigned fl kvs fs = Some fs'"
    and "list_all (\<lambda>p. \<not> has_prefix ''-'' p) ps"
  shows "parse_flags fl fs (map (\<lambda>(n, t). assign n t) kvs @ ps) = (None, fs'\<lparr> Args := ps \<rparr>)"
  using assms(1,2)
proof (induction kvs arbitrary: fs)
  case Nil
  then show ?case
  proof (cases ps)
    case (Cons p qs)
    then have "\<not> has_prefix ''-'' p" using assms(3) by simp
    then have "length p < 2 \<or> hd p \<noteq> CHR ''-''" by (cases p) auto
    then show ?thesis using Nil Cons by simp
  qed simp
next
  case (Cons kv kvs)
  obtain n t where kv: "kv = (n, t)" by (cases kv)
  from Cons.prems kv obtain old v where "formal fs n = Some old" "set_text old t = Some v"
    and rest: "assigned fl kvs (store fl n v fs) = Some fs'"
    by (auto split: option.splits)
  then show ?case using Cons kv by (simp add: parse_assignment del: parse_flags.simps)
qed

lemma set_text_slice: "set_text v t = Some v' \<Longrightarrow> is_slice v' = is_slice v"
  by (cases v) auto

lemma fits_slice: "fits f v \<Longrightarrow> is_slice v = is_slice (flag_default f)"
  by (cases f; cases v) auto

lemma store_scalar: "\<not> is_slice v \<Longrightarrow> formal (store fl n v fs) = (formal fs)(n \<mapsto> v)"
  by (auto simp: store_def shared_names_def fun_upd_def)

lemma assigned_scalars:
  assumes "distinct (map fst kvs)"
    and "\<forall>(n, t) \<in> set kvs. \<exists>old v. formal fs n = Some old \<and> \<not> is_slice old \<and> set_text old t = Some v"
  shows "\<exists>fs'. assigned fl kvs fs = Some fs' \<and> (\<forall>(n, t) \<in> set kvs. formal fs' n = Option.bind (formal fs n) (\<lambda>old. set_text old t)) \<and>
    actual fs' = actual fs \<union> fst ` set kvs \<and> (\<forall>m. m \<notin> fst ` set kvs \<longrightarrow> formal fs' m = formal fs m)"
  using assms
proof (induction kvs arbitrary: fs)
  case (Cons kv kvs)
  obtain n t where kv: "kv = (n, t)" by (cases kv)
  with Cons.prems(2) obtain old v where old: "formal fs n = Some old" "\<not> is_slice old" and v: "set_text old t = Some v"
    by auto
  then have sc: "formal (store fl n v fs) = (formal fs)(n \<mapsto> v)"
    by (simp add: store_scalar set_text_slice)
  have n: "n \<notin> fst ` set kvs" and d: "distinct (map fst kvs)" using Cons.prems(1) kv by auto
  have pre: "\<forall>(m, u) \<in> set kvs. \<exists>old w. formal (store fl n v fs) m = Some old \<and> \<not> is_slice old \<and> set_text old u = Some w"
    using Cons.prems(2) n sc by (force simp: sc)
  from Cons.IH [OF d pre] obtain fs' where fs': "assigned fl kvs (store fl n v fs) = Some fs'"
    and vals: "\<forall>(m, u) \<in> set kvs. formal fs' m = Option.bind (formal (store fl n v fs) m) (\<lambda>old. set_text old u)"
    and act: "actual fs' = actual (store fl n v fs) \<union> fst ` set kvs"
    and rest: "\<forall>m. m \<notin> fst ` set kvs \<longrightarrow> formal fs' m = formal (store fl n v fs) m"
    by blast
  have "\<forall>(m, u) \<in> set (kv # kvs). formal fs' m = Option.bind (formal fs m) (\<lambda>old. set_text old u)"
  proof (intro ballI, clarify)
    fix m u assume m: "(m, u) \<in> set (kv # kvs)"
    show "formal fs' m = Option.bind (formal fs m) (\<lambda>old. set_text old u)"
    proof (cases "(m, u) = kv")
      case True
      then show ?thesis using rest n old v sc kv by simp
    next
      case False
      then have mem: "(m, u) \<in> set kvs" using m by simp
      then have "m \<noteq> n" using n by force
      with vals mem sc show ?thesis by auto
    qed
  qed
  moreover have "actual fs' = actual fs \<union> fst ` set (kv # kvs)" using act kv by (auto simp: store_def)
  moreover have "\<forall>m. m \<notin> fst ` set (kv # kvs) \<longrightarrow> formal fs' m = formal fs m" using rest sc kv by simp
  ultimately show ?case using fs' old v kv by auto
qed simp

section \<open>Aliases\<close>

lemma copyFlag_scalar:
  assumes "distinct (concat (map flag_names fl))" and "typed fl fs" and "f \<in> set fl" and "n \<in> set (flag_names f)"
    and "\<not> is_slice (flag_default f)"
  shows "typed fl (copyFlag fl n v fs) \<and> (\<forall>m. m \<noteq> n \<longrightarrow> formal (copyFlag fl n v fs) m = formal fs m) \<and>
    Args (copyFlag fl n v fs) = Args fs"
proof -
  obtain old where old: "formal fs n = Some old" "fits f old" using typedD [OF assms(2,3,4)] by blast
  then have sc: "\<not> is_slice w" if "set_text old t = Some w" for w t
    using set_text_slice [OF that] fits_slice [OF old(2)] assms(5) by simp
  have store: "typed fl (store fl n w fs) \<and> (\<forall>m. m \<noteq> n \<longrightarrow> formal (store fl n w fs) m = formal fs m) \<and>
      Args (store fl n w fs) = Args fs" if "set_text old t = Some w" for w t
    using stays.stored [OF stays_typed [OF assms(1)] assms(2) TrueI old(1) that] store_scalar [OF sc [OF that]]
    by (simp add: store_def)
  have "copyFlag fl n v fs = fs \<or> (\<exists>t w. set_text old t = Some w \<and> copyFlag fl n v fs = store fl n w fs)"
    using old(1) by (cases v) (auto simp: copyFlag_def split: option.split)
  then show ?thesis
    using assms(2) store by auto
qed

lemma copies_scalar:
  assumes d: "distinct (concat (map flag_names fl))" and f: "f \<in> set fl" "\<not> is_slice (flag_default f)"
    and "typed fl fs" and "set ns \<subseteq> set (flag_names f)"
  shows "typed fl (foldl (\<lambda>fs n. if n \<in> visited then fs else copyFlag fl n (g fs) fs) fs ns) \<and>
    (\<forall>m. m \<in> visited \<or> m \<notin> set (flag_names f) \<longrightarrow>
      formal (foldl (\<lambda>fs n. if n \<in> visited then fs else copyFlag fl n (g fs) fs) fs ns) m = formal fs m) \<and>
    Args (foldl (\<lambda>fs n. if n \<in> visited then fs else copyFlag fl n (g fs) fs) fs ns) = Args fs"
  using assms(4,5)
proof (induction ns arbitrary: fs)
  case (Cons n ns)
  show ?case
  proof (cases "n \<in> visited")
    case True
    then show ?thesis using Cons by simp
  next
    case False
    have n: "n \<in> set (flag_names f)" using Cons.prems(2) by simp
    note c = copyFlag_scalar [OF d Cons.prems(1) f(1) n f(2), of "g fs"]
    have "typed fl (copyFlag fl n (g fs) fs)" using c by blast
    moreover have "m \<noteq> n" if "m \<in> visited \<or> m \<notin> set (flag_names f)" for m using that False n by blast
    ultimately show ?thesis using Cons.IH [of "copyFlag fl n (g fs) fs"] Cons.prems(2) c False by simp
  qed
qed simp

definition untouched :: "string set \<Rightarrow> flag list \<Rightarrow> string \<Rightarrow> bool" where
  "untouched visited fl m = (\<forall>f \<in> set fl. m \<in> set (flag_names f) \<longrightarrow> set (flag_names f) \<inter> visited = {})"

lemma normalize_scalars:
  assumes d: "distinct (concat (map flag_names fl))" and "typed fl fs" and "set rest \<subseteq> set fl"
    and "\<forall>f \<in> set rest. length (filter (\<lambda>n. n \<in> visited) (flag_names f)) \<le> 1"
    and "\<forall>f \<in> set rest. set (flag_names f) \<inter> visited \<noteq> {} \<longrightarrow> \<not> is_slice (flag_default f)"
  shows "\<exists>fs'. normalize fl visited rest fs = (None, fs') \<and> Args fs' = Args fs \<and>
    (\<forall>m. m \<in> visited \<or> untouched visited rest m \<longrightarrow> formal fs' m = formal fs m)"
  using assms(2-)
proof (induction rest arbitrary: fs)
  case (Cons f rest)
  have un: "untouched visited rest m" if "untouched visited (f # rest) m" for m
    using that by (simp add: untouched_def)
  consider "filter (\<lambda>n. n \<in> visited) (flag_names f) = []" | n where "filter (\<lambda>n. n \<in> visited) (flag_names f) = [n]"
    using Cons.prems(3) by (cases "filter (\<lambda>n. n \<in> visited) (flag_names f)") auto
  then show ?case
  proof cases
    case 1
    then obtain fs' where "normalize fl visited rest fs = (None, fs') \<and> Args fs' = Args fs \<and>
      (\<forall>m. m \<in> visited \<or> untouched visited rest m \<longrightarrow> formal fs' m = formal fs m)"
      using Cons.IH [OF Cons.prems(1)] Cons.prems(2-4) by auto
    then show ?thesis using 1 un by auto
  next
    case 2
    have "n \<in> set (filter (\<lambda>n. n \<in> visited) (flag_names f))" using 2 by simp
    then have v: "set (flag_names f) \<inter> visited \<noteq> {}" by auto
    then have sc: "\<not> is_slice (flag_default f)" using Cons.prems(4) by simp
    have f: "f \<in> set fl" using Cons.prems(2) by simp
    note c = copies_scalar [where g = "\<lambda>fs. the (formal fs n)" and visited = visited, OF d f sc Cons.prems(1) subset_refl]
    let ?fs = "foldl (\<lambda>fs m. if m \<in> visited then fs else copyFlag fl m (the (formal fs n)) fs) fs (flag_names f)"
    obtain fs' where fs': "normalize fl visited rest ?fs = (None, fs')" "Args fs' = Args ?fs"
      and same: "\<forall>m. m \<in> visited \<or> untouched visited rest m \<longrightarrow> formal fs' m = formal ?fs m"
      using Cons.IH [OF conjunct1 [OF c]] Cons.prems(2-4) by auto
    have "formal fs' m = formal fs m" if m: "m \<in> visited \<or> untouched visited (f # rest) m" for m
    proof -
      have "m \<in> visited \<or> m \<notin> set (flag_names f)" using m v by (auto simp: untouched_def)
      then have "formal ?fs m = formal fs m" using conjunct1 [OF conjunct2 [OF c]] by blast
      moreover have "m \<in> visited \<or> untouched visited rest m" using m un by auto
      then have "formal fs' m = formal ?fs m" using same by blast
      ultimately show ?thesis by simp
    qed
    then show ?thesis using fs' c 2 by auto
  qed
qed simp

section \<open>A command line reads back\<close>

text \<open>Values for some flags: each flag at most once, under one of its names, with a text its type accepts.\<close>

definition fills :: "flag list \<Rightarrow> (flag \<times> string \<times> string) list \<Rightarrow> bool" where
  "fills fl gs =
     (distinct (map fst gs) \<and>
      list_all (\<lambda>(f, n, t). f \<in> set fl \<and> n \<in> set (flag_names f) \<and> n \<noteq> [] \<and> \<not> is_slice (flag_default f) \<and>
        set_text (flag_default f) t \<noteq> None) gs)"

definition written :: "(flag \<times> string \<times> string) list \<Rightarrow> string list" where
  "written gs = map (\<lambda>(f, n, t). assign n t) gs"

lemma fillsD:
  "fills fl gs \<Longrightarrow> (f, n, t) \<in> set gs \<Longrightarrow>
     f \<in> set fl \<and> n \<in> set (flag_names f) \<and> n \<noteq> [] \<and> \<not> is_slice (flag_default f) \<and> (\<exists>v. set_text (flag_default f) t = Some v)"
  by (auto simp: fills_def list_all_iff)

lemma fills_names:
  assumes d: "distinct (concat (map flag_names fl))" and gs: "fills fl gs"
  shows "distinct (map fst (map snd gs))"
    and "f \<in> set fl \<Longrightarrow> length (filter (\<lambda>n. n \<in> fst ` set (map snd gs)) (flag_names f)) \<le> 1"
    and "f \<in> set fl \<Longrightarrow> set (flag_names f) \<inter> fst ` set (map snd gs) \<noteq> {} \<Longrightarrow> \<not> is_slice (flag_default f)"
proof -
  have same: "g = h" if "(g, n, t) \<in> set gs" "h \<in> set fl" "n \<in> set (flag_names h)" for g h n t
    using flag_of_name [OF d _ that(2) _ that(3)] fillsD [OF gs that(1)] by blast
  have dist: "distinct (map fst gs)" using gs by (simp add: fills_def)
  have inj: "p = q" if pq: "p \<in> set gs" "q \<in> set gs" "fst (snd p) = fst (snd q)" for p q
  proof -
    obtain f n t where p: "p = (f, n, t)" by (cases p)
    obtain g u where q: "q = (g, n, u)" using pq(3) p by (cases q) simp
    have "f = g" using same [of f n t g] fillsD [OF gs, of g n u] pq(1,2) p q by blast
    then have "fst p = fst q" using p q by simp
    then show ?thesis using dist pq(1,2) by (metis distinct_map inj_onD)
  qed
  have "inj_on (\<lambda>p. fst (snd p)) (set gs)" using inj by (rule inj_onI)
  then show "distinct (map fst (map snd gs))" using dist by (simp add: distinct_map comp_def)
  show "length (filter (\<lambda>n. n \<in> fst ` set (map snd gs)) (flag_names f)) \<le> 1" if f: "f \<in> set fl"
  proof -
    have one: "a = b" if ab: "a \<in> set (flag_names f)" "b \<in> set (flag_names f)" "a \<in> fst ` set (map snd gs)"
      "b \<in> fst ` set (map snd gs)" for a b
    proof -
      obtain p q where pq: "p \<in> set gs" "q \<in> set gs" "a = fst (snd p)" "b = fst (snd q)" using ab(3,4) by auto
      have "fst p = f" using same [of "fst p" a "snd (snd p)" f] pq f ab(1) by simp
      moreover have "fst q = f" using same [of "fst q" b "snd (snd q)" f] pq f ab(2) by simp
      ultimately have "p = q" using dist pq(1,2) by (metis distinct_map inj_onD)
      then show ?thesis using pq by simp
    qed
    have df: "distinct (flag_names f)" using d f by (induction fl) auto
    let ?ns = "filter (\<lambda>n. n \<in> fst ` set (map snd gs)) (flag_names f)"
    have "card (set ?ns) \<le> 1" by (rule card_le_Suc0_iff_eq [THEN iffD2, unfolded One_nat_def [symmetric]]) (use one in auto)
    then show ?thesis using distinct_card [of ?ns] df by simp
  qed
  show "\<not> is_slice (flag_default f)" if f: "f \<in> set fl" "set (flag_names f) \<inter> fst ` set (map snd gs) \<noteq> {}"
  proof -
    obtain p where p: "p \<in> set gs" "fst (snd p) \<in> set (flag_names f)" using f(2) by auto
    then have "fst p = f" using same [of "fst p" "fst (snd p)" "snd (snd p)" f] f(1) by simp
    then have "(f, fst (snd p), snd (snd p)) \<in> set gs" using p(1) by auto
    from fillsD [OF gs this] show ?thesis by simp
  qed
qed

text \<open>Reordering puts the assignments first and leaves the order of both parts.\<close>

lemma well_named_of_fills:
  assumes "flagSet fl = Inr fs0" and "fills fl gs" and "(f, n, t) \<in> set gs"
  shows "well_named n"
  using fillsD [OF assms(2,3)] flagSet_Inr(4) [OF assms(1), of f n] by (simp add: well_named_def)

lemma reorder_shuffled:
  assumes fs0: "flagSet fl = Inr fs0" and gs: "fills fl gs" and ps: "list_all (\<lambda>p. \<not> has_prefix ''-'' p) ps"
    and args: "args \<in> shuffles (written gs) ps"
  shows "reorderArgs fl args = map (\<lambda>(n, t). assign n t) (map snd gs) @ ps"
proof -
  note named = well_named_of_fills [OF fs0 gs]
  have "set args = set (written gs) \<union> set ps" using set_shuffles [OF args] .
  moreover have "plain fl a" if a: "a \<in> set (written gs)" for a
  proof -
    obtain f n t where "(f, n, t) \<in> set gs" "a = assign n t" using a by (auto simp: written_def)
    then show ?thesis using named fillsD [OF gs] unfolding plain_def by blast
  qed
  moreover have "plain fl p" if "p \<in> set ps" for p using ps that by (simp add: plain_def list_all_iff)
  ultimately have "list_all (plain fl) args" by (auto simp: list_all_iff)
  then have r: "reorderArgs fl args = filter (has_prefix ''-'') args @ filter (\<lambda>a. \<not> has_prefix ''-'' a) args"
    by (simp add: reorderArgs_def reorder_plain)
  have dash: "has_prefix ''-'' a" if "a \<in> set (written gs)" for a
    using that named assign_shape(7) by (force simp: written_def)
  have "filter (has_prefix ''-'') (written gs) = written gs" "filter (has_prefix ''-'') ps = []"
    "filter (\<lambda>a. \<not> has_prefix ''-'' a) (written gs) = []" "filter (\<lambda>a. \<not> has_prefix ''-'' a) ps = ps"
    using dash ps by (simp_all add: filter_id_conv filter_empty_conv list_all_iff)
  moreover have "filter P args \<in> shuffles (filter P (written gs)) (filter P ps)" for P
    using args filter_shuffles [of P "written gs" ps] by blast
  ultimately have "filter (has_prefix ''-'') args = written gs" "filter (\<lambda>a. \<not> has_prefix ''-'' a) args = ps"
    by (metis Nil_in_shufflesI shuffles.simps(1,2) singletonD)+
  moreover have "written gs = map (\<lambda>(n, t). assign n t) (map snd gs)" by (auto simp: written_def)
  ultimately show ?thesis using r by simp
qed

text \<open>A flag that is not written has none of its names written.\<close>

lemma fills_untouched:
  assumes d: "distinct (concat (map flag_names fl))" and gs: "fills fl gs"
    and f: "f \<in> set fl" "f \<notin> fst ` set gs" "n \<in> set (flag_names f)"
  shows "n \<notin> fst ` set (map snd gs)" and "untouched (fst ` set (map snd gs)) fl n"
proof -
  have no: "m \<notin> fst ` set (map snd gs)" if m: "m \<in> set (flag_names f)" for m
  proof
    assume "m \<in> fst ` set (map snd gs)"
    then obtain g t where g: "(g, m, t) \<in> set gs" by force
    then have "g = f" using flag_of_name [OF d _ f(1) _ m] fillsD [OF gs g] by blast
    then show False using f(2) g by force
  qed
  then show "n \<notin> fst ` set (map snd gs)" using f(3) .
  show "untouched (fst ` set (map snd gs)) fl n"
    using flag_of_name [OF d f(1) _ f(3)] no unfolding untouched_def by blast
qed

text \<open>The values after the flags have been set, before aliases are filled in.\<close>

lemma assigned_fills:
  assumes fs0: "flagSet fl = Inr fs0" and gs: "fills fl gs"
  obtains fs1 where "assigned fl (map snd gs) fs0 = Some fs1" and "actual fs1 = fst ` set (map snd gs)"
    and "\<And>f n t. (f, n, t) \<in> set gs \<Longrightarrow> formal fs1 n = set_text (flag_default f) t"
    and "\<And>m. m \<notin> fst ` set (map snd gs) \<Longrightarrow> formal fs1 m = formal fs0 m"
proof -
  let ?kvs = "map snd gs"
  have d: "distinct (concat (map flag_names fl))" using flagSet_Inr(2) [OF fs0] by (simp add: map_fst_declarations)
  have dv: "formal fs0 n = Some (flag_default f)" if "(f, n, t) \<in> set gs" for f n t
    using declared_value [OF fs0] fillsD [OF gs that] by blast
  have pre: "\<forall>(n, t) \<in> set ?kvs. \<exists>old v. formal fs0 n = Some old \<and> \<not> is_slice old \<and> set_text old t = Some v"
    using dv fillsD [OF gs] by force
  obtain fs1 where fs1: "assigned fl ?kvs fs0 = Some fs1"
    and vals: "\<forall>(n, t) \<in> set ?kvs. formal fs1 n = Option.bind (formal fs0 n) (\<lambda>old. set_text old t)"
    and act: "actual fs1 = actual fs0 \<union> fst ` set ?kvs"
    and others: "\<forall>m. m \<notin> fst ` set ?kvs \<longrightarrow> formal fs1 m = formal fs0 m"
    using assigned_scalars [OF fills_names(1) [OF d gs] pre] by blast
  show thesis
  proof (rule that [OF fs1])
    show "actual fs1 = fst ` set ?kvs" using act flagSet_Inr(3) [OF fs0] by simp
    show "formal fs1 m = formal fs0 m" if "m \<notin> fst ` set ?kvs" for m using others that by blast
    show "formal fs1 n = set_text (flag_default f) t" if g: "(f, n, t) \<in> set gs" for f n t
    proof -
      have "(n, t) \<in> set ?kvs" using g by force
      then show ?thesis using vals dv [OF g] by fastforce
    qed
  qed
qed

lemma parseFlags_shuffled:
  assumes fs0: "flagSet fl = Inr fs0" and defaults: "list_all (\<lambda>f. fits f (flag_default f)) fl"
    and gs: "fills fl gs" and ps: "list_all (\<lambda>p. \<not> has_prefix ''-'' p) ps"
    and args: "args \<in> shuffles (written gs) ps"
  obtains fs where "parseFlags fl args = Inr fs" and "Args fs = ps"
    and "\<And>f n t. (f, n, t) \<in> set gs \<Longrightarrow> formal fs n = set_text (flag_default f) t"
    and "\<And>f n. f \<in> set fl \<Longrightarrow> f \<notin> fst ` set gs \<Longrightarrow> n \<in> set (flag_names f) \<Longrightarrow> formal fs n = Some (flag_default f)"
    and "\<And>f n t. (f, n, t) \<in> set gs \<Longrightarrow> n \<in> actual fs"
proof -
  let ?kvs = "map snd gs" and ?A = "fst ` set (map snd gs)"
  have d: "distinct (concat (map flag_names fl))" using flagSet_Inr(2) [OF fs0] by (simp add: map_fst_declarations)
  note r = reorder_shuffled [OF fs0 gs ps args]
  obtain fs1 where fs1: "assigned fl ?kvs fs0 = Some fs1" and act: "actual fs1 = ?A"
    and vals: "\<And>f n t. (f, n, t) \<in> set gs \<Longrightarrow> formal fs1 n = set_text (flag_default f) t"
    and others: "\<And>m. m \<notin> ?A \<Longrightarrow> formal fs1 m = formal fs0 m"
    using assigned_fills [OF fs0 gs] by blast
  have "list_all (\<lambda>(n, t). well_named n) ?kvs" 
    using well_named_of_fills [OF fs0 gs] by (auto simp: list_all_iff)
  from parse_assignments [OF this fs1 ps] have p: "parse_flags fl fs0 (reorderArgs fl args) = (None, fs1\<lparr> Args := ps \<rparr>)"
    by (simp add: r)
  have ty: "typed fl (fs1\<lparr> Args := ps \<rparr>)"
    using stays.parsing [OF stays_typed [OF d] flagSet_typed [OF fs0 defaults], of "reorderArgs fl args"] p by simp
  have a: "actual (fs1\<lparr> Args := ps \<rparr>) = ?A" using act by simp
  obtain fs where n: "normalizeFlags fl (fs1\<lparr> Args := ps \<rparr>) = (None, fs)" and pos: "Args fs = ps"
    and same: "\<forall>m. m \<in> fst ` set ?kvs \<or> untouched (fst ` set ?kvs) fl m \<longrightarrow> formal fs m = formal fs1 m"
    using normalize_scalars [OF d ty subset_refl, of "fst ` set ?kvs"] fills_names(2,3) [OF d gs] a
    unfolding normalizeFlags_def by auto
  show thesis
  proof (rule that)
    show "parseFlags fl args = Inr fs" using p n fs0 by (simp add: parseFlags_def)
    show "Args fs = ps" by (rule pos)
  next
    fix f n t assume g: "(f, n, t) \<in> set gs"
    then have "n \<in> ?A" by force
    then show "formal fs n = set_text (flag_default f) t" using same vals [OF g] by simp
  next
    fix f n assume f: "f \<in> set fl" "f \<notin> fst ` set gs" "n \<in> set (flag_names f)"
    have "formal fs n = formal fs0 n" using same others fills_untouched [OF d gs f] by simp
    then show "formal fs n = Some (flag_default f)" using declared_value [OF fs0 f(1,3)] by simp
  next
    fix f n t assume g: "(f, n, t) \<in> set gs"
    have "?A \<subseteq> actual (snd (normalize fl ?A fl (fs1\<lparr> Args := ps \<rparr>)))"
      by (rule kept.normalizing) (simp_all only: a)
    then have "?A \<subseteq> actual fs" using n a by (simp add: normalizeFlags_def)
    then show "n \<in> actual fs" using g by force
  qed
qed

end
