(* ===== verification/CliTool.thy ===== *)
theory CliTool
  imports CliApp CliLines
begin

text \<open>
  The tool's commands as a whole: their flags can be declared, each command is reached by each of its names, and
  actions read the flags their commands declare.
\<close>

section \<open>Evaluating names\<close>

lemma flag_names_simple:
  assumes "list_all (\<lambda>c. c \<noteq> CHR '','' \<and> \<not> is_space c) (GetName f)"
  shows "flag_names f = [GetName f]"
proof -
  have "CHR '','' \<notin> set (GetName f)" using assms by (auto simp: list_all_iff)
  moreover have "\<not> is_space (hd (GetName f)) \<and> \<not> is_space (last (GetName f))" if "GetName f \<noteq> []"
    using assms that by (metis (no_types, lifting) hd_in_set last_in_set list_all_iff)
  then have "trim_space (GetName f) = GetName f"
    unfolding trim_space_def by (intro trim_func_id) blast
  ultimately show ?thesis by (simp add: flag_names_def split_on_notin)
qed

lemma flag_names_aliased:
  assumes "GetName f = n" and "map trim_space (split_on (CHR '','') n) = ns"
  shows "flag_names f = ns"
  using assms by (simp add: flag_names_def)

lemma aliased:
  "map trim_space (split_on (CHR '','') ''help, h'') = [''help'', ''h'']"
  "map trim_space (split_on (CHR '','') ''file-path, f'') = [''file-path'', ''f'']"
  "map trim_space (split_on (CHR '','') ''bdev-name, n'') = [''bdev-name'', ''n'']"
  "map trim_space (split_on (CHR '','') ''block-size, b'') = [''block-size'', ''b'']"
  "map trim_space (split_on (CHR '','') ''timeout, t'') = [''timeout'', ''t'']"
  "map trim_space (split_on (CHR '','') ''name,n'') = [''name'', ''n'']"
  "map trim_space (split_on (CHR '','') ''level,l'') = [''level'', ''l'']"
  "map trim_space (split_on (CHR '','') ''strip-size-kb,s'') = [''strip-size-kb'', ''s'']"
  "map trim_space (split_on (CHR '','') ''base-bdevs,b'') = [''base-bdevs'', ''b'']"
  "map trim_space (split_on (CHR '','') ''uuid,u'') = [''uuid'', ''u'']"
  by code_simp+

lemmas flag_names_eval = flag_names_simple flag_names_aliased [OF _ aliased(1)] flag_names_aliased [OF _ aliased(2)]
  flag_names_aliased [OF _ aliased(3)] flag_names_aliased [OF _ aliased(4)] flag_names_aliased [OF _ aliased(5)]
  flag_names_aliased [OF _ aliased(6)] flag_names_aliased [OF _ aliased(7)] flag_names_aliased [OF _ aliased(8)]
  flag_names_aliased [OF _ aliased(9)] flag_names_aliased [OF _ aliased(10)]

definition well_flagged :: "flag list \<Rightarrow> bool" where
  "well_flagged fl =
     (distinct (concat (map flag_names fl)) \<and>
      list_all (\<lambda>n. n \<noteq> [] \<and> \<not> has_prefix ''-'' n \<and> CHR ''='' \<notin> set n) (concat (map flag_names fl)) \<and>
      list_all (\<lambda>f. fits f (flag_default f)) fl)"

definition command_names :: "'w Command \<Rightarrow> string list" where
  "command_names cmd = (if ShortName cmd = [] then [CmdName cmd] else [CmdName cmd, ShortName cmd])"

text \<open>The flags can be declared with the help flag, each has a long name, the names of the subcommands are distinct and
  not those of the help command, no group has a required flag, and every other command has an action.\<close>

fun well_formed :: "'w Command \<Rightarrow> bool" where
  "well_formed (Command name short fl subs act) =
     (well_flagged (fl @ [HelpFlag]) \<and> list_all (\<lambda>f. list_ex (\<lambda>n. 1 < length n) (flag_names f)) fl \<and>
      distinct (''help'' # ''h'' # concat (map command_names subs)) \<and>
      list_all (\<lambda>n. \<not> has_prefix ''-'' n) (concat (map command_names subs)) \<and>
      (if subs = [] then act \<noteq> None else list_all (\<lambda>f. \<not> IsRequired f) fl) \<and>
      list_all well_formed subs)"

lemmas declared_simps = well_flagged_def HelpFlag_def flag_names_eval is_space_def const_defs command_names_def

section \<open>What is declared works\<close>

lemma declare_names_ok:
  assumes "distinct (map fst ns)" and "list_all (\<lambda>n. \<not> has_prefix ''-'' n \<and> CHR ''='' \<notin> set n) (map fst ns)"
    and "\<forall>n \<in> fst ` set ns. formal fs n = None"
  shows "\<exists>fs'. declare_names ns fs = Inr fs'"
  using assms
proof (induction ns arbitrary: fs)
  case (Cons p ns)
  obtain n v where p: "p = (n, v)" by (cases p)
  have d: "declare_name v n fs = Inr (fs\<lparr> formal := (formal fs)(n \<mapsto> v) \<rparr>)"
    using Cons.prems p by (simp add: declare_name_def)
  have "\<exists>fs'. declare_names ns (fs\<lparr> formal := (formal fs)(n \<mapsto> v) \<rparr>) = Inr fs'"
    by (rule Cons.IH) (use Cons.prems p in auto)
  then show ?case by (simp add: p d)
qed simp

lemma flagSet_ok:
  assumes "well_flagged fl"
  obtains fs where "flagSet fl = Inr fs"
proof -
  have "\<exists>fs. declare_names (declarations fl) empty_set = Inr fs"
    by (rule declare_names_ok)
      (use assms in \<open>auto simp: well_flagged_def map_fst_declarations list_all_iff empty_set_def declared_names\<close>)
  then show thesis using that by (auto simp: flagSet_def)
qed

lemma HasName_iff: "HasName n cmd = (n \<in> set (command_names cmd))"
  by (auto simp: HasName_def command_names_def)

lemma find_command:
  assumes "distinct (concat (map command_names subs))" and "cmd \<in> set subs" and "n \<in> set (command_names cmd)"
  shows "find (HasName n) subs = Some cmd"
  using assms
proof (induction subs)
  case (Cons s subs)
  show ?case
  proof (cases "n \<in> set (command_names s)")
    case True
    then have "cmd = s" using Cons.prems by auto
    then show ?thesis using True by (simp add: HasName_iff [of n s])
  next
    case False
    then have "find (HasName n) subs = Some cmd" using Cons by auto
    then show ?thesis using False by (simp add: HasName_iff [of n s])
  qed
qed simp

text \<open>A command with its subcommands dispatches: its flags can be declared, and the first command with any name of a
  subcommand, after the help command was added, is that subcommand.\<close>

fun dispatches :: "'w Command \<Rightarrow> bool" where
  "dispatches (Command name short fl subs act) =
     ((\<exists>fs. flagSet (fl @ [HelpFlag]) = Inr fs) \<and>
      list_all (\<lambda>s. list_all (\<lambda>n. find (HasName n) (with_help subs) = Some s) (command_names s)) subs \<and>
      list_all dispatches subs)"

lemma find_append: "find P (xs @ ys) = (case find P xs of None \<Rightarrow> find P ys | Some x \<Rightarrow> Some x)"
  by (induction xs) auto

lemma well_formed_dispatches: "well_formed cmd \<Longrightarrow> dispatches cmd"
proof (induction cmd)
  case (Command name short fl subs act)
  then have f: "well_flagged (fl @ [HelpFlag])" and d: "distinct (concat (map command_names subs))"
    and subs: "list_all well_formed subs" by auto
  have "list_all dispatches subs" using Command.IH subs by (auto simp: list_all_iff)
  moreover have "find (HasName n) (with_help subs) = Some s" if "s \<in> set subs" "n \<in> set (command_names s)" for s n
    using find_command [OF d that] by (simp add: with_help_def find_append)
  moreover obtain fs where "flagSet (fl @ [HelpFlag]) = Inr fs" by (rule flagSet_ok [OF f])
  ultimately show ?case by (auto simp: list_all_iff)
qed

section \<open>The commands of the tool\<close>

lemma declared_BdevCmd: "well_formed BdevCmd"
  by (simp add: declared_simps BdevCmd_def BdevGetCmd_def)

lemma declared_BdevAioCmd: "well_formed BdevAioCmd"
  by (simp add: declared_simps BdevAioCmd_def BdevAioCreateCmd_def BdevAioDeleteCmd_def BdevAioGetCmd_def)

lemma declared_BdevVirtioCmd: "well_formed BdevVirtioCmd"
  by (simp add: declared_simps BdevVirtioCmd_def BdevVirtioAttachControllerCmd_def BdevVirtioDetachControllerCmd_def)

lemma declared_BdevLvstoreCmd: "well_formed BdevLvstoreCmd"
  by (simp add: declared_simps BdevLvstoreCmd_def BdevLvstoreCreateCmd_def BdevLvstoreDeleteCmd_def BdevLvstoreGetCmd_def BdevLvstoreRenameCmd_def BdevLvstoreGrowCmd_def BdevLvstoreGetLvolsCmd_def)

lemma declared_BdevNvmeCmd: "well_formed BdevNvmeCmd"
  by (simp add: declared_simps BdevNvmeCmd_def BdevNvmeAttachControllerCmd_def BdevNvmeDetachControllerCmd_def BdevNvmeResetControllerCmd_def BdevNvmeGetControllersCmd_def BdevNvmeGetCmd_def BdevNvmeSetOptionsCmd_def)

lemma declared_BdevRaidCmd: "well_formed BdevRaidCmd"
  by (simp add: declared_simps BdevRaidCmd_def BdevRaidCreateCmd_def BdevRaidDeleteCmd_def BdevRaidGetCmd_def BdevRaidRemoveBaseBdevCmd_def BdevRaidGrowBaseBdevCmd_def)

lemma declared_BdevLvolCmd: "well_formed BdevLvolCmd"
  by (simp add: declared_simps BdevLvolCmd_def BdevLvolCreateCmd_def BdevLvolDeleteCmd_def BdevLvolGetCmd_def BdevLvolSnapshotCmd_def BdevLvolCloneCmd_def BdevLvolCloneBdevCmd_def BdevLvolSetParentCmd_def BdevLvolDecoupleParentCmd_def BdevLvolDetachParentCmd_def BdevLvolResizeCmd_def BdevLvolStartShallowCopyCmd_def BdevLvolStartRangeShallowCopyCmd_def BdevLvolCheckShallowCopyCmd_def BdevLvolStartDeepCopyCmd_def BdevLvolCheckDeepCopyCmd_def BdevLvolSetXattrCmd_def BdevLvolGetXattrCmd_def BdevLvolGetFragmapCmd_def BdevLvolRenameCmd_def BdevLvolRegisterSnapshotChecksumCmd_def BdevLvolRegisterRangeChecksumsCmd_def BdevLvolGetSnapshotChecksumCmd_def BdevLvolGetRangeChecksumsCmd_def BdevLvolStopSnapshotChecksumCmd_def)

lemma declared_BdevEcCmd: "well_formed BdevEcCmd"
  by (simp add: declared_simps BdevEcCmd_def BdevEcCreateCmd_def BdevEcDeleteCmd_def BdevEcGetCmd_def BdevEcReplaceCmd_def BdevEcRebuildStartCmd_def BdevEcRebuildStopCmd_def BdevEcRebuildProgressCmd_def BdevEcRebuildQosSetCmd_def BdevEcResizeCmd_def BdevEcWibStatusCmd_def BdevEcUnmapStatusCmd_def BdevEcScrubProgressCmd_def)

lemma declared_NvmfCmd: "well_formed NvmfCmd"
  by (simp add: declared_simps NvmfCmd_def NvmfCreateTransportCmd_def NvmfGetTransportsCmd_def NvmfCreateSubsystemCmd_def NvmfDeleteSubsystemCmd_def NvmfGetSubsystemsCmd_def NvmfSubsystemAddNsCmd_def NvmfSubsystemRemoveNsCmd_def NvmfSubsystemGetNssCmd_def NvmfSubsystemAddListenerCmd_def NvmfSubsystemRemoveListenerCmd_def NvmfSubsystemGetListenersCmd_def)

lemma declared_LogCmd: "well_formed LogCmd"
  by (simp add: declared_simps LogCmd_def LogSetFlagCmd_def LogClearFlagCmd_def LogGetFlagsCmd_def LogSetLevelCmd_def LogGetLevelCmd_def LogSetPrintLevelCmd_def LogGetPrintLevelCmd_def)

lemma declared_UblkCmd: "well_formed UblkCmd"
  by (simp add: declared_simps UblkCmd_def UblkCreateTargetCmd_def UblkDestroyTargetCmd_def UblkGetDisksCmd_def UblkStartDiskCmd_def UblkRecoverDiskCmd_def UblkStopDiskCmd_def)

lemma declared_CmdDmsetup: "well_formed CmdDmsetup.Cmd"
  by (simp add: declared_simps CmdDmsetup.Cmd_def CmdDmsetup.CreateCmd_def RemoveCmd_def SuspendCmd_def ResumeCmd_def ReloadCmd_def DepsCmd_def)

lemma declared_CmdNvmecli: "well_formed CmdNvmecli.Cmd"
  by (simp add: declared_simps CmdNvmecli.Cmd_def DiscoverCmd_def ConnectCmd_def DisconnectCmd_def CmdNvmecli.GetCmd_def StartCmd_def StopCmd_def FlushCmd_def)

lemma declared_CmdSpdksetup: "well_formed CmdSpdksetup.Cmd"
  by (simp add: declared_simps CmdSpdksetup.Cmd_def BindCmd_def UnbindCmd_def DiskDriverCmd_def DiskStatusCmd_def)

lemma declared_DeviceCmd: "well_formed DeviceCmd"
  by (simp add: declared_simps DeviceCmd_def DeviceAddCmd_def DeviceDeleteCmd_def)

lemma declared_ExposeCmd: "well_formed ExposeCmd"
  by (simp add: declared_simps ExposeCmd_def StartExposeCmd_def StopExposeCmd_def)

lemma declared_SpdkKillInstanceCmd: "well_formed SpdkKillInstanceCmd"
  by (simp add: declared_simps SpdkKillInstanceCmd_def)

lemma declared_CmdSpdktgt: "well_formed (CmdSpdktgt.Cmd env)"
  by (simp add: declared_simps CmdSpdktgt.Cmd_def)

lemmas declared_groups = declared_BdevCmd declared_BdevAioCmd declared_BdevVirtioCmd declared_BdevLvstoreCmd
  declared_BdevLvolCmd declared_BdevNvmeCmd declared_BdevRaidCmd declared_BdevEcCmd declared_NvmfCmd declared_LogCmd
  declared_UblkCmd declared_SpdkKillInstanceCmd declared_DeviceCmd declared_ExposeCmd declared_CmdNvmecli
  declared_CmdDmsetup declared_CmdSpdktgt declared_CmdSpdksetup

text \<open>The names of the groups.\<close>

lemma group_names:
  "concat (map command_names (app_commands env)) =
     [''bdev'', ''bdev-aio'', ''aio'', ''bdev-virtio'', ''virtio'', ''bdev-lvstore'', ''lvs'', ''bdev-lvol'', ''lvol'',
      ''bdev-nvme'', ''nvme'', ''bdev-raid'', ''raid'', ''bdev-ec'', ''ec'', ''nvme-of'', ''nvmf'', ''log'', ''ublk'',
      ''kill-instance'', ''device'', ''expose'', ''nvmecli'', ''dmsetup'', ''spdk-tgt'', ''tgt'', ''spdk-setup'', ''setup'']"
  by (simp add: app_commands_def command_names_def BdevCmd_def BdevAioCmd_def BdevVirtioCmd_def BdevLvstoreCmd_def
      BdevLvolCmd_def BdevNvmeCmd_def BdevRaidCmd_def BdevEcCmd_def NvmfCmd_def LogCmd_def UblkCmd_def SpdkKillInstanceCmd_def
      DeviceCmd_def ExposeCmd_def CmdNvmecli.Cmd_def CmdDmsetup.Cmd_def CmdSpdktgt.Cmd_def CmdSpdksetup.Cmd_def)

lemma app_well_formed: "well_formed (app env)"
proof -
  have "well_flagged [BoolFlag ''debug'', HelpFlag]" by (simp add: declared_simps)
  moreover have "distinct (''help'' # ''h'' # concat (map command_names (app_commands env)))"
    unfolding group_names by simp
  moreover have "list_all well_formed (app_commands env)"
    by (simp add: app_commands_def declared_groups)
  moreover have "list_all (\<lambda>n. \<not> has_prefix ''-'' n) (concat (map command_names (app_commands env)))"
    unfolding group_names by simp
  moreover have "app_commands env \<noteq> []" by (simp add: app_commands_def)
  ultimately show ?thesis by (simp add: app_def flag_names_simple is_space_def)
qed

text \<open>
  Property C20. The tool is well formed, whatever its environment: for every command, down to the last subcommand, the
  flags can be declared with the help flag (no name is taken twice or malformed, which would end the process in a
  panic as soon as the command is chosen), and every command is the one that each of its names reaches: no command is
  shadowed by another one or by the help command.
\<close>

theorem app_dispatches: "dispatches (app env)"
  by (rule well_formed_dispatches [OF app_well_formed])

end
