(* ===== verification/CliRuns.thy ===== *)
theory CliRuns
  imports CliTool
begin

text \<open>
  Runs of the tool: from the arguments of the process to the action of a command, and what happens when a required
  flag is missing.
\<close>

section \<open>Down to a command\<close>

lemma normalize_untouched: "normalize fl {} rest fs = (None, fs)"
  by (induction rest) simp_all

lemma help_declared:
  assumes "flagSet (fl @ [HelpFlag]) = Inr fs"
  shows "formal fs ''help'' = Some (VBool False)" and "formal fs ''h'' = Some (VBool False)"
proof -
  have n: "flag_names HelpFlag = [''help'', ''h'']" by (simp add: HelpFlag_def flag_names_aliased [OF _ aliased(1)])
  show "formal fs ''help'' = Some (VBool False)" "formal fs ''h'' = Some (VBool False)"
    using declared_value [OF assms, of HelpFlag] n by (auto simp: HelpFlag_def)
qed

lemma no_help:
  assumes "formal (parsed c) ''help'' = Some (VBool False)" and "formal (parsed c) ''h'' = Some (VBool False)"
  shows "\<not> asked_for_help c"
  using assms by (simp add: asked_for_help_def BoolOf_def text_in_def ParseBool_def)

lemma parse_app_plain:
  assumes "flagSet (fl @ [HelpFlag]) = Inr fs" and "\<not> has_prefix ''-'' a"
  shows "parse_app (fl @ [HelpFlag]) encl (a # as) = Inr \<lparr> parsed = fs\<lparr> Args := a # as \<rparr>, parents = encl \<rparr>"
proof -
  have "length a < 2 \<or> hd a \<noteq> CHR ''-''" using assms(2) by (cases a) auto
  then have "parse_flags (fl @ [HelpFlag]) fs (a # as) = (None, fs\<lparr> Args := a # as \<rparr>)" by simp
  then show ?thesis
    using assms(1) flagSet_Inr(3) [OF assms(1)]
    by (simp add: parse_app_def normalizeFlags_def normalize_untouched del: parse_flags.simps)
qed

lemma no_required:
  assumes "list_all (\<lambda>f. \<not> IsRequired f) fl"
  shows "checkRequiredFlags (fl @ [HelpFlag]) fs = None"
proof -
  have "missing_flag (fl @ [HelpFlag]) fs f = []" if "f \<in> set (fl @ [HelpFlag])" for f
    using assms that by (auto simp: missing_flag_def HelpFlag_def list_all_iff)
  then have "concat (map (missing_flag (fl @ [HelpFlag]) fs) (fl @ [HelpFlag])) = []" by simp
  then show ?thesis by (simp only: checkRequiredFlags_def list.case)
qed

lemma HelpFlag_undeclared:
  assumes "well_flagged (fl @ [HelpFlag])"
  shows "HelpFlag \<notin> set fl"
proof
  assume h: "HelpFlag \<in> set fl"
  have "''help'' \<in> set (flag_names HelpFlag)" by (simp add: HelpFlag_def flag_names_aliased [OF _ aliased(1)])
  then show False using assms h by (auto simp: well_flagged_def)
qed

lemma run_command_group:
  assumes wf: "well_formed (Command name short fl subs act)" and sub: "sub \<in> set subs" "m \<in> set (command_names sub)"
  shows "\<exists>fs. flagSet (fl @ [HelpFlag]) = Inr fs \<and>
    run_command env encl (Command name short fl subs act) (m # args) = run_command env (fs\<lparr> Args := m # args \<rparr> # encl) sub args"
proof -
  have d: "distinct (''help'' # ''h'' # concat (map command_names subs))" and w: "well_flagged (fl @ [HelpFlag])"
    and ne: "subs \<noteq> []" using wf sub(1) by auto
  have opt: "list_all (\<lambda>f. \<not> IsRequired f) fl" and m: "\<not> has_prefix ''-'' m"
    using wf ne sub by (auto simp: list_all_iff)
  have "\<not> list_ex (HasName ''help'') subs" using d by (auto simp: list_ex_iff HasName_iff)
  then have g: "group_flags subs fl = fl @ [HelpFlag]" using HelpFlag_undeclared [OF w] by (simp add: group_flags_def)
  obtain fs where fs: "flagSet (fl @ [HelpFlag]) = Inr fs" by (rule flagSet_ok [OF w])
  have f: "find (HasName m) subs = Some sub" using find_command [OF _ sub] d by simp
  have nh: "\<not> asked_for_help \<lparr> parsed = fs\<lparr> Args := m # args \<rparr>, parents = encl \<rparr>"
    by (rule no_help) (simp_all add: help_declared [OF fs])
  show ?thesis
    using fs ne f nh parse_app_plain [OF fs m, of encl args] no_required [OF opt] by (simp add: g)
qed

text \<open>\<open>path cmd ns groups c\<close>: the names \<open>ns\<close> lead from \<open>cmd\<close> through \<open>groups\<close>, innermost first, to \<open>c\<close>.\<close>

inductive path :: "'w Command \<Rightarrow> string list \<Rightarrow> 'w Command list \<Rightarrow> 'w Command \<Rightarrow> bool" where
  here: "path cmd [] [] cmd"
| down: "sub \<in> set (Subcommands cmd) \<Longrightarrow> m \<in> set (command_names sub) \<Longrightarrow> path sub ns groups c \<Longrightarrow>
    path cmd (m # ns) (groups @ [cmd]) c"

lemma path_well_formed: "path cmd ns groups c \<Longrightarrow> well_formed cmd \<Longrightarrow> well_formed c"
proof (induction rule: path.induct)
  case (down sub cmd m ns groups c)
  then show ?case by (cases cmd) (auto simp: list_all_iff)
qed

text \<open>A flag set with the declarations of a group and their defaults.\<close>

definition defaults_of :: "flag_set \<Rightarrow> 'w Command \<Rightarrow> bool" where
  "defaults_of fs cmd = (\<exists>fs0. flagSet (Flags cmd @ [HelpFlag]) = Inr fs0 \<and> formal fs = formal fs0)"

lemma run_command_path:
  assumes "path cmd ns groups c" and "well_formed cmd" and "Subcommands c = []" and "Action c = Some act"
  shows "\<exists>ps. list_all2 defaults_of ps groups \<and>
    run_command env encl cmd (ns @ args) = run_leaf env (ps @ encl) (Flags c) act args"
  using assms
proof (induction arbitrary: encl rule: path.induct)
  case (here cmd)
  then show ?case by (cases cmd) auto
next
  case (down sub cmd m ns groups c)
  obtain name short fl subs a where cmd: "cmd = Command name short fl subs a" by (cases cmd)
  obtain fs where fs: "flagSet (fl @ [HelpFlag]) = Inr fs"
    and run: "run_command env encl cmd (m # ns @ args) = run_command env (fs\<lparr> Args := m # ns @ args \<rparr> # encl) sub (ns @ args)"
    using run_command_group [of name short fl subs a sub m env encl "ns @ args"] down.hyps down.prems cmd by auto
  have "well_formed sub" using down.prems(1) down.hyps(1) cmd by (auto simp: list_all_iff)
  then obtain ps where "list_all2 defaults_of ps groups"
    and "run_command env (fs\<lparr> Args := m # ns @ args \<rparr> # encl) sub (ns @ args) =
      run_leaf env (ps @ fs\<lparr> Args := m # ns @ args \<rparr> # encl) (Flags c) act args"
    using down.IH down.prems by blast
  moreover have "defaults_of (fs\<lparr> Args := m # ns @ args \<rparr>) cmd" using fs cmd by (simp add: defaults_of_def)
  ultimately show ?case using run
    by (intro exI [of _ "ps @ [fs\<lparr> Args := m # ns @ args \<rparr>]"]) (simp add: list_all2_appendI)
qed

section \<open>Well-formed command lines\<close>

lemma well_formedD:
  assumes "well_formed c"
  shows "well_flagged (Flags c @ [HelpFlag])" and "f \<in> set (Flags c) \<Longrightarrow> \<exists>n \<in> set (flag_names f). 1 < length n"
  using assms by (cases c; auto simp: list_all_iff list_ex_iff)+

lemma required_given:
  assumes "\<And>f. f \<in> set fl \<Longrightarrow> IsRequired f \<Longrightarrow> \<exists>n \<in> set (flag_names f). n \<in> actual fs"
  shows "checkRequiredFlags (fl @ [HelpFlag]) fs = None"
proof -
  have "missing_flag (fl @ [HelpFlag]) fs f = []" if f: "f \<in> set (fl @ [HelpFlag])" for f
  proof (cases "IsRequired f")
    case True
    then have "f \<in> set fl" using f by (auto simp: HelpFlag_def)
    then obtain n where "n \<in> set (flag_names f)" "n \<in> actual fs" using assms True by blast
    then have "list_ex (IsSet (fl @ [HelpFlag]) fs) (flag_names f)" by (auto simp: IsSet_def list_ex_iff)
    then show ?thesis by (simp add: missing_flag_def)
  qed (simp add: missing_flag_def)
  then have "concat (map (missing_flag (fl @ [HelpFlag]) fs) (fl @ [HelpFlag])) = []" by simp
  then show ?thesis by (simp only: checkRequiredFlags_def list.case)
qed

lemma fills_more: "fills fl gs \<Longrightarrow> fills (fl @ gl) gs"
  by (auto simp: fills_def list_all_iff)

lemma main_Fatalf:
  "run_command env [] (app env) args = Fatalf msg f env c \<Longrightarrow> main env args = Fatalf msg f env c"
  by (auto simp: main_def Fatalf_def io_case_def io_fail_def io_return_def fun_eq_iff split: prod.splits sum.splits)

text \<open>The context a well-formed line gives a command: the values that were written, the defaults of the other flags,
  the positional arguments, and the defaults of the enclosing groups.\<close>

definition line_values :: "'w Command \<Rightarrow> (flag \<times> string \<times> string) list \<Rightarrow> string list \<Rightarrow> cli_context \<Rightarrow> bool" where
  "line_values c gs ps ctx =
     (Args (parsed ctx) = ps \<and>
      (\<forall>(f, n, t) \<in> set gs. looked_up ctx n = set_text (flag_default f) t) \<and>
      (\<forall>f \<in> set (Flags c) - fst ` set gs. \<forall>n \<in> set (flag_names f). looked_up ctx n = Some (flag_default f)))"

definition line_context ::
  "'w Command \<Rightarrow> 'w Command list \<Rightarrow> (flag \<times> string \<times> string) list \<Rightarrow> string list \<Rightarrow> cli_context \<Rightarrow> bool" where
  "line_context c groups gs ps ctx = (line_values c gs ps ctx \<and> list_all2 defaults_of (parents ctx) groups)"

lemma run_leaf_line:
  assumes wf: "well_formed c"
    and gs: "fills (Flags c) gs" and req: "\<And>f. f \<in> set (Flags c) \<Longrightarrow> IsRequired f \<Longrightarrow> f \<in> fst ` set gs"
    and ps: "list_all (\<lambda>p. \<not> has_prefix ''-'' p) ps" and args: "args \<in> shuffles (written gs) ps"
  obtains ctx where "run_leaf env encl (Flags c) act args = act env ctx" and "line_values c gs ps ctx"
    and "parents ctx = encl"
proof -
  note w = well_formedD(1) [OF wf]
  obtain fs0 where fs0: "flagSet (Flags c @ [HelpFlag]) = Inr fs0" by (rule flagSet_ok [OF w])
  have df: "list_all (\<lambda>f. fits f (flag_default f)) (Flags c @ [HelpFlag])" using w by (simp add: well_flagged_def)
  obtain fs where fs: "parseFlags (Flags c @ [HelpFlag]) args = Inr fs" and pos: "Args fs = ps"
    and val: "\<And>f n t. (f, n, t) \<in> set gs \<Longrightarrow> formal fs n = set_text (flag_default f) t"
    and dfl: "\<And>f n. f \<in> set (Flags c @ [HelpFlag]) \<Longrightarrow> f \<notin> fst ` set gs \<Longrightarrow> n \<in> set (flag_names f) \<Longrightarrow>
      formal fs n = Some (flag_default f)"
    and given: "\<And>f n t. (f, n, t) \<in> set gs \<Longrightarrow> n \<in> actual fs"
    by (rule parseFlags_shuffled [OF fs0 df fills_more [OF gs] ps args]) blast
  let ?ctx = "\<lparr> parsed = fs, parents = encl \<rparr>"
  have "flag_names HelpFlag = [''help'', ''h'']" by (simp add: HelpFlag_def flag_names_aliased [OF _ aliased(1)])
  moreover have "HelpFlag \<notin> fst ` set gs" using fillsD [OF gs] HelpFlag_undeclared [OF w] by force
  ultimately have "\<not> asked_for_help ?ctx"
    using dfl [of HelpFlag] by (intro no_help) (simp_all add: HelpFlag_def)
  moreover have "checkRequiredFlags (Flags c @ [HelpFlag]) fs = None"
  proof (rule required_given)
    fix f assume "f \<in> set (Flags c)" "IsRequired f"
    then obtain n t where g: "(f, n, t) \<in> set gs" using req by force
    then show "\<exists>n \<in> set (flag_names f). n \<in> actual fs" using given [OF g] fillsD [OF gs g] by blast
  qed
  ultimately have "run_leaf env encl (Flags c) act args = act env ?ctx"
    using fs by (simp add: run_leaf_def Let_def)
  moreover have "line_values c gs ps ?ctx"
    unfolding line_values_def using pos val dfl by auto
  ultimately show thesis by (rule that) simp
qed

lemma main_runs:
  assumes path: "path (app env) ns groups c" and leaf: "Subcommands c = []" "Action c = Some (Fatalf msg f)"
    and gs: "fills (Flags c) gs" and req: "\<And>f. f \<in> set (Flags c) \<Longrightarrow> IsRequired f \<Longrightarrow> f \<in> fst ` set gs"
    and ps: "list_all (\<lambda>p. \<not> has_prefix ''-'' p) ps" and args: "args \<in> shuffles (written gs) ps"
  obtains ctx where "main env (ns @ args) = Fatalf msg f env ctx" and "line_context c groups gs ps ctx"
proof -
  obtain encl where encl: "list_all2 defaults_of encl groups"
    and run: "run_command env [] (app env) (ns @ args) = run_leaf env (encl @ []) (Flags c) (Fatalf msg f) args"
    using run_command_path [OF path app_well_formed leaf] by blast
  obtain ctx where leaf_run: "run_leaf env encl (Flags c) (Fatalf msg f) args = Fatalf msg f env ctx"
    and ctx: "line_values c gs ps ctx" "parents ctx = encl"
    by (rule run_leaf_line [OF path_well_formed [OF path app_well_formed] gs req ps args, of env encl "Fatalf msg f"])
  have "main env (ns @ args) = Fatalf msg f env ctx" using run leaf_run by (intro main_Fatalf) simp
  then show thesis using ctx encl that by (simp add: line_context_def)
qed

text \<open>
  Property C14. A well-formed command line runs its command: follow the names of the groups and of a command, then write
  values for some of its flags as \<open>--name=value\<close>, all required ones among them, mixed in any order with positional
  arguments. The whole run of the tool is then the action of that command, no other and no help text, in a context
  that holds exactly those values, the defaults of the other flags, the positional arguments in their order, and the
  defaults of the flags of the enclosing groups.
\<close>

theorem main_runs_command:
  assumes "path (app env) ns groups c" and "Subcommands c = []" and "Action c = Some (Fatalf msg f)"
    and "fills (Flags c) gs" and "\<forall>f \<in> set (Flags c). IsRequired f \<longrightarrow> f \<in> fst ` set gs"
    and "list_all (\<lambda>p. \<not> has_prefix ''-'' p) ps" and "args \<in> shuffles (written gs) ps"
  shows "\<exists>ctx. main env (ns @ args) = Fatalf msg f env ctx \<and> line_context c groups gs ps ctx"
  using assms main_runs [of env ns groups c msg f gs ps args] by metis

section \<open>Commands of the tool\<close>

lemma path_command:
  assumes "g \<in> set (app_commands env)" and "m \<in> set (command_names g)" and "c \<in> set (Subcommands g)"
    and "k \<in> set (command_names c)"
  shows "path (app env) [m, k] [g, app env] c"
proof -
  have "path g [k] ([] @ [g]) c" by (rule path.down [OF assms(3,4) path.here])
  then have "path (app env) [m, k] (([] @ [g]) @ [app env]) c"
    by (intro path.down) (use assms in \<open>simp_all add: app_def\<close>)
  then show ?thesis by simp
qed

lemma ublk_path:
  "path (app env) [''ublk'', ''stop-disk''] [UblkCmd, app env] UblkStopDiskCmd"
  "path (app env) [''ublk'', ''start-disk''] [UblkCmd, app env] UblkStartDiskCmd"
  by (rule path_command;
      simp add: app_commands_def UblkCmd_def UblkStopDiskCmd_def UblkStartDiskCmd_def command_names_def)+

lemma ublk_flag_names:
  "flag_names (IntFlag ''ublk-id'' True 0) = [''ublk-id'']"
  "flag_names (StringFlag ''bdev-name'' True []) = [''bdev-name'']"
  "flag_names (IntFlag ''queue-depth'' False 128) = [''queue-depth'']"
  "flag_names (IntFlag ''num-queues'' False 1) = [''num-queues'']"
  by (simp_all add: flag_names_simple is_space_def)

definition stop_disk :: "'w cli_env \<Rightarrow> i32 \<Rightarrow> ('w, printed) iop" where
  "stop_disk env ublkId =
     io_case (io_bind (NewClient env) (\<lambda>spdkCli. io_bind (on_spdk (UblkStopDisk spdkCli ublkId)) (\<lambda>_. io_return PNothing)))
       (\<lambda>err. io_fail (GoExit (''Failed to run UblkStopDiskCmd: '' @ error_text err))) io_return"

lemma stop_disk_line:
  assumes "int64 i"
  shows "main env [''ublk'', ''stop-disk'', assign ''ublk-id'' (itoa i)] = stop_disk env (word_of_int i)"
proof -
  let ?gs = "[(IntFlag ''ublk-id'' True 0, ''ublk-id'', itoa i)]"
  have i: "ParseInt (itoa i) = Some i" by (rule ParseInt_itoa) (use assms in auto)
  obtain ctx where run: "main env ([''ublk'', ''stop-disk''] @ [assign ''ublk-id'' (itoa i)]) =
      Fatalf (\<lambda>_. ''Failed to run UblkStopDiskCmd'') ublkStopDisk env ctx"
    and ctx: "line_context UblkStopDiskCmd [UblkCmd, app env] ?gs [] ctx"
    by (rule main_runs [OF ublk_path(1), where gs = ?gs and ps = "[]" and msg = "\<lambda>_. ''Failed to run UblkStopDiskCmd''"
          and f = ublkStopDisk and args = "[assign ''ublk-id'' (itoa i)]"])
      (simp_all add: UblkStopDiskCmd_def fills_def ublk_flag_names i written_def)
  have "looked_up ctx ''ublk-id'' = Some (VInt i)" using ctx by (simp add: line_context_def line_values_def i)
  then have "IntOf ctx ''ublk-id'' = i" by (simp add: IntOf_def text_in_def i)
  with run show ?thesis by (simp add: Fatalf_def ublkStopDisk_def stop_disk_def)
qed

text \<open>
  The id of a ublk device is cut to 32 bits on the way from the command line to SPDK: two ids the parser
  accepts that agree modulo \<open>2 ^ 32\<close> make runs of \<open>ublk stop-disk\<close> that are the same in every environment, so that an
  id out of range stops another disk instead of being refused.
\<close>

theorem ublk_ids_wrap:
  assumes "int64 i" and "int64 j" and "i mod 2 ^ 32 = j mod 2 ^ 32"
  shows "main env [''ublk'', ''stop-disk'', assign ''ublk-id'' (itoa i)] =
    main env [''ublk'', ''stop-disk'', assign ''ublk-id'' (itoa j)]"
proof -
  have "(word_of_int i :: i32) = word_of_int j" using assms(3) by (simp add: word_of_int_eq_iff take_bit_eq_mod)
  then show ?thesis by (simp add: stop_disk_line [OF assms(1)] stop_disk_line [OF assms(2)])
qed

lemma ublk_ids_wrap_witness:
  "\<forall>env :: Response list cli_env. main env [''ublk'', ''stop-disk'', assign ''ublk-id'' (itoa 4294967303)] =
    main env [''ublk'', ''stop-disk'', assign ''ublk-id'' (itoa 7)]"
  by (intro allI ublk_ids_wrap) simp_all

section \<open>Any command line\<close>

text \<open>A run that changes nothing: it shows help or exits with an error.\<close>

definition harmless :: "('w, printed) iop \<Rightarrow> bool" where
  "harmless m = (\<forall>w. \<exists>r. m w = (r, w) \<and> (r = Inr PHelp \<or> (\<exists>e. r = Inl (GoExit e))))"

lemma harmlessI:
  "run_command env [] (app env) args = io_return PHelp \<Longrightarrow> harmless (main env args)"
  "run_command env [] (app env) args = io_fail (PlainErr e) \<Longrightarrow> harmless (main env args)"
  by (simp_all add: harmless_def main_def io_case_def io_return_def io_fail_def)

lemma checkRequiredFlags_error: "checkRequiredFlags fl fs = Some e \<Longrightarrow> \<exists>m. e = PlainErr m"
  by (auto simp: checkRequiredFlags_def split: list.splits)

lemma main_cases:
  assumes path: "path (app env) ns groups c" and leaf: "Subcommands c = []" "Action c = Some (Fatalf msg f)"
  obtains "harmless (main env (ns @ args))"
  | ctx where "main env (ns @ args) = Fatalf msg f env ctx" and "parseFlags (Flags c @ [HelpFlag]) args = Inr (parsed ctx)"
      and "checkRequiredFlags (Flags c @ [HelpFlag]) (parsed ctx) = None" and "list_all2 defaults_of (parents ctx) groups"
proof -
  obtain fs0 where fs0: "flagSet (Flags c @ [HelpFlag]) = Inr fs0"
    by (rule flagSet_ok [OF well_formedD(1) [OF path_well_formed [OF path app_well_formed]]])
  obtain encl where encl: "list_all2 defaults_of encl groups"
    and run: "run_command env [] (app env) (ns @ args) = run_leaf env (encl @ []) (Flags c) (Fatalf msg f) args"
    using run_command_path [OF path app_well_formed leaf] by blast
  show thesis
  proof (cases "parseFlags (Flags c @ [HelpFlag]) args")
    case (Inl e)
    then obtain m where "e = PlainErr m" using parseFlags_error [OF fs0] by blast
    then show thesis using run Inl that(1) harmlessI(2) [of env "ns @ args" m] by (simp add: run_leaf_def)
  next
    case (Inr fs)
    let ?ctx = "\<lparr> parsed = fs, parents = encl \<rparr>"
    consider "asked_for_help ?ctx" | e where "\<not> asked_for_help ?ctx" "checkRequiredFlags (Flags c @ [HelpFlag]) fs = Some e"
      | "\<not> asked_for_help ?ctx" "checkRequiredFlags (Flags c @ [HelpFlag]) fs = None"
      by (cases "checkRequiredFlags (Flags c @ [HelpFlag]) fs") auto
    then show thesis
    proof cases
      case 1
      then show thesis using run Inr that(1) harmlessI(1) [of env "ns @ args"] by (simp add: run_leaf_def)
    next
      case (2 e)
      then obtain m where "e = PlainErr m" using checkRequiredFlags_error by blast
      then show thesis using run Inr 2 that(1) harmlessI(2) [of env "ns @ args" m] by (simp add: run_leaf_def)
    next
      case 3
      then have "main env (ns @ args) = Fatalf msg f env ?ctx"
        using run Inr by (intro main_Fatalf) (simp add: run_leaf_def)
      then show thesis using that(2) [of ?ctx] Inr 3 encl by simp
    qed
  qed
qed

lemma declared_defaults_fit:
  assumes "path (app env) ns groups c"
  shows "list_all (\<lambda>f. fits f (flag_default f)) (Flags c @ [HelpFlag])"
  using well_formedD(1) [OF path_well_formed [OF assms app_well_formed]] by (simp add: well_flagged_def)

text \<open>
  Property C19. Actions are typed: whatever the arguments of a command are, a run of the tool either leaves everything as
  it was and shows help or exits with an error, or is the action of that command in a context where every name of
  every flag it declares holds a value of the type of that flag, integers in the range of 64 bits, which the accessor
  of that type reads as it is (a string slice without one empty element). So an action never gets the zero value that
  stands for a failed lookup or a failed conversion of a declared flag.
\<close>

theorem actions_are_typed:
  assumes "path (app env) ns groups c" and "Subcommands c = []" and "Action c = Some (Fatalf msg f)"
  shows "harmless (main env (ns @ args)) \<or>
    (\<exists>ctx. main env (ns @ args) = Fatalf msg f env ctx \<and> typed (Flags c @ [HelpFlag]) (parsed ctx) \<and>
      (\<forall>fl \<in> set (Flags c). \<forall>n \<in> set (flag_names fl).
        \<exists>v. looked_up ctx n = Some v \<and> fits fl v \<and> reads_as fl ctx n = read_value v))"
proof (rule main_cases [OF assms, of args])
  fix ctx
  assume run: "main env (ns @ args) = Fatalf msg f env ctx" and "parseFlags (Flags c @ [HelpFlag]) args = Inr (parsed ctx)"
  then have "typed (Flags c @ [HelpFlag]) (parsed ctx)"
    by (intro parseFlags_typed declared_defaults_fit [OF assms(1)])
  then show ?thesis using run typed_reads by fastforce
qed simp

section \<open>A flag that is not declared\<close>

text \<open>Every action of a command reads a name that is not declared as the zero value.\<close>

lemma undeclared_reads_zero:
  assumes "parseFlags fl args = Inr (parsed c)" and "list_all (\<lambda>f. fits f (flag_default f)) fl"
    and "\<forall>f \<in> set fl. n \<notin> set (flag_names f)"
  shows "IntOf c n = 0"
proof -
  have "looked_up c n = None"
    using parseFlags_typed [OF assms(1,2)] assms(3) by (cases "looked_up c n") (auto simp: typed_def)
  moreover have "ParseInt [] = None" by (simp add: ParseInt_def)
  ultimately show ?thesis by (simp add: IntOf_def text_in_def)
qed

lemma logs_NewClient: "logs (NewClient env) (\<lambda>r es. es = [])"
  by (simp add: traces_def NewClient_def Let_def split: prod.split option.split)

lemma logs_one_request:
  "logs (io_bind (NewClient env) (\<lambda>spdkCli. io_bind (on_spdk (rpc spdkCli meth req d)) (\<lambda>x. io_return (g x))))
     (\<lambda>r es. es = [] \<or> es = [Called \<lparr> rc_method = meth, rc_params = drop_empty_params req, rc_timeout = DefaultShortTimeout \<rparr>])"
proof (rule logs_bind [OF logs_NewClient])
  fix spdkCli and es :: "event list"
  assume "es = []"
  show "logs (io_bind (on_spdk (rpc spdkCli meth req d)) (\<lambda>x. io_return (g x)))
     (\<lambda>r es'. es @ es' = [] \<or> es @ es' =
       [Called \<lparr> rc_method = meth, rc_params = drop_empty_params req, rc_timeout = DefaultShortTimeout \<rparr>])"
    by (rule logs_bind [OF logs_on_spdk [OF runs_rpc]])
      (use \<open>es = []\<close> in \<open>auto intro!: logs_return simp: one_call_def\<close>)
qed simp

lemma logs_Fatalf: "logs (f env c) (\<lambda>r es. P es) \<Longrightarrow> logs (Fatalf msg f env c) (\<lambda>r es. P es)"
  unfolding Fatalf_def by (rule logs_case) (auto intro: logs_fail logs_return)

text \<open>What a command may log, whatever its arguments are: nothing, or what its action logs in a context the parser gives.\<close>

lemma logs_main:
  assumes path: "path (app env) ns groups c" and leaf: "Subcommands c = []" "Action c = Some (Fatalf msg f)" and "P []"
    and act: "\<And>ctx. parseFlags (Flags c @ [HelpFlag]) args = Inr (parsed ctx) \<Longrightarrow> logs (f env ctx) (\<lambda>r es. P es)"
  shows "logs (main env (ns @ args)) (\<lambda>r es. P es)"
proof (rule main_cases [OF path leaf, of args])
  assume h: "harmless (main env (ns @ args))"
  have "snd (main env (ns @ args) w) = w" for w using spec [OF h [unfolded harmless_def], of w] by auto
  then show ?thesis using \<open>P []\<close> by (simp add: traces_def)
next
  fix ctx assume "main env (ns @ args) = Fatalf msg f env ctx" "parseFlags (Flags c @ [HelpFlag]) args = Inr (parsed ctx)"
  then show ?thesis using logs_Fatalf [of f env ctx P msg] act by simp
qed

lemma option_set_path:
  "path (app env) [''bdev-nvme'', ''option-set''] [BdevNvmeCmd, app env] BdevNvmeSetOptionsCmd"
  by (rule path_command;
      simp add: app_commands_def BdevNvmeCmd_def BdevNvmeSetOptionsCmd_def command_names_def)

definition sends_options :: "i32 \<Rightarrow> event list \<Rightarrow> bool" where
  "sends_options keep_alive es =
     (es = [] \<or> (\<exists>loss delay fail ack. es =
        [Called \<lparr> rc_method = ''bdev_nvme_set_options'',
           rc_params = drop_empty_params (BdevNvmeSetOptionsRequest loss delay fail ack keep_alive),
           rc_timeout = DefaultShortTimeout \<rparr>]))"

lemma keep_alive_undeclared:
  "f \<in> set (Flags BdevNvmeSetOptionsCmd @ [HelpFlag]) \<Longrightarrow> ''keep_alive_timeout_ms'' \<notin> set (flag_names f)"
  by (auto simp: BdevNvmeSetOptionsCmd_def HelpFlag_def flag_names_eval is_space_def)

text \<open>
  Property C34. The NVMe options of a running target can be set from the command line except the keep-alive timeout: the
  action reads it from a flag that the command does not declare, so that whatever the arguments are, a run of
  \<open>bdev-nvme option-set\<close> sends at most one request, the one that sets the options, and that request asks for a
  keep-alive timeout of 0.
\<close>

theorem keep_alive_always_zero:
  fixes env :: "'w cli_env"
  shows "logs (main env ([''bdev-nvme'', ''option-set''] @ args)) (\<lambda>r es. sends_options 0 es)"
proof (rule logs_main [OF option_set_path])
  show "Subcommands BdevNvmeSetOptionsCmd = []"
    and "Action BdevNvmeSetOptionsCmd = Some (Fatalf (\<lambda>_. ''Failed to run set nvme options command'') bdevNvmeSetOptions)"
    and "sends_options 0 []"
    by (simp_all add: BdevNvmeSetOptionsCmd_def sends_options_def)
next
  let ?cmd = "BdevNvmeSetOptionsCmd :: 'w Command"
  fix ctx :: cli_context
  assume p: "parseFlags (Flags ?cmd @ [HelpFlag]) args = Inr (parsed ctx)"
  have "list_all (\<lambda>f. fits f (flag_default f)) (Flags ?cmd @ [HelpFlag])" by (rule declared_defaults_fit [OF option_set_path])
  then have "IntOf ctx ''keep_alive_timeout_ms'' = 0"
    using undeclared_reads_zero [OF p] keep_alive_undeclared by blast
  then show "logs (bdevNvmeSetOptions env ctx) (\<lambda>r es. sends_options 0 es)"
    unfolding bdevNvmeSetOptions_def BdevNvmeSetOptions_def PrintObject_def
    by (intro logs_mono [OF logs_one_request]) (auto simp: sends_options_def)
qed

section \<open>Required flags\<close>

lemma main_missing:
  assumes path: "path (app env) ns groups c" and leaf: "Subcommands c = []" "Action c = Some (Fatalf msg f)"
    and flag: "fl \<in> set (Flags c)" "IsRequired fl" and absent: "\<And>n. n \<in> set (flag_names fl) \<Longrightarrow> \<not> names_flag args n"
  shows "harmless (main env (ns @ args))"
proof (rule main_cases [OF path leaf, of args])
  note wf = path_well_formed [OF path app_well_formed]
  fix ctx
  assume p: "parseFlags (Flags c @ [HelpFlag]) args = Inr (parsed ctx)"
    and ok: "checkRequiredFlags (Flags c @ [HelpFlag]) (parsed ctx) = None"
  have "n \<noteq> []" if "n \<in> set (flag_names fl)" for n
    using well_formedD(1) [OF wf] flag(1) that by (auto simp: well_flagged_def list_all_iff)
  moreover have "filter (\<lambda>n. 1 < length n) (flag_names fl) \<noteq> []"
    using well_formedD(2) [OF wf flag(1)] by (auto simp: filter_empty_conv)
  ultimately have "\<exists>e. checkRequiredFlags (Flags c @ [HelpFlag]) (parsed ctx) = Some (PlainErr e)"
    using required_missing [OF p _ flag(2)] flag(1) absent by simp
  with ok show ?thesis by simp
qed

text \<open>
  Property C28. A required flag is really required: if no argument names a required flag of the command, under any of its
  names, a run of the tool leaves everything as it was (no socket is opened, no command is run) and ends by showing
  help or by exiting with an error, whatever else the arguments are.
\<close>

theorem required_flag_missing:
  assumes "path (app env) ns groups c" and "Subcommands c = []" and "Action c = Some (Fatalf msg f)"
    and "fl \<in> set (Flags c)" and "IsRequired fl" and "\<forall>n \<in> set (flag_names fl). \<not> names_flag args n"
  shows "harmless (main env (ns @ args))"
  using assms main_missing [of env ns groups c msg f fl args] by blast

end
