(* ===== verification/CliExamples.thy ===== *)
theory CliExamples
  imports CliRuns
begin

text \<open>
  Runs of the tool on given arguments, against a server that answers from a list.
\<close>

section \<open>A setting\<close>

definition quiet_node :: "Response list node_env" where
  "quiet_node = \<lparr> executor = (\<lambda>c w. (Inr [], w)), spdk = scripted, sys = (\<lambda>c w. (None, w)),
     unix_stat = (\<lambda>p w. (Inl (NotExistErr ''no such file or directory''), w)),
     os_remove = (\<lambda>p w. (Some None, w)), range_order = (\<lambda>_ _. []) \<rparr>"

definition sample_env :: "Response list cli_env" where
  "sample_env = \<lparr> dial = (\<lambda>network path w. (None, w)), socket = scripted, hang_up = (\<lambda>w. (None, w)), enter = (\<lambda>proc w. (None, w)),
     node_of = (\<lambda>proc. quiet_node), SPDK_DIR = ''/usr/src/spdk'' \<rparr>"

definition start :: "Response list \<Rightarrow> (process, Response list) node" where
  "start w = \<lparr> obj = \<lparr> self = \<lparr> Name = [], Endpoint = [], dev = None, isUp = False, NVMeTCPInfo = None,
       UblkInfo = None, hostProc = [] \<rparr>, isUblkTargetCreated = False, idGenerator = \<lparr> lastCandidate = 0 \<rparr> \<rparr>,
     log = [], outside = w \<rparr>"

section \<open>Starting a disk\<close>

lemma digits_5: "itoa 5 = ''5''" and digits_128: "itoa 128 = ''128''" and digits_1: "itoa 1 = ''1''"
  by code_simp+

lemma read_5: "ParseInt ''5'' = Some 5" and read_128: "ParseInt ''128'' = Some 128" and read_1: "ParseInt ''1'' = Some 1"
  using ParseInt_itoa [of 5] ParseInt_itoa [of 128] ParseInt_itoa [of 1] by (simp_all add: digits_5 digits_128 digits_1)

lemmas small_numbers = digits_5 digits_128 digits_1 read_5 read_128 read_1

text \<open>\<open>ublk start-disk --ublk-id=5 --bdev-name=lvs/v\<close>.\<close>

definition disk_values :: "(flag \<times> string \<times> string) list" where
  "disk_values = [(IntFlag ''ublk-id'' True 0, ''ublk-id'', ''5''), (StringFlag ''bdev-name'' True [], ''bdev-name'', ''lvs/v'')]"

abbreviation start_disk :: "Response list Command" where
  "start_disk \<equiv> UblkStartDiskCmd"

lemma disk_values_fill: "fills (Flags start_disk) disk_values"
  by (simp add: fills_def disk_values_def UblkStartDiskCmd_def ublk_flag_names small_numbers)

lemma disk_line: "written disk_values = [''--ublk-id=5'', ''--bdev-name=lvs/v'']"
  by (simp add: written_def disk_values_def assign_def)

theorem actions_are_typed_witness:
  "harmless (main sample_env ([''ublk'', ''start-disk''] @ written disk_values)) \<or>
    (\<exists>ctx. main sample_env ([''ublk'', ''start-disk''] @ written disk_values) =
        Fatalf (\<lambda>_. ''Failed to run UblkStartDiskCmd'') ublkStartDisk sample_env ctx \<and>
      typed (Flags start_disk @ [HelpFlag]) (parsed ctx) \<and>
      (\<forall>fl \<in> set (Flags start_disk). \<forall>n \<in> set (flag_names fl).
        \<exists>v. looked_up ctx n = Some v \<and> fits fl v \<and> reads_as fl ctx n = read_value v))"
  by (rule actions_are_typed [OF ublk_path(2)]) (simp_all add: UblkStartDiskCmd_def)

theorem main_runs_command_witness:
  "log (snd (main sample_env [''ublk'', ''start-disk'', ''--ublk-id=5'', ''--bdev-name=lvs/v''] (start [answer JNull]))) =
     [Called \<lparr> rc_method = ''ublk_start_disk'', rc_params = UblkStartDiskRequest ''lvs/v'' 5 128 1,
        rc_timeout = DefaultShortTimeout \<rparr>]"
proof -
  obtain ctx where run: "main sample_env ([''ublk'', ''start-disk''] @ written disk_values) =
      Fatalf (\<lambda>_. ''Failed to run UblkStartDiskCmd'') ublkStartDisk sample_env ctx"
    and ctx: "line_context start_disk [UblkCmd, app sample_env] disk_values [] ctx"
    using main_runs_command [OF ublk_path(2) _ _ disk_values_fill, where ps = "[]" and f = ublkStartDisk
        and args = "written disk_values" and msg = "\<lambda>_. ''Failed to run UblkStartDiskCmd''" and env = sample_env]
    by (auto simp: UblkStartDiskCmd_def disk_values_def)
  have other: "looked_up ctx m = Some (flag_default f)"
    if "f \<in> set (Flags start_disk) - fst ` set disk_values" "m \<in> set (flag_names f)" for f m
    using ctx that by (auto simp: line_context_def line_values_def)
  have "looked_up ctx ''ublk-id'' = Some (VInt 5)" "looked_up ctx ''bdev-name'' = Some (VString ''lvs/v'')"
    using ctx by (auto simp: line_context_def line_values_def disk_values_def small_numbers)
  moreover have "looked_up ctx ''queue-depth'' = Some (VInt 128)" "looked_up ctx ''num-queues'' = Some (VInt 1)"
    using other [of "IntFlag ''queue-depth'' False 128"] other [of "IntFlag ''num-queues'' False 1"]
    by (auto simp: UblkStartDiskCmd_def disk_values_def ublk_flag_names)
  ultimately have reads: "IntOf ctx ''ublk-id'' = 5" "StringOf ctx ''bdev-name'' = ''lvs/v''"
    "IntOf ctx ''queue-depth'' = 128" "IntOf ctx ''num-queues'' = 1"
    by (simp_all add: IntOf_def StringOf_def text_in_def small_numbers)
  have "NewClient sample_env (start [answer JNull]) = (Inr scripted, start [answer JNull])"
    by (simp add: NewClient_def sample_env_def start_def)
  moreover have "on_spdk (UblkStartDisk scripted ''lvs/v'' 5 128 1) (start [answer JNull]) =
      (Inr (), (start [])\<lparr> log := [Called \<lparr> rc_method = ''ublk_start_disk'',
         rc_params = UblkStartDiskRequest ''lvs/v'' 5 128 1, rc_timeout = DefaultShortTimeout \<rparr>] \<rparr>)"
    by (simp add: on_spdk_def UblkStartDisk_def start_def dec_any_def UblkStartDiskRequest_def field_def drop_empty_params_def)
  ultimately show ?thesis
    using run by (simp add: disk_line Fatalf_def ublkStartDisk_def reads io_simps)
qed

section \<open>Starting the target without its directory\<close>

text \<open>The environment variable \<open>SPDK_DIR\<close> is the default of a required flag, and so is never used.\<close>

lemma spdktgt_path: "path (app env) [''spdk-tgt''] [app env] (CmdSpdktgt.Cmd env)"
proof -
  have "CmdSpdktgt.Cmd env \<in> set (Subcommands (app env))" by (simp add: app_def app_commands_def)
  moreover have "''spdk-tgt'' \<in> set (command_names (CmdSpdktgt.Cmd env))"
    by (simp add: CmdSpdktgt.Cmd_def command_names_def)
  ultimately have "path (app env) [''spdk-tgt''] ([] @ [app env]) (CmdSpdktgt.Cmd env)" by (rule path.down) (rule path.here)
  then show ?thesis by simp
qed

theorem required_flag_missing_witness:
  "harmless (main sample_env ([''spdk-tgt''] @ [''--timeout=60'']))"
proof (rule required_flag_missing [OF spdktgt_path])
  let ?fl = "StringFlag ''spdk-dir'' True (SPDK_DIR sample_env)"
  show "Subcommands (CmdSpdktgt.Cmd sample_env) = []" and "?fl \<in> set (Flags (CmdSpdktgt.Cmd sample_env))"
    and "IsRequired ?fl"
    and "Action (CmdSpdktgt.Cmd sample_env) = Some (Fatalf (\<lambda>_. ''Failed to run spdk-tgt start command'') spdkTGT)"
    by (simp_all add: CmdSpdktgt.Cmd_def)
  have "arg_name ''--timeout=60'' = ''timeout''" by code_simp
  then show "\<forall>n \<in> set (flag_names ?fl). \<not> names_flag [''--timeout=60''] n"
    by (simp add: names_flag_def flag_names_simple is_space_def)
qed

end
