(* ===== verification/CliInitiator.thy ===== *)
theory CliInitiator
  imports CliRuns InitiatorLocks
begin

text \<open>
  The commands that start and stop an initiator, as whole runs of the tool: with the default proc directory the lock
  refuses them; with the one of the host they hold the lock of the volume while they work.
\<close>

section \<open>A proc directory the lock refuses\<close>

definition foreign_proc :: "string \<Rightarrow> bool" where
  "foreign_proc proc = (proc \<noteq> [] \<and> proc \<noteq> HostProcDirectory)"

lemma locked_busy_refused:
  assumes "foreign_proc (hostProc (self (obj n)))"
  shows "\<exists>e. locked_busy env at_end m n = (Inr (False, Some e), n)"
  using assms
  by (auto simp: foreign_proc_def locked_busy_def or_return_def newLock_def io_bind_def io_case_def this_run io_fail_def
      io_return_def)

lemma Stop_refused:
  "foreign_proc (hostProc (self (obj n))) \<Longrightarrow> \<exists>e. Stop env b1 b2 b3 b4 n = (Inr (False, Some e), n)"
  unfolding Stop_def by (rule locked_busy_refused)

lemma Start_refused:
  assumes "foreign_proc (hostProc (self (obj n)))"
  shows "\<exists>e. StartNvmeTCPInitiator env a s b1 b2 n = (Inr (False, Some e), n)"
proof -
  obtain e where "locked_busy env (io_return ()) (start_nvme env a s b1 b2) n = (Inr (False, Some e), n)"
    using locked_busy_refused [OF assms] by blast
  then show ?thesis
    by (auto simp: StartNvmeTCPInitiator_def wrap_busy_def io_bind_def this_run io_return_def split: option.split)
qed

lemma busy_ignored_refused:
  "\<exists>e. m n = (Inr (b, Some e), n) \<Longrightarrow> \<exists>e. io_bind (busy_ignored m) k n = (Inl e, n)"
  by (auto simp: busy_ignored_def io_bind_def io_fail_def)

text \<open>Whatever stands before the refusal logs nothing.\<close>

lemma with_initiator_refused:
  assumes "foreign_proc proc"
    and "\<And>n. foreign_proc (hostProc (self (obj n))) \<Longrightarrow> \<exists>e. m n = (Inl e, n)"
  shows "\<exists>e n'. with_initiator env name proc info m n = (Inl e, n') \<and> log n' = log n"
proof (cases "NewInitiator name proc info None None")
  case (Inl e)
  then show ?thesis by (auto simp: with_initiator_def io_bind_def io_lift_def)
next
  case (Inr i)
  then have i: "hostProc i = proc" by (auto simp: NewInitiator_def split: if_splits)
  obtain err w where en: "enter env ProcDirectory (outside n) = (err, w)" by fastforce
  show ?thesis
  proof (cases err)
    case None
    let ?n = "n\<lparr> outside := w, obj := (obj n)\<lparr> self := i \<rparr> \<rparr>"
    have "foreign_proc (hostProc (self (obj ?n)))" using i assms(1) by simp
    then obtain e where "m ?n = (Inl e, ?n)" using assms(2) by blast
    then show ?thesis
      using Inr en None by (simp add: with_initiator_def io_bind_def io_lift_def NewExecutor_def set_self_run)
  qed (use Inr en in \<open>simp add: with_initiator_def io_bind_def io_lift_def NewExecutor_def\<close>)
qed

lemma Fatalf_error:
  "\<exists>e n'. f env c n = (Inl e, n') \<and> log n' = l \<Longrightarrow> \<exists>e n'. Fatalf msg f env c n = (Inl e, n') \<and> log n' = l"
  by (auto simp: Fatalf_def io_case_def io_fail_def)

lemma start_refused:
  "foreign_proc (GlobalString c ''host-proc'') \<Longrightarrow> \<exists>e n'. start env c n = (Inl e, n') \<and> log n' = log n"
  unfolding start_def Let_def by (rule with_initiator_refused) (assumption, rule busy_ignored_refused [OF Start_refused])

lemma stop_refused:
  "foreign_proc (GlobalString c ''host-proc'') \<Longrightarrow> \<exists>e n'. stop env c n = (Inl e, n') \<and> log n' = log n"
  unfolding stop_def Let_def by (rule with_initiator_refused) (assumption, rule busy_ignored_refused [OF Stop_refused])

section \<open>The default proc directory\<close>

lemma nvmecli_path:
  "path (app env) [''nvmecli'', ''start''] [CmdNvmecli.Cmd, app env] StartCmd"
  "path (app env) [''nvmecli'', ''stop''] [CmdNvmecli.Cmd, app env] StopCmd"
  by (rule path_command;
      simp add: app_commands_def CmdNvmecli.Cmd_def StartCmd_def StopCmd_def command_names_def)+

lemma default_proc:
  assumes "line_context c [CmdNvmecli.Cmd, app env] gs ps ctx"
  shows "GlobalString ctx ''host-proc'' = ''/proc''"
proof -
  obtain fs1 fs2 where p: "parents ctx = [fs1, fs2]" and "defaults_of fs1 (CmdNvmecli.Cmd :: 'a Command)"
    using assms by (auto simp: line_context_def list_all2_Cons2)
  then obtain fs0 where "flagSet ([StringFlag ''host-proc'' False ProcDirectory] @ [HelpFlag]) = Inr fs0"
    and "formal fs1 = formal fs0"
    by (auto simp: defaults_of_def CmdNvmecli.Cmd_def)
  then have "formal fs1 ''host-proc'' = Some (VString ''/proc'')"
    using declared_value [of "[StringFlag ''host-proc'' False ProcDirectory] @ [HelpFlag]" fs0
        "StringFlag ''host-proc'' False ProcDirectory" "''host-proc''"]
    by (simp add: flag_names_simple is_space_def const_defs)
  with p show ?thesis by (simp add: GlobalString_def text_in_def)
qed

lemma proc_is_foreign: "foreign_proc ''/proc''"
  by (simp add: foreign_proc_def HostProcDirectory_def)

lemma initiator_flag_names:
  "flag_names (StringFlag ''name'' True []) = [''name'']"
  "flag_names (StringFlag ''traddr'' True LocalIP) = [''traddr'']"
  "flag_names (StringFlag ''trsvcid'' True []) = [''trsvcid'']"
  "flag_names (StringFlag ''nqn'' True []) = [''nqn'']"
  by (simp_all add: flag_names_simple is_space_def)

text \<open>
  Property C18. Without \<open>--host-proc\<close>, an initiator can be neither started nor stopped from the command line: its proc
  directory is then \<open>/proc\<close>, the documented default of the command, but the lock of an initiator accepts only
  \<open>/host/proc\<close>. Whatever the name, the address and the subsystem are, and whatever the host answers, the run ends in an
  error before it has run a command, made a system call or sent a request.
\<close>

theorem default_host_proc_refused:
  "(\<exists>e n'. main env [''nvmecli'', ''start'', assign ''name'' nm, assign ''traddr'' a, assign ''trsvcid'' s,
      assign ''nqn'' q] n = (Inl e, n') \<and> log n' = log n) \<and>
   (\<exists>e n'. main env [''nvmecli'', ''stop'', assign ''name'' nm, assign ''nqn'' q] n = (Inl e, n') \<and> log n' = log n)"
proof (intro conjI)
  let ?gs = "[(StringFlag ''name'' True [], ''name'', nm), (StringFlag ''traddr'' True LocalIP, ''traddr'', a),
    (StringFlag ''trsvcid'' True [], ''trsvcid'', s), (StringFlag ''nqn'' True [], ''nqn'', q)]"
  obtain ctx where run: "main env ([''nvmecli'', ''start''] @ written ?gs) =
      Fatalf (\<lambda>_. ''Failed to run initiator start command'') start env ctx"
    and ctx: "line_context StartCmd [CmdNvmecli.Cmd, app env] ?gs [] ctx"
    by (rule main_runs [OF nvmecli_path(1), where gs = ?gs and ps = "[]" and f = start
          and msg = "\<lambda>_. ''Failed to run initiator start command''" and args = "written ?gs"])
      (simp_all add: StartCmd_def fills_def initiator_flag_names)
  have "\<exists>e n'. start env ctx n = (Inl e, n') \<and> log n' = log n"
    by (rule start_refused) (simp add: default_proc [OF ctx] proc_is_foreign)
  then show "\<exists>e n'. main env [''nvmecli'', ''start'', assign ''name'' nm, assign ''traddr'' a, assign ''trsvcid'' s,
      assign ''nqn'' q] n = (Inl e, n') \<and> log n' = log n"
    using run Fatalf_error [of start env ctx n "log n"] by (simp add: written_def)
next
  let ?gs = "[(StringFlag ''name'' True [], ''name'', nm), (StringFlag ''nqn'' True [], ''nqn'', q)]"
  obtain ctx where run: "main env ([''nvmecli'', ''stop''] @ written ?gs) =
      Fatalf (\<lambda>_. ''Failed to run initiator stop command'') stop env ctx"
    and ctx: "line_context StopCmd [CmdNvmecli.Cmd, app env] ?gs [] ctx"
    by (rule main_runs [OF nvmecli_path(2), where gs = ?gs and ps = "[]" and f = stop
          and msg = "\<lambda>_. ''Failed to run initiator stop command''" and args = "written ?gs"])
      (simp_all add: StopCmd_def fills_def initiator_flag_names)
  have "\<exists>e n'. stop env ctx n = (Inl e, n') \<and> log n' = log n"
    by (rule stop_refused) (simp add: default_proc [OF ctx] proc_is_foreign)
  then show "\<exists>e n'. main env [''nvmecli'', ''stop'', assign ''name'' nm, assign ''nqn'' q] n = (Inl e, n') \<and>
      log n' = log n"
    using run Fatalf_error [of stop env ctx n "log n"] by (simp add: written_def)
qed

section \<open>The proc directory of the host\<close>

text \<open>The flag of the group, before the name of the command.\<close>

abbreviation host_proc_flags :: "flag list" where
  "host_proc_flags \<equiv> [StringFlag ''host-proc'' False ProcDirectory, HelpFlag]"

lemma host_proc_names:
  "flag_names (StringFlag ''host-proc'' False ProcDirectory) = [''host-proc'']" "flag_names HelpFlag = [''help'', ''h'']"
  by (simp add: flag_names_simple is_space_def) (simp add: HelpFlag_def flag_names_aliased [OF _ aliased(1)])

lemma parse_host_proc:
  assumes "\<not> has_prefix ''-'' a"
  shows "\<exists>fs. parse_app host_proc_flags encl (assign ''host-proc'' t # a # as) = Inr \<lparr> parsed = fs, parents = encl \<rparr> \<and>
    Args fs = a # as \<and> formal fs ''host-proc'' = Some (VString t) \<and>
    formal fs ''help'' = Some (VBool False) \<and> formal fs ''h'' = Some (VBool False)"
proof -
  have "well_flagged host_proc_flags" by (simp add: declared_simps)
  then obtain fs0 where fs0: "flagSet host_proc_flags = Inr fs0" by (rule flagSet_ok)
  have old: "formal fs0 ''host-proc'' = Some (VString ProcDirectory)"
    using declared_value [OF fs0, of "StringFlag ''host-proc'' False ProcDirectory" "''host-proc''"]
    by (simp add: host_proc_names)
  have hf: "formal fs0 ''help'' = Some (VBool False)" "formal fs0 ''h'' = Some (VBool False)"
    using help_declared [of "[StringFlag ''host-proc'' False ProcDirectory]" fs0] fs0 by simp_all
  let ?fs = "store host_proc_flags ''host-proc'' (VString t) fs0"
  have p: "parse_flags host_proc_flags fs0 (assign ''host-proc'' t # a # as) = (None, ?fs\<lparr> Args := a # as \<rparr>)"
  proof -
    have "length a < 2 \<or> hd a \<noteq> CHR ''-''" using assms by (cases a) auto
    then show ?thesis
      using parse_assignment [of "''host-proc''" fs0 "VString ProcDirectory" t "VString t" host_proc_flags "a # as"] old
      by (simp add: well_named_def)
  qed
  have "actual ?fs = {''host-proc''}" using flagSet_Inr(3) [OF fs0] by (simp add: store_def)
  then have "normalizeFlags host_proc_flags (?fs\<lparr> Args := a # as \<rparr>) = (None, ?fs\<lparr> Args := a # as \<rparr>)"
    by (simp add: normalizeFlags_def host_proc_names)
  then have "parse_app host_proc_flags encl (assign ''host-proc'' t # a # as) =
      Inr \<lparr> parsed = ?fs\<lparr> Args := a # as \<rparr>, parents = encl \<rparr>"
    using fs0 p by (simp add: parse_app_def del: parse_flags.simps)
  moreover have "formal ?fs = (formal fs0)(''host-proc'' \<mapsto> VString t)" by (rule store_scalar) simp
  ultimately show ?thesis using hf by (intro exI [of _ "?fs\<lparr> Args := a # as \<rparr>"]) simp
qed

lemma run_nvmecli:
  fixes c :: "'w Command"
  assumes c: "c \<in> set (Subcommands CmdNvmecli.Cmd)" "m \<in> set (command_names c)"
  shows "\<exists>fs. formal fs ''host-proc'' = Some (VString t) \<and>
    run_command env encl CmdNvmecli.Cmd (assign ''host-proc'' t # m # args) = run_command env (fs # encl) c args"
proof -
  obtain name short fl subs act where cmd: "(CmdNvmecli.Cmd :: 'w Command) = Command name short fl subs act"
    by (cases "CmdNvmecli.Cmd :: 'w Command")
  then have fl: "fl = [StringFlag ''host-proc'' False ProcDirectory]" by (simp add: CmdNvmecli.Cmd_def)
  have wf: "well_formed (Command name short fl subs act)" using declared_CmdNvmecli [where 'a = 'w] unfolding cmd .
  have c': "c \<in> set subs" using c(1) unfolding cmd by simp
  then have m: "\<not> has_prefix ''-'' m" and ne: "subs \<noteq> []" using wf c(2) by (auto simp: list_all_iff)
  have d: "distinct (''help'' # ''h'' # concat (map command_names subs))" using wf by simp
  then have f: "find (HasName m) subs = Some c" using find_command [OF _ c' c(2)] by simp
  have "\<not> list_ex (HasName ''help'') subs" using d by (auto simp: list_ex_iff HasName_iff)
  then have g: "group_flags subs fl = host_proc_flags" by (simp add: group_flags_def HelpFlag_def fl)
  obtain fs where fs: "parse_app host_proc_flags encl (assign ''host-proc'' t # m # args) = Inr \<lparr> parsed = fs, parents = encl \<rparr>"
    and a: "Args fs = m # args" and v: "formal fs ''host-proc'' = Some (VString t)"
    and h: "formal fs ''help'' = Some (VBool False)" "formal fs ''h'' = Some (VBool False)"
    using parse_host_proc [OF m] by blast
  have nh: "\<not> asked_for_help \<lparr> parsed = fs, parents = encl \<rparr>" by (rule no_help) (simp_all add: h)
  have r: "checkRequiredFlags host_proc_flags fs = None"
    using no_required [of "[StringFlag ''host-proc'' False ProcDirectory]"] by simp
  have "run_command env encl CmdNvmecli.Cmd (assign ''host-proc'' t # m # args) = run_command env (fs # encl) c args"
    using g f fs a nh r ne unfolding cmd by simp
  then show ?thesis using v by blast
qed

lemma run_nvmecli_line:
  fixes c :: "'w Command"
  assumes c: "c \<in> set (Subcommands CmdNvmecli.Cmd)" "k \<in> set (command_names c)"
    and leaf: "Subcommands c = []" "Action c = Some (Fatalf msg f)"
    and gs: "fills (Flags c) gs" and req: "\<And>f. f \<in> set (Flags c) \<Longrightarrow> IsRequired f \<Longrightarrow> f \<in> fst ` set gs"
  obtains ctx where "main env ([''nvmecli'', assign ''host-proc'' t, k] @ written gs) = Fatalf msg f env ctx"
    and "line_values c gs [] ctx" and "GlobalString ctx ''host-proc'' = t"
proof -
  have app: "CmdNvmecli.Cmd \<in> set (app_commands env)" by (simp add: app_commands_def)
  have n: "''nvmecli'' \<in> set (command_names (CmdNvmecli.Cmd :: 'w Command))" by (simp add: command_names_def CmdNvmecli.Cmd_def)
  have wf: "well_formed (Command ''go-spdk-helper'' [] [BoolFlag ''debug''] (app_commands env) None)"
    using app_well_formed [of env] unfolding app_def .
  obtain fs where run: "run_command env [] (app env) (''nvmecli'' # assign ''host-proc'' t # k # written gs) =
      run_command env [fs] CmdNvmecli.Cmd (assign ''host-proc'' t # k # written gs)"
    using run_command_group [OF wf app n, of env "[]" "assign ''host-proc'' t # k # written gs"] by (auto simp: app_def)
  obtain fs' where host: "formal fs' ''host-proc'' = Some (VString t)"
    and run': "run_command env [fs] CmdNvmecli.Cmd (assign ''host-proc'' t # k # written gs) =
      run_command env [fs', fs] c (written gs)"
    using run_nvmecli [OF c, of t env "[fs]" "written gs"] by auto
  have wc: "well_formed c" using path_well_formed [OF path_command [OF app n c] app_well_formed] .
  obtain ctx where "run_leaf env [fs', fs] (Flags c) (Fatalf msg f) (written gs) = Fatalf msg f env ctx"
    and ctx: "line_values c gs [] ctx" "parents ctx = [fs', fs]"
    by (rule run_leaf_line [OF wc gs req, of "[]" "written gs" env "[fs', fs]" "Fatalf msg f"]) simp_all
  then have "run_command env [fs', fs] c (written gs) = Fatalf msg f env ctx" using leaf by (cases c) simp
  then have "main env ([''nvmecli'', assign ''host-proc'' t, k] @ written gs) = Fatalf msg f env ctx"
    using run run' by (intro main_Fatalf) simp
  then show thesis using ctx host that by (simp add: GlobalString_def text_in_def)
qed

section \<open>Inside the lock\<close>

text \<open>What is left of a guarded operation inside an action: the initiator is the one that the action made, and its lock
  was asked for in the state that creating the executor left. How the run ends plays no part.\<close>

definition locked_run ::
  "'w cli_env \<Rightarrow> (event list \<Rightarrow> bool) \<Rightarrow> string \<Rightarrow> (Initiator \<Rightarrow> syscall list) \<Rightarrow> (process, 'w) node \<Rightarrow>
    (go_error + 'a) \<times> (process, 'w) node \<Rightarrow> bool" where
  "locked_run env exits nm tail n res =
     (\<exists>i es. Initiator.Name i = nm \<and> hostProc i = ''/host/proc'' \<and> log (snd res) = log n @ es \<and>
       bracketed exits (node_of env ProcDirectory) (snd (enter env ProcDirectory (outside n))) i (tail i) es)"

lemma locked_run_nothing:
  assumes "log n' = log n"
  shows "locked_run env exits nm tail n (r, n')"
proof -
  fix i :: Initiator
  show ?thesis
    using assms unfolding locked_run_def
    by (intro exI [of _ "i\<lparr> Initiator.Name := nm, hostProc := ''/host/proc'' \<rparr>"] exI [of _ "[]"]) (simp add: bracketed_def)
qed

lemma locked_run_log: "log n'' = log n' \<Longrightarrow> locked_run env exits nm tail n (r, n') \<Longrightarrow> locked_run env exits nm tail n (r', n'')"
  by (simp add: locked_run_def)

lemma locked_with_initiator:
  assumes "guarded (node_of env ProcDirectory) exits tail m" and proc: "proc = ''/host/proc''"
  shows "locked_run env exits name tail n (with_initiator env name proc info m n)"
proof (cases "NewInitiator name proc info None None")
  case (Inl e)
  then show ?thesis
    by (simp add: with_initiator_def io_bind_def io_lift_def locked_run_nothing)
next
  case (Inr i)
  then have i: "hostProc i = ''/host/proc''" "Initiator.Name i = name" by (auto simp: NewInitiator_def proc split: if_splits)
  obtain err w where en: "enter env ProcDirectory (outside n) = (err, w)" by fastforce
  show ?thesis
  proof (cases err)
    case None
    let ?n = "n\<lparr> outside := w, obj := (obj n)\<lparr> self := i \<rparr> \<rparr>"
    obtain es where "log (snd (m ?n)) = log ?n @ es"
      "bracketed exits (node_of env ProcDirectory) (outside ?n) (self (obj ?n)) (tail i) es"
      using assms(1) i(1) unfolding guarded_def by (elim allE [of _ ?n]) auto
    then have "locked_run env exits name tail n (m ?n)" using i en unfolding locked_run_def by auto
    then show ?thesis
      using Inr en None by (simp add: with_initiator_def io_bind_def io_lift_def NewExecutor_def set_self_run)
  next
    case (Some e)
    then show ?thesis
      using Inr en by (simp add: with_initiator_def io_bind_def io_lift_def NewExecutor_def locked_run_nothing)
  qed
qed

lemma guarded_then:
  assumes "guarded env exits tail m" and "\<And>x n. log (snd (k x n)) = log n"
  shows "guarded env exits tail (io_bind m k)"
proof -
  have "log (snd (io_bind m k n)) = log (snd (m n))" for n
    using assms(2) by (cases "m n") (auto simp: io_bind_def split: sum.split)
  with assms(1) show ?thesis by (simp add: guarded_def)
qed

lemma guarded_busy_ignored: "guarded env exits tail m \<Longrightarrow> guarded env exits tail (busy_ignored m)"
  unfolding busy_ignored_def by (rule guarded_then) (auto simp: io_return_def io_fail_def split: option.split)

lemma locked_run_Fatalf: "locked_run env exits nm tail n (f env c n) \<Longrightarrow> locked_run env exits nm tail n (Fatalf msg f env c n)"
  by (cases "f env c n")
    (auto elim!: locked_run_log [rotated] simp: Fatalf_def io_case_def io_fail_def io_return_def split: sum.split)

lemma start_locked:
  assumes "GlobalString c ''host-proc'' = ''/host/proc''" and "ordinary_env (node_of env ProcDirectory)"
  shows "locked_run env parting (StringOf c ''name'') unlocks n (start env c n)"
  unfolding start_def Let_def
  by (intro locked_with_initiator [OF _ assms(1)] guarded_then guarded_busy_ignored guarded_starts assms(2))
    (simp_all add: PrintObject_def io_bind_def this_run io_return_def)

lemma stop_locked:
  assumes "GlobalString c ''host-proc'' = ''/host/proc''" and "ordinary_env (node_of env ProcDirectory)"
  shows "locked_run env always_released (StringOf c ''name'') removes_then_unlocks n (stop env c n)"
  unfolding stop_def Let_def
  by (intro locked_with_initiator [OF _ assms(1)] guarded_then guarded_busy_ignored guarded_Stop assms(2)) (simp add: io_return_def)

text \<open>
  Property C16. With the proc directory of the host, starting and stopping an initiator from the command line work on the
  volume only under its lock: for every name, address and subsystem, and whatever the host answers, the run of the tool
  does nothing to the host, or only asks for the lock of the volume of that name and is refused, or takes it, works
  without touching a file lock and releases it, whether the run then succeeds or ends in an error; stopping removes the lock
  file just before the release. Starting leaves the lock behind in one case, when the directory of the endpoint
  cannot be made and the process exits on the spot; stopping never does.
\<close>

theorem initiator_commands_hold_the_lock:
  fixes env :: "'w cli_env"
  assumes node: "ordinary_env (node_of env ''/proc'')"
  shows "locked_run env parting nm unlocks n
     (main env ([''nvmecli'', assign ''host-proc'' ''/host/proc'', ''start''] @
        [assign ''name'' nm, assign ''traddr'' a, assign ''trsvcid'' s, assign ''nqn'' q]) n) \<and>
   locked_run env always_released nm removes_then_unlocks n
     (main env ([''nvmecli'', assign ''host-proc'' ''/host/proc'', ''stop''] @ [assign ''name'' nm, assign ''nqn'' q]) n)"
proof (intro conjI)
  let ?gs = "[(StringFlag ''name'' True [], ''name'', nm), (StringFlag ''traddr'' True LocalIP, ''traddr'', a),
    (StringFlag ''trsvcid'' True [], ''trsvcid'', s), (StringFlag ''nqn'' True [], ''nqn'', q)]"
  obtain ctx where run: "main env ([''nvmecli'', assign ''host-proc'' ''/host/proc'', ''start''] @ written ?gs) =
      Fatalf (\<lambda>_. ''Failed to run initiator start command'') start env ctx"
    and ctx: "line_values (StartCmd :: 'w Command) ?gs [] ctx" "GlobalString ctx ''host-proc'' = ''/host/proc''"
    by (rule run_nvmecli_line [where env = env and t = "''/host/proc''" and c = StartCmd and k = "''start''" and gs = ?gs and f = start
          and msg = "\<lambda>_. ''Failed to run initiator start command''"])
      (simp_all add: StartCmd_def CmdNvmecli.Cmd_def command_names_def fills_def initiator_flag_names)
  have "StringOf ctx ''name'' = nm" using ctx(1) by (simp add: line_values_def StringOf_def text_in_def)
  then have "locked_run env parting nm unlocks n (start env ctx n)"
    using start_locked [of ctx env n] ctx(2) node by (simp add: ProcDirectory_def)
  then show "locked_run env parting nm unlocks n
     (main env ([''nvmecli'', assign ''host-proc'' ''/host/proc'', ''start''] @
        [assign ''name'' nm, assign ''traddr'' a, assign ''trsvcid'' s, assign ''nqn'' q]) n)"
    using run by (simp add: written_def locked_run_Fatalf)
next
  let ?gs = "[(StringFlag ''name'' True [], ''name'', nm), (StringFlag ''nqn'' True [], ''nqn'', q)]"
  obtain ctx where run: "main env ([''nvmecli'', assign ''host-proc'' ''/host/proc'', ''stop''] @ written ?gs) =
      Fatalf (\<lambda>_. ''Failed to run initiator stop command'') stop env ctx"
    and ctx: "line_values (StopCmd :: 'w Command) ?gs [] ctx" "GlobalString ctx ''host-proc'' = ''/host/proc''"
    by (rule run_nvmecli_line [where env = env and t = "''/host/proc''" and c = StopCmd and k = "''stop''" and gs = ?gs and f = stop
          and msg = "\<lambda>_. ''Failed to run initiator stop command''"])
      (simp_all add: StopCmd_def CmdNvmecli.Cmd_def command_names_def fills_def initiator_flag_names)
  have "StringOf ctx ''name'' = nm" using ctx(1) by (simp add: line_values_def StringOf_def text_in_def)
  then have "locked_run env always_released nm removes_then_unlocks n (stop env ctx n)"
    using stop_locked [of ctx env n] ctx(2) node by (simp add: ProcDirectory_def)
  then show "locked_run env always_released nm removes_then_unlocks n
     (main env ([''nvmecli'', assign ''host-proc'' ''/host/proc'', ''stop''] @ [assign ''name'' nm, assign ''nqn'' q]) n)"
    using run by (simp add: written_def locked_run_Fatalf)
qed

text \<open>A host whose kernel is a table of nodes and whose commands all fail.\<close>

definition table_cli :: "(string \<rightharpoonup> stat_info) cli_env" where
  "table_cli = \<lparr> dial = (\<lambda>network path w. (None, w)), socket = silent_spdk, hang_up = (\<lambda>w. (None, w)),
     enter = (\<lambda>proc w. (None, w)), node_of = (\<lambda>proc. table_env), SPDK_DIR = [] \<rparr>"

theorem initiator_commands_hold_the_lock_witness:
  "locked_run table_cli parting ''v'' unlocks (run_node fresh_process Map.empty [])
     (main table_cli ([''nvmecli'', assign ''host-proc'' ''/host/proc'', ''start''] @
        [assign ''name'' ''v'', assign ''traddr'' ''10.0.0.1'', assign ''trsvcid'' ''4420'', assign ''nqn'' ''nqn.a''])
      (run_node fresh_process Map.empty [])) \<and>
   locked_run table_cli always_released ''v'' removes_then_unlocks (run_node fresh_process Map.empty [])
     (main table_cli ([''nvmecli'', assign ''host-proc'' ''/host/proc'', ''stop''] @ [assign ''name'' ''v'', assign ''nqn'' ''nqn.a''])
      (run_node fresh_process Map.empty []))"
  by (rule initiator_commands_hold_the_lock) (simp add: table_cli_def table_env_ordinary)

end
