(* ===== verification/CliRequests.thy ===== *)
theory CliRequests
  imports CliRuns
begin

text \<open>
  What the commands send: every command that stands for one method of SPDK issues at most one request, of that method,
  whatever its arguments are and whatever SPDK answers.
\<close>

section \<open>One request\<close>

definition sends :: "string \<Rightarrow> event list \<Rightarrow> bool" where
  "sends meth es =
     (es = [] \<or> (\<exists>ps t. es = [Called \<lparr> rc_method = meth, rc_params = ps, rc_timeout = t \<rparr>]))"

definition issuing :: "string \<Rightarrow> ('w session, 'a) io \<Rightarrow> bool" where
  "issuing meth m = runs m (\<lambda>r cs. cs = [] \<or> (\<exists>ps t. cs = [\<lparr> rc_method = meth, rc_params = ps, rc_timeout = t \<rparr>]))"

definition silent :: "('w session, 'a) io \<Rightarrow> bool" where
  "silent m = runs m (\<lambda>r cs. cs = [])"

lemma one_call_issuing: "runs m (one_call meth ps t) \<Longrightarrow> issuing meth m"
  unfolding issuing_def by (erule runs_mono) (auto simp: one_call_def)

lemma issuing_rpc: "issuing meth (rpc c meth req d)" and issuing_rpc_long: "issuing meth (rpc_long c meth req d)"
  by (rule one_call_issuing [OF runs_rpc], rule one_call_issuing [OF runs_rpc_long])

lemma issuing_Send: "issuing meth (SendCommand c meth req)"
  and issuing_SendLong: "issuing meth (SendCommandWithLongTimeout c meth req)"
  by (rule one_call_issuing [OF short.hands_over], rule one_call_issuing [OF long.hands_over])

lemma silent_pure: "silent (io_return x)" "silent (io_fail e)" "silent (io_lift v)"
  by (simp_all add: silent_def traces_return traces_fail traces_lift)

lemma silent_if: "silent a \<Longrightarrow> silent b \<Longrightarrow> silent (if c then a else b)"
  and silent_sum: "(\<And>e. silent (h e)) \<Longrightarrow> (\<And>x. silent (f x)) \<Longrightarrow> silent (case v of Inl e \<Rightarrow> h e | Inr x \<Rightarrow> f x)"
  by (simp_all split: sum.split)

lemma silent_mono: "silent m \<Longrightarrow> P [] \<Longrightarrow> runs m (\<lambda>r cs. P cs)"
  unfolding silent_def by (erule traces_mono) simp

lemma issuing_case:
  assumes "issuing meth m" and "\<And>e. silent (h e)" and "\<And>x. silent (f x)"
  shows "issuing meth (io_case m h f)"
  unfolding issuing_def
  by (rule traces_case [OF assms(1) [unfolded issuing_def]])
    ((rule silent_mono [OF assms(2)] silent_mono [OF assms(3)])?, simp)+

lemma issuing_bind: "issuing meth m \<Longrightarrow> (\<And>x. silent (f x)) \<Longrightarrow> issuing meth (io_bind m f)"
  unfolding io_bind_as_case by (rule issuing_case) (simp_all add: silent_pure)

lemma issuing_progress: "issuing ''bdev_ec_get_rebuild_progress'' (progress_or_error c name)"
proof -
  have "issued (snd (progress_or_error c name s)) =
      issued (snd (SendCommand c ''bdev_ec_get_rebuild_progress'' (BdevEcGetRebuildProgressRequest name) s))" for s
    by (simp add: progress_or_error_def BdevEcGetRebuildProgress_def split: prod.split sum.split option.split)
  then show ?thesis
    using issuing_Send [of "''bdev_ec_get_rebuild_progress''" c "BdevEcGetRebuildProgressRequest name"]
    by (simp add: issuing_def traces_def)
qed

lemmas issuing = issuing_rpc issuing_rpc_long issuing_Send issuing_SendLong issuing_progress issuing_case issuing_bind
  silent_pure silent_if silent_sum

section \<open>Actions\<close>

definition sending :: "string \<Rightarrow> ('w, 'a) iop \<Rightarrow> bool" where
  "sending meth m = logs m (\<lambda>r es. sends meth es)"

definition mute :: "('w, 'a) iop \<Rightarrow> bool" where
  "mute m = logs m (\<lambda>r es. es = [])"

lemma mute_print: "mute (PrintObject v)" "mute (io_return x)" "mute (io_fail e)"
  by (simp_all add: mute_def PrintObject_def logs_return logs_fail)

lemma mute_if: "mute a \<Longrightarrow> mute b \<Longrightarrow> mute (if c then a else b)"
  by simp

lemma sending_fail: "sending meth (io_fail e)"
  by (simp add: sending_def sends_def logs_fail)

lemma sending_if: "sending meth a \<Longrightarrow> sending meth b \<Longrightarrow> sending meth (if c then a else b)"
  by simp

lemma sending_after:
  assumes "mute m" and "\<And>x. sending meth (f x)"
  shows "sending meth (io_bind m f)"
  unfolding sending_def
  by (rule logs_bind [OF assms(1) [unfolded mute_def]]) (use assms(2) in \<open>simp_all add: sending_def sends_def\<close>)

lemma sending_client: "(\<And>spdkCli. sending meth (f spdkCli)) \<Longrightarrow> sending meth (io_bind (NewClient env) f)"
  by (rule sending_after) (simp_all add: mute_def logs_NewClient)

lemma sending_lift: "(\<And>x. sending meth (f x)) \<Longrightarrow> sending meth (io_bind (io_lift r) f)"
  by (rule sending_after) (simp_all add: mute_def logs_lift)

lemma sending_on_spdk: "issuing meth m \<Longrightarrow> sending meth (on_spdk m)"
  unfolding sending_def issuing_def by (drule logs_on_spdk, erule logs_mono) (auto simp: sends_def)

lemma sending_describing: "sending meth m \<Longrightarrow> sending meth (describing msg m)"
  unfolding sending_def describing_def by (rule logs_case) (auto intro: logs_fail logs_return)

lemma sending_then:
  assumes "sending meth m" and "\<And>x. mute (k x)"
  shows "sending meth (io_bind m k)"
  unfolding sending_def
proof (rule logs_bind [OF assms(1) [unfolded sending_def]])
  show "logs (k x) (\<lambda>r es'. sends meth (es @ es'))" if "sends meth es" for x es
    by (rule logs_mono [OF assms(2) [unfolded mute_def]]) (use that in simp)
qed

lemmas sending = sending_client sending_lift sending_if sending_fail
  sending_then [OF sending_on_spdk] sending_then [OF sending_describing [OF sending_on_spdk]] mute_print mute_if

section \<open>Commands\<close>

definition only_sends :: "string \<Rightarrow> 'w Command \<Rightarrow> bool" where
  "only_sends meth c =
     (Subcommands c = [] \<and> (\<exists>msg f. Action c = Some (Fatalf msg f) \<and> (\<forall>env ctx. sending meth (f env ctx))))"

lemma leaf_only_sends: "(\<And>env ctx. sending meth (f env ctx)) \<Longrightarrow> only_sends meth (leaf name fl msg f)"
  by (auto simp: only_sends_def)

lemma bdev_only_sends:
  "only_sends ''bdev_get_bdevs'' BdevGetCmd"
  unfolding Let_def BdevGetCmd_def bdevGet_def BdevGetBdevs_def
  by (rule leaf_only_sends sending issuing)+

lemma aio_only_sends:
  "only_sends ''bdev_aio_create'' BdevAioCreateCmd"
  "only_sends ''bdev_aio_delete'' BdevAioDeleteCmd"
  "only_sends ''bdev_get_bdevs'' BdevAioGetCmd"
  unfolding Let_def BdevAioCreateCmd_def BdevAioDeleteCmd_def BdevAioGetCmd_def bdevAioCreate_def BdevAioCreate_def
    bdevAioDelete_def BdevAioDelete_def bdevAioGet_def BdevAioGet_def
  by (rule leaf_only_sends sending issuing)+

lemma virtio_only_sends:
  "only_sends ''bdev_virtio_attach_controller'' BdevVirtioAttachControllerCmd"
  "only_sends ''bdev_virtio_detach_controller'' BdevVirtioDetachControllerCmd"
  unfolding Let_def BdevVirtioAttachControllerCmd_def BdevVirtioDetachControllerCmd_def bdevVirtioAttachController_def
    BdevVirtioAttachController_def bdevVirtioDetachControllerCmd_def BdevVirtioDetachController_def
  by (rule leaf_only_sends sending issuing)+

lemma lvstore_only_sends:
  "only_sends ''bdev_lvol_create_lvstore'' BdevLvstoreCreateCmd"
  "only_sends ''bdev_lvol_delete_lvstore'' BdevLvstoreDeleteCmd"
  "only_sends ''bdev_lvol_get_lvstores'' BdevLvstoreGetCmd"
  "only_sends ''bdev_lvol_rename_lvstore'' BdevLvstoreRenameCmd"
  "only_sends ''bdev_lvol_grow_lvstore'' BdevLvstoreGrowCmd"
  "only_sends ''bdev_lvol_get_lvols'' BdevLvstoreGetLvolsCmd"
  unfolding Let_def BdevLvstoreCreateCmd_def BdevLvstoreDeleteCmd_def BdevLvstoreGetCmd_def BdevLvstoreRenameCmd_def
    BdevLvstoreGrowCmd_def BdevLvstoreGetLvolsCmd_def bdevLvstoreCreate_def BdevLvolCreateLvstore_def
    BdevLvolCreateLvstoreWithMdRatio_def bdevLvstoreDelete_def BdevLvolDeleteLvstore_def bdevLvstoreGet_def
    BdevLvolGetLvstore_def bdevLvstoreRename_def BdevLvolRenameLvstore_def bdevLvstoreGrow_def BdevLvolGrowLvstore_def
    bdevLvolList_def BdevLvolGetLvols_def
  by (rule leaf_only_sends sending issuing)+

lemma nvme_only_sends:
  "only_sends ''bdev_nvme_attach_controller'' BdevNvmeAttachControllerCmd"
  "only_sends ''bdev_nvme_detach_controller'' BdevNvmeDetachControllerCmd"
  "only_sends ''bdev_nvme_reset_controller'' BdevNvmeResetControllerCmd"
  "only_sends ''bdev_nvme_get_controllers'' BdevNvmeGetControllersCmd"
  "only_sends ''bdev_get_bdevs'' BdevNvmeGetCmd"
  "only_sends ''bdev_nvme_set_options'' BdevNvmeSetOptionsCmd"
  unfolding Let_def BdevNvmeAttachControllerCmd_def BdevNvmeDetachControllerCmd_def BdevNvmeResetControllerCmd_def
    BdevNvmeGetControllersCmd_def BdevNvmeGetCmd_def BdevNvmeSetOptionsCmd_def bdevNvmeAttachController_def
    BdevNvmeAttachController_def bdevNvmeDetachController_def BdevNvmeDetachController_def bdevNvmeResetController_def
    BdevNvmeResetController_def bdevNvmeGetControllers_def BdevNvmeGetControllers_def bdevNvmeGet_def BdevNvmeGet_def
    bdevNvmeSetOptions_def BdevNvmeSetOptions_def
  by (rule leaf_only_sends sending issuing)+

lemma raid_only_sends:
  "only_sends ''bdev_raid_create'' BdevRaidCreateCmd"
  "only_sends ''bdev_raid_delete'' BdevRaidDeleteCmd"
  "only_sends ''bdev_get_bdevs'' BdevRaidGetCmd"
  "only_sends ''bdev_raid_remove_base_bdev'' BdevRaidRemoveBaseBdevCmd"
  "only_sends ''bdev_raid_grow_base_bdev'' BdevRaidGrowBaseBdevCmd"
  unfolding Let_def BdevRaidCreateCmd_def BdevRaidDeleteCmd_def BdevRaidGetCmd_def BdevRaidRemoveBaseBdevCmd_def
    BdevRaidGrowBaseBdevCmd_def bdevRaidCreate_def BdevRaidCreate_def bdevRaidDelete_def BdevRaidDelete_def
    bdevRaidGet_def BdevRaidGet_def bdevRaidRemoveBaseBdev_def BdevRaidRemoveBaseBdev_def bdevRaidGrowBaseBdev_def
    BdevRaidGrowBaseBdev_def
  by (rule leaf_only_sends sending issuing)+

lemma lvol_only_sends:
  "only_sends ''bdev_lvol_create'' BdevLvolCreateCmd"
  "only_sends ''bdev_lvol_delete'' BdevLvolDeleteCmd"
  "only_sends ''bdev_lvol_snapshot'' BdevLvolSnapshotCmd"
  "only_sends ''bdev_lvol_clone'' BdevLvolCloneCmd"
  "only_sends ''bdev_lvol_clone_bdev'' BdevLvolCloneBdevCmd"
  "only_sends ''bdev_lvol_set_parent'' BdevLvolSetParentCmd"
  "only_sends ''bdev_lvol_decouple_parent'' BdevLvolDecoupleParentCmd"
  "only_sends ''bdev_lvol_detach_parent'' BdevLvolDetachParentCmd"
  "only_sends ''bdev_lvol_resize'' BdevLvolResizeCmd"
  "only_sends ''bdev_lvol_start_shallow_copy'' BdevLvolStartShallowCopyCmd"
  "only_sends ''bdev_lvol_start_range_shallow_copy'' BdevLvolStartRangeShallowCopyCmd"
  "only_sends ''bdev_lvol_check_shallow_copy'' BdevLvolCheckShallowCopyCmd"
  "only_sends ''bdev_lvol_start_deep_copy'' BdevLvolStartDeepCopyCmd"
  "only_sends ''bdev_lvol_check_deep_copy'' BdevLvolCheckDeepCopyCmd"
  "only_sends ''bdev_lvol_set_xattr'' BdevLvolSetXattrCmd"
  "only_sends ''bdev_lvol_get_xattr'' BdevLvolGetXattrCmd"
  "only_sends ''bdev_lvol_get_fragmap'' BdevLvolGetFragmapCmd"
  "only_sends ''bdev_lvol_rename'' BdevLvolRenameCmd"
  "only_sends ''bdev_lvol_register_snapshot_checksum'' BdevLvolRegisterSnapshotChecksumCmd"
  "only_sends ''bdev_lvol_register_snapshot_range_checksums'' BdevLvolRegisterRangeChecksumsCmd"
  "only_sends ''bdev_lvol_get_snapshot_checksum'' BdevLvolGetSnapshotChecksumCmd"
  "only_sends ''bdev_lvol_get_snapshot_range_checksums'' BdevLvolGetRangeChecksumsCmd"
  "only_sends ''bdev_lvol_stop_snapshot_checksum'' BdevLvolStopSnapshotChecksumCmd"
  unfolding Let_def BdevLvolCreateCmd_def BdevLvolDeleteCmd_def BdevLvolSnapshotCmd_def BdevLvolCloneCmd_def
    BdevLvolCloneBdevCmd_def BdevLvolSetParentCmd_def BdevLvolDecoupleParentCmd_def BdevLvolDetachParentCmd_def
    BdevLvolResizeCmd_def BdevLvolStartShallowCopyCmd_def BdevLvolStartRangeShallowCopyCmd_def
    BdevLvolCheckShallowCopyCmd_def BdevLvolStartDeepCopyCmd_def BdevLvolCheckDeepCopyCmd_def BdevLvolSetXattrCmd_def
    BdevLvolGetXattrCmd_def BdevLvolGetFragmapCmd_def BdevLvolRenameCmd_def BdevLvolRegisterSnapshotChecksumCmd_def
    BdevLvolRegisterRangeChecksumsCmd_def BdevLvolGetSnapshotChecksumCmd_def BdevLvolGetRangeChecksumsCmd_def
    BdevLvolStopSnapshotChecksumCmd_def bdevLvolCreate_def BdevLvolCreate_def bdevLvolDelete_def BdevLvolDelete_def
    bdevLvolSnapshot_def BdevLvolSnapshot_def bdevLvolClone_def BdevLvolClone_def bdevLvolCloneBdev_def
    BdevLvolCloneBdev_def bdevLvolSetParent_def BdevLvolSetParent_def bdevLvolDecoupleParent_def
    BdevLvolDecoupleParent_def bdevLvolDetachParent_def BdevLvolDetachParent_def bdevLvolResize_def BdevLvolResize_def
    bdevLvolStartShallowCopy_def BdevLvolStartShallowCopy_def bdevLvolStartRangeShallowCopy_def
    BdevLvolStartRangeShallowCopy_def bdevLvolCheckShallowCopy_def BdevLvolCheckShallowCopy_def
    bdevLvolStartDeepCopy_def BdevLvolStartDeepCopy_def bdevLvolCheckDeepCopy_def BdevLvolCheckDeepCopy_def
    bdevLvolSetXattr_def BdevLvolSetXattr_def bdevLvolGetXattr_def BdevLvolGetXattr_def bdevLvolGetFragmap_def
    BdevLvolGetFragmap_def bdevLvolRename_def BdevLvolRename_def bdevLvolRegisterSnapshotChecksum_def
    BdevLvolRegisterSnapshotChecksum_def bdevLvolRegisterRangeChecksums_def BdevLvolRegisterRangeChecksums_def
    bdevLvolGetSnapshotChecksum_def BdevLvolGetSnapshotChecksum_def bdevLvolGetRangeChecksums_def
    BdevLvolGetRangeChecksums_def bdevLvolStopSnapshotChecksum_def BdevLvolStopSnapshotChecksum_def
  by (rule leaf_only_sends sending issuing)+

lemma ec_only_sends:
  "only_sends ''bdev_ec_create'' BdevEcCreateCmd"
  "only_sends ''bdev_ec_delete'' BdevEcDeleteCmd"
  "only_sends ''bdev_ec_get_bdevs'' BdevEcGetCmd"
  "only_sends ''bdev_ec_replace_base_bdev'' BdevEcReplaceCmd"
  "only_sends ''bdev_ec_start_rebuild'' BdevEcRebuildStartCmd"
  "only_sends ''bdev_ec_stop_rebuild'' BdevEcRebuildStopCmd"
  "only_sends ''bdev_ec_get_rebuild_progress'' BdevEcRebuildProgressCmd"
  "only_sends ''bdev_ec_set_rebuild_qos'' BdevEcRebuildQosSetCmd"
  "only_sends ''bdev_ec_resize'' BdevEcResizeCmd"
  "only_sends ''bdev_ec_get_wib_status'' BdevEcWibStatusCmd"
  "only_sends ''bdev_ec_get_unmap_status'' BdevEcUnmapStatusCmd"
  "only_sends ''bdev_ec_get_scrub_progress'' BdevEcScrubProgressCmd"
  unfolding Let_def BdevEcCreateCmd_def BdevEcDeleteCmd_def BdevEcGetCmd_def BdevEcReplaceCmd_def
    BdevEcRebuildStartCmd_def BdevEcRebuildStopCmd_def BdevEcRebuildProgressCmd_def BdevEcRebuildQosSetCmd_def
    BdevEcResizeCmd_def BdevEcWibStatusCmd_def BdevEcUnmapStatusCmd_def BdevEcScrubProgressCmd_def bdevEcCreate_def
    BdevEcCreate_def bdevEcDelete_def BdevEcDelete_def bdevEcGet_def BdevEcGetBdevs_def bdevEcReplace_def
    BdevEcReplaceBaseBdev_def bdevEcRebuildStart_def BdevEcStartRebuild_def bdevEcRebuildStop_def
    BdevEcStopRebuild_def bdevEcRebuildProgress_def bdevEcRebuildQosSet_def BdevEcSetRebuildQos_def bdevEcResize_def
    BdevEcResize_def bdevEcWibStatus_def BdevEcGetWibStatus_def bdevEcUnmapStatus_def BdevEcGetUnmapStatus_def
    bdevEcScrubProgress_def BdevEcGetScrubProgress_def
  by (rule leaf_only_sends sending issuing)+

lemma nvmf_only_sends:
  "only_sends ''nvmf_create_transport'' NvmfCreateTransportCmd"
  "only_sends ''nvmf_get_transports'' NvmfGetTransportsCmd"
  "only_sends ''nvmf_create_subsystem'' NvmfCreateSubsystemCmd"
  "only_sends ''nvmf_delete_subsystem'' NvmfDeleteSubsystemCmd"
  "only_sends ''nvmf_get_subsystems'' NvmfGetSubsystemsCmd"
  "only_sends ''nvmf_subsystem_add_ns'' NvmfSubsystemAddNsCmd"
  "only_sends ''nvmf_subsystem_remove_ns'' NvmfSubsystemRemoveNsCmd"
  "only_sends ''nvmf_get_subsystems'' NvmfSubsystemGetNssCmd"
  "only_sends ''nvmf_subsystem_add_listener'' NvmfSubsystemAddListenerCmd"
  "only_sends ''nvmf_subsystem_remove_listener'' NvmfSubsystemRemoveListenerCmd"
  "only_sends ''nvmf_subsystem_get_listeners'' NvmfSubsystemGetListenersCmd"
  unfolding Let_def NvmfCreateTransportCmd_def NvmfGetTransportsCmd_def NvmfCreateSubsystemCmd_def
    NvmfDeleteSubsystemCmd_def NvmfGetSubsystemsCmd_def NvmfSubsystemAddNsCmd_def NvmfSubsystemRemoveNsCmd_def
    NvmfSubsystemGetNssCmd_def NvmfSubsystemAddListenerCmd_def NvmfSubsystemRemoveListenerCmd_def
    NvmfSubsystemGetListenersCmd_def nvmfCreateTransport_def NvmfCreateTransport_def nvmfGetTransports_def
    NvmfGetTransports_def nvmfCreateSubsystem_def NvmfCreateSubsystem_def nvmfDeleteSubsystem_def
    NvmfDeleteSubsystem_def nvmfGetSubsystems_def NvmfGetSubsystems_def nvmfSubsystemAddNs_def NvmfSubsystemAddNs_def
    NvmfSubsystemAddNsWithUUID_def nvmfSubsystemRemoveNs_def NvmfSubsystemRemoveNs_def nvmfSubsystemGetNss_def
    NvmfSubsystemsGetNss_def nvmfSubsystemAddListener_def NvmfSubsystemAddListener_def nvmfSubsystemRemoveListener_def
    NvmfSubsystemRemoveListener_def nvmfSubsystemGetListeners_def NvmfSubsystemGetListeners_def
  by (rule leaf_only_sends sending issuing)+

lemma log_only_sends:
  "only_sends ''log_set_flag'' LogSetFlagCmd"
  "only_sends ''log_clear_flag'' LogClearFlagCmd"
  "only_sends ''log_get_flags'' LogGetFlagsCmd"
  "only_sends ''log_set_level'' LogSetLevelCmd"
  "only_sends ''log_get_level'' LogGetLevelCmd"
  "only_sends ''log_set_print_level'' LogSetPrintLevelCmd"
  "only_sends ''log_get_print_level'' LogGetPrintLevelCmd"
  unfolding Let_def LogSetFlagCmd_def LogClearFlagCmd_def LogGetFlagsCmd_def LogSetLevelCmd_def LogGetLevelCmd_def
    LogSetPrintLevelCmd_def LogGetPrintLevelCmd_def logSetFlag_def LogSetFlag_def logClearFlag_def LogClearFlag_def
    logGetFlags_def LogGetFlags_def logSetLevel_def LogSetLevel_def logGetLevel_def LogGetLevel_def
    logSetPrintLevel_def LogSetPrintLevel_def logGetPrintLevel_def LogGetPrintLevel_def
  by (rule leaf_only_sends sending issuing)+

lemma ublk_only_sends:
  "only_sends ''ublk_create_target'' UblkCreateTargetCmd"
  "only_sends ''ublk_destroy_target'' UblkDestroyTargetCmd"
  "only_sends ''ublk_get_disks'' UblkGetDisksCmd"
  "only_sends ''ublk_start_disk'' UblkStartDiskCmd"
  "only_sends ''ublk_recover_disk'' UblkRecoverDiskCmd"
  "only_sends ''ublk_stop_disk'' UblkStopDiskCmd"
  unfolding Let_def UblkCreateTargetCmd_def UblkDestroyTargetCmd_def UblkGetDisksCmd_def UblkStartDiskCmd_def
    UblkRecoverDiskCmd_def UblkStopDiskCmd_def ublkCreateTarget_def UblkCreateTarget_def ublkDestroyTarget_def
    UblkDestroyTarget_def ublkGetDisks_def UblkGetDisks_def ublkStartDisk_def UblkStartDisk_def ublkRecoverDisk_def
    UblkRecoverDisk_def ublkStopDisk_def UblkStopDisk_def
  by (rule leaf_only_sends sending issuing)+

text \<open>The methods of the commands, group by group. The commands with more than one request are \<open>bdev-lvol get\<close> and those
  of \<open>device\<close> and \<open>expose\<close>.\<close>

definition requests :: "('w Command \<times> (string \<times> 'w Command) list) list" where
  "requests =
     [(BdevCmd,
        [(''bdev_get_bdevs'', BdevGetCmd)]),
      (BdevAioCmd,
        [(''bdev_aio_create'', BdevAioCreateCmd),
         (''bdev_aio_delete'', BdevAioDeleteCmd),
         (''bdev_get_bdevs'', BdevAioGetCmd)]),
      (BdevVirtioCmd,
        [(''bdev_virtio_attach_controller'', BdevVirtioAttachControllerCmd),
         (''bdev_virtio_detach_controller'', BdevVirtioDetachControllerCmd)]),
      (BdevLvstoreCmd,
        [(''bdev_lvol_create_lvstore'', BdevLvstoreCreateCmd),
         (''bdev_lvol_delete_lvstore'', BdevLvstoreDeleteCmd),
         (''bdev_lvol_get_lvstores'', BdevLvstoreGetCmd),
         (''bdev_lvol_rename_lvstore'', BdevLvstoreRenameCmd),
         (''bdev_lvol_grow_lvstore'', BdevLvstoreGrowCmd),
         (''bdev_lvol_get_lvols'', BdevLvstoreGetLvolsCmd)]),
      (BdevNvmeCmd,
        [(''bdev_nvme_attach_controller'', BdevNvmeAttachControllerCmd),
         (''bdev_nvme_detach_controller'', BdevNvmeDetachControllerCmd),
         (''bdev_nvme_reset_controller'', BdevNvmeResetControllerCmd),
         (''bdev_nvme_get_controllers'', BdevNvmeGetControllersCmd),
         (''bdev_get_bdevs'', BdevNvmeGetCmd),
         (''bdev_nvme_set_options'', BdevNvmeSetOptionsCmd)]),
      (BdevRaidCmd,
        [(''bdev_raid_create'', BdevRaidCreateCmd),
         (''bdev_raid_delete'', BdevRaidDeleteCmd),
         (''bdev_get_bdevs'', BdevRaidGetCmd),
         (''bdev_raid_remove_base_bdev'', BdevRaidRemoveBaseBdevCmd),
         (''bdev_raid_grow_base_bdev'', BdevRaidGrowBaseBdevCmd)]),
      (BdevLvolCmd,
        [(''bdev_lvol_create'', BdevLvolCreateCmd),
         (''bdev_lvol_delete'', BdevLvolDeleteCmd),
         (''bdev_lvol_snapshot'', BdevLvolSnapshotCmd),
         (''bdev_lvol_clone'', BdevLvolCloneCmd),
         (''bdev_lvol_clone_bdev'', BdevLvolCloneBdevCmd),
         (''bdev_lvol_set_parent'', BdevLvolSetParentCmd),
         (''bdev_lvol_decouple_parent'', BdevLvolDecoupleParentCmd),
         (''bdev_lvol_detach_parent'', BdevLvolDetachParentCmd),
         (''bdev_lvol_resize'', BdevLvolResizeCmd),
         (''bdev_lvol_start_shallow_copy'', BdevLvolStartShallowCopyCmd),
         (''bdev_lvol_start_range_shallow_copy'', BdevLvolStartRangeShallowCopyCmd),
         (''bdev_lvol_check_shallow_copy'', BdevLvolCheckShallowCopyCmd),
         (''bdev_lvol_start_deep_copy'', BdevLvolStartDeepCopyCmd),
         (''bdev_lvol_check_deep_copy'', BdevLvolCheckDeepCopyCmd),
         (''bdev_lvol_set_xattr'', BdevLvolSetXattrCmd),
         (''bdev_lvol_get_xattr'', BdevLvolGetXattrCmd),
         (''bdev_lvol_get_fragmap'', BdevLvolGetFragmapCmd),
         (''bdev_lvol_rename'', BdevLvolRenameCmd),
         (''bdev_lvol_register_snapshot_checksum'', BdevLvolRegisterSnapshotChecksumCmd),
         (''bdev_lvol_register_snapshot_range_checksums'', BdevLvolRegisterRangeChecksumsCmd),
         (''bdev_lvol_get_snapshot_checksum'', BdevLvolGetSnapshotChecksumCmd),
         (''bdev_lvol_get_snapshot_range_checksums'', BdevLvolGetRangeChecksumsCmd),
         (''bdev_lvol_stop_snapshot_checksum'', BdevLvolStopSnapshotChecksumCmd)]),
      (BdevEcCmd,
        [(''bdev_ec_create'', BdevEcCreateCmd),
         (''bdev_ec_delete'', BdevEcDeleteCmd),
         (''bdev_ec_get_bdevs'', BdevEcGetCmd),
         (''bdev_ec_replace_base_bdev'', BdevEcReplaceCmd),
         (''bdev_ec_start_rebuild'', BdevEcRebuildStartCmd),
         (''bdev_ec_stop_rebuild'', BdevEcRebuildStopCmd),
         (''bdev_ec_get_rebuild_progress'', BdevEcRebuildProgressCmd),
         (''bdev_ec_set_rebuild_qos'', BdevEcRebuildQosSetCmd),
         (''bdev_ec_resize'', BdevEcResizeCmd),
         (''bdev_ec_get_wib_status'', BdevEcWibStatusCmd),
         (''bdev_ec_get_unmap_status'', BdevEcUnmapStatusCmd),
         (''bdev_ec_get_scrub_progress'', BdevEcScrubProgressCmd)]),
      (NvmfCmd,
        [(''nvmf_create_transport'', NvmfCreateTransportCmd),
         (''nvmf_get_transports'', NvmfGetTransportsCmd),
         (''nvmf_create_subsystem'', NvmfCreateSubsystemCmd),
         (''nvmf_delete_subsystem'', NvmfDeleteSubsystemCmd),
         (''nvmf_get_subsystems'', NvmfGetSubsystemsCmd),
         (''nvmf_subsystem_add_ns'', NvmfSubsystemAddNsCmd),
         (''nvmf_subsystem_remove_ns'', NvmfSubsystemRemoveNsCmd),
         (''nvmf_get_subsystems'', NvmfSubsystemGetNssCmd),
         (''nvmf_subsystem_add_listener'', NvmfSubsystemAddListenerCmd),
         (''nvmf_subsystem_remove_listener'', NvmfSubsystemRemoveListenerCmd),
         (''nvmf_subsystem_get_listeners'', NvmfSubsystemGetListenersCmd)]),
      (LogCmd,
        [(''log_set_flag'', LogSetFlagCmd),
         (''log_clear_flag'', LogClearFlagCmd),
         (''log_get_flags'', LogGetFlagsCmd),
         (''log_set_level'', LogSetLevelCmd),
         (''log_get_level'', LogGetLevelCmd),
         (''log_set_print_level'', LogSetPrintLevelCmd),
         (''log_get_print_level'', LogGetPrintLevelCmd)]),
      (UblkCmd,
        [(''ublk_create_target'', UblkCreateTargetCmd),
         (''ublk_destroy_target'', UblkDestroyTargetCmd),
         (''ublk_get_disks'', UblkGetDisksCmd),
         (''ublk_start_disk'', UblkStartDiskCmd),
         (''ublk_recover_disk'', UblkRecoverDiskCmd),
         (''ublk_stop_disk'', UblkStopDiskCmd)])]"

lemma requests_sound:
  "list_all (\<lambda>(g, rs). g \<in> set (app_commands env) \<and> list_all (\<lambda>(meth, c). c \<in> set (Subcommands g) \<and> only_sends meth c) rs)
     requests"
  unfolding requests_def
  by (simp add: app_commands_def bdev_only_sends aio_only_sends virtio_only_sends lvstore_only_sends nvme_only_sends raid_only_sends lvol_only_sends ec_only_sends nvmf_only_sends log_only_sends ublk_only_sends
      BdevCmd_def BdevAioCmd_def BdevVirtioCmd_def BdevLvstoreCmd_def BdevNvmeCmd_def BdevRaidCmd_def BdevLvolCmd_def BdevEcCmd_def NvmfCmd_def LogCmd_def UblkCmd_def)

text \<open>
  Property C15. Commands do what they are named for: whatever the arguments of one of the 82 commands of the table are, and
  whatever SPDK answers, a run of the tool issues at most one request, and it is the command's own method; so a listing
  command never changes anything and a deletion is only issued by the command that deletes. No command is run on the
  host and no system call is made.
\<close>

theorem commands_send_one_request:
  fixes env :: "'w cli_env"
  assumes "(g :: 'w Command, rs) \<in> set requests" and "(meth, c) \<in> set rs" and "n \<in> set (command_names g)" and "k \<in> set (command_names c)"
  shows "logs (main env ([n, k] @ args)) (\<lambda>r es. sends meth es)"
proof -
  have g: "g \<in> set (app_commands env)" and c: "c \<in> set (Subcommands g)" and s: "only_sends meth c"
    using requests_sound [of env] assms(1,2) by (auto simp: list_all_iff)
  from s obtain msg f where leaf: "Subcommands c = []" "Action c = Some (Fatalf msg f)"
    and f: "\<And>env ctx. sending meth (f env ctx)"
    by (auto simp: only_sends_def)
  show ?thesis
    by (rule logs_main [OF path_command [OF g assms(3) c assms(4)] leaf]) (use f in \<open>simp_all add: sends_def sending_def\<close>)
qed

theorem commands_send_one_request_witness:
  "\<forall>env :: Response list cli_env. logs (main env ([''bdev-lvol'', ''delete''] @ [''--alias=lvs/v'']))
     (\<lambda>r es. sends ''bdev_lvol_delete'' es)"
proof
  fix env :: "Response list cli_env"
  show "logs (main env ([''bdev-lvol'', ''delete''] @ [''--alias=lvs/v''])) (\<lambda>r es. sends ''bdev_lvol_delete'' es)"
  proof (rule commands_send_one_request)
    have "requests ! 6 \<in> set requests" by (rule nth_mem) (simp add: requests_def)
    then show "(BdevLvolCmd, snd (requests ! 6)) \<in> set requests" by (simp add: requests_def)
    show "(''bdev_lvol_delete'', BdevLvolDeleteCmd) \<in> set (snd (requests ! 6))" by (simp add: requests_def)
  qed (simp_all add: command_names_def BdevLvolCmd_def BdevLvolDeleteCmd_def)
qed

end
