(* ===== verification/Spec2Isabelle.thy ===== *)
theory Spec2Isabelle
  imports EcCreation UblkIds JsonRpcDispatcher SpdkBdevFacts SpdkNvmfFacts SpdkExpose InitiatorUblk InitiatorStop InitiatorWaits ProcessFinder SpdkSetup
    CliExamples CliInitiator CliRequests
begin

text \<open>
  A verification of go-spdk-helper, the Go library (and its command-line tool) through which Longhorn drives
  SPDK: it speaks JSON-RPC to \<open>spdk_tgt\<close>, and it turns what SPDK exports into block devices of the host with
  nvme-cli, dmsetup, ublk and device nodes. The theories translate the code as it is, operation by operation;
  names are those of the source, and each definition stands for the lines the manifest gives.

  \<^bold>\<open>The program and its parts.\<close> An \<^emph>\<open>initiator\<close> (\<open>pkg/initiator\<close>) is one volume on the host. Starting one
  takes the lock of the volume, connects an NVMe/TCP path with nvme-cli (or starts a ublk disk over JSON-RPC), puts a
  linear device-mapper device on it and makes a device node for it; stopping undoes this. It calls the wrappers of the
  command-line tools (\<open>pkg/initiator/nvmecli.go\<close>, \<open>pkg/util\<close>), which run commands through an executor, and the
  \<^emph>\<open>SPDK client\<close> (\<open>pkg/spdk/client\<close>), one method per SPDK request, whose requests and replies are the structs of
  \<open>pkg/spdk/types\<close>. The client calls the \<^emph>\<open>JSON-RPC client\<close> (\<open>pkg/jsonrpc\<close>): callers, a dispatcher and a reader,
  which share channels. Beside these stand the \<^emph>\<open>sizing of erasure-coded volumes\<close> (\<open>ec_geometry.go\<close>) and the setup
  of devices and of \<open>spdk_tgt\<close>.

  \<^bold>\<open>Foundations.\<close>
  \<^item> \<open>Prelude\<close>: machine integers as words, panics of pure code as \<open>None\<close>, collections of facts (\<open>u64_nat\<close>,
    \<open>const_defs\<close>, \<open>io_simps\<close>), ceiling division, walks modulo n.
  \<^item> \<open>GoStrings\<close>: the functions of \<open>strings\<close>, \<open>strconv\<close> and \<open>path/filepath\<close> that the code calls, on ASCII strings.
  \<^item> \<open>GoErrors\<close>: errors as values with their texts; run-time panics and \<open>logrus.Fatal\<close> are values of the same type that
    no handler sees.
  \<^item> \<open>Effects\<close>: operations with effects (a state passed along, an error or a value), their laws, and \<open>traces\<close>,
    the rules for what an operation adds to a log whatever the environment answers.
  \<^item> \<open>Exec\<close>: commands run through the executor; \<open>Node\<close>: commands, system calls and SPDK calls in one log, retrying
    (\<open>retry.Do\<close>), and triples for what an operation does to its object.
  \<^item> \<open>Json\<close> and \<open>JsonParse\<close>: JSON values, decoding into structs, the passage of numbers through \<open>interface{}\<close>
    as 64-bit floats, and parsing of texts.

  \<^bold>\<open>Erasure coding\<close> (\<open>pkg/spdk/types/ec_geometry.go\<close>). \<open>EcGeometry\<close> has the functions on 64-bit words; \<open>EcSizing\<close>
  refines them to natural numbers under no-overflow conditions; \<open>EcShard\<close> shows that a shard backs its volume and that
  the usable size is SPDK's; \<open>EcCreation\<close> that the largest admitted size is exactly the boundary of the admission test.

  \<^bold>\<open>JSON-RPC\<close> (\<open>pkg/jsonrpc\<close>). \<open>JsonRpcTypes\<close>: messages and the classification of errors. \<open>JsonRpcClient\<close>: one call,
  its semaphore and its two waits, as a function of an environment that answers each \<open>select\<close>. \<open>JsonRpcDispatcher\<close>: all
  goroutines as a step relation over any interleaving, with invariants by rule induction.

  \<^bold>\<open>SPDK client\<close> (\<open>pkg/spdk\<close>). \<open>SpdkNvmeTypes\<close>, \<open>SpdkEcTypes\<close>, \<open>SpdkBdevTypes\<close>: reply structs with their decoders;
  \<open>SpdkRequests\<close>: request structs with their encoders; \<open>SpdkClient\<close>: what a method has in common;
  \<open>SpdkBdev\<close>, \<open>SpdkNvmf\<close>, \<open>SpdkEc\<close>, \<open>SpdkUblk\<close>: the methods; \<open>SpdkExpose\<close>: the composite operations of
  \<open>advanced.go\<close> and the requests they issue, in order; \<open>SpdkBdevFacts\<close> and \<open>SpdkNvmfFacts\<close>: their properties;
  \<open>SpdkSetup\<close>: \<open>pkg/spdk/setup\<close> and \<open>pkg/spdk/target\<close>; \<open>NvmeAddr\<close>: addresses and device names.

  \<^bold>\<open>Host tools.\<close> \<open>BlockDevices\<close> and \<open>DeviceNodes\<close> (\<open>pkg/util/device.go\<close>), \<open>DmSetup\<close> (\<open>dmsetup.go\<close>), \<open>ProcessFinder\<close>
  (\<open>process.go\<close>), \<open>NvmeCli\<close> (\<open>nvmecli.go\<close>), \<open>NvmeTarget\<close> (\<open>nvme.go\<close>): the commands that are run, the parsers of their
  output, and what they establish (devices found belong to the target, dependencies do not depend on Go's map order,
  the search for an ancestor process ends).

  \<^bold>\<open>The initiator\<close> (\<open>pkg/initiator/initiator.go\<close>, \<open>ublk_id_generator.go\<close>). \<open>UblkIds\<close>: the id generator.
  \<open>Initiator\<close>, \<open>InitiatorDm\<close>, \<open>InitiatorStart\<close>: state, lock, paths; device-mapper device and endpoint; starting,
  stopping, waiting. The object of an operation is the initiator with the two process-wide variables of its package.
  \<open>InitiatorEndpoint\<close>: the endpoint operations refine an abstract endpoint over a table of device nodes, under the
  contract \<open>kernel_fs\<close> of the system calls. \<open>InitiatorFacts\<close>, \<open>InitiatorStartFacts\<close>: the configured target is kept, and
  what a successful start leaves. \<open>InitiatorRuns\<close>: concrete hosts for the witnesses. \<open>InitiatorWaits\<close>: when waits and
  retries succeed. \<open>InitiatorPaths\<close>: a connection is bounded, a failed one undone. \<open>InitiatorEvents\<close> (the interfaces
  \<open>quiet_events\<close> and \<open>all_calls\<close>): which events an operation adds; \<open>ExitFree\<close> and \<open>InitiatorExits\<close> (the interface \<open>departure\<close>):
  where it can end the process, which is only where the directory of an endpoint cannot be made. \<open>InitiatorLocks\<close> draws on
  both: the fourteen operations that take the lock hold it while they work and release it on every other way out, and the five others
  that work on the host leave locks alone. \<open>InitiatorStop\<close>: what a successful stop does, with the answers that lead to
  it, and leaves; \<open>InitiatorUblk\<close>: the target comes before disks, and a successful start has started one disk under a fresh id.

  \<^bold>\<open>The command-line tool\<close> (\<open>main.go\<close>, \<open>app/cmd\<close>). \<open>CliFlags\<close>: flags, flag sets and parsing, the parts of
  \<open>urfave/cli\<close> and of Go's \<open>flag\<close> and \<open>strconv\<close> that the tool uses. \<open>Cli\<close>: commands as data, their environment (dialing
  SPDK, entering the namespaces of the host), what is printed, and how \<open>urfave/cli\<close> runs a command. \<open>CmdBdev\<close>,
  \<open>CmdLvol\<close>, \<open>CmdEc\<close>, \<open>CmdNvmf\<close>, \<open>CmdDmsetup\<close>, \<open>CmdNvmecli\<close>, \<open>CmdSpdksetup\<close>, \<open>CmdSpdktgt\<close>, \<open>CmdAdvanced\<close>: every command with
  its flags and its action, in the order of the source; \<open>CliApp\<close>: the tool. \<open>CliFacts\<close> shows that parsing keeps flag
  sets typed and what a required flag needs; \<open>CliLines\<close> that well-formed lines are read back; \<open>CliTool\<close> that the tool's
  commands can be declared and reached; \<open>CliRuns\<close> puts this together for whole runs, from the arguments of the process
  to the requests; \<open>CliRequests\<close>: which requests the commands send; \<open>CliInitiator\<close>: starting and stopping an initiator,
  down to its lock; \<open>CliExamples\<close>: concrete runs.

  \<^bold>\<open>Interfaces.\<close> Locales state what one part relies on of another: \<open>threshold\<close> (a test that holds exactly up to a
  limit, searched by bisection) in \<open>EcCreation\<close>, \<open>id_source\<close> (what starting disks needs of the id generator) in
  \<open>UblkIds\<close>, \<open>quiet_events\<close> and its extension \<open>all_calls\<close> (a property of the events an operation adds) in
  \<open>InitiatorEvents\<close>, \<open>departure\<close> (a property of the last events before the process exits) in \<open>InitiatorExits\<close>, \<open>client_invariant\<close> (a predicate every step of the dispatcher keeps) in \<open>JsonRpcDispatcher\<close>, \<open>channel\<close>
  (a way to send a request that hands over what the server answered) in \<open>JsonRpcClient\<close>, \<open>stays\<close> (a property of flag
  values that parsing keeps) in \<open>CliFacts\<close>. Each is interpreted on the model's own definitions, and the properties use
  the facts of the interpretation.

  \<^bold>\<open>Bounds and fuel.\<close> The JSON parser gets fuel \<open>2 * length + 2\<close>, more than its calls on any text. IPv6 groups are read
  with fuel 8, their number. The loops of the erasure-coding code are functions with termination proofs; the search for
  ancestor processes and the polls of the initiator recurse on the bound the code passes. \<open>retry.Do\<close> is modelled for at
  least one attempt (with none, the library goes on until it succeeds); where the caller passes the number, the
  properties say that it is positive.

  \<^bold>\<open>Assumptions.\<close> The executor, the JSON-RPC server, the kernel, \<open>/proc\<close>, and the order in which Go visits a map are
  parameters. Reply objects name each key once, and numbers in replies are integers. An operation that returns an error
  returns no other value that a caller reads, except where the code uses both (\<open>Start\<close> and \<open>Stop\<close> with
  \<open>dmDeviceIsBusy\<close>, the rebuild progress). Waiting has no error. Where a property
  says what happens on every way out, the environment is \<open>ordinary_env\<close>: no command and no system call answers with the
  exit of the process itself. Log output is left out, error texts print a
  structure by its name, and the quoted arguments in them are not escaped. The timeout of \<open>spdk-tgt\<close> is counted in
  seconds: its product with a second is assumed not to overflow. What the tool prints can be marshalled.

  \<^bold>\<open>Not modelled.\<close> Vendored packages, except the functions named above. How a socket is dialed, how an executor enters
  namespaces, and how a printed object is rendered as JSON: calls into libraries, which are parameters or left out.
  Usage and help texts, shell completion and the log level of the tool.
\<close>

end
